(* ===== verification/EG_Prelude.thy ===== *)
theory EG_Prelude
  imports Complex_Main "HOL-Library.Word"
begin

text \<open>
  The shared vocabulary of the development: bytes and their little-endian readings (JavaScript
  \<open>DataView\<close>), buffers written at an offset (\<open>Uint8Array.set\<close>), the JavaScript value universe that
  runtime type tests look at, results that are either an exception or a value, and the generic
  lemmas the component theories rewrite with. The collection \<open>le_simps\<close> holds the codec facts, the
  collection \<open>err_simps\<close> the facts about results.
\<close>

named_theorems le_simps \<open>little-endian codec facts\<close>
named_theorems err_simps \<open>facts about results that are an exception or a value\<close>

section \<open>Bytes and indices\<close>

type_synonym byte = "8 word"
type_synonym bytes = "byte list"
type_synonym address = string

text \<open>An array read \<open>xs[i]\<close>: out of range it is \<open>undefined\<close>, here \<open>None\<close>.\<close>

definition js_index :: "'a list \<Rightarrow> nat \<Rightarrow> 'a option" where
  "js_index xs i = (if i < length xs then Some (xs ! i) else None)"

text \<open>\<open>xs.subarray(a, a + n)\<close> and \<open>xs.slice(a, a + n)\<close>: both clamp to the array's end.\<close>

definition bytes_at :: "nat \<Rightarrow> nat \<Rightarrow> 'a list \<Rightarrow> 'a list" where
  "bytes_at a n xs = take n (drop a xs)"

lemma js_index_Some [simp]: "i < length xs \<Longrightarrow> js_index xs i = Some (xs ! i)"
  by (simp add: js_index_def)

lemma js_index_None [simp]: "length xs \<le> i \<Longrightarrow> js_index xs i = None"
  by (simp add: js_index_def)

lemma js_index_eq_Some: "js_index xs i = Some x \<longleftrightarrow> i < length xs \<and> xs ! i = x"
  by (auto simp: js_index_def)

lemma js_index_0_Cons [simp]: "js_index (x # xs) 0 = Some x"
  by (simp add: js_index_def)

lemma length_bytes_at [simp]: "length (bytes_at a n xs) = min n (length xs - a)"
  by (simp add: bytes_at_def)

lemma drop_bytes_at: "drop a xs = bytes_at a n xs @ drop (a + n) xs"
  by (metis append_take_drop_id bytes_at_def drop_drop add.commute)

lemma bytes_at_bytes_at: "a + n \<le> m \<Longrightarrow> bytes_at a n (bytes_at b m xs) = bytes_at (b + a) n xs"
  by (simp add: bytes_at_def drop_take take_take add.commute)

lemma bytes_at_append_skip:
  "length xs \<le> a \<Longrightarrow> bytes_at a n (xs @ ys) = bytes_at (a - length xs) n ys"
  by (simp add: bytes_at_def)

lemma bytes_at_append_here: "length xs = n \<Longrightarrow> bytes_at 0 n (xs @ ys) = xs"
  by (simp add: bytes_at_def)

section \<open>Little-endian integers\<close>

primrec le_nat :: "bytes \<Rightarrow> nat" where
  "le_nat [] = 0"
| "le_nat (b # bs) = unat b + 256 * le_nat bs"

primrec le_bytes :: "nat \<Rightarrow> nat \<Rightarrow> bytes" where
  "le_bytes 0 v = []"
| "le_bytes (Suc n) v = word_of_nat v # le_bytes n (v div 256)"

text \<open>Two's complement: \<open>getBigInt64\<close> and \<open>setBigInt64\<close>.\<close>

definition le_int :: "bytes \<Rightarrow> int" where
  "le_int bs =
     (let u = int (le_nat bs); m = 256 ^ length bs in if 2 * u < m then u else u - m)"

definition le_bytes_int :: "nat \<Rightarrow> int \<Rightarrow> bytes" where
  "le_bytes_int n i = le_bytes n (nat (i mod 256 ^ n))"

lemma length_le_bytes [simp, le_simps]: "length (le_bytes n v) = n"
  by (induction n arbitrary: v) simp_all

lemma length_le_bytes_int [simp, le_simps]: "length (le_bytes_int n i) = n"
  by (simp add: le_bytes_int_def)

lemma unat_byte_bound: "unat (b :: byte) < 256"
  using unsigned_less [of b] by simp

lemma unat_byte_of_nat: "unat (word_of_nat v :: byte) = v mod 256"
  by (simp add: unat_of_nat)

lemma byte_of_unat_add: "(word_of_nat (unat b + 256 * n) :: byte) = b"
proof -
  have "unat (word_of_nat (unat b + 256 * n) :: byte) = unat b"
    using unat_byte_bound [of b] by (simp only: unat_byte_of_nat) simp
  then show ?thesis by (simp only: word_unat_eq_iff)
qed

lemma le_nat_bound: "le_nat bs < 256 ^ length bs"
proof (induction bs)
  case Nil
  then show ?case by simp
next
  case (Cons b bs)
  have "unat b < 256" by (rule unat_byte_bound)
  with Cons.IH show ?case by simp
qed

lemma le_nat_le_bytes [le_simps]: "le_nat (le_bytes n v) = v mod 256 ^ n"
proof (induction n arbitrary: v)
  case 0
  then show ?case by simp
next
  case (Suc n)
  have "v mod 256 ^ Suc n = v mod 256 + 256 * (v div 256 mod 256 ^ n)"
    by (simp add: mod_mult2_eq)
  with Suc.IH show ?case by (simp add: unat_byte_of_nat)
qed

lemma le_bytes_le_nat [le_simps]: "n = length bs \<Longrightarrow> le_bytes n (le_nat bs) = bs"
proof (induction bs arbitrary: n)
  case Nil
  then show ?case by simp
next
  case (Cons b bs)
  have "(unat b + 256 * le_nat bs) div 256 = le_nat bs"
    using unat_byte_bound [of b] by simp
  with Cons show ?case
    by (simp add: byte_of_unat_add del: of_nat_add of_nat_mult)
qed

lemma le_nat_inject: "length xs = length ys \<Longrightarrow> le_nat xs = le_nat ys \<longleftrightarrow> xs = ys"
  by (metis le_bytes_le_nat)

lemma le_bytes_inject:
  assumes "v < 256 ^ n" and "w < 256 ^ n"
  shows "le_bytes n v = le_bytes n w \<longleftrightarrow> v = w"
proof
  assume "le_bytes n v = le_bytes n w"
  then have "le_nat (le_bytes n v) = le_nat (le_bytes n w)" by simp
  with assms show "v = w" by (simp add: le_nat_le_bytes)
qed simp

lemma le_int_le_bytes_int:
  assumes "- (256 ^ n) \<le> 2 * i" and "2 * i < 256 ^ n"
  shows "le_int (le_bytes_int n i) = i"
proof -
  let ?m = "256 ^ n :: int"
  have pos: "0 < ?m" by simp
  have r: "int (nat (i mod ?m) mod 256 ^ n) = i mod ?m"
    using pos by (simp add: of_nat_mod)
  show ?thesis
  proof (cases "0 \<le> i")
    case True
    with assms have "i mod ?m = i" by (simp add: mod_pos_pos_trivial)
    with True assms r show ?thesis
      by (simp add: le_int_def le_bytes_int_def le_nat_le_bytes Let_def)
  next
    case False
    with assms have "(i + ?m) mod ?m = i + ?m"
      by (intro mod_pos_pos_trivial) simp_all
    then have "i mod ?m = i + ?m" by simp
    with False assms r show ?thesis
      by (simp add: le_int_def le_bytes_int_def le_nat_le_bytes Let_def)
  qed
qed

lemma int_le_nat_bound: "int (le_nat bs) < 256 ^ length bs"
  using le_nat_bound [of bs] by (metis of_nat_less_iff of_nat_numeral of_nat_power)

lemma le_int_bounds:
  "- (256 ^ length bs) \<le> 2 * le_int bs \<and> 2 * le_int bs < 256 ^ length bs"
proof -
  let ?u = "int (le_nat bs)" and ?m = "256 ^ length bs :: int"
  have "le_int bs = (if 2 * ?u < ?m then ?u else ?u - ?m)"
    by (simp only: le_int_def Let_def)
  then have "(le_int bs = ?u \<and> 2 * ?u < ?m) \<or> (le_int bs = ?u - ?m \<and> ?m \<le> 2 * ?u)"
    by (metis not_less)
  moreover have "0 \<le> ?u" by simp
  ultimately show ?thesis using int_le_nat_bound [of bs] by linarith
qed

lemma le_bytes_int_le_int:
  "n = length bs \<Longrightarrow> le_bytes_int n (le_int bs) = bs"
proof -
  assume n: "n = length bs"
  note lt = int_le_nat_bound [of bs]
  have "le_int bs mod 256 ^ n = int (le_nat bs)"
    using lt n by (auto simp: le_int_def Let_def)
  with n show ?thesis by (simp add: le_bytes_int_def le_bytes_le_nat)
qed

section \<open>Results: an exception or a value\<close>

definition bindE :: "'e + 'a \<Rightarrow> ('a \<Rightarrow> 'e + 'b) \<Rightarrow> 'e + 'b" where
  "bindE m f = (case m of Inl e \<Rightarrow> Inl e | Inr x \<Rightarrow> f x)"

text \<open>A callback that may throw, mapped over an array from left to right.\<close>

fun mapE :: "('a \<Rightarrow> 'e + 'b) \<Rightarrow> 'a list \<Rightarrow> 'e + 'b list" where
  "mapE f [] = Inr []"
| "mapE f (x # xs) = bindE (f x) (\<lambda>y. bindE (mapE f xs) (\<lambda>ys. Inr (y # ys)))"

lemma bindE_Inl [simp, err_simps]: "bindE (Inl e) f = Inl e"
  by (simp add: bindE_def)

lemma bindE_Inr [simp, err_simps]: "bindE (Inr x) f = f x"
  by (simp add: bindE_def)

lemma bindE_eq_Inr [err_simps]: "bindE m f = Inr y \<longleftrightarrow> (\<exists>x. m = Inr x \<and> f x = Inr y)"
  by (cases m) simp_all

lemma bindE_eq_Inl [err_simps]:
  "bindE m f = Inl e \<longleftrightarrow> m = Inl e \<or> (\<exists>x. m = Inr x \<and> f x = Inl e)"
  by (cases m) simp_all

lemma bindE_cong [fundef_cong]:
  "m = m' \<Longrightarrow> (\<And>x. m' = Inr x \<Longrightarrow> f x = g x) \<Longrightarrow> bindE m f = bindE m' g"
  by (cases m') simp_all

lemma bindE_assoc: "bindE (bindE m f) g = bindE m (\<lambda>x. bindE (f x) g)"
  by (cases m) simp_all

text \<open>\<open>if (!x) throw e\<close>, and otherwise the value.\<close>

definition require :: "'e \<Rightarrow> 'a option \<Rightarrow> 'e + 'a" where
  "require e x = (case x of None \<Rightarrow> Inl e | Some v \<Rightarrow> Inr v)"

lemma require_simps [simp, err_simps]: "require e None = Inl e" "require e (Some v) = Inr v"
  by (simp_all add: require_def)

lemma require_eq [err_simps]:
  "require e x = Inr v \<longleftrightarrow> x = Some v" "require e x = Inl e' \<longleftrightarrow> x = None \<and> e' = e"
  by (auto simp: require_def split: option.splits)

text \<open>\<open>if (c) throw e\<close>.\<close>

definition throw_if :: "bool \<Rightarrow> 'e \<Rightarrow> 'e + unit" where
  "throw_if c e = (if c then Inl e else Inr ())"

lemma throw_if_simps [simp, err_simps]: "throw_if True e = Inl e" "throw_if False e = Inr ()"
  by (simp_all add: throw_if_def)

lemma throw_if_eq [err_simps]:
  "throw_if c e = Inr u \<longleftrightarrow> \<not> c" "throw_if c e = Inl e' \<longleftrightarrow> c \<and> e' = e"
  by (auto simp: throw_if_def)

lemma mapE_Inr_map: "(\<And>x. x \<in> set xs \<Longrightarrow> f x = Inr (g x)) \<Longrightarrow> mapE f xs = Inr (map g xs)"
  by (induction xs) simp_all

lemma mapE_eq_Inr_length: "mapE f xs = Inr ys \<Longrightarrow> length ys = length xs"
  by (induction xs arbitrary: ys) (auto simp: err_simps)

lemma mapE_eq_Inr_nth:
  "mapE f xs = Inr ys \<Longrightarrow> i < length xs \<Longrightarrow> f (xs ! i) = Inr (ys ! i)"
proof (induction xs arbitrary: ys i)
  case Nil
  then show ?case by simp
next
  case (Cons x xs)
  then show ?case by (cases i) (auto simp: err_simps)
qed

section \<open>Buffers written at an offset\<close>

text \<open>\<open>buf.set(src, off)\<close>: \<open>None\<close> stands for the \<open>RangeError\<close> of a source that does not fit.\<close>

definition buf_set :: "nat \<Rightarrow> bytes \<Rightarrow> bytes \<Rightarrow> bytes option" where
  "buf_set off src buf =
     (if off + length src \<le> length buf
      then Some (take off buf @ src @ drop (off + length src) buf) else None)"

lemma buf_set_step:
  "length p = off \<Longrightarrow> length src \<le> k \<Longrightarrow>
   buf_set off src (p @ replicate k 0) = Some ((p @ src) @ replicate (k - length src) 0)"
  by (simp add: buf_set_def)

lemma buf_set_length: "buf_set off src buf = Some out \<Longrightarrow> length out = length buf"
  by (auto simp: buf_set_def split: if_splits)

section \<open>JavaScript numbers and values\<close>

text \<open>
  A JavaScript number is a finite value (every finite double is a rational; the model does not
  bound its precision), a negative zero, a NaN or an infinity.
\<close>

datatype js_number = JNum rat | JNegZero | JNaN | JInf | JNegInf

text \<open>\<open>Some i\<close> exactly when \<open>Number.isInteger\<close> holds, with the integer it holds for.\<close>

fun js_int :: "js_number \<Rightarrow> int option" where
  "js_int (JNum q) = (if of_int \<lfloor>q\<rfloor> = q then Some \<lfloor>q\<rfloor> else None)"
| "js_int JNegZero = Some 0"
| "js_int _ = None"

text \<open>\<open>Number.isFinite\<close>.\<close>

fun js_finite :: "js_number \<Rightarrow> bool" where
  "js_finite (JNum q) = True"
| "js_finite JNegZero = True"
| "js_finite _ = False"

definition js_int_in :: "int \<Rightarrow> int \<Rightarrow> js_number \<Rightarrow> bool" where
  "js_int_in lo hi x = (case js_int x of None \<Rightarrow> False | Some i \<Rightarrow> lo \<le> i \<and> i \<le> hi)"

lemma js_int_of_int [simp]: "js_int (JNum (of_int i)) = Some i"
  by simp

lemma js_int_in_iff: "js_int_in lo hi x \<longleftrightarrow> (\<exists>i. js_int x = Some i \<and> lo \<le> i \<and> i \<le> hi)"
  by (auto simp: js_int_in_def split: option.splits)

text \<open>\<open>x >= q\<close> against a finite constant.\<close>

fun js_ge :: "js_number \<Rightarrow> rat \<Rightarrow> bool" where
  "js_ge (JNum r) q = (q \<le> r)"
| "js_ge JNegZero q = (q \<le> 0)"
| "js_ge JInf q = True"
| "js_ge _ q = False"

text \<open>\<open>DataView.getFloat64(0, true)\<close>: the IEEE-754 double its eight little-endian bytes encode.\<close>

definition f64_of_bytes :: "bytes \<Rightarrow> js_number" where
  "f64_of_bytes bs =
     (let bits = le_nat bs; sgn = bits div 2 ^ 63; e = bits div 2 ^ 52 mod 2048; m = bits mod 2 ^ 52 in
      if e = 2047 then (if m \<noteq> 0 then JNaN else if sgn = 0 then JInf else JNegInf)
      else if e = 0 \<and> m = 0 \<and> sgn \<noteq> 0 then JNegZero
      else let mag = (if e = 0 then of_nat m / 2 ^ 1074
                      else of_nat (2 ^ 52 + m) * 2 ^ e / 2 ^ 1075)
           in JNum (if sgn = 0 then mag else - mag))"

text \<open>
  The values runtime type tests distinguish. A plain object is its own enumerable properties in
  insertion order; \<open>JOpaque\<close> is any other object, function or symbol. A string is a list of code
  units below 256.
\<close>

datatype js_value =
    JUndefined
  | JNull
  | JBool bool
  | JNumber js_number
  | JBigInt int
  | JString string
  | JArray "js_value list"
  | JObject "(string \<times> js_value) list"
  | JOpaque

text \<open>Property read \<open>o.k\<close> of a plain object: \<open>undefined\<close> when absent.\<close>

definition js_get :: "(string \<times> js_value) list \<Rightarrow> string \<Rightarrow> js_value" where
  "js_get obj k = (case map_of obj k of None \<Rightarrow> JUndefined | Some v \<Rightarrow> v)"

end
