(* ===== verification/Guard_Abi.thy ===== *)
theory Guard_Abi
  imports EG_Prelude
begin

text \<open>
  The guard client's error vocabulary and its ABI v2 encoder
  (\<open>packages/guard-client/src/errors.ts\<close>, \<open>abi.ts\<close>): the client error codes, the on-chain error
  names and their numbers, the protected state, the phase rule, the runtime validity tests and the
  99-byte instruction payload. The address encoder of \<open>@solana/kit\<close> is a parameter of the
  definitions that use it.
\<close>

section \<open>errors.ts\<close>

datatype guard_client_error_code =
    AccountNotFound_code | InvalidClockData_code | InvalidDownstream_code
  | InvalidExpectedState_code | InvalidExtensionCombination_code | InvalidMintData_code
  | InvalidMintOwner_code | InvalidMultiplier_code | InvalidProtectionWindow_code
  | MissingScaledUiAmount_code | UnsupportedJupiterTrade_code

datatype equity_guard_error =
    UnsupportedInstruction | InvalidInstructionLength | InvalidExpectedState
  | InvalidAccountCount | InvalidMintOwner | InvalidMintData | MissingScaledUiAmount
  | InvalidExtensionCombination | InvalidMultiplier | MultiplierChanged
  | NewMultiplierChanged | EffectiveTimestampChanged | ActivationPhaseChanged
  | InsideTransitionWindow | ArithmeticOverflow | ClockUnavailable | UnsupportedVersion
  | MintKeyMismatch | InvalidInstructionsSysvar | MissingDownstreamInstruction
  | UnsupportedDownstreamProgram | UnsupportedDownstreamInstruction
  | DownstreamMintMismatch | DownstreamCommitmentMismatch | UnsupportedAdapter
  | GuardNotTopLevel | GuardNotFirst | UnsupportedTransactionGrammar
  | InvalidComputeBudgetInstruction | InvalidAtaSetup | InvalidJupiterProgram
  | InvalidJupiterInstruction | InvalidJupiterDirection | InvalidCounterMint
  | InvalidTokenProgram | DestinationOverrideUnsupported | UnsupportedJupiterFee
  | NonCanonicalSourceAccount | NonCanonicalDestinationAccount

text \<open>
  What the client throws: a \<open>GuardClientError\<close> with its code and, for a refused Jupiter trade, the
  program's error; a \<open>RangeError\<close> of the platform; or the failure of an RPC request. Message texts are
  not modelled.
\<close>

datatype js_exn =
    GuardClientError guard_client_error_code "equity_guard_error option"
  | RangeError
  | RpcError

text \<open>The entries of \<open>EQUITY_GUARD_ERROR_CODES\<close>, in the object's order.\<close>

definition EQUITY_GUARD_ERROR_CODES :: "(equity_guard_error \<times> int) list" where
  "EQUITY_GUARD_ERROR_CODES =
    [(UnsupportedInstruction, 0), (InvalidInstructionLength, 1), (InvalidExpectedState, 2),
     (InvalidAccountCount, 3), (InvalidMintOwner, 4), (InvalidMintData, 5),
     (MissingScaledUiAmount, 6), (InvalidExtensionCombination, 7), (InvalidMultiplier, 8),
     (MultiplierChanged, 9), (NewMultiplierChanged, 10), (EffectiveTimestampChanged, 11),
     (ActivationPhaseChanged, 12), (InsideTransitionWindow, 13), (ArithmeticOverflow, 14),
     (ClockUnavailable, 15), (UnsupportedVersion, 16), (MintKeyMismatch, 17),
     (InvalidInstructionsSysvar, 18), (MissingDownstreamInstruction, 19),
     (UnsupportedDownstreamProgram, 20), (UnsupportedDownstreamInstruction, 21),
     (DownstreamMintMismatch, 22), (DownstreamCommitmentMismatch, 23), (UnsupportedAdapter, 24),
     (GuardNotTopLevel, 25), (GuardNotFirst, 26), (UnsupportedTransactionGrammar, 27),
     (InvalidComputeBudgetInstruction, 28), (InvalidAtaSetup, 29), (InvalidJupiterProgram, 30),
     (InvalidJupiterInstruction, 31), (InvalidJupiterDirection, 32), (InvalidCounterMint, 33),
     (InvalidTokenProgram, 34), (DestinationOverrideUnsupported, 35), (UnsupportedJupiterFee, 36),
     (NonCanonicalSourceAccount, 37), (NonCanonicalDestinationAccount, 38)]"

definition equityGuardErrorName :: "int \<Rightarrow> equity_guard_error option" where
  "equityGuardErrorName code =
     map_option fst (find (\<lambda>(_, value). value = code) EQUITY_GUARD_ERROR_CODES)"

section \<open>abi.ts: data\<close>

definition ABI_VERSION_V2 :: byte where
  "ABI_VERSION_V2 = 2"

definition ASSERT_SAFE_EXECUTION_V2_LEN :: nat where
  "ASSERT_SAFE_EXECUTION_V2_LEN = 99"

text \<open>Adapter kinds and activation phases are the numbers the source names.\<close>

definition TOKEN_2022_TRANSFER_CHECKED :: int where
  "TOKEN_2022_TRANSFER_CHECKED = 1"

definition JUPITER_ROUTE_V2_BUY_USDC :: int where
  "JUPITER_ROUTE_V2_BUY_USDC = 2"

definition JUPITER_ROUTE_V2_SELL_USDC :: int where
  "JUPITER_ROUTE_V2_SELL_USDC = 3"

lemmas adapter_kind_defs =
  TOKEN_2022_TRANSFER_CHECKED_def JUPITER_ROUTE_V2_BUY_USDC_def JUPITER_ROUTE_V2_SELL_USDC_def

type_synonym activation_phase = int

definition Pending :: activation_phase where
  "Pending = 0"

definition Activated :: activation_phase where
  "Activated = 1"

record protected_state =
  multiplier :: bytes
  newMultiplier :: bytes
  newMultiplierEffectiveTimestamp :: int

record protection_window =
  beforeSecs :: js_number
  afterSecs :: js_number

record assert_safe_execution_request =
  expected :: protected_state
  expectedPhase :: activation_phase
  window :: protection_window

record assert_safe_execution_v2_request = assert_safe_execution_request +
  expectedMint :: address
  adapterKind :: int
  downstreamCommitment :: bytes

section \<open>abi.ts: operations\<close>

definition I64_MIN :: int where "I64_MIN = - (2 ^ 63)"

definition I64_MAX :: int where "I64_MAX = 2 ^ 63 - 1"

definition U32_MAX :: int where "U32_MAX = 2 ^ 32 - 1"

text \<open>The literal \<open>2.2250738585072014e-308\<close> is the double \<open>2\<close> to the power \<open>-1022\<close>.\<close>

definition MIN_POSITIVE_NORMAL_F64 :: rat where
  "MIN_POSITIVE_NORMAL_F64 = 1 / 2 ^ 1022"

definition isValidStoredMultiplier :: "bytes \<Rightarrow> bool" where
  "isValidStoredMultiplier bs =
     (if length bs \<noteq> 8 then False
      else let value = f64_of_bytes bs
           in js_finite value \<and> js_ge value MIN_POSITIVE_NORMAL_F64)"

definition bytesEqual :: "bytes \<Rightarrow> bytes \<Rightarrow> bool" where
  "bytesEqual a b =
     (length a = length b \<and> list_all (\<lambda>(index, byte). Some byte = js_index b index) (enumerate 0 a))"

definition hasScheduledChange :: "protected_state \<Rightarrow> bool" where
  "hasScheduledChange state = (\<not> bytesEqual (multiplier state) (newMultiplier state))"

definition phaseAt :: "protected_state \<Rightarrow> int \<Rightarrow> activation_phase" where
  "phaseAt state unixTimestamp =
     (if unixTimestamp \<ge> newMultiplierEffectiveTimestamp state then Activated else Pending)"

fun isValidWindowSecs :: "js_value \<Rightarrow> bool" where
  "isValidWindowSecs (JNumber secs) = js_int_in 0 U32_MAX secs"
| "isValidWindowSecs _ = False"

definition isDownstreamAdapterKind :: "int \<Rightarrow> bool" where
  "isDownstreamAdapterKind value =
     (value \<in> set [TOKEN_2022_TRANSFER_CHECKED, JUPITER_ROUTE_V2_BUY_USDC, JUPITER_ROUTE_V2_SELL_USDC])"

text \<open>\<open>DataView.setUint32\<close> of a number that has been checked to be an integer.\<close>

definition u32_bytes_of_number :: "js_number \<Rightarrow> bytes" where
  "u32_bytes_of_number x = le_bytes 4 (nat (case js_int x of None \<Rightarrow> 0 | Some i \<Rightarrow> i mod 2 ^ 32))"

text \<open>
  The buffer writes of the encoder, in the source's order. \<open>Option.bind\<close> threads the buffer; a
  write that does not fit is the platform's \<open>RangeError\<close>.
\<close>

definition writeAssertSafeExecutionV2 ::
    "bytes \<Rightarrow> assert_safe_execution_v2_request \<Rightarrow> bytes option" where
  "writeAssertSafeExecutionV2 mint r =
     (let e = expected r; w = window r in
      Option.bind (buf_set 0 [ABI_VERSION_V2] (replicate ASSERT_SAFE_EXECUTION_V2_LEN 0)) (\<lambda>out.
      Option.bind (buf_set 1 mint out) (\<lambda>out.
      Option.bind (buf_set 33 (multiplier e) out) (\<lambda>out.
      Option.bind (buf_set 41 (newMultiplier e) out) (\<lambda>out.
      Option.bind (buf_set 49 (le_bytes_int 8 (newMultiplierEffectiveTimestamp e)) out) (\<lambda>out.
      Option.bind (buf_set 57 [word_of_int (expectedPhase r)] out) (\<lambda>out.
      Option.bind (buf_set 58 (u32_bytes_of_number (beforeSecs w)) out) (\<lambda>out.
      Option.bind (buf_set 62 (u32_bytes_of_number (afterSecs w)) out) (\<lambda>out.
      Option.bind (buf_set 66 [word_of_int (adapterKind r)] out) (\<lambda>out.
      buf_set 67 (downstreamCommitment r) out))))))))))"

definition encodeAssertSafeExecutionV2 ::
    "(address \<Rightarrow> bytes) \<Rightarrow> assert_safe_execution_v2_request \<Rightarrow> js_exn + bytes" where
  "encodeAssertSafeExecutionV2 encodeAddress r =
     (let e = expected r; w = window r; timestamp = newMultiplierEffectiveTimestamp e in
      if \<not> isValidStoredMultiplier (multiplier e) \<or> \<not> isValidStoredMultiplier (newMultiplier e)
      then Inl (GuardClientError InvalidExpectedState_code None)
      else if timestamp < I64_MIN \<or> timestamp > I64_MAX
      then Inl (GuardClientError InvalidExpectedState_code None)
      else if expectedPhase r \<noteq> Pending \<and> expectedPhase r \<noteq> Activated
      then Inl (GuardClientError InvalidExpectedState_code None)
      else if \<not> isValidWindowSecs (JNumber (beforeSecs w)) \<or> \<not> isValidWindowSecs (JNumber (afterSecs w))
      then Inl (GuardClientError InvalidProtectionWindow_code None)
      else if \<not> isDownstreamAdapterKind (adapterKind r)
      then Inl (GuardClientError InvalidDownstream_code None)
      else if length (downstreamCommitment r) \<noteq> 32
      then Inl (GuardClientError InvalidDownstream_code None)
      else case writeAssertSafeExecutionV2 (encodeAddress (expectedMint r)) r of
             None \<Rightarrow> Inl RangeError
           | Some out \<Rightarrow> Inr out)"

section \<open>Facts\<close>

lemma bytesEqual_iff [simp]: "bytesEqual a b \<longleftrightarrow> a = b"
proof
  assume "bytesEqual a b"
  then have len: "length a = length b"
    and all: "\<forall>x \<in> set (enumerate 0 a). case x of (i, y) \<Rightarrow> Some y = js_index b i"
    by (auto simp: bytesEqual_def list_all_iff)
  show "a = b"
  proof (rule nth_equalityI [OF len])
    fix i assume i: "i < length a"
    then have "(i, a ! i) \<in> set (enumerate 0 a)"
      by (force simp: in_set_conv_nth nth_enumerate_eq)
    with all i len show "a ! i = b ! i" by (auto simp: js_index_eq_Some)
  qed
next
  assume "a = b"
  then show "bytesEqual a b"
    by (auto simp: bytesEqual_def list_all_iff in_set_enumerate_eq)
qed

lemma hasScheduledChange_iff: "hasScheduledChange st \<longleftrightarrow> multiplier st \<noteq> newMultiplier st"
  by (simp add: hasScheduledChange_def)

text \<open>
  Classifying a stored multiplier by its bits: the sign bit is clear and the exponent field is
  neither 0 (zero and subnormal) nor 2047 (infinity and NaN).
\<close>

lemma subnormal_below: "m < 2 ^ a \<Longrightarrow> (of_nat m :: rat) / 2 ^ (a + b) < 1 / 2 ^ b"
proof -
  assume "m < 2 ^ a"
  then have "(of_nat m :: rat) < 2 ^ a"
    by (metis of_nat_less_iff of_nat_numeral of_nat_power)
  then show ?thesis by (simp add: power_add field_simps)
qed

lemma normal_above: "1 \<le> e \<Longrightarrow> (1 :: rat) / 2 ^ b \<le> of_nat (2 ^ a + m) * 2 ^ e / 2 ^ (a + b + 1)"
proof -
  assume "1 \<le> e"
  then have "(2 :: rat) \<le> 2 ^ e" using power_increasing [of 1 e "2 :: rat"] by simp
  moreover have "(2 :: rat) ^ a \<le> of_nat (2 ^ a + m)" by simp
  ultimately have "(2 :: rat) ^ a * 2 \<le> of_nat (2 ^ a + m) * 2 ^ e"
    by (intro mult_mono) simp_all
  then show ?thesis by (simp add: power_add field_simps)
qed

definition multiplier_exponent_ok :: "bytes \<Rightarrow> bool" where
  "multiplier_exponent_ok bs = (1 \<le> le_nat bs div 2 ^ 52 \<and> le_nat bs div 2 ^ 52 \<le> 2046)"

lemma f64_finite_ge_min:
  assumes "le_nat bs < 2 ^ 64"
  shows "js_finite (f64_of_bytes bs) \<and> js_ge (f64_of_bytes bs) MIN_POSITIVE_NORMAL_F64
           \<longleftrightarrow> multiplier_exponent_ok bs"
proof -
  let ?bits = "le_nat bs"
  define h where "h = ?bits div 2 ^ 52"
  define m where "m = ?bits mod 2 ^ 52"
  have sgn: "?bits div 2 ^ 63 = h div 2048"
    unfolding h_def div_mult2_eq [symmetric] by simp
  have m: "m < 2 ^ 52" unfolding m_def by simp
  have h: "h < 4096" using assms unfolding h_def by (simp add: less_mult_imp_div_less)
  have e1074: "(1074 :: nat) = 52 + 1022" and e1075: "(1075 :: nat) = 52 + 1022 + 1" by simp_all
  have min0: "0 < MIN_POSITIVE_NORMAL_F64" by (simp only: MIN_POSITIVE_NORMAL_F64_def) simp
  have sub: "(of_nat m :: rat) / 2 ^ 1074 < MIN_POSITIVE_NORMAL_F64"
    unfolding MIN_POSITIVE_NORMAL_F64_def e1074 by (rule subnormal_below [OF m])
  have nor: "MIN_POSITIVE_NORMAL_F64 \<le> of_nat (2 ^ 52 + m) * 2 ^ (h mod 2048) / 2 ^ 1075"
    if "1 \<le> h mod 2048"
    unfolding MIN_POSITIVE_NORMAL_F64_def e1075 by (rule normal_above [OF that])
  have mag0: "0 \<le> (of_nat m :: rat) / 2 ^ 1074"
    and mag1: "0 \<le> (of_nat (2 ^ 52 + m) :: rat) * 2 ^ (h mod 2048) / 2 ^ 1075"
    by (intro divide_nonneg_nonneg mult_nonneg_nonneg of_nat_0_le_iff zero_le_power; simp)+
  have neg: "\<not> MIN_POSITIVE_NORMAL_F64 \<le> - ((of_nat m :: rat) / 2 ^ 1074)"
    "\<not> MIN_POSITIVE_NORMAL_F64 \<le> - ((of_nat (2 ^ 52 + m) :: rat) * 2 ^ (h mod 2048) / 2 ^ 1075)"
    using mag0 mag1 min0 by linarith+
  have ok: "multiplier_exponent_ok bs \<longleftrightarrow> h div 2048 = 0 \<and> h mod 2048 \<noteq> 0 \<and> h mod 2048 \<noteq> 2047"
    using h unfolding multiplier_exponent_ok_def h_def [symmetric] by (auto; presburger)
  show ?thesis
    unfolding f64_of_bytes_def Let_def ok sgn h_def [symmetric] m_def [symmetric]
    using sub nor neg min0
    by (auto simp del: of_nat_add power_numeral)
qed

lemma isValidStoredMultiplier_bits:
  "isValidStoredMultiplier bs \<longleftrightarrow> length bs = 8 \<and> multiplier_exponent_ok bs"
proof (cases "length bs = 8")
  case True
  then have "le_nat bs < 2 ^ 64" using le_nat_bound [of bs] by simp
  with True show ?thesis
    by (simp add: isValidStoredMultiplier_def Let_def f64_finite_ge_min)
next
  case False
  then show ?thesis by (simp add: isValidStoredMultiplier_def)
qed

lemma isValidStoredMultiplier_length: "isValidStoredMultiplier bs \<Longrightarrow> length bs = 8"
  by (simp add: isValidStoredMultiplier_bits)

text \<open>The encoder's writes fill the payload from left to right.\<close>

definition v2_layout :: "bytes \<Rightarrow> assert_safe_execution_v2_request \<Rightarrow> bytes" where
  "v2_layout mint r =
     [2] @ mint @ multiplier (expected r) @ newMultiplier (expected r) @
     le_bytes_int 8 (newMultiplierEffectiveTimestamp (expected r)) @ [word_of_int (expectedPhase r)] @
     u32_bytes_of_number (beforeSecs (window r)) @ u32_bytes_of_number (afterSecs (window r)) @
     [word_of_int (adapterKind r)] @ downstreamCommitment r"

lemma length_u32_bytes_of_number [simp]: "length (u32_bytes_of_number x) = 4"
  by (simp add: u32_bytes_of_number_def)

lemma writeAssertSafeExecutionV2_layout:
  assumes "length mint = 32" and "length (multiplier (expected r)) = 8"
    and "length (newMultiplier (expected r)) = 8" and "length (downstreamCommitment r) = 32"
  shows "writeAssertSafeExecutionV2 mint r = Some (v2_layout mint r)"
proof -
  have start: "buf_set 0 src (replicate k 0) = Some (src @ replicate (k - length src) 0)"
    if "length src \<le> k" for src k
    using that buf_set_step [of "[]" 0 src k] by simp
  have "writeAssertSafeExecutionV2 mint r = Some (v2_layout mint r @ replicate 0 0)"
    unfolding writeAssertSafeExecutionV2_def v2_layout_def Let_def
      ABI_VERSION_V2_def ASSERT_SAFE_EXECUTION_V2_LEN_def
    using assms by (simp add: start buf_set_step del: replicate.simps append_assoc append_Cons)
  then show ?thesis by simp
qed

text \<open>What a request must satisfy for the encoder to accept it.\<close>

definition v2_request_ok :: "assert_safe_execution_v2_request \<Rightarrow> bool" where
  "v2_request_ok r \<longleftrightarrow>
     isValidStoredMultiplier (multiplier (expected r)) \<and>
     isValidStoredMultiplier (newMultiplier (expected r)) \<and>
     I64_MIN \<le> newMultiplierEffectiveTimestamp (expected r) \<and>
     newMultiplierEffectiveTimestamp (expected r) \<le> I64_MAX \<and>
     (expectedPhase r = Pending \<or> expectedPhase r = Activated) \<and>
     js_int_in 0 U32_MAX (beforeSecs (window r)) \<and> js_int_in 0 U32_MAX (afterSecs (window r)) \<and>
     isDownstreamAdapterKind (adapterKind r) \<and> length (downstreamCommitment r) = 32"

lemma encode_ok:
  assumes "length (encodeAddress (expectedMint r)) = 32" and "v2_request_ok r"
  shows "encodeAssertSafeExecutionV2 encodeAddress r
           = Inr (v2_layout (encodeAddress (expectedMint r)) r)"
proof -
  have w: "writeAssertSafeExecutionV2 (encodeAddress (expectedMint r)) r
             = Some (v2_layout (encodeAddress (expectedMint r)) r)"
    using assms by (intro writeAssertSafeExecutionV2_layout)
      (auto simp: v2_request_ok_def isValidStoredMultiplier_length)
  show ?thesis
    using assms(2) unfolding encodeAssertSafeExecutionV2_def Let_def v2_request_ok_def w
    by auto
qed

lemma encode_refuses:
  assumes "\<not> v2_request_ok r"
  shows "\<exists>c \<in> {InvalidExpectedState_code, InvalidProtectionWindow_code, InvalidDownstream_code}.
           encodeAssertSafeExecutionV2 encodeAddress r = Inl (GuardClientError c None)"
  using assms unfolding encodeAssertSafeExecutionV2_def Let_def v2_request_ok_def
  by auto

lemma length_v2_layout:
  "length mint = 32 \<Longrightarrow> v2_request_ok r \<Longrightarrow> length (v2_layout mint r) = 99"
  by (auto simp: v2_layout_def v2_request_ok_def isValidStoredMultiplier_length)

end
