(* ===== verification/Guard_Program.thy ===== *)
theory Guard_Program
  imports Guard_Abi
begin

text \<open>
  The on-chain side of the ABI (\<open>programs/equity_guard/src/instruction.rs\<close>, the stored-state types
  of \<open>state.rs\<close>, the error numbers of \<open>error.rs\<close>): the payload reader, \<open>StoredMultiplier\<close>, and the
  decoded request with its integers at their width (\<open>u32\<close> as \<open>32 word\<close>, \<open>i64\<close> as \<open>64 word\<close> read
  by \<open>sint\<close>). The lemmas relate it to the client's encoder: what the client encodes the program
  decodes, field for field.
\<close>

section \<open>state.rs: stored multipliers and phases\<close>

text \<open>\<open>StoredMultiplier::new\<close>: \<open>f64::is_normal\<close> and \<open>is_sign_positive\<close>, on the bit pattern.\<close>

definition stored_multiplier_new :: "bytes \<Rightarrow> bytes option" where
  "stored_multiplier_new bs =
     (let bits = le_nat bs; e = bits div 2 ^ 52 mod 2048; sgn = bits div 2 ^ 63 in
      if e \<noteq> 0 \<and> e \<noteq> 2047 \<and> sgn = 0 then Some bs else None)"

datatype rs_activation_phase = RsPending | RsActivated

definition rs_phase_from_u8 :: "byte \<Rightarrow> rs_activation_phase option" where
  "rs_phase_from_u8 v = (if v = 0 then Some RsPending else if v = 1 then Some RsActivated else None)"

record rs_protected_state =
  rs_multiplier :: bytes
  rs_new_multiplier :: bytes
  rs_effective_timestamp :: "64 word"

definition rs_has_scheduled_change :: "rs_protected_state \<Rightarrow> bool" where
  "rs_has_scheduled_change s = (rs_multiplier s \<noteq> rs_new_multiplier s)"

definition rs_phase_at :: "rs_protected_state \<Rightarrow> 64 word \<Rightarrow> rs_activation_phase" where
  "rs_phase_at s now =
     (if sint now \<ge> sint (rs_effective_timestamp s) then RsActivated else RsPending)"

section \<open>instruction.rs: the ABI v2 request\<close>

record rs_protection_window =
  rs_before_secs :: "32 word"
  rs_after_secs :: "32 word"

record rs_assert_safe_execution =
  rs_expected :: rs_protected_state
  rs_expected_phase :: rs_activation_phase
  rs_window :: rs_protection_window

datatype downstream_adapter =
  Token2022TransferChecked | JupiterRouteV2BuyUsdc | JupiterRouteV2SellUsdc

definition adapter_from_u8 :: "byte \<Rightarrow> downstream_adapter option" where
  "adapter_from_u8 v =
     (if v = 1 then Some Token2022TransferChecked
      else if v = 2 then Some JupiterRouteV2BuyUsdc
      else if v = 3 then Some JupiterRouteV2SellUsdc else None)"

record rs_assert_safe_execution_v2 =
  rs_expected_mint :: bytes
  rs_execution :: rs_assert_safe_execution
  rs_adapter :: downstream_adapter
  rs_downstream_commitment :: bytes

text \<open>\<open>Reader::take::<N>\<close>.\<close>

definition reader_take :: "nat \<Rightarrow> bytes \<Rightarrow> equity_guard_error + (bytes \<times> bytes)" where
  "reader_take n bs =
     (if length bs < n then Inl InvalidInstructionLength else Inr (take n bs, drop n bs))"

definition unpack_fields :: "bytes \<Rightarrow> equity_guard_error + rs_assert_safe_execution_v2" where
  "unpack_fields body =
     bindE (reader_take 32 body) (\<lambda>(mint, rest).
     bindE (reader_take 8 rest) (\<lambda>(mult, rest).
     bindE (reader_take 8 rest) (\<lambda>(newm, rest).
     bindE (reader_take 8 rest) (\<lambda>(ts, rest).
     bindE (reader_take 1 rest) (\<lambda>(phase, rest).
     bindE (reader_take 4 rest) (\<lambda>(before, rest).
     bindE (reader_take 4 rest) (\<lambda>(after, rest).
     bindE (reader_take 1 rest) (\<lambda>(adapter, rest).
     bindE (reader_take 32 rest) (\<lambda>(commitment, _).
       case (stored_multiplier_new mult, stored_multiplier_new newm, rs_phase_from_u8 (hd phase)) of
         (Some m, Some n, Some p) \<Rightarrow>
           (case adapter_from_u8 (hd adapter) of
              None \<Rightarrow> Inl UnsupportedAdapter
            | Some a \<Rightarrow> Inr
                \<lparr>rs_expected_mint = mint,
                 rs_execution =
                   \<lparr>rs_expected =
                      \<lparr>rs_multiplier = m, rs_new_multiplier = n,
                       rs_effective_timestamp = word_of_nat (le_nat ts)\<rparr>,
                    rs_expected_phase = p,
                    rs_window =
                      \<lparr>rs_before_secs = word_of_nat (le_nat before),
                       rs_after_secs = word_of_nat (le_nat after)\<rparr>\<rparr>,
                 rs_adapter = a,
                 rs_downstream_commitment = commitment\<rparr>)
       | _ \<Rightarrow> Inl InvalidExpectedState)))))))))"

definition unpack :: "bytes \<Rightarrow> equity_guard_error + rs_assert_safe_execution_v2" where
  "unpack data =
     (case data of
        [] \<Rightarrow> Inl UnsupportedInstruction
      | version # body \<Rightarrow>
          if version \<noteq> 2 then Inl UnsupportedVersion
          else if length data \<noteq> 99 then Inl InvalidInstructionLength
          else unpack_fields body)"

section \<open>error.rs: discriminants\<close>

fun program_error_discriminant :: "equity_guard_error \<Rightarrow> int" where
  "program_error_discriminant UnsupportedInstruction = 0"
| "program_error_discriminant InvalidInstructionLength = 1"
| "program_error_discriminant InvalidExpectedState = 2"
| "program_error_discriminant InvalidAccountCount = 3"
| "program_error_discriminant InvalidMintOwner = 4"
| "program_error_discriminant InvalidMintData = 5"
| "program_error_discriminant MissingScaledUiAmount = 6"
| "program_error_discriminant InvalidExtensionCombination = 7"
| "program_error_discriminant InvalidMultiplier = 8"
| "program_error_discriminant MultiplierChanged = 9"
| "program_error_discriminant NewMultiplierChanged = 10"
| "program_error_discriminant EffectiveTimestampChanged = 11"
| "program_error_discriminant ActivationPhaseChanged = 12"
| "program_error_discriminant InsideTransitionWindow = 13"
| "program_error_discriminant ArithmeticOverflow = 14"
| "program_error_discriminant ClockUnavailable = 15"
| "program_error_discriminant UnsupportedVersion = 16"
| "program_error_discriminant MintKeyMismatch = 17"
| "program_error_discriminant InvalidInstructionsSysvar = 18"
| "program_error_discriminant MissingDownstreamInstruction = 19"
| "program_error_discriminant UnsupportedDownstreamProgram = 20"
| "program_error_discriminant UnsupportedDownstreamInstruction = 21"
| "program_error_discriminant DownstreamMintMismatch = 22"
| "program_error_discriminant DownstreamCommitmentMismatch = 23"
| "program_error_discriminant UnsupportedAdapter = 24"
| "program_error_discriminant GuardNotTopLevel = 25"
| "program_error_discriminant GuardNotFirst = 26"
| "program_error_discriminant UnsupportedTransactionGrammar = 27"
| "program_error_discriminant InvalidComputeBudgetInstruction = 28"
| "program_error_discriminant InvalidAtaSetup = 29"
| "program_error_discriminant InvalidJupiterProgram = 30"
| "program_error_discriminant InvalidJupiterInstruction = 31"
| "program_error_discriminant InvalidJupiterDirection = 32"
| "program_error_discriminant InvalidCounterMint = 33"
| "program_error_discriminant InvalidTokenProgram = 34"
| "program_error_discriminant DestinationOverrideUnsupported = 35"
| "program_error_discriminant UnsupportedJupiterFee = 36"
| "program_error_discriminant NonCanonicalSourceAccount = 37"
| "program_error_discriminant NonCanonicalDestinationAccount = 38"

section \<open>The client's payload as the program reads it\<close>

lemma reader_take_append [simp]: "length xs = n \<Longrightarrow> reader_take n (xs @ ys) = Inr (xs, ys)"
  by (simp add: reader_take_def)

lemma reader_take_Cons [simp]: "reader_take (Suc 0) (x # ys) = Inr ([x], ys)"
  by (simp add: reader_take_def)

lemma reader_take_exact [simp]: "length xs = n \<Longrightarrow> reader_take n xs = Inr (xs, [])"
  by (simp add: reader_take_def)

text \<open>The two validity rules for stored multipliers agree.\<close>

lemma stored_multiplier_new_iff:
  assumes "length bs = 8"
  shows "stored_multiplier_new bs = (if isValidStoredMultiplier bs then Some bs else None)"
proof -
  define h where "h = le_nat bs div 2 ^ 52"
  have "le_nat bs < 2 ^ 64" using le_nat_bound [of bs] assms by simp
  then have h: "h < 4096" unfolding h_def by (simp add: less_mult_imp_div_less)
  have sgn: "le_nat bs div 2 ^ 63 = h div 2048"
    unfolding h_def div_mult2_eq [symmetric] by simp
  have "multiplier_exponent_ok bs \<longleftrightarrow> h mod 2048 \<noteq> 0 \<and> h mod 2048 \<noteq> 2047 \<and> h div 2048 = 0"
    using h unfolding multiplier_exponent_ok_def h_def [symmetric] by (auto; presburger)
  then show ?thesis
    using assms unfolding stored_multiplier_new_def Let_def sgn h_def [symmetric]
      isValidStoredMultiplier_bits by auto
qed

lemma word_of_le_bytes_int:
  "(word_of_nat (le_nat (le_bytes_int 8 i)) :: 64 word) = word_of_int i"
proof -
  have "int (nat (i mod 256 ^ 8) mod 256 ^ 8) = i mod 2 ^ 64"
    by (simp add: of_nat_mod)
  then have "(word_of_nat (le_nat (le_bytes_int 8 i)) :: 64 word) = word_of_int (i mod 2 ^ 64)"
    unfolding le_bytes_int_def le_nat_le_bytes by (metis of_int_of_nat_eq)
  also have "\<dots> = word_of_int i"
    by (rule word_uint_eqI) (simp add: unsigned_of_int take_bit_eq_mod)
  finally show ?thesis .
qed

lemma word_of_u32_bytes:
  assumes "js_int x = Some i" and "0 \<le> i" and "i \<le> U32_MAX"
  shows "(word_of_nat (le_nat (u32_bytes_of_number x)) :: 32 word) = word_of_int i"
proof -
  have "nat (i mod 2 ^ 32) = nat i" using assms by (simp add: U32_MAX_def)
  moreover have "nat i < 256 ^ 4" using assms by (simp add: U32_MAX_def)
  ultimately show ?thesis
    using assms by (simp add: u32_bytes_of_number_def le_nat_le_bytes of_nat_nat)
qed

lemma sint_i64:
  assumes "I64_MIN \<le> i" and "i \<le> I64_MAX"
  shows "sint (word_of_int i :: 64 word) = i"
  using assms
  by (simp add: I64_MIN_def I64_MAX_def sint_sbintrunc' signed_take_bit_int_eq_self)

text \<open>The request a payload stands for, with its integers at their width.\<close>

definition rs_window_of :: "protection_window \<Rightarrow> rs_protection_window" where
  "rs_window_of w =
     \<lparr>rs_before_secs = word_of_int (the (js_int (beforeSecs w))),
      rs_after_secs = word_of_int (the (js_int (afterSecs w)))\<rparr>"

definition rs_state_of :: "protected_state \<Rightarrow> rs_protected_state" where
  "rs_state_of s =
     \<lparr>rs_multiplier = multiplier s, rs_new_multiplier = newMultiplier s,
      rs_effective_timestamp = word_of_int (newMultiplierEffectiveTimestamp s)\<rparr>"

definition rs_phase_of :: "activation_phase \<Rightarrow> rs_activation_phase" where
  "rs_phase_of p = (if p = Pending then RsPending else RsActivated)"

definition rs_adapter_of :: "int \<Rightarrow> downstream_adapter" where
  "rs_adapter_of k =
     (if k = TOKEN_2022_TRANSFER_CHECKED then Token2022TransferChecked
      else if k = JUPITER_ROUTE_V2_BUY_USDC then JupiterRouteV2BuyUsdc else JupiterRouteV2SellUsdc)"

definition rs_execution_of :: "('a) assert_safe_execution_request_scheme \<Rightarrow> rs_assert_safe_execution" where
  "rs_execution_of r =
     \<lparr>rs_expected = rs_state_of (expected r), rs_expected_phase = rs_phase_of (expectedPhase r),
      rs_window = rs_window_of (window r)\<rparr>"

definition rs_request_of :: "bytes \<Rightarrow> assert_safe_execution_v2_request \<Rightarrow> rs_assert_safe_execution_v2" where
  "rs_request_of mint r =
     \<lparr>rs_expected_mint = mint, rs_execution = rs_execution_of r,
      rs_adapter = rs_adapter_of (adapterKind r),
      rs_downstream_commitment = downstreamCommitment r\<rparr>"

lemma unpack_v2_layout:
  assumes mint: "length mint = 32" and ok: "v2_request_ok r"
  shows "unpack (v2_layout mint r) = Inr (rs_request_of mint r)"
proof -
  have v: "isValidStoredMultiplier (multiplier (expected r))"
      "isValidStoredMultiplier (newMultiplier (expected r))"
    and l: "length (multiplier (expected r)) = 8" "length (newMultiplier (expected r)) = 8"
      "length (downstreamCommitment r) = 32"
    using ok by (auto simp: v2_request_ok_def isValidStoredMultiplier_length)
  have p: "rs_phase_from_u8 (word_of_int (expectedPhase r)) = Some (rs_phase_of (expectedPhase r))"
    using ok by (auto simp: v2_request_ok_def rs_phase_from_u8_def rs_phase_of_def Pending_def Activated_def)
  have a: "adapter_from_u8 (word_of_int (adapterKind r)) = Some (rs_adapter_of (adapterKind r))"
    using ok by (auto simp: v2_request_ok_def isDownstreamAdapterKind_def adapter_from_u8_def
        rs_adapter_of_def adapter_kind_defs)
  have w: "(word_of_nat (le_nat (u32_bytes_of_number (beforeSecs (window r)))) :: 32 word)
             = word_of_int (the (js_int (beforeSecs (window r))))"
      "(word_of_nat (le_nat (u32_bytes_of_number (afterSecs (window r)))) :: 32 word)
             = word_of_int (the (js_int (afterSecs (window r))))"
    using ok by (auto simp: v2_request_ok_def js_int_in_iff word_of_u32_bytes)
  have len: "length (v2_layout mint r) = 99" by (rule length_v2_layout [OF mint ok])
  show ?thesis
    using len unfolding unpack_def v2_layout_def unpack_fields_def
    by (simp add: mint l v p a w stored_multiplier_new_iff word_of_le_bytes_int
        rs_request_of_def rs_execution_of_def rs_state_of_def rs_window_of_def)
qed

end
