(* ===== verification/Guard_Policy.thy ===== *)
theory Guard_Policy
  imports Guard_Program
begin

text \<open>
  The execution-time safety policy, twice: the program's \<open>guard::check\<close>
  (\<open>programs/equity_guard/src/guard.rs\<close>, on \<open>i64\<close> with checked arithmetic) and the client's offline
  mirror \<open>checkGuardOffline\<close> (\<open>packages/guard-client/src/offline-check.ts\<close>, on bigints). The locale
  \<open>guard_policy\<close> is the contract both promise; its lemmas say what an accepted execution means, and
  both definitions interpret it. The mirror lemma says the two verdicts are equal.
\<close>

section \<open>offline-check.ts\<close>

text \<open>\<open>BigInt(x)\<close> of a number throws a \<open>RangeError\<close> unless it is an integer.\<close>

definition bigint_of_number :: "js_number \<Rightarrow> js_exn + int" where
  "bigint_of_number x = (case js_int x of None \<Rightarrow> Inl RangeError | Some i \<Rightarrow> Inr i)"

definition checkGuardOffline ::
    "('a) assert_safe_execution_request_scheme \<Rightarrow> protected_state \<Rightarrow> int \<Rightarrow>
       js_exn + equity_guard_error option" where
  "checkGuardOffline request actual unixTimestamp =
     (let e = expected request in
      if \<not> bytesEqual (multiplier actual) (multiplier e) then Inr (Some MultiplierChanged)
      else if \<not> bytesEqual (newMultiplier actual) (newMultiplier e) then Inr (Some NewMultiplierChanged)
      else if newMultiplierEffectiveTimestamp actual \<noteq> newMultiplierEffectiveTimestamp e
      then Inr (Some EffectiveTimestampChanged)
      else if \<not> hasScheduledChange actual then Inr None
      else let t = newMultiplierEffectiveTimestamp actual in
        bindE (bigint_of_number (beforeSecs (window request))) (\<lambda>before.
        bindE (bigint_of_number (afterSecs (window request))) (\<lambda>after.
          let start = t - before; end = t + after in
          if start < I64_MIN \<or> end > I64_MAX then Inr (Some ArithmeticOverflow)
          else if start \<le> unixTimestamp \<and> unixTimestamp \<le> end then Inr (Some InsideTransitionWindow)
          else if phaseAt actual unixTimestamp \<noteq> expectedPhase request
          then Inr (Some ActivationPhaseChanged)
          else Inr None)))"

section \<open>guard.rs\<close>

definition i64_checked :: "int \<Rightarrow> equity_guard_error + int" where
  "i64_checked i = (if I64_MIN \<le> i \<and> i \<le> I64_MAX then Inr i else Inl ArithmeticOverflow)"

definition window_contains ::
    "rs_protection_window \<Rightarrow> 64 word \<Rightarrow> 64 word \<Rightarrow> equity_guard_error + bool" where
  "window_contains w activation now =
     bindE (i64_checked (sint activation - uint (rs_before_secs w))) (\<lambda>start.
     bindE (i64_checked (sint activation + uint (rs_after_secs w))) (\<lambda>end.
       Inr (start \<le> sint now \<and> sint now \<le> end)))"

definition guard_check ::
    "rs_assert_safe_execution \<Rightarrow> rs_protected_state \<Rightarrow> 64 word \<Rightarrow> equity_guard_error + unit" where
  "guard_check request actual now =
     (let e = rs_expected request in
      if rs_multiplier actual \<noteq> rs_multiplier e then Inl MultiplierChanged
      else if rs_new_multiplier actual \<noteq> rs_new_multiplier e then Inl NewMultiplierChanged
      else if rs_effective_timestamp actual \<noteq> rs_effective_timestamp e
      then Inl EffectiveTimestampChanged
      else if \<not> rs_has_scheduled_change actual then Inr ()
      else bindE (window_contains (rs_window request) (rs_effective_timestamp actual) now)
        (\<lambda>inside.
          if inside then Inl InsideTransitionWindow
          else if rs_phase_at actual now \<noteq> rs_expected_phase request
          then Inl ActivationPhaseChanged
          else Inr ()))"

section \<open>The contract\<close>

text \<open>The multiplier Token-2022 treats as effective at a time: \<open>newMultiplier\<close> from the activation on.\<close>

definition effective_multiplier :: "protected_state \<Rightarrow> int \<Rightarrow> bytes" where
  "effective_multiplier s t =
     (if t \<ge> newMultiplierEffectiveTimestamp s then newMultiplier s else multiplier s)"

definition phase_multiplier :: "protected_state \<Rightarrow> activation_phase \<Rightarrow> bytes" where
  "phase_multiplier s p = (if p = Activated then newMultiplier s else multiplier s)"

text \<open>
  A policy accepts an execution exactly when the stored state is the expected one and, if a change
  is scheduled, the time is outside the inclusive window, whose bounds fit an \<open>i64\<close>, and in the
  expected phase. \<open>before\<close> and \<open>after\<close> are \<open>None\<close> where the request carries no whole number of
  seconds.
\<close>

locale guard_policy =
  fixes accepts :: "'req \<Rightarrow> 'st \<Rightarrow> 'time \<Rightarrow> bool"
    and bound_state :: "'req \<Rightarrow> protected_state"
    and bound_phase :: "'req \<Rightarrow> activation_phase"
    and before after :: "'req \<Rightarrow> int option"
    and state :: "'st \<Rightarrow> protected_state"
    and time :: "'time \<Rightarrow> int"
  assumes accepts_iff:
    "accepts r s now \<longleftrightarrow>
       state s = bound_state r \<and>
       (hasScheduledChange (state s) \<longrightarrow>
         (\<exists>b a. before r = Some b \<and> after r = Some a \<and>
            I64_MIN \<le> newMultiplierEffectiveTimestamp (state s) - b \<and>
            newMultiplierEffectiveTimestamp (state s) + a \<le> I64_MAX \<and>
            \<not> (newMultiplierEffectiveTimestamp (state s) - b \<le> time now \<and>
                time now \<le> newMultiplierEffectiveTimestamp (state s) + a)) \<and>
         phaseAt (state s) (time now) = bound_phase r)"
begin

lemma stale_state_refused: "state s \<noteq> bound_state r \<Longrightarrow> \<not> accepts r s now"
  by (simp add: accepts_iff)

lemma accepted_effective:
  assumes "accepts r s now"
  shows "effective_multiplier (state s) (time now) = phase_multiplier (bound_state r) (bound_phase r)"
proof (cases "hasScheduledChange (state s)")
  case True
  with assms have "phaseAt (state s) (time now) = bound_phase r" and "state s = bound_state r"
    by (auto simp: accepts_iff)
  then show ?thesis
    by (auto simp: effective_multiplier_def phase_multiplier_def phaseAt_def Pending_def Activated_def
        split: if_splits)
next
  case False
  with assms show ?thesis
    by (auto simp: accepts_iff effective_multiplier_def phase_multiplier_def hasScheduledChange_iff)
qed

lemma accepted_outside_window:
  assumes "accepts r s now" and "hasScheduledChange (state s)"
    and "before r = Some b" and "after r = Some a"
  shows "time now < newMultiplierEffectiveTimestamp (state s) - b \<or>
         newMultiplierEffectiveTimestamp (state s) + a < time now"
  using assms by (auto simp: accepts_iff)

lemma activation_not_crossed:
  assumes "accepts r s t1" and "accepts r s' t2" and "hasScheduledChange (bound_state r)"
  shows "time t1 \<ge> newMultiplierEffectiveTimestamp (bound_state r) \<longleftrightarrow>
         time t2 \<ge> newMultiplierEffectiveTimestamp (bound_state r)"
  using assms by (auto simp: accepts_iff phaseAt_def Pending_def Activated_def split: if_splits)

end

text \<open>The client's mirror keeps the contract.\<close>

lemma protected_state_eq_iff:
  "(s :: protected_state) = s' \<longleftrightarrow>
     multiplier s = multiplier s' \<and> newMultiplier s = newMultiplier s' \<and>
     newMultiplierEffectiveTimestamp s = newMultiplierEffectiveTimestamp s'"
  by (cases s; cases s') simp

lemma checkGuardOffline_None:
  "checkGuardOffline r s now = Inr None \<longleftrightarrow>
     s = expected r \<and>
     (hasScheduledChange s \<longrightarrow>
       (\<exists>b a. js_int (beforeSecs (window r)) = Some b \<and> js_int (afterSecs (window r)) = Some a \<and>
          I64_MIN \<le> newMultiplierEffectiveTimestamp s - b \<and>
          newMultiplierEffectiveTimestamp s + a \<le> I64_MAX \<and>
          \<not> (newMultiplierEffectiveTimestamp s - b \<le> now \<and>
              now \<le> newMultiplierEffectiveTimestamp s + a)) \<and>
       phaseAt s now = expectedPhase r)"
  by (cases "js_int (beforeSecs (window r))"; cases "js_int (afterSecs (window r))")
    (simp_all add: checkGuardOffline_def Let_def bigint_of_number_def protected_state_eq_iff
      not_less, (safe; linarith)?)

interpretation client_policy: guard_policy
  "\<lambda>r s now. checkGuardOffline (r :: assert_safe_execution_request) s now = Inr None"
  "\<lambda>r. expected r" "\<lambda>r. expectedPhase r"
  "\<lambda>r. js_int (beforeSecs (window r))" "\<lambda>r. js_int (afterSecs (window r))"
  "\<lambda>s. s" "\<lambda>t. t"
  by unfold_locales (simp add: checkGuardOffline_None)

text \<open>The program's check keeps it too, read through \<open>sint\<close> and \<open>uint\<close>.\<close>

definition ts_state_of :: "rs_protected_state \<Rightarrow> protected_state" where
  "ts_state_of s =
     \<lparr>multiplier = rs_multiplier s, newMultiplier = rs_new_multiplier s,
      newMultiplierEffectiveTimestamp = sint (rs_effective_timestamp s)\<rparr>"

definition ts_phase_of :: "rs_activation_phase \<Rightarrow> activation_phase" where
  "ts_phase_of p = (case p of RsPending \<Rightarrow> Pending | RsActivated \<Rightarrow> Activated)"

lemma ts_state_of_inject: "ts_state_of s = ts_state_of s' \<longleftrightarrow> s = s'"
  by (cases s; cases s') (auto simp: ts_state_of_def intro: signed_word_eqI)

lemma ts_phase_of_inject: "ts_phase_of p = ts_phase_of q \<longleftrightarrow> p = q"
  by (cases p; cases q) (auto simp: ts_phase_of_def Pending_def Activated_def)

lemma hasScheduledChange_ts [simp]: "hasScheduledChange (ts_state_of s) = rs_has_scheduled_change s"
  by (simp add: hasScheduledChange_iff rs_has_scheduled_change_def ts_state_of_def)

lemma phaseAt_ts [simp]: "phaseAt (ts_state_of s) (sint now) = ts_phase_of (rs_phase_at s now)"
  by (simp add: phaseAt_def rs_phase_at_def ts_phase_of_def ts_state_of_def)

lemma timestamp_ts:
  "newMultiplierEffectiveTimestamp (ts_state_of s) = sint (rs_effective_timestamp s)"
  by (simp add: ts_state_of_def)

lemma i64_bounds: "I64_MIN \<le> sint (w :: 64 word) \<and> sint w \<le> I64_MAX"
  using sint_greater_eq [of w] sint_less [of w] by (simp add: I64_MIN_def I64_MAX_def)

lemma window_contains_eq:
  "window_contains w activation now =
     (let start = sint activation - uint (rs_before_secs w);
          stop = sint activation + uint (rs_after_secs w) in
      if start < I64_MIN \<or> stop > I64_MAX then Inl ArithmeticOverflow
      else Inr (start \<le> sint now \<and> sint now \<le> stop))"
proof -
  define b a where "b = uint (rs_before_secs w)" and "a = uint (rs_after_secs w)"
  then have "0 \<le> b" and "0 \<le> a" by simp_all
  with i64_bounds [of activation] show ?thesis
    unfolding window_contains_def i64_checked_def Let_def b_def [symmetric] a_def [symmetric] by auto
qed

lemma guard_check_accepts:
  "guard_check r s now = Inr () \<longleftrightarrow>
     s = rs_expected r \<and>
     (rs_has_scheduled_change s \<longrightarrow>
        window_contains (rs_window r) (rs_effective_timestamp s) now = Inr False \<and>
        rs_phase_at s now = rs_expected_phase r)"
  by (auto simp: guard_check_def Let_def err_simps split: if_splits)

interpretation program_policy: guard_policy
  "\<lambda>r s now. guard_check r s now = Inr ()"
  "\<lambda>r. ts_state_of (rs_expected r)" "\<lambda>r. ts_phase_of (rs_expected_phase r)"
  "\<lambda>r. Some (uint (rs_before_secs (rs_window r)))"
  "\<lambda>r. Some (uint (rs_after_secs (rs_window r)))"
  ts_state_of sint
  by unfold_locales
    (simp add: guard_check_accepts ts_state_of_inject ts_phase_of_inject window_contains_eq Let_def
      timestamp_ts not_less)

section \<open>The mirror is exact\<close>

text \<open>
  What \<open>checkGuardOffline\<close> returns for a request and state the ABI can carry is what the program
  decides on their decoded forms: \<open>null\<close> for \<open>Ok\<close>, the error's name for \<open>Err\<close>.
\<close>

definition verdict_of :: "equity_guard_error + unit \<Rightarrow> equity_guard_error option" where
  "verdict_of r = (case r of Inl e \<Rightarrow> Some e | Inr _ \<Rightarrow> None)"

definition storable_state :: "protected_state \<Rightarrow> bool" where
  "storable_state s \<longleftrightarrow>
     I64_MIN \<le> newMultiplierEffectiveTimestamp s \<and> newMultiplierEffectiveTimestamp s \<le> I64_MAX"

lemma ts_rs_state: "storable_state s \<Longrightarrow> ts_state_of (rs_state_of s) = s"
  by (simp add: ts_state_of_def rs_state_of_def storable_state_def sint_i64)

lemma rs_state_of_inject:
  "storable_state s \<Longrightarrow> storable_state s' \<Longrightarrow> rs_state_of s = rs_state_of s' \<longleftrightarrow> s = s'"
  by (metis ts_rs_state)

lemma window_words:
  assumes "js_int_in 0 U32_MAX (beforeSecs w)" and "js_int_in 0 U32_MAX (afterSecs w)"
  shows "js_int (beforeSecs w) = Some (uint (rs_before_secs (rs_window_of w)))"
    and "js_int (afterSecs w) = Some (uint (rs_after_secs (rs_window_of w)))"
proof -
  have u: "uint (word_of_int i :: 32 word) = i" if "0 \<le> i" and "i \<le> U32_MAX" for i
    using that by (simp add: U32_MAX_def uint_word_of_int_eq take_bit_int_eq_self)
  show "js_int (beforeSecs w) = Some (uint (rs_before_secs (rs_window_of w)))"
    using assms(1) by (auto simp: js_int_in_iff rs_window_of_def u)
  show "js_int (afterSecs w) = Some (uint (rs_after_secs (rs_window_of w)))"
    using assms(2) by (auto simp: js_int_in_iff rs_window_of_def u)
qed

lemma word_i64_eq_iff:
  assumes "I64_MIN \<le> i" "i \<le> I64_MAX" "I64_MIN \<le> j" "j \<le> I64_MAX"
  shows "(word_of_int i :: 64 word) = word_of_int j \<longleftrightarrow> i = j"
  using assms by (metis sint_i64)

lemma rs_phase_of_eq_iff:
  assumes "p = Pending \<or> p = Activated" and "q = Pending \<or> q = Activated"
  shows "rs_phase_of p = rs_phase_of q \<longleftrightarrow> p = q"
  using assms by (auto simp: rs_phase_of_def Pending_def Activated_def)

lemma rs_phase_at_of:
  assumes "storable_state s" and "I64_MIN \<le> now" "now \<le> I64_MAX"
  shows "rs_phase_at (rs_state_of s) (word_of_int now) = rs_phase_of (phaseAt s now)"
  using assms by (simp add: rs_phase_at_def rs_state_of_def storable_state_def sint_i64 phaseAt_def
      rs_phase_of_def Pending_def Activated_def)

lemma checkGuardOffline_mirrors:
  assumes req: "storable_state (expected r)" "expectedPhase r = Pending \<or> expectedPhase r = Activated"
      "js_int_in 0 U32_MAX (beforeSecs (window r))" "js_int_in 0 U32_MAX (afterSecs (window r))"
    and s: "storable_state s" and now: "I64_MIN \<le> now" "now \<le> I64_MAX"
  shows "checkGuardOffline r s now =
           Inr (verdict_of (guard_check (rs_execution_of r) (rs_state_of s) (word_of_int now)))"
proof -
  let ?t = "newMultiplierEffectiveTimestamp s"
  have t: "sint (word_of_int ?t :: 64 word) = ?t" "sint (word_of_int now :: 64 word) = now"
    using s now by (simp_all add: storable_state_def sint_i64)
  have te: "(word_of_int ?t :: 64 word) = word_of_int (newMultiplierEffectiveTimestamp (expected r))
              \<longleftrightarrow> ?t = newMultiplierEffectiveTimestamp (expected r)"
    using s req(1) by (intro word_i64_eq_iff) (auto simp: storable_state_def)
  have ph: "phaseAt s now = Pending \<or> phaseAt s now = Activated"
    by (auto simp: phaseAt_def)
  note w = window_words [OF req(3,4)]
  show ?thesis
  proof (cases "s = expected r")
    case False
    then show ?thesis
      by (auto simp: checkGuardOffline_def guard_check_def rs_execution_of_def Let_def te
          rs_state_of_def verdict_of_def protected_state_eq_iff)
  next
    case True
    then show ?thesis
      using rs_phase_at_of [OF s now] rs_phase_of_eq_iff [OF ph req(2)] t
      by (auto simp: checkGuardOffline_def guard_check_def rs_execution_of_def Let_def
          window_contains_eq w bigint_of_number_def verdict_of_def rs_state_of_def
          rs_has_scheduled_change_def hasScheduledChange_iff)
  qed
qed

section \<open>Properties\<close>

text \<open>A request for witnesses: multiplier 1.0 scheduled to become 2.0 at time 1000.\<close>

definition one_f64 :: bytes where "one_f64 = [0, 0, 0, 0, 0, 0, 0xF0, 0x3F]"
definition two_f64 :: bytes where "two_f64 = [0, 0, 0, 0, 0, 0, 0, 0x40]"

definition sample_state :: protected_state where
  "sample_state = \<lparr>multiplier = one_f64, newMultiplier = two_f64, newMultiplierEffectiveTimestamp = 1000\<rparr>"

definition sample_request :: assert_safe_execution_v2_request where
  "sample_request =
     \<lparr>expected = sample_state, expectedPhase = Pending,
      window = \<lparr>beforeSecs = JNum 60, afterSecs = JNum 30\<rparr>, expectedMint = ''mint'',
      adapterKind = TOKEN_2022_TRANSFER_CHECKED, downstreamCommitment = replicate 32 5\<rparr>"

definition sample_encoder :: "address \<Rightarrow> bytes" where
  "sample_encoder a = replicate 32 7"

lemma sample_multipliers: "isValidStoredMultiplier one_f64" "isValidStoredMultiplier two_f64"
  by (simp_all add: isValidStoredMultiplier_bits multiplier_exponent_ok_def one_f64_def two_f64_def)

lemma sample_request_ok: "v2_request_ok sample_request"
  by (simp add: v2_request_ok_def sample_request_def sample_state_def sample_multipliers
      I64_MIN_def I64_MAX_def U32_MAX_def js_int_in_def isDownstreamAdapterKind_def)

text \<open>
  C3. Round trip across the two languages: whatever payload the client's encoder produces has the
  ABI's 99 bytes, and the program's \<open>unpack\<close> accepts it and reads back every field of the request
  at the width the program uses.
\<close>

theorem payload_roundtrip:
  assumes "length (encodeAddress (expectedMint r)) = 32"
    and "encodeAssertSafeExecutionV2 encodeAddress r = Inr data"
  shows "length data = ASSERT_SAFE_EXECUTION_V2_LEN \<and>
         unpack data = Inr (rs_request_of (encodeAddress (expectedMint r)) r)"
proof -
  have ok: "v2_request_ok r" using encode_refuses [of r encodeAddress] assms(2) by auto
  then have "data = v2_layout (encodeAddress (expectedMint r)) r"
    using encode_ok [of encodeAddress r, OF assms(1)] assms(2) by simp
  with ok show ?thesis
    using length_v2_layout [OF assms(1)] unpack_v2_layout [OF assms(1)]
    by (simp add: ASSERT_SAFE_EXECUTION_V2_LEN_def)
qed

theorem payload_roundtrip_witness:
  "\<exists>data. encodeAssertSafeExecutionV2 sample_encoder sample_request = Inr data \<and>
     length data = ASSERT_SAFE_EXECUTION_V2_LEN \<and>
     unpack data = Inr (rs_request_of (sample_encoder (expectedMint sample_request)) sample_request)"
proof -
  have l: "length (sample_encoder (expectedMint sample_request)) = 32" by (simp add: sample_encoder_def)
  note e = encode_ok [of sample_encoder sample_request, OF l sample_request_ok]
  from payload_roundtrip [of sample_encoder sample_request, OF l e] e show ?thesis by blast
qed

text \<open>
  C5. The encoder is total and fails closed: with the 32-byte address encoder it succeeds exactly on
  the requests the program can decode, never runs into a \<open>RangeError\<close>, and otherwise throws one of
  three documented client errors.
\<close>

theorem encoder_fails_closed:
  assumes "length (encodeAddress (expectedMint r)) = 32"
  shows "(if v2_request_ok r then \<exists>data. encodeAssertSafeExecutionV2 encodeAddress r = Inr data
          else \<exists>c \<in> {InvalidExpectedState_code, InvalidProtectionWindow_code, InvalidDownstream_code}.
                 encodeAssertSafeExecutionV2 encodeAddress r = Inl (GuardClientError c None))"
  using encode_ok [of encodeAddress r, OF assms] encode_refuses [of r encodeAddress] by auto

theorem encoder_fails_closed_witness:
  "\<exists>data. encodeAssertSafeExecutionV2 sample_encoder sample_request = Inr data"
proof -
  have "length (sample_encoder (expectedMint sample_request)) = 32" by (simp add: sample_encoder_def)
  from encoder_fails_closed [of sample_encoder sample_request, OF this] show ?thesis by (simp add: sample_request_ok)
qed

text \<open>
  The client's rule for stored multipliers (a finite double of at least the smallest normal
  one, decided on the decoded number) and the program's (\<open>is_normal\<close> and positive, decided on the
  bits) accept the same eight-byte values.
\<close>

theorem stored_multiplier_rules_agree:
  "isValidStoredMultiplier bs \<longleftrightarrow> length bs = 8 \<and> stored_multiplier_new bs = Some bs"
  using stored_multiplier_new_iff [of bs] isValidStoredMultiplier_length [of bs]
  by (cases "length bs = 8") auto

text \<open>
  The client's table of on-chain error codes is the program's enumeration: a code decodes to a
  name exactly when it is that error's discriminant, so no two errors share a code and none is
  missing.
\<close>

theorem error_names_match_program:
  "equityGuardErrorName code = Some e \<longleftrightarrow> program_error_discriminant e = code"
proof
  show "equityGuardErrorName code = Some e \<Longrightarrow> program_error_discriminant e = code"
    by (auto simp: equityGuardErrorName_def EQUITY_GUARD_ERROR_CODES_def split: if_splits)
  show "program_error_discriminant e = code \<Longrightarrow> equityGuardErrorName code = Some e"
    by (cases e) (auto simp: equityGuardErrorName_def EQUITY_GUARD_ERROR_CODES_def)
qed

text \<open>
  C1. The offline mirror is exact: for a request the ABI can carry, a stored state and an \<open>i64\<close>
  clock, the program's check of the payload the client encoded gives \<open>Ok\<close> where
  \<open>checkGuardOffline\<close> gives \<open>null\<close> and the same named error otherwise.
\<close>

theorem offline_mirror_exact:
  assumes "length (encodeAddress (expectedMint r)) = 32"
    and "encodeAssertSafeExecutionV2 encodeAddress r = Inr data"
    and "unpack data = Inr req"
    and "storable_state s" and "I64_MIN \<le> now" and "now \<le> I64_MAX"
  shows "checkGuardOffline r s now =
           Inr (verdict_of (guard_check (rs_execution req) (rs_state_of s) (word_of_int now)))"
proof -
  have ok: "v2_request_ok r" using encode_refuses [of r encodeAddress] assms(2) by auto
  have "data = v2_layout (encodeAddress (expectedMint r)) r"
    using encode_ok [of encodeAddress r, OF assms(1) ok] assms(2) by simp
  then have "rs_execution req = rs_execution_of r"
    using unpack_v2_layout [OF assms(1) ok] assms(3) by (auto simp: rs_request_of_def)
  moreover have "storable_state (expected r)" using ok by (simp add: v2_request_ok_def storable_state_def)
  ultimately show ?thesis
    using checkGuardOffline_mirrors [of r s now] ok assms(4-6) by (simp add: v2_request_ok_def)
qed

theorem offline_mirror_exact_witness:
  "checkGuardOffline sample_request sample_state 950 = Inr (Some InsideTransitionWindow) \<and>
   checkGuardOffline sample_request sample_state 950 =
     Inr (verdict_of (guard_check (rs_execution_of sample_request) (rs_state_of sample_state) (word_of_int 950)))"
proof -
  have l: "length (sample_encoder (expectedMint sample_request)) = 32" by (simp add: sample_encoder_def)
  have s: "storable_state sample_state" "I64_MIN \<le> 950" "950 \<le> I64_MAX"
    by (simp_all add: storable_state_def sample_state_def I64_MIN_def I64_MAX_def)
  have "checkGuardOffline sample_request sample_state 950 = Inr (Some InsideTransitionWindow)"
    by (simp add: checkGuardOffline_def sample_request_def sample_state_def one_f64_def two_f64_def
        hasScheduledChange_iff bigint_of_number_def I64_MIN_def I64_MAX_def)
  moreover note offline_mirror_exact [of sample_encoder sample_request,
      OF l encode_ok [of sample_encoder sample_request, OF l sample_request_ok]
      unpack_v2_layout [OF l sample_request_ok] s]
  ultimately show ?thesis by (simp add: rs_request_of_def)
qed

text \<open>
  C2. What the program's \<open>Ok\<close> guarantees: the stored state is byte for byte the authorized one, the
  multiplier in effect at execution is the one of the authorized phase, and with a scheduled change
  the clock lies strictly outside the protection window.
\<close>

theorem program_accepts_only_authorized_state:
  assumes "guard_check req s now = Inr ()"
  shows "s = rs_expected req \<and>
         effective_multiplier (ts_state_of s) (sint now) =
           phase_multiplier (ts_state_of (rs_expected req)) (ts_phase_of (rs_expected_phase req)) \<and>
         (rs_multiplier s \<noteq> rs_new_multiplier s \<longrightarrow>
            sint now < sint (rs_effective_timestamp s) - uint (rs_before_secs (rs_window req)) \<or>
            sint (rs_effective_timestamp s) + uint (rs_after_secs (rs_window req)) < sint now)"
  using assms program_policy.accepted_effective [OF assms]
    program_policy.accepted_outside_window [OF assms]
  by (auto simp: guard_check_accepts hasScheduledChange_iff ts_state_of_def)

theorem program_accepts_only_authorized_state_witness:
  "guard_check (rs_execution_of sample_request) (rs_state_of sample_state) 100 = Inr () \<and>
   effective_multiplier (ts_state_of (rs_state_of sample_state)) 100 = one_f64"
proof -
  have ok: "guard_check (rs_execution_of sample_request) (rs_state_of sample_state) 100 = Inr ()"
    by (simp add: guard_check_def rs_execution_of_def rs_state_of_def sample_request_def
        sample_state_def window_contains_eq rs_window_of_def rs_phase_of_def rs_phase_at_def Let_def
        rs_has_scheduled_change_def one_f64_def two_f64_def I64_MIN_def I64_MAX_def)
  from program_accepts_only_authorized_state [OF ok] ok show ?thesis
    by (simp add: phase_multiplier_def rs_execution_of_def ts_state_of_def rs_state_of_def
        ts_phase_of_def rs_phase_of_def sample_request_def sample_state_def Pending_def Activated_def)
qed

text \<open>
  C4. One authorization never spans an activation: if the client's policy accepts the same request
  at two times while a change is scheduled, both times are on the same side of the effective
  timestamp.
\<close>

theorem authorization_never_spans_activation:
  assumes "checkGuardOffline (r :: assert_safe_execution_request) s t1 = Inr None"
    and "checkGuardOffline r s' t2 = Inr None"
    and "multiplier (expected r) \<noteq> newMultiplier (expected r)"
  shows "newMultiplierEffectiveTimestamp (expected r) \<le> t1 \<longleftrightarrow>
         newMultiplierEffectiveTimestamp (expected r) \<le> t2"
  using client_policy.activation_not_crossed [OF assms(1,2)] assms(3)
  by (simp add: hasScheduledChange_iff)

theorem authorization_never_spans_activation_witness:
  "\<exists>r. checkGuardOffline (r :: assert_safe_execution_request) sample_state 100 = Inr None \<and>
     checkGuardOffline r sample_state 200 = Inr None \<and>
     (newMultiplierEffectiveTimestamp (expected r) \<le> 100 \<longleftrightarrow>
      newMultiplierEffectiveTimestamp (expected r) \<le> 200)"
proof -
  let ?r = "\<lparr>expected = sample_state, expectedPhase = Pending,
             window = \<lparr>beforeSecs = JNum 60, afterSecs = JNum 30\<rparr>\<rparr> :: assert_safe_execution_request"
  have c: "checkGuardOffline ?r sample_state 100 = Inr None"
    "checkGuardOffline ?r sample_state 200 = Inr None"
    by (simp_all add: checkGuardOffline_def sample_state_def one_f64_def two_f64_def
        hasScheduledChange_iff bigint_of_number_def I64_MIN_def I64_MAX_def phaseAt_def)
  have d: "multiplier (expected ?r) \<noteq> newMultiplier (expected ?r)"
    by (simp add: sample_state_def one_f64_def two_f64_def)
  show ?thesis using c authorization_never_spans_activation [OF c d] by blast
qed

end
