(* ===== verification/Mint_State.thy ===== *)
theory Mint_State
  imports Guard_Policy
begin

text \<open>
  Decoding a Token-2022 mint account
  (\<open>packages/guard-client/src/mint-state.ts\<close>). A \<open>DataView\<close> read
  outside the buffer is a \<open>RangeError\<close> of the model, so that its absence is a theorem. The
  lemmas characterise the accounts the decoder accepts from the serializer's side.
\<close>

section \<open>DataView reads\<close>

definition get_le :: "nat \<Rightarrow> bytes \<Rightarrow> nat \<Rightarrow> js_exn + nat" where
  "get_le n data off =
     (if off + n \<le> length data then Inr (le_nat (bytes_at off n data)) else Inl RangeError)"

definition getBigInt64 :: "bytes \<Rightarrow> nat \<Rightarrow> js_exn + int" where
  "getBigInt64 data off =
     (if off + 8 \<le> length data then Inr (le_int (bytes_at off 8 data)) else Inl RangeError)"

section \<open>mint-state.ts\<close>

definition TOKEN_2022_PROGRAM_ADDRESS :: address where
  "TOKEN_2022_PROGRAM_ADDRESS = ''TokenzQdBNbLqP5VEhdkAS6EPFLC1PHnBqCXEpPxuEb''"

definition BASE_MINT_LEN :: nat where "BASE_MINT_LEN = 82"
definition MULTISIG_LEN :: nat where "MULTISIG_LEN = 355"
definition ACCOUNT_TYPE_OFFSET :: nat where "ACCOUNT_TYPE_OFFSET = 165"
definition TLV_START :: nat where "TLV_START = ACCOUNT_TYPE_OFFSET + 1"
definition ACCOUNT_TYPE_MINT :: byte where "ACCOUNT_TYPE_MINT = 1"
definition MINT_AUTHORITY_TAG_OFFSET :: nat where "MINT_AUTHORITY_TAG_OFFSET = 0"
definition MINT_DECIMALS_OFFSET :: nat where "MINT_DECIMALS_OFFSET = 44"
definition MINT_IS_INITIALIZED_OFFSET :: nat where "MINT_IS_INITIALIZED_OFFSET = 45"
definition FREEZE_AUTHORITY_TAG_OFFSET :: nat where "FREEZE_AUTHORITY_TAG_OFFSET = 46"
definition TLV_HEADER_LEN :: nat where "TLV_HEADER_LEN = 4"
definition SCALED_UI_AMOUNT_CONFIG_LEN :: nat where "SCALED_UI_AMOUNT_CONFIG_LEN = 56"
definition PAUSABLE_CONFIG_LEN :: nat where "PAUSABLE_CONFIG_LEN = 33"
definition PAUSED_OFFSET :: nat where "PAUSED_OFFSET = 32"

lemmas mint_layout_defs =
  BASE_MINT_LEN_def MULTISIG_LEN_def ACCOUNT_TYPE_OFFSET_def TLV_START_def ACCOUNT_TYPE_MINT_def
  MINT_AUTHORITY_TAG_OFFSET_def MINT_DECIMALS_OFFSET_def MINT_IS_INITIALIZED_OFFSET_def
  FREEZE_AUTHORITY_TAG_OFFSET_def TLV_HEADER_LEN_def SCALED_UI_AMOUNT_CONFIG_LEN_def
  PAUSABLE_CONFIG_LEN_def PAUSED_OFFSET_def

text \<open>The numbers of the object \<open>ExtensionType\<close>.\<close>

definition Ext_Uninitialized :: nat where "Ext_Uninitialized = 0"
definition Ext_TransferFeeConfig :: nat where "Ext_TransferFeeConfig = 1"
definition Ext_ConfidentialTransferMint :: nat where "Ext_ConfidentialTransferMint = 4"
definition Ext_NonTransferable :: nat where "Ext_NonTransferable = 9"
definition Ext_InterestBearingConfig :: nat where "Ext_InterestBearingConfig = 10"
definition Ext_ConfidentialTransferFeeConfig :: nat where "Ext_ConfidentialTransferFeeConfig = 16"
definition Ext_ConfidentialMintBurn :: nat where "Ext_ConfidentialMintBurn = 24"
definition Ext_ScaledUiAmount :: nat where "Ext_ScaledUiAmount = 25"
definition Ext_Pausable :: nat where "Ext_Pausable = 26"
definition Ext_MaxKnown :: nat where "Ext_MaxKnown = 28"

lemmas extension_type_defs =
  Ext_Uninitialized_def Ext_TransferFeeConfig_def Ext_ConfidentialTransferMint_def
  Ext_NonTransferable_def Ext_InterestBearingConfig_def Ext_ConfidentialTransferFeeConfig_def
  Ext_ConfidentialMintBurn_def Ext_ScaledUiAmount_def Ext_Pausable_def Ext_MaxKnown_def

record tlv_entry =
  tlv_type :: nat
  tlv_length :: nat
  valueOffset :: nat

definition validateBaseMint :: "bytes \<Rightarrow> js_exn + unit" where
  "validateBaseMint data =
     (if length data < BASE_MINT_LEN \<or> length data = MULTISIG_LEN
      then Inl (GuardClientError InvalidMintData_code None)
      else
        bindE (mapE (\<lambda>offset.
            bindE (get_le 4 data offset) (\<lambda>tag.
              if tag \<noteq> 0 \<and> tag \<noteq> 1 then Inl (GuardClientError InvalidMintData_code None) else Inr ()))
          [MINT_AUTHORITY_TAG_OFFSET, FREEZE_AUTHORITY_TAG_OFFSET]) (\<lambda>_.
        if js_index data MINT_IS_INITIALIZED_OFFSET \<noteq> Some 1
        then Inl (GuardClientError InvalidMintData_code None) else Inr ()))"

text \<open>
  The loop of \<open>readTlvEntries\<close>: \<open>seen\<close> and \<open>entries\<close> are its accumulators (\<open>entries\<close> in push order).
  It terminates because the offset grows by at least the header.
\<close>

function readTlv_loop ::
    "bytes \<Rightarrow> nat \<Rightarrow> nat list \<Rightarrow> tlv_entry list \<Rightarrow> js_exn + tlv_entry list" where
  "readTlv_loop data offset seen entries =
     (if length data - offset < 2 then Inr entries
      else bindE (get_le 2 data offset) (\<lambda>type.
        if type = Ext_Uninitialized then Inr entries
        else if type > Ext_MaxKnown then Inl (GuardClientError InvalidMintData_code None)
        else if length data - offset < TLV_HEADER_LEN
        then Inl (GuardClientError InvalidMintData_code None)
        else bindE (get_le 2 data (offset + 2)) (\<lambda>len.
          let value = offset + TLV_HEADER_LEN in
          if value + len > length data then Inl (GuardClientError InvalidMintData_code None)
          else if type \<in> set seen then Inl (GuardClientError InvalidMintData_code None)
          else readTlv_loop data (value + len) (type # seen)
                 (entries @ [\<lparr>tlv_type = type, tlv_length = len, valueOffset = value\<rparr>]))))"
  by auto
termination
  by (relation "measure (\<lambda>(data, offset, _, _). length data - offset)") (auto simp: TLV_HEADER_LEN_def)

declare readTlv_loop.simps [simp del]

definition readTlvEntries :: "bytes \<Rightarrow> js_exn + tlv_entry list" where
  "readTlvEntries data = readTlv_loop data TLV_START [] []"

text \<open>Owner, base mint, padding, account type and the whole TLV area.\<close>

definition parseMintAccount :: "address \<Rightarrow> bytes \<Rightarrow> js_exn + tlv_entry list" where
  "parseMintAccount owner data =
     (if owner \<noteq> TOKEN_2022_PROGRAM_ADDRESS then Inl (GuardClientError InvalidMintOwner_code None)
      else bindE (validateBaseMint data) (\<lambda>_.
        if length data = BASE_MINT_LEN then Inr []
        else if length data < TLV_START then Inl (GuardClientError InvalidMintData_code None)
        else if list_ex (\<lambda>byte. byte \<noteq> 0)
                  (bytes_at BASE_MINT_LEN (ACCOUNT_TYPE_OFFSET - BASE_MINT_LEN) data)
        then Inl (GuardClientError InvalidMintData_code None)
        else if js_index data ACCOUNT_TYPE_OFFSET \<noteq> Some ACCOUNT_TYPE_MINT
        then Inl (GuardClientError InvalidMintData_code None)
        else readTlvEntries data))"

definition assertValidMintExtensionCombination :: "nat list \<Rightarrow> js_exn + unit" where
  "assertValidMintExtensionCombination types =
     (let has = (\<lambda>t. t \<in> set types);
          invalid =
            (has Ext_ConfidentialTransferFeeConfig \<and>
               \<not> (has Ext_TransferFeeConfig \<and> has Ext_ConfidentialTransferMint)) \<or>
            (has Ext_TransferFeeConfig \<and> has Ext_ConfidentialTransferMint \<and>
               \<not> has Ext_ConfidentialTransferFeeConfig) \<or>
            (has Ext_ConfidentialMintBurn \<and> \<not> has Ext_ConfidentialTransferMint) \<or>
            (has Ext_ScaledUiAmount \<and> has Ext_InterestBearingConfig) \<or>
            (has Ext_NonTransferable \<and> has Ext_ConfidentialTransferMint \<and>
               \<not> has Ext_ConfidentialMintBurn)
      in if invalid then Inl (GuardClientError InvalidExtensionCombination_code None) else Inr ())"

definition decodeProtectedState :: "address \<Rightarrow> bytes \<Rightarrow> js_exn + protected_state" where
  "decodeProtectedState owner data =
     bindE (parseMintAccount owner data) (\<lambda>entries.
       if length data = BASE_MINT_LEN then Inl (GuardClientError MissingScaledUiAmount_code None)
       else case find (\<lambda>entry. tlv_type entry = Ext_ScaledUiAmount) entries of
         None \<Rightarrow> Inl (GuardClientError MissingScaledUiAmount_code None)
       | Some scaledUi \<Rightarrow>
           bindE (assertValidMintExtensionCombination (map tlv_type entries)) (\<lambda>_.
           if tlv_length scaledUi \<noteq> SCALED_UI_AMOUNT_CONFIG_LEN
           then Inl (GuardClientError InvalidMintData_code None)
           else let value = valueOffset scaledUi;
                    mult = bytes_at (value + 32) 8 data;
                    newMult = bytes_at (value + 48) 8 data
             in if \<not> isValidStoredMultiplier mult \<or> \<not> isValidStoredMultiplier newMult
                then Inl (GuardClientError InvalidMultiplier_code None)
                else bindE (getBigInt64 data (value + 40)) (\<lambda>timestamp.
                  Inr \<lparr>multiplier = mult, newMultiplier = newMult,
                       newMultiplierEffectiveTimestamp = timestamp\<rparr>)))"

record mint_metadata =
  decimals :: nat
  paused :: "bool option"

definition decodeMintMetadata :: "address \<Rightarrow> bytes \<Rightarrow> js_exn + mint_metadata" where
  "decodeMintMetadata owner data =
     bindE (parseMintAccount owner data) (\<lambda>entries.
       case js_index data MINT_DECIMALS_OFFSET of
         None \<Rightarrow> Inl (GuardClientError InvalidMintData_code None)
       | Some d \<Rightarrow>
           (case find (\<lambda>entry. tlv_type entry = Ext_Pausable) entries of
              None \<Rightarrow> Inr \<lparr>decimals = unat d, paused = None\<rparr>
            | Some pausable \<Rightarrow>
                if tlv_length pausable \<noteq> PAUSABLE_CONFIG_LEN
                then Inl (GuardClientError InvalidMintData_code None)
                else let flag = js_index data (valueOffset pausable + PAUSED_OFFSET) in
                  if flag \<noteq> Some 0 \<and> flag \<noteq> Some 1
                  then Inl (GuardClientError InvalidMintData_code None)
                  else Inr \<lparr>decimals = unat d, paused = Some (flag = Some 1)\<rparr>))"

section \<open>What the TLV walk accepts\<close>

text \<open>
  The area the walk should accept, written from the serializer's side: a list of extensions with
  known, pairwise different types, then an end marker: fewer than two bytes, or an uninitialized
  (zero) type.
\<close>

type_synonym extension = "nat \<times> bytes"

definition tlv_bytes1 :: "extension \<Rightarrow> bytes" where
  "tlv_bytes1 x = le_bytes 2 (fst x) @ le_bytes 2 (length (snd x)) @ snd x"

definition tlv_bytes :: "extension list \<Rightarrow> bytes" where
  "tlv_bytes xs = concat (map tlv_bytes1 xs)"

fun entries_at :: "nat \<Rightarrow> extension list \<Rightarrow> tlv_entry list" where
  "entries_at off [] = []"
| "entries_at off (x # xs) =
     \<lparr>tlv_type = fst x, tlv_length = length (snd x), valueOffset = off + 4\<rparr> #
     entries_at (off + 4 + length (snd x)) xs"

definition tlv_end :: "bytes \<Rightarrow> bool" where
  "tlv_end rest \<longleftrightarrow> length rest < 2 \<or> take 2 rest = [0, 0]"

definition extension_ok :: "extension \<Rightarrow> bool" where
  "extension_ok x \<longleftrightarrow> fst x \<noteq> 0 \<and> fst x \<le> 28 \<and> length (snd x) < 65536"

lemma tlv_bytes_Nil [simp]: "tlv_bytes [] = []"
  and tlv_bytes_Cons [simp]: "tlv_bytes (x # xs) = tlv_bytes1 x @ tlv_bytes xs"
  by (simp_all add: tlv_bytes_def)

lemma length_tlv_bytes1 [simp]: "length (tlv_bytes1 x) = 4 + length (snd x)"
  by (simp add: tlv_bytes1_def)

lemma map_tlv_type_entries_at [simp]: "map tlv_type (entries_at off xs) = map fst xs"
  by (induction off xs rule: entries_at.induct) simp_all

lemma get_le_append:
  "length p = off \<Longrightarrow> length v = n \<Longrightarrow> get_le n (p @ v @ q) off = Inr (le_nat v)"
  by (simp add: get_le_def bytes_at_def)

lemma get_le_tlv_header:
  assumes "length p = off" and "extension_ok x"
  shows "get_le 2 (p @ tlv_bytes1 x @ q) off = Inr (fst x)"
    and "get_le 2 (p @ tlv_bytes1 x @ q) (off + 2) = Inr (length (snd x))"
proof -
  show "get_le 2 (p @ tlv_bytes1 x @ q) off = Inr (fst x)"
    using get_le_append [of p off "le_bytes 2 (fst x)" 2] assms
    by (simp add: tlv_bytes1_def le_nat_le_bytes extension_ok_def)
  show "get_le 2 (p @ tlv_bytes1 x @ q) (off + 2) = Inr (length (snd x))"
    using get_le_append [of "p @ le_bytes 2 (fst x)" "off + 2" "le_bytes 2 (length (snd x))" 2] assms
    by (simp add: tlv_bytes1_def le_nat_le_bytes extension_ok_def)
qed

lemma readTlv_loop_end:
  assumes "length p = off" and "tlv_end rest"
  shows "readTlv_loop (p @ rest) off seen acc = Inr acc"
proof (cases "length rest < 2")
  case True
  with assms(1) show ?thesis by (simp add: readTlv_loop.simps [of "p @ rest"])
next
  case False
  with assms(2) have "rest = [0, 0] @ drop 2 rest"
    by (metis append_take_drop_id tlv_end_def)
  then have "get_le 2 (p @ rest) off = Inr 0"
    using get_le_append [of p off "[0, 0]" 2 "drop 2 rest"] assms(1) by simp
  with False assms(1) show ?thesis
    by (simp add: readTlv_loop.simps [of "p @ rest"] Ext_Uninitialized_def)
qed

lemma readTlv_loop_complete:
  assumes "\<forall>x \<in> set xs. extension_ok x" and "distinct (map fst xs)"
    and "fst ` set xs \<inter> set seen = {}" and "length p = off" and "tlv_end rest"
  shows "readTlv_loop (p @ tlv_bytes xs @ rest) off seen acc = Inr (acc @ entries_at off xs)"
  using assms
proof (induction xs arbitrary: p off seen acc)
  case Nil
  then show ?case by (simp add: readTlv_loop_end)
next
  case (Cons x xs)
  let ?off' = "off + 4 + length (snd x)"
  have x: "extension_ok x" and p: "length p = off" using Cons.prems by simp_all
  have "readTlv_loop ((p @ tlv_bytes1 x) @ tlv_bytes xs @ rest) ?off' (fst x # seen)
          (acc @ [\<lparr>tlv_type = fst x, tlv_length = length (snd x), valueOffset = off + 4\<rparr>])
        = Inr ((acc @ [\<lparr>tlv_type = fst x, tlv_length = length (snd x), valueOffset = off + 4\<rparr>])
            @ entries_at ?off' xs)"
    using Cons.prems by (intro Cons.IH) auto
  moreover have "fst x \<notin> set seen" using Cons.prems(3) by auto
  ultimately show ?case
    using p x get_le_tlv_header [OF p x, of "tlv_bytes xs @ rest"]
    by (simp add: readTlv_loop.simps [of _ off seen acc] extension_type_defs TLV_HEADER_LEN_def
        extension_ok_def Let_def)
qed

text \<open>One turn of the loop that neither stops nor throws reads one extension.\<close>

lemma readTlv_loop_turn:
  assumes run: "readTlv_loop data off seen acc = Inr es" and more: "\<not> tlv_end (drop off data)"
  shows "\<exists>x. extension_ok x \<and> fst x \<notin> set seen \<and>
    drop off data = tlv_bytes1 x @ drop (off + 4 + length (snd x)) data \<and>
    off + 4 + length (snd x) \<le> length data \<and>
    readTlv_loop data (off + 4 + length (snd x)) (fst x # seen)
      (acc @ [\<lparr>tlv_type = fst x, tlv_length = length (snd x), valueOffset = off + 4\<rparr>]) = Inr es"
proof -
  let ?h = "bytes_at off 2 data" and ?l = "bytes_at (off + 2) 2 data"
  let ?x = "(le_nat ?h, bytes_at (off + 4) (le_nat ?l) data)"
  have len2: "\<not> length data - off < 2" and h: "?h \<noteq> [0, 0]"
    using more by (auto simp: tlv_end_def bytes_at_def)
  have g: "get_le 2 data off = Inr (le_nat ?h)" using len2 by (simp add: get_le_def)
  have "length ?h = 2" using len2 by simp
  then have ne: "le_nat ?h \<noteq> 0"
    using h le_nat_inject [of ?h "[0, 0]"] by simp
  from run len2 g ne have le: "le_nat ?h \<le> 28" and len4: "\<not> length data - off < 4"
    by (auto simp: readTlv_loop.simps [of data off] extension_type_defs TLV_HEADER_LEN_def
        split: if_splits)
  then have g2: "get_le 2 data (off + 2) = Inr (le_nat ?l)" by (simp add: get_le_def)
  from run len2 g ne le len4 g2
  have fits: "off + 4 + le_nat ?l \<le> length data" and fresh: "le_nat ?h \<notin> set seen"
    and rest: "readTlv_loop data (off + 4 + le_nat ?l) (le_nat ?h # seen)
      (acc @ [\<lparr>tlv_type = le_nat ?h, tlv_length = le_nat ?l, valueOffset = off + 4\<rparr>]) = Inr es"
    by (auto simp: readTlv_loop.simps [of data off] extension_type_defs TLV_HEADER_LEN_def Let_def
        split: if_splits)
  have lx: "length (snd ?x) = le_nat ?l" using fits by simp
  have "length ?l = 2" using len4 by simp
  then have "le_nat ?l < 65536" using le_nat_bound [of ?l] by simp
  then have ok: "extension_ok ?x" using ne le fits by (simp add: extension_ok_def)
  have "drop off data = ?h @ ?l @ snd ?x @ drop (off + 4 + le_nat ?l) data"
    using drop_bytes_at [of off data 2] drop_bytes_at [of "off + 2" data 2]
      drop_bytes_at [of "off + 4" data "le_nat ?l"] by (simp add: add.assoc eval_nat_numeral)
  moreover have "?h = le_bytes 2 (le_nat ?h)" and "?l = le_bytes 2 (le_nat ?l)"
    using len2 len4 by (simp_all add: le_bytes_le_nat)
  ultimately have "drop off data = tlv_bytes1 ?x @ drop (off + 4 + length (snd ?x)) data"
    unfolding tlv_bytes1_def lx by simp
  with ok fresh fits rest lx show ?thesis by (intro exI [of _ ?x]) simp
qed

lemma readTlv_loop_sound:
  "readTlv_loop data off seen acc = Inr es \<Longrightarrow>
   \<exists>xs rest. drop off data = tlv_bytes xs @ rest \<and> tlv_end rest \<and> (\<forall>x \<in> set xs. extension_ok x) \<and>
     distinct (map fst xs) \<and> fst ` set xs \<inter> set seen = {} \<and> es = acc @ entries_at off xs"
proof (induction "length data - off" arbitrary: off seen acc rule: less_induct)
  case less
  show ?case
  proof (cases "tlv_end (drop off data)")
    case True
    have "es = acc"
    proof (cases "off \<le> length data")
      case True
      with \<open>tlv_end (drop off data)\<close> less.prems show ?thesis
        using readTlv_loop_end [of "take off data" off "drop off data" seen acc] by simp
    next
      case False
      with less.prems show ?thesis by (simp add: readTlv_loop.simps [of data off])
    qed
    with True show ?thesis by (intro exI [of _ "[]"] exI [of _ "drop off data"]) simp
  next
    case False
    obtain x where x: "extension_ok x" "fst x \<notin> set seen"
        "drop off data = tlv_bytes1 x @ drop (off + 4 + length (snd x)) data"
        "off + 4 + length (snd x) \<le> length data"
        "readTlv_loop data (off + 4 + length (snd x)) (fst x # seen)
           (acc @ [\<lparr>tlv_type = fst x, tlv_length = length (snd x), valueOffset = off + 4\<rparr>]) = Inr es"
      using readTlv_loop_turn [OF less.prems False] by blast
    have dec: "length data - (off + 4 + length (snd x)) < length data - off" using x(4) by simp
    obtain xs rest where ih: "drop (off + 4 + length (snd x)) data = tlv_bytes xs @ rest"
        "tlv_end rest" "\<forall>x \<in> set xs. extension_ok x" "distinct (map fst xs)"
        "fst ` set xs \<inter> set (fst x # seen) = {}"
        "es = (acc @ [\<lparr>tlv_type = fst x, tlv_length = length (snd x), valueOffset = off + 4\<rparr>])
           @ entries_at (off + 4 + length (snd x)) xs"
      using less.hyps [OF dec x(5)] by blast
    with x(1-3) show ?thesis
      by (intro exI [of _ "x # xs"] exI [of _ rest]) auto
  qed
qed

text \<open>The walk fails only with \<open>InvalidMintData\<close>: its reads are all in range.\<close>

lemma readTlv_loop_error:
  "readTlv_loop data off seen acc = Inl e \<Longrightarrow> e = GuardClientError InvalidMintData_code None"
proof (induction data off seen acc rule: readTlv_loop.induct)
  case (1 data off seen acc)
  show ?case
  proof (rule ccontr)
    assume ne: "e \<noteq> GuardClientError InvalidMintData_code None"
    with 1(2) have "\<not> length data - off < 2" by (auto simp: readTlv_loop.simps [of data off])
    moreover from this have g: "get_le 2 data off = Inr (le_nat (bytes_at off 2 data))"
      by (simp add: get_le_def)
    moreover have len4: "\<not> length data - off < TLV_HEADER_LEN"
      using 1(2) ne calculation by (auto simp: readTlv_loop.simps [of data off] split: if_splits)
    moreover from this have g2: "get_le 2 data (off + 2) = Inr (le_nat (bytes_at (off + 2) 2 data))"
      by (simp add: get_le_def TLV_HEADER_LEN_def)
    ultimately show False
      using 1 ne by (subst (asm) (2) readTlv_loop.simps) (auto simp: Let_def split: if_splits)
  qed
qed

lemma readTlvEntries_iff:
  "readTlvEntries data = Inr es \<longleftrightarrow>
     (\<exists>xs rest. drop TLV_START data = tlv_bytes xs @ rest \<and> tlv_end rest \<and>
        (\<forall>x \<in> set xs. extension_ok x) \<and> distinct (map fst xs) \<and> es = entries_at TLV_START xs)"
    if "TLV_START \<le> length data"
proof
  show "readTlvEntries data = Inr es \<Longrightarrow>
     \<exists>xs rest. drop TLV_START data = tlv_bytes xs @ rest \<and> tlv_end rest \<and>
        (\<forall>x \<in> set xs. extension_ok x) \<and> distinct (map fst xs) \<and> es = entries_at TLV_START xs"
    using readTlv_loop_sound [of data TLV_START "[]" "[]" es] by (auto simp: readTlvEntries_def)
next
  assume "\<exists>xs rest. drop TLV_START data = tlv_bytes xs @ rest \<and> tlv_end rest \<and>
        (\<forall>x \<in> set xs. extension_ok x) \<and> distinct (map fst xs) \<and> es = entries_at TLV_START xs"
  then obtain xs rest where d: "drop TLV_START data = tlv_bytes xs @ rest" and x: "tlv_end rest"
      "\<forall>x \<in> set xs. extension_ok x" "distinct (map fst xs)" "es = entries_at TLV_START xs"
    by blast
  have "data = take TLV_START data @ tlv_bytes xs @ rest"
    using d by (metis append_take_drop_id)
  then show "readTlvEntries data = Inr es"
    using readTlv_loop_complete [of xs "[]" "take TLV_START data" TLV_START rest "[]"] x that
    by (simp add: readTlvEntries_def)
qed

section \<open>What the decoders return\<close>

lemma entries_at_in_range:
  "e \<in> set (entries_at off xs) \<Longrightarrow> valueOffset e + tlv_length e \<le> off + length (tlv_bytes xs)"
proof (induction off xs rule: entries_at.induct)
  case (2 off x xs)
  then show ?case by (fastforce simp: le_trans)
qed simp

lemma validateBaseMint_error:
  "validateBaseMint data = Inl e \<Longrightarrow> e = GuardClientError InvalidMintData_code None"
  by (auto simp: validateBaseMint_def mint_layout_defs get_le_def err_simps split: if_splits)

lemma validateBaseMint_length: "validateBaseMint data = Inr u \<Longrightarrow> 82 \<le> length data"
  by (auto simp: validateBaseMint_def BASE_MINT_LEN_def split: if_splits)

lemma parseMintAccount_error:
  "parseMintAccount owner data = Inl e \<Longrightarrow>
     e \<in> {GuardClientError InvalidMintOwner_code None, GuardClientError InvalidMintData_code None}"
  using validateBaseMint_error readTlv_loop_error
  by (auto simp: parseMintAccount_def readTlvEntries_def err_simps split: if_splits)

lemma parseMintAccount_in_range:
  assumes "parseMintAccount owner data = Inr es" and "e \<in> set es"
  shows "valueOffset e + tlv_length e \<le> length data"
proof -
  have r: "readTlvEntries data = Inr es" and l: "TLV_START \<le> length data"
    using assms by (auto simp: parseMintAccount_def err_simps split: if_splits)
  then obtain xs rest where d: "drop TLV_START data = tlv_bytes xs @ rest" "es = entries_at TLV_START xs"
    by (auto simp: readTlvEntries_iff)
  then have "length data = TLV_START + length (tlv_bytes xs) + length rest"
    using l by (metis add.assoc le_add_diff_inverse length_append length_drop)
  with d entries_at_in_range [of e TLV_START xs] assms(2) show ?thesis by simp
qed

lemma assertValidMintExtensionCombination_error:
  "assertValidMintExtensionCombination types = Inl e \<Longrightarrow>
     e = GuardClientError InvalidExtensionCombination_code None"
  by (simp add: assertValidMintExtensionCombination_def Let_def split: if_splits)

lemma decodeProtectedState_error:
  assumes "decodeProtectedState owner data = Inl e"
  shows "e \<in> {GuardClientError InvalidMintOwner_code None, GuardClientError InvalidMintData_code None,
              GuardClientError MissingScaledUiAmount_code None,
              GuardClientError InvalidExtensionCombination_code None,
              GuardClientError InvalidMultiplier_code None}"
proof (cases "parseMintAccount owner data")
  case (Inl a)
  with assms parseMintAccount_error [OF Inl] show ?thesis by (auto simp: decodeProtectedState_def)
next
  case (Inr es)
  show ?thesis
  proof (cases "find (\<lambda>entry. tlv_type entry = Ext_ScaledUiAmount) es")
    case None
    with assms Inr show ?thesis by (auto simp: decodeProtectedState_def split: if_splits)
  next
    case (Some x)
    then have "x \<in> set es" by (auto simp: find_Some_iff)
    then have "tlv_length x = 56 \<Longrightarrow> valueOffset x + 48 \<le> length data"
      using parseMintAccount_in_range [OF Inr, of x] by simp
    with assms Inr Some show ?thesis
      by (cases "assertValidMintExtensionCombination (map tlv_type es)")
        (auto simp: decodeProtectedState_def Let_def SCALED_UI_AMOUNT_CONFIG_LEN_def getBigInt64_def
          dest!: assertValidMintExtensionCombination_error split: if_splits)
  qed
qed

lemma le_int_i64:
  assumes "length bs = 8"
  shows "I64_MIN \<le> le_int bs \<and> le_int bs \<le> I64_MAX"
  using le_int_bounds [of bs] assms by (simp add: I64_MIN_def I64_MAX_def)

lemma decodeProtectedState_InrD:
  assumes "decodeProtectedState owner data = Inr s"
  shows "\<exists>es x. parseMintAccount owner data = Inr es \<and>
    find (\<lambda>entry. tlv_type entry = Ext_ScaledUiAmount) es = Some x \<and>
    tlv_length x = 56 \<and> multiplier s = bytes_at (valueOffset x + 32) 8 data \<and>
    newMultiplier s = bytes_at (valueOffset x + 48) 8 data \<and>
    getBigInt64 data (valueOffset x + 40) = Inr (newMultiplierEffectiveTimestamp s) \<and>
    isValidStoredMultiplier (multiplier s) \<and> isValidStoredMultiplier (newMultiplier s)"
proof -
  obtain es where es: "parseMintAccount owner data = Inr es"
    using assms by (auto simp: decodeProtectedState_def err_simps)
  with assms obtain x where x: "find (\<lambda>entry. tlv_type entry = Ext_ScaledUiAmount) es = Some x"
    by (auto simp: decodeProtectedState_def split: if_splits option.splits)
  with assms es have "assertValidMintExtensionCombination (map tlv_type es) = Inr ()"
    by (cases "assertValidMintExtensionCombination (map tlv_type es)")
      (auto simp: decodeProtectedState_def split: if_splits)
  with assms es x show ?thesis
    by (cases "getBigInt64 data (valueOffset x + 40)")
      (auto simp: decodeProtectedState_def SCALED_UI_AMOUNT_CONFIG_LEN_def Let_def split: if_splits)
qed

lemma getBigInt64_i64: "getBigInt64 data off = Inr t \<Longrightarrow> I64_MIN \<le> t \<and> t \<le> I64_MAX"
  by (auto simp: getBigInt64_def le_int_i64 split: if_splits)

lemma decodeProtectedState_sound:
  assumes "decodeProtectedState owner data = Inr s"
  shows "isValidStoredMultiplier (multiplier s) \<and> isValidStoredMultiplier (newMultiplier s) \<and>
         storable_state s"
  using decodeProtectedState_InrD [OF assms] by (auto simp: storable_state_def dest!: getBigInt64_i64)

text \<open>An account as Token-2022 lays it out: base mint, padding, account type, extensions.\<close>

definition mint_account :: "bytes \<Rightarrow> extension list \<Rightarrow> bytes \<Rightarrow> bytes" where
  "mint_account base xs rest = base @ replicate 83 0 @ [1] @ tlv_bytes xs @ rest"

definition base_mint_ok :: "bytes \<Rightarrow> bool" where
  "base_mint_ok base \<longleftrightarrow>
     length base = 82 \<and> le_nat (bytes_at 0 4 base) \<le> 1 \<and> le_nat (bytes_at 46 4 base) \<le> 1 \<and>
     base ! 45 = 1"

definition scaled_ui_config :: "bytes \<Rightarrow> protected_state \<Rightarrow> bytes" where
  "scaled_ui_config authority s =
     authority @ multiplier s @ le_bytes_int 8 (newMultiplierEffectiveTimestamp s) @ newMultiplier s"

lemma validateBaseMint_ok:
  assumes "base_mint_ok base" and "length (base @ rest) \<noteq> 355"
  shows "validateBaseMint (base @ rest) = Inr ()"
proof -
  have b: "length base = 82" "base ! 45 = 1" using assms(1) by (simp_all add: base_mint_ok_def)
  have "get_le 4 (base @ rest) 0 = Inr (le_nat (bytes_at 0 4 base))"
    "get_le 4 (base @ rest) 46 = Inr (le_nat (bytes_at 46 4 base))"
    using b by (simp_all add: get_le_def bytes_at_def)
  moreover have "le_nat (bytes_at 0 4 base) = 0 \<or> le_nat (bytes_at 0 4 base) = 1"
    "le_nat (bytes_at 46 4 base) = 0 \<or> le_nat (bytes_at 46 4 base) = 1"
    using assms(1) by (auto simp: base_mint_ok_def)
  ultimately show ?thesis
    using b assms(2) by (auto simp: validateBaseMint_def mint_layout_defs nth_append)
qed

lemma parseMintAccount_ok:
  assumes "base_mint_ok base" and "\<forall>x \<in> set xs. extension_ok x" and "distinct (map fst xs)"
    and "tlv_end rest" and "length (mint_account base xs rest) \<noteq> 355"
  shows "parseMintAccount TOKEN_2022_PROGRAM_ADDRESS (mint_account base xs rest)
           = Inr (entries_at 166 xs)"
proof -
  let ?d = "mint_account base xs rest"
  have b: "length base = 82" using assms(1) by (simp add: base_mint_ok_def)
  have v: "validateBaseMint ?d = Inr ()"
    using validateBaseMint_ok [OF assms(1)] assms(5) by (simp add: mint_account_def)
  have pad: "bytes_at 82 83 ?d = replicate 83 0"
    using b by (simp add: mint_account_def bytes_at_def)
  have ty: "js_index ?d 165 = Some 1"
    using b by (simp add: mint_account_def js_index_def nth_append)
  have "drop 166 ?d = tlv_bytes xs @ rest" using b by (simp add: mint_account_def)
  moreover have l: "166 \<le> length ?d" using b by (simp add: mint_account_def)
  ultimately have "readTlvEntries ?d = Inr (entries_at 166 xs)"
    using assms by (subst readTlvEntries_iff) (auto simp: mint_layout_defs)
  with v pad ty l show ?thesis
    by (simp add: parseMintAccount_def mint_layout_defs list_ex_iff)
qed

lemma find_entries_at:
  assumes "distinct (map fst xs)" and "x \<in> set xs" and "length p = off"
  shows "\<exists>v. find (\<lambda>e. tlv_type e = fst x) (entries_at off xs)
               = Some \<lparr>tlv_type = fst x, tlv_length = length (snd x), valueOffset = v\<rparr> \<and>
             bytes_at v (length (snd x)) (p @ tlv_bytes xs @ rest) = snd x"
  using assms
proof (induction xs arbitrary: p off)
  case (Cons y ys)
  show ?case
  proof (cases "y = x")
    case True
    with Cons.prems(3) show ?thesis by (simp add: tlv_bytes1_def bytes_at_def)
  next
    case False
    with Cons.prems have "x \<in> set ys" and "fst y \<noteq> fst x" by (auto simp: image_iff)
    moreover have "length (p @ tlv_bytes1 y) = off + 4 + length (snd y)" using Cons.prems(3) by simp
    ultimately show ?thesis
      using Cons.IH [of "p @ tlv_bytes1 y" "off + 4 + length (snd y)"] Cons.prems(1) by simp
  qed
qed simp

lemma scaled_ui_config_parts:
  assumes "length authority = 32" and "length (multiplier s) = 8" and "length (newMultiplier s) = 8"
  shows "length (scaled_ui_config authority s) = 56"
    and "bytes_at 32 8 (scaled_ui_config authority s) = multiplier s"
    and "bytes_at 40 8 (scaled_ui_config authority s)
           = le_bytes_int 8 (newMultiplierEffectiveTimestamp s)"
    and "bytes_at 48 8 (scaled_ui_config authority s) = newMultiplier s"
  using assms by (simp_all add: scaled_ui_config_def bytes_at_def)

lemma decode_mint_account:
  assumes base: "base_mint_ok base" and xs: "\<forall>x \<in> set xs. extension_ok x" "distinct (map fst xs)"
    and rest: "tlv_end rest" "length (mint_account base xs rest) \<noteq> 355"
    and x: "(25, scaled_ui_config authority s) \<in> set xs" and auth: "length authority = 32"
    and s: "isValidStoredMultiplier (multiplier s)" "isValidStoredMultiplier (newMultiplier s)"
      "storable_state s"
    and comb: "assertValidMintExtensionCombination (map fst xs) = Inr ()"
  shows "decodeProtectedState TOKEN_2022_PROGRAM_ADDRESS (mint_account base xs rest) = Inr s"
proof -
  let ?d = "mint_account base xs rest" and ?c = "scaled_ui_config authority s"
  have ms: "length (multiplier s) = 8" "length (newMultiplier s) = 8"
    using s by (simp_all add: isValidStoredMultiplier_length)
  note c = scaled_ui_config_parts [OF auth ms]
  have d: "?d = (base @ replicate 83 0 @ [1]) @ tlv_bytes xs @ rest" by (simp add: mint_account_def)
  have len: "length (base @ replicate 83 0 @ [1]) = 166" using base by (simp add: base_mint_ok_def)
  obtain v where f: "find (\<lambda>e. tlv_type e = 25) (entries_at 166 xs)
        = Some \<lparr>tlv_type = 25, tlv_length = 56, valueOffset = v\<rparr>" and v: "bytes_at v 56 ?d = ?c"
    using find_entries_at [OF xs(2) x len, of rest] c(1) unfolding d by auto
  have at: "bytes_at (v + k) 8 ?d = bytes_at k 8 ?c" if "k \<le> 48" for k
    using bytes_at_bytes_at [of k 8 56 v ?d] that v by simp
  have "56 \<le> length ?d - v" using arg_cong [OF v, of length] c(1) by simp
  moreover have "le_int (le_bytes_int 8 (newMultiplierEffectiveTimestamp s))
                   = newMultiplierEffectiveTimestamp s"
    using s(3) by (intro le_int_le_bytes_int) (auto simp: storable_state_def I64_MIN_def I64_MAX_def)
  ultimately have "getBigInt64 ?d (v + 40) = Inr (newMultiplierEffectiveTimestamp s)"
    using at [of 40] c by (simp add: getBigInt64_def)
  moreover have "length ?d \<noteq> 82" using len by (simp add: d)
  ultimately show ?thesis
    using f at [of 32] at [of 48] c s comb parseMintAccount_ok [OF base xs rest]
    by (simp add: decodeProtectedState_def Ext_ScaledUiAmount_def mint_layout_defs Let_def)
qed

section \<open>Properties\<close>

text \<open>
  C6. The TLV walk accepts exactly the well-formed extension areas: it returns the entries of a
  list of extensions with known, pairwise different types that is followed by an end marker, at
  their offsets, and throws \<open>InvalidMintData\<close> (never a \<open>RangeError\<close>) on everything else.
\<close>

theorem tlv_walk_exact:
  assumes "TLV_START \<le> length data"
  shows "(readTlvEntries data = Inr es \<longleftrightarrow>
           (\<exists>xs rest. drop TLV_START data = tlv_bytes xs @ rest \<and> tlv_end rest \<and>
              (\<forall>x \<in> set xs. extension_ok x) \<and> distinct (map fst xs) \<and>
              es = entries_at TLV_START xs)) \<and>
         (readTlvEntries data = Inl e \<longrightarrow> e = GuardClientError InvalidMintData_code None)"
  using readTlvEntries_iff [OF assms] readTlv_loop_error [of data TLV_START "[]" "[]"]
  by (simp add: readTlvEntries_def)

theorem tlv_walk_exact_witness:
  "readTlvEntries (replicate TLV_START 0 @ tlv_bytes [(26, [])] @ [5])
     = Inr (entries_at TLV_START [(26, [])])"
proof -
  let ?d = "replicate TLV_START 0 @ tlv_bytes [(26, [])] @ [5]"
  have l: "TLV_START \<le> length ?d" by simp
  have "drop TLV_START ?d = tlv_bytes [(26, [])] @ [5] \<and> tlv_end [5] \<and>
      (\<forall>x \<in> set [(26, [])]. extension_ok x) \<and> distinct (map fst [(26 :: nat, [] :: bytes)]) \<and>
      entries_at TLV_START [(26, [])] = entries_at TLV_START [(26, [])]"
    by (simp add: tlv_end_def extension_ok_def)
  with tlv_walk_exact [OF l, of "entries_at TLV_START [(26, [])]" RangeError] show ?thesis by blast
qed

text \<open>
  C7. Round trip of the protected state: whatever a well-formed Token-2022 mint account stores in
  its ScaledUiAmount extension, among any other permitted extensions, is what
  \<open>decodeProtectedState\<close> returns.
\<close>

theorem protected_state_roundtrip:
  assumes "base_mint_ok base" and "\<forall>x \<in> set xs. extension_ok x" and "distinct (map fst xs)"
    and "tlv_end rest" and "length (mint_account base xs rest) \<noteq> 355"
    and "(25, scaled_ui_config authority s) \<in> set xs" and "length authority = 32"
    and "isValidStoredMultiplier (multiplier s)" and "isValidStoredMultiplier (newMultiplier s)"
    and "storable_state s" and "assertValidMintExtensionCombination (map fst xs) = Inr ()"
  shows "decodeProtectedState TOKEN_2022_PROGRAM_ADDRESS (mint_account base xs rest) = Inr s"
  using assms by (rule decode_mint_account)

definition sample_base :: bytes where
  "sample_base = replicate 45 0 @ [1] @ replicate 36 0"

definition sample_extensions :: "extension list" where
  "sample_extensions = [(26, replicate 33 0), (25, scaled_ui_config (replicate 32 3) sample_state)]"

lemma sample_base_ok: "base_mint_ok sample_base"
proof -
  have "bytes_at 0 4 sample_base = replicate 4 0" "bytes_at 46 4 sample_base = replicate 4 0"
    by (simp_all add: sample_base_def bytes_at_def)
  moreover have "le_nat (replicate n 0) = 0" for n by (induction n) simp_all
  ultimately show ?thesis by (simp add: base_mint_ok_def sample_base_def nth_append)
qed

lemma sample_extensions_ok:
  "\<forall>x \<in> set sample_extensions. extension_ok x" "distinct (map fst sample_extensions)"
  "length (mint_account sample_base sample_extensions []) \<noteq> 355"
  "(25, scaled_ui_config (replicate 32 3) sample_state) \<in> set sample_extensions"
  "assertValidMintExtensionCombination (map fst sample_extensions) = Inr ()"
proof -
  have c: "length (scaled_ui_config (replicate 32 3) sample_state) = 56"
    by (rule scaled_ui_config_parts) (simp_all add: sample_state_def one_f64_def two_f64_def)
  show "\<forall>x \<in> set sample_extensions. extension_ok x"
    by (simp add: sample_extensions_def extension_ok_def c)
  show "length (mint_account sample_base sample_extensions []) \<noteq> 355"
    by (simp add: sample_extensions_def mint_account_def sample_base_def c)
  show "assertValidMintExtensionCombination (map fst sample_extensions) = Inr ()"
    by (simp add: sample_extensions_def assertValidMintExtensionCombination_def extension_type_defs)
qed (simp_all add: sample_extensions_def)

lemma sample_state_ok:
  "isValidStoredMultiplier (multiplier sample_state)" "isValidStoredMultiplier (newMultiplier sample_state)"
  "storable_state sample_state"
  by (simp_all add: sample_multipliers sample_state_def storable_state_def I64_MIN_def I64_MAX_def)

theorem protected_state_roundtrip_witness:
  "decodeProtectedState TOKEN_2022_PROGRAM_ADDRESS (mint_account sample_base sample_extensions [])
     = Inr sample_state"
  by (rule protected_state_roundtrip [OF sample_base_ok sample_extensions_ok(1,2) _
        sample_extensions_ok(3,4) _ sample_state_ok sample_extensions_ok(5)]) (simp_all add: tlv_end_def)

text \<open>
  The decoder fails closed: on any owner and any bytes it either throws one of five documented
  client errors, never a \<open>RangeError\<close>, or returns a state with two valid multipliers and an \<open>i64\<close>
  timestamp.
\<close>

theorem decoder_fails_closed:
  "case decodeProtectedState owner data of
     Inl e \<Rightarrow> e \<in> {GuardClientError InvalidMintOwner_code None, GuardClientError InvalidMintData_code None,
              GuardClientError MissingScaledUiAmount_code None,
              GuardClientError InvalidExtensionCombination_code None,
              GuardClientError InvalidMultiplier_code None}
   | Inr s \<Rightarrow> isValidStoredMultiplier (multiplier s) \<and> isValidStoredMultiplier (newMultiplier s) \<and>
       storable_state s"
  using decodeProtectedState_error [of owner data] decodeProtectedState_sound [of owner data]
  by (auto split: sum.split)

end
