(* ===== verification/Snapshot.thy ===== *)
theory Snapshot
  imports Mint_State
begin

text \<open>
  The chain snapshot (\<open>packages/guard-client/src/snapshot.ts\<close>, \<open>instruction.ts\<close>): the Clock sysvar,
  the mint and clock read in one request, and the expectation a snapshot yields. The RPC endpoint
  is a parameter: the accounts it returns for a list of addresses, each absent (\<open>null\<close>) or with an
  owner, base64 data and the executable flag, and the context slot.
\<close>

section \<open>snapshot.ts\<close>

definition SYSVAR_CLOCK_ADDRESS :: address where
  "SYSVAR_CLOCK_ADDRESS = ''SysvarC1ock11111111111111111111111111111111''"

definition CLOCK_LEN :: nat where "CLOCK_LEN = 40"
definition CLOCK_UNIX_TIMESTAMP_OFFSET :: nat where "CLOCK_UNIX_TIMESTAMP_OFFSET = 32"

record chain_clock =
  slot :: int
  unixTimestamp :: int

record guard_snapshot =
  gs_mint :: address
  contextSlot :: int
  gs_clock :: chain_clock
  gs_state :: protected_state
  gs_phase :: activation_phase
  gs_hasScheduledChange :: bool

definition decodeClock :: "bytes \<Rightarrow> js_exn + chain_clock" where
  "decodeClock data =
     (if length data \<noteq> CLOCK_LEN then Inl (GuardClientError InvalidClockData_code None)
      else bindE (get_le 8 data 0) (\<lambda>s.
           bindE (getBigInt64 data CLOCK_UNIX_TIMESTAMP_OFFSET) (\<lambda>t.
             Inr \<lparr>slot = int s, unixTimestamp = t\<rparr>)))"

text \<open>
  \<open>Buffer.from(encoded, "base64")\<close>: characters outside the two base64 alphabets (padding included)
  are skipped; every four sextets are three bytes, and a shorter tail gives its whole bytes.
\<close>

definition base64_sextet :: "char \<Rightarrow> nat option" where
  "base64_sextet c =
     (let n = of_char c :: nat in
      if 65 \<le> n \<and> n \<le> 90 then Some (n - 65)
      else if 97 \<le> n \<and> n \<le> 122 then Some (n - 71)
      else if 48 \<le> n \<and> n \<le> 57 then Some (n + 4)
      else if n = 43 \<or> n = 45 then Some 62
      else if n = 47 \<or> n = 95 then Some 63 else None)"

fun base64_bytes :: "nat list \<Rightarrow> bytes" where
  "base64_bytes (a # b # c # d # rest) =
     of_nat (a * 4 + b div 16) # of_nat (b mod 16 * 16 + c div 4) # of_nat (c mod 4 * 64 + d) #
     base64_bytes rest"
| "base64_bytes [a, b, c] = [of_nat (a * 4 + b div 16), of_nat (b mod 16 * 16 + c div 4)]"
| "base64_bytes [a, b] = [of_nat (a * 4 + b div 16)]"
| "base64_bytes _ = []"

definition base64Data :: "string \<Rightarrow> bytes" where
  "base64Data encoded = base64_bytes (List.map_filter base64_sextet encoded)"

record rpc_account =
  rpc_owner :: address
  rpc_data :: string
  rpc_executable :: bool

type_synonym get_multiple_accounts = "address list \<Rightarrow> js_exn + (int \<times> rpc_account option list)"

text \<open>An element of the response: \<open>null\<close> and a missing element are both falsy.\<close>

definition rpc_value :: "rpc_account option list \<Rightarrow> nat \<Rightarrow> rpc_account option" where
  "rpc_value accounts i = (case js_index accounts i of None \<Rightarrow> None | Some a \<Rightarrow> a)"

definition fetchGuardSnapshot :: "get_multiple_accounts \<Rightarrow> address \<Rightarrow> js_exn + guard_snapshot" where
  "fetchGuardSnapshot rpc mint =
     bindE (rpc [mint, SYSVAR_CLOCK_ADDRESS]) (\<lambda>(context, accounts).
     bindE (require (GuardClientError AccountNotFound_code None) (rpc_value accounts 0)) (\<lambda>mintAccount.
     bindE (require (GuardClientError AccountNotFound_code None) (rpc_value accounts 1)) (\<lambda>clockAccount.
     bindE (decodeClock (base64Data (rpc_data clockAccount))) (\<lambda>clock.
     bindE (decodeProtectedState (rpc_owner mintAccount) (base64Data (rpc_data mintAccount))) (\<lambda>st.
       Inr \<lparr>gs_mint = mint, contextSlot = context, gs_clock = clock, gs_state = st,
            gs_phase = phaseAt st (unixTimestamp clock),
            gs_hasScheduledChange = hasScheduledChange st\<rparr>)))))"

section \<open>instruction.ts\<close>

definition expectationFromSnapshot ::
    "guard_snapshot \<Rightarrow> protection_window \<Rightarrow> assert_safe_execution_request" where
  "expectationFromSnapshot snapshot w =
     \<lparr>expected = gs_state snapshot, expectedPhase = gs_phase snapshot, window = w\<rparr>"

section \<open>Facts\<close>

lemma decodeClock_ok:
  "decodeClock data = Inr c \<Longrightarrow> I64_MIN \<le> unixTimestamp c \<and> unixTimestamp c \<le> I64_MAX"
  by (auto simp: decodeClock_def err_simps dest!: getBigInt64_i64 split: if_splits)

lemma decodeClock_error: "decodeClock data = Inl e \<Longrightarrow> e = GuardClientError InvalidClockData_code None"
  by (auto simp: decodeClock_def CLOCK_LEN_def CLOCK_UNIX_TIMESTAMP_OFFSET_def get_le_def
      getBigInt64_def split: if_splits)

text \<open>A snapshot's fields, whatever the endpoint answered.\<close>

lemma fetchGuardSnapshot_ok:
  assumes "fetchGuardSnapshot rpc mint = Inr snap"
  shows "gs_mint snap = mint \<and> isValidStoredMultiplier (multiplier (gs_state snap)) \<and>
     isValidStoredMultiplier (newMultiplier (gs_state snap)) \<and> storable_state (gs_state snap) \<and>
     I64_MIN \<le> unixTimestamp (gs_clock snap) \<and> unixTimestamp (gs_clock snap) \<le> I64_MAX \<and>
     gs_phase snap = phaseAt (gs_state snap) (unixTimestamp (gs_clock snap)) \<and>
     gs_hasScheduledChange snap = hasScheduledChange (gs_state snap)"
  using assms
  by (auto simp: fetchGuardSnapshot_def err_simps split_beta
      dest!: decodeClock_ok decodeProtectedState_sound)

lemma phaseAt_cases: "phaseAt s t = Pending \<or> phaseAt s t = Activated"
  by (simp add: phaseAt_def)

section \<open>Base64\<close>

text \<open>The encoding side, to state that decoding returns what an endpoint encoded.\<close>

definition base64_char :: "nat \<Rightarrow> char" where
  "base64_char n =
     char_of (if n < 26 then n + 65 else if n < 52 then n + 71 else if n < 62 then n - 4
              else if n = 62 then 43 else 47)"

fun base64_sextets :: "bytes \<Rightarrow> nat list" where
  "base64_sextets (a # b # c # rest) =
     unat a div 4 # (unat a mod 4 * 16 + unat b div 16) # (unat b mod 16 * 4 + unat c div 64) #
     unat c mod 64 # base64_sextets rest"
| "base64_sextets [a, b] = [unat a div 4, unat a mod 4 * 16 + unat b div 16, unat b mod 16 * 4]"
| "base64_sextets [a] = [unat a div 4, unat a mod 4 * 16]"
| "base64_sextets [] = []"

definition base64_encode :: "bytes \<Rightarrow> string" where
  "base64_encode bs = map base64_char (base64_sextets bs)"

lemma base64_sextet_char: "n < 64 \<Longrightarrow> base64_sextet (base64_char n) = Some n"
  by (auto simp: base64_sextet_def base64_char_def Let_def)

lemma base64_sextets_bound: "n \<in> set (base64_sextets bs) \<Longrightarrow> n < 64"
proof (induction bs rule: base64_sextets.induct)
  case (1 a b c rest)
  have "unat a < 256" "unat b < 256" "unat c < 256" by (rule unat_byte_bound)+
  with 1 show ?case by (auto; presburger)
next
  case (2 a b)
  have "unat a < 256" "unat b < 256" by (rule unat_byte_bound)+
  with 2 show ?case by (auto; presburger)
next
  case (3 a)
  with unat_byte_bound [of a] show ?case by (auto; presburger)
qed simp

lemma byte_split:
  fixes a :: byte
  shows "(of_nat (unat a div 4 * 4 + (unat a mod 4 * 16 + unat (b :: byte) div 16) div 16) :: byte) = a"
    "(of_nat ((unat (c :: byte) mod 4 * 16 + unat a div 16) mod 16 * 16 +
         (unat a mod 16 * 4 + unat (d :: byte) div 64) div 4) :: byte) = a"
    "(of_nat ((unat (c :: byte) mod 16 * 4 + unat a div 64) mod 4 * 64 + unat a mod 64) :: byte) = a"
proof -
  have q: "unat x div 16 < 16" "unat x div 64 < 4" for x :: byte
    using unat_byte_bound [of x] by (simp_all add: less_mult_imp_div_less)
  show "(of_nat (unat a div 4 * 4 + (unat a mod 4 * 16 + unat b div 16) div 16) :: byte) = a"
    using q [of b] by (simp add: div_mult_mod_eq del: of_nat_add of_nat_mult)
  show "(of_nat ((unat c mod 4 * 16 + unat a div 16) mod 16 * 16 +
         (unat a mod 16 * 4 + unat d div 64) div 4) :: byte) = a"
    using q [of a] q [of d] by (simp add: div_mult_mod_eq del: of_nat_add of_nat_mult)
  show "(of_nat ((unat c mod 16 * 4 + unat a div 64) mod 4 * 64 + unat a mod 64) :: byte) = a"
    using q [of a] by (simp add: div_mult_mod_eq del: of_nat_add of_nat_mult)
qed

lemma byte_split_tail:
  "(of_nat (unat a div 4 * 4 + unat (a :: byte) mod 4 * 16 div 16) :: byte) = a"
  "(of_nat ((unat (c :: byte) mod 4 * 16 + unat (a :: byte) div 16) mod 16 * 16 +
         unat a mod 16 * 4 div 4) :: byte) = a"
  using byte_split(1) [of a 0] byte_split(2) [of c a 0] by simp_all

lemma base64_bytes_sextets: "base64_bytes (base64_sextets bs) = bs"
  by (induction bs rule: base64_sextets.induct)
    (simp_all only: base64_sextets.simps base64_bytes.simps byte_split byte_split_tail)

lemma map_filter_Some: "(\<And>x. x \<in> set xs \<Longrightarrow> f (g x) = Some x) \<Longrightarrow> List.map_filter f (map g xs) = xs"
  by (induction xs) (simp_all add: map_filter_def)

lemma base64Data_encode: "base64Data (base64_encode bs) = bs"
  unfolding base64Data_def base64_encode_def
  by (subst map_filter_Some) (auto simp: base64_sextet_char base64_sextets_bound base64_bytes_sextets)

section \<open>Properties\<close>

text \<open>An endpoint for witnesses: it serves one mint account and a clock at time 100.\<close>

definition sample_rpc :: get_multiple_accounts where
  "sample_rpc addresses =
     Inr (7, [Some \<lparr>rpc_owner = TOKEN_2022_PROGRAM_ADDRESS,
                    rpc_data = base64_encode (mint_account sample_base sample_extensions []), rpc_executable = False\<rparr>,
              Some \<lparr>rpc_owner = ''Sysvar1111111111111111111111111111111111111'',
                    rpc_data = base64_encode (le_bytes 8 7 @ replicate 24 0 @ le_bytes_int 8 100), rpc_executable = False\<rparr>])"

definition sample_snapshot :: guard_snapshot where
  "sample_snapshot =
     \<lparr>gs_mint = ''mint'', contextSlot = 7, gs_clock = \<lparr>slot = 7, unixTimestamp = 100\<rparr>,
      gs_state = sample_state, gs_phase = Pending, gs_hasScheduledChange = True\<rparr>"

lemma sample_clock:
  "decodeClock (le_bytes 8 7 @ replicate 24 0 @ le_bytes_int 8 100) = Inr \<lparr>slot = 7, unixTimestamp = 100\<rparr>"
proof -
  let ?d = "le_bytes 8 7 @ replicate 24 0 @ le_bytes_int 8 100"
  have "bytes_at 0 8 ?d = le_bytes 8 7" "bytes_at 32 8 ?d = le_bytes_int 8 100"
    by (simp_all add: bytes_at_def)
  moreover have "le_int (le_bytes_int 8 100) = 100" by (rule le_int_le_bytes_int) simp_all
  ultimately show ?thesis
    by (simp add: decodeClock_def get_le_def getBigInt64_def CLOCK_LEN_def
        CLOCK_UNIX_TIMESTAMP_OFFSET_def le_nat_le_bytes)
qed

lemma sample_mint_decodes:
  "decodeProtectedState TOKEN_2022_PROGRAM_ADDRESS (mint_account sample_base sample_extensions []) = Inr sample_state"
  by (rule decode_mint_account [OF sample_base_ok sample_extensions_ok(1,2) _
        sample_extensions_ok(3,4) _ sample_state_ok sample_extensions_ok(5)]) (simp_all add: tlv_end_def)

lemma sample_fetch_mint: "fetchGuardSnapshot sample_rpc mint = Inr (sample_snapshot\<lparr>gs_mint := mint\<rparr>)"
  by (simp add: fetchGuardSnapshot_def sample_rpc_def rpc_value_def base64Data_encode sample_clock
        sample_mint_decodes sample_snapshot_def phaseAt_def hasScheduledChange_iff)
    (simp add: sample_state_def one_f64_def two_f64_def)

lemma sample_fetch: "fetchGuardSnapshot sample_rpc ''mint'' = Inr sample_snapshot"
  by (simp add: sample_fetch_mint) (simp add: sample_snapshot_def)

text \<open>
  A snapshot always yields an encodable authorization: with any valid window, adapter kind and
  32-byte commitment, the expectation built from a fetched snapshot passes the encoder.
\<close>

theorem snapshot_expectation_encodes:
  assumes "fetchGuardSnapshot rpc mint = Inr snap"
    and "isValidWindowSecs (JNumber (beforeSecs w))" and "isValidWindowSecs (JNumber (afterSecs w))"
    and "isDownstreamAdapterKind kind" and "length commitment = 32"
    and "length (encodeAddress mint) = 32"
  shows "\<exists>data. encodeAssertSafeExecutionV2 encodeAddress
      (assert_safe_execution_request.extend (expectationFromSnapshot snap w)
        \<lparr>expectedMint = gs_mint snap, adapterKind = kind, downstreamCommitment = commitment\<rparr>) = Inr data"
proof -
  let ?r = "assert_safe_execution_request.extend (expectationFromSnapshot snap w)
        \<lparr>expectedMint = gs_mint snap, adapterKind = kind, downstreamCommitment = commitment\<rparr>"
  note snap = fetchGuardSnapshot_ok [OF assms(1)]
  have "v2_request_ok ?r"
    using snap assms(2-5) phaseAt_cases
    by (auto simp: v2_request_ok_def expectationFromSnapshot_def storable_state_def
        assert_safe_execution_request.defs)
  moreover have "length (encodeAddress (expectedMint ?r)) = 32"
    using snap assms(6) by (simp add: assert_safe_execution_request.defs)
  ultimately show ?thesis using encode_ok [of encodeAddress ?r] by blast
qed

theorem snapshot_expectation_encodes_witness:
  "\<exists>data. encodeAssertSafeExecutionV2 sample_encoder
      (assert_safe_execution_request.extend
        (expectationFromSnapshot sample_snapshot \<lparr>beforeSecs = JNum 60, afterSecs = JNegZero\<rparr>)
        \<lparr>expectedMint = gs_mint sample_snapshot, adapterKind = 1, downstreamCommitment = replicate 32 9\<rparr>)
      = Inr data"
  by (rule snapshot_expectation_encodes [OF sample_fetch])
    (simp_all add: js_int_in_def U32_MAX_def isDownstreamAdapterKind_def adapter_kind_defs
      sample_encoder_def)

text \<open>
  A fresh expectation is never stale: checked against the very state and chain time it was
  built from, the guard can refuse it only because the time lies inside the protection window or
  the window's bounds overflow an \<open>i64\<close>, never for changed state or phase.
\<close>

theorem fresh_expectation_not_stale:
  assumes "fetchGuardSnapshot rpc mint = Inr snap"
    and "isValidWindowSecs (JNumber (beforeSecs w))" and "isValidWindowSecs (JNumber (afterSecs w))"
  shows "checkGuardOffline (expectationFromSnapshot snap w) (gs_state snap) (unixTimestamp (gs_clock snap))
           \<in> {Inr None, Inr (Some InsideTransitionWindow), Inr (Some ArithmeticOverflow)}"
  using assms(2,3) fetchGuardSnapshot_ok [OF assms(1)]
  by (auto simp: checkGuardOffline_def expectationFromSnapshot_def Let_def bigint_of_number_def
      js_int_in_iff split: if_splits)

theorem fresh_expectation_not_stale_witness:
  "checkGuardOffline (expectationFromSnapshot sample_snapshot \<lparr>beforeSecs = JNum 60, afterSecs = JNum 1\<rparr>)
       (gs_state sample_snapshot) (unixTimestamp (gs_clock sample_snapshot))
     \<in> {Inr None, Inr (Some InsideTransitionWindow), Inr (Some ArithmeticOverflow)}"
  by (rule fresh_expectation_not_stale [OF sample_fetch]) (simp_all add: js_int_in_def U32_MAX_def)

end
