(* ===== verification/Framing.thy ===== *)
theory Framing
  imports EG_Prelude
begin

text \<open>
  Byte framing: an encoding whose end can be found from its bytes. The locale \<open>framed\<close> states it
  (two encodings followed by anything agree only if they encode the same thing) and derives
  injectivity and the framing of counted sequences. The commitment encodings of the guard client
  are instances.
\<close>

section \<open>The interface\<close>

locale framed =
  fixes enc :: "'a \<Rightarrow> bytes" and ok :: "'a \<Rightarrow> bool"
  assumes framed_split: "ok x \<Longrightarrow> ok y \<Longrightarrow> enc x @ r = enc y @ s \<Longrightarrow> x = y \<and> r = s"
begin

lemma enc_inject: "ok x \<Longrightarrow> ok y \<Longrightarrow> enc x = enc y \<longleftrightarrow> x = y"
  using framed_split [of x y "[]" "[]"] by auto

lemma concat_split:
  "list_all ok xs \<Longrightarrow> list_all ok ys \<Longrightarrow> length xs = length ys \<Longrightarrow>
   concat (map enc xs) @ r = concat (map enc ys) @ s \<Longrightarrow> xs = ys \<and> r = s"
proof (induction xs arbitrary: ys)
  case Nil
  then show ?case by simp
next
  case (Cons x xs)
  then obtain y ys' where ys: "ys = y # ys'" by (cases ys) auto
  with Cons.prems have "x = y \<and> concat (map enc xs) @ r = concat (map enc ys') @ s"
    by (intro framed_split) auto
  with Cons ys show ?case by auto
qed

end

section \<open>Fixed-width fields\<close>

lemma same_length_split: "length a = length b \<Longrightarrow> a @ r = b @ s \<Longrightarrow> a = b \<and> r = s"
  by simp

text \<open>A \<open>u32\<close> length in little-endian order.\<close>

interpretation u32_field: framed "le_bytes 4" "\<lambda>n. n < 2 ^ 32"
  by unfold_locales (auto simp: le_bytes_inject dest!: same_length_split [rotated])

text \<open>Bytes behind their length.\<close>

definition sized_bytes :: "bytes \<Rightarrow> bytes" where
  "sized_bytes bs = le_bytes 4 (length bs) @ bs"

interpretation sized_bytes: framed sized_bytes "\<lambda>bs. length bs < 2 ^ 32"
proof unfold_locales
  fix x y r s
  assume "length x < 2 ^ 32" "length y < 2 ^ 32" "sized_bytes x @ r = sized_bytes y @ s"
  then have "length x = length y \<and> x @ r = y @ s"
    unfolding sized_bytes_def append_assoc by (intro u32_field.framed_split)
  then show "x = y \<and> r = s" by (auto dest: same_length_split)
qed

text \<open>A counted sequence of framed items is framed.\<close>

definition counted :: "('a \<Rightarrow> bytes) \<Rightarrow> 'a list \<Rightarrow> bytes" where
  "counted enc xs = le_bytes 4 (length xs) @ concat (map enc xs)"

context framed
begin

lemma counted_split:
  assumes "list_all ok xs" and "list_all ok ys" and "length xs < 2 ^ 32" and "length ys < 2 ^ 32"
    and "counted enc xs @ r = counted enc ys @ s"
  shows "xs = ys \<and> r = s"
proof -
  have "length xs = length ys \<and> concat (map enc xs) @ r = concat (map enc ys) @ s"
    using assms(3-5) unfolding counted_def append_assoc by (intro u32_field.framed_split)
  with assms(1,2) show ?thesis by (intro concat_split) auto
qed

end

section \<open>Assembling parts\<close>

text \<open>The loop \<open>for (const part of parts) { out.set(part, offset); offset += part.length; }\<close>.\<close>

fun set_parts :: "bytes list \<Rightarrow> nat \<Rightarrow> bytes \<Rightarrow> bytes option" where
  "set_parts [] offset out = Some out"
| "set_parts (part # parts) offset out =
     Option.bind (buf_set offset part out) (\<lambda>out. set_parts parts (offset + length part) out)"

definition join_parts :: "bytes list \<Rightarrow> bytes option" where
  "join_parts parts = set_parts parts 0 (replicate (sum_list (map length parts)) 0)"

lemma set_parts_fill:
  "length p = offset \<Longrightarrow>
   set_parts parts offset (p @ replicate (sum_list (map length parts)) 0) = Some (p @ concat parts)"
proof (induction parts arbitrary: p offset)
  case (Cons part parts)
  then show ?case
    using Cons.IH [of "p @ part" "offset + length part"] by (simp add: buf_set_step)
qed simp

lemma join_parts_concat [simp]: "join_parts parts = Some (concat parts)"
  using set_parts_fill [of "[]" 0 parts] by (simp add: join_parts_def)

end
