(* ===== verification/Downstream.thy ===== *)
theory Downstream
  imports Snapshot Framing
begin

text \<open>
  The ABI v2 downstream binding (\<open>packages/guard-client/src/downstream.ts\<close>): the commitment to the
  instruction that follows the guard, the guard instruction and the guarded TransferChecked builder,
  with the program's verification of it (\<open>programs/equity_guard/src/downstream.rs\<close>). The address
  encoder of \<open>@solana/kit\<close>, SHA-256 and the SPL instruction parser are parameters.
\<close>

section \<open>Instructions\<close>

text \<open>The role enumeration and instruction interface of \<open>@solana/kit\<close>, as far as the source uses them.\<close>

datatype account_role = READONLY | WRITABLE | READONLY_SIGNER | WRITABLE_SIGNER

record account_meta =
  am_address :: address
  am_role :: account_role

record instruction =
  programAddress :: address
  ix_accounts :: "account_meta list option"
  ix_data :: "bytes option"

abbreviation accounts_of :: "instruction \<Rightarrow> account_meta list" where
  "accounts_of ix \<equiv> (case ix_accounts ix of None \<Rightarrow> [] | Some ms \<Rightarrow> ms)"

abbreviation data_of :: "instruction \<Rightarrow> bytes" where
  "data_of ix \<equiv> (case ix_data ix of None \<Rightarrow> [] | Some bs \<Rightarrow> bs)"

section \<open>downstream.ts\<close>

text \<open>\<open>TextEncoder.encode\<close> of an ASCII string.\<close>

definition ascii_bytes :: "string \<Rightarrow> bytes" where
  "ascii_bytes s = map of_char s"

definition DOWNSTREAM_COMMITMENT_DOMAIN :: string where
  "DOWNSTREAM_COMMITMENT_DOMAIN = ''EQUITYGUARD_DOWNSTREAM_V2''"

definition SYSVAR_INSTRUCTIONS_ADDRESS :: address where
  "SYSVAR_INSTRUCTIONS_ADDRESS = ''Sysvar1nstructions1111111111111111111111111''"

definition TRANSFER_CHECKED_TAG :: byte where "TRANSFER_CHECKED_TAG = 12"
definition TRANSFER_CHECKED_DATA_LEN :: nat where "TRANSFER_CHECKED_DATA_LEN = 10"

record committed_account =
  ca_address :: address
  ca_isSigner :: bool
  ca_isWritable :: bool

record committed_instruction =
  ci_programAddress :: address
  ci_accounts :: "committed_account list"
  ci_data :: bytes

definition u32le :: "nat \<Rightarrow> js_exn + bytes" where
  "u32le v = (if v > 0xffffffff then Inl (GuardClientError InvalidDownstream_code None)
              else Inr (le_bytes 4 v))"

definition flag_byte :: "bool \<Rightarrow> byte" where
  "flag_byte b = (if b then 1 else 0)"

definition downstreamCommitmentPreimage ::
    "(address \<Rightarrow> bytes) \<Rightarrow> committed_instruction \<Rightarrow> js_exn + bytes" where
  "downstreamCommitmentPreimage encode ix =
     bindE (u32le (length (ci_accounts ix))) (\<lambda>count.
     let parts = [ascii_bytes DOWNSTREAM_COMMITMENT_DOMAIN, encode (ci_programAddress ix), count] @
           concat (map (\<lambda>account. [encode (ca_address account),
               [flag_byte (ca_isSigner account), flag_byte (ca_isWritable account)]]) (ci_accounts ix))
     in bindE (u32le (length (ci_data ix))) (\<lambda>len.
          require RangeError (join_parts (parts @ [len, ci_data ix]))))"

definition downstreamCommitmentOf ::
    "(address \<Rightarrow> bytes) \<Rightarrow> (bytes \<Rightarrow> bytes) \<Rightarrow> committed_instruction \<Rightarrow> js_exn + bytes" where
  "downstreamCommitmentOf encode sha256 ix =
     bindE (downstreamCommitmentPreimage encode ix) (\<lambda>preimage. Inr (sha256 preimage))"

definition isSigner :: "account_role \<Rightarrow> bool" where
  "isSigner role = (role = READONLY_SIGNER \<or> role = WRITABLE_SIGNER)"

definition isWritable :: "account_role \<Rightarrow> bool" where
  "isWritable role = (role = WRITABLE \<or> role = WRITABLE_SIGNER)"

text \<open>The inner loops of \<open>flags\<close>: every mention of the address is merged into the two flags.\<close>

fun merge_flags :: "address \<Rightarrow> account_meta list \<Rightarrow> bool \<times> bool \<Rightarrow> bool \<times> bool" where
  "merge_flags addr [] (signer, writable) = (signer, writable)"
| "merge_flags addr (meta # metas) (signer, writable) =
     merge_flags addr metas
       (if am_address meta \<noteq> addr then (signer, writable)
        else (signer \<or> isSigner (am_role meta), writable \<or> isWritable (am_role meta)))"

definition transaction_flags :: "instruction list \<Rightarrow> address \<Rightarrow> address \<Rightarrow> bool \<times> bool" where
  "transaction_flags instructions feePayer addr =
     foldl (\<lambda>fs ix. merge_flags addr (accounts_of ix) fs) (addr = feePayer, addr = feePayer) instructions"

definition asCommittedInstruction ::
    "instruction \<Rightarrow> instruction list \<Rightarrow> address \<Rightarrow> committed_instruction" where
  "asCommittedInstruction target instructions feePayer =
     \<lparr>ci_programAddress = programAddress target,
      ci_accounts = map (\<lambda>meta.
          let (signer, writable) = transaction_flags instructions feePayer (am_address meta)
          in \<lparr>ca_address = am_address meta, ca_isSigner = signer, ca_isWritable = writable\<rparr>)
        (accounts_of target),
      ci_data = data_of target\<rparr>"

definition assertSupportedTransferChecked :: "instruction \<Rightarrow> address \<Rightarrow> js_exn + unit" where
  "assertSupportedTransferChecked ix mint =
     (if programAddress ix \<noteq> TOKEN_2022_PROGRAM_ADDRESS
      then Inl (GuardClientError InvalidDownstream_code None)
      else if length (data_of ix) \<noteq> TRANSFER_CHECKED_DATA_LEN \<or>
              js_index (data_of ix) 0 \<noteq> Some TRANSFER_CHECKED_TAG \<or> length (accounts_of ix) < 4
      then Inl (GuardClientError InvalidDownstream_code None)
      else if map_option am_address (js_index (accounts_of ix) 1) \<noteq> Some mint
      then Inl (GuardClientError InvalidDownstream_code None)
      else Inr ())"

definition getAssertSafeExecutionV2Instruction ::
    "(address \<Rightarrow> bytes) \<Rightarrow> address \<Rightarrow> address \<Rightarrow> assert_safe_execution_request \<Rightarrow> bytes \<Rightarrow> int option \<Rightarrow>
       js_exn + instruction" where
  "getAssertSafeExecutionV2Instruction encode program mint expectation commitment kind =
     bindE (encodeAssertSafeExecutionV2 encode
         (assert_safe_execution_request.extend expectation
            \<lparr>expectedMint = mint,
             adapterKind = (case kind of None \<Rightarrow> TOKEN_2022_TRANSFER_CHECKED | Some k \<Rightarrow> k),
             downstreamCommitment = commitment\<rparr>)) (\<lambda>data.
       Inr \<lparr>programAddress = program,
            ix_accounts = Some [\<lparr>am_address = mint, am_role = READONLY\<rparr>,
                                \<lparr>am_address = SYSVAR_INSTRUCTIONS_ADDRESS, am_role = READONLY\<rparr>],
            ix_data = Some data\<rparr>)"

record guarded_transfer_checked =
  gt_instructions :: "instruction list"
  gt_guard :: instruction
  gt_transferChecked :: instruction
  gt_committed :: committed_instruction
  gt_commitment :: bytes

definition buildGuardedTransferChecked ::
    "(address \<Rightarrow> bytes) \<Rightarrow> (bytes \<Rightarrow> bytes) \<Rightarrow> address \<Rightarrow> address \<Rightarrow> address \<Rightarrow>
       assert_safe_execution_request \<Rightarrow> instruction \<Rightarrow> instruction list option \<Rightarrow>
       js_exn + guarded_transfer_checked" where
  "buildGuardedTransferChecked encode sha256 program feePayer mint expectation transfer before =
     bindE (assertSupportedTransferChecked transfer mint) (\<lambda>_.
     let pre = (case before of None \<Rightarrow> [] | Some ixs \<Rightarrow> ixs) in
     bindE (getAssertSafeExecutionV2Instruction encode program mint expectation (replicate 32 0) None)
       (\<lambda>placeholder.
     let committed = asCommittedInstruction transfer (pre @ [placeholder, transfer]) feePayer in
     bindE (downstreamCommitmentOf encode sha256 committed) (\<lambda>commitment.
     bindE (getAssertSafeExecutionV2Instruction encode program mint expectation commitment None) (\<lambda>guard.
       Inr \<lparr>gt_instructions = pre @ [guard, transfer], gt_guard = guard,
            gt_transferChecked = transfer, gt_committed = committed, gt_commitment = commitment\<rparr>))))"

section \<open>downstream.rs\<close>

record rs_account_meta =
  rs_pubkey :: bytes
  rs_is_signer :: bool
  rs_is_writable :: bool

record rs_instruction =
  rs_program_id :: bytes
  rs_accounts :: "rs_account_meta list"
  rs_data :: bytes

definition u32_try_from :: "nat \<Rightarrow> equity_guard_error + bytes" where
  "u32_try_from n = (if n > 0xffffffff then Inl ArithmeticOverflow else Inr (le_bytes 4 n))"

definition rs_account_bytes :: "rs_account_meta \<Rightarrow> bytes" where
  "rs_account_bytes a = rs_pubkey a @ [flag_byte (rs_is_signer a), flag_byte (rs_is_writable a)]"

definition rs_downstream_commitment_of ::
    "(bytes \<Rightarrow> bytes) \<Rightarrow> rs_instruction \<Rightarrow> equity_guard_error + bytes" where
  "rs_downstream_commitment_of hash ix =
     bindE (u32_try_from (length (rs_accounts ix))) (\<lambda>account_count.
     bindE (u32_try_from (length (rs_data ix))) (\<lambda>data_len.
       Inr (hash (ascii_bytes DOWNSTREAM_COMMITMENT_DOMAIN @ rs_program_id ix @ account_count @
              concat (map rs_account_bytes (rs_accounts ix)) @ data_len @ rs_data ix))))"

text \<open>Loading from the Instructions sysvar: an index past the end is \<open>InvalidArgument\<close>.\<close>

datatype load_error = InvalidArgument | OtherProgramError

definition verify_transfer_checked ::
    "(bytes \<Rightarrow> bytes) \<Rightarrow> bytes \<Rightarrow> (bytes \<Rightarrow> bool) \<Rightarrow> nat \<Rightarrow> rs_assert_safe_execution_v2 \<Rightarrow> bytes \<Rightarrow>
       (nat \<Rightarrow> load_error + rs_instruction) \<Rightarrow> equity_guard_error + unit" where
  "verify_transfer_checked hash token_2022_id unpacks_transfer_checked current request mint_key load =
     (case load (current + 1) of
        Inl InvalidArgument \<Rightarrow> Inl MissingDownstreamInstruction
      | Inl OtherProgramError \<Rightarrow> Inl InvalidInstructionsSysvar
      | Inr next \<Rightarrow>
          if rs_program_id next \<noteq> token_2022_id then Inl UnsupportedDownstreamProgram
          else if \<not> (length (rs_data next) = 10 \<and> unpacks_transfer_checked (rs_data next) \<and>
                    length (rs_accounts next) \<ge> 4)
          then Inl UnsupportedDownstreamInstruction
          else bindE (require UnsupportedDownstreamInstruction (js_index (rs_accounts next) 1)) (\<lambda>mint.
            if rs_pubkey mint \<noteq> mint_key then Inl DownstreamMintMismatch
            else bindE (rs_downstream_commitment_of hash next) (\<lambda>actual.
              if actual \<noteq> rs_downstream_commitment request then Inl DownstreamCommitmentMismatch
              else Inr ())))"

section \<open>The commitment's preimage\<close>

text \<open>An instruction's canonical bytes are framed: they determine it, whatever follows them.\<close>

definition rs_instruction_bytes :: "rs_instruction \<Rightarrow> bytes" where
  "rs_instruction_bytes ix =
     rs_program_id ix @ counted rs_account_bytes (rs_accounts ix) @ sized_bytes (rs_data ix)"

definition rs_account_ok :: "rs_account_meta \<Rightarrow> bool" where
  "rs_account_ok a \<longleftrightarrow> length (rs_pubkey a) = 32"

definition rs_instruction_ok :: "rs_instruction \<Rightarrow> bool" where
  "rs_instruction_ok ix \<longleftrightarrow>
     length (rs_program_id ix) = 32 \<and> list_all rs_account_ok (rs_accounts ix) \<and>
     length (rs_accounts ix) < 2 ^ 32 \<and> length (rs_data ix) < 2 ^ 32"

lemma flag_byte_inject [simp]: "flag_byte a = flag_byte b \<longleftrightarrow> a = b"
  by (simp add: flag_byte_def)

interpretation account_frame: framed rs_account_bytes rs_account_ok
  by unfold_locales (auto simp: rs_account_bytes_def rs_account_ok_def)

interpretation instruction_frame: framed rs_instruction_bytes rs_instruction_ok
proof unfold_locales
  fix x y :: rs_instruction and r s
  assume ok: "rs_instruction_ok x" "rs_instruction_ok y"
    and eq: "rs_instruction_bytes x @ r = rs_instruction_bytes y @ s"
  from eq ok have 1: "rs_program_id x = rs_program_id y"
    and 2: "counted rs_account_bytes (rs_accounts x) @ sized_bytes (rs_data x) @ r
          = counted rs_account_bytes (rs_accounts y) @ sized_bytes (rs_data y) @ s"
    by (auto simp: rs_instruction_bytes_def rs_instruction_ok_def)
  from ok 2 have 3: "rs_accounts x = rs_accounts y \<and>
      sized_bytes (rs_data x) @ r = sized_bytes (rs_data y) @ s"
    by (intro account_frame.counted_split) (simp_all add: rs_instruction_ok_def)
  with ok have "rs_data x = rs_data y \<and> r = s"
    by (intro sized_bytes.framed_split) (simp_all add: rs_instruction_ok_def)
  with 1 3 show "x = y \<and> r = s" by simp
qed

lemma rs_downstream_commitment_preimage:
  "length (rs_accounts ix) < 2 ^ 32 \<Longrightarrow> length (rs_data ix) < 2 ^ 32 \<Longrightarrow>
   rs_downstream_commitment_of hash ix =
     Inr (hash (ascii_bytes DOWNSTREAM_COMMITMENT_DOMAIN @ rs_instruction_bytes ix))"
  by (simp add: rs_downstream_commitment_of_def u32_try_from_def rs_instruction_bytes_def counted_def
      sized_bytes_def)

text \<open>The client's instruction as the program sees it.\<close>

definition rs_account_of :: "(address \<Rightarrow> bytes) \<Rightarrow> committed_account \<Rightarrow> rs_account_meta" where
  "rs_account_of encode a =
     \<lparr>rs_pubkey = encode (ca_address a), rs_is_signer = ca_isSigner a, rs_is_writable = ca_isWritable a\<rparr>"

definition rs_instruction_of :: "(address \<Rightarrow> bytes) \<Rightarrow> committed_instruction \<Rightarrow> rs_instruction" where
  "rs_instruction_of encode ix =
     \<lparr>rs_program_id = encode (ci_programAddress ix),
      rs_accounts = map (rs_account_of encode) (ci_accounts ix), rs_data = ci_data ix\<rparr>"

lemma concat_account_parts:
  "concat (concat (map (\<lambda>account. [encode (ca_address account),
       [flag_byte (ca_isSigner account), flag_byte (ca_isWritable account)]]) accounts))
   = concat (map rs_account_bytes (map (rs_account_of encode) accounts))"
  by (induction accounts) (simp_all add: rs_account_bytes_def rs_account_of_def)

lemma downstreamCommitmentPreimage_eq:
  "downstreamCommitmentPreimage encode ix =
     (if length (ci_accounts ix) < 2 ^ 32 \<and> length (ci_data ix) < 2 ^ 32
      then Inr (ascii_bytes DOWNSTREAM_COMMITMENT_DOMAIN @
             rs_instruction_bytes (rs_instruction_of encode ix))
      else Inl (GuardClientError InvalidDownstream_code None))"
  using concat_account_parts [of encode "ci_accounts ix"]
  by (auto simp: downstreamCommitmentPreimage_def u32le_def Let_def rs_instruction_bytes_def
      rs_instruction_of_def counted_def sized_bytes_def)

section \<open>What the builder builds\<close>

text \<open>A merged flag is set by the fee payer or by some mention of the address in the transaction.\<close>

lemma merge_flags_iff:
  "merge_flags addr metas (signer, writable) =
     (signer \<or> (\<exists>m \<in> set metas. am_address m = addr \<and> isSigner (am_role m)),
      writable \<or> (\<exists>m \<in> set metas. am_address m = addr \<and> isWritable (am_role m)))"
  by (induction metas arbitrary: signer writable) auto

lemma foldl_flags_iff:
  "foldl (\<lambda>fs ix. merge_flags addr (accounts_of ix) fs) (signer, writable) ixs =
     (signer \<or> (\<exists>ix \<in> set ixs. \<exists>m \<in> set (accounts_of ix). am_address m = addr \<and> isSigner (am_role m)),
      writable \<or> (\<exists>ix \<in> set ixs. \<exists>m \<in> set (accounts_of ix). am_address m = addr \<and> isWritable (am_role m)))"
  by (induction ixs arbitrary: signer writable) (auto simp: merge_flags_iff)

lemma transaction_flags_iff:
  "transaction_flags ixs payer addr =
     (addr = payer \<or> (\<exists>ix \<in> set ixs. \<exists>m \<in> set (accounts_of ix). am_address m = addr \<and> isSigner (am_role m)),
      addr = payer \<or> (\<exists>ix \<in> set ixs. \<exists>m \<in> set (accounts_of ix). am_address m = addr \<and> isWritable (am_role m)))"
  by (simp add: transaction_flags_def foldl_flags_iff)

lemma transaction_flags_cong:
  "map accounts_of xs = map accounts_of ys \<Longrightarrow> transaction_flags xs payer addr = transaction_flags ys payer addr"
proof -
  have "foldl (\<lambda>fs ix. merge_flags addr (accounts_of ix) fs) z zs
          = foldl (\<lambda>fs metas. merge_flags addr metas fs) z (map accounts_of zs)" for z zs
    by (simp add: foldl_map)
  then show "map accounts_of xs = map accounts_of ys \<Longrightarrow> ?thesis"
    by (simp only: transaction_flags_def)
qed

lemma asCommittedInstruction_cong:
  "map accounts_of xs = map accounts_of ys \<Longrightarrow>
   asCommittedInstruction target xs payer = asCommittedInstruction target ys payer"
  by (simp add: asCommittedInstruction_def transaction_flags_cong [of xs ys])

lemma getAssertSafeExecutionV2Instruction_ok:
  assumes "getAssertSafeExecutionV2Instruction encode program mint expectation commitment kind = Inr ix"
  shows "programAddress ix = program" and
    "ix_accounts ix = Some [\<lparr>am_address = mint, am_role = READONLY\<rparr>,
        \<lparr>am_address = SYSVAR_INSTRUCTIONS_ADDRESS, am_role = READONLY\<rparr>]" and
    "\<exists>data. ix_data ix = Some data \<and> encodeAssertSafeExecutionV2 encode
       (assert_safe_execution_request.extend expectation
          \<lparr>expectedMint = mint,
           adapterKind = (case kind of None \<Rightarrow> TOKEN_2022_TRANSFER_CHECKED | Some k \<Rightarrow> k),
           downstreamCommitment = commitment\<rparr>) = Inr data"
  using assms by (auto simp: getAssertSafeExecutionV2Instruction_def err_simps)

text \<open>The request a guard carries, as the program reads it.\<close>

definition rs_guard_request ::
    "(address \<Rightarrow> bytes) \<Rightarrow> address \<Rightarrow> assert_safe_execution_request \<Rightarrow> bytes \<Rightarrow> int \<Rightarrow>
       rs_assert_safe_execution_v2" where
  "rs_guard_request encode mint expectation commitment kind =
     \<lparr>rs_expected_mint = encode mint, rs_execution = rs_execution_of expectation,
      rs_adapter = rs_adapter_of kind, rs_downstream_commitment = commitment\<rparr>"

lemma encode_unpack:
  assumes len: "length (encode (expectedMint r)) = 32" and enc: "encodeAssertSafeExecutionV2 encode r = Inr data"
  shows "unpack data = Inr (rs_request_of (encode (expectedMint r)) r)"
proof -
  have ok: "v2_request_ok r" using encode_refuses [of r encode] enc by auto
  then have "data = v2_layout (encode (expectedMint r)) r"
    using encode_ok [of encode r, OF len] enc by simp
  with ok show ?thesis using unpack_v2_layout [OF len] by simp
qed

lemma guard_instruction_request:
  assumes "getAssertSafeExecutionV2Instruction encode program mint expectation commitment kind = Inr ix"
    and "length (encode mint) = 32"
  shows "unpack (data_of ix) = Inr (rs_guard_request encode mint expectation commitment
           (case kind of None \<Rightarrow> TOKEN_2022_TRANSFER_CHECKED | Some k \<Rightarrow> k))"
proof -
  let ?r = "assert_safe_execution_request.extend expectation
          \<lparr>expectedMint = mint,
           adapterKind = (case kind of None \<Rightarrow> TOKEN_2022_TRANSFER_CHECKED | Some k \<Rightarrow> k),
           downstreamCommitment = commitment\<rparr>"
  obtain data where "ix_data ix = Some data" and e: "encodeAssertSafeExecutionV2 encode ?r = Inr data"
    using getAssertSafeExecutionV2Instruction_ok(3) [OF assms(1)] by blast
  moreover have "length (encode (expectedMint ?r)) = 32"
    using assms(2) by (simp add: assert_safe_execution_request.defs)
  ultimately show ?thesis
    using encode_unpack [of encode ?r data]
    by (simp add: rs_request_of_def rs_guard_request_def rs_execution_of_def
        assert_safe_execution_request.defs)
qed

lemma buildGuardedTransferChecked_ok:
  assumes "buildGuardedTransferChecked encode sha256 program payer mint expectation transfer before = Inr g"
  shows "assertSupportedTransferChecked transfer mint = Inr ()"
    and "gt_transferChecked g = transfer"
    and "gt_instructions g = (case before of None \<Rightarrow> [] | Some ixs \<Rightarrow> ixs) @ [gt_guard g, transfer]"
    and "gt_committed g = asCommittedInstruction transfer (gt_instructions g) payer"
    and "downstreamCommitmentOf encode sha256 (gt_committed g) = Inr (gt_commitment g)"
    and "getAssertSafeExecutionV2Instruction encode program mint expectation (gt_commitment g) None
           = Inr (gt_guard g)"
proof -
  obtain placeholder where ph:
    "getAssertSafeExecutionV2Instruction encode program mint expectation (replicate 32 0) None = Inr placeholder"
    using assms by (auto simp: buildGuardedTransferChecked_def err_simps Let_def)
  show b: "assertSupportedTransferChecked transfer mint = Inr ()"
    "gt_transferChecked g = transfer"
    "gt_instructions g = (case before of None \<Rightarrow> [] | Some ixs \<Rightarrow> ixs) @ [gt_guard g, transfer]"
    "downstreamCommitmentOf encode sha256 (gt_committed g) = Inr (gt_commitment g)"
    "getAssertSafeExecutionV2Instruction encode program mint expectation (gt_commitment g) None
       = Inr (gt_guard g)"
    using assms by (auto simp: buildGuardedTransferChecked_def err_simps Let_def)
  have "gt_committed g = asCommittedInstruction transfer
      ((case before of None \<Rightarrow> [] | Some ixs \<Rightarrow> ixs) @ [placeholder, transfer]) payer"
    using assms ph by (auto simp: buildGuardedTransferChecked_def err_simps Let_def)
  then show "gt_committed g = asCommittedInstruction transfer (gt_instructions g) payer"
    using getAssertSafeExecutionV2Instruction_ok(2) [OF ph]
      getAssertSafeExecutionV2Instruction_ok(2) [OF b(5)] b(3)
    by (simp add: asCommittedInstruction_cong [of "_ @ [placeholder, transfer]" "_ @ [gt_guard g, transfer]"])
qed

text \<open>When the builders succeed.\<close>

definition expectation_ok :: "assert_safe_execution_request \<Rightarrow> bool" where
  "expectation_ok e \<longleftrightarrow>
     isValidStoredMultiplier (multiplier (expected e)) \<and> isValidStoredMultiplier (newMultiplier (expected e)) \<and>
     storable_state (expected e) \<and> (expectedPhase e = Pending \<or> expectedPhase e = Activated) \<and>
     js_int_in 0 U32_MAX (beforeSecs (window e)) \<and> js_int_in 0 U32_MAX (afterSecs (window e))"

lemma v2_request_ok_extend:
  "v2_request_ok (assert_safe_execution_request.extend e
      \<lparr>expectedMint = mint, adapterKind = k, downstreamCommitment = c\<rparr>) \<longleftrightarrow>
   expectation_ok e \<and> isDownstreamAdapterKind k \<and> length c = 32"
  by (auto simp: v2_request_ok_def expectation_ok_def storable_state_def assert_safe_execution_request.defs)

lemma getAssertSafeExecutionV2Instruction_total:
  assumes "expectation_ok e" and "length c = 32" and "length (encode mint) = 32"
    and "isDownstreamAdapterKind (case kind of None \<Rightarrow> TOKEN_2022_TRANSFER_CHECKED | Some k \<Rightarrow> k)"
  shows "\<exists>ix. getAssertSafeExecutionV2Instruction encode program mint e c kind = Inr ix"
proof -
  let ?r = "assert_safe_execution_request.extend e
      \<lparr>expectedMint = mint,
       adapterKind = (case kind of None \<Rightarrow> TOKEN_2022_TRANSFER_CHECKED | Some k \<Rightarrow> k),
       downstreamCommitment = c\<rparr>"
  have "v2_request_ok ?r" using assms by (simp add: v2_request_ok_extend)
  moreover have "length (encode (expectedMint ?r)) = 32"
    using assms(3) by (simp add: assert_safe_execution_request.defs)
  ultimately show ?thesis
    using encode_ok [of encode ?r] by (auto simp: getAssertSafeExecutionV2Instruction_def)
qed

lemma TransferChecked_kind_ok [simp]: "isDownstreamAdapterKind TOKEN_2022_TRANSFER_CHECKED"
  by (simp add: isDownstreamAdapterKind_def)

lemma buildGuardedTransferChecked_total:
  assumes "assertSupportedTransferChecked transfer mint = Inr ()" and "expectation_ok e"
    and "length (encode mint) = 32" and "\<And>p. length (sha256 p) = 32"
    and "length (accounts_of transfer) < 2 ^ 32"
  shows "\<exists>g. buildGuardedTransferChecked encode sha256 program payer mint e transfer before = Inr g"
proof -
  have g: "\<exists>ix. getAssertSafeExecutionV2Instruction encode program mint e c None = Inr ix"
    if "length c = 32" for c
    using getAssertSafeExecutionV2Instruction_total [of e c encode mint None] assms(2,3) that by simp
  obtain ph where ph: "getAssertSafeExecutionV2Instruction encode program mint e (replicate 32 0) None = Inr ph"
    using g [of "replicate 32 0"] by auto
  have len: "length (data_of transfer) = 10"
    using assms(1) by (simp add: assertSupportedTransferChecked_def TRANSFER_CHECKED_DATA_LEN_def split: if_splits)
  let ?c = "asCommittedInstruction transfer
      ((case before of None \<Rightarrow> [] | Some ixs \<Rightarrow> ixs) @ [ph, transfer]) payer"
  have "\<exists>p. downstreamCommitmentOf encode sha256 ?c = Inr (sha256 p)"
    using len assms(5) unfolding downstreamCommitmentOf_def downstreamCommitmentPreimage_eq
    by (auto simp: asCommittedInstruction_def)
  then obtain p where "downstreamCommitmentOf encode sha256 ?c = Inr (sha256 p)" by blast
  moreover obtain guard where "getAssertSafeExecutionV2Instruction encode program mint e (sha256 p) None = Inr guard"
    using g [of "sha256 p"] assms(4) by auto
  ultimately show ?thesis
    using assms(1) ph by (simp add: buildGuardedTransferChecked_def Let_def)
qed

lemma rs_mint_at_1:
  assumes "assertSupportedTransferChecked transfer mint = Inr ()"
  shows "map_option rs_pubkey (js_index (rs_accounts (rs_instruction_of encode
           (asCommittedInstruction transfer ixs payer))) 1) = Some (encode mint)"
proof -
  have "4 \<le> length (accounts_of transfer)" and "am_address (accounts_of transfer ! 1) = mint"
    using assms by (auto simp: assertSupportedTransferChecked_def js_index_def split: if_splits)
  then show ?thesis
    by (simp add: rs_instruction_of_def rs_account_of_def asCommittedInstruction_def js_index_def
        split_beta Let_def)
qed

section \<open>Properties\<close>

definition sample_transfer :: instruction where
  "sample_transfer =
     \<lparr>programAddress = TOKEN_2022_PROGRAM_ADDRESS,
      ix_accounts = Some [\<lparr>am_address = ''source'', am_role = WRITABLE\<rparr>,
        \<lparr>am_address = ''mint'', am_role = READONLY\<rparr>, \<lparr>am_address = ''dest'', am_role = WRITABLE\<rparr>,
        \<lparr>am_address = ''owner'', am_role = READONLY_SIGNER\<rparr>],
      ix_data = Some (12 # replicate 9 1)\<rparr>"

definition sample_expectation :: assert_safe_execution_request where
  "sample_expectation =
     \<lparr>expected = sample_state, expectedPhase = Pending,
      window = \<lparr>beforeSecs = JNum 60, afterSecs = JNum 30\<rparr>\<rparr>"

definition sample_hash :: "bytes \<Rightarrow> bytes" where
  "sample_hash p = replicate 32 1"

lemma sample_expectation_ok: "expectation_ok sample_expectation"
  by (simp add: expectation_ok_def sample_expectation_def sample_state_ok js_int_in_def U32_MAX_def)

lemma sample_transfer_ok: "assertSupportedTransferChecked sample_transfer ''mint'' = Inr ()"
  by (simp add: assertSupportedTransferChecked_def sample_transfer_def TRANSFER_CHECKED_DATA_LEN_def
      TRANSFER_CHECKED_TAG_def js_index_def)

lemma sample_build:
  "\<exists>g. buildGuardedTransferChecked sample_encoder sample_hash ''guard'' ''owner'' ''mint''
         sample_expectation sample_transfer None = Inr g"
  by (rule buildGuardedTransferChecked_total [OF sample_transfer_ok sample_expectation_ok])
    (simp_all add: sample_encoder_def sample_hash_def sample_transfer_def)

text \<open>
  C11. A guarded transfer built by the client passes the program: the guard's payload decodes to the
  authorized request for the mint, the committed instruction is the transfer as the whole built
  transaction exposes it, and when the Instructions sysvar reports it right after the guard, the
  program's downstream verification accepts it. Hypotheses: the encoder gives 32 bytes for the
  mint, \<open>token_2022_id\<close> is its encoding of the Token-2022 address, and the SPL parser recognises ten
  bytes with tag 12 as TransferChecked.
\<close>

theorem guarded_transfer_verifies:
  assumes "buildGuardedTransferChecked encode sha256 program payer mint expectation transfer before = Inr g"
    and "length (encode mint) = 32" and "token_2022_id = encode TOKEN_2022_PROGRAM_ADDRESS"
    and "\<And>bs. length bs = 10 \<Longrightarrow> hd bs = 12 \<Longrightarrow> unpacks_transfer_checked bs"
    and "load (current + 1) = Inr (rs_instruction_of encode
           (asCommittedInstruction transfer (gt_instructions g) payer))"
  shows "\<exists>request. unpack (data_of (gt_guard g)) = Inr request \<and>
           rs_expected_mint request = encode mint \<and> rs_execution request = rs_execution_of expectation \<and>
           verify_transfer_checked sha256 token_2022_id unpacks_transfer_checked current request
             (encode mint) load = Inr ()"
proof -
  note b = buildGuardedTransferChecked_ok [OF assms(1)]
  let ?ci = "asCommittedInstruction transfer (gt_instructions g) payer"
  let ?ix = "rs_instruction_of encode ?ci"
  have t: "programAddress transfer = TOKEN_2022_PROGRAM_ADDRESS" "length (data_of transfer) = 10"
    "hd (data_of transfer) = 12" "4 \<le> length (accounts_of transfer)"
    using b(1) by (auto simp: assertSupportedTransferChecked_def TRANSFER_CHECKED_DATA_LEN_def
        TRANSFER_CHECKED_TAG_def js_index_def hd_conv_nth split: if_splits)
  have lens: "length (ci_accounts ?ci) < 2 ^ 32" "length (ci_data ?ci) < 2 ^ 32"
    and c: "gt_commitment g = sha256 (ascii_bytes DOWNSTREAM_COMMITMENT_DOMAIN @ rs_instruction_bytes ?ix)"
    using b(5) b(4) by (auto simp: downstreamCommitmentOf_def downstreamCommitmentPreimage_eq err_simps
        split: if_splits)
  have "rs_downstream_commitment_of sha256 ?ix = Inr (gt_commitment g)"
    using lens c by (subst rs_downstream_commitment_preimage) (simp_all add: rs_instruction_of_def)
  moreover obtain m where "js_index (rs_accounts ?ix) 1 = Some m" "rs_pubkey m = encode mint"
    using rs_mint_at_1 [OF b(1), of encode "gt_instructions g" payer] by auto
  moreover have "rs_program_id ?ix = token_2022_id" "rs_data ?ix = data_of transfer"
      "length (rs_accounts ?ix) = length (accounts_of transfer)"
    using t(1) assms(3) by (simp_all add: rs_instruction_of_def asCommittedInstruction_def)
  ultimately have "verify_transfer_checked sha256 token_2022_id unpacks_transfer_checked current
      (rs_guard_request encode mint expectation (gt_commitment g) TOKEN_2022_TRANSFER_CHECKED)
      (encode mint) load = Inr ()"
    using assms(4,5) t by (simp add: verify_transfer_checked_def rs_guard_request_def)
  then show ?thesis
    using guard_instruction_request [OF b(6) assms(2)] by (auto simp: rs_guard_request_def)
qed

theorem guarded_transfer_verifies_witness:
  "\<exists>g request load. buildGuardedTransferChecked sample_encoder sample_hash ''guard'' ''owner'' ''mint''
       sample_expectation sample_transfer None = Inr g \<and>
     unpack (data_of (gt_guard g)) = Inr request \<and>
     verify_transfer_checked sample_hash (sample_encoder TOKEN_2022_PROGRAM_ADDRESS) (\<lambda>bs. hd bs = 12)
       0 request (sample_encoder ''mint'') load = Inr ()"
proof -
  obtain g where g: "buildGuardedTransferChecked sample_encoder sample_hash ''guard'' ''owner'' ''mint''
       sample_expectation sample_transfer None = Inr g" using sample_build by blast
  let ?load = "\<lambda>_. Inr (rs_instruction_of sample_encoder
      (asCommittedInstruction sample_transfer (gt_instructions g) ''owner''))"
  from guarded_transfer_verifies [OF g, of "sample_encoder TOKEN_2022_PROGRAM_ADDRESS"
      "\<lambda>bs. hd bs = 12" ?load 0] g show ?thesis
    by (auto simp: sample_encoder_def)
qed

text \<open>
  C12. The commitment binds the action: whatever next instruction the program accepts under the
  guard the client built is the committed instruction itself, account for account, flag for flag
  and byte for byte, unless its canonical encoding and the committed one are two different inputs
  of SHA-256 with the same digest.
\<close>

theorem accepted_instruction_is_committed:
  assumes "buildGuardedTransferChecked encode sha256 program payer mint expectation transfer before = Inr g"
    and "\<And>a. a \<in> {programAddress transfer, mint} \<union> am_address ` set (accounts_of transfer) \<Longrightarrow>
           length (encode a) = 32"
    and "unpack (data_of (gt_guard g)) = Inr request"
    and "load (current + 1) = Inr next" and "rs_instruction_ok next"
    and "verify_transfer_checked sha256 token_2022_id unpacks_transfer_checked current request mint_key load
           = Inr ()"
  shows "next = rs_instruction_of encode (gt_committed g) \<or>
     (let p = ascii_bytes DOWNSTREAM_COMMITMENT_DOMAIN @ rs_instruction_bytes next;
          q = ascii_bytes DOWNSTREAM_COMMITMENT_DOMAIN @
                rs_instruction_bytes (rs_instruction_of encode (gt_committed g))
      in p \<noteq> q \<and> sha256 p = sha256 q)"
proof -
  note b = buildGuardedTransferChecked_ok [OF assms(1)]
  let ?ix = "rs_instruction_of encode (gt_committed g)"
  have c: "gt_commitment g = sha256 (ascii_bytes DOWNSTREAM_COMMITMENT_DOMAIN @ rs_instruction_bytes ?ix)"
    and lens: "length (ci_accounts (gt_committed g)) < 2 ^ 32" "length (ci_data (gt_committed g)) < 2 ^ 32"
    using b(5) by (auto simp: downstreamCommitmentOf_def downstreamCommitmentPreimage_eq err_simps
        split: if_splits)
  have ok: "rs_instruction_ok ?ix"
    using lens assms(2) unfolding b(4)
    by (auto simp: rs_instruction_ok_def rs_instruction_of_def asCommittedInstruction_def list_all_iff
        rs_account_ok_def rs_account_of_def split_beta Let_def)
  have "rs_downstream_commitment request = gt_commitment g"
    using guard_instruction_request [OF b(6)] assms(2,3) by (auto simp: rs_guard_request_def)
  then have "rs_downstream_commitment_of sha256 next = Inr (gt_commitment g)"
    using assms(4,6) by (auto simp: verify_transfer_checked_def err_simps split: if_splits)
  then have "sha256 (ascii_bytes DOWNSTREAM_COMMITMENT_DOMAIN @ rs_instruction_bytes next) = gt_commitment g"
    using assms(5) by (simp add: rs_downstream_commitment_preimage rs_instruction_ok_def)
  with c show ?thesis
    using instruction_frame.enc_inject [OF assms(5) ok] by (auto simp: Let_def)
qed

theorem accepted_instruction_is_committed_witness:
  "\<exists>g next. buildGuardedTransferChecked sample_encoder sample_hash ''guard'' ''owner'' ''mint''
       sample_expectation sample_transfer None = Inr g \<and>
     (next = rs_instruction_of sample_encoder (gt_committed g) \<or>
     (let p = ascii_bytes DOWNSTREAM_COMMITMENT_DOMAIN @ rs_instruction_bytes next;
          q = ascii_bytes DOWNSTREAM_COMMITMENT_DOMAIN @
                rs_instruction_bytes (rs_instruction_of sample_encoder (gt_committed g))
      in p \<noteq> q \<and> sample_hash p = sample_hash q))"
proof -
  let ?id = "sample_encoder TOKEN_2022_PROGRAM_ADDRESS"
  let ?build = "buildGuardedTransferChecked sample_encoder sample_hash ''guard'' ''owner'' ''mint''
       sample_expectation sample_transfer None"
  obtain g where g: "?build = Inr g" using sample_build by blast
  note b = buildGuardedTransferChecked_ok [OF g]
  let ?next = "rs_instruction_of sample_encoder (gt_committed g)"
  let ?req = "rs_guard_request sample_encoder ''mint'' sample_expectation (gt_commitment g)
      TOKEN_2022_TRANSFER_CHECKED"
  have enc: "length (sample_encoder a) = 32" for a by (simp add: sample_encoder_def)
  have u: "unpack (data_of (gt_guard g)) = Inr ?req"
    using guard_instruction_request [OF b(6) enc] by simp
  have ci: "length (ci_accounts (gt_committed g)) = 4" "ci_data (gt_committed g) = 12 # replicate 9 1"
    by (simp_all add: b(4) asCommittedInstruction_def sample_transfer_def)
  then have ok: "rs_instruction_ok ?next"
    by (simp add: rs_instruction_ok_def rs_instruction_of_def enc list_all_iff rs_account_ok_def rs_account_of_def)
  have idx: "map_option rs_pubkey (js_index (rs_accounts ?next) 1) = Some (sample_encoder ''mint'')"
    unfolding b(4) by (rule rs_mint_at_1 [OF sample_transfer_ok])
  have "rs_downstream_commitment_of sample_hash ?next = Inr (replicate 32 1)"
    using ok by (simp add: rs_downstream_commitment_preimage rs_instruction_ok_def sample_hash_def)
  moreover have "gt_commitment g = replicate 32 1"
    using b(5) by (auto simp: downstreamCommitmentOf_def err_simps sample_hash_def)
  moreover have "rs_program_id ?next = ?id" by (simp add: rs_instruction_of_def sample_encoder_def)
  ultimately have v: "verify_transfer_checked sample_hash ?id (\<lambda>bs. hd bs = 12) 0 ?req
      (sample_encoder ''mint'') (\<lambda>_. Inr ?next) = Inr ()"
    using idx ci by (auto simp: verify_transfer_checked_def rs_guard_request_def rs_instruction_of_def)
  from accepted_instruction_is_committed [OF g enc u refl ok v] g show ?thesis by blast
qed

end
