(* ===== verification/Js_Text.thy ===== *)
theory Js_Text
  imports EG_Prelude
begin

text \<open>
  Decimal text: the digits of a natural number, \<open>BigInt(text)\<close> on a string of digits,
  \<open>bigint.toString()\<close> and their round trips; \<open>Array.prototype.join\<close>; and hexadecimal text.
\<close>

definition is_digit :: "char \<Rightarrow> bool" where
  "is_digit c = (48 \<le> (of_char c :: nat) \<and> (of_char c :: nat) \<le> 57)"

definition digit_value :: "char \<Rightarrow> nat" where
  "digit_value c = of_char c - 48"

definition digit_char :: "nat \<Rightarrow> char" where
  "digit_char d = char_of (d + 48)"

definition nat_of_digits :: "string \<Rightarrow> nat" where
  "nat_of_digits s = foldl (\<lambda>n c. 10 * n + digit_value c) 0 s"

fun digits_of_nat :: "nat \<Rightarrow> string" where
  "digits_of_nat n = (if n < 10 then [digit_char n] else digits_of_nat (n div 10) @ [digit_char (n mod 10)])"

declare digits_of_nat.simps [simp del]

text \<open>\<open>i.toString()\<close> of a bigint.\<close>

definition string_of_int :: "int \<Rightarrow> string" where
  "string_of_int i = (if i < 0 then CHR ''-'' # digits_of_nat (nat (- i)) else digits_of_nat (nat i))"

text \<open>The pattern of one or more digits.\<close>

definition all_digits :: "string \<Rightarrow> bool" where
  "all_digits s = (s \<noteq> [] \<and> list_all is_digit s)"

lemma digit_value_char [simp]: "d < 10 \<Longrightarrow> digit_value (digit_char d) = d"
  by (simp add: digit_value_def digit_char_def)

lemma is_digit_char [simp]: "d < 10 \<Longrightarrow> is_digit (digit_char d)"
  by (simp add: is_digit_def digit_char_def)

lemma nat_of_digits_snoc [simp]: "nat_of_digits (s @ [c]) = 10 * nat_of_digits s + digit_value c"
  by (simp add: nat_of_digits_def)

lemma nat_of_digits_of_nat [simp]: "nat_of_digits (digits_of_nat n) = n"
proof (induction n rule: digits_of_nat.induct)
  case (1 n)
  show ?case
  proof (cases "n < 10")
    case True
    then show ?thesis by (simp add: digits_of_nat.simps [of n] nat_of_digits_def)
  next
    case False
    then have "nat_of_digits (digits_of_nat n) = 10 * (n div 10) + n mod 10"
      using 1 by (simp add: digits_of_nat.simps [of n])
    then show ?thesis by simp
  qed
qed

lemma all_digits_of_nat [simp]: "all_digits (digits_of_nat n)"
proof (induction n rule: digits_of_nat.induct)
  case (1 n)
  then show ?case by (cases "n < 10") (auto simp: digits_of_nat.simps [of n] all_digits_def)
qed

lemma digits_of_nat_inject [simp]: "digits_of_nat m = digits_of_nat n \<longleftrightarrow> m = n"
  by (metis nat_of_digits_of_nat)

lemma digits_no_minus: "CHR ''-'' \<notin> set (digits_of_nat n)"
  using all_digits_of_nat [of n] by (auto simp: all_digits_def list_all_iff is_digit_def)

lemma string_of_int_inject: "string_of_int i = string_of_int j \<longleftrightarrow> i = j"
proof -
  have "CHR ''-'' # s \<noteq> digits_of_nat n" for s n using digits_no_minus [of n] by (metis list.set_intros(1))
  then show ?thesis by (auto simp: string_of_int_def dest: sym)
qed

text \<open>\<open>parts.join(sep)\<close>.\<close>

fun js_join :: "string \<Rightarrow> string list \<Rightarrow> string" where
  "js_join sep [] = []"
| "js_join sep [x] = x"
| "js_join sep (x # y # xs) = x @ sep @ js_join sep (y # xs)"

text \<open>Joining separator-free parts loses nothing.\<close>

lemma join_inject:
  "length xs = length ys \<Longrightarrow> (\<forall>x \<in> set xs \<union> set ys. c \<notin> set x) \<Longrightarrow>
   js_join [c] xs = js_join [c] ys \<longleftrightarrow> xs = ys"
proof (induction "[c]" xs arbitrary: ys rule: js_join.induct)
  case 1
  then show ?case by simp
next
  case (2 x)
  then show ?case by (cases ys) auto
next
  case (3 x y xs)
  obtain x' y' ys' where ys: "ys = x' # y' # ys'" using 3(2) by (cases ys; cases "tl ys") auto
  have "x @ c # js_join [c] (y # xs) = x' @ c # js_join [c] (y' # ys') \<longleftrightarrow>
      x = x' \<and> js_join [c] (y # xs) = js_join [c] (y' # ys')"
  proof
    assume eq: "x @ c # js_join [c] (y # xs) = x' @ c # js_join [c] (y' # ys')"
    have "takeWhile (\<lambda>d. d \<noteq> c) (x @ c # r) = x" "takeWhile (\<lambda>d. d \<noteq> c) (x' @ c # r) = x'" for r
      using 3(3) ys by (auto simp: takeWhile_append2 takeWhile_append)
    with eq have "x = x'" by metis
    with eq show "x = x' \<and> js_join [c] (y # xs) = js_join [c] (y' # ys')" by simp
  qed auto
  with 3 ys show ?case by auto
qed

section \<open>Hexadecimal text\<close>

text \<open>\<open>Buffer.from(bytes).toString("hex")\<close>.\<close>

definition hex_digit :: "nat \<Rightarrow> char" where
  "hex_digit n = char_of (if n < 10 then n + 48 else n + 87)"

definition hexOf :: "bytes \<Rightarrow> string" where
  "hexOf bs = concat (map (\<lambda>b. [hex_digit (unat b div 16), hex_digit (unat b mod 16)]) bs)"

text \<open>\<open>Buffer.from(text, "hex")\<close>: decoding stops at the first pair that is not hexadecimal.\<close>

definition hex_value :: "char \<Rightarrow> nat option" where
  "hex_value c =
     (let n = of_char c :: nat in
      if 48 \<le> n \<and> n \<le> 57 then Some (n - 48)
      else if 97 \<le> n \<and> n \<le> 102 then Some (n - 87)
      else if 65 \<le> n \<and> n \<le> 70 then Some (n - 55) else None)"

fun hex_bytes :: "string \<Rightarrow> bytes" where
  "hex_bytes (a # b # rest) =
     (case (hex_value a, hex_value b) of
        (Some x, Some y) \<Rightarrow> of_nat (16 * x + y) # hex_bytes rest
      | _ \<Rightarrow> [])"
| "hex_bytes _ = []"

lemma of_char_hex_digit: "n < 16 \<Longrightarrow> (of_char (hex_digit n) :: nat) = (if n < 10 then n + 48 else n + 87)"
  by (simp add: hex_digit_def)

lemma hex_digit_inject:
  assumes "m < 16" and "n < 16"
  shows "hex_digit m = hex_digit n \<longleftrightarrow> m = n"
proof
  assume "hex_digit m = hex_digit n"
  then have "(of_char (hex_digit m) :: nat) = of_char (hex_digit n)" by (rule arg_cong)
  then show "m = n" unfolding of_char_hex_digit [OF assms(1)] of_char_hex_digit [OF assms(2)] using assms
    by (simp split: if_splits)
qed simp

lemma byte_nibbles:
  "unat (a :: byte) div 16 = unat b div 16 \<Longrightarrow> unat a mod 16 = unat b mod 16 \<Longrightarrow> a = b"
  by (metis div_mult_mod_eq word_unat_eq_iff)

lemma hexOf_Cons:
  "hexOf (b # bs) = hex_digit (unat b div 16) # hex_digit (unat b mod 16) # hexOf bs"
  by (simp add: hexOf_def)

lemma hexOf_inject: "hexOf xs = hexOf ys \<longleftrightarrow> xs = ys"
proof
  show "hexOf xs = hexOf ys \<Longrightarrow> xs = ys"
  proof (induction xs arbitrary: ys)
    case Nil
    then show ?case by (cases ys) (simp_all add: hexOf_def)
  next
    case (Cons x xs)
    then obtain y ys' where ys: "ys = y # ys'" by (cases ys) (simp_all add: hexOf_def)
    have "unat z div 16 < 16" for z :: byte
      using unat_byte_bound [of z] by (simp add: less_mult_imp_div_less)
    then have "unat x div 16 = unat y div 16" "unat x mod 16 = unat y mod 16" "hexOf xs = hexOf ys'"
      using Cons.prems by (simp_all add: ys hexOf_Cons hex_digit_inject)
    then show ?case using Cons.IH byte_nibbles ys by blast
  qed
qed simp

lemma hex_value_digit: "n < 16 \<Longrightarrow> hex_value (hex_digit n) = Some n"
  by (auto simp: hex_value_def hex_digit_def Let_def)

lemma hex_bytes_hexOf [simp]: "hex_bytes (hexOf bs) = bs"
proof (induction bs)
  case Nil
  then show ?case by (simp add: hexOf_def)
next
  case (Cons b bs)
  have "unat b div 16 < 16" using unat_byte_bound [of b] by (simp add: less_mult_imp_div_less)
  then have "hex_bytes (hexOf (b # bs)) = of_nat (16 * (unat b div 16) + unat b mod 16) # hex_bytes (hexOf bs)"
    by (simp add: hexOf_Cons hex_value_digit del: of_nat_add of_nat_mult)
  with Cons show ?case by (simp del: of_nat_add of_nat_mult)
qed

end
