(* ===== verification/Guard_Jupiter.thy ===== *)
theory Guard_Jupiter
  imports Downstream Js_Text "HOL-Library.Signed_Division"
begin

text \<open>
  The Jupiter adapter of the guard client (\<open>packages/guard-client/src/jupiter.ts\<close>) and the program's
  checks it mirrors (\<open>programs/equity_guard/src/jupiter.rs\<close>): the \<open>route_v2\<close> prefix, the
  transaction-level view of a message, the suffix commitment, the grammar and semantic checks, the
  guarded trade builder and the plan binding. The address encoder and the program-derived address
  of \<open>@solana/kit\<close> and SHA-256 are parameters.
\<close>

section \<open>jupiter.ts: constants\<close>

definition JUPITER_SUFFIX_COMMITMENT_DOMAIN :: string where
  "JUPITER_SUFFIX_COMMITMENT_DOMAIN = ''EQUITYGUARD_JUPITER_SUFFIX_V1''"

definition JUPITER_V6_PROGRAM_ADDRESS :: address where
  "JUPITER_V6_PROGRAM_ADDRESS = ''JUP6LkbZbjS1jKKwapdHNy74zcZ3tLUZoi5QNyVTaV4''"

definition JUPITER_EVENT_AUTHORITY :: address where
  "JUPITER_EVENT_AUTHORITY = ''D8cy77BBepLMngZx6ZukaTff5hCt1HrWyKk3Hnd9oitf''"

definition ROUTE_V2_DISCRIMINATOR_HEX :: string where
  "ROUTE_V2_DISCRIMINATOR_HEX = ''bb64facc31c4af14''"

definition USDC_MINT_ADDRESS :: address where
  "USDC_MINT_ADDRESS = ''EPjFWdd5AufqSSqeM2qN1xzybapC8G4wEGGkZwyTDt1v''"

definition LEGACY_TOKEN_PROGRAM_ADDRESS :: address where
  "LEGACY_TOKEN_PROGRAM_ADDRESS = ''TokenkegQfeZyiNwAJbNbGKPFXCWuBvf9Ss623VQ5DA''"

definition ASSOCIATED_TOKEN_PROGRAM_ADDRESS :: address where
  "ASSOCIATED_TOKEN_PROGRAM_ADDRESS = ''ATokenGPvbdGVxr1b2hvZbsiqW5xWH25efTNsLJA8knL''"

definition COMPUTE_BUDGET_PROGRAM_ADDRESS :: address where
  "COMPUTE_BUDGET_PROGRAM_ADDRESS = ''ComputeBudget111111111111111111111111111111''"

definition SYSTEM_PROGRAM_ADDRESS :: address where
  "SYSTEM_PROGRAM_ADDRESS = ''11111111111111111111111111111111''"

text \<open>A compute-budget shape: its tag and its encoded length.\<close>

type_synonym budget_shape = "byte \<times> nat"

definition SET_COMPUTE_UNIT_LIMIT :: budget_shape where "SET_COMPUTE_UNIT_LIMIT = (2, 5)"
definition SET_COMPUTE_UNIT_PRICE :: budget_shape where "SET_COMPUTE_UNIT_PRICE = (3, 9)"
definition CREATE_IDEMPOTENT_TAG :: byte where "CREATE_IDEMPOTENT_TAG = 1"
definition CREATE_IDEMPOTENT_ACCOUNTS :: nat where "CREATE_IDEMPOTENT_ACCOUNTS = 6"
definition ROUTE_V2_PREFIX_LENGTH :: nat where "ROUTE_V2_PREFIX_LENGTH = 34"
definition ROUTE_V2_FIXED_ACCOUNTS :: nat where "ROUTE_V2_FIXED_ACCOUNTS = 10"
definition MAX_SLIPPAGE_BPS :: int where "MAX_SLIPPAGE_BPS = 10000"

lemmas jupiter_shape_defs =
  SET_COMPUTE_UNIT_LIMIT_def SET_COMPUTE_UNIT_PRICE_def CREATE_IDEMPOTENT_TAG_def
  CREATE_IDEMPOTENT_ACCOUNTS_def ROUTE_V2_PREFIX_LENGTH_def ROUTE_V2_FIXED_ACCOUNTS_def
  MAX_SLIPPAGE_BPS_def

text \<open>The numbers of the object \<open>ROUTE_V2_ACCOUNT\<close>.\<close>

definition RA_authority :: nat where "RA_authority = 0"
definition RA_source :: nat where "RA_source = 1"
definition RA_destination :: nat where "RA_destination = 2"
definition RA_sourceMint :: nat where "RA_sourceMint = 3"
definition RA_destinationMint :: nat where "RA_destinationMint = 4"
definition RA_sourceTokenProgram :: nat where "RA_sourceTokenProgram = 5"
definition RA_destinationTokenProgram :: nat where "RA_destinationTokenProgram = 6"
definition RA_destinationOverride :: nat where "RA_destinationOverride = 7"
definition RA_eventAuthority :: nat where "RA_eventAuthority = 8"
definition RA_program :: nat where "RA_program = 9"

lemmas route_account_defs =
  RA_authority_def RA_source_def RA_destination_def RA_sourceMint_def RA_destinationMint_def
  RA_sourceTokenProgram_def RA_destinationTokenProgram_def RA_destinationOverride_def
  RA_eventAuthority_def RA_program_def

section \<open>jupiter.ts: route data\<close>

datatype protected_mint_role = SOURCE | DESTINATION

definition isJupiterAdapterKind :: "int \<Rightarrow> bool" where
  "isJupiterAdapterKind kind = (kind = JUPITER_ROUTE_V2_BUY_USDC \<or> kind = JUPITER_ROUTE_V2_SELL_USDC)"

definition protectedRoleOf :: "int \<Rightarrow> protected_mint_role" where
  "protectedRoleOf kind = (if kind = JUPITER_ROUTE_V2_BUY_USDC then DESTINATION else SOURCE)"

record route_v2_prefix =
  inAmount :: int
  quotedOutAmount :: int
  slippageBps :: int
  platformFeeBps :: int
  positiveSlippageBps :: int
  routePlanSteps :: int

definition decodeRouteV2Prefix :: "bytes \<Rightarrow> route_v2_prefix option" where
  "decodeRouteV2Prefix data =
     (if length data < ROUTE_V2_PREFIX_LENGTH \<or> hexOf (bytes_at 0 8 data) \<noteq> ROUTE_V2_DISCRIMINATOR_HEX
      then None
      else let num = (\<lambda>off n. int (le_nat (bytes_at off n data))) in
        Some \<lparr>inAmount = num 8 8, quotedOutAmount = num 16 8, slippageBps = num 24 2,
              platformFeeBps = num 26 2, positiveSlippageBps = num 28 2, routePlanSteps = num 30 4\<rparr>)"

text \<open>Bigint division truncates toward zero (\<open>sdiv\<close>).\<close>

definition minimumOutFromQuote :: "int \<Rightarrow> js_number \<Rightarrow> js_exn + int" where
  "minimumOutFromQuote quotedOut slippage =
     (case js_int slippage of
        None \<Rightarrow> Inl (GuardClientError UnsupportedJupiterTrade_code None)
      | Some s \<Rightarrow>
          if s < 0 \<or> s > MAX_SLIPPAGE_BPS then Inl (GuardClientError UnsupportedJupiterTrade_code None)
          else let numerator = quotedOut * (MAX_SLIPPAGE_BPS - s) in Inr ((numerator + 9999) sdiv 10000))"

section \<open>jupiter.ts: transaction-level flags\<close>

definition RESERVED_ACCOUNTS :: "string list" where
  "RESERVED_ACCOUNTS =
    [''11111111111111111111111111111111'', ''AddressLookupTab1e1111111111111111111111111'',
     ''BPFLoader1111111111111111111111111111111111'', ''BPFLoader2111111111111111111111111111111111'',
     ''BPFLoaderUpgradeab1e11111111111111111111111'', ''ComputeBudget111111111111111111111111111111'',
     ''Config1111111111111111111111111111111111111'', ''Ed25519SigVerify111111111111111111111111111'',
     ''Feature111111111111111111111111111111111111'', ''KeccakSecp256k11111111111111111111111111111'',
     ''LoaderV411111111111111111111111111111111111'', ''NativeLoader1111111111111111111111111111111'',
     ''Secp256r1SigVerify1111111111111111111111111'', ''Stake11111111111111111111111111111111111111'',
     ''Vote111111111111111111111111111111111111111'', ''ZkE1Gama1Proof11111111111111111111111111111'',
     ''ZkTokenProof1111111111111111111111111111111'']"

text \<open>The \<open>Set\<close>s of the source as the lists of their insertions.\<close>

definition flagged :: "(account_role \<Rightarrow> bool) \<Rightarrow> instruction list \<Rightarrow> address \<Rightarrow> address list" where
  "flagged has ixs feePayer =
     feePayer # map am_address (filter (\<lambda>meta. has (am_role meta)) (concat (map accounts_of ixs)))"

definition sysvarView :: "instruction list \<Rightarrow> address \<Rightarrow> js_exn + committed_instruction list" where
  "sysvarView instructions feePayer =
     (let signers = flagged isSigner instructions feePayer;
          writable = flagged isWritable instructions feePayer;
          invoked = map programAddress instructions
      in if list_ex (\<lambda>key. key \<in> set invoked \<or> key \<in> set RESERVED_ACCOUNTS \<or> take 6 key = ''Sysvar'') writable
         then Inl (GuardClientError InvalidDownstream_code None)
         else Inr (map (\<lambda>ix.
            \<lparr>ci_programAddress = programAddress ix,
             ci_accounts = map (\<lambda>meta.
                 \<lparr>ca_address = am_address meta, ca_isSigner = am_address meta \<in> set signers,
                  ca_isWritable = am_address meta \<in> set writable\<rparr>) (accounts_of ix),
             ci_data = data_of ix\<rparr>) instructions))"

section \<open>jupiter.ts: the suffix commitment\<close>

definition suffix_parts :: "(address \<Rightarrow> bytes) \<Rightarrow> committed_instruction \<Rightarrow> js_exn + bytes list" where
  "suffix_parts encode ix =
     bindE (u32le (length (ci_accounts ix))) (\<lambda>count.
     bindE (u32le (length (ci_data ix))) (\<lambda>len.
       Inr ([encode (ci_programAddress ix), count] @
            concat (map (\<lambda>account. [encode (ca_address account),
              [flag_byte (ca_isSigner account), flag_byte (ca_isWritable account)]]) (ci_accounts ix)) @
            [len, ci_data ix])))"

definition jupiterSuffixCommitmentPreimage ::
    "(address \<Rightarrow> bytes) \<Rightarrow> committed_instruction list \<Rightarrow> js_exn + bytes" where
  "jupiterSuffixCommitmentPreimage encode suffix =
     bindE (u32le (length suffix)) (\<lambda>count.
     bindE (mapE (suffix_parts encode) suffix) (\<lambda>parts.
       Inr (concat ([ascii_bytes JUPITER_SUFFIX_COMMITMENT_DOMAIN, count] @ concat parts))))"

definition jupiterSuffixCommitment ::
    "(address \<Rightarrow> bytes) \<Rightarrow> (bytes \<Rightarrow> bytes) \<Rightarrow> committed_instruction list \<Rightarrow> js_exn + bytes" where
  "jupiterSuffixCommitment encode sha256 suffix =
     bindE (jupiterSuffixCommitmentPreimage encode suffix) (\<lambda>preimage. Inr (sha256 preimage))"

section \<open>jupiter.ts: semantics\<close>

text \<open>\<open>getProgramDerivedAddress\<close>: a program and seeds.\<close>

type_synonym pda = "address \<Rightarrow> bytes list \<Rightarrow> address"

definition canonicalAta :: "(address \<Rightarrow> bytes) \<Rightarrow> pda \<Rightarrow> address \<Rightarrow> address \<Rightarrow> address \<Rightarrow> address" where
  "canonicalAta encode derive owner mint tokenProgram =
     derive ASSOCIATED_TOKEN_PROGRAM_ADDRESS [encode owner, encode tokenProgram, encode mint]"

type_synonym verdict = "equity_guard_error option"

definition computeBudgetVerdict :: "committed_instruction \<Rightarrow> budget_shape \<Rightarrow> verdict" where
  "computeBudgetVerdict ix shape =
     (let canonical = (ci_accounts ix = [] \<and> length (ci_data ix) = snd shape \<and>
                       js_index (ci_data ix) 0 = Some (fst shape))
      in if canonical then None else Some InvalidComputeBudgetInstruction)"

record route_v2_summary =
  rt_authority :: address
  rt_source :: address
  rt_destination :: address
  rt_sourceMint :: address
  rt_destinationMint :: address
  rt_sourceTokenProgram :: address
  rt_destinationTokenProgram :: address
  rt_prefix :: route_v2_prefix

record suffix_check =
  sc_verdict :: verdict
  sc_route :: "route_v2_summary option"

definition suffix_fail :: "equity_guard_error \<Rightarrow> suffix_check" where
  "suffix_fail e = \<lparr>sc_verdict = Some e, sc_route = None\<rparr>"

definition routeVerdict :: "committed_instruction \<Rightarrow> int \<Rightarrow> address \<Rightarrow> suffix_check" where
  "routeVerdict trade kind protectedMint =
     (if length (ci_accounts trade) < ROUTE_V2_FIXED_ACCOUNTS then suffix_fail InvalidJupiterInstruction
      else case decodeRouteV2Prefix (ci_data trade) of
        None \<Rightarrow> suffix_fail InvalidJupiterInstruction
      | Some prefix \<Rightarrow>
        let account = (\<lambda>i. ci_accounts trade ! i); key = (\<lambda>i. ca_address (account i)) in
        if key RA_program \<noteq> JUPITER_V6_PROGRAM_ADDRESS then suffix_fail InvalidJupiterProgram
        else if \<not> (key RA_eventAuthority = JUPITER_EVENT_AUTHORITY \<and> ca_isSigner (account RA_authority) \<and>
                   inAmount prefix > 0 \<and> quotedOutAmount prefix > 0 \<and>
                   slippageBps prefix \<le> MAX_SLIPPAGE_BPS \<and> routePlanSteps prefix > 0)
        then suffix_fail InvalidJupiterInstruction
        else if key RA_destinationOverride \<noteq> JUPITER_V6_PROGRAM_ADDRESS
        then suffix_fail DestinationOverrideUnsupported
        else
          let route = \<lparr>rt_authority = key RA_authority, rt_source = key RA_source,
                rt_destination = key RA_destination, rt_sourceMint = key RA_sourceMint,
                rt_destinationMint = key RA_destinationMint,
                rt_sourceTokenProgram = key RA_sourceTokenProgram,
                rt_destinationTokenProgram = key RA_destinationTokenProgram, rt_prefix = prefix\<rparr>;
              (protectedSide, protectedProgram, counter, counterProgram) =
                (if protectedRoleOf kind = DESTINATION
                 then (rt_destinationMint route, rt_destinationTokenProgram route,
                       rt_sourceMint route, rt_sourceTokenProgram route)
                 else (rt_sourceMint route, rt_sourceTokenProgram route,
                       rt_destinationMint route, rt_destinationTokenProgram route))
          in if protectedSide \<noteq> protectedMint then suffix_fail InvalidJupiterDirection
             else if counter \<noteq> USDC_MINT_ADDRESS then suffix_fail InvalidCounterMint
             else if protectedProgram \<noteq> TOKEN_2022_PROGRAM_ADDRESS \<or>
                     counterProgram \<noteq> LEGACY_TOKEN_PROGRAM_ADDRESS
             then suffix_fail InvalidTokenProgram
             else if platformFeeBps prefix \<noteq> 0 \<or> positiveSlippageBps prefix \<noteq> 0
             then suffix_fail UnsupportedJupiterFee
             else \<lparr>sc_verdict = None, sc_route = Some route\<rparr>)"

definition setupVerdict :: "committed_instruction \<Rightarrow> route_v2_summary \<Rightarrow> verdict" where
  "setupVerdict setup route =
     (if length (ci_accounts setup) \<noteq> CREATE_IDEMPOTENT_ACCOUNTS \<or> length (ci_data setup) \<noteq> 1 \<or>
         js_index (ci_data setup) 0 \<noteq> Some CREATE_IDEMPOTENT_TAG
      then Some InvalidAtaSetup
      else let acct = (\<lambda>i. ci_accounts setup ! i) in
        if ca_isSigner (acct 0) \<and> ca_address (acct 1) = rt_destination route \<and>
           ca_address (acct 2) = rt_authority route \<and> ca_address (acct 3) = rt_destinationMint route \<and>
           ca_address (acct 4) = SYSTEM_PROGRAM_ADDRESS \<and>
           ca_address (acct 5) = rt_destinationTokenProgram route
        then None else Some InvalidAtaSetup)"

definition or_else :: "'a option \<Rightarrow> 'a option \<Rightarrow> 'a option" where
  "or_else a b = (case a of None \<Rightarrow> b | Some x \<Rightarrow> Some x)"

definition checkJupiterSuffix ::
    "(address \<Rightarrow> bytes) \<Rightarrow> pda \<Rightarrow> committed_instruction list \<Rightarrow> int \<Rightarrow> address \<Rightarrow> suffix_check" where
  "checkJupiterSuffix encode derive suffix kind protectedMint =
     (if length suffix \<noteq> 3 \<and> length suffix \<noteq> 4 then suffix_fail UnsupportedTransactionGrammar
      else
        let price = suffix ! 0; limit = suffix ! 1;
            setup = (if length suffix = 4 then Some (suffix ! 2) else None);
            trade = suffix ! (length suffix - 1)
        in if ci_programAddress price \<noteq> COMPUTE_BUDGET_PROGRAM_ADDRESS \<or>
              ci_programAddress limit \<noteq> COMPUTE_BUDGET_PROGRAM_ADDRESS \<or>
              (case setup of None \<Rightarrow> False
               | Some s \<Rightarrow> ci_programAddress s \<noteq> ASSOCIATED_TOKEN_PROGRAM_ADDRESS)
           then suffix_fail UnsupportedTransactionGrammar
           else if ci_programAddress trade \<noteq> JUPITER_V6_PROGRAM_ADDRESS
           then suffix_fail InvalidJupiterProgram
           else case or_else (computeBudgetVerdict price SET_COMPUTE_UNIT_PRICE)
                       (computeBudgetVerdict limit SET_COMPUTE_UNIT_LIMIT) of
             Some budget \<Rightarrow> suffix_fail budget
           | None \<Rightarrow>
             let rv = routeVerdict trade kind protectedMint in
             case (sc_verdict rv, sc_route rv) of
               (Some e, _) \<Rightarrow> suffix_fail e
             | (None, None) \<Rightarrow> suffix_fail InvalidJupiterInstruction
             | (None, Some route) \<Rightarrow>
               (case (case setup of None \<Rightarrow> None | Some s \<Rightarrow> setupVerdict s route) of
                  Some e \<Rightarrow> suffix_fail e
                | None \<Rightarrow>
                  if canonicalAta encode derive (rt_authority route) (rt_sourceMint route)
                       (rt_sourceTokenProgram route) \<noteq> rt_source route
                  then suffix_fail NonCanonicalSourceAccount
                  else if canonicalAta encode derive (rt_authority route) (rt_destinationMint route)
                       (rt_destinationTokenProgram route) \<noteq> rt_destination route
                  then suffix_fail NonCanonicalDestinationAccount
                  else \<lparr>sc_verdict = None, sc_route = Some route\<rparr>))"

definition checkGuardedJupiterTransaction ::
    "(address \<Rightarrow> bytes) \<Rightarrow> pda \<Rightarrow> (bytes \<Rightarrow> bytes) \<Rightarrow> committed_instruction list \<Rightarrow> int \<Rightarrow> int \<Rightarrow> address \<Rightarrow>
       bytes \<Rightarrow> js_exn + verdict" where
  "checkGuardedJupiterTransaction encode derive sha256 instructions guardIndex kind protectedMint commitment =
     (if guardIndex \<noteq> 0 then Inr (Some GuardNotFirst)
      else
        let suffix = drop 1 instructions in
        case sc_verdict (checkJupiterSuffix encode derive suffix kind protectedMint) of
          Some e \<Rightarrow> Inr (Some e)
        | None \<Rightarrow> bindE (jupiterSuffixCommitment encode sha256 suffix) (\<lambda>actual.
            Inr (if bytesEqual actual commitment then None else Some DownstreamCommitmentMismatch)))"

section \<open>jupiter.ts: building\<close>

record guarded_jupiter_trade =
  gj_instructions :: "instruction list"
  gj_guard :: instruction
  gj_adapterKind :: int
  committedSuffix :: "committed_instruction list"
  gj_commitment :: bytes
  gj_route :: route_v2_summary

definition buildGuardedJupiterTrade ::
    "(address \<Rightarrow> bytes) \<Rightarrow> pda \<Rightarrow> (bytes \<Rightarrow> bytes) \<Rightarrow> address \<Rightarrow> address \<Rightarrow> address \<Rightarrow> int \<Rightarrow>
       assert_safe_execution_request \<Rightarrow> instruction list \<Rightarrow> js_exn + guarded_jupiter_trade" where
  "buildGuardedJupiterTrade encode derive sha256 program feePayer protectedMint kind expectation suffix =
     (if \<not> isJupiterAdapterKind kind then Inl (GuardClientError InvalidDownstream_code None)
      else
        let guardFor = (\<lambda>commitment.
              getAssertSafeExecutionV2Instruction encode program protectedMint expectation commitment (Some kind)) in
        bindE (guardFor (replicate 32 0)) (\<lambda>placeholder.
        bindE (sysvarView (placeholder # suffix) feePayer) (\<lambda>provisional.
        let committed = drop 1 provisional;
            check = checkJupiterSuffix encode derive committed kind protectedMint in
        case (sc_verdict check, sc_route check) of
          (None, Some route) \<Rightarrow>
            bindE (jupiterSuffixCommitment encode sha256 committed) (\<lambda>commitment.
            bindE (guardFor commitment) (\<lambda>guard.
            bindE (sysvarView (guard # suffix) feePayer) (\<lambda>final.
            bindE (checkGuardedJupiterTransaction encode derive sha256 final 0 kind protectedMint commitment)
              (\<lambda>recheck.
              case recheck of
                Some e \<Rightarrow> Inl (GuardClientError UnsupportedJupiterTrade_code (Some e))
              | None \<Rightarrow>
                  Inr \<lparr>gj_instructions = guard # suffix, gj_guard = guard, gj_adapterKind = kind,
                       committedSuffix = committed, gj_commitment = commitment, gj_route = route\<rparr>))))
        | (v, _) \<Rightarrow> Inl (GuardClientError UnsupportedJupiterTrade_code v))))"

section \<open>jupiter.ts: plan binding\<close>

definition JUPITER_ADAPTER_KIND_NAMES :: "int \<Rightarrow> string option" where
  "JUPITER_ADAPTER_KIND_NAMES kind =
     (if kind = JUPITER_ROUTE_V2_BUY_USDC then Some ''JUPITER_ROUTE_V2_BUY_USDC''
      else if kind = JUPITER_ROUTE_V2_SELL_USDC then Some ''JUPITER_ROUTE_V2_SELL_USDC'' else None)"

record jupiter_trade_binding =
  jb_adapterKind :: "string option"
  jupiterProgramId :: string
  routeDiscriminatorHex :: string
  protectedMintRole :: protected_mint_role
  jb_protectedMint :: string
  jb_counterMint :: string
  jb_authority :: string
  jb_sourceMint :: string
  jb_destinationMint :: string
  sourceTokenAccount :: string
  destinationTokenAccount :: string
  inAmountRaw :: int
  quotedOutRaw :: int
  jb_slippageBps :: int
  minOutRaw :: int
  suffixCommitmentHex :: string
  suffixInstructionCount :: nat

definition jupiterTradeBindingOf :: "guarded_jupiter_trade \<Rightarrow> js_exn + jupiter_trade_binding" where
  "jupiterTradeBindingOf trade =
     (let route = gj_route trade; kind = gj_adapterKind trade;
          role = protectedRoleOf kind; prefix = rt_prefix route in
      bindE (minimumOutFromQuote (quotedOutAmount prefix) (JNum (of_int (slippageBps prefix)))) (\<lambda>minOut.
      Inr \<lparr>jb_adapterKind = JUPITER_ADAPTER_KIND_NAMES kind,
           jupiterProgramId = JUPITER_V6_PROGRAM_ADDRESS,
           routeDiscriminatorHex = ROUTE_V2_DISCRIMINATOR_HEX,
           protectedMintRole = role,
           jb_protectedMint = (if role = DESTINATION then rt_destinationMint route else rt_sourceMint route),
           jb_counterMint = (if role = DESTINATION then rt_sourceMint route else rt_destinationMint route),
           jb_authority = rt_authority route,
           jb_sourceMint = rt_sourceMint route,
           jb_destinationMint = rt_destinationMint route,
           sourceTokenAccount = rt_source route,
           destinationTokenAccount = rt_destination route,
           inAmountRaw = inAmount prefix,
           quotedOutRaw = quotedOutAmount prefix,
           jb_slippageBps = slippageBps prefix,
           minOutRaw = minOut,
           suffixCommitmentHex = hexOf (gj_commitment trade),
           suffixInstructionCount = length (committedSuffix trade)\<rparr>))"

section \<open>jupiter.rs\<close>

datatype rs_protected_role = RsDestination | RsSource

record rs_route_v2_prefix =
  rs_in_amount :: "64 word"
  rs_quoted_out_amount :: "64 word"
  rs_slippage_bps :: "16 word"
  rs_platform_fee_bps :: "16 word"
  rs_positive_slippage_bps :: "16 word"
  rs_route_plan_len :: "32 word"

definition ROUTE_V2_DISCRIMINATOR :: bytes where
  "ROUTE_V2_DISCRIMINATOR = [0xbb, 0x64, 0xfa, 0xcc, 0x31, 0xc4, 0xaf, 0x14]"

definition rs_route_prefix_decode :: "bytes \<Rightarrow> rs_route_v2_prefix option" where
  "rs_route_prefix_decode data =
     (if length data < 34 then None
      else if take 8 data \<noteq> ROUTE_V2_DISCRIMINATOR then None
      else Some \<lparr>rs_in_amount = word_of_nat (le_nat (bytes_at 8 8 data)),
                 rs_quoted_out_amount = word_of_nat (le_nat (bytes_at 16 8 data)),
                 rs_slippage_bps = word_of_nat (le_nat (bytes_at 24 2 data)),
                 rs_platform_fee_bps = word_of_nat (le_nat (bytes_at 26 2 data)),
                 rs_positive_slippage_bps = word_of_nat (le_nat (bytes_at 28 2 data)),
                 rs_route_plan_len = word_of_nat (le_nat (bytes_at 30 4 data))\<rparr>)"

record rs_route =
  rr_authority :: bytes
  rr_source :: bytes
  rr_destination :: bytes
  rr_source_mint :: bytes
  rr_destination_mint :: bytes
  rr_source_token_program :: bytes
  rr_destination_token_program :: bytes

definition rs_check_compute_budget :: "rs_instruction \<Rightarrow> byte \<Rightarrow> nat \<Rightarrow> equity_guard_error + unit" where
  "rs_check_compute_budget ix tag len =
     (if length (rs_accounts ix) = 0 \<and> length (rs_data ix) = len \<and> js_index (rs_data ix) 0 = Some tag
      then Inr () else Inl InvalidComputeBudgetInstruction)"

text \<open>\<open>addr\<close> stands for \<open>Address::from_str_const\<close>: the bytes an address text denotes.\<close>

definition rs_check_route ::
    "(address \<Rightarrow> bytes) \<Rightarrow> rs_instruction \<Rightarrow> rs_protected_role \<Rightarrow> bytes \<Rightarrow> equity_guard_error + rs_route" where
  "rs_check_route addr trade role protected_mint =
     (if length (rs_accounts trade) < 10 then Inl InvalidJupiterInstruction
      else
        bindE (require InvalidJupiterInstruction (rs_route_prefix_decode (rs_data trade))) (\<lambda>prefix.
        let key = (\<lambda>i. rs_pubkey (rs_accounts trade ! i)); jupiter = addr JUPITER_V6_PROGRAM_ADDRESS in
        if key 9 \<noteq> jupiter then Inl InvalidJupiterProgram
        else if \<not> (key 8 = addr JUPITER_EVENT_AUTHORITY \<and> rs_is_signer (rs_accounts trade ! 0) \<and>
                   rs_in_amount prefix > 0 \<and> rs_quoted_out_amount prefix > 0 \<and>
                   rs_slippage_bps prefix \<le> 10000 \<and> rs_route_plan_len prefix > 0)
        then Inl InvalidJupiterInstruction
        else if key 7 \<noteq> jupiter then Inl DestinationOverrideUnsupported
        else
          let route = \<lparr>rr_authority = key 0, rr_source = key 1, rr_destination = key 2,
                rr_source_mint = key 3, rr_destination_mint = key 4,
                rr_source_token_program = key 5, rr_destination_token_program = key 6\<rparr>;
              (protected, protected_program, counter, counter_program) =
                (case role of
                   RsDestination \<Rightarrow> (rr_destination_mint route, rr_destination_token_program route,
                                     rr_source_mint route, rr_source_token_program route)
                 | RsSource \<Rightarrow> (rr_source_mint route, rr_source_token_program route,
                                rr_destination_mint route, rr_destination_token_program route))
          in if protected \<noteq> protected_mint then Inl InvalidJupiterDirection
             else if counter \<noteq> addr USDC_MINT_ADDRESS then Inl InvalidCounterMint
             else if protected_program \<noteq> addr TOKEN_2022_PROGRAM_ADDRESS \<or>
                     counter_program \<noteq> addr LEGACY_TOKEN_PROGRAM_ADDRESS
             then Inl InvalidTokenProgram
             else if rs_platform_fee_bps prefix \<noteq> 0 \<or> rs_positive_slippage_bps prefix \<noteq> 0
             then Inl UnsupportedJupiterFee
             else Inr route))"

definition rs_check_setup ::
    "(address \<Rightarrow> bytes) \<Rightarrow> rs_instruction \<Rightarrow> rs_route \<Rightarrow> equity_guard_error + unit" where
  "rs_check_setup addr setup route =
     (if length (rs_accounts setup) \<noteq> 6 \<or> rs_data setup \<noteq> [1] then Inl InvalidAtaSetup
      else let acct = (\<lambda>i. rs_accounts setup ! i) in
        if rs_is_signer (acct 0) \<and> rs_pubkey (acct 1) = rr_destination route \<and>
           rs_pubkey (acct 2) = rr_authority route \<and> rs_pubkey (acct 3) = rr_destination_mint route \<and>
           rs_pubkey (acct 4) = addr SYSTEM_PROGRAM_ADDRESS \<and>
           rs_pubkey (acct 5) = rr_destination_token_program route
        then Inr () else Inl InvalidAtaSetup)"

text \<open>\<open>Address::find_program_address\<close>: seeds and a program.\<close>

type_synonym rs_pda = "bytes list \<Rightarrow> bytes \<Rightarrow> bytes"

definition rs_canonical_ata ::
    "(address \<Rightarrow> bytes) \<Rightarrow> rs_pda \<Rightarrow> bytes \<Rightarrow> bytes \<Rightarrow> bytes \<Rightarrow> bytes" where
  "rs_canonical_ata addr fpa owner mint token_program =
     fpa [owner, token_program, mint] (addr ASSOCIATED_TOKEN_PROGRAM_ADDRESS)"

definition rs_check_parts ::
    "(address \<Rightarrow> bytes) \<Rightarrow> rs_pda \<Rightarrow> rs_instruction \<Rightarrow> rs_instruction \<Rightarrow> rs_instruction option \<Rightarrow>
       rs_instruction \<Rightarrow> rs_protected_role \<Rightarrow> bytes \<Rightarrow> equity_guard_error + unit" where
  "rs_check_parts addr fpa price limit setup trade role protected_mint =
     (let budget = addr COMPUTE_BUDGET_PROGRAM_ADDRESS in
      if rs_program_id price \<noteq> budget \<or> rs_program_id limit \<noteq> budget \<or>
         (case setup of None \<Rightarrow> False | Some s \<Rightarrow> rs_program_id s \<noteq> addr ASSOCIATED_TOKEN_PROGRAM_ADDRESS)
      then Inl UnsupportedTransactionGrammar
      else if rs_program_id trade \<noteq> addr JUPITER_V6_PROGRAM_ADDRESS then Inl InvalidJupiterProgram
      else bindE (rs_check_compute_budget price 3 9) (\<lambda>_.
           bindE (rs_check_compute_budget limit 2 5) (\<lambda>_.
           bindE (rs_check_route addr trade role protected_mint) (\<lambda>route.
           bindE (case setup of None \<Rightarrow> Inr () | Some s \<Rightarrow> rs_check_setup addr s route) (\<lambda>_.
             if rs_canonical_ata addr fpa (rr_authority route) (rr_source_mint route)
                  (rr_source_token_program route) \<noteq> rr_source route
             then Inl NonCanonicalSourceAccount
             else if rs_canonical_ata addr fpa (rr_authority route) (rr_destination_mint route)
                  (rr_destination_token_program route) \<noteq> rr_destination route
             then Inl NonCanonicalDestinationAccount
             else Inr ())))))"

fun rs_check_suffix ::
    "(address \<Rightarrow> bytes) \<Rightarrow> rs_pda \<Rightarrow> rs_instruction list \<Rightarrow> rs_protected_role \<Rightarrow> bytes \<Rightarrow>
       equity_guard_error + unit" where
  "rs_check_suffix addr fpa [price, limit, trade] role protected_mint =
     rs_check_parts addr fpa price limit None trade role protected_mint"
| "rs_check_suffix addr fpa [price, limit, setup, trade] role protected_mint =
     rs_check_parts addr fpa price limit (Some setup) trade role protected_mint"
| "rs_check_suffix addr fpa _ role protected_mint = Inl UnsupportedTransactionGrammar"

definition rs_suffix_frame :: "rs_instruction \<Rightarrow> equity_guard_error + bytes" where
  "rs_suffix_frame ix =
     bindE (u32_try_from (length (rs_accounts ix))) (\<lambda>account_count.
     bindE (u32_try_from (length (rs_data ix))) (\<lambda>data_len.
       Inr (rs_program_id ix @ account_count @ concat (map rs_account_bytes (rs_accounts ix)) @
            data_len @ rs_data ix)))"

definition rs_jupiter_suffix_commitment ::
    "(bytes \<Rightarrow> bytes) \<Rightarrow> rs_instruction list \<Rightarrow> equity_guard_error + bytes" where
  "rs_jupiter_suffix_commitment hash suffix =
     bindE (u32_try_from (length suffix)) (\<lambda>count.
     bindE (mapE rs_suffix_frame suffix) (\<lambda>frames.
       Inr (hash (ascii_bytes JUPITER_SUFFIX_COMMITMENT_DOMAIN @ count @ concat frames))))"

text \<open>
  \<open>instructions\<close> is what the Instructions sysvar holds: its count is the list's length. The failures
  of reading the sysvar's raw bytes are not modelled.
\<close>

definition rs_verify_jupiter_suffix ::
    "(address \<Rightarrow> bytes) \<Rightarrow> rs_pda \<Rightarrow> (bytes \<Rightarrow> bytes) \<Rightarrow> nat \<Rightarrow> rs_protected_role \<Rightarrow>
       rs_assert_safe_execution_v2 \<Rightarrow> bytes \<Rightarrow> rs_instruction list \<Rightarrow> equity_guard_error + unit" where
  "rs_verify_jupiter_suffix addr fpa hash current role request mint_key instructions =
     (if current \<noteq> 0 then Inl GuardNotFirst
      else if length instructions - 1 \<noteq> 3 \<and> length instructions - 1 \<noteq> 4
      then Inl UnsupportedTransactionGrammar
      else let suffix = drop 1 instructions in
        bindE (rs_check_suffix addr fpa suffix role mint_key) (\<lambda>_.
        bindE (rs_jupiter_suffix_commitment hash suffix) (\<lambda>actual.
          if actual \<noteq> rs_downstream_commitment request then Inl DownstreamCommitmentMismatch
          else Inr ())))"

end
