(* ===== verification/Jupiter_Mirror.thy ===== *)
theory Jupiter_Mirror
  imports Guard_Jupiter
begin

text \<open>
  What the Jupiter adapter guarantees: the client's suffix verdict is the program's, the suffix
  commitment determines the whole suffix, a trade the builder returns passes the program's
  verification, and the derived minimum output is the exact ceiling.
\<close>

section \<open>The route prefix\<close>

lemma discriminator_hex: "hexOf ROUTE_V2_DISCRIMINATOR = ROUTE_V2_DISCRIMINATOR_HEX"
  by code_simp

definition rs_prefix_of :: "route_v2_prefix \<Rightarrow> rs_route_v2_prefix" where
  "rs_prefix_of p =
     \<lparr>rs_in_amount = word_of_int (inAmount p), rs_quoted_out_amount = word_of_int (quotedOutAmount p),
      rs_slippage_bps = word_of_int (slippageBps p), rs_platform_fee_bps = word_of_int (platformFeeBps p),
      rs_positive_slippage_bps = word_of_int (positiveSlippageBps p),
      rs_route_plan_len = word_of_int (routePlanSteps p)\<rparr>"

lemma route_prefix_mirror:
  "rs_route_prefix_decode data = map_option rs_prefix_of (decodeRouteV2Prefix data)"
proof -
  have "hexOf (bytes_at 0 8 data) = ROUTE_V2_DISCRIMINATOR_HEX \<longleftrightarrow> take 8 data = ROUTE_V2_DISCRIMINATOR"
    by (simp add: bytes_at_def hexOf_inject flip: discriminator_hex)
  then show ?thesis
    by (simp add: rs_route_prefix_decode_def decodeRouteV2Prefix_def Let_def rs_prefix_of_def
        ROUTE_V2_PREFIX_LENGTH_def)
qed

text \<open>Every field of a decoded prefix fits its width.\<close>

lemma decodeRouteV2Prefix_bounds:
  assumes "decodeRouteV2Prefix data = Some p"
  shows "0 \<le> inAmount p \<and> inAmount p < 2 ^ 64 \<and> 0 \<le> quotedOutAmount p \<and> quotedOutAmount p < 2 ^ 64 \<and>
    0 \<le> slippageBps p \<and> slippageBps p < 2 ^ 16 \<and> 0 \<le> platformFeeBps p \<and> platformFeeBps p < 2 ^ 16 \<and>
    0 \<le> positiveSlippageBps p \<and> positiveSlippageBps p < 2 ^ 16 \<and>
    0 \<le> routePlanSteps p \<and> routePlanSteps p < 2 ^ 32"
proof -
  have len: "34 \<le> length data"
    using assms by (auto simp: decodeRouteV2Prefix_def ROUTE_V2_PREFIX_LENGTH_def split: if_splits)
  have b: "int (le_nat (bytes_at off n data)) < 256 ^ n" if "off + n \<le> 34" for off n
    using int_le_nat_bound [of "bytes_at off n data"] that len by (simp add: min_absorb1)
  show ?thesis
    using assms b [of 8 8] b [of 16 8] b [of 24 2] b [of 26 2] b [of 28 2] b [of 30 4]
    by (auto simp: decodeRouteV2Prefix_def Let_def split: if_splits)
qed

lemma word_of_int_tests:
  assumes "0 \<le> i" and "i < 2 ^ LENGTH('a)"
  shows "(word_of_int i :: 'a :: len word) > 0 \<longleftrightarrow> i > 0"
    and "(word_of_int i :: 'a word) = 0 \<longleftrightarrow> i = 0"
proof -
  have "uint (word_of_int i :: 'a word) = i"
    using assms by (simp add: uint_word_of_int_eq take_bit_int_eq_self)
  then show "(word_of_int i :: 'a :: len word) > 0 \<longleftrightarrow> i > 0" "(word_of_int i :: 'a word) = 0 \<longleftrightarrow> i = 0"
    by (auto simp: word_less_def word_uint_eq_iff)
qed

lemma slippage_word:
  assumes "0 \<le> i" and "i < 2 ^ 16"
  shows "(word_of_int i :: 16 word) \<le> 10000 \<longleftrightarrow> i \<le> 10000"
  using assms by (simp add: word_le_def uint_word_of_int_eq take_bit_int_eq_self)

section \<open>The semantic checks\<close>

text \<open>What the development assumes of the address encoder: 32 bytes, injective on valid addresses.\<close>

definition address_codec :: "(address \<Rightarrow> bytes) \<Rightarrow> (address \<Rightarrow> bool) \<Rightarrow> bool" where
  "address_codec encode isAddress \<longleftrightarrow>
     (\<forall>a. isAddress a \<longrightarrow> length (encode a) = 32) \<and>
     (\<forall>a b. isAddress a \<longrightarrow> isAddress b \<longrightarrow> encode a = encode b \<longrightarrow> a = b)"

definition committed_addresses :: "committed_instruction \<Rightarrow> address set" where
  "committed_addresses ix = insert (ci_programAddress ix) (ca_address ` set (ci_accounts ix))"

definition jupiter_constants :: "address list" where
  "jupiter_constants =
     [JUPITER_V6_PROGRAM_ADDRESS, JUPITER_EVENT_AUTHORITY, USDC_MINT_ADDRESS,
      LEGACY_TOKEN_PROGRAM_ADDRESS, ASSOCIATED_TOKEN_PROGRAM_ADDRESS, COMPUTE_BUDGET_PROGRAM_ADDRESS,
      SYSTEM_PROGRAM_ADDRESS, TOKEN_2022_PROGRAM_ADDRESS]"

lemma encode_eq:
  "address_codec encode ok \<Longrightarrow> ok a \<Longrightarrow> ok b \<Longrightarrow> encode a = encode b \<longleftrightarrow> a = b"
  by (auto simp: address_codec_def)

definition rs_role_of :: "int \<Rightarrow> rs_protected_role" where
  "rs_role_of kind = (if protectedRoleOf kind = DESTINATION then RsDestination else RsSource)"

definition rs_route_of :: "(address \<Rightarrow> bytes) \<Rightarrow> route_v2_summary \<Rightarrow> rs_route" where
  "rs_route_of encode r =
     \<lparr>rr_authority = encode (rt_authority r), rr_source = encode (rt_source r),
      rr_destination = encode (rt_destination r), rr_source_mint = encode (rt_sourceMint r),
      rr_destination_mint = encode (rt_destinationMint r),
      rr_source_token_program = encode (rt_sourceTokenProgram r),
      rr_destination_token_program = encode (rt_destinationTokenProgram r)\<rparr>"

text \<open>A check's outcome as a result: the first error, or the route.\<close>

definition outcome :: "suffix_check \<Rightarrow> equity_guard_error + route_v2_summary" where
  "outcome c = (case sc_verdict c of Some e \<Rightarrow> Inl e | None \<Rightarrow> require InvalidJupiterInstruction (sc_route c))"

lemma outcome_fail [simp]: "outcome (suffix_fail e) = Inl e"
  by (simp add: outcome_def suffix_fail_def)

lemma outcome_ok [simp]: "outcome \<lparr>sc_verdict = None, sc_route = Some r\<rparr> = Inr r"
  by (simp add: outcome_def)

lemma outcome_if: "outcome (if c then a else b) = (if c then outcome a else outcome b)"
  by simp

definition mapR :: "('a \<Rightarrow> 'b) \<Rightarrow> 'e + 'a \<Rightarrow> 'e + 'b" where
  "mapR f r = bindE r (\<lambda>x. Inr (f x))"

lemma mapR_simps [simp]: "mapR f (Inl e) = Inl e" "mapR f (Inr x) = Inr (f x)"
  by (simp_all add: mapR_def)

lemma compute_budget_mirror:
  "rs_check_compute_budget (rs_instruction_of encode ix) tag len =
     (case computeBudgetVerdict ix (tag, len) of Some e \<Rightarrow> Inl e | None \<Rightarrow> Inr ())"
  by (simp add: rs_check_compute_budget_def computeBudgetVerdict_def rs_instruction_of_def)

lemma nth_account_ok:
  assumes "\<And>a. a \<in> committed_addresses ix \<Longrightarrow> ok a" and "i < length (ci_accounts ix)"
  shows "ok (ca_address (ci_accounts ix ! i))"
  using assms by (auto simp: committed_addresses_def)

lemma route_mirror:
  assumes codec: "address_codec encode ok" and cs: "\<And>a. a \<in> set jupiter_constants \<Longrightarrow> ok a"
    and addrs: "\<And>a. a \<in> committed_addresses trade \<Longrightarrow> ok a" and mint: "ok mint"
  shows "rs_check_route encode (rs_instruction_of encode trade) (rs_role_of kind) (encode mint) =
     mapR (rs_route_of encode) (outcome (routeVerdict trade kind mint))"
proof (cases "length (ci_accounts trade) < 10")
  case True
  then show ?thesis
    by (simp add: rs_check_route_def routeVerdict_def rs_instruction_of_def ROUTE_V2_FIXED_ACCOUNTS_def)
next
  case False
  then have k: "rs_pubkey (rs_accounts (rs_instruction_of encode trade) ! i) =
        encode (ca_address (ci_accounts trade ! i))"
      "rs_is_signer (rs_accounts (rs_instruction_of encode trade) ! i) = ca_isSigner (ci_accounts trade ! i)"
      "ok (ca_address (ci_accounts trade ! i))" if "i < 10" for i
    using that nth_account_ok [of trade ok i] addrs
    by (simp_all add: rs_instruction_of_def rs_account_of_def)
  have c: "ok JUPITER_V6_PROGRAM_ADDRESS" "ok JUPITER_EVENT_AUTHORITY" "ok USDC_MINT_ADDRESS"
      "ok LEGACY_TOKEN_PROGRAM_ADDRESS" "ok TOKEN_2022_PROGRAM_ADDRESS"
    using cs by (simp_all add: jupiter_constants_def)
  note eq = encode_eq [OF codec]
  show ?thesis
  proof (cases "decodeRouteV2Prefix (ci_data trade)")
    case None
    with False show ?thesis
      by (simp add: rs_check_route_def routeVerdict_def rs_instruction_of_def ROUTE_V2_FIXED_ACCOUNTS_def
          route_prefix_mirror)
  next
    case (Some p)
    note b = decodeRouteV2Prefix_bounds [OF Some]
    have w: "rs_in_amount (rs_prefix_of p) > 0 \<longleftrightarrow> inAmount p > 0"
      "rs_quoted_out_amount (rs_prefix_of p) > 0 \<longleftrightarrow> quotedOutAmount p > 0"
      "rs_slippage_bps (rs_prefix_of p) \<le> 10000 \<longleftrightarrow> slippageBps p \<le> 10000"
      "rs_route_plan_len (rs_prefix_of p) > 0 \<longleftrightarrow> routePlanSteps p > 0"
      "rs_platform_fee_bps (rs_prefix_of p) = 0 \<longleftrightarrow> platformFeeBps p = 0"
      "rs_positive_slippage_bps (rs_prefix_of p) = 0 \<longleftrightarrow> positiveSlippageBps p = 0"
      using b by (simp_all add: rs_prefix_of_def word_of_int_tests slippage_word)
    have pre: "rs_route_prefix_decode (rs_data (rs_instruction_of encode trade)) = Some (rs_prefix_of p)"
      "length (rs_accounts (rs_instruction_of encode trade)) = length (ci_accounts trade)"
      using Some by (simp_all add: route_prefix_mirror rs_instruction_of_def)
    show ?thesis
      by (cases "protectedRoleOf kind")
        (simp_all add: False Some rs_check_route_def routeVerdict_def ROUTE_V2_FIXED_ACCOUNTS_def
          MAX_SLIPPAGE_BPS_def pre w k c mint eq route_account_defs rs_role_of_def rs_route_of_def
          Let_def if_distrib [of outcome] if_distrib [of "mapR _"] cong: if_cong split del: if_split)
  qed
qed

text \<open>The addresses of a route are among the trade's, and its fields are read from it.\<close>

lemma routeVerdict_route:
  assumes "outcome (routeVerdict trade kind mint) = Inr r"
  shows "10 \<le> length (ci_accounts trade)"
    and "decodeRouteV2Prefix (ci_data trade) = Some (rt_prefix r)"
    and "slippageBps (rt_prefix r) \<le> MAX_SLIPPAGE_BPS"
    and "\<exists>i < 10. rt_authority r = ca_address (ci_accounts trade ! i)"
    and "\<exists>i < 10. rt_source r = ca_address (ci_accounts trade ! i)"
    and "\<exists>i < 10. rt_destination r = ca_address (ci_accounts trade ! i)"
    and "\<exists>i < 10. rt_destinationMint r = ca_address (ci_accounts trade ! i)"
    and "\<exists>i < 10. rt_destinationTokenProgram r = ca_address (ci_accounts trade ! i)"
proof -
  have l: "10 \<le> length (ci_accounts trade)"
    using assms by (auto simp: routeVerdict_def ROUTE_V2_FIXED_ACCOUNTS_def split: if_splits)
  obtain p where p: "decodeRouteV2Prefix (ci_data trade) = Some p"
    using assms by (cases "decodeRouteV2Prefix (ci_data trade)") (auto simp: routeVerdict_def split: if_splits)
  let ?k = "\<lambda>i. ca_address (ci_accounts trade ! i)"
  have r: "r = \<lparr>rt_authority = ?k 0, rt_source = ?k 1, rt_destination = ?k 2, rt_sourceMint = ?k 3,
      rt_destinationMint = ?k 4, rt_sourceTokenProgram = ?k 5, rt_destinationTokenProgram = ?k 6,
      rt_prefix = p\<rparr> \<and> slippageBps p \<le> MAX_SLIPPAGE_BPS"
    using assms l p
    by (cases "protectedRoleOf kind")
      (simp_all add: routeVerdict_def ROUTE_V2_FIXED_ACCOUNTS_def Let_def route_account_defs split: if_splits)
  show "10 \<le> length (ci_accounts trade)" by (rule l)
  show "decodeRouteV2Prefix (ci_data trade) = Some (rt_prefix r)" using p r by simp
  show "slippageBps (rt_prefix r) \<le> MAX_SLIPPAGE_BPS" using r by simp
  show "\<exists>i < 10. rt_authority r = ?k i" using r by (intro exI [of _ 0]) simp
  show "\<exists>i < 10. rt_source r = ?k i" using r by (intro exI [of _ 1]) simp
  show "\<exists>i < 10. rt_destination r = ?k i" using r by (intro exI [of _ 2]) simp
  show "\<exists>i < 10. rt_destinationMint r = ?k i" using r by (intro exI [of _ 4]) simp
  show "\<exists>i < 10. rt_destinationTokenProgram r = ?k i" using r by (intro exI [of _ 6]) simp
qed

lemma setup_mirror:
  assumes codec: "address_codec encode ok" and sys: "ok SYSTEM_PROGRAM_ADDRESS"
    and addrs: "\<And>a. a \<in> committed_addresses su \<Longrightarrow> ok a"
    and r: "ok (rt_destination r)" "ok (rt_authority r)" "ok (rt_destinationMint r)"
      "ok (rt_destinationTokenProgram r)"
  shows "rs_check_setup encode (rs_instruction_of encode su) (rs_route_of encode r) =
     (case setupVerdict su r of Some e \<Rightarrow> Inl e | None \<Rightarrow> Inr ())"
proof (cases "length (ci_accounts su) = 6")
  case False
  then show ?thesis
    by (simp add: rs_check_setup_def setupVerdict_def rs_instruction_of_def CREATE_IDEMPOTENT_ACCOUNTS_def)
next
  case True
  then have k: "rs_pubkey (rs_accounts (rs_instruction_of encode su) ! i) =
        encode (ca_address (ci_accounts su ! i))"
      "rs_is_signer (rs_accounts (rs_instruction_of encode su) ! i) = ca_isSigner (ci_accounts su ! i)"
      "ok (ca_address (ci_accounts su ! i))" if "i < 6" for i
    using that nth_account_ok [of su ok i] addrs
    by (simp_all add: rs_instruction_of_def rs_account_of_def)
  have d: "rs_data (rs_instruction_of encode su) = [1] \<longleftrightarrow>
      length (ci_data su) = 1 \<and> js_index (ci_data su) 0 = Some 1"
    by (cases "ci_data su") (auto simp: rs_instruction_of_def js_index_def)
  have n: "length (rs_accounts (rs_instruction_of encode su)) = length (ci_accounts su)"
    by (simp add: rs_instruction_of_def)
  note eq = encode_eq [OF codec]
  show ?thesis
    by (simp add: rs_check_setup_def setupVerdict_def CREATE_IDEMPOTENT_ACCOUNTS_def
        CREATE_IDEMPOTENT_TAG_def n d True k r sys eq rs_route_of_def Let_def)
qed

lemma ata_mirror:
  assumes "\<And>seeds. encode (derive ASSOCIATED_TOKEN_PROGRAM_ADDRESS seeds) =
             fpa seeds (encode ASSOCIATED_TOKEN_PROGRAM_ADDRESS)"
  shows "rs_canonical_ata encode fpa (encode owner) (encode mint) (encode program) =
           encode (canonicalAta encode derive owner mint program)"
  by (simp add: rs_canonical_ata_def canonicalAta_def assms)

text \<open>The two checkers on a suffix split into its parts; \<open>check_tail\<close> is what follows the route check.\<close>

definition check_tail ::
    "(address \<Rightarrow> bytes) \<Rightarrow> pda \<Rightarrow> committed_instruction option \<Rightarrow> route_v2_summary \<Rightarrow>
       equity_guard_error + route_v2_summary" where
  "check_tail encode derive su route =
     (case (case su of None \<Rightarrow> None | Some s \<Rightarrow> setupVerdict s route) of
        Some e \<Rightarrow> Inl e
      | None \<Rightarrow>
          if canonicalAta encode derive (rt_authority route) (rt_sourceMint route)
               (rt_sourceTokenProgram route) \<noteq> rt_source route
          then Inl NonCanonicalSourceAccount
          else if canonicalAta encode derive (rt_authority route) (rt_destinationMint route)
               (rt_destinationTokenProgram route) \<noteq> rt_destination route
          then Inl NonCanonicalDestinationAccount
          else Inr route)"

definition rs_check_tail ::
    "(address \<Rightarrow> bytes) \<Rightarrow> rs_pda \<Rightarrow> rs_instruction option \<Rightarrow> rs_route \<Rightarrow> equity_guard_error + unit" where
  "rs_check_tail addr fpa su route =
     bindE (case su of None \<Rightarrow> Inr () | Some s \<Rightarrow> rs_check_setup addr s route) (\<lambda>_.
       if rs_canonical_ata addr fpa (rr_authority route) (rr_source_mint route)
            (rr_source_token_program route) \<noteq> rr_source route
       then Inl NonCanonicalSourceAccount
       else if rs_canonical_ata addr fpa (rr_authority route) (rr_destination_mint route)
            (rr_destination_token_program route) \<noteq> rr_destination route
       then Inl NonCanonicalDestinationAccount
       else Inr ())"

definition grammar_ok :: "committed_instruction \<Rightarrow> committed_instruction \<Rightarrow> committed_instruction option \<Rightarrow> bool" where
  "grammar_ok price limit su \<longleftrightarrow>
     ci_programAddress price = COMPUTE_BUDGET_PROGRAM_ADDRESS \<and>
     ci_programAddress limit = COMPUTE_BUDGET_PROGRAM_ADDRESS \<and>
     (case su of None \<Rightarrow> True | Some s \<Rightarrow> ci_programAddress s = ASSOCIATED_TOKEN_PROGRAM_ADDRESS)"

definition check_parts ::
    "(address \<Rightarrow> bytes) \<Rightarrow> pda \<Rightarrow> committed_instruction \<Rightarrow> committed_instruction \<Rightarrow>
       committed_instruction option \<Rightarrow> committed_instruction \<Rightarrow> int \<Rightarrow> address \<Rightarrow>
       equity_guard_error + route_v2_summary" where
  "check_parts encode derive price limit su trade kind mint =
     (if \<not> grammar_ok price limit su then Inl UnsupportedTransactionGrammar
      else if ci_programAddress trade \<noteq> JUPITER_V6_PROGRAM_ADDRESS then Inl InvalidJupiterProgram
      else case or_else (computeBudgetVerdict price SET_COMPUTE_UNIT_PRICE)
                  (computeBudgetVerdict limit SET_COMPUTE_UNIT_LIMIT) of
        Some e \<Rightarrow> Inl e
      | None \<Rightarrow> bindE (outcome (routeVerdict trade kind mint)) (check_tail encode derive su))"

lemma rs_check_parts_tail:
  "rs_check_parts addr fpa price limit su trade role mint =
     (if rs_program_id price \<noteq> addr COMPUTE_BUDGET_PROGRAM_ADDRESS \<or>
         rs_program_id limit \<noteq> addr COMPUTE_BUDGET_PROGRAM_ADDRESS \<or>
         (case su of None \<Rightarrow> False | Some s \<Rightarrow> rs_program_id s \<noteq> addr ASSOCIATED_TOKEN_PROGRAM_ADDRESS)
      then Inl UnsupportedTransactionGrammar
      else if rs_program_id trade \<noteq> addr JUPITER_V6_PROGRAM_ADDRESS then Inl InvalidJupiterProgram
      else bindE (rs_check_compute_budget price 3 9) (\<lambda>_.
           bindE (rs_check_compute_budget limit 2 5) (\<lambda>_.
           bindE (rs_check_route addr trade role mint) (rs_check_tail addr fpa su))))"
  by (simp add: rs_check_parts_def rs_check_tail_def [abs_def] Let_def)

lemma outcome_checkJupiterSuffix:
  "outcome (checkJupiterSuffix encode derive suffix kind mint) =
     (if length suffix \<noteq> 3 \<and> length suffix \<noteq> 4 then Inl UnsupportedTransactionGrammar
      else check_parts encode derive (suffix ! 0) (suffix ! 1)
        (if length suffix = 4 then Some (suffix ! 2) else None) (suffix ! (length suffix - 1)) kind mint)"
proof (cases "length suffix \<noteq> 3 \<and> length suffix \<noteq> 4")
  case True
  then show ?thesis by (simp add: checkJupiterSuffix_def)
next
  case False
  define trade su where "trade = suffix ! (length suffix - 1)"
    and "su = (if length suffix = 4 then Some (suffix ! 2) else None)"
  let ?rv = "routeVerdict trade kind mint"
  have neg: "(case su of None \<Rightarrow> False | Some s \<Rightarrow> ci_programAddress s \<noteq> ASSOCIATED_TOKEN_PROGRAM_ADDRESS)
      \<longleftrightarrow> \<not> (case su of None \<Rightarrow> True | Some s \<Rightarrow> ci_programAddress s = ASSOCIATED_TOKEN_PROGRAM_ADDRESS)"
    by (simp split: option.split)
  from False show ?thesis
    unfolding checkJupiterSuffix_def check_parts_def check_tail_def grammar_ok_def Let_def trade_def [symmetric] su_def [symmetric]
    by (cases "sc_verdict ?rv"; cases "sc_route ?rv")
      (simp_all add: neg outcome_def [of ?rv] if_distrib [of outcome] option.case_distrib [of outcome]
        cong: if_cong option.case_cong split del: if_split)
qed

text \<open>The hypotheses of the mirror, in one predicate.\<close>

definition mirror_ok ::
    "(address \<Rightarrow> bytes) \<Rightarrow> pda \<Rightarrow> rs_pda \<Rightarrow> (address \<Rightarrow> bool) \<Rightarrow> committed_instruction list \<Rightarrow> address \<Rightarrow> bool" where
  "mirror_ok encode derive fpa ok suffix mint \<longleftrightarrow>
     address_codec encode ok \<and> (\<forall>a \<in> set jupiter_constants. ok a) \<and> ok mint \<and>
     (\<forall>ix \<in> set suffix. \<forall>a \<in> committed_addresses ix. ok a) \<and>
     (\<forall>program seeds. ok (derive program seeds) \<and>
        encode (derive program seeds) = fpa seeds (encode program))"

lemma tail_mirror:
  assumes codec: "address_codec encode ok" and sys: "ok SYSTEM_PROGRAM_ADDRESS"
    and pda: "\<And>program seeds. ok (derive program seeds)"
      "\<And>program seeds. encode (derive program seeds) = fpa seeds (encode program)"
    and su: "\<And>s a. su = Some s \<Longrightarrow> a \<in> committed_addresses s \<Longrightarrow> ok a"
    and r: "ok (rt_authority r)" "ok (rt_source r)" "ok (rt_destination r)" "ok (rt_destinationMint r)"
      "ok (rt_destinationTokenProgram r)"
  shows "rs_check_tail encode fpa (map_option (rs_instruction_of encode) su) (rs_route_of encode r) =
           mapR (\<lambda>_. ()) (check_tail encode derive su r)"
proof -
  have s: "(case map_option (rs_instruction_of encode) su of None \<Rightarrow> Inr ()
        | Some s \<Rightarrow> rs_check_setup encode s (rs_route_of encode r)) =
        (case (case su of None \<Rightarrow> None | Some s \<Rightarrow> setupVerdict s r) of Some e \<Rightarrow> Inl e | None \<Rightarrow> Inr ())"
    using su by (cases su) (simp_all add: setup_mirror [OF codec sys _ r(3,1,4,5)])
  have ata: "rs_canonical_ata encode fpa (encode w) (encode n) (encode p) = encode x \<longleftrightarrow>
      canonicalAta encode derive w n p = x" if "ok x" for w n p x
    unfolding rs_canonical_ata_def canonicalAta_def pda(2) [symmetric]
    by (rule encode_eq [OF codec pda(1) that])
  show ?thesis
    unfolding rs_check_tail_def check_tail_def s
    by (cases "case su of None \<Rightarrow> None | Some s \<Rightarrow> setupVerdict s r")
      (simp_all add: rs_route_of_def ata r)
qed

lemma check_parts_mirror:
  assumes m: "mirror_ok encode derive fpa ok suffix mint"
    and mem: "price \<in> set suffix" "limit \<in> set suffix" "trade \<in> set suffix"
      "\<And>s. su = Some s \<Longrightarrow> s \<in> set suffix"
  shows "rs_check_parts encode fpa (rs_instruction_of encode price) (rs_instruction_of encode limit)
      (map_option (rs_instruction_of encode) su) (rs_instruction_of encode trade) (rs_role_of kind) (encode mint)
    = mapR (\<lambda>_. ()) (check_parts encode derive price limit su trade kind mint)"
proof -
  have codec: "address_codec encode ok" and mint: "ok mint"
    and cs: "a \<in> set jupiter_constants \<Longrightarrow> ok a"
    and addrs: "ix \<in> set suffix \<Longrightarrow> a \<in> committed_addresses ix \<Longrightarrow> ok a"
    and pda: "ok (derive program seeds)" "encode (derive program seeds) = fpa seeds (encode program)"
    for a ix program seeds
    using m by (auto simp: mirror_ok_def)
  have c: "ok COMPUTE_BUDGET_PROGRAM_ADDRESS" "ok ASSOCIATED_TOKEN_PROGRAM_ADDRESS"
      "ok JUPITER_V6_PROGRAM_ADDRESS" "ok SYSTEM_PROGRAM_ADDRESS"
    using cs by (simp_all add: jupiter_constants_def)
  have g: "rs_program_id (rs_instruction_of encode ix) = encode k \<longleftrightarrow> ci_programAddress ix = k"
    if "ix \<in> set suffix" and "ok k" for ix k
    using that addrs [OF that(1)]
    by (simp add: rs_instruction_of_def encode_eq [OF codec] committed_addresses_def)
  have gs: "(case map_option (rs_instruction_of encode) su of None \<Rightarrow> False
        | Some s \<Rightarrow> rs_program_id s \<noteq> encode ASSOCIATED_TOKEN_PROGRAM_ADDRESS) \<longleftrightarrow>
      \<not> (case su of None \<Rightarrow> True | Some s \<Rightarrow> ci_programAddress s = ASSOCIATED_TOKEN_PROGRAM_ADDRESS)"
    using mem(4) c by (cases su) (simp_all add: g)
  note route = route_mirror [OF codec cs addrs [OF mem(3)] mint, where kind = kind]
  have tail: "rs_check_tail encode fpa (map_option (rs_instruction_of encode) su) (rs_route_of encode r)
      = mapR (\<lambda>_. ()) (check_tail encode derive su r)"
    if r: "outcome (routeVerdict trade kind mint) = Inr r" for r
  proof -
    have "i < 10 \<Longrightarrow> ok (ca_address (ci_accounts trade ! i))" for i
      using routeVerdict_route(1) [OF r] nth_account_ok [of trade ok i] addrs [OF mem(3)] by simp
    then show ?thesis
      using routeVerdict_route(4-8) [OF r] pda c(4) addrs mem(4) by (intro tail_mirror [OF codec]) auto
  qed
  have or: "(case or_else a b of Some e \<Rightarrow> Inl e | None \<Rightarrow> m) =
      bindE (case a of Some e \<Rightarrow> Inl e | None \<Rightarrow> Inr ()) (\<lambda>_.
      bindE (case b of Some e \<Rightarrow> Inl e | None \<Rightarrow> Inr ()) (\<lambda>_. m))" for a b :: verdict
      and m :: "equity_guard_error + 'z"
    by (simp add: or_else_def split: option.split)
  show ?thesis
    using mem(1-3) c tail unfolding rs_check_parts_tail check_parts_def grammar_ok_def gs
    by (cases "outcome (routeVerdict trade kind mint)"; cases "computeBudgetVerdict price (3, 9)";
        cases "computeBudgetVerdict limit (2, 5)")
      (simp_all add: g route compute_budget_mirror or
        SET_COMPUTE_UNIT_PRICE_def SET_COMPUTE_UNIT_LIMIT_def)
qed

end
