(* ===== verification/Jupiter_Builder.thy ===== *)
theory Jupiter_Builder
  imports Jupiter_Mirror
begin

text \<open>
  The whole-suffix statements of the Jupiter adapter: equality of the client's and the program's
  verdicts, injectivity of the suffix commitment's preimage, success and on-chain acceptance of the
  builder's output, and the derived minimum output.
\<close>

section \<open>The verdict on a whole suffix\<close>

lemma length_3_or_4:
  obtains (three) a b c where "xs = [a, b, c]" | (four) a b c d where "xs = [a, b, c, d]"
    | (other) "length xs \<noteq> 3" "length xs \<noteq> 4"
proof (cases "length xs = 3 \<or> length xs = 4")
  case True
  then have "\<exists>a b c. xs = [a, b, c] \<or> (\<exists>d. xs = [a, b, c, d])"
    by (auto simp: length_Suc_conv eval_nat_numeral)
  then show ?thesis using three four by blast
next
  case False
  then show ?thesis using other by blast
qed

lemma suffix_mirror:
  assumes "mirror_ok encode derive fpa ok suffix mint"
  shows "rs_check_suffix encode fpa (map (rs_instruction_of encode) suffix) (rs_role_of kind) (encode mint) =
     mapR (\<lambda>_. ()) (outcome (checkJupiterSuffix encode derive suffix kind mint))"
proof (cases suffix rule: length_3_or_4)
  case (three a b c)
  then show ?thesis
    using check_parts_mirror [OF assms, of a b c None kind] by (simp add: outcome_checkJupiterSuffix)
next
  case (four a b c d)
  then show ?thesis
    using check_parts_mirror [OF assms, of a b d "Some c" kind] by (simp add: outcome_checkJupiterSuffix)
next
  case other
  then have "rs_check_suffix encode fpa (map (rs_instruction_of encode) suffix) (rs_role_of kind) (encode mint)
      = Inl UnsupportedTransactionGrammar"
    by (cases "(encode, fpa, map (rs_instruction_of encode) suffix, rs_role_of kind, encode mint)"
        rule: rs_check_suffix.cases) auto
  with other show ?thesis by (simp add: outcome_checkJupiterSuffix)
qed

text \<open>A check has a verdict exactly when it has no route.\<close>

definition decided :: "suffix_check \<Rightarrow> bool" where
  "decided c \<longleftrightarrow> (sc_verdict c = None \<longleftrightarrow> sc_route c \<noteq> None)"

lemma decided_simps [simp]:
  "decided (suffix_fail e)" "decided \<lparr>sc_verdict = None, sc_route = Some r\<rparr>"
  by (simp_all add: decided_def suffix_fail_def)

lemma checkJupiterSuffix_decided: "decided (checkJupiterSuffix encode derive suffix kind mint)"
proof -
  have const: "(case x of None \<Rightarrow> b | Some _ \<Rightarrow> b) = b" for x :: "'z option" and b :: bool
    by (cases x) simp_all
  show ?thesis
    by (simp add: checkJupiterSuffix_def Let_def if_distrib [of decided] option.case_distrib [of decided] const
        cong: if_cong option.case_cong)
qed

lemma check_verdict_route:
  "sc_verdict (checkJupiterSuffix encode derive suffix kind mint) = None \<longleftrightarrow>
     (\<exists>r. sc_route (checkJupiterSuffix encode derive suffix kind mint) = Some r \<and>
        outcome (checkJupiterSuffix encode derive suffix kind mint) = Inr r)"
  using checkJupiterSuffix_decided [of encode derive suffix kind mint]
  by (auto simp: decided_def outcome_def split: option.splits)

lemma verdict_of_outcome:
  "sc_verdict (checkJupiterSuffix encode derive suffix kind mint) =
     (case outcome (checkJupiterSuffix encode derive suffix kind mint) of Inl e \<Rightarrow> Some e | Inr _ \<Rightarrow> None)"
  using check_verdict_route [of encode derive suffix kind mint]
  by (cases "sc_verdict (checkJupiterSuffix encode derive suffix kind mint)") (auto simp: outcome_def)

section \<open>The suffix commitment\<close>

definition suffix_preimage :: "(address \<Rightarrow> bytes) \<Rightarrow> committed_instruction list \<Rightarrow> bytes" where
  "suffix_preimage encode suffix =
     ascii_bytes JUPITER_SUFFIX_COMMITMENT_DOMAIN @
     counted rs_instruction_bytes (map (rs_instruction_of encode) suffix)"

definition suffix_sizes_ok :: "committed_instruction list \<Rightarrow> bool" where
  "suffix_sizes_ok suffix \<longleftrightarrow>
     length suffix < 2 ^ 32 \<and>
     list_all (\<lambda>ix. length (ci_accounts ix) < 2 ^ 32 \<and> length (ci_data ix) < 2 ^ 32) suffix"

lemma suffix_parts_eq:
  "suffix_parts encode ix =
     (if length (ci_accounts ix) < 2 ^ 32 \<and> length (ci_data ix) < 2 ^ 32
      then Inr ([encode (ci_programAddress ix), le_bytes 4 (length (ci_accounts ix))] @
            concat (map (\<lambda>account. [encode (ca_address account),
              [flag_byte (ca_isSigner account), flag_byte (ca_isWritable account)]]) (ci_accounts ix)) @
            [le_bytes 4 (length (ci_data ix)), ci_data ix])
      else Inl (GuardClientError InvalidDownstream_code None))"
  by (simp add: suffix_parts_def u32le_def)

lemma concat_suffix_parts:
  "suffix_parts encode ix = Inr parts \<Longrightarrow> concat parts = rs_instruction_bytes (rs_instruction_of encode ix)"
  using concat_account_parts [of encode "ci_accounts ix"]
  by (auto simp: suffix_parts_eq rs_instruction_bytes_def rs_instruction_of_def counted_def sized_bytes_def
      split: if_splits)

lemma mapE_suffix_parts:
  "mapE (suffix_parts encode) suffix = Inr pss \<Longrightarrow>
     concat (concat pss) = concat (map rs_instruction_bytes (map (rs_instruction_of encode) suffix)) \<and>
     list_all (\<lambda>ix. length (ci_accounts ix) < 2 ^ 32 \<and> length (ci_data ix) < 2 ^ 32) suffix"
proof (induction suffix arbitrary: pss)
  case (Cons ix suffix)
  then show ?case
    by (auto simp: err_simps dest: concat_suffix_parts) (auto simp: suffix_parts_eq split: if_splits)
qed simp

lemma mapE_suffix_parts_total:
  assumes "list_all (\<lambda>ix. length (ci_accounts ix) < 2 ^ 32 \<and> length (ci_data ix) < 2 ^ 32) suffix"
  shows "\<exists>pss. mapE (suffix_parts encode) suffix = Inr pss"
  using assms
proof (induction suffix)
  case (Cons ix suffix)
  then obtain pss where "mapE (suffix_parts encode) suffix = Inr pss" by auto
  with Cons.prems show ?case by (simp add: suffix_parts_eq [of encode ix])
qed simp

lemma jupiterSuffixCommitmentPreimage_iff:
  "jupiterSuffixCommitmentPreimage encode suffix = Inr p \<longleftrightarrow>
     suffix_sizes_ok suffix \<and> p = suffix_preimage encode suffix"
proof
  show "jupiterSuffixCommitmentPreimage encode suffix = Inr p \<Longrightarrow>
      suffix_sizes_ok suffix \<and> p = suffix_preimage encode suffix"
    by (auto simp: jupiterSuffixCommitmentPreimage_def u32le_def err_simps suffix_sizes_ok_def
        suffix_preimage_def counted_def dest!: mapE_suffix_parts split: if_splits)
next
  assume a: "suffix_sizes_ok suffix \<and> p = suffix_preimage encode suffix"
  then obtain pss where m: "mapE (suffix_parts encode) suffix = Inr pss"
    using mapE_suffix_parts_total [of suffix encode] by (auto simp: suffix_sizes_ok_def)
  with a mapE_suffix_parts [OF m] show "jupiterSuffixCommitmentPreimage encode suffix = Inr p"
    by (simp add: jupiterSuffixCommitmentPreimage_def u32le_def suffix_sizes_ok_def suffix_preimage_def counted_def)
qed

lemma rs_suffix_frame_eq:
  "length (rs_accounts ix) < 2 ^ 32 \<Longrightarrow> length (rs_data ix) < 2 ^ 32 \<Longrightarrow>
   rs_suffix_frame ix = Inr (rs_instruction_bytes ix)"
  by (simp add: rs_suffix_frame_def u32_try_from_def rs_instruction_bytes_def counted_def sized_bytes_def)

lemma rs_suffix_commitment_eq:
  assumes "list_all rs_instruction_ok suffix" and "length suffix < 2 ^ 32"
  shows "rs_jupiter_suffix_commitment hash suffix =
     Inr (hash (ascii_bytes JUPITER_SUFFIX_COMMITMENT_DOMAIN @ counted rs_instruction_bytes suffix))"
proof -
  have "mapE rs_suffix_frame suffix = Inr (map rs_instruction_bytes suffix)"
    using assms(1) by (intro mapE_Inr_map) (auto simp: list_all_iff rs_instruction_ok_def rs_suffix_frame_eq)
  with assms(2) show ?thesis
    by (simp add: rs_jupiter_suffix_commitment_def u32_try_from_def counted_def)
qed

lemma rs_instruction_of_ok:
  assumes "address_codec encode ok" and "\<And>a. a \<in> committed_addresses ix \<Longrightarrow> ok a"
    and "length (ci_accounts ix) < 2 ^ 32" and "length (ci_data ix) < 2 ^ 32"
  shows "rs_instruction_ok (rs_instruction_of encode ix)"
proof -
  have "length (encode a) = 32" if "a \<in> committed_addresses ix" for a
    using assms(1,2) that by (simp add: address_codec_def)
  with assms(3,4) show ?thesis
    by (simp add: rs_instruction_ok_def rs_instruction_of_def rs_account_ok_def rs_account_of_def
        list_all_iff committed_addresses_def)
qed

lemma rs_instruction_of_inject:
  assumes codec: "address_codec encode ok" and "\<And>a. a \<in> committed_addresses x \<union> committed_addresses y \<Longrightarrow> ok a"
    and eq: "rs_instruction_of encode x = rs_instruction_of encode y"
  shows "x = y"
proof -
  have acc: "map (rs_account_of encode) (ci_accounts x) = map (rs_account_of encode) (ci_accounts y)"
    using eq by (simp add: rs_instruction_of_def)
  have "ci_accounts x = ci_accounts y"
  proof (rule map_inj_on [OF acc], rule inj_onI)
    fix a b assume "a \<in> set (ci_accounts x) \<union> set (ci_accounts y)" "b \<in> set (ci_accounts x) \<union> set (ci_accounts y)"
      and e: "rs_account_of encode a = rs_account_of encode b"
    then have "ok (ca_address a)" "ok (ca_address b)"
      using assms(2) by (auto simp: committed_addresses_def)
    with e encode_eq [OF codec] show "a = b" by (simp add: rs_account_of_def)
  qed
  moreover have "ci_programAddress x = ci_programAddress y"
    using eq assms(2) encode_eq [OF codec] by (simp add: rs_instruction_of_def committed_addresses_def)
  ultimately show ?thesis using eq by (simp add: rs_instruction_of_def)
qed

section \<open>The builder\<close>

text \<open>The view of a message depends on the guard's program and accounts only, not on its data.\<close>

lemma sysvarView_guard_data:
  assumes "programAddress g = programAddress h" and "ix_accounts g = ix_accounts h"
  shows "mapR (drop 1) (sysvarView (g # suffix) payer) = mapR (drop 1) (sysvarView (h # suffix) payer)"
  using assms by (simp add: sysvarView_def flagged_def Let_def if_distrib [of "mapR _"])

lemma mapR_eq:
  "mapR f r = Inr y \<longleftrightarrow> (\<exists>x. r = Inr x \<and> y = f x)" "mapR f r = Inl e \<longleftrightarrow> r = Inl e"
  by (auto simp: mapR_def err_simps)

text \<open>The builder without its final re-check.\<close>

definition build_unchecked ::
    "(address \<Rightarrow> bytes) \<Rightarrow> pda \<Rightarrow> (bytes \<Rightarrow> bytes) \<Rightarrow> address \<Rightarrow> address \<Rightarrow> address \<Rightarrow> int \<Rightarrow>
       assert_safe_execution_request \<Rightarrow> instruction list \<Rightarrow> js_exn + guarded_jupiter_trade" where
  "build_unchecked encode derive sha256 program feePayer mint kind expectation suffix =
     (if \<not> isJupiterAdapterKind kind then Inl (GuardClientError InvalidDownstream_code None)
      else
        let guardFor = (\<lambda>commitment.
              getAssertSafeExecutionV2Instruction encode program mint expectation commitment (Some kind)) in
        bindE (guardFor (replicate 32 0)) (\<lambda>placeholder.
        bindE (sysvarView (placeholder # suffix) feePayer) (\<lambda>provisional.
        let committed = drop 1 provisional;
            check = checkJupiterSuffix encode derive committed kind mint in
        case (sc_verdict check, sc_route check) of
          (None, Some route) \<Rightarrow>
            bindE (jupiterSuffixCommitment encode sha256 committed) (\<lambda>commitment.
            bindE (guardFor commitment) (\<lambda>guard.
              Inr \<lparr>gj_instructions = guard # suffix, gj_guard = guard, gj_adapterKind = kind,
                   committedSuffix = committed, gj_commitment = commitment, gj_route = route\<rparr>))
        | (v, _) \<Rightarrow> Inl (GuardClientError UnsupportedJupiterTrade_code v))))"

lemma recheck_passes:
  assumes ph: "getAssertSafeExecutionV2Instruction encode program mint e c (Some kind) = Inr placeholder"
    and v: "sysvarView (placeholder # suffix) payer = Inr provisional"
    and check: "sc_verdict (checkJupiterSuffix encode derive (drop 1 provisional) kind mint) = None"
    and com: "jupiterSuffixCommitment encode sha256 (drop 1 provisional) = Inr commitment"
    and g: "getAssertSafeExecutionV2Instruction encode program mint e commitment (Some kind) = Inr guard"
  shows "\<exists>final. sysvarView (guard # suffix) payer = Inr final \<and> drop 1 final = drop 1 provisional \<and>
    checkGuardedJupiterTransaction encode derive sha256 final 0 kind mint commitment = Inr None"
proof -
  have "mapR (drop 1) (sysvarView (guard # suffix) payer) = Inr (drop 1 provisional)"
    using sysvarView_guard_data [of placeholder guard suffix payer] v
      getAssertSafeExecutionV2Instruction_ok(1,2) [OF ph] getAssertSafeExecutionV2Instruction_ok(1,2) [OF g]
    by simp
  then obtain final where "sysvarView (guard # suffix) payer = Inr final" "drop 1 final = drop 1 provisional"
    by (auto simp: mapR_eq)
  with check com show ?thesis by (simp add: checkGuardedJupiterTransaction_def Let_def)
qed

lemma build_eq_unchecked:
  "buildGuardedJupiterTrade encode derive sha256 program payer mint kind e suffix =
     build_unchecked encode derive sha256 program payer mint kind e suffix"
proof (cases "isJupiterAdapterKind kind")
  case True
  let ?g = "\<lambda>c. getAssertSafeExecutionV2Instruction encode program mint e c (Some kind)"
  show ?thesis
  proof (cases "?g (replicate 32 0)")
    case ph: (Inr placeholder)
    show ?thesis
    proof (cases "sysvarView (placeholder # suffix) payer")
      case v: (Inr provisional)
      let ?check = "checkJupiterSuffix encode derive (drop 1 provisional) kind mint"
      show ?thesis
      proof (cases "sc_verdict ?check = None \<and> sc_route ?check \<noteq> None")
        case ok: True
        show ?thesis
        proof (cases "jupiterSuffixCommitment encode sha256 (drop 1 provisional)")
          case com: (Inr commitment)
          show ?thesis
          proof (cases "?g commitment")
            case g: (Inr guard)
            obtain final where "sysvarView (guard # suffix) payer = Inr final"
              "checkGuardedJupiterTransaction encode derive sha256 final 0 kind mint commitment = Inr None"
              using recheck_passes [OF ph v _ com g] ok by blast
            then show ?thesis
              using True ph v ok com g
              by (auto simp: buildGuardedJupiterTrade_def build_unchecked_def Let_def)
          qed (use True ph v ok com in \<open>auto simp: buildGuardedJupiterTrade_def build_unchecked_def Let_def\<close>)
        qed (use True ph v ok in \<open>auto simp: buildGuardedJupiterTrade_def build_unchecked_def Let_def\<close>)
      qed (use True ph v in \<open>auto simp: buildGuardedJupiterTrade_def build_unchecked_def Let_def split: option.splits\<close>)
    qed (use True ph in \<open>auto simp: buildGuardedJupiterTrade_def build_unchecked_def Let_def\<close>)
  qed (use True in \<open>auto simp: buildGuardedJupiterTrade_def build_unchecked_def Let_def\<close>)
qed (simp add: buildGuardedJupiterTrade_def build_unchecked_def)

text \<open>The parts of a built trade.\<close>

lemma build_ok:
  assumes "buildGuardedJupiterTrade encode derive sha256 program payer mint kind e suffix = Inr t"
  shows "isJupiterAdapterKind kind" and "gj_adapterKind t = kind"
    and "gj_instructions t = gj_guard t # suffix"
    and "mapR (drop 1) (sysvarView (gj_instructions t) payer) = Inr (committedSuffix t)"
    and "outcome (checkJupiterSuffix encode derive (committedSuffix t) kind mint) = Inr (gj_route t)"
    and "jupiterSuffixCommitment encode sha256 (committedSuffix t) = Inr (gj_commitment t)"
    and "getAssertSafeExecutionV2Instruction encode program mint e (gj_commitment t) (Some kind)
           = Inr (gj_guard t)"
proof -
  let ?g = "\<lambda>c. getAssertSafeExecutionV2Instruction encode program mint e c (Some kind)"
  have u: "build_unchecked encode derive sha256 program payer mint kind e suffix = Inr t"
    using assms by (simp add: build_eq_unchecked)
  then show k: "isJupiterAdapterKind kind" by (auto simp: build_unchecked_def split: if_splits)
  obtain placeholder where ph: "?g (replicate 32 0) = Inr placeholder"
    using u k by (auto simp: build_unchecked_def Let_def err_simps)
  obtain provisional where v: "sysvarView (placeholder # suffix) payer = Inr provisional"
    using u k ph by (auto simp: build_unchecked_def Let_def err_simps)
  let ?check = "checkJupiterSuffix encode derive (drop 1 provisional) kind mint"
  have n: "sc_verdict ?check = None"
    using u k ph v by (auto simp: build_unchecked_def Let_def split: option.splits)
  obtain r where r: "sc_route ?check = Some r" "outcome ?check = Inr r"
    using n check_verdict_route by blast
  have parts: "gj_adapterKind t = kind" "gj_instructions t = gj_guard t # suffix"
    "committedSuffix t = drop 1 provisional" "gj_route t = r"
    "jupiterSuffixCommitment encode sha256 (committedSuffix t) = Inr (gj_commitment t)"
    "?g (gj_commitment t) = Inr (gj_guard t)"
    using u k ph v n r by (auto simp: build_unchecked_def Let_def err_simps)
  then show "gj_adapterKind t = kind" "gj_instructions t = gj_guard t # suffix"
    "jupiterSuffixCommitment encode sha256 (committedSuffix t) = Inr (gj_commitment t)"
    "?g (gj_commitment t) = Inr (gj_guard t)" by blast+
  show "outcome (checkJupiterSuffix encode derive (committedSuffix t) kind mint) = Inr (gj_route t)"
    using parts r by simp
  show "mapR (drop 1) (sysvarView (gj_instructions t) payer) = Inr (committedSuffix t)"
    using recheck_passes [OF ph v n parts(5) [unfolded parts(3)] parts(6)] unfolding parts(2,3)
    by (auto simp: mapR_eq)
qed

section \<open>The validated route\<close>

lemma routeVerdict_sides:
  assumes "outcome (routeVerdict trade kind mint) = Inr r"
  shows "(if protectedRoleOf kind = DESTINATION
          then rt_destinationMint r = mint \<and> rt_sourceMint r = USDC_MINT_ADDRESS
          else rt_sourceMint r = mint \<and> rt_destinationMint r = USDC_MINT_ADDRESS) \<and>
    0 < inAmount (rt_prefix r) \<and> 0 < quotedOutAmount (rt_prefix r) \<and>
    platformFeeBps (rt_prefix r) = 0 \<and> positiveSlippageBps (rt_prefix r) = 0"
proof -
  have l: "\<not> length (ci_accounts trade) < 10" using routeVerdict_route(1) [OF assms] by simp
  obtain p where "decodeRouteV2Prefix (ci_data trade) = Some p"
    using routeVerdict_route(2) [OF assms] by blast
  with assms l show ?thesis
    by (cases "protectedRoleOf kind"; cases r)
      (simp_all add: routeVerdict_def ROUTE_V2_FIXED_ACCOUNTS_def Let_def split: if_splits)
qed

lemma checked_route:
  assumes "outcome (checkJupiterSuffix encode derive suffix kind mint) = Inr r"
  shows "outcome (routeVerdict (suffix ! (length suffix - 1)) kind mint) = Inr r"
    and "canonicalAta encode derive (rt_authority r) (rt_sourceMint r) (rt_sourceTokenProgram r) = rt_source r"
    and "canonicalAta encode derive (rt_authority r) (rt_destinationMint r) (rt_destinationTokenProgram r)
           = rt_destination r"
    and "length suffix = 3 \<or> length suffix = 4"
proof -
  have c: "length suffix = 3 \<or> length suffix = 4"
    "check_parts encode derive (suffix ! 0) (suffix ! 1)
        (if length suffix = 4 then Some (suffix ! 2) else None) (suffix ! (length suffix - 1)) kind mint = Inr r"
    using assms by (auto simp: outcome_checkJupiterSuffix split: if_splits)
  then obtain r' where r': "outcome (routeVerdict (suffix ! (length suffix - 1)) kind mint) = Inr r'"
      "check_tail encode derive (if length suffix = 4 then Some (suffix ! 2) else None) r' = Inr r"
    unfolding check_parts_def by (auto simp: err_simps split: if_splits option.splits)
  have "r' = r \<and>
      canonicalAta encode derive (rt_authority r) (rt_sourceMint r) (rt_sourceTokenProgram r) = rt_source r \<and>
      canonicalAta encode derive (rt_authority r) (rt_destinationMint r) (rt_destinationTokenProgram r)
        = rt_destination r"
    using r'(2) unfolding check_tail_def by (auto split: if_splits option.splits)
  with r' c(1) show "outcome (routeVerdict (suffix ! (length suffix - 1)) kind mint) = Inr r"
    "canonicalAta encode derive (rt_authority r) (rt_sourceMint r) (rt_sourceTokenProgram r) = rt_source r"
    "canonicalAta encode derive (rt_authority r) (rt_destinationMint r) (rt_destinationTokenProgram r)
       = rt_destination r"
    "length suffix = 3 \<or> length suffix = 4" by auto
qed

lemma minimumOutFromQuote_ceiling:
  assumes "0 \<le> quoted" and "0 \<le> s" and "s \<le> 10000"
  shows "\<exists>m. minimumOutFromQuote quoted (JNum (of_int s)) = Inr m \<and>
    quoted * (10000 - s) \<le> m * 10000 \<and> (m - 1) * 10000 < quoted * (10000 - s) \<and> 0 \<le> m \<and> m \<le> quoted"
proof -
  let ?n = "quoted * (10000 - s)"
  have n: "0 \<le> ?n" using assms by simp
  have le: "?n \<le> quoted * 10000" using assms by (intro mult_left_mono) auto
  have "(?n + 9999) sdiv 10000 = (?n + 9999) div 10000"
    using n by (simp add: signed_divide_int_def)
  then have m: "minimumOutFromQuote quoted (JNum (of_int s)) = Inr ((?n + 9999) div 10000)"
    using assms by (simp add: minimumOutFromQuote_def MAX_SLIPPAGE_BPS_def Let_def)
  show ?thesis unfolding m using n le by (intro exI [of _ "(?n + 9999) div 10000"]) (auto; presburger)
qed

section \<open>Properties\<close>

lemma suffix_preimage_inject:
  assumes "address_codec encode ok"
    and "\<forall>ix \<in> set suffix \<union> set suffix'. \<forall>a \<in> committed_addresses ix. ok a"
    and "suffix_sizes_ok suffix" and "suffix_sizes_ok suffix'"
    and "suffix_preimage encode suffix = suffix_preimage encode suffix'"
  shows "suffix = suffix'"
proof -
  let ?I = "rs_instruction_of encode"
  have ok: "list_all rs_instruction_ok (map ?I xs)" "length (map ?I xs) < 2 ^ 32"
    if "suffix_sizes_ok xs" "set xs \<subseteq> set suffix \<union> set suffix'" for xs
    using that assms(2)
    by (auto simp: list_all_iff suffix_sizes_ok_def intro!: rs_instruction_of_ok [OF assms(1)])
  have "counted rs_instruction_bytes (map ?I suffix) = counted rs_instruction_bytes (map ?I suffix')"
    using assms(5) by (simp add: suffix_preimage_def)
  then have m: "map ?I suffix = map ?I suffix'"
    using instruction_frame.counted_split [of "map ?I suffix" "map ?I suffix'" "[]" "[]"]
      ok [OF assms(3)] ok [OF assms(4)] by auto
  show ?thesis
  proof (rule map_inj_on [OF m], rule inj_onI)
    fix x y assume "x \<in> set suffix \<union> set suffix'" "y \<in> set suffix \<union> set suffix'" and "?I x = ?I y"
    then show "x = y" using assms(2) by (intro rs_instruction_of_inject [OF assms(1)]) auto
  qed
qed

lemma built_minimum:
  assumes "buildGuardedJupiterTrade encode derive sha256 program payer mint kind e suffix = Inr t"
  shows "\<exists>m. minimumOutFromQuote (quotedOutAmount (rt_prefix (gj_route t)))
      (JNum (of_int (slippageBps (rt_prefix (gj_route t))))) = Inr m \<and>
    0 \<le> m \<and> m \<le> quotedOutAmount (rt_prefix (gj_route t))"
proof -
  note c = checked_route [OF build_ok(5) [OF assms]]
  have "0 \<le> slippageBps (rt_prefix (gj_route t))" "slippageBps (rt_prefix (gj_route t)) \<le> 10000"
    using decodeRouteV2Prefix_bounds [OF routeVerdict_route(2) [OF c(1)]] routeVerdict_route(3) [OF c(1)]
    by (simp_all add: MAX_SLIPPAGE_BPS_def)
  then show ?thesis
    using minimumOutFromQuote_ceiling routeVerdict_sides [OF c(1)] by (metis less_imp_le)
qed

text \<open>A trade for witnesses: a USDC buy of the mint with one route step and 50 bps of slippage.\<close>

definition sample_encode :: "address \<Rightarrow> bytes" where
  "sample_encode a = take 32 (ascii_bytes a @ replicate 32 0)"

definition sample_derive :: pda where
  "sample_derive program seeds = ''ATA''"

definition sample_fpa :: rs_pda where
  "sample_fpa seeds program = sample_encode ''ATA''"

definition sample_known :: "address list" where
  "sample_known = [''ATA'', ''MINT'', ''AUTH''] @ jupiter_constants"

definition sample_route_data :: bytes where
  "sample_route_data = ROUTE_V2_DISCRIMINATOR @ [1, 0, 0, 0, 0, 0, 0, 0] @ [0, 2, 0, 0, 0, 0, 0, 0] @
     [50, 0] @ [0, 0] @ [0, 0] @ [1, 0, 0, 0]"

definition sample_suffix :: "instruction list" where
  "sample_suffix =
     [\<lparr>programAddress = COMPUTE_BUDGET_PROGRAM_ADDRESS, ix_accounts = None, ix_data = Some (3 # replicate 8 0)\<rparr>,
      \<lparr>programAddress = COMPUTE_BUDGET_PROGRAM_ADDRESS, ix_accounts = None, ix_data = Some (2 # replicate 4 0)\<rparr>,
      \<lparr>programAddress = JUPITER_V6_PROGRAM_ADDRESS,
       ix_accounts = Some (map (\<lambda>(a, r). \<lparr>am_address = a, am_role = r\<rparr>)
         [(''AUTH'', READONLY_SIGNER), (''ATA'', WRITABLE), (''ATA'', WRITABLE),
          (USDC_MINT_ADDRESS, READONLY), (''MINT'', READONLY), (LEGACY_TOKEN_PROGRAM_ADDRESS, READONLY),
          (TOKEN_2022_PROGRAM_ADDRESS, READONLY), (JUPITER_V6_PROGRAM_ADDRESS, READONLY),
          (JUPITER_EVENT_AUTHORITY, READONLY), (JUPITER_V6_PROGRAM_ADDRESS, READONLY)]),
       ix_data = Some sample_route_data\<rparr>]"

definition sample_guard_shape :: instruction where
  "sample_guard_shape =
     \<lparr>programAddress = ''GUARD'',
      ix_accounts = Some [\<lparr>am_address = ''MINT'', am_role = READONLY\<rparr>,
                          \<lparr>am_address = SYSVAR_INSTRUCTIONS_ADDRESS, am_role = READONLY\<rparr>],
      ix_data = None\<rparr>"

definition sample_committed :: "committed_instruction list" where
  "sample_committed = (case sysvarView (sample_guard_shape # sample_suffix) ''AUTH'' of
      Inl _ \<Rightarrow> [] | Inr v \<Rightarrow> drop 1 v)"

lemma sample_view: "mapR (drop 1) (sysvarView (sample_guard_shape # sample_suffix) ''AUTH'') = Inr sample_committed"
  by code_simp

lemma sample_check:
  "sc_verdict (checkJupiterSuffix sample_encode sample_derive sample_committed JUPITER_ROUTE_V2_BUY_USDC ''MINT'') = None"
  by code_simp

lemma sample_sizes: "suffix_sizes_ok sample_committed"
proof -
  have "length sample_committed = 3 \<and>
      list_all (\<lambda>ix. length (ci_accounts ix) < 20 \<and> length (ci_data ix) < 40) sample_committed"
    by code_simp
  then show ?thesis by (auto simp: suffix_sizes_ok_def list_all_iff)
qed

lemma sample_known_distinct: "distinct (map sample_encode sample_known)"
  by code_simp

lemma sample_addresses:
  "list_all (\<lambda>ix. list_all (\<lambda>a. a \<in> set sample_known)
      (ci_programAddress ix # map ca_address (ci_accounts ix))) sample_committed"
  by code_simp

lemma sample_mirror_ok:
  "mirror_ok sample_encode sample_derive sample_fpa (\<lambda>a. a \<in> set sample_known) sample_committed ''MINT''"
proof -
  have "inj_on sample_encode (set sample_known)"
    using sample_known_distinct by (simp add: distinct_map)
  then have "address_codec sample_encode (\<lambda>a. a \<in> set sample_known)"
    by (auto simp: address_codec_def sample_encode_def inj_on_def ascii_bytes_def)
  moreover have "\<forall>ix \<in> set sample_committed. \<forall>a \<in> committed_addresses ix. a \<in> set sample_known"
    using sample_addresses by (auto simp: list_all_iff committed_addresses_def)
  ultimately show ?thesis
    by (simp add: mirror_ok_def sample_derive_def sample_fpa_def) (simp add: sample_known_def)
qed

lemma build_total:
  assumes "isJupiterAdapterKind kind" and "expectation_ok e" and "length (encode mint) = 32"
    and "\<And>p. length (sha256 p) = 32"
    and view: "mapR (drop 1) (sysvarView (\<lparr>programAddress = program,
        ix_accounts = Some [\<lparr>am_address = mint, am_role = READONLY\<rparr>,
          \<lparr>am_address = SYSVAR_INSTRUCTIONS_ADDRESS, am_role = READONLY\<rparr>], ix_data = None\<rparr> # suffix) payer)
        = Inr committed"
    and check: "sc_verdict (checkJupiterSuffix encode derive committed kind mint) = None"
    and sizes: "suffix_sizes_ok committed"
  shows "\<exists>t. buildGuardedJupiterTrade encode derive sha256 program payer mint kind e suffix = Inr t \<and>
    committedSuffix t = committed"
proof -
  have kind: "isDownstreamAdapterKind (case Some kind of None \<Rightarrow> TOKEN_2022_TRANSFER_CHECKED | Some k \<Rightarrow> k)"
    using assms(1) by (auto simp: isJupiterAdapterKind_def isDownstreamAdapterKind_def)
  note total = getAssertSafeExecutionV2Instruction_total [of e _ encode mint "Some kind" program,
      OF assms(2) _ assms(3) kind]
  obtain ph where ph: "getAssertSafeExecutionV2Instruction encode program mint e (replicate 32 0) (Some kind) = Inr ph"
    using total [of "replicate 32 0"] by auto
  obtain v where v: "sysvarView (ph # suffix) payer = Inr v" "drop 1 v = committed"
    using view sysvarView_guard_data [of ph "\<lparr>programAddress = program,
        ix_accounts = Some [\<lparr>am_address = mint, am_role = READONLY\<rparr>,
          \<lparr>am_address = SYSVAR_INSTRUCTIONS_ADDRESS, am_role = READONLY\<rparr>], ix_data = None\<rparr>" suffix payer]
      getAssertSafeExecutionV2Instruction_ok(1,2) [OF ph] by (auto simp: mapR_eq)
  obtain r where r: "sc_route (checkJupiterSuffix encode derive committed kind mint) = Some r"
    using check check_verdict_route by blast
  have com: "jupiterSuffixCommitment encode sha256 committed = Inr (sha256 (suffix_preimage encode committed))"
    using sizes jupiterSuffixCommitmentPreimage_iff by (auto simp: jupiterSuffixCommitment_def err_simps)
  obtain g where "getAssertSafeExecutionV2Instruction encode program mint e
      (sha256 (suffix_preimage encode committed)) (Some kind) = Inr g"
    using total [OF assms(4)] by blast
  with assms(1) ph v check r com show ?thesis
    by (simp add: build_eq_unchecked build_unchecked_def Let_def)
qed

lemma sample_trade:
  "\<exists>t. buildGuardedJupiterTrade sample_encode sample_derive sample_hash ''GUARD'' ''AUTH'' ''MINT''
     JUPITER_ROUTE_V2_BUY_USDC sample_expectation sample_suffix = Inr t \<and> committedSuffix t = sample_committed"
  by (rule build_total [OF _ sample_expectation_ok _ _ sample_view [unfolded sample_guard_shape_def]
        sample_check sample_sizes])
    (simp_all add: isJupiterAdapterKind_def sample_encode_def sample_hash_def ascii_bytes_def)

text \<open>
  C8. The client predicts the program on Jupiter trades exactly: for every suffix of committed
  instructions, kind and protected mint, the verdict of \<open>checkJupiterSuffix\<close> is the error the
  program's \<open>check_suffix\<close> returns on the same instructions, and \<open>null\<close> where it returns \<open>Ok\<close>.
  Hypotheses (\<open>mirror_ok\<close>): the address encoder gives 32 bytes and is injective on the addresses
  involved, and the two program-derived address functions agree.
\<close>

theorem jupiter_verdict_mirrors_program:
  assumes "mirror_ok encode derive fpa ok suffix mint"
  shows "sc_verdict (checkJupiterSuffix encode derive suffix kind mint) =
     verdict_of (rs_check_suffix encode fpa (map (rs_instruction_of encode) suffix) (rs_role_of kind) (encode mint))"
  unfolding suffix_mirror [OF assms] verdict_of_outcome
  by (cases "outcome (checkJupiterSuffix encode derive suffix kind mint)") (simp_all add: verdict_of_def)

theorem jupiter_verdict_mirrors_program_witness:
  "verdict_of (rs_check_suffix sample_encode sample_fpa (map (rs_instruction_of sample_encode) sample_committed)
     RsDestination (sample_encode ''MINT'')) = None"
  using jupiter_verdict_mirrors_program [OF sample_mirror_ok, of JUPITER_ROUTE_V2_BUY_USDC] sample_check
  by (simp add: rs_role_of_def protectedRoleOf_def)

text \<open>
  C9. A trade the builder returns is accepted on-chain: the guard's payload decodes to the request
  it was built from, and with the built transaction's view in the Instructions sysvar and the guard
  first, the program's suffix verification succeeds.
\<close>

theorem built_trade_verifies:
  assumes "buildGuardedJupiterTrade encode derive sha256 program payer mint kind e suffix = Inr t"
    and "mirror_ok encode derive fpa ok (committedSuffix t) mint"
    and "sysvarView (gj_instructions t) payer = Inr view"
  shows "\<exists>request. unpack (data_of (gj_guard t)) = Inr request \<and>
    rs_execution request = rs_execution_of e \<and> rs_expected_mint request = encode mint \<and>
    rs_verify_jupiter_suffix encode fpa sha256 0 (rs_role_of kind) request (encode mint)
      (map (rs_instruction_of encode) view) = Inr ()"
proof -
  note b = build_ok [OF assms(1)]
  have codec: "address_codec encode ok" "ok mint"
    and addrs: "ix \<in> set (committedSuffix t) \<Longrightarrow> a \<in> committed_addresses ix \<Longrightarrow> ok a" for ix a
    using assms(2) by (auto simp: mirror_ok_def)
  have len: "length (encode mint) = 32" using codec by (simp add: address_codec_def)
  note u = guard_instruction_request [OF b(7) len]
  have view: "drop 1 view = committedSuffix t" using b(4) assms(3) by (simp add: mapR_eq)
  have sizes: "suffix_sizes_ok (committedSuffix t)"
    and com: "gj_commitment t = sha256 (suffix_preimage encode (committedSuffix t))"
    using b(6) by (auto simp: jupiterSuffixCommitment_def err_simps jupiterSuffixCommitmentPreimage_iff)
  have "list_all rs_instruction_ok (map (rs_instruction_of encode) (committedSuffix t))"
    using sizes addrs by (auto simp: list_all_iff suffix_sizes_ok_def intro!: rs_instruction_of_ok [OF codec(1)])
  then have "rs_jupiter_suffix_commitment sha256 (map (rs_instruction_of encode) (committedSuffix t))
      = Inr (gj_commitment t)"
    using sizes com by (subst rs_suffix_commitment_eq) (simp_all add: suffix_sizes_ok_def suffix_preimage_def)
  moreover have "rs_check_suffix encode fpa (map (rs_instruction_of encode) (committedSuffix t))
      (rs_role_of kind) (encode mint) = Inr ()"
    using suffix_mirror [OF assms(2), of kind] b(5) by simp
  moreover have "length (committedSuffix t) = 3 \<or> length (committedSuffix t) = 4"
    using b(5) by (auto simp: outcome_checkJupiterSuffix split: if_splits)
  then have "length view - 1 = 3 \<or> length view - 1 = 4" using arg_cong [OF view, of length] by auto
  ultimately show ?thesis
    using u view by (auto simp: rs_verify_jupiter_suffix_def rs_guard_request_def drop_map)
qed

theorem built_trade_verifies_witness:
  "\<exists>t view request. buildGuardedJupiterTrade sample_encode sample_derive sample_hash ''GUARD'' ''AUTH'' ''MINT''
     JUPITER_ROUTE_V2_BUY_USDC sample_expectation sample_suffix = Inr t \<and>
     rs_verify_jupiter_suffix sample_encode sample_fpa sample_hash 0 RsDestination request
       (sample_encode ''MINT'') (map (rs_instruction_of sample_encode) view) = Inr ()"
proof -
  obtain t where t: "buildGuardedJupiterTrade sample_encode sample_derive sample_hash ''GUARD'' ''AUTH'' ''MINT''
     JUPITER_ROUTE_V2_BUY_USDC sample_expectation sample_suffix = Inr t" "committedSuffix t = sample_committed"
    using sample_trade by blast
  obtain view where "sysvarView (gj_instructions t) ''AUTH'' = Inr view"
    using build_ok(4) [OF t(1)] by (auto simp: mapR_eq)
  from built_trade_verifies [OF t(1) sample_mirror_ok [folded t(2)] this] t(1) show ?thesis
    by (auto simp: rs_role_of_def protectedRoleOf_def)
qed

text \<open>
  C10. The suffix commitment binds the whole trade: if the program accepts a transaction under a
  guard the client built, every instruction after the guard is the committed one (programs, accounts,
  signer and writable flags, data, and their number and order), unless the two canonical suffix
  encodings are different inputs of SHA-256 with equal digests.
\<close>

theorem accepted_suffix_is_committed:
  assumes "buildGuardedJupiterTrade encode derive sha256 program payer mint kind e suffix = Inr t"
    and "address_codec encode ok" and "ok mint"
    and "\<forall>ix \<in> set (committedSuffix t). \<forall>a \<in> committed_addresses ix. ok a"
    and "unpack (data_of (gj_guard t)) = Inr request"
    and "list_all rs_instruction_ok instructions" and "length instructions < 2 ^ 32"
    and "rs_verify_jupiter_suffix encode fpa sha256 current role request mint_key instructions = Inr ()"
  shows "drop 1 instructions = map (rs_instruction_of encode) (committedSuffix t) \<or>
     (let p = ascii_bytes JUPITER_SUFFIX_COMMITMENT_DOMAIN @ counted rs_instruction_bytes (drop 1 instructions);
          q = suffix_preimage encode (committedSuffix t) in p \<noteq> q \<and> sha256 p = sha256 q)"
proof -
  note b = build_ok [OF assms(1)]
  have sizes: "suffix_sizes_ok (committedSuffix t)"
    and com: "gj_commitment t = sha256 (suffix_preimage encode (committedSuffix t))"
    using b(6) by (auto simp: jupiterSuffixCommitment_def err_simps jupiterSuffixCommitmentPreimage_iff)
  let ?ixs = "drop 1 instructions" and ?cs = "map (rs_instruction_of encode) (committedSuffix t)"
  have ok: "list_all rs_instruction_ok ?ixs" "length ?ixs < 2 ^ 32"
    using assms(6,7) by (auto simp: list_all_iff dest: in_set_dropD)
  have cs: "list_all rs_instruction_ok ?cs" "length ?cs < 2 ^ 32"
    using sizes assms(4) by (auto simp: list_all_iff suffix_sizes_ok_def intro!: rs_instruction_of_ok [OF assms(2)])
  have "length (encode mint) = 32" using assms(2,3) by (simp add: address_codec_def)
  then have "rs_downstream_commitment request = gj_commitment t"
    using guard_instruction_request [OF b(7)] assms(5) by (auto simp: rs_guard_request_def)
  then have "sha256 (ascii_bytes JUPITER_SUFFIX_COMMITMENT_DOMAIN @ counted rs_instruction_bytes ?ixs) = gj_commitment t"
    using assms(8) rs_suffix_commitment_eq [OF ok]
    by (auto simp: rs_verify_jupiter_suffix_def Let_def err_simps split: if_splits)
  with com show ?thesis
    using instruction_frame.counted_split [of ?ixs ?cs "[]" "[]"] ok cs
    by (auto simp: Let_def suffix_preimage_def)
qed

theorem accepted_suffix_is_committed_witness:
  "\<exists>t ixs. buildGuardedJupiterTrade sample_encode sample_derive sample_hash ''GUARD'' ''AUTH'' ''MINT''
     JUPITER_ROUTE_V2_BUY_USDC sample_expectation sample_suffix = Inr t \<and>
     (drop 1 ixs = map (rs_instruction_of sample_encode) (committedSuffix t) \<or>
     (let p = ascii_bytes JUPITER_SUFFIX_COMMITMENT_DOMAIN @ counted rs_instruction_bytes (drop 1 ixs);
          q = suffix_preimage sample_encode (committedSuffix t) in p \<noteq> q \<and> sample_hash p = sample_hash q))"
proof -
  obtain t where t: "buildGuardedJupiterTrade sample_encode sample_derive sample_hash ''GUARD'' ''AUTH'' ''MINT''
     JUPITER_ROUTE_V2_BUY_USDC sample_expectation sample_suffix = Inr t" "committedSuffix t = sample_committed"
    using sample_trade by blast
  note m = sample_mirror_ok [unfolded mirror_ok_def]
  have codec: "address_codec sample_encode (\<lambda>a. a \<in> set sample_known)" "''MINT'' \<in> set sample_known"
    "\<forall>ix \<in> set (committedSuffix t). \<forall>a \<in> committed_addresses ix. a \<in> set sample_known"
    using m t(2) by auto
  have len: "length (sample_encode ''MINT'') = 32" using codec by (simp add: address_codec_def)
  let ?cs = "map (rs_instruction_of sample_encode) sample_committed"
  let ?ixs = "rs_instruction_of sample_encode (hd sample_committed) # ?cs"
  let ?req = "rs_guard_request sample_encode ''MINT'' sample_expectation (gj_commitment t) JUPITER_ROUTE_V2_BUY_USDC"
  have u: "unpack (data_of (gj_guard t)) = Inr ?req"
    using guard_instruction_request [OF build_ok(7) [OF t(1)] len] by simp
  have len3: "length sample_committed = 3" by code_simp
  have ok: "list_all rs_instruction_ok ?cs"
    using sample_sizes codec(3) unfolding t(2)
    by (auto simp: list_all_iff suffix_sizes_ok_def intro!: rs_instruction_of_ok [OF codec(1)])
  moreover have "rs_instruction_of sample_encode (hd sample_committed) \<in> set ?cs"
    using len3 hd_in_set [of sample_committed] by (cases "sample_committed = []") auto
  ultimately have ok': "list_all rs_instruction_ok ?ixs" by (auto simp: list_all_iff)
  have "gj_commitment t = sample_hash (suffix_preimage sample_encode sample_committed)"
    using build_ok(6) [OF t(1)] t(2)
    by (auto simp: jupiterSuffixCommitment_def err_simps jupiterSuffixCommitmentPreimage_iff)
  then have "rs_jupiter_suffix_commitment sample_hash ?cs = Inr (gj_commitment t)"
    using ok len3 by (subst rs_suffix_commitment_eq) (simp_all add: sample_hash_def)
  moreover have "rs_check_suffix sample_encode sample_fpa ?cs RsDestination (sample_encode ''MINT'') = Inr ()"
    using suffix_mirror [OF sample_mirror_ok, of JUPITER_ROUTE_V2_BUY_USDC] build_ok(5) [OF t(1)] t(2)
    by (simp add: rs_role_of_def protectedRoleOf_def)
  ultimately have v: "rs_verify_jupiter_suffix sample_encode sample_fpa sample_hash 0 RsDestination ?req
      (sample_encode ''MINT'') ?ixs = Inr ()"
    using len3 by (simp add: rs_verify_jupiter_suffix_def rs_guard_request_def)
  have "length ?ixs < 2 ^ 32" using len3 by simp
  from accepted_suffix_is_committed [OF t(1) codec u ok' this v] t(1) show ?thesis by blast
qed

text \<open>
  The canonical encodings are unambiguous: two suffixes of valid committed instructions have
  the same preimage only if they are equal, and no suffix preimage is a kind 1 preimage (the domain
  separators differ), so a commitment of one adapter cannot be replayed under the other.
\<close>

theorem commitment_preimages_unambiguous:
  assumes "address_codec encode ok"
    and "\<forall>ix \<in> set suffix \<union> set suffix'. \<forall>a \<in> committed_addresses ix. ok a"
    and "jupiterSuffixCommitmentPreimage encode suffix = Inr p"
    and "jupiterSuffixCommitmentPreimage encode suffix' = Inr p'"
    and "downstreamCommitmentPreimage encode ix = Inr q"
  shows "(p = p' \<longleftrightarrow> suffix = suffix') \<and> p \<noteq> q"
proof -
  have s: "suffix_sizes_ok suffix" "p = suffix_preimage encode suffix"
    and s': "suffix_sizes_ok suffix'" "p' = suffix_preimage encode suffix'"
    using assms(3,4) by (simp_all add: jupiterSuffixCommitmentPreimage_iff)
  then have "suffix = suffix'" if "p = p'"
    using suffix_preimage_inject [OF assms(1,2)] that by blast
  moreover have "take 13 p = ascii_bytes ''EQUITYGUARD_J''"
    by (simp add: s suffix_preimage_def JUPITER_SUFFIX_COMMITMENT_DOMAIN_def ascii_bytes_def)
  moreover have "take 13 q = ascii_bytes ''EQUITYGUARD_D''"
    using assms(5) by (auto simp: downstreamCommitmentPreimage_eq DOWNSTREAM_COMMITMENT_DOMAIN_def ascii_bytes_def
        split: if_splits)
  moreover have "ascii_bytes ''EQUITYGUARD_J'' \<noteq> ascii_bytes ''EQUITYGUARD_D''"
    by (simp add: ascii_bytes_def)
  ultimately show ?thesis using s s' by auto
qed

theorem commitment_preimages_unambiguous_witness:
  "\<exists>p q. jupiterSuffixCommitmentPreimage sample_encode sample_committed = Inr p \<and>
     downstreamCommitmentPreimage sample_encode (hd sample_committed) = Inr q \<and> p \<noteq> q"
proof -
  have m: "address_codec sample_encode (\<lambda>a. a \<in> set sample_known)"
    "\<forall>ix \<in> set sample_committed \<union> set sample_committed. \<forall>a \<in> committed_addresses ix. a \<in> set sample_known"
    using sample_mirror_ok by (auto simp: mirror_ok_def)
  have p: "jupiterSuffixCommitmentPreimage sample_encode sample_committed = Inr (suffix_preimage sample_encode sample_committed)"
    using sample_sizes by (simp add: jupiterSuffixCommitmentPreimage_iff)
  have "length (ci_accounts (hd sample_committed)) = 0 \<and> length (ci_data (hd sample_committed)) = 9" by code_simp
  then obtain q where q: "downstreamCommitmentPreimage sample_encode (hd sample_committed) = Inr q"
    by (simp add: downstreamCommitmentPreimage_eq)
  from commitment_preimages_unambiguous [OF m p p q] p q show ?thesis by blast
qed

text \<open>
  The derived minimum output is Jupiter's exact ceiling
  \<open>ceil(quotedOut * (10000 - slippageBps) / 10000)\<close>: the least integer not below the rational
  bound, and never above the quote.
\<close>

theorem minimum_out_is_ceiling:
  assumes "0 \<le> quoted" and "0 \<le> s" and "s \<le> 10000"
  shows "\<exists>m. minimumOutFromQuote quoted (JNum (of_int s)) = Inr m \<and>
    quoted * (10000 - s) \<le> m * 10000 \<and> (m - 1) * 10000 < quoted * (10000 - s) \<and> 0 \<le> m \<and> m \<le> quoted"
  using assms by (rule minimumOutFromQuote_ceiling)

theorem minimum_out_is_ceiling_witness:
  "minimumOutFromQuote 1001 (JNum (of_int 50)) = Inr 996"
  using minimum_out_is_ceiling [of 1001 50] by auto

text \<open>
  The plan binding of a built trade is what was checked: it exists, names the protected mint on
  the side its adapter kind says and USDC on the other, carries positive amounts, a minimum output
  between zero and the quote, the trade's own canonical token accounts, and the hexadecimal form of
  the commitment the guard carries.
\<close>

theorem trade_binding_is_checked_trade:
  assumes "buildGuardedJupiterTrade encode derive sha256 program payer mint kind e suffix = Inr t"
  shows "\<exists>b. jupiterTradeBindingOf t = Inr b \<and> jb_protectedMint b = mint \<and> jb_counterMint b = USDC_MINT_ADDRESS \<and>
    protectedMintRole b = protectedRoleOf kind \<and> 0 < inAmountRaw b \<and> 0 < quotedOutRaw b \<and>
    0 \<le> minOutRaw b \<and> minOutRaw b \<le> quotedOutRaw b \<and> suffixInstructionCount b \<in> {3, 4} \<and>
    sourceTokenAccount b =
      canonicalAta encode derive (jb_authority b) (jb_sourceMint b) (rt_sourceTokenProgram (gj_route t)) \<and>
    destinationTokenAccount b =
      canonicalAta encode derive (jb_authority b) (jb_destinationMint b) (rt_destinationTokenProgram (gj_route t)) \<and>
    suffixCommitmentHex b = hexOf (gj_commitment t)"
proof -
  note b = build_ok [OF assms]
  note c = checked_route [OF b(5)]
  note sides = routeVerdict_sides [OF c(1)]
  obtain m where m: "minimumOutFromQuote (quotedOutAmount (rt_prefix (gj_route t)))
      (JNum (of_int (slippageBps (rt_prefix (gj_route t))))) = Inr m"
    "0 \<le> m" "m \<le> quotedOutAmount (rt_prefix (gj_route t))"
    using built_minimum [OF assms] by blast
  show ?thesis
    using c(2-4) sides b(2) m by (auto simp: jupiterTradeBindingOf_def Let_def split: if_splits)
qed

theorem trade_binding_is_checked_trade_witness:
  "\<exists>t b. buildGuardedJupiterTrade sample_encode sample_derive sample_hash ''GUARD'' ''AUTH'' ''MINT''
     JUPITER_ROUTE_V2_BUY_USDC sample_expectation sample_suffix = Inr t \<and> jupiterTradeBindingOf t = Inr b \<and>
     jb_protectedMint b = ''MINT''"
proof -
  obtain t where t: "buildGuardedJupiterTrade sample_encode sample_derive sample_hash ''GUARD'' ''AUTH'' ''MINT''
     JUPITER_ROUTE_V2_BUY_USDC sample_expectation sample_suffix = Inr t"
    using sample_trade by blast
  from trade_binding_is_checked_trade [OF t] t show ?thesis by blast
qed

text \<open>
  The builder's final re-check never fires: it returns exactly what the builder without it
  returns, so its second error path is unreachable and a refused trade is refused for the verdict of
  the suffix itself.
\<close>

theorem builder_recheck_redundant:
  "buildGuardedJupiterTrade encode derive sha256 program payer mint kind e suffix =
     build_unchecked encode derive sha256 program payer mint kind e suffix"
  by (rule build_eq_unchecked)

end
