(* ===== verification/Deployment.thy ===== *)
theory Deployment
  imports Guard_Jupiter Js_Text
begin

text \<open>
  Which deployment a guard may name (\<open>packages/guard-client/src/deployment.ts\<close>, \<open>program-id.ts\<close>):
  the reviewed deployments, the upgradeable loader's account layouts, the identity check and the
  attestation digest. The address decoder and SHA-256 are parameters.
\<close>

section \<open>Clusters and reviewed deployments\<close>

definition EQUITY_GUARD_DEVNET_PROGRAM_ID :: address where
  "EQUITY_GUARD_DEVNET_PROGRAM_ID = ''EbzHfaoSHdsWuVdatCmmcBnZi5npJBNXmWhFVeEtNnhT''"

datatype solana_cluster = mainnet_beta | devnet | testnet | unknown_cluster

definition SOLANA_GENESIS_HASH :: "(solana_cluster \<times> string) list" where
  "SOLANA_GENESIS_HASH =
     [(mainnet_beta, ''5eykt4UsFv8P8NJdTREpY1vzqKqZKvdpKuc147dw2N9d''),
      (devnet, ''EtWTRABZaYq6iMfeYKouRu166VU2xqa1wcaWoxPkrZBG''),
      (testnet, ''4uhcVJyU9pJkvQyS88uRDiswHXSCkY3zQawwpjk2NsNY'')]"

definition clusterFromGenesisHash :: "string \<Rightarrow> solana_cluster" where
  "clusterFromGenesisHash genesisHash =
     (case find (\<lambda>(_, hash). hash = genesisHash) SOLANA_GENESIS_HASH of
        None \<Rightarrow> unknown_cluster | Some (cluster, _) \<Rightarrow> cluster)"

definition deploymentForCluster :: "solana_cluster \<Rightarrow> address option" where
  "deploymentForCluster cluster = (if cluster = devnet then Some EQUITY_GUARD_DEVNET_PROGRAM_ID else None)"

record reviewed_guard_deployment =
  rd_cluster :: solana_cluster
  rd_programAddress :: address
  rd_programDataAddress :: address
  elfLength :: nat
  elfSha256 :: string

definition BPF_LOADER_UPGRADEABLE_ADDRESS :: address where
  "BPF_LOADER_UPGRADEABLE_ADDRESS = ''BPFLoaderUpgradeab1e11111111111111111111111''"

definition REVIEWED_GUARD_DEPLOYMENTS :: "reviewed_guard_deployment list" where
  "REVIEWED_GUARD_DEPLOYMENTS =
     [\<lparr>rd_cluster = devnet, rd_programAddress = EQUITY_GUARD_DEVNET_PROGRAM_ID,
       rd_programDataAddress = ''4Zc4TAEYNSXCGUkpD7y7CcEWDS8a9aQBDfYHFu55dPE3'',
       elfLength = 63840,
       elfSha256 = ''d7d59ccd9e96bb3eb3e16893aca638d8e5fdbfaf5032b4b39737ef16a41e4e46''\<rparr>]"

definition findReviewedGuardDeployment :: "address \<Rightarrow> reviewed_guard_deployment option" where
  "findReviewedGuardDeployment program =
     find (\<lambda>deployment. rd_programAddress deployment = program) REVIEWED_GUARD_DEPLOYMENTS"

section \<open>Loader accounts\<close>

record program_account_view =
  executable :: bool
  pa_owner :: string

record loader_account_view = program_account_view +
  la_data :: bytes

datatype identity_failure =
    MISSING | NOT_EXECUTABLE | UNEXPECTED_LOADER | PROGRAM_DATA_MISMATCH | BINARY_MISMATCH
  | MALFORMED_PROGRAM_DATA

definition checkGuardProgramAccount ::
    "('a) program_account_view_scheme option \<Rightarrow> identity_failure + unit" where
  "checkGuardProgramAccount account =
     (case account of
        None \<Rightarrow> Inl MISSING
      | Some a \<Rightarrow> if \<not> executable a then Inl NOT_EXECUTABLE else Inr ())"

definition LOADER_STATE_PROGRAM :: nat where "LOADER_STATE_PROGRAM = 2"
definition LOADER_STATE_PROGRAM_DATA :: nat where "LOADER_STATE_PROGRAM_DATA = 3"
definition PROGRAM_ACCOUNT_LEN :: nat where "PROGRAM_ACCOUNT_LEN = 36"
definition PROGRAMDATA_SLOT_OFFSET :: nat where "PROGRAMDATA_SLOT_OFFSET = 4"
definition PROGRAMDATA_AUTHORITY_OPTION_OFFSET :: nat where "PROGRAMDATA_AUTHORITY_OPTION_OFFSET = 12"
definition PROGRAMDATA_AUTHORITY_OFFSET :: nat where "PROGRAMDATA_AUTHORITY_OFFSET = 13"
definition PROGRAMDATA_HEADER_LEN :: nat where "PROGRAMDATA_HEADER_LEN = 45"
definition OPTION_NONE :: byte where "OPTION_NONE = 0"
definition OPTION_SOME :: byte where "OPTION_SOME = 1"

definition ZERO_AUTHORITY :: address where
  "ZERO_AUTHORITY = ''11111111111111111111111111111111''"

lemmas loader_layout_defs =
  LOADER_STATE_PROGRAM_def LOADER_STATE_PROGRAM_DATA_def PROGRAM_ACCOUNT_LEN_def
  PROGRAMDATA_SLOT_OFFSET_def PROGRAMDATA_AUTHORITY_OPTION_OFFSET_def PROGRAMDATA_AUTHORITY_OFFSET_def
  PROGRAMDATA_HEADER_LEN_def OPTION_NONE_def OPTION_SOME_def

definition u32At :: "bytes \<Rightarrow> nat \<Rightarrow> nat option" where
  "u32At data offset =
     (if length data \<ge> offset + 4 then Some (le_nat (bytes_at offset 4 data)) else None)"

datatype deployment_mutability = IMMUTABLE | NO_USABLE_AUTHORITY | UPGRADEABLE | UNKNOWN

record program_data_header =
  ph_deploymentSlot :: int
  ph_upgradeAuthority :: "address option"
  ph_mutability :: deployment_mutability

definition decodeProgramDataHeader :: "(bytes \<Rightarrow> address) \<Rightarrow> bytes \<Rightarrow> program_data_header option" where
  "decodeProgramDataHeader decodeAddress data =
     (if length data < PROGRAMDATA_HEADER_LEN \<or> u32At data 0 \<noteq> Some LOADER_STATE_PROGRAM_DATA then None
      else
        let deploymentSlot = int (le_nat (bytes_at PROGRAMDATA_SLOT_OFFSET 8 data));
            option = js_index data PROGRAMDATA_AUTHORITY_OPTION_OFFSET
        in if option = Some OPTION_NONE
           then Some \<lparr>ph_deploymentSlot = deploymentSlot, ph_upgradeAuthority = None, ph_mutability = IMMUTABLE\<rparr>
           else if option \<noteq> Some OPTION_SOME then None
           else let authority = decodeAddress (bytes_at PROGRAMDATA_AUTHORITY_OFFSET
                      (PROGRAMDATA_HEADER_LEN - PROGRAMDATA_AUTHORITY_OFFSET) data)
             in Some \<lparr>ph_deploymentSlot = deploymentSlot, ph_upgradeAuthority = Some authority,
                      ph_mutability = (if authority = ZERO_AUTHORITY then NO_USABLE_AUTHORITY else UPGRADEABLE)\<rparr>)"

section \<open>Attestations\<close>

datatype deployment_identity = REVIEWED_BINARY | CALLER_TRUSTED

record guard_deployment_attestation =
  at_programId :: address
  at_programDataAddress :: "address option"
  reviewedElfSha256 :: "string option"
  at_deploymentSlot :: "int option"
  at_upgradeAuthority :: "address option"
  at_mutability :: deployment_mutability
  at_identity :: deployment_identity

fun mutability_string :: "deployment_mutability \<Rightarrow> string" where
  "mutability_string IMMUTABLE = ''IMMUTABLE''"
| "mutability_string NO_USABLE_AUTHORITY = ''NO_USABLE_AUTHORITY''"
| "mutability_string UPGRADEABLE = ''UPGRADEABLE''"
| "mutability_string UNKNOWN = ''UNKNOWN''"

fun identity_string :: "deployment_identity \<Rightarrow> string" where
  "identity_string REVIEWED_BINARY = ''REVIEWED_BINARY''"
| "identity_string CALLER_TRUSTED = ''CALLER_TRUSTED''"

text \<open>\<open>x ?? "-"\<close>.\<close>

definition or_dash :: "string option \<Rightarrow> string" where
  "or_dash x = (case x of None \<Rightarrow> ''-'' | Some s \<Rightarrow> s)"

definition deploymentAttestationDigest :: "guard_deployment_attestation \<Rightarrow> string" where
  "deploymentAttestationDigest a =
     js_join ''|''
       [at_programId a, or_dash (at_programDataAddress a), or_dash (reviewedElfSha256 a),
        or_dash (at_upgradeAuthority a), mutability_string (at_mutability a), identity_string (at_identity a)]"

definition sameGuardDeployment :: "guard_deployment_attestation \<Rightarrow> guard_deployment_attestation \<Rightarrow> bool" where
  "sameGuardDeployment a b = (deploymentAttestationDigest a = deploymentAttestationDigest b)"

definition verifyReviewedGuardDeployment ::
    "(bytes \<Rightarrow> address) \<Rightarrow> (bytes \<Rightarrow> bytes) \<Rightarrow> reviewed_guard_deployment \<Rightarrow> loader_account_view option \<Rightarrow>
       loader_account_view option \<Rightarrow> identity_failure + guard_deployment_attestation" where
  "verifyReviewedGuardDeployment decodeAddress sha256 deployment program programData =
     (case program of
        None \<Rightarrow> bindE (checkGuardProgramAccount program) (\<lambda>_. Inl MISSING)
      | Some p \<Rightarrow>
        if \<not> executable p then bindE (checkGuardProgramAccount program) (\<lambda>_. Inl MISSING)
        else if pa_owner p \<noteq> BPF_LOADER_UPGRADEABLE_ADDRESS \<or> length (la_data p) \<noteq> PROGRAM_ACCOUNT_LEN \<or>
                u32At (la_data p) 0 \<noteq> Some LOADER_STATE_PROGRAM
        then Inl UNEXPECTED_LOADER
        else if decodeAddress (bytes_at 4 (PROGRAM_ACCOUNT_LEN - 4) (la_data p)) \<noteq> rd_programDataAddress deployment
        then Inl PROGRAM_DATA_MISMATCH
        else
          let stop = PROGRAMDATA_HEADER_LEN + elfLength deployment in
          case programData of
            None \<Rightarrow> Inl PROGRAM_DATA_MISMATCH
          | Some d \<Rightarrow>
            if pa_owner d \<noteq> BPF_LOADER_UPGRADEABLE_ADDRESS \<or>
               u32At (la_data d) 0 \<noteq> Some LOADER_STATE_PROGRAM_DATA \<or> length (la_data d) < stop
            then Inl PROGRAM_DATA_MISMATCH
            else if hexOf (sha256 (bytes_at PROGRAMDATA_HEADER_LEN (elfLength deployment) (la_data d)))
                      \<noteq> elfSha256 deployment
            then Inl BINARY_MISMATCH
            else if list_ex (\<lambda>byte. byte \<noteq> 0) (drop stop (la_data d)) then Inl BINARY_MISMATCH
            else (case decodeProgramDataHeader decodeAddress (la_data d) of
                    None \<Rightarrow> Inl MALFORMED_PROGRAM_DATA
                  | Some header \<Rightarrow>
                      Inr \<lparr>at_programId = rd_programAddress deployment,
                           at_programDataAddress = Some (rd_programDataAddress deployment),
                           reviewedElfSha256 = Some (elfSha256 deployment),
                           at_deploymentSlot = Some (ph_deploymentSlot header),
                           at_upgradeAuthority = ph_upgradeAuthority header,
                           at_mutability = ph_mutability header,
                           at_identity = REVIEWED_BINARY\<rparr>))"

definition callerTrustedAttestation :: "address \<Rightarrow> guard_deployment_attestation" where
  "callerTrustedAttestation program =
     \<lparr>at_programId = program, at_programDataAddress = None, reviewedElfSha256 = None,
      at_deploymentSlot = None, at_upgradeAuthority = None, at_mutability = UNKNOWN,
      at_identity = CALLER_TRUSTED\<rparr>"

section \<open>Facts\<close>

lemma mutability_string_inject: "mutability_string a = mutability_string b \<longleftrightarrow> a = b"
  by (cases a; cases b) simp_all

lemma identity_string_inject: "identity_string a = identity_string b \<longleftrightarrow> a = b"
  by (cases a; cases b) simp_all

text \<open>Texts that can stand in a digest: no bar, and not the placeholder.\<close>

definition digest_text :: "string \<Rightarrow> bool" where
  "digest_text s \<longleftrightarrow> CHR ''|'' \<notin> set s \<and> s \<noteq> ''-''"

definition attestation_ok :: "guard_deployment_attestation \<Rightarrow> bool" where
  "attestation_ok a \<longleftrightarrow>
     digest_text (at_programId a) \<and> pred_option digest_text (at_programDataAddress a) \<and>
     pred_option digest_text (reviewedElfSha256 a) \<and> pred_option digest_text (at_upgradeAuthority a)"

lemma or_dash_inject:
  "pred_option digest_text x \<Longrightarrow> pred_option digest_text y \<Longrightarrow> or_dash x = or_dash y \<longleftrightarrow> x = y"
  by (cases x; cases y) (auto simp: or_dash_def digest_text_def)

lemma or_dash_no_bar: "pred_option digest_text x \<Longrightarrow> CHR ''|'' \<notin> set (or_dash x)"
  by (cases x) (auto simp: or_dash_def digest_text_def)

lemma digest_parts_no_bar:
  "attestation_ok a \<Longrightarrow>
   x \<in> {at_programId a, or_dash (at_programDataAddress a), or_dash (reviewedElfSha256 a),
        or_dash (at_upgradeAuthority a), mutability_string (at_mutability a), identity_string (at_identity a)} \<Longrightarrow>
   CHR ''|'' \<notin> set x"
  by (cases "at_mutability a"; cases "at_identity a")
    (auto simp: attestation_ok_def or_dash_no_bar digest_text_def)

lemma sameGuardDeployment_iff:
  assumes "attestation_ok a" and "attestation_ok b"
  shows "sameGuardDeployment a b \<longleftrightarrow> a\<lparr>at_deploymentSlot := None\<rparr> = b\<lparr>at_deploymentSlot := None\<rparr>"
proof -
  let ?p = "\<lambda>a. [at_programId a, or_dash (at_programDataAddress a), or_dash (reviewedElfSha256 a),
        or_dash (at_upgradeAuthority a), mutability_string (at_mutability a), identity_string (at_identity a)]"
  have "sameGuardDeployment a b \<longleftrightarrow> ?p a = ?p b"
    unfolding sameGuardDeployment_def deploymentAttestationDigest_def
    using digest_parts_no_bar [OF assms(1)] digest_parts_no_bar [OF assms(2)]
    by (intro join_inject) auto
  then show ?thesis
    using assms by (cases a; cases b)
      (auto simp: attestation_ok_def or_dash_inject mutability_string_inject identity_string_inject)
qed

text \<open>ProgramData as the loader writes it: tag, slot, optional authority, then the program bytes.\<close>

definition program_data_bytes :: "nat \<Rightarrow> bytes option \<Rightarrow> bytes \<Rightarrow> bytes" where
  "program_data_bytes deploymentSlot authority elf =
     le_bytes 4 3 @ le_bytes 8 deploymentSlot @
     (case authority of None \<Rightarrow> 0 # replicate 32 0 | Some key \<Rightarrow> 1 # key) @ elf"

lemma program_data_parts:
  assumes "pred_option (\<lambda>key. length key = 32) authority"
  shows "u32At (program_data_bytes n authority elf) 0 = Some 3"
    and "bytes_at 4 8 (program_data_bytes n authority elf) = le_bytes 8 n"
    and "js_index (program_data_bytes n authority elf) 12 = Some (case authority of None \<Rightarrow> 0 | Some _ \<Rightarrow> 1)"
    and "authority = Some key \<Longrightarrow> bytes_at 13 32 (program_data_bytes n authority elf) = key"
    and "drop 45 (program_data_bytes n authority elf) = elf"
    and "length (program_data_bytes n authority elf) = 45 + length elf"
proof -
  have t: "le_nat (le_bytes 4 3) = 3" by (simp add: le_nat_le_bytes)
  show "u32At (program_data_bytes n authority elf) 0 = Some 3"
    using t by (simp add: u32At_def program_data_bytes_def bytes_at_def)
  show "bytes_at 4 8 (program_data_bytes n authority elf) = le_bytes 8 n"
    by (simp add: program_data_bytes_def bytes_at_def)
  show "js_index (program_data_bytes n authority elf) 12 = Some (case authority of None \<Rightarrow> 0 | Some _ \<Rightarrow> 1)"
    by (cases authority) (simp_all add: program_data_bytes_def js_index_def nth_append)
  show "authority = Some key \<Longrightarrow> bytes_at 13 32 (program_data_bytes n authority elf) = key"
    using assms by (simp add: program_data_bytes_def bytes_at_def)
  show "drop 45 (program_data_bytes n authority elf) = elf"
    using assms by (cases authority) (simp_all add: program_data_bytes_def)
  show "length (program_data_bytes n authority elf) = 45 + length elf"
    using assms by (cases authority) (simp_all add: program_data_bytes_def)
qed

lemma decode_program_data:
  assumes "pred_option (\<lambda>key. length key = 32) authority" and "n < 2 ^ 64"
  shows "decodeProgramDataHeader decodeAddress (program_data_bytes n authority elf) =
    Some \<lparr>ph_deploymentSlot = int n, ph_upgradeAuthority = map_option decodeAddress authority,
          ph_mutability = (case map_option decodeAddress authority of None \<Rightarrow> IMMUTABLE
            | Some a \<Rightarrow> if a = ZERO_AUTHORITY then NO_USABLE_AUTHORITY else UPGRADEABLE)\<rparr>"
proof -
  note p = program_data_parts [OF assms(1), where n = n and elf = elf]
  have "le_nat (le_bytes 8 n) = n" using assms(2) by (simp add: le_nat_le_bytes)
  then show ?thesis
    using p(1-3,6) p(4) by (cases authority) (simp_all add: decodeProgramDataHeader_def loader_layout_defs Let_def)
qed

lemma verifyReviewed_ok:
  assumes "verifyReviewedGuardDeployment decodeAddress sha256 deployment program programData = Inr a"
  shows "\<exists>p d. program = Some p \<and> programData = Some d \<and> executable p \<and>
    pa_owner p = BPF_LOADER_UPGRADEABLE_ADDRESS \<and> pa_owner d = BPF_LOADER_UPGRADEABLE_ADDRESS \<and>
    decodeAddress (bytes_at 4 32 (la_data p)) = rd_programDataAddress deployment \<and>
    (\<exists>elf n. drop 45 (la_data d) = elf @ replicate n 0 \<and> length elf = elfLength deployment \<and>
       hexOf (sha256 elf) = elfSha256 deployment) \<and>
    at_programId a = rd_programAddress deployment \<and> at_identity a = REVIEWED_BINARY \<and>
    (at_mutability a = IMMUTABLE \<longleftrightarrow> js_index (la_data d) 12 = Some 0)"
proof -
  obtain p where p: "program = Some p" "executable p" "pa_owner p = BPF_LOADER_UPGRADEABLE_ADDRESS"
      "decodeAddress (bytes_at 4 32 (la_data p)) = rd_programDataAddress deployment"
    using assms by (auto simp: verifyReviewedGuardDeployment_def err_simps loader_layout_defs
        split: option.splits if_splits)
  obtain d where d: "programData = Some d"
    using assms p by (auto simp: verifyReviewedGuardDeployment_def Let_def split: option.splits if_splits)
  let ?elf = "bytes_at 45 (elfLength deployment) (la_data d)"
  obtain h where h: "decodeProgramDataHeader decodeAddress (la_data d) = Some h"
      "pa_owner d = BPF_LOADER_UPGRADEABLE_ADDRESS" "45 + elfLength deployment \<le> length (la_data d)"
      "hexOf (sha256 ?elf) = elfSha256 deployment" "\<forall>b \<in> set (drop (45 + elfLength deployment) (la_data d)). b = 0"
      "at_programId a = rd_programAddress deployment" "at_identity a = REVIEWED_BINARY" "at_mutability a = ph_mutability h"
    using assms p d by (auto simp: verifyReviewedGuardDeployment_def Let_def PROGRAMDATA_HEADER_LEN_def list_ex_iff
        split: option.splits if_splits)
  have "drop 45 (la_data d) = ?elf @ replicate (length (la_data d) - (45 + elfLength deployment)) 0"
    using drop_bytes_at [of 45 "la_data d" "elfLength deployment"]
      replicate_eqI [of "drop (45 + elfLength deployment) (la_data d)" _ 0] h(5) by simp
  moreover have "length ?elf = elfLength deployment" using h(3) by simp
  moreover have "ph_mutability h = IMMUTABLE \<longleftrightarrow> js_index (la_data d) 12 = Some 0"
    using h(1) by (auto simp: decodeProgramDataHeader_def loader_layout_defs Let_def split: if_splits)
  ultimately have "\<exists>elf n. drop 45 (la_data d) = elf @ replicate n 0 \<and> length elf = elfLength deployment \<and>
       hexOf (sha256 elf) = elfSha256 deployment"
    and "at_mutability a = IMMUTABLE \<longleftrightarrow> js_index (la_data d) 12 = Some 0"
    using h(4,8) by auto
  with p d h(2,6,7) show ?thesis by (intro exI [of _ p] exI [of _ d]) simp
qed

section \<open>Properties\<close>

text \<open>
  C23. A reviewed identity is exact: the check succeeds only for an executable loader-owned Program
  account that points at the reviewed ProgramData account, whose bytes from offset 45 are
  \<open>elfLength\<close> bytes with the reviewed SHA-256 followed by zeros only; and it reports \<open>IMMUTABLE\<close> only
  when the stored upgrade authority is \<open>None\<close>.
\<close>

theorem reviewed_identity_is_exact:
  assumes "verifyReviewedGuardDeployment decodeAddress sha256 deployment program programData = Inr a"
  shows "\<exists>p d. program = Some p \<and> programData = Some d \<and> executable p \<and>
    pa_owner p = BPF_LOADER_UPGRADEABLE_ADDRESS \<and> pa_owner d = BPF_LOADER_UPGRADEABLE_ADDRESS \<and>
    decodeAddress (bytes_at 4 32 (la_data p)) = rd_programDataAddress deployment \<and>
    (\<exists>elf n. drop 45 (la_data d) = elf @ replicate n 0 \<and> length elf = elfLength deployment \<and>
       hexOf (sha256 elf) = elfSha256 deployment) \<and>
    at_programId a = rd_programAddress deployment \<and> at_identity a = REVIEWED_BINARY \<and>
    (at_mutability a = IMMUTABLE \<longleftrightarrow> js_index (la_data d) 12 = Some 0)"
  using assms by (rule verifyReviewed_ok)

text \<open>A deployment for witnesses, with the empty program and a constant hash.\<close>

definition sample_deployment :: reviewed_guard_deployment where
  "sample_deployment = \<lparr>rd_cluster = devnet, rd_programAddress = ''P'', rd_programDataAddress = ''D'',
     elfLength = 0, elfSha256 = hexOf (replicate 32 1)\<rparr>"

theorem reviewed_identity_is_exact_witness:
  "\<exists>program programData a. verifyReviewedGuardDeployment (\<lambda>_. ''D'') (\<lambda>_. replicate 32 1) sample_deployment
      program programData = Inr a \<and> at_mutability a = IMMUTABLE"
proof -
  let ?p = "Some \<lparr>executable = True, pa_owner = BPF_LOADER_UPGRADEABLE_ADDRESS, la_data = le_bytes 4 2 @ replicate 32 9\<rparr>"
  let ?d = "Some \<lparr>executable = False, pa_owner = BPF_LOADER_UPGRADEABLE_ADDRESS, la_data = program_data_bytes 7 None []\<rparr>"
  have u: "u32At (le_bytes 4 2 @ replicate 32 9) 0 = Some 2"
    by (simp add: u32At_def bytes_at_def le_nat_le_bytes)
  note pd = program_data_parts [of None, where n = 7 and elf = "[]"] decode_program_data [of None 7 "\<lambda>_. ''D''" "[]"]
  have "\<exists>a. verifyReviewedGuardDeployment (\<lambda>_. ''D'') (\<lambda>_. replicate 32 1) sample_deployment ?p ?d = Inr a"
    using pd u by (simp add: verifyReviewedGuardDeployment_def sample_deployment_def loader_layout_defs Let_def)
  then obtain a where a: "verifyReviewedGuardDeployment (\<lambda>_. ''D'') (\<lambda>_. replicate 32 1) sample_deployment ?p ?d = Inr a"
    by blast
  from reviewed_identity_is_exact [OF a] pd(3) have "at_mutability a = IMMUTABLE" by auto
  with a show ?thesis by blast
qed

text \<open>
  Re-verification detects every relevant change: for attestations whose texts contain no bar
  (base58 addresses and hexadecimal hashes do not), the digests agree exactly when the attestations
  agree in every field except the deployment slot.
\<close>

theorem attestation_digest_detects_changes:
  assumes "attestation_ok a" and "attestation_ok b"
  shows "sameGuardDeployment a b \<longleftrightarrow> a\<lparr>at_deploymentSlot := None\<rparr> = b\<lparr>at_deploymentSlot := None\<rparr>"
  using assms by (rule sameGuardDeployment_iff)

theorem attestation_digest_detects_changes_witness:
  "\<not> sameGuardDeployment (callerTrustedAttestation ''P'') (callerTrustedAttestation ''Q'')"
  using attestation_digest_detects_changes [of "callerTrustedAttestation ''P''" "callerTrustedAttestation ''Q''"]
  by (simp add: callerTrustedAttestation_def attestation_ok_def digest_text_def)

text \<open>
  The loader header round-trips: from ProgramData as the loader lays it out, the decoder
  recovers the slot and the authority, and classifies the deployment as \<open>IMMUTABLE\<close> exactly for an
  absent authority, as \<open>NO_USABLE_AUTHORITY\<close> exactly for the all-zero key's address.
\<close>

theorem program_data_header_roundtrip:
  assumes "pred_option (\<lambda>key. length key = 32) authority" and "n < 2 ^ 64"
  shows "decodeProgramDataHeader decodeAddress (program_data_bytes n authority elf) =
    Some \<lparr>ph_deploymentSlot = int n, ph_upgradeAuthority = map_option decodeAddress authority,
          ph_mutability = (case map_option decodeAddress authority of None \<Rightarrow> IMMUTABLE
            | Some a \<Rightarrow> if a = ZERO_AUTHORITY then NO_USABLE_AUTHORITY else UPGRADEABLE)\<rparr>"
  using assms by (rule decode_program_data)

theorem program_data_header_roundtrip_witness:
  "decodeProgramDataHeader (\<lambda>_. ''K'') (program_data_bytes 5 (Some (replicate 32 4)) [1, 2]) =
    Some \<lparr>ph_deploymentSlot = 5, ph_upgradeAuthority = Some ''K'', ph_mutability = UPGRADEABLE\<rparr>"
  using program_data_header_roundtrip [of "Some (replicate 32 4)" 5 "\<lambda>_. ''K''" "[1, 2]"]
  by (simp add: ZERO_AUTHORITY_def)

end
