(* ===== verification/Jupiter_Build.thy ===== *)
theory Jupiter_Build
  imports Deployment Js_Text
begin

text \<open>
  The Jupiter \<open>/build\<close> client (\<open>packages/jupiter/src/build-client.ts\<close>): the request it accepts and
  the validation of the response. A response body is a JSON value; an object is its properties in
  order, with distinct keys. \<open>isAddress\<close> of \<open>@solana/kit\<close> and the HTTP exchange are parameters, and
  the rendering of numbers in the query string is not modelled.
\<close>

section \<open>Errors\<close>

datatype composition_error_code =
    TRANSACTION_TOO_LARGE | COMMITMENT_MISMATCH | INVALID_COMPUTE_UNIT_LIMIT
  | MISSING_COMPUTE_UNIT_PRICE | UNRESOLVABLE_TRANSACTION

text \<open>The reasons a build is refused for, as values instead of texts.\<close>

datatype build_refusal =
    CleanupUnsupported | OtherUnsupported nat | TipUnsupported | PriceCount nat
  | UnsupportedComputeBudget | SeveralLimits | LimitDiffers int | SetupCount nat | UnknownSetup string
  | NotJupiterProgram string | NotRouteV2 | SwapModeUnsupported string | WrongPair | NotTheTaker
  | InAmountDiffers | OutAmountDiffers | SlippageDiffers | ThresholdDiffers

text \<open>
  What this package throws: its own errors, a guard client error, or an error of \<open>@solana/kit\<close> on a
  text that is not an address or not base64.
\<close>

datatype jp_exn =
    JupiterConfigError
  | JupiterApiError "int option"
  | CompositionError composition_error_code
  | UnsupportedJupiterBuildError "build_refusal list"
  | GuardError js_exn
  | KitError

definition lift_guard :: "js_exn + 'a \<Rightarrow> jp_exn + 'a" where
  "lift_guard r = (case r of Inl e \<Rightarrow> Inl (GuardError e) | Inr x \<Rightarrow> Inr x)"

lemma lift_guard_simps [simp, err_simps]:
  "lift_guard (Inl e) = Inl (GuardError e)" "lift_guard (Inr x) = Inr x"
  by (simp_all add: lift_guard_def)

lemma lift_guard_eq [err_simps]:
  "lift_guard r = Inr x \<longleftrightarrow> r = Inr x" "lift_guard r = Inl e \<longleftrightarrow> (\<exists>e'. r = Inl e' \<and> e = GuardError e')"
  by (auto simp: lift_guard_def split: sum.splits)

section \<open>Data\<close>

record build_request =
  bq_inputMint :: string
  bq_outputMint :: string
  bq_amount :: int
  bq_taker :: string
  bq_slippageBps :: js_number
  bq_maxAccounts :: "js_number option"

record api_account_meta =
  aa_pubkey :: string
  aa_isSigner :: bool
  aa_isWritable :: bool

record api_instruction =
  ai_programId :: string
  ai_accounts :: "api_account_meta list"
  ai_data :: string

record swap_info =
  si_ammKey :: string
  si_label :: string
  si_inputMint :: string
  si_outputMint :: string
  si_inAmount :: string
  si_outAmount :: string

record route_plan_step =
  rp_percent :: js_number
  rp_bps :: "js_number option"
  rp_swapInfo :: swap_info

record build_response =
  br_inputMint :: string
  br_outputMint :: string
  br_inAmount :: string
  br_outAmount :: string
  br_otherAmountThreshold :: string
  br_swapMode :: string
  br_slippageBps :: js_number
  br_routePlan :: "route_plan_step list"
  br_computeBudgetInstructions :: "api_instruction list"
  br_setupInstructions :: "api_instruction list"
  br_swapInstruction :: api_instruction
  br_cleanupInstruction :: "api_instruction option"
  br_otherInstructions :: "api_instruction list"
  br_tipInstruction :: "api_instruction option"
  br_addressesByLookupTableAddress :: "(string \<times> string list) list"
  br_blockhash :: "nat list"
  br_lastValidBlockHeight :: js_number

section \<open>The request\<close>

text \<open>A query parameter before it is rendered.\<close>

datatype url_value = UText string | UBigInt int | UNumber js_number

type_synonym request_url = "string \<times> (string \<times> url_value) list"

definition buildRequestUrl :: "(string \<Rightarrow> bool) \<Rightarrow> build_request \<Rightarrow> string \<Rightarrow> jp_exn + request_url" where
  "buildRequestUrl isAddress request baseUrl =
     (if \<not> isAddress (bq_inputMint request) \<or> \<not> isAddress (bq_outputMint request) \<or> \<not> isAddress (bq_taker request)
      then Inl JupiterConfigError
      else if bq_amount request \<le> 0 then Inl JupiterConfigError
      else case js_int (bq_slippageBps request) of
        None \<Rightarrow> Inl JupiterConfigError
      | Some s \<Rightarrow>
        if s < 0 then Inl JupiterConfigError
        else
          let params = [(''inputMint'', UText (bq_inputMint request)), (''outputMint'', UText (bq_outputMint request)),
                (''amount'', UBigInt (bq_amount request)), (''taker'', UText (bq_taker request)),
                (''slippageBps'', UNumber (bq_slippageBps request))]
          in case bq_maxAccounts request of
               None \<Rightarrow> Inr (baseUrl @ ''/swap/v2/build'', params)
             | Some m \<Rightarrow>
                 if \<not> js_int_in 1 64 m then Inl JupiterConfigError
                 else Inr (baseUrl @ ''/swap/v2/build'', params @ [(''maxAccounts'', UNumber m)]))"

definition readJupiterApiKey :: "string option \<Rightarrow> jp_exn + string" where
  "readJupiterApiKey key =
     (case key of None \<Rightarrow> Inl JupiterConfigError
      | Some k \<Rightarrow> if k = '''' then Inl JupiterConfigError else Inr k)"

section \<open>Validation of values\<close>

abbreviation contractError :: jp_exn where
  "contractError \<equiv> JupiterApiError None"

fun asRecord :: "js_value \<Rightarrow> jp_exn + (string \<times> js_value) list" where
  "asRecord (JObject props) = Inr props"
| "asRecord _ = Inl contractError"

fun asArray :: "js_value \<Rightarrow> jp_exn + js_value list" where
  "asArray (JArray xs) = Inr xs"
| "asArray _ = Inl contractError"

fun asString :: "js_value \<Rightarrow> jp_exn + string" where
  "asString (JString s) = Inr s"
| "asString _ = Inl contractError"

fun asNumber :: "js_value \<Rightarrow> jp_exn + js_number" where
  "asNumber (JNumber x) = (if js_finite x then Inr x else Inl contractError)"
| "asNumber _ = Inl contractError"

definition asIntegerString :: "js_value \<Rightarrow> jp_exn + string" where
  "asIntegerString v = bindE (asString v) (\<lambda>s. if \<not> all_digits s then Inl contractError else Inr s)"

definition asAddress :: "(string \<Rightarrow> bool) \<Rightarrow> js_value \<Rightarrow> jp_exn + string" where
  "asAddress isAddress v = bindE (asString v) (\<lambda>s. if \<not> isAddress s then Inl contractError else Inr s)"

definition nullish :: "js_value \<Rightarrow> bool" where
  "nullish v = (v = JUndefined \<or> v = JNull)"

definition parseMeta :: "(string \<Rightarrow> bool) \<Rightarrow> js_value \<Rightarrow> jp_exn + api_account_meta" where
  "parseMeta isAddress v =
     bindE (asRecord v) (\<lambda>m.
       case (js_get m ''isSigner'', js_get m ''isWritable'') of
         (JBool signer, JBool writable) \<Rightarrow>
           bindE (asAddress isAddress (js_get m ''pubkey'')) (\<lambda>key.
             Inr \<lparr>aa_pubkey = key, aa_isSigner = signer, aa_isWritable = writable\<rparr>)
       | _ \<Rightarrow> Inl contractError)"

definition parseInstruction :: "(string \<Rightarrow> bool) \<Rightarrow> js_value \<Rightarrow> jp_exn + api_instruction" where
  "parseInstruction isAddress v =
     bindE (asRecord v) (\<lambda>i.
     bindE (asAddress isAddress (js_get i ''programId'')) (\<lambda>program.
     bindE (asArray (js_get i ''accounts'')) (\<lambda>metas.
     bindE (mapE (parseMeta isAddress) metas) (\<lambda>accounts.
     bindE (asString (js_get i ''data'')) (\<lambda>data.
       Inr \<lparr>ai_programId = program, ai_accounts = accounts, ai_data = data\<rparr>)))))"

definition parseRouteStep :: "(string \<Rightarrow> bool) \<Rightarrow> js_value \<Rightarrow> jp_exn + route_plan_step" where
  "parseRouteStep isAddress v =
     bindE (asRecord v) (\<lambda>step.
     bindE (asRecord (js_get step ''swapInfo'')) (\<lambda>info.
     bindE (asNumber (js_get step ''percent'')) (\<lambda>percent.
     bindE (if nullish (js_get step ''bps'') then Inr None
            else bindE (asNumber (js_get step ''bps'')) (\<lambda>b. Inr (Some b))) (\<lambda>bps.
     bindE (asAddress isAddress (js_get info ''ammKey'')) (\<lambda>ammKey.
     bindE (asString (js_get info ''label'')) (\<lambda>label.
     bindE (asAddress isAddress (js_get info ''inputMint'')) (\<lambda>inputMint.
     bindE (asAddress isAddress (js_get info ''outputMint'')) (\<lambda>outputMint.
     bindE (asIntegerString (js_get info ''inAmount'')) (\<lambda>inAmt.
     bindE (asIntegerString (js_get info ''outAmount'')) (\<lambda>outAmt.
       Inr \<lparr>rp_percent = percent, rp_bps = bps,
            rp_swapInfo = \<lparr>si_ammKey = ammKey, si_label = label, si_inputMint = inputMint,
              si_outputMint = outputMint, si_inAmount = inAmt, si_outAmount = outAmt\<rparr>\<rparr>))))))))))"

definition parseOptionalInstruction :: "(string \<Rightarrow> bool) \<Rightarrow> js_value \<Rightarrow> jp_exn + api_instruction option" where
  "parseOptionalInstruction isAddress v =
     (if nullish v then Inr None else bindE (parseInstruction isAddress v) (\<lambda>i. Inr (Some i)))"

definition parseInstructions :: "(string \<Rightarrow> bool) \<Rightarrow> js_value \<Rightarrow> jp_exn + api_instruction list" where
  "parseInstructions isAddress v = bindE (asArray v) (mapE (parseInstruction isAddress))"

text \<open>One byte of the blockhash array.\<close>

definition byte_of_value :: "js_value \<Rightarrow> jp_exn + nat" where
  "byte_of_value v =
     (case v of
        JNumber x \<Rightarrow> (case js_int x of None \<Rightarrow> Inl contractError
          | Some i \<Rightarrow> if 0 \<le> i \<and> i \<le> 255 then Inr (nat i) else Inl contractError)
      | _ \<Rightarrow> Inl contractError)"

definition parseLookupTable :: "(string \<Rightarrow> bool) \<Rightarrow> string \<times> js_value \<Rightarrow> jp_exn + (string \<times> string list)" where
  "parseLookupTable isAddress entry =
     bindE (asAddress isAddress (JString (fst entry))) (\<lambda>table.
     bindE (asArray (snd entry)) (\<lambda>values.
     bindE (mapE (asAddress isAddress) values) (\<lambda>addresses. Inr (table, addresses))))"

definition parseBuildResponse :: "(string \<Rightarrow> bool) \<Rightarrow> js_value \<Rightarrow> jp_exn + build_response" where
  "parseBuildResponse isAddress v =
     bindE (asRecord v) (\<lambda>r.
     bindE (asRecord (js_get r ''blockhashWithMetadata'')) (\<lambda>blockhash.
     bindE (asArray (js_get blockhash ''blockhash'')) (\<lambda>blockhashValues.
     bindE (if length blockhashValues \<noteq> 32 then Inl contractError else mapE byte_of_value blockhashValues) (\<lambda>bytes.
     bindE (asRecord (if nullish (js_get r ''addressesByLookupTableAddress'') then JObject []
                      else js_get r ''addressesByLookupTableAddress'')) (\<lambda>alts.
     bindE (mapE (parseLookupTable isAddress) alts) (\<lambda>tables.
     bindE (asAddress isAddress (js_get r ''inputMint'')) (\<lambda>inputMint.
     bindE (asAddress isAddress (js_get r ''outputMint'')) (\<lambda>outputMint.
     bindE (asIntegerString (js_get r ''inAmount'')) (\<lambda>inAmt.
     bindE (asIntegerString (js_get r ''outAmount'')) (\<lambda>outAmt.
     bindE (asIntegerString (js_get r ''otherAmountThreshold'')) (\<lambda>threshold.
     bindE (asString (js_get r ''swapMode'')) (\<lambda>swapMode.
     bindE (asNumber (js_get r ''slippageBps'')) (\<lambda>slippage.
     bindE (bindE (asArray (js_get r ''routePlan'')) (mapE (parseRouteStep isAddress))) (\<lambda>routePlan.
     bindE (parseInstructions isAddress (js_get r ''computeBudgetInstructions'')) (\<lambda>budget.
     bindE (parseInstructions isAddress (js_get r ''setupInstructions'')) (\<lambda>setups.
     bindE (parseInstruction isAddress (js_get r ''swapInstruction'')) (\<lambda>swap.
     bindE (parseOptionalInstruction isAddress (js_get r ''cleanupInstruction'')) (\<lambda>cleanup.
     bindE (parseInstructions isAddress (if nullish (js_get r ''otherInstructions'') then JArray []
                                         else js_get r ''otherInstructions'')) (\<lambda>others.
     bindE (parseOptionalInstruction isAddress (js_get r ''tipInstruction'')) (\<lambda>tip.
     bindE (asNumber (js_get blockhash ''lastValidBlockHeight'')) (\<lambda>height.
       Inr \<lparr>br_inputMint = inputMint, br_outputMint = outputMint, br_inAmount = inAmt, br_outAmount = outAmt,
            br_otherAmountThreshold = threshold, br_swapMode = swapMode, br_slippageBps = slippage,
            br_routePlan = routePlan, br_computeBudgetInstructions = budget, br_setupInstructions = setups,
            br_swapInstruction = swap, br_cleanupInstruction = cleanup, br_otherInstructions = others,
            br_tipInstruction = tip, br_addressesByLookupTableAddress = tables, br_blockhash = bytes,
            br_lastValidBlockHeight = height\<rparr>)))))))))))))))))))))"

section \<open>The exchange\<close>

text \<open>
  What \<open>fetch\<close> gives: no response (network failure or timeout), or a status, whether it is ok, and
  what \<open>JSON.parse\<close> makes of the body (\<open>None\<close> when it throws).
\<close>

record http_response =
  http_status :: int
  http_ok :: bool
  http_json :: "js_value option"

definition fetchBuild ::
    "(string \<Rightarrow> bool) \<Rightarrow> (request_url \<Rightarrow> string \<Rightarrow> http_response option) \<Rightarrow> build_request \<Rightarrow> string \<Rightarrow>
       string option \<Rightarrow> jp_exn + build_response" where
  "fetchBuild isAddress fetchImpl request apiKey baseUrl =
     bindE (buildRequestUrl isAddress request
        (case baseUrl of None \<Rightarrow> ''https://api.jup.ag'' | Some b \<Rightarrow> b)) (\<lambda>url.
       case fetchImpl url apiKey of
         None \<Rightarrow> Inl (JupiterApiError None)
       | Some response \<Rightarrow>
           if \<not> http_ok response then Inl (JupiterApiError (Some (http_status response)))
           else (case http_json response of
                   None \<Rightarrow> Inl (JupiterApiError (Some (http_status response)))
                 | Some json \<Rightarrow> parseBuildResponse isAddress json))"

section \<open>Facts\<close>

text \<open>Every failure of the validators is the contract error.\<close>

named_theorems contract_intros

definition contractual :: "jp_exn + 'a \<Rightarrow> bool" where
  "contractual r \<longleftrightarrow> (\<forall>e. r = Inl e \<longrightarrow> e = contractError)"

lemma contractual_simps [simp]: "contractual (Inr x)" "contractual (Inl contractError)"
  by (simp_all add: contractual_def)

lemma contractual_bindE [contract_intros]:
  "contractual m \<Longrightarrow> (\<And>x. contractual (f x)) \<Longrightarrow> contractual (bindE m f)"
  by (cases m) (simp_all add: contractual_def)

lemma contractual_mapE [contract_intros]: "(\<And>x. contractual (f x)) \<Longrightarrow> contractual (mapE f xs)"
  by (induction xs) (simp_all add: contractual_bindE)

lemma contractual_if [contract_intros]: "contractual a \<Longrightarrow> contractual b \<Longrightarrow> contractual (if c then a else b)"
  by simp

lemma contractual_values [contract_intros]:
  "contractual (asRecord v)" "contractual (asArray v)" "contractual (asString v)" "contractual (asNumber v)"
  by (cases v; simp)+

lemma contractual_texts [contract_intros]:
  "contractual (asIntegerString v)" "contractual (asAddress isAddress v)"
  unfolding asIntegerString_def asAddress_def by (intro contract_intros; simp)+

lemma contractual_byte [contract_intros]: "contractual (byte_of_value v)"
  by (cases v) (simp_all add: byte_of_value_def split: option.split)

lemma contractual_meta [contract_intros]: "contractual (parseMeta isAddress v)"
  unfolding parseMeta_def
  by (intro contract_intros) (auto split: js_value.split intro!: contract_intros)

lemma contractual_instruction [contract_intros]: "contractual (parseInstruction isAddress v)"
  unfolding parseInstruction_def by (intro contract_intros) simp

lemma contractual_step [contract_intros]: "contractual (parseRouteStep isAddress v)"
  unfolding parseRouteStep_def by (intro contract_intros) simp_all

lemma contractual_instructions [contract_intros]:
  "contractual (parseInstructions isAddress v)" "contractual (parseOptionalInstruction isAddress v)"
  unfolding parseInstructions_def parseOptionalInstruction_def by (intro contract_intros; simp)+

lemma contractual_table [contract_intros]: "contractual (parseLookupTable isAddress entry)"
  unfolding parseLookupTable_def by (intro contract_intros) simp

lemma contractual_response: "contractual (parseBuildResponse isAddress v)"
  unfolding parseBuildResponse_def by (intro contract_intros) simp_all

text \<open>What an accepted response guarantees.\<close>

definition api_instruction_ok :: "(string \<Rightarrow> bool) \<Rightarrow> api_instruction \<Rightarrow> bool" where
  "api_instruction_ok isAddress i \<longleftrightarrow>
     isAddress (ai_programId i) \<and> (\<forall>m \<in> set (ai_accounts i). isAddress (aa_pubkey m))"

definition build_response_ok :: "(string \<Rightarrow> bool) \<Rightarrow> build_response \<Rightarrow> bool" where
  "build_response_ok isAddress b \<longleftrightarrow>
     isAddress (br_inputMint b) \<and> isAddress (br_outputMint b) \<and>
     all_digits (br_inAmount b) \<and> all_digits (br_outAmount b) \<and> all_digits (br_otherAmountThreshold b) \<and>
     (\<forall>i \<in> set (br_computeBudgetInstructions b) \<union> set (br_setupInstructions b) \<union> {br_swapInstruction b} \<union>
          set (br_otherInstructions b) \<union> set_option (br_cleanupInstruction b) \<union> set_option (br_tipInstruction b).
        api_instruction_ok isAddress i) \<and>
     (\<forall>t \<in> set (br_addressesByLookupTableAddress b). isAddress (fst t) \<and> (\<forall>a \<in> set (snd t). isAddress a)) \<and>
     length (br_blockhash b) = 32 \<and> (\<forall>x \<in> set (br_blockhash b). x \<le> 255) \<and>
     js_finite (br_slippageBps b) \<and> js_finite (br_lastValidBlockHeight b)"

lemma mapE_all:
  "mapE f xs = Inr ys \<Longrightarrow> (\<And>x y. f x = Inr y \<Longrightarrow> P y) \<Longrightarrow> \<forall>y \<in> set ys. P y"
  by (induction xs arbitrary: ys) (auto simp: err_simps)

lemma asAddress_ok: "asAddress isAddress v = Inr s \<Longrightarrow> isAddress s"
  by (auto simp: asAddress_def err_simps split: if_splits)

lemma asIntegerString_ok: "asIntegerString v = Inr s \<Longrightarrow> all_digits s"
  by (auto simp: asIntegerString_def err_simps split: if_splits)

lemma asNumber_ok: "asNumber v = Inr x \<Longrightarrow> js_finite x"
  by (cases v) (auto split: if_splits)

lemma parseMeta_ok:
  assumes "parseMeta isAddress v = Inr m"
  shows "isAddress (aa_pubkey m)"
proof -
  obtain x where x: "asRecord v = Inr x" using assms by (auto simp: parseMeta_def err_simps)
  with assms show ?thesis
    by (cases "js_get x ''isSigner''"; cases "js_get x ''isWritable''")
      (auto simp: parseMeta_def err_simps dest: asAddress_ok)
qed

lemma parseInstruction_ok: "parseInstruction isAddress v = Inr i \<Longrightarrow> api_instruction_ok isAddress i"
  by (auto simp: parseInstruction_def err_simps api_instruction_ok_def
      dest!: asAddress_ok mapE_all [where P = "\<lambda>m. isAddress (aa_pubkey m)"] intro: parseMeta_ok)

lemma parseInstructions_ok:
  "parseInstructions isAddress v = Inr is \<Longrightarrow> \<forall>i \<in> set is. api_instruction_ok isAddress i"
  by (auto simp: parseInstructions_def err_simps dest!: mapE_all [where P = "api_instruction_ok isAddress"]
      intro: parseInstruction_ok)

lemma parseOptionalInstruction_ok:
  "parseOptionalInstruction isAddress v = Inr x \<Longrightarrow> \<forall>i \<in> set_option x. api_instruction_ok isAddress i"
  by (auto simp: parseOptionalInstruction_def err_simps dest: parseInstruction_ok split: if_splits)

lemma parseLookupTable_ok:
  "parseLookupTable isAddress entry = Inr t \<Longrightarrow> isAddress (fst t) \<and> (\<forall>a \<in> set (snd t). isAddress a)"
  by (auto simp: parseLookupTable_def err_simps dest!: asAddress_ok mapE_all [where P = isAddress]
      intro: asAddress_ok)

lemma byte_of_value_ok: "byte_of_value v = Inr n \<Longrightarrow> n \<le> 255"
  by (auto simp: byte_of_value_def split: js_value.splits option.splits if_splits)

text \<open>A chain of validators establishes what its steps establish.\<close>

definition ensures :: "('a \<Rightarrow> bool) \<Rightarrow> jp_exn + 'a \<Rightarrow> bool" where
  "ensures P r \<longleftrightarrow> (\<forall>x. r = Inr x \<longrightarrow> P x)"

lemma ensures_bindE: "ensures Q m \<Longrightarrow> (\<And>x. Q x \<Longrightarrow> ensures P (f x)) \<Longrightarrow> ensures P (bindE m f)"
  by (auto simp: ensures_def err_simps)

lemma ensures_any: "ensures (\<lambda>_. True) m"
  by (simp add: ensures_def)

lemma ensures_validators:
  "ensures isAddress (asAddress isAddress v)" "ensures all_digits (asIntegerString v)"
  "ensures js_finite (asNumber v)" "ensures (api_instruction_ok isAddress) (parseInstruction isAddress v)"
  "ensures (\<lambda>is. \<forall>i \<in> set is. api_instruction_ok isAddress i) (parseInstructions isAddress v)"
  "ensures (\<lambda>x. \<forall>i \<in> set_option x. api_instruction_ok isAddress i) (parseOptionalInstruction isAddress v)"
  by (simp_all add: ensures_def asAddress_ok asIntegerString_ok asNumber_ok parseInstruction_ok
      parseInstructions_ok parseOptionalInstruction_ok)

lemma ensures_tables:
  "ensures (\<lambda>ts. \<forall>t \<in> set ts. isAddress (fst t) \<and> (\<forall>a \<in> set (snd t). isAddress a))
     (mapE (parseLookupTable isAddress) es)"
  unfolding ensures_def
proof (intro allI impI)
  fix ts assume "mapE (parseLookupTable isAddress) es = Inr ts"
  then show "\<forall>t \<in> set ts. isAddress (fst t) \<and> (\<forall>a \<in> set (snd t). isAddress a)"
    by (rule mapE_all) (rule parseLookupTable_ok)
qed

lemma ensures_blockhash:
  "ensures (\<lambda>ns. length ns = 32 \<and> (\<forall>x \<in> set ns. x \<le> 255))
     (if length vs \<noteq> 32 then Inl contractError else mapE byte_of_value vs)"
proof (cases "length vs = 32")
  case True
  have "length ns = 32 \<and> (\<forall>x \<in> set ns. x \<le> 255)" if "mapE byte_of_value vs = Inr ns" for ns
    using mapE_eq_Inr_length [OF that] mapE_all [OF that, of "\<lambda>n. n \<le> 255"] byte_of_value_ok True by simp
  with True show ?thesis by (simp add: ensures_def)
qed (simp add: ensures_def)

lemma parseBuildResponse_ok: "ensures (build_response_ok isAddress) (parseBuildResponse isAddress v)"
  unfolding parseBuildResponse_def
  apply (rule ensures_bindE, rule ensures_any)
  apply (rule ensures_bindE, rule ensures_any)
  apply (rule ensures_bindE, rule ensures_any)
  apply (rule ensures_bindE, rule ensures_blockhash)
  apply (rule ensures_bindE, rule ensures_any)
  apply (rule ensures_bindE, rule ensures_tables)
  apply (rule ensures_bindE, rule ensures_validators ensures_any)+
  apply (simp add: ensures_def build_response_ok_def ball_Un)
  done

section \<open>Properties\<close>


end
