(* ===== verification/Jupiter_Compose.thy ===== *)
theory Jupiter_Compose
  imports Jupiter_Builder Jupiter_Build
begin

text \<open>
  Composition of a guard with a Jupiter build into one transaction
  (\<open>packages/jupiter/src/compose.ts\<close>): the supported build, the normalized suffix, the compiled
  transaction's resolution and the final comparison. The message compiler, the wire decoder and the
  base64 encoder of \<open>@solana/kit\<close> are parameters.
\<close>

section \<open>compose.ts: building blocks\<close>

definition MAX_TRANSACTION_BYTES :: nat where "MAX_TRANSACTION_BYTES = 1232"

text \<open>\<open>address(text)\<close> and \<open>getBase64Encoder().encode(text)\<close>: both throw on other texts.\<close>

definition kit_address :: "(string \<Rightarrow> bool) \<Rightarrow> string \<Rightarrow> jp_exn + address" where
  "kit_address isAddress s = (if isAddress s then Inr s else Inl KitError)"

definition kit_base64 :: "(string \<Rightarrow> bytes option) \<Rightarrow> string \<Rightarrow> jp_exn + bytes" where
  "kit_base64 base64 s = require KitError (base64 s)"

definition roleOf :: "api_account_meta \<Rightarrow> account_role" where
  "roleOf meta =
     (if aa_isSigner meta then if aa_isWritable meta then WRITABLE_SIGNER else READONLY_SIGNER
      else if aa_isWritable meta then WRITABLE else READONLY)"

definition toKitInstruction ::
    "(string \<Rightarrow> bool) \<Rightarrow> (string \<Rightarrow> bytes option) \<Rightarrow> api_instruction \<Rightarrow> jp_exn + instruction" where
  "toKitInstruction isAddress base64 api =
     bindE (kit_address isAddress (ai_programId api)) (\<lambda>program.
     bindE (mapE (\<lambda>meta. bindE (kit_address isAddress (aa_pubkey meta)) (\<lambda>key.
         Inr \<lparr>am_address = key, am_role = roleOf meta\<rparr>)) (ai_accounts api)) (\<lambda>metas.
     bindE (kit_base64 base64 (ai_data api)) (\<lambda>data.
       Inr \<lparr>programAddress = program, ix_accounts = Some metas, ix_data = Some data\<rparr>)))"

definition getSetComputeUnitLimitInstruction :: "js_number \<Rightarrow> jp_exn + instruction" where
  "getSetComputeUnitLimitInstruction units =
     (if \<not> js_int_in 0 0xffffffff units then Inl (CompositionError INVALID_COMPUTE_UNIT_LIMIT)
      else Inr \<lparr>programAddress = COMPUTE_BUDGET_PROGRAM_ADDRESS, ix_accounts = Some [],
                ix_data = Some (fst SET_COMPUTE_UNIT_LIMIT # u32_bytes_of_number units)\<rparr>)"

definition isShape :: "instruction \<Rightarrow> budget_shape \<Rightarrow> bool" where
  "isShape i shape =
     (programAddress i = COMPUTE_BUDGET_PROGRAM_ADDRESS \<and> accounts_of i = [] \<and>
      (case ix_data i of None \<Rightarrow> False
       | Some data \<Rightarrow> length data = snd shape \<and> js_index data 0 = Some (fst shape)))"

record jupiter_trade_request =
  tr_adapterKind :: int
  tr_protectedMint :: address
  tr_taker :: address
  tr_computeUnitLimit :: js_number

section \<open>compose.ts: the supported build\<close>

definition budget_reasons :: "instruction list \<Rightarrow> jupiter_trade_request \<Rightarrow> build_refusal list" where
  "budget_reasons budget request =
     (let prices = length (filter (\<lambda>i. isShape i SET_COMPUTE_UNIT_PRICE) budget);
          limits = filter (\<lambda>i. isShape i SET_COMPUTE_UNIT_LIMIT) budget
      in (if prices \<noteq> 1 then [PriceCount prices] else []) @
         (if length budget \<noteq> prices + length limits then [UnsupportedComputeBudget] else []) @
         (if length limits > 1 then [SeveralLimits] else []) @
         concat (map (\<lambda>limit.
             let units = int (le_nat (bytes_at 1 4 (data_of limit)))
             in if Some units \<noteq> js_int (tr_computeUnitLimit request) then [LimitDiffers units] else []) limits))"

definition setup_reasons ::
    "(string \<Rightarrow> bytes option) \<Rightarrow> api_instruction list \<Rightarrow> jp_exn + build_refusal list" where
  "setup_reasons base64 setups =
     bindE (mapE (\<lambda>s. bindE (kit_base64 base64 (ai_data s)) (\<lambda>data.
         Inr (if ai_programId s \<noteq> ASSOCIATED_TOKEN_PROGRAM_ADDRESS \<or> length data \<noteq> 1 \<or> js_index data 0 \<noteq> Some 1
              then [UnknownSetup (ai_programId s)] else []))) setups) (\<lambda>rs.
       Inr ((if length setups > 1 then [SetupCount (length setups)] else []) @ concat rs))"

text \<open>The comparison of the reported quote with the encoded trade; the minimum may throw.\<close>

definition quote_reasons :: "build_response \<Rightarrow> route_v2_prefix \<Rightarrow> jp_exn + build_refusal list" where
  "quote_reasons build prefix =
     (let amounts =
            (if inAmount prefix \<noteq> int (nat_of_digits (br_inAmount build)) then [InAmountDiffers] else []) @
            (if quotedOutAmount prefix \<noteq> int (nat_of_digits (br_outAmount build)) then [OutAmountDiffers] else [])
      in if js_int (br_slippageBps build) \<noteq> Some (slippageBps prefix) then Inr (amounts @ [SlippageDiffers])
         else bindE (lift_guard (minimumOutFromQuote (quotedOutAmount prefix) (JNum (of_int (slippageBps prefix)))))
           (\<lambda>minOut.
             Inr (amounts @ (if minOut \<noteq> int (nat_of_digits (br_otherAmountThreshold build))
                             then [ThresholdDiffers] else []))))"

definition assertSupportedJupiterBuild ::
    "(string \<Rightarrow> bool) \<Rightarrow> (string \<Rightarrow> bytes option) \<Rightarrow> build_response \<Rightarrow> ('a) jupiter_trade_request_scheme \<Rightarrow>
       jp_exn + unit" where
  "assertSupportedJupiterBuild isAddress base64 build request =
     bindE (mapE (toKitInstruction isAddress base64) (br_computeBudgetInstructions build)) (\<lambda>budget.
     bindE (setup_reasons base64 (br_setupInstructions build)) (\<lambda>setupReasons.
     bindE (kit_base64 base64 (ai_data (br_swapInstruction build))) (\<lambda>swapData.
     let prefix = decodeRouteV2Prefix swapData;
         swap = br_swapInstruction build;
         buy = tr_adapterKind request = JUPITER_ROUTE_V2_BUY_USDC;
         (expectedInput, expectedOutput) =
           (if buy then (USDC_MINT_ADDRESS, tr_protectedMint request) else (tr_protectedMint request, USDC_MINT_ADDRESS));
         reasons =
           (case br_cleanupInstruction build of None \<Rightarrow> [] | Some _ \<Rightarrow> [CleanupUnsupported]) @
           (if br_otherInstructions build \<noteq> [] then [OtherUnsupported (length (br_otherInstructions build))] else []) @
           (case br_tipInstruction build of None \<Rightarrow> [] | Some _ \<Rightarrow> [TipUnsupported]) @
           budget_reasons budget (jupiter_trade_request.truncate request) @ setupReasons @
           (if ai_programId swap \<noteq> JUPITER_V6_PROGRAM_ADDRESS then [NotJupiterProgram (ai_programId swap)] else []) @
           (if prefix = None then [NotRouteV2] else []) @
           (if br_swapMode build \<noteq> ''ExactIn'' then [SwapModeUnsupported (br_swapMode build)] else []) @
           (if br_inputMint build \<noteq> expectedInput \<or> br_outputMint build \<noteq> expectedOutput then [WrongPair] else []) @
           (if map_option aa_pubkey (js_index (ai_accounts swap) 0) \<noteq> Some (tr_taker request) then [NotTheTaker] else [])
     in bindE (case prefix of None \<Rightarrow> Inr [] | Some p \<Rightarrow> quote_reasons build p) (\<lambda>quoteReasons.
          if reasons @ quoteReasons \<noteq> [] then Inl (UnsupportedJupiterBuildError (reasons @ quoteReasons))
          else Inr ()))))"

definition normalizedJupiterSuffix ::
    "(string \<Rightarrow> bool) \<Rightarrow> (string \<Rightarrow> bytes option) \<Rightarrow> build_response \<Rightarrow> js_number \<Rightarrow> jp_exn + instruction list" where
  "normalizedJupiterSuffix isAddress base64 build computeUnitLimit =
     bindE (mapE (toKitInstruction isAddress base64) (br_computeBudgetInstructions build)) (\<lambda>budget.
     bindE (require (CompositionError MISSING_COMPUTE_UNIT_PRICE)
              (find (\<lambda>i. isShape i SET_COMPUTE_UNIT_PRICE) budget)) (\<lambda>price.
     bindE (getSetComputeUnitLimitInstruction computeUnitLimit) (\<lambda>limit.
     bindE (mapE (toKitInstruction isAddress base64) (br_setupInstructions build)) (\<lambda>setups.
     bindE (toKitInstruction isAddress base64 (br_swapInstruction build)) (\<lambda>swap.
       Inr ([price, limit] @ setups @ [swap]))))))"

section \<open>compose.ts: the compiled transaction\<close>

record compiled_instruction =
  cx_programAddressIndex :: nat
  cx_accountIndices :: "nat list option"
  cx_data :: "bytes option"

record address_table_lookup =
  lookupTableAddress :: address
  writableIndexes :: "nat list"
  readonlyIndexes :: "nat list"

record compiled_message =
  cm_version :: int
  numSignerAccounts :: nat
  numReadonlySignerAccounts :: nat
  numReadonlyNonSignerAccounts :: nat
  staticAccounts :: "address list"
  addressTableLookups :: "address_table_lookup list option"
  cm_instructions :: "compiled_instruction list"

type_synonym lookup_tables = "(string \<times> string list) list"

record transaction_metrics =
  instructionCount :: nat
  staticAccountCount :: nat
  addressLookupTableCount :: nat
  lookedUpAddressCount :: nat
  compiledMessageBytes :: nat
  serializedTransactionBytes :: nat
  requiredSignatures :: nat
  fitsSizeLimit :: bool

abbreviation lookups_of :: "compiled_message \<Rightarrow> address_table_lookup list" where
  "lookups_of msg \<equiv> (case addressTableLookups msg of None \<Rightarrow> [] | Some ls \<Rightarrow> ls)"

definition lookupTablesOf :: "(string \<Rightarrow> bool) \<Rightarrow> build_response \<Rightarrow> jp_exn + lookup_tables" where
  "lookupTablesOf isAddress build =
     mapE (\<lambda>(table, addresses).
       bindE (mapE (kit_address isAddress) addresses) (\<lambda>keys.
       bindE (kit_address isAddress table) (\<lambda>t. Inr (t, keys)))) (br_addressesByLookupTableAddress build)"

text \<open>
  The compiler of \<open>@solana/kit\<close>: from blockhash bytes, last valid block height, fee payer,
  instructions and lookup tables to the compiled message, its encoding's length and the wire bytes.
\<close>

type_synonym kit_compiler =
  "nat list \<Rightarrow> int \<Rightarrow> address \<Rightarrow> instruction list \<Rightarrow> lookup_tables \<Rightarrow> jp_exn + (compiled_message \<times> nat \<times> bytes)"

definition compileAndMeasure ::
    "(string \<Rightarrow> bool) \<Rightarrow> kit_compiler \<Rightarrow> build_response \<Rightarrow> address \<Rightarrow> instruction list \<Rightarrow>
       jp_exn + (bytes \<times> transaction_metrics)" where
  "compileAndMeasure isAddress compile build feePayer instructions =
     bindE (require (GuardError RangeError) (js_int (br_lastValidBlockHeight build))) (\<lambda>height.
     bindE (lookupTablesOf isAddress build) (\<lambda>tables.
     bindE (compile (br_blockhash build) height feePayer instructions tables) (\<lambda>(compiled, messageBytes, wireBytes).
       let lookups = lookups_of compiled in
       Inr (wireBytes,
         \<lparr>instructionCount = length (cm_instructions compiled),
          staticAccountCount = length (staticAccounts compiled),
          addressLookupTableCount = length lookups,
          lookedUpAddressCount =
            foldl (\<lambda>n l. n + length (readonlyIndexes l) + length (writableIndexes l)) 0 lookups,
          compiledMessageBytes = messageBytes,
          serializedTransactionBytes = length wireBytes,
          requiredSignatures = numSignerAccounts compiled,
          fitsSizeLimit = length wireBytes \<le> MAX_TRANSACTION_BYTES\<rparr>))))"

definition static_keys :: "compiled_message \<Rightarrow> committed_account list" where
  "static_keys msg =
     (let statics = staticAccounts msg; signers = numSignerAccounts msg in
      map (\<lambda>(i, key).
        \<lparr>ca_address = key, ca_isSigner = i < signers,
         ca_isWritable =
           (if i < signers then int i < int signers - int (numReadonlySignerAccounts msg)
            else int i < int (length statics) - int (numReadonlyNonSignerAccounts msg))\<rparr>) (enumerate 0 statics))"

definition fromTable :: "(string \<Rightarrow> bool) \<Rightarrow> lookup_tables \<Rightarrow> string \<Rightarrow> nat \<Rightarrow> jp_exn + address" where
  "fromTable isAddress tables table index =
     (case Option.bind (map_of tables table) (\<lambda>keys. js_index keys index) of
        None \<Rightarrow> Inl (CompositionError UNRESOLVABLE_TRANSACTION)
      | Some key \<Rightarrow> if key = '''' then Inl (CompositionError UNRESOLVABLE_TRANSACTION)
                    else kit_address isAddress key)"

definition table_keys ::
    "(string \<Rightarrow> bool) \<Rightarrow> lookup_tables \<Rightarrow> bool \<Rightarrow> address_table_lookup list \<Rightarrow> jp_exn + committed_account list" where
  "table_keys isAddress tables writable lookups =
     bindE (mapE (\<lambda>l. mapE (\<lambda>index. bindE (fromTable isAddress tables (lookupTableAddress l) index) (\<lambda>key.
         Inr \<lparr>ca_address = key, ca_isSigner = False, ca_isWritable = writable\<rparr>))
       (if writable then writableIndexes l else readonlyIndexes l)) lookups) (\<lambda>kss. Inr (concat kss))"

definition resolveMessage ::
    "(string \<Rightarrow> bool) \<Rightarrow> lookup_tables \<Rightarrow> compiled_message \<Rightarrow> jp_exn + committed_instruction list" where
  "resolveMessage isAddress tables msg =
     (if cm_version msg \<noteq> 0 then Inl (CompositionError UNRESOLVABLE_TRANSACTION)
      else
        bindE (table_keys isAddress tables True (lookups_of msg)) (\<lambda>writableKeys.
        bindE (table_keys isAddress tables False (lookups_of msg)) (\<lambda>readonlyKeys.
        let keys = static_keys msg @ writableKeys @ readonlyKeys;
            key = (\<lambda>i. require (CompositionError UNRESOLVABLE_TRANSACTION) (js_index keys i)) in
        mapE (\<lambda>ix.
          bindE (key (cx_programAddressIndex ix)) (\<lambda>program.
          bindE (mapE key (case cx_accountIndices ix of None \<Rightarrow> [] | Some is \<Rightarrow> is)) (\<lambda>accounts.
            Inr \<lparr>ci_programAddress = ca_address program, ci_accounts = accounts,
                 ci_data = (case cx_data ix of None \<Rightarrow> [] | Some d \<Rightarrow> d)\<rparr>))) (cm_instructions msg))))"

text \<open>\<open>decodeWire\<close>: the kit decoders of the transaction and its message, \<open>None\<close> where they throw.\<close>

definition resolveWireTransaction ::
    "(string \<Rightarrow> bool) \<Rightarrow> (bytes \<Rightarrow> compiled_message option) \<Rightarrow> bytes \<Rightarrow> lookup_tables \<Rightarrow>
       jp_exn + committed_instruction list" where
  "resolveWireTransaction isAddress decodeWire wireBytes tables =
     bindE (require KitError (decodeWire wireBytes)) (resolveMessage isAddress tables)"

definition sameAccounts :: "committed_account list \<Rightarrow> committed_account list \<Rightarrow> bool" where
  "sameAccounts xs ys =
     (length xs = length ys \<and>
      list_all (\<lambda>(j, m).
        case js_index ys j of None \<Rightarrow> False
        | Some n \<Rightarrow> ca_address m = ca_address n \<and> ca_isSigner m = ca_isSigner n \<and> ca_isWritable m = ca_isWritable n)
        (enumerate 0 xs))"

definition sameInstructions :: "committed_instruction list \<Rightarrow> committed_instruction list \<Rightarrow> bool" where
  "sameInstructions a b =
     (length a = length b \<and>
      list_all (\<lambda>(i, x).
        case js_index b i of None \<Rightarrow> False
        | Some y \<Rightarrow> ci_programAddress x = ci_programAddress y \<and> ci_data x = ci_data y \<and>
            sameAccounts (ci_accounts x) (ci_accounts y)) (enumerate 0 a))"

section \<open>compose.ts: composition\<close>

record guarded_jupiter_composition =
  gc_trade :: guarded_jupiter_trade
  gc_binding :: jupiter_trade_binding
  gc_wireBytes :: bytes
  gc_metrics :: transaction_metrics

text \<open>The operations of \<open>@solana/kit\<close> and \<open>node:crypto\<close> this package uses.\<close>

record kit =
  k_isAddress :: "string \<Rightarrow> bool"
  k_base64 :: "string \<Rightarrow> bytes option"
  k_encode :: "address \<Rightarrow> bytes"
  k_derive :: pda
  k_sha256 :: "bytes \<Rightarrow> bytes"
  k_compile :: kit_compiler
  k_decodeWire :: "bytes \<Rightarrow> compiled_message option"
  k_decodeAddress :: "bytes \<Rightarrow> address"
  k_base64Text :: "bytes \<Rightarrow> string"

definition composeGuardedJupiterTrade ::
    "kit \<Rightarrow> jupiter_trade_request \<Rightarrow> build_response \<Rightarrow> address \<Rightarrow> address \<Rightarrow> assert_safe_execution_request \<Rightarrow>
       jp_exn + guarded_jupiter_composition" where
  "composeGuardedJupiterTrade k request build program feePayer expectation =
     bindE (assertSupportedJupiterBuild (k_isAddress k) (k_base64 k) build request) (\<lambda>_.
     bindE (normalizedJupiterSuffix (k_isAddress k) (k_base64 k) build (tr_computeUnitLimit request)) (\<lambda>suffix.
     bindE (lift_guard (buildGuardedJupiterTrade (k_encode k) (k_derive k) (k_sha256 k) program feePayer
         (tr_protectedMint request) (tr_adapterKind request) expectation suffix)) (\<lambda>trade.
     bindE (compileAndMeasure (k_isAddress k) (k_compile k) build feePayer (gj_instructions trade))
       (\<lambda>(wireBytes, metrics).
     if \<not> fitsSizeLimit metrics then Inl (CompositionError TRANSACTION_TOO_LARGE)
     else
       bindE (resolveWireTransaction (k_isAddress k) (k_decodeWire k) wireBytes
           (br_addressesByLookupTableAddress build)) (\<lambda>resolved.
       bindE (lift_guard (sysvarView (gj_instructions trade) feePayer)) (\<lambda>view.
       if \<not> sameInstructions resolved view \<or> \<not> sameInstructions (drop 1 resolved) (committedSuffix trade)
       then Inl (CompositionError COMMITMENT_MISMATCH)
       else bindE (lift_guard (jupiterTradeBindingOf trade)) (\<lambda>binding.
         Inr \<lparr>gc_trade = trade, gc_binding = binding, gc_wireBytes = wireBytes, gc_metrics = metrics\<rparr>)))))))"

section \<open>Facts\<close>

lemma list_all_enumerate:
  assumes "length xs = length ys"
  shows "list_all (\<lambda>(i, x). case js_index ys i of None \<Rightarrow> False | Some y \<Rightarrow> P x y) (enumerate 0 xs) \<longleftrightarrow>
           list_all2 P xs ys"
  using assms
  by (simp add: list_all_length nth_enumerate_eq list_all2_conv_all_nth)

lemma sameAccounts_iff: "sameAccounts xs ys \<longleftrightarrow> xs = ys"
proof -
  have "(\<lambda>m n :: committed_account. ca_address m = ca_address n \<and> ca_isSigner m = ca_isSigner n \<and>
      ca_isWritable m = ca_isWritable n) = (=)"
    by (intro ext) (metis committed_account.equality old.unit.exhaust)
  then show ?thesis
    unfolding sameAccounts_def by (cases "length xs = length ys") (auto simp: list_all_enumerate list.rel_eq)
qed

lemma sameInstructions_iff: "sameInstructions a b \<longleftrightarrow> a = b"
proof -
  have "(\<lambda>x y :: committed_instruction. ci_programAddress x = ci_programAddress y \<and> ci_data x = ci_data y \<and>
      sameAccounts (ci_accounts x) (ci_accounts y)) = (=)"
    unfolding sameAccounts_iff by (intro ext) (metis committed_instruction.equality old.unit.exhaust)
  then show ?thesis
    unfolding sameInstructions_def by (cases "length a = length b") (auto simp: list_all_enumerate list.rel_eq)
qed

lemma built_trade_checks:
  assumes t: "buildGuardedJupiterTrade encode derive sha256 program payer mint kind e suffix = Inr t"
    and "drop 1 view = committedSuffix t"
  shows "checkGuardedJupiterTransaction encode derive sha256 view 0 kind mint (gj_commitment t) = Inr None"
proof -
  note b = build_ok [OF t]
  have "sc_verdict (checkJupiterSuffix encode derive (committedSuffix t) kind mint) = None"
    using b(5) by (simp add: verdict_of_outcome)
  with assms(2) b(6) show ?thesis by (simp add: checkGuardedJupiterTransaction_def Let_def)
qed

lemma compileAndMeasure_fits:
  "compileAndMeasure isAddress compile build payer ixs = Inr (wire, metrics) \<Longrightarrow>
     fitsSizeLimit metrics \<longleftrightarrow> length wire \<le> 1232"
  by (auto simp: compileAndMeasure_def err_simps Let_def MAX_TRANSACTION_BYTES_def)

lemma compose_ok:
  assumes "composeGuardedJupiterTrade k request build program payer e = Inr c"
  shows "\<exists>suffix. assertSupportedJupiterBuild (k_isAddress k) (k_base64 k) build request = Inr () \<and>
      normalizedJupiterSuffix (k_isAddress k) (k_base64 k) build (tr_computeUnitLimit request) = Inr suffix \<and>
      buildGuardedJupiterTrade (k_encode k) (k_derive k) (k_sha256 k) program payer (tr_protectedMint request)
        (tr_adapterKind request) e suffix = Inr (gc_trade c) \<and>
      length (gc_wireBytes c) \<le> 1232 \<and>
      (\<exists>resolved. resolveWireTransaction (k_isAddress k) (k_decodeWire k) (gc_wireBytes c)
           (br_addressesByLookupTableAddress build) = Inr resolved \<and>
         sysvarView (gj_instructions (gc_trade c)) payer = Inr resolved \<and>
         drop 1 resolved = committedSuffix (gc_trade c)) \<and>
      jupiterTradeBindingOf (gc_trade c) = Inr (gc_binding c)"
  using assms compileAndMeasure_fits
  by (auto simp: composeGuardedJupiterTrade_def err_simps sameInstructions_iff split: if_splits prod.splits)

text \<open>What a supported build is: the reported quote is the encoded trade.\<close>

lemma quote_reasons_Nil:
  assumes "quote_reasons build p = Inr []"
  shows "inAmount p = int (nat_of_digits (br_inAmount build)) \<and>
     quotedOutAmount p = int (nat_of_digits (br_outAmount build)) \<and>
     js_int (br_slippageBps build) = Some (slippageBps p) \<and>
     minimumOutFromQuote (quotedOutAmount p) (JNum (of_int (slippageBps p)))
       = Inr (int (nat_of_digits (br_otherAmountThreshold build)))"
  using assms by (auto simp: quote_reasons_def Let_def err_simps split: if_splits)

lemma supported_build:
  assumes "assertSupportedJupiterBuild isAddress base64 build (request :: jupiter_trade_request) = Inr ()"
  shows "br_cleanupInstruction build = None \<and> br_otherInstructions build = [] \<and> br_tipInstruction build = None \<and>
    ai_programId (br_swapInstruction build) = JUPITER_V6_PROGRAM_ADDRESS \<and> br_swapMode build = ''ExactIn'' \<and>
    (if tr_adapterKind request = JUPITER_ROUTE_V2_BUY_USDC
     then br_inputMint build = USDC_MINT_ADDRESS \<and> br_outputMint build = tr_protectedMint request
     else br_inputMint build = tr_protectedMint request \<and> br_outputMint build = USDC_MINT_ADDRESS) \<and>
    length (br_setupInstructions build) \<le> 1 \<and>
    (\<exists>swapData p. base64 (ai_data (br_swapInstruction build)) = Some swapData \<and>
       decodeRouteV2Prefix swapData = Some p \<and> quote_reasons build p = Inr [])"
proof -
  obtain budget sr swapData where parts:
    "mapE (toKitInstruction isAddress base64) (br_computeBudgetInstructions build) = Inr budget"
    "setup_reasons base64 (br_setupInstructions build) = Inr sr"
    "base64 (ai_data (br_swapInstruction build)) = Some swapData"
    using assms by (auto simp: assertSupportedJupiterBuild_def err_simps kit_base64_def)
  have "sr = []" and rest: "br_cleanupInstruction build = None" "br_otherInstructions build = []"
    "br_tipInstruction build = None" "ai_programId (br_swapInstruction build) = JUPITER_V6_PROGRAM_ADDRESS"
    "br_swapMode build = ''ExactIn''" "decodeRouteV2Prefix swapData \<noteq> None"
    "(if tr_adapterKind request = JUPITER_ROUTE_V2_BUY_USDC
     then br_inputMint build = USDC_MINT_ADDRESS \<and> br_outputMint build = tr_protectedMint request
     else br_inputMint build = tr_protectedMint request \<and> br_outputMint build = USDC_MINT_ADDRESS)"
    "\<exists>p. decodeRouteV2Prefix swapData = Some p \<and> quote_reasons build p = Inr []"
    using assms parts
    by (auto simp: assertSupportedJupiterBuild_def err_simps kit_base64_def Let_def split: if_splits option.splits)
  moreover have "length (br_setupInstructions build) \<le> 1"
    using parts(2) \<open>sr = []\<close> by (auto simp: setup_reasons_def err_simps split: if_splits)
  ultimately show ?thesis using parts(3) by auto
qed

section \<open>A concrete build\<close>

text \<open>A build for witnesses: the sample trade as Jupiter would report it.\<close>

definition sample_api :: "string \<Rightarrow> (string \<times> bool \<times> bool) list \<Rightarrow> string \<Rightarrow> api_instruction" where
  "sample_api program metas data =
     \<lparr>ai_programId = program,
      ai_accounts = map (\<lambda>(a, s, w). \<lparr>aa_pubkey = a, aa_isSigner = s, aa_isWritable = w\<rparr>) metas, ai_data = data\<rparr>"

definition sample_base64 :: "string \<Rightarrow> bytes option" where
  "sample_base64 s = (if s = ''price'' then Some (3 # replicate 8 0) else if s = ''route'' then Some sample_route_data else None)"

definition sample_build :: build_response where
  "sample_build =
     \<lparr>br_inputMint = USDC_MINT_ADDRESS, br_outputMint = ''MINT'', br_inAmount = ''1'', br_outAmount = ''512'',
      br_otherAmountThreshold = ''510'', br_swapMode = ''ExactIn'', br_slippageBps = JNum 50, br_routePlan = [],
      br_computeBudgetInstructions = [sample_api COMPUTE_BUDGET_PROGRAM_ADDRESS [] ''price''],
      br_setupInstructions = [],
      br_swapInstruction = sample_api JUPITER_V6_PROGRAM_ADDRESS
        [(''AUTH'', True, False), (''ATA'', False, True), (''ATA'', False, True),
         (USDC_MINT_ADDRESS, False, False), (''MINT'', False, False), (LEGACY_TOKEN_PROGRAM_ADDRESS, False, False),
         (TOKEN_2022_PROGRAM_ADDRESS, False, False), (JUPITER_V6_PROGRAM_ADDRESS, False, False),
         (JUPITER_EVENT_AUTHORITY, False, False), (JUPITER_V6_PROGRAM_ADDRESS, False, False)] ''route'',
      br_cleanupInstruction = None, br_otherInstructions = [], br_tipInstruction = None,
      br_addressesByLookupTableAddress = [], br_blockhash = replicate 32 0, br_lastValidBlockHeight = JNum 9\<rparr>"

definition sample_trade_request :: jupiter_trade_request where
  "sample_trade_request =
     \<lparr>tr_adapterKind = JUPITER_ROUTE_V2_BUY_USDC, tr_protectedMint = ''MINT'', tr_taker = ''AUTH'',
      tr_computeUnitLimit = JNum 0\<rparr>"

lemma sample_supported:
  "assertSupportedJupiterBuild (\<lambda>_. True) sample_base64 sample_build sample_trade_request = Inr ()"
  by code_simp

definition sample_kit_suffix :: "instruction list" where
  "sample_kit_suffix = (case normalizedJupiterSuffix (\<lambda>_. True) sample_base64 sample_build (JNum 0) of
     Inl _ \<Rightarrow> [] | Inr s \<Rightarrow> s)"

lemma sample_normalized:
  "normalizedJupiterSuffix (\<lambda>_. True) sample_base64 sample_build (JNum 0) = Inr sample_kit_suffix"
  by code_simp

lemma sample_kit_view:
  "mapR (drop 1) (sysvarView (sample_guard_shape # sample_kit_suffix) ''AUTH'') = Inr sample_committed"
  by code_simp

text \<open>A compiled message of the sample trade; its wire bytes are taken to be the guard's data.\<close>

definition sample_message :: "bytes \<Rightarrow> compiled_message" where
  "sample_message guardData =
     \<lparr>cm_version = 0, numSignerAccounts = 1, numReadonlySignerAccounts = 0, numReadonlyNonSignerAccounts = 9,
      staticAccounts = [''AUTH'', ''ATA'', ''GUARD'', ''MINT'', SYSVAR_INSTRUCTIONS_ADDRESS,
        COMPUTE_BUDGET_PROGRAM_ADDRESS, JUPITER_V6_PROGRAM_ADDRESS, USDC_MINT_ADDRESS,
        LEGACY_TOKEN_PROGRAM_ADDRESS, TOKEN_2022_PROGRAM_ADDRESS, JUPITER_EVENT_AUTHORITY],
      addressTableLookups = None,
      cm_instructions =
        [\<lparr>cx_programAddressIndex = 2, cx_accountIndices = Some [3, 4], cx_data = Some guardData\<rparr>,
         \<lparr>cx_programAddressIndex = 5, cx_accountIndices = None, cx_data = Some (3 # replicate 8 0)\<rparr>,
         \<lparr>cx_programAddressIndex = 5, cx_accountIndices = None, cx_data = Some (2 # replicate 4 0)\<rparr>,
         \<lparr>cx_programAddressIndex = 6, cx_accountIndices = Some [0, 1, 1, 7, 3, 8, 9, 6, 10, 6],
          cx_data = Some sample_route_data\<rparr>]\<rparr>"

definition sample_kit :: kit where
  "sample_kit =
     \<lparr>k_isAddress = (\<lambda>_. True), k_base64 = sample_base64, k_encode = sample_encode, k_derive = sample_derive,
      k_sha256 = sample_hash,
      k_compile = (\<lambda>_ _ _ ixs _. let d = data_of (hd ixs) in Inr (sample_message d, length d, d)),
      k_decodeWire = (\<lambda>wire. Some (sample_message wire)),
      k_decodeAddress = (\<lambda>_. ''ADDR''), k_base64Text = base64_encode\<rparr>"

definition sample_guard_view :: "bytes \<Rightarrow> committed_instruction" where
  "sample_guard_view d =
     \<lparr>ci_programAddress = ''GUARD'',
      ci_accounts = [\<lparr>ca_address = ''MINT'', ca_isSigner = False, ca_isWritable = False\<rparr>,
        \<lparr>ca_address = SYSVAR_INSTRUCTIONS_ADDRESS, ca_isSigner = False, ca_isWritable = False\<rparr>],
      ci_data = d\<rparr>"

lemma sample_resolve_suffix: "mapR (drop 1) (resolveMessage (\<lambda>_. True) [] (sample_message [])) = Inr sample_committed"
  by code_simp

lemma sample_resolve:
  "resolveMessage (\<lambda>_. True) [] (sample_message d) = Inr (sample_guard_view d # sample_committed)"
proof -
  obtain x where x: "resolveMessage (\<lambda>_. True) [] (sample_message []) = Inr x" "sample_committed = drop 1 x"
    using sample_resolve_suffix by (auto simp: mapR_eq)
  then show ?thesis
    by (auto simp: resolveMessage_def sample_message_def table_keys_def static_keys_def Let_def
        sample_guard_view_def js_index_def err_simps)
qed

lemma sysvarView_head:
  assumes "sysvarView (h # suffix) payer = Inr (v # vs)" and "programAddress g = programAddress h"
    and "ix_accounts g = ix_accounts h"
  shows "sysvarView (g # suffix) payer = Inr (v\<lparr>ci_data := data_of g\<rparr> # vs)"
  using assms by (auto simp: sysvarView_def flagged_def Let_def split: if_splits)

lemma sample_shape_view: "sysvarView (sample_guard_shape # sample_kit_suffix) ''AUTH'' = Inr (sample_guard_view [] # sample_committed)"
  by code_simp

lemma guard_data_length:
  assumes "getAssertSafeExecutionV2Instruction encode program mint e c kind = Inr g" and "length (encode mint) = 32"
  shows "length (data_of g) = 99"
proof -
  let ?r = "assert_safe_execution_request.extend e
          \<lparr>expectedMint = mint,
           adapterKind = (case kind of None \<Rightarrow> TOKEN_2022_TRANSFER_CHECKED | Some k \<Rightarrow> k),
           downstreamCommitment = c\<rparr>"
  obtain data where d: "ix_data g = Some data" "encodeAssertSafeExecutionV2 encode ?r = Inr data"
    using getAssertSafeExecutionV2Instruction_ok(3) [OF assms(1)] by blast
  then have "v2_request_ok ?r" using encode_refuses [of ?r encode] by auto
  then show ?thesis
    using d assms(2) encode_ok [of encode ?r] length_v2_layout [of "encode mint" ?r]
    by (auto simp: assert_safe_execution_request.defs)
qed

lemma sample_kit_trade:
  "\<exists>t. buildGuardedJupiterTrade sample_encode sample_derive sample_hash ''GUARD'' ''AUTH'' ''MINT''
     JUPITER_ROUTE_V2_BUY_USDC sample_expectation sample_kit_suffix = Inr t \<and> committedSuffix t = sample_committed"
  by (rule build_total [OF _ sample_expectation_ok _ _ sample_kit_view [unfolded sample_guard_shape_def]
        sample_check sample_sizes])
    (simp_all add: isJupiterAdapterKind_def sample_encode_def sample_hash_def ascii_bytes_def)

lemma sample_composition:
  "\<exists>c. composeGuardedJupiterTrade sample_kit sample_trade_request sample_build ''GUARD'' ''AUTH'' sample_expectation = Inr c"
proof -
  obtain t where t: "buildGuardedJupiterTrade sample_encode sample_derive sample_hash ''GUARD'' ''AUTH'' ''MINT''
     JUPITER_ROUTE_V2_BUY_USDC sample_expectation sample_kit_suffix = Inr t" "committedSuffix t = sample_committed"
    using sample_kit_trade by blast
  note b = build_ok [OF t(1)]
  have g: "programAddress (gj_guard t) = ''GUARD''" "ix_accounts (gj_guard t) = ix_accounts sample_guard_shape"
    using getAssertSafeExecutionV2Instruction_ok(1,2) [OF b(7)] by (simp_all add: sample_guard_shape_def)
  have len: "length (data_of (gj_guard t)) = 99"
    by (rule guard_data_length [OF b(7)]) (simp add: sample_encode_def ascii_bytes_def)
  have view: "sysvarView (gj_instructions t) ''AUTH'' =
      Inr (sample_guard_view (data_of (gj_guard t)) # sample_committed)"
    unfolding b(3) by (subst sysvarView_head [OF sample_shape_view])
      (simp_all add: g, simp_all add: sample_guard_shape_def sample_guard_view_def)
  obtain binding where "jupiterTradeBindingOf t = Inr binding"
    using built_minimum [OF t(1)] by (auto simp: jupiterTradeBindingOf_def Let_def)
  moreover have "compileAndMeasure (\<lambda>_. True) (k_compile sample_kit) sample_build ''AUTH'' (gj_instructions t) =
      Inr (data_of (gj_guard t), m)" if "m = \<lparr>instructionCount = 4, staticAccountCount = 11,
        addressLookupTableCount = 0, lookedUpAddressCount = 0, compiledMessageBytes = 99,
        serializedTransactionBytes = 99, requiredSignatures = 1, fitsSizeLimit = True\<rparr>" for m
    using len that unfolding b(3) by (simp add: compileAndMeasure_def sample_kit_def sample_build_def
        lookupTablesOf_def sample_message_def Let_def MAX_TRANSACTION_BYTES_def)
  ultimately show ?thesis
    using sample_supported sample_normalized t view sample_resolve [of "data_of (gj_guard t)"]
    by (simp add: composeGuardedJupiterTrade_def sample_trade_request_def lift_guard_def sameInstructions_iff
        resolveWireTransaction_def)
      (simp add: sample_kit_def sample_build_def resolveWireTransaction_def sameInstructions_iff lift_guard_def)
qed

section \<open>Properties\<close>

text \<open>
  C21. What a composition returns is the trade that was committed to: the serialized transaction is at
  most 1232 bytes, and resolving its wire bytes with Jupiter's lookup tables the way the runtime loads
  a v0 message gives exactly the instructions and flags of the guarded trade, with the committed suffix
  after the guard, on which the whole-transaction check of the client finds nothing.
\<close>

theorem composed_transaction_is_committed:
  assumes "composeGuardedJupiterTrade k request build program payer e = Inr c"
  shows "length (gc_wireBytes c) \<le> 1232 \<and>
    (\<exists>resolved. resolveWireTransaction (k_isAddress k) (k_decodeWire k) (gc_wireBytes c)
         (br_addressesByLookupTableAddress build) = Inr resolved \<and>
       sysvarView (gj_instructions (gc_trade c)) payer = Inr resolved \<and>
       drop 1 resolved = committedSuffix (gc_trade c) \<and>
       checkGuardedJupiterTransaction (k_encode k) (k_derive k) (k_sha256 k) resolved 0 (tr_adapterKind request)
         (tr_protectedMint request) (gj_commitment (gc_trade c)) = Inr None)"
  using compose_ok [OF assms] built_trade_checks by blast

theorem composed_transaction_is_committed_witness:
  "\<exists>c. composeGuardedJupiterTrade sample_kit sample_trade_request sample_build ''GUARD'' ''AUTH'' sample_expectation = Inr c \<and>
     length (gc_wireBytes c) \<le> 1232"
proof -
  obtain c where c: "composeGuardedJupiterTrade sample_kit sample_trade_request sample_build ''GUARD'' ''AUTH''
      sample_expectation = Inr c"
    using sample_composition by blast
  from composed_transaction_is_committed [OF c] c show ?thesis by blast
qed

text \<open>
  A build that passes is the trade Jupiter reports: no cleanup, other or tip instruction and at most
  one setup, the Jupiter v6 program, an ExactIn swap of USDC against the protected mint in the direction
  of the adapter kind, and amounts, slippage and minimum output equal to the ones its instruction
  encodes.
\<close>

theorem supported_build_is_encoded_trade:
  assumes "assertSupportedJupiterBuild isAddress base64 build (request :: jupiter_trade_request) = Inr ()"
  shows "br_cleanupInstruction build = None \<and> br_otherInstructions build = [] \<and> br_tipInstruction build = None \<and>
    length (br_setupInstructions build) \<le> 1 \<and>
    ai_programId (br_swapInstruction build) = JUPITER_V6_PROGRAM_ADDRESS \<and> br_swapMode build = ''ExactIn'' \<and>
    (if tr_adapterKind request = JUPITER_ROUTE_V2_BUY_USDC
     then br_inputMint build = USDC_MINT_ADDRESS \<and> br_outputMint build = tr_protectedMint request
     else br_inputMint build = tr_protectedMint request \<and> br_outputMint build = USDC_MINT_ADDRESS) \<and>
    (\<exists>swapData p. base64 (ai_data (br_swapInstruction build)) = Some swapData \<and>
       decodeRouteV2Prefix swapData = Some p \<and>
       inAmount p = int (nat_of_digits (br_inAmount build)) \<and>
       quotedOutAmount p = int (nat_of_digits (br_outAmount build)) \<and>
       js_int (br_slippageBps build) = Some (slippageBps p) \<and>
       minimumOutFromQuote (quotedOutAmount p) (JNum (of_int (slippageBps p)))
         = Inr (int (nat_of_digits (br_otherAmountThreshold build))))"
  using supported_build [OF assms] quote_reasons_Nil by blast

theorem supported_build_is_encoded_trade_witness:
  "\<exists>swapData p. sample_base64 (ai_data (br_swapInstruction sample_build)) = Some swapData \<and>
     decodeRouteV2Prefix swapData = Some p \<and> inAmount p = int (nat_of_digits (br_inAmount sample_build))"
  using supported_build_is_encoded_trade [OF sample_supported] by blast

text \<open>
  A build whose reported and encoded slippage agree on a value above 10000 basis points is refused
  by the minimum-output computation's own error, whatever other reasons there are: the list of reasons
  is never raised.
\<close>

theorem excessive_slippage_escapes_reasons:
  assumes "mapE (toKitInstruction isAddress base64) (br_computeBudgetInstructions build) = Inr budget"
    and "setup_reasons base64 (br_setupInstructions build) = Inr setups"
    and "base64 (ai_data (br_swapInstruction build)) = Some swapData"
    and "decodeRouteV2Prefix swapData = Some p"
    and "js_int (br_slippageBps build) = Some (slippageBps p)" and "10000 < slippageBps p"
  shows "assertSupportedJupiterBuild isAddress base64 build (request :: jupiter_trade_request) =
    Inl (GuardError (GuardClientError UnsupportedJupiterTrade_code None))"
  using assms by (simp add: assertSupportedJupiterBuild_def kit_base64_def Let_def quote_reasons_def
      minimumOutFromQuote_def MAX_SLIPPAGE_BPS_def lift_guard_def split: prod.splits)

definition sample_steep_base64 :: "string \<Rightarrow> bytes option" where
  "sample_steep_base64 s =
     (if s = ''price'' then Some (3 # replicate 8 0)
      else if s = ''route'' then Some (ROUTE_V2_DISCRIMINATOR @ [1, 0, 0, 0, 0, 0, 0, 0] @ [0, 2, 0, 0, 0, 0, 0, 0] @
        [0x11, 0x27] @ [0, 0] @ [0, 0] @ [1, 0, 0, 0])
      else None)"

lemma sample_steep:
  "mapE (toKitInstruction (\<lambda>_. True) sample_steep_base64) (br_computeBudgetInstructions sample_build) =
     Inr [hd sample_kit_suffix]"
  "setup_reasons sample_steep_base64 [] = Inr []"
  "map_option slippageBps (Option.bind (sample_steep_base64 ''route'') decodeRouteV2Prefix) = Some 10001"
  by code_simp+

theorem excessive_slippage_escapes_reasons_witness:
  "assertSupportedJupiterBuild (\<lambda>_. True) sample_steep_base64 (sample_build\<lparr>br_slippageBps := JNum 10001\<rparr>)
     sample_trade_request = Inl (GuardError (GuardClientError UnsupportedJupiterTrade_code None))"
proof -
  obtain d p where d: "sample_steep_base64 ''route'' = Some d" "decodeRouteV2Prefix d = Some p" "slippageBps p = 10001"
    using sample_steep(3) by (auto simp: bind_eq_Some_conv)
  show ?thesis
  proof (rule excessive_slippage_escapes_reasons)
    show "mapE (toKitInstruction (\<lambda>_. True) sample_steep_base64)
        (br_computeBudgetInstructions (sample_build\<lparr>br_slippageBps := JNum 10001\<rparr>)) = Inr [hd sample_kit_suffix]"
      using sample_steep(1) by simp
    show "setup_reasons sample_steep_base64 (br_setupInstructions (sample_build\<lparr>br_slippageBps := JNum 10001\<rparr>)) = Inr []"
      using sample_steep(2) by (simp add: sample_build_def)
    show "sample_steep_base64 (ai_data (br_swapInstruction (sample_build\<lparr>br_slippageBps := JNum 10001\<rparr>))) = Some d"
      using d(1) by (simp add: sample_build_def sample_api_def)
    show "decodeRouteV2Prefix d = Some p" by (rule d(2))
    show "js_int (br_slippageBps (sample_build\<lparr>br_slippageBps := JNum 10001\<rparr>)) = Some (slippageBps p)"
      using d(3) by simp
    show "10000 < slippageBps p" using d(3) by simp
  qed
qed

end
