(* ===== verification/Protection_Adapter.thy ===== *)
theory Protection_Adapter
  imports Snapshot
begin

text \<open>
  Classification of a mint as protected, unsupported, invalid or ordinary
  (\<open>packages/guard-client/src/protection-adapter.ts\<close>): the registry of known assets and
  \<open>resolveProtectionAdapter\<close>. Message texts are not modelled.
\<close>

section \<open>protection-adapter.ts\<close>

definition TOKEN_2022_SCALED_UI_AMOUNT :: string where
  "TOKEN_2022_SCALED_UI_AMOUNT = ''TOKEN_2022_SCALED_UI_AMOUNT''"

definition IMPLEMENTED_STATE_MODELS :: "string list" where
  "IMPLEMENTED_STATE_MODELS = [TOKEN_2022_SCALED_UI_AMOUNT]"

datatype asset_issuer = xStocks | Ondo

record known_protected_asset =
  ka_mint :: address
  ka_symbol :: string
  ka_issuer :: asset_issuer
  ka_underlying :: string
  ka_stateModel :: string
  ka_evidence :: string

definition XSTOCKS_EVIDENCE :: string where
  "XSTOCKS_EVIDENCE = ''mainnet account decoded at slot 446827429; multipliers kept distinct with a scheduled activation (KOx schedule + Clock activation observed 2026-09-14/15, docs/m10a-corporate-action-validation.md)''"

definition ONDO_EVIDENCE :: string where
  "ONDO_EVIDENCE = ''mainnet account decoded at slot 446827429; immediate multiplier updates observed on KOon and UNHon, both mapped to the current semantics (docs/m10a-corporate-action-validation.md)''"

definition known_asset :: "address \<Rightarrow> string \<Rightarrow> asset_issuer \<Rightarrow> string \<Rightarrow> string \<Rightarrow> known_protected_asset" where
  "known_asset mint symbol issuer underlying evidence =
     \<lparr>ka_mint = mint, ka_symbol = symbol, ka_issuer = issuer, ka_underlying = underlying,
      ka_stateModel = TOKEN_2022_SCALED_UI_AMOUNT, ka_evidence = evidence\<rparr>"

definition KNOWN_PROTECTED_ASSETS :: "known_protected_asset list" where
  "KNOWN_PROTECTED_ASSETS =
     [known_asset ''XsaBXg8dU5cPM6ehmVctMkVqoiRG2ZjMo1cyBJ3AykQ'' ''KOx'' xStocks ''KO'' XSTOCKS_EVIDENCE,
      known_asset ''XszvaiXGPwvk2nwb3o9C1CX4K6zH8sez11E6uyup6fe'' ''UNHx'' xStocks ''UNH'' XSTOCKS_EVIDENCE,
      known_asset ''XsczbcQ3zfcgAEt9qHQES8pxKAVG5rujPSHQEXi4kaN'' ''CRMx'' xStocks ''CRM'' XSTOCKS_EVIDENCE,
      known_asset ''e6G4pfFcrdKxJuZ4YXixRFfMbpMvgXG2Mjcus71ondo'' ''KOon'' Ondo ''KO'' ONDO_EVIDENCE,
      known_asset ''kPBGL8vAwKN3UGmr9cjkM2dU79SC3nzTC9yu7F8ondo'' ''UNHon'' Ondo ''UNH'' ONDO_EVIDENCE,
      known_asset ''7D7ukbcnUNYt7Et5vtsDZhAy28MKu9pkHka1Hp9ondo'' ''CRMon'' Ondo ''CRM'' ONDO_EVIDENCE]"

datatype unsupported_asset_reason = UNSUPPORTED_STATE_MODEL | NO_SUPPORTED_STATE_ADAPTER

datatype not_protected_reason = NOT_TOKEN_2022 | NO_PROTECTED_STATE_MODEL

datatype protection_resolution =
    NOT_PROTECTED not_protected_reason
  | SUPPORTED string protected_state "known_protected_asset option"
  | KNOWN_PROTECTED_UNSUPPORTED unsupported_asset_reason known_protected_asset
  | INVALID_STATE guard_client_error_code "known_protected_asset option"

definition findKnownProtectedAsset :: "address \<Rightarrow> known_protected_asset list \<Rightarrow> known_protected_asset option" where
  "findKnownProtectedAsset mint registry = find (\<lambda>asset. ka_mint asset = mint) registry"

text \<open>\<open>registry\<close> is \<open>None\<close> where the caller gives none. An error that is not a \<open>GuardClientError\<close> is rethrown.\<close>

definition resolveProtectionAdapter ::
    "address \<Rightarrow> address \<Rightarrow> bytes \<Rightarrow> known_protected_asset list option \<Rightarrow> js_exn + protection_resolution" where
  "resolveProtectionAdapter mint owner data registry =
     (let known = findKnownProtectedAsset mint
            (case registry of None \<Rightarrow> KNOWN_PROTECTED_ASSETS | Some r \<Rightarrow> r) in
      case (case known of None \<Rightarrow> None
            | Some a \<Rightarrow> if ka_stateModel a \<notin> set IMPLEMENTED_STATE_MODELS then Some a else None) of
        Some a \<Rightarrow> Inr (KNOWN_PROTECTED_UNSUPPORTED UNSUPPORTED_STATE_MODEL a)
      | None \<Rightarrow>
        (case decodeProtectedState owner data of
           Inr st \<Rightarrow> Inr (SUPPORTED TOKEN_2022_SCALED_UI_AMOUNT st known)
         | Inl (GuardClientError code v) \<Rightarrow>
             if code = InvalidMintOwner_code \<or> code = MissingScaledUiAmount_code
             then (case known of
                     Some a \<Rightarrow> Inr (KNOWN_PROTECTED_UNSUPPORTED NO_SUPPORTED_STATE_ADAPTER a)
                   | None \<Rightarrow> Inr (NOT_PROTECTED
                       (if code = InvalidMintOwner_code then NOT_TOKEN_2022 else NO_PROTECTED_STATE_MODEL)))
             else Inr (INVALID_STATE code known)
         | Inl e \<Rightarrow> Inl e))"

section \<open>Facts\<close>

lemma resolve_cases:
  assumes "resolveProtectionAdapter mint owner data registry = r"
  shows "\<exists>x. r = Inr x"
proof (cases "decodeProtectedState owner data")
  case (Inl e)
  with decodeProtectedState_error [OF Inl] assms show ?thesis
    by (auto simp: resolveProtectionAdapter_def Let_def split: option.splits if_splits)
next
  case (Inr s)
  with assms show ?thesis
    by (auto simp: resolveProtectionAdapter_def Let_def split: option.splits if_splits)
qed

lemma resolve_not_protected:
  assumes "resolveProtectionAdapter mint owner data registry = Inr (NOT_PROTECTED reason)"
  shows "findKnownProtectedAsset mint (case registry of None \<Rightarrow> KNOWN_PROTECTED_ASSETS | Some r \<Rightarrow> r) = None"
    and "decodeProtectedState owner data \<in> {Inl (GuardClientError InvalidMintOwner_code None),
           Inl (GuardClientError MissingScaledUiAmount_code None)}"
proof -
  let ?k = "findKnownProtectedAsset mint (case registry of None \<Rightarrow> KNOWN_PROTECTED_ASSETS | Some r \<Rightarrow> r)"
  obtain e where e: "decodeProtectedState owner data = Inl e"
    using assms by (cases "decodeProtectedState owner data")
      (auto simp: resolveProtectionAdapter_def Let_def split: option.splits if_splits)
  with assms decodeProtectedState_error [OF e] show "?k = None"
    by (cases ?k) (auto simp: resolveProtectionAdapter_def Let_def split: if_splits)
  with assms e decodeProtectedState_error [OF e]
  show "decodeProtectedState owner data \<in> {Inl (GuardClientError InvalidMintOwner_code None),
           Inl (GuardClientError MissingScaledUiAmount_code None)}"
    by (auto simp: resolveProtectionAdapter_def Let_def)
qed

lemma decode_wrong_owner:
  "owner \<noteq> TOKEN_2022_PROGRAM_ADDRESS \<Longrightarrow>
   decodeProtectedState owner data = Inl (GuardClientError InvalidMintOwner_code None)"
  by (simp add: decodeProtectedState_def parseMintAccount_def)

section \<open>Properties\<close>

text \<open>
  C24. Classification is total and fails closed: no account makes it throw; a mint the registry knows
  is never called ordinary, whatever its account holds; and it is called supported only with a
  decoded state whose multipliers are valid.
\<close>

theorem classification_fails_closed:
  "\<exists>r. resolveProtectionAdapter mint owner data registry = Inr r \<and>
     (\<forall>reason. r = NOT_PROTECTED reason \<longrightarrow>
        findKnownProtectedAsset mint (case registry of None \<Rightarrow> KNOWN_PROTECTED_ASSETS | Some x \<Rightarrow> x) = None \<and>
        decodeProtectedState owner data \<in> {Inl (GuardClientError InvalidMintOwner_code None),
           Inl (GuardClientError MissingScaledUiAmount_code None)}) \<and>
     (\<forall>model s known. r = SUPPORTED model s known \<longrightarrow>
        decodeProtectedState owner data = Inr s \<and> isValidStoredMultiplier (multiplier s) \<and>
        isValidStoredMultiplier (newMultiplier s) \<and> storable_state s)"
proof -
  obtain r where r: "resolveProtectionAdapter mint owner data registry = Inr r"
    using resolve_cases [OF refl] by blast
  have "decodeProtectedState owner data = Inr s" if "r = SUPPORTED model s known" for model s known
    using r that by (cases "decodeProtectedState owner data")
      (auto simp: resolveProtectionAdapter_def Let_def split: option.splits if_splits js_exn.splits)
  with r resolve_not_protected [of mint owner data registry] decodeProtectedState_sound show ?thesis
    by (intro exI [of _ r]) blast
qed

theorem classification_fails_closed_witness:
  "resolveProtectionAdapter ''XsaBXg8dU5cPM6ehmVctMkVqoiRG2ZjMo1cyBJ3AykQ'' ''other'' [] None
     \<noteq> Inr (NOT_PROTECTED NOT_TOKEN_2022)"
  using classification_fails_closed [of "''XsaBXg8dU5cPM6ehmVctMkVqoiRG2ZjMo1cyBJ3AykQ''" "''other''" "[]" None]
  by (auto simp: findKnownProtectedAsset_def KNOWN_PROTECTED_ASSETS_def known_asset_def)

end
