(* ===== verification/Protect.thy ===== *)
theory Protect
  imports Jupiter_Compose Protection_Adapter
begin

text \<open>
  The integration surface (\<open>packages/jupiter/src/protect.ts\<close>): classification of a swap, resolution of
  the guard deployment, \<open>protectJupiterSwap\<close>, \<open>supportsJupiterSwap\<close>, \<open>verifyProtectedSwap\<close> and
  \<open>reverifyGuardDeployment\<close>. The RPC endpoint answers each request of a call on its own, so the chain
  may move between reads. Message texts are not modelled; a failure keeps its reasons or its cause.
\<close>

section \<open>Results\<close>

datatype equity_guard_failure_code =
    UNSUPPORTED_ROUTE_SHAPE_failure | UNSUPPORTED_COUNTER_ASSET_failure | TRANSACTION_TOO_LARGE_failure
  | INVALID_JUPITER_BUILD_failure | MALFORMED_TOKEN_STATE_failure | UNSUPPORTED_TOKEN_STATE_failure
  | MINT_STATE_UNAVAILABLE_failure | ECONOMIC_STATE_CHANGED_failure | INSIDE_TRANSITION_WINDOW_failure
  | INVALID_GUARD_REQUEST_failure | COMMITMENT_FAILURE_failure | GUARD_DEPLOYMENT_UNAVAILABLE_failure
  | GUARD_PROGRAM_NOT_EXECUTABLE_failure | GUARD_BINARY_UNVERIFIED_failure | UNSUPPORTED_CLUSTER_failure
  | GUARD_DEPLOYMENT_CHANGED_failure | NO_SUPPORTED_STATE_ADAPTER_failure | UNSUPPORTED_STATE_MODEL_failure

datatype not_applicable_reason = NO_TOKEN_2022_MINT_reason | NO_PROTECTED_STATE_MODEL_reason

datatype swap_direction = BUY | SELL

text \<open>One entry of \<open>details\<close>: a reason of the composer, or the message of a caught error.\<close>

datatype failure_detail = Reason build_refusal | MessageOf jp_exn

record protected_swap =
  ps_protectedMint :: address
  ps_direction :: swap_direction
  ps_adapterKind :: int
  ps_programAddress :: address
  ps_deploymentIdentity :: deployment_identity
  ps_deployment :: guard_deployment_attestation
  ps_cluster :: solana_cluster
  ps_knownAsset :: "known_protected_asset option"
  ps_transaction :: bytes
  ps_transactionBase64 :: string
  ps_instructions :: "instruction list"
  ps_lookupTables :: lookup_tables
  ps_binding :: jupiter_trade_binding
  ps_metrics :: transaction_metrics
  ps_snapshot :: guard_snapshot

datatype protect_result =
    PROTECTED protected_swap
  | NOT_APPLICABLE not_applicable_reason
  | UNSUPPORTED_PROTECTED_ASSET equity_guard_failure_code address known_protected_asset
  | UNSUPPORTED_PROTECTED_ROUTE equity_guard_failure_code address "equity_guard_error option" "failure_detail list"
  | ERROR_result equity_guard_failure_code "address option" "equity_guard_error option" "failure_detail list"

datatype support_status =
    NOT_APPLICABLE_status not_applicable_reason | UNSUPPORTED_ASSET_status equity_guard_failure_code
  | UNSUPPORTED_ROUTE_status equity_guard_failure_code | ERROR_status equity_guard_failure_code

datatype jupiter_swap_support =
    STRUCTURALLY_SUPPORTED address swap_direction int "known_protected_asset option"
  | NotSupported "address option" support_status

text \<open>\<open>requestId\<close>-th account read of one call; the genesis hash.\<close>

record rpc_endpoint =
  ep_accounts :: "nat \<Rightarrow> get_multiple_accounts"
  ep_genesisHash :: "js_exn + string"

text \<open>The caller's input; a window bound that is missing is \<open>undefined\<close>.\<close>

record protect_input =
  pi_build :: js_value
  pi_userPublicKey :: address
  pi_beforeSecs :: js_value
  pi_afterSecs :: js_value
  pi_programAddress :: "address option"
  pi_computeUnitLimit :: "js_number option"
  pi_expectedState :: "protected_state option"
  pi_expectedPhase :: "activation_phase option"

section \<open>Classification\<close>

datatype classification =
    C_PROTECTED address swap_direction int "known_protected_asset option"
  | C_NOT_APPLICABLE not_applicable_reason
  | C_UNSUPPORTED_ASSET equity_guard_failure_code address known_protected_asset
  | C_UNSUPPORTED equity_guard_failure_code address
  | C_ERROR equity_guard_failure_code "address option"

datatype mint_verdict =
    MV_protected "known_protected_asset option" | MV_ordinary not_applicable_reason | MV_refusal classification

definition verdictFor :: "address \<Rightarrow> address \<Rightarrow> bytes \<Rightarrow> jp_exn + mint_verdict" where
  "verdictFor mint owner data =
     bindE (lift_guard (resolveProtectionAdapter mint owner data None)) (\<lambda>resolution.
       case resolution of
         SUPPORTED _ _ known \<Rightarrow> Inr (MV_protected known)
       | NOT_PROTECTED reason \<Rightarrow>
           Inr (MV_ordinary (if reason = NOT_TOKEN_2022 then NO_TOKEN_2022_MINT_reason
                             else NO_PROTECTED_STATE_MODEL_reason))
       | KNOWN_PROTECTED_UNSUPPORTED reason known \<Rightarrow>
           Inr (MV_refusal (C_UNSUPPORTED_ASSET
             (if reason = UNSUPPORTED_STATE_MODEL then UNSUPPORTED_STATE_MODEL_failure
              else NO_SUPPORTED_STATE_ADAPTER_failure) mint known))
       | INVALID_STATE code _ \<Rightarrow>
           Inr (MV_refusal (C_ERROR
             (if code = InvalidExtensionCombination_code then UNSUPPORTED_TOKEN_STATE_failure
              else MALFORMED_TOKEN_STATE_failure) (Some mint))))"

text \<open>Whether the reported mints differ from the ones the \<open>route_v2\<close> instruction moves.\<close>

definition reportedMintMismatch :: "build_response \<Rightarrow> bool" where
  "reportedMintMismatch build =
     (let swap = br_swapInstruction build;
          key = (\<lambda>i. map_option aa_pubkey (js_index (ai_accounts swap) i)) in
      if ai_programId swap \<noteq> JUPITER_V6_PROGRAM_ADDRESS \<or> decodeRouteV2Prefix (base64Data (ai_data swap)) = None
      then False
      else \<not> (key RA_sourceMint = Some (br_inputMint build) \<and> key RA_destinationMint = Some (br_outputMint build)))"

text \<open>The loop over the candidates: the protected ones, or an early refusal.\<close>

fun classify_loop ::
    "rpc_account option list \<Rightarrow> (nat \<times> address) list \<Rightarrow> (address \<times> known_protected_asset option) list \<Rightarrow>
       not_applicable_reason \<Rightarrow>
       jp_exn + (classification + ((address \<times> known_protected_asset option) list \<times> not_applicable_reason))" where
  "classify_loop accts [] mints reason = Inr (Inr (mints, reason))"
| "classify_loop accts ((index, mint) # rest) mints reason =
     (case rpc_value accts index of
        None \<Rightarrow>
          Inr (Inl (C_ERROR MINT_STATE_UNAVAILABLE_failure
            (map_option (\<lambda>_. mint) (findKnownProtectedAsset mint KNOWN_PROTECTED_ASSETS))))
      | Some account \<Rightarrow>
          bindE (verdictFor mint (rpc_owner account) (base64Data (rpc_data account))) (\<lambda>verdict.
            case verdict of
              MV_refusal c \<Rightarrow> Inr (Inl c)
            | MV_protected known \<Rightarrow> classify_loop accts rest (mints @ [(mint, known)]) reason
            | MV_ordinary r \<Rightarrow>
                classify_loop accts rest mints
                  (if r = NO_PROTECTED_STATE_MODEL_reason then NO_PROTECTED_STATE_MODEL_reason else reason)))"

definition classify_pair ::
    "address \<Rightarrow> address \<Rightarrow> (address \<times> known_protected_asset option) list \<Rightarrow> not_applicable_reason \<Rightarrow> classification" where
  "classify_pair inputMint outputMint mints reason =
     (case mints of
        [] \<Rightarrow> C_NOT_APPLICABLE reason
      | [(mint, known)] \<Rightarrow>
          let counterMint = (if mint = outputMint then inputMint else outputMint) in
          if counterMint \<noteq> USDC_MINT_ADDRESS then C_UNSUPPORTED UNSUPPORTED_COUNTER_ASSET_failure mint
          else if mint = outputMint then C_PROTECTED mint BUY JUPITER_ROUTE_V2_BUY_USDC known
          else C_PROTECTED mint SELL JUPITER_ROUTE_V2_SELL_USDC known
      | (mint, _) # _ # _ \<Rightarrow> C_UNSUPPORTED UNSUPPORTED_COUNTER_ASSET_failure mint)"

definition classify :: "(string \<Rightarrow> bool) \<Rightarrow> build_response \<Rightarrow> get_multiple_accounts \<Rightarrow> jp_exn + classification" where
  "classify isAddress build rpc =
     (if reportedMintMismatch build then Inr (C_ERROR INVALID_JUPITER_BUILD_failure None)
      else
        bindE (kit_address isAddress (br_inputMint build)) (\<lambda>inputMint.
        bindE (kit_address isAddress (br_outputMint build)) (\<lambda>outputMint.
        if inputMint = outputMint then Inr (C_UNSUPPORTED UNSUPPORTED_ROUTE_SHAPE_failure inputMint)
        else
          let candidates = filter (\<lambda>mint. mint \<noteq> USDC_MINT_ADDRESS) [inputMint, outputMint] in
          bindE (lift_guard (rpc candidates)) (\<lambda>(ctx, accts).
          bindE (classify_loop accts (enumerate 0 candidates) [] NO_TOKEN_2022_MINT_reason) (\<lambda>outcome.
            case outcome of
              Inl c \<Rightarrow> Inr c
            | Inr (mints, reason) \<Rightarrow> Inr (classify_pair inputMint outputMint mints reason))))))"

section \<open>Deployment binding\<close>

record resolved_deployment =
  dr_programAddress :: address
  dr_cluster :: solana_cluster
  dr_identity :: deployment_identity
  dr_attestation :: guard_deployment_attestation

definition deploymentFailureCode :: "identity_failure \<Rightarrow> equity_guard_failure_code" where
  "deploymentFailureCode reason =
     (if reason = MISSING then GUARD_DEPLOYMENT_UNAVAILABLE_failure
      else if reason = NOT_EXECUTABLE then GUARD_PROGRAM_NOT_EXECUTABLE_failure
      else GUARD_BINARY_UNVERIFIED_failure)"

definition loader_view :: "rpc_account option list \<Rightarrow> nat \<Rightarrow> loader_account_view option" where
  "loader_view accts index =
     map_option (\<lambda>account. \<lparr>executable = rpc_executable account, pa_owner = rpc_owner account,
                            la_data = base64Data (rpc_data account)\<rparr>) (rpc_value accts index)"

definition resolveDeployment ::
    "(bytes \<Rightarrow> address) \<Rightarrow> (bytes \<Rightarrow> bytes) \<Rightarrow> (js_exn + string) \<Rightarrow> get_multiple_accounts \<Rightarrow> address option \<Rightarrow>
       jp_exn + (equity_guard_failure_code + resolved_deployment)" where
  "resolveDeployment decodeAddress sha256 genesisHash rpc requested =
     bindE (lift_guard genesisHash) (\<lambda>hash.
     let cluster = clusterFromGenesisHash hash;
         program = (case requested of Some a \<Rightarrow> Some a | None \<Rightarrow> deploymentForCluster cluster) in
     if program = None \<or> program = Some ''''
     then Inr (Inl (if cluster = unknown_cluster then UNSUPPORTED_CLUSTER_failure
                    else GUARD_DEPLOYMENT_UNAVAILABLE_failure))
     else
       let programAddr = the program; reviewed = findReviewedGuardDeployment programAddr in
       bindE (lift_guard (rpc (case reviewed of None \<Rightarrow> [programAddr]
                               | Some r \<Rightarrow> [programAddr, rd_programDataAddress r]))) (\<lambda>(ctx, accts).
       let check =
         (case reviewed of
            Some r \<Rightarrow> verifyReviewedGuardDeployment decodeAddress sha256 r (loader_view accts 0) (loader_view accts 1)
          | None \<Rightarrow> bindE (checkGuardProgramAccount (loader_view accts 0))
                     (\<lambda>_. Inr (callerTrustedAttestation programAddr)))
       in case check of
            Inl reason \<Rightarrow> Inr (Inl (deploymentFailureCode reason))
          | Inr attestation \<Rightarrow>
              Inr (Inr \<lparr>dr_programAddress = programAddr, dr_cluster = cluster,
                        dr_identity = at_identity attestation, dr_attestation = attestation\<rparr>)))"

datatype deployment_reverification =
    SameDeployment guard_deployment_attestation
  | DeploymentProblem equity_guard_failure_code guard_deployment_attestation "guard_deployment_attestation option"

definition reverifyGuardDeployment ::
    "kit \<Rightarrow> protected_swap \<Rightarrow> (js_exn + string) \<Rightarrow> get_multiple_accounts \<Rightarrow> jp_exn + deployment_reverification" where
  "reverifyGuardDeployment k result genesisHash rpc =
     bindE (resolveDeployment (k_decodeAddress k) (k_sha256 k) genesisHash rpc (Some (ps_programAddress result)))
       (\<lambda>current.
         case current of
           Inl code \<Rightarrow> Inr (DeploymentProblem code (ps_deployment result) None)
         | Inr d \<Rightarrow>
             if \<not> sameGuardDeployment (ps_deployment result) (dr_attestation d)
             then Inr (DeploymentProblem GUARD_DEPLOYMENT_CHANGED_failure (ps_deployment result)
                        (Some (dr_attestation d)))
             else Inr (SameDeployment (dr_attestation d)))"

section \<open>Entry points\<close>

definition supportsJupiterSwap ::
    "(string \<Rightarrow> bool) \<Rightarrow> js_value \<Rightarrow> get_multiple_accounts \<Rightarrow> jp_exn + jupiter_swap_support" where
  "supportsJupiterSwap isAddress raw rpc =
     (case parseBuildResponse isAddress raw of
        Inl (JupiterApiError status) \<Rightarrow> Inr (NotSupported None (ERROR_status INVALID_JUPITER_BUILD_failure))
      | Inl e \<Rightarrow> Inl e
      | Inr build \<Rightarrow>
          bindE (classify isAddress build rpc) (\<lambda>classified.
            case classified of
              C_PROTECTED mint direction kind known \<Rightarrow> Inr (STRUCTURALLY_SUPPORTED mint direction kind known)
            | C_NOT_APPLICABLE reason \<Rightarrow> Inr (NotSupported None (NOT_APPLICABLE_status reason))
            | C_UNSUPPORTED_ASSET code mint _ \<Rightarrow> Inr (NotSupported (Some mint) (UNSUPPORTED_ASSET_status code))
            | C_UNSUPPORTED code mint \<Rightarrow> Inr (NotSupported (Some mint) (UNSUPPORTED_ROUTE_status code))
            | C_ERROR code mint \<Rightarrow> Inr (NotSupported mint (ERROR_status code))))"

text \<open>Whether the caller's guard parameters cannot be honoured.\<close>

definition guardRequestIssue :: "protect_input \<Rightarrow> bool" where
  "guardRequestIssue input =
     (if \<not> isValidWindowSecs (pi_beforeSecs input) \<or> \<not> isValidWindowSecs (pi_afterSecs input) then True
      else
        let issue = (case pi_expectedPhase input of
              None \<Rightarrow> False
            | Some phase \<Rightarrow> pi_expectedState input = None \<or> (phase \<noteq> Pending \<and> phase \<noteq> Activated))
        in if issue then True
           else (case pi_expectedState input of
                   None \<Rightarrow> False
                 | Some state \<Rightarrow> pi_expectedPhase input = None \<and> hasScheduledChange state))"

fun number_of_value :: "js_value \<Rightarrow> js_number" where
  "number_of_value (JNumber x) = x"
| "number_of_value _ = JNaN"

definition protection_window_of :: "protect_input \<Rightarrow> protection_window" where
  "protection_window_of input =
     \<lparr>beforeSecs = number_of_value (pi_beforeSecs input), afterSecs = number_of_value (pi_afterSecs input)\<rparr>"

definition UNSIMULATED_COMPUTE_UNIT_LIMIT :: js_number where
  "UNSIMULATED_COMPUTE_UNIT_LIMIT = JNum 1400000"

definition defaultComputeUnitLimit :: "build_response \<Rightarrow> js_number" where
  "defaultComputeUnitLimit build =
     (case find (\<lambda>i. let data = base64Data (ai_data i) in
                  length data = snd SET_COMPUTE_UNIT_LIMIT \<and> js_index data 0 = Some (fst SET_COMPUTE_UNIT_LIMIT))
             (br_computeBudgetInstructions build) of
        None \<Rightarrow> UNSIMULATED_COMPUTE_UNIT_LIMIT
      | Some i \<Rightarrow> JNum (of_nat (le_nat (bytes_at 1 4 (base64Data (ai_data i))))))"

definition guardVerdict ::
    "assert_safe_execution_request \<Rightarrow> guard_snapshot \<Rightarrow> js_exn + equity_guard_error option" where
  "guardVerdict expectation snapshot =
     checkGuardOffline expectation (gs_state snapshot) (unixTimestamp (gs_clock snapshot))"

definition economicFailure :: "equity_guard_error \<Rightarrow> address \<Rightarrow> protect_result" where
  "economicFailure verdict mint =
     ERROR_result (if verdict = InsideTransitionWindow then INSIDE_TRANSITION_WINDOW_failure
                   else ECONOMIC_STATE_CHANGED_failure) (Some mint) (Some verdict) []"

fun stateFailureCode :: "guard_client_error_code \<Rightarrow> equity_guard_failure_code" where
  "stateFailureCode InvalidExtensionCombination_code = UNSUPPORTED_TOKEN_STATE_failure"
| "stateFailureCode AccountNotFound_code = MINT_STATE_UNAVAILABLE_failure"
| "stateFailureCode InvalidClockData_code = MINT_STATE_UNAVAILABLE_failure"
| "stateFailureCode InvalidExpectedState_code = INVALID_GUARD_REQUEST_failure"
| "stateFailureCode InvalidProtectionWindow_code = INVALID_GUARD_REQUEST_failure"
| "stateFailureCode _ = MALFORMED_TOKEN_STATE_failure"

definition compositionFailure :: "jp_exn \<Rightarrow> address \<Rightarrow> jp_exn + protect_result" where
  "compositionFailure error mint =
     (case error of
        UnsupportedJupiterBuildError reasons \<Rightarrow>
          Inr (UNSUPPORTED_PROTECTED_ROUTE UNSUPPORTED_ROUTE_SHAPE_failure mint None (map Reason reasons))
      | GuardError (GuardClientError code guardError) \<Rightarrow>
          if code = UnsupportedJupiterTrade_code \<or> code = InvalidDownstream_code
          then Inr (UNSUPPORTED_PROTECTED_ROUTE UNSUPPORTED_ROUTE_SHAPE_failure mint guardError [MessageOf error])
          else Inr (ERROR_result (stateFailureCode code) (Some mint) guardError [MessageOf error])
      | CompositionError code \<Rightarrow>
          if code = TRANSACTION_TOO_LARGE
          then Inr (UNSUPPORTED_PROTECTED_ROUTE TRANSACTION_TOO_LARGE_failure mint None [MessageOf error])
          else if code = MISSING_COMPUTE_UNIT_PRICE
          then Inr (UNSUPPORTED_PROTECTED_ROUTE UNSUPPORTED_ROUTE_SHAPE_failure mint None [MessageOf error])
          else if code = INVALID_COMPUTE_UNIT_LIMIT
          then Inr (ERROR_result INVALID_GUARD_REQUEST_failure (Some mint) None [MessageOf error])
          else Inr (ERROR_result COMMITMENT_FAILURE_failure (Some mint) None [MessageOf error])
      | _ \<Rightarrow> Inl error)"

text \<open>The two checks against the snapshot: the state quoted against, if any, and the one read now.\<close>

definition economic_checks ::
    "protect_input \<Rightarrow> guard_snapshot \<Rightarrow> assert_safe_execution_request \<Rightarrow> js_exn + equity_guard_error option" where
  "economic_checks input snapshot expectation =
     bindE (case pi_expectedState input of
              None \<Rightarrow> Inr None
            | Some state \<Rightarrow>
                guardVerdict
                  \<lparr>expected = state,
                   expectedPhase = (case pi_expectedPhase input of None \<Rightarrow> gs_phase snapshot | Some p \<Rightarrow> p),
                   window = protection_window_of input\<rparr> snapshot) (\<lambda>moved.
       case moved of Some e \<Rightarrow> Inr (Some e) | None \<Rightarrow> guardVerdict expectation snapshot)"

text \<open>From a classified protected mint and a deployment to the result.\<close>

definition protect_with_snapshot ::
    "kit \<Rightarrow> protect_input \<Rightarrow> build_response \<Rightarrow> address \<Rightarrow> swap_direction \<Rightarrow> int \<Rightarrow> known_protected_asset option \<Rightarrow>
       resolved_deployment \<Rightarrow> guard_snapshot \<Rightarrow> jp_exn + protect_result" where
  "protect_with_snapshot k input build mint direction kind known deployment snapshot =
     (let expectation = expectationFromSnapshot snapshot (protection_window_of input) in
      bindE (lift_guard (economic_checks input snapshot expectation)) (\<lambda>verdict.
        case verdict of
          Some e \<Rightarrow> Inr (economicFailure e mint)
        | None \<Rightarrow>
            (case composeGuardedJupiterTrade k
                    \<lparr>tr_adapterKind = kind, tr_protectedMint = mint, tr_taker = pi_userPublicKey input,
                     tr_computeUnitLimit = (case pi_computeUnitLimit input of
                        None \<Rightarrow> defaultComputeUnitLimit build | Some l \<Rightarrow> l)\<rparr>
                    build (dr_programAddress deployment) (pi_userPublicKey input) expectation of
               Inl error \<Rightarrow> compositionFailure error mint
             | Inr composed \<Rightarrow>
                 Inr (PROTECTED
                   \<lparr>ps_protectedMint = mint, ps_direction = direction, ps_adapterKind = kind,
                    ps_programAddress = dr_programAddress deployment,
                    ps_deploymentIdentity = dr_identity deployment, ps_deployment = dr_attestation deployment,
                    ps_cluster = dr_cluster deployment, ps_knownAsset = known,
                    ps_transaction = gc_wireBytes composed,
                    ps_transactionBase64 = k_base64Text k (gc_wireBytes composed),
                    ps_instructions = gj_instructions (gc_trade composed),
                    ps_lookupTables = br_addressesByLookupTableAddress build, ps_binding = gc_binding composed,
                    ps_metrics = gc_metrics composed, ps_snapshot = snapshot\<rparr>))))"

definition protect_classified ::
    "kit \<Rightarrow> rpc_endpoint \<Rightarrow> protect_input \<Rightarrow> build_response \<Rightarrow> address \<Rightarrow> swap_direction \<Rightarrow> int \<Rightarrow>
       known_protected_asset option \<Rightarrow> jp_exn + protect_result" where
  "protect_classified k ep input build mint direction kind known =
     (if guardRequestIssue input then Inr (ERROR_result INVALID_GUARD_REQUEST_failure (Some mint) None [])
      else
        bindE (resolveDeployment (k_decodeAddress k) (k_sha256 k) (ep_genesisHash ep) (ep_accounts ep 1)
                 (pi_programAddress input)) (\<lambda>deployment.
          case deployment of
            Inl code \<Rightarrow> Inr (ERROR_result code (Some mint) None [])
          | Inr d \<Rightarrow>
              (case fetchGuardSnapshot (ep_accounts ep 2) mint of
                 Inl (GuardClientError code g) \<Rightarrow>
                   Inr (ERROR_result (stateFailureCode code) (Some mint) None
                          [MessageOf (GuardError (GuardClientError code g))])
               | Inl e \<Rightarrow> Inl (GuardError e)
               | Inr snapshot \<Rightarrow> protect_with_snapshot k input build mint direction kind known d snapshot)))"

definition protectJupiterSwap :: "kit \<Rightarrow> rpc_endpoint \<Rightarrow> protect_input \<Rightarrow> jp_exn + protect_result" where
  "protectJupiterSwap k ep input =
     (case parseBuildResponse (k_isAddress k) (pi_build input) of
        Inl (JupiterApiError status) \<Rightarrow> Inr (ERROR_result INVALID_JUPITER_BUILD_failure None None [])
      | Inl e \<Rightarrow> Inl e
      | Inr build \<Rightarrow>
          bindE (classify (k_isAddress k) build (ep_accounts ep 0)) (\<lambda>classified.
            case classified of
              C_NOT_APPLICABLE reason \<Rightarrow> Inr (NOT_APPLICABLE reason)
            | C_UNSUPPORTED_ASSET code mint known \<Rightarrow> Inr (UNSUPPORTED_PROTECTED_ASSET code mint known)
            | C_UNSUPPORTED code mint \<Rightarrow> Inr (UNSUPPORTED_PROTECTED_ROUTE code mint None [])
            | C_ERROR code mint \<Rightarrow> Inr (ERROR_result code mint None [])
            | C_PROTECTED mint direction kind known \<Rightarrow>
                protect_classified k ep input build mint direction kind known))"

section \<open>Verification of a protected transaction\<close>

datatype verification_problem =
    GuardErrorName equity_guard_error | UNRESOLVABLE_TRANSACTION_verdict | GUARD_INSTRUCTION_CHANGED

definition verifyProtectedSwap ::
    "kit \<Rightarrow> protected_swap \<Rightarrow> bytes \<Rightarrow> jp_exn + verification_problem option" where
  "verifyProtectedSwap k result wireBytes =
     (let resolve = (\<lambda>wire. resolveWireTransaction (k_isAddress k) (k_decodeWire k) wire (ps_lookupTables result)) in
      case bindE (resolve wireBytes) (\<lambda>instructions.
           bindE (resolve (ps_transaction result)) (\<lambda>built. Inr (instructions, built))) of
        Inl (CompositionError c) \<Rightarrow> Inr (Some UNRESOLVABLE_TRANSACTION_verdict)
      | Inl e \<Rightarrow> Inl e
      | Inr (instructions, built) \<Rightarrow>
          if \<not> sameInstructions (take 1 instructions) (take 1 built) then Inr (Some GUARD_INSTRUCTION_CHANGED)
          else bindE (lift_guard (checkGuardedJupiterTransaction (k_encode k) (k_derive k) (k_sha256 k) instructions 0
                 (ps_adapterKind result) (ps_protectedMint result)
                 (hex_bytes (suffixCommitmentHex (ps_binding result))))) (\<lambda>v. Inr (map_option GuardErrorName v)))"

section \<open>Facts\<close>

text \<open>The candidates loop: every candidate was read and settled, or the loop stopped at a refusal.\<close>

definition settled :: "rpc_account option list \<Rightarrow> (address \<times> known_protected_asset option) list \<Rightarrow> nat \<times> address \<Rightarrow> bool" where
  "settled accts found candidate =
     (case rpc_value accts (fst candidate) of
        None \<Rightarrow> False
      | Some account \<Rightarrow>
          (case verdictFor (snd candidate) (rpc_owner account) (base64Data (rpc_data account)) of
             Inr (MV_protected k) \<Rightarrow> (snd candidate, k) \<in> set found
           | Inr (MV_ordinary _) \<Rightarrow> True
           | _ \<Rightarrow> False))"

lemma settled_mono: "settled accts found c \<Longrightarrow> set found \<subseteq> set found' \<Longrightarrow> settled accts found' c"
  by (auto simp: settled_def split: option.splits sum.splits mint_verdict.splits)

lemma classify_loop_ok:
  "classify_loop accts cs mints reason = Inr (Inr (mints', reason')) \<Longrightarrow>
    \<exists>new. mints' = mints @ new \<and> fst ` set new \<subseteq> snd ` set cs \<and> list_all (settled accts mints') cs"
proof (induction accts cs mints reason rule: classify_loop.induct)
  case (1 accts mints reason)
  then show ?case by simp
next
  case (2 accts index mint rest mints reason)
  obtain account v where a: "rpc_value accts index = Some account"
      "verdictFor mint (rpc_owner account) (base64Data (rpc_data account)) = Inr v"
    using 2(3) by (auto simp: err_simps split: option.splits)
  show ?case
  proof (cases v)
    case (MV_protected k)
    then obtain new where "mints' = (mints @ [(mint, k)]) @ new" "fst ` set new \<subseteq> snd ` set rest"
      "list_all (settled accts mints') rest"
      using 2(1) [OF a MV_protected] 2(3) a by auto
    moreover from this a MV_protected have "settled accts mints' (index, mint)" by (simp add: settled_def)
    ultimately show ?thesis by auto
  next
    case (MV_ordinary r)
    then obtain new where "mints' = mints @ new" "fst ` set new \<subseteq> snd ` set rest"
      "list_all (settled accts mints') rest"
      using 2(2) [OF a MV_ordinary] 2(3) a by auto
    moreover from a MV_ordinary have "settled accts mints' (index, mint)" by (simp add: settled_def)
    ultimately show ?thesis by auto
  next
    case (MV_refusal c)
    with 2(3) a show ?thesis by simp
  qed
qed

text \<open>A refusal is an error or an unsupported asset; the remaining classifications are \<open>open\<close>.\<close>

fun refusal :: "classification \<Rightarrow> bool" where
  "refusal (C_ERROR _ _) = True"
| "refusal (C_UNSUPPORTED_ASSET _ _ _) = True"
| "refusal _ = False"

lemma verdictFor_refusal: "verdictFor mint owner data = Inr (MV_refusal c) \<Longrightarrow> refusal c"
  unfolding verdictFor_def bindE_eq_Inr
  by (elim exE conjE, rename_tac x, case_tac x) auto

lemma classify_loop_refusal: "classify_loop accts cs mints reason = Inr (Inl c) \<Longrightarrow> refusal c"
proof (induction accts cs mints reason rule: classify_loop.induct)
  case (1 accts mints reason)
  then show ?case by simp
next
  case (2 accts index mint rest mints reason)
  show ?case
  proof (cases "rpc_value accts index")
    case None
    with 2(3) show ?thesis by auto
  next
    case (Some account)
    then obtain v where v: "verdictFor mint (rpc_owner account) (base64Data (rpc_data account)) = Inr v"
      using 2(3) by (auto simp: err_simps)
    with 2 Some verdictFor_refusal show ?thesis by (cases v) auto
  qed
qed

definition swap_candidates :: "build_response \<Rightarrow> address list" where
  "swap_candidates build = filter (\<lambda>mint. mint \<noteq> USDC_MINT_ADDRESS) [br_inputMint build, br_outputMint build]"

lemma classify_eq:
  assumes "br_inputMint build \<noteq> br_outputMint build"
  shows "classify isAddress build rpc =
     (if reportedMintMismatch build then Inr (C_ERROR INVALID_JUPITER_BUILD_failure None)
      else if \<not> isAddress (br_inputMint build) \<or> \<not> isAddress (br_outputMint build) then Inl KitError
      else
        bindE (lift_guard (rpc (swap_candidates build))) (\<lambda>(ctx, accts).
        bindE (classify_loop accts (enumerate 0 (swap_candidates build)) [] NO_TOKEN_2022_MINT_reason) (\<lambda>outcome.
          case outcome of
            Inl c \<Rightarrow> Inr c
          | Inr (mints, reason) \<Rightarrow> Inr (classify_pair (br_inputMint build) (br_outputMint build) mints reason))))"
  using assms by (simp add: classify_def kit_address_def swap_candidates_def Let_def del: filter.simps)

lemma classify_ok:
  assumes "classify isAddress build rpc = Inr c" and "\<not> refusal c" and ne: "br_inputMint build \<noteq> br_outputMint build"
  shows "\<not> reportedMintMismatch build \<and> (\<exists>ctx accts mints reason.
      rpc (swap_candidates build) = Inr (ctx, accts) \<and>
      classify_loop accts (enumerate 0 (swap_candidates build)) [] NO_TOKEN_2022_MINT_reason = Inr (Inr (mints, reason)) \<and>
      c = classify_pair (br_inputMint build) (br_outputMint build) mints reason)"
proof -
  have m: "\<not> reportedMintMismatch build" using assms by (auto simp: classify_eq [OF ne])
  obtain ctx accts out where o: "rpc (swap_candidates build) = Inr (ctx, accts)"
      "classify_loop accts (enumerate 0 (swap_candidates build)) [] NO_TOKEN_2022_MINT_reason = Inr out"
    using assms(1) m by (auto simp: classify_eq [OF ne] err_simps split: if_splits)
  with assms(1) m have "(case out of Inl c \<Rightarrow> Inr c
     | Inr (mints, reason) \<Rightarrow> Inr (classify_pair (br_inputMint build) (br_outputMint build) mints reason)) = (Inr c :: jp_exn + classification)"
    by (auto simp: classify_eq [OF ne] split: if_splits)
  with o m assms(2) classify_loop_refusal show ?thesis by (cases out) auto
qed

lemma classify_self: "classify isAddress build rpc = Inr c \<Longrightarrow> br_inputMint build = br_outputMint build \<Longrightarrow>
    refusal c \<or> c = C_UNSUPPORTED UNSUPPORTED_ROUTE_SHAPE_failure (br_inputMint build)"
  by (auto simp: classify_def kit_address_def split: if_splits)

lemma snd_enumerate: "snd ` set (enumerate n xs) = set xs"
  by (metis list.set_map map_snd_enumerate)

lemma classify_protected:
  assumes "classify isAddress build rpc = Inr (C_PROTECTED mint direction kind known)"
  shows "(direction = BUY \<and> kind = JUPITER_ROUTE_V2_BUY_USDC \<and> br_inputMint build = USDC_MINT_ADDRESS \<and> br_outputMint build = mint) \<or>
    (direction = SELL \<and> kind = JUPITER_ROUTE_V2_SELL_USDC \<and> br_inputMint build = mint \<and> br_outputMint build = USDC_MINT_ADDRESS)"
proof -
  have ne: "br_inputMint build \<noteq> br_outputMint build" using classify_self [OF assms] by auto
  obtain accts mints reason where p:
      "classify_loop accts (enumerate 0 (swap_candidates build)) [] NO_TOKEN_2022_MINT_reason = Inr (Inr (mints, reason))"
      "C_PROTECTED mint direction kind known = classify_pair (br_inputMint build) (br_outputMint build) mints reason"
    using classify_ok [OF assms _ ne] by auto
  have "fst ` set mints \<subseteq> set (swap_candidates build)"
    using classify_loop_ok [OF p(1)] by (auto simp: snd_enumerate)
  with p(2) ne show ?thesis
    by (auto simp: classify_pair_def swap_candidates_def Let_def split: list.splits if_splits)
qed

text \<open>What a positive \<open>NOT_APPLICABLE\<close> rests on, for one candidate of the read.\<close>

definition read_as_ordinary :: "rpc_account option list \<Rightarrow> nat \<Rightarrow> address \<Rightarrow> bool" where
  "read_as_ordinary accts i mint \<longleftrightarrow>
     (\<exists>account. rpc_value accts i = Some account \<and>
        findKnownProtectedAsset mint KNOWN_PROTECTED_ASSETS = None \<and>
        decodeProtectedState (rpc_owner account) (base64Data (rpc_data account)) \<in>
          {Inl (GuardClientError InvalidMintOwner_code None), Inl (GuardClientError MissingScaledUiAmount_code None)})"

lemma settled_ordinary: "settled accts [] (i, mint) \<Longrightarrow> read_as_ordinary accts i mint"
proof -
  assume s: "settled accts [] (i, mint)"
  then obtain account r where a: "rpc_value accts i = Some account"
      "verdictFor mint (rpc_owner account) (base64Data (rpc_data account)) = Inr (MV_ordinary r)"
    by (auto simp: settled_def split: option.splits sum.splits mint_verdict.splits)
  then obtain reason where "resolveProtectionAdapter mint (rpc_owner account) (base64Data (rpc_data account)) None
      = Inr (NOT_PROTECTED reason)"
    unfolding verdictFor_def bindE_eq_Inr lift_guard_eq
    by (elim exE conjE, rename_tac x, case_tac x) auto
  from resolve_not_protected [OF this] a(1) show ?thesis by (auto simp: read_as_ordinary_def)
qed

lemma classify_not_applicable:
  assumes "classify isAddress build rpc = Inr (C_NOT_APPLICABLE reason)"
  shows "\<not> reportedMintMismatch build \<and> (\<exists>ctx accts. rpc (swap_candidates build) = Inr (ctx, accts) \<and>
    (\<forall>i < length (swap_candidates build). read_as_ordinary accts i (swap_candidates build ! i)))"
proof -
  have ne: "br_inputMint build \<noteq> br_outputMint build" using classify_self [OF assms] by auto
  obtain ctx accts mints r where p: "rpc (swap_candidates build) = Inr (ctx, accts)"
      "classify_loop accts (enumerate 0 (swap_candidates build)) [] NO_TOKEN_2022_MINT_reason = Inr (Inr (mints, r))"
      "C_NOT_APPLICABLE reason = classify_pair (br_inputMint build) (br_outputMint build) mints r"
    and m: "\<not> reportedMintMismatch build"
    using classify_ok [OF assms _ ne] by auto
  have "mints = []" using p(3) by (auto simp: classify_pair_def Let_def split: list.splits if_splits)
  with classify_loop_ok [OF p(2)] have "list_all (settled accts []) (enumerate 0 (swap_candidates build))" by simp
  then have "\<forall>i < length (swap_candidates build). settled accts [] (i, swap_candidates build ! i)"
    by (auto simp: list_all_length nth_enumerate_eq)
  with p(1) m settled_ordinary show ?thesis by blast
qed

lemma compositionFailure_not_protected: "compositionFailure e mint \<noteq> Inr (PROTECTED s)"
  by (cases e) (auto simp: compositionFailure_def split: js_exn.splits)

lemma compositionFailure_not_na: "compositionFailure e mint \<noteq> Inr (NOT_APPLICABLE r)"
  by (cases e) (auto simp: compositionFailure_def split: js_exn.splits)

lemma protect_with_snapshot_not_na: "protect_with_snapshot k input build mint direction kind known d snap \<noteq> Inr (NOT_APPLICABLE r)"
  using compositionFailure_not_na
  by (auto simp: protect_with_snapshot_def Let_def err_simps economicFailure_def split: option.splits sum.splits)

lemma protect_classified_not_na: "protect_classified k ep input build mint direction kind known \<noteq> Inr (NOT_APPLICABLE r)"
proof
  assume a: "protect_classified k ep input build mint direction kind known = Inr (NOT_APPLICABLE r)"
  then obtain x where x: "resolveDeployment (k_decodeAddress k) (k_sha256 k) (ep_genesisHash ep) (ep_accounts ep 1)
      (pi_programAddress input) = Inr x" "\<not> guardRequestIssue input"
    by (auto simp: protect_classified_def err_simps split: if_splits)
  with a protect_with_snapshot_not_na show False
    by (cases x) (auto simp: protect_classified_def split: sum.splits js_exn.splits)
qed

definition protect_request :: "protect_input \<Rightarrow> build_response \<Rightarrow> protected_swap \<Rightarrow> jupiter_trade_request" where
  "protect_request input build s =
     \<lparr>tr_adapterKind = ps_adapterKind s, tr_protectedMint = ps_protectedMint s, tr_taker = pi_userPublicKey input,
      tr_computeUnitLimit = (case pi_computeUnitLimit input of None \<Rightarrow> defaultComputeUnitLimit build | Some l \<Rightarrow> l)\<rparr>"

lemma protect_with_snapshot_ok:
  assumes "protect_with_snapshot k input build mint direction kind known d snap = Inr (PROTECTED s)"
  shows "ps_protectedMint s = mint" and "ps_direction s = direction" and "ps_adapterKind s = kind"
    and "ps_knownAsset s = known" and "ps_snapshot s = snap" and "ps_programAddress s = dr_programAddress d"
    and "ps_deployment s = dr_attestation d" and "ps_deploymentIdentity s = dr_identity d" and "ps_cluster s = dr_cluster d"
    and "economic_checks input snap (expectationFromSnapshot snap (protection_window_of input)) = Inr None"
    and "\<exists>c. composeGuardedJupiterTrade k (protect_request input build s) build (ps_programAddress s)
           (pi_userPublicKey input) (expectationFromSnapshot snap (protection_window_of input)) = Inr c \<and>
         ps_transaction s = gc_wireBytes c \<and> ps_binding s = gc_binding c \<and>
         ps_lookupTables s = br_addressesByLookupTableAddress build"
  using assms compositionFailure_not_protected
  by (auto simp: protect_with_snapshot_def Let_def err_simps economicFailure_def protect_request_def
      split: option.splits sum.splits)

lemma protect_ok:
  assumes "protectJupiterSwap k ep input = Inr (PROTECTED s)"
  shows "\<exists>build d. parseBuildResponse (k_isAddress k) (pi_build input) = Inr build \<and>
    classify (k_isAddress k) build (ep_accounts ep 0) =
      Inr (C_PROTECTED (ps_protectedMint s) (ps_direction s) (ps_adapterKind s) (ps_knownAsset s)) \<and>
    \<not> guardRequestIssue input \<and>
    resolveDeployment (k_decodeAddress k) (k_sha256 k) (ep_genesisHash ep) (ep_accounts ep 1) (pi_programAddress input)
      = Inr (Inr d) \<and>
    fetchGuardSnapshot (ep_accounts ep 2) (ps_protectedMint s) = Inr (ps_snapshot s) \<and>
    protect_with_snapshot k input build (ps_protectedMint s) (ps_direction s) (ps_adapterKind s) (ps_knownAsset s) d
      (ps_snapshot s) = Inr (PROTECTED s)"
proof -
  obtain build where b: "parseBuildResponse (k_isAddress k) (pi_build input) = Inr build"
    using assms by (auto simp: protectJupiterSwap_def split: sum.splits jp_exn.splits)
  then obtain c where c: "classify (k_isAddress k) build (ep_accounts ep 0) = Inr c"
    using assms by (auto simp: protectJupiterSwap_def err_simps)
  with b assms obtain mint dir kind known where C: "c = C_PROTECTED mint dir kind known"
      and p: "protect_classified k ep input build mint dir kind known = Inr (PROTECTED s)"
    by (cases c) (auto simp: protectJupiterSwap_def)
  have g: "\<not> guardRequestIssue input" using p by (auto simp: protect_classified_def split: if_splits)
  with p obtain r where r: "resolveDeployment (k_decodeAddress k) (k_sha256 k) (ep_genesisHash ep) (ep_accounts ep 1)
      (pi_programAddress input) = Inr r"
    by (auto simp: protect_classified_def err_simps)
  with p g obtain d where d: "resolveDeployment (k_decodeAddress k) (k_sha256 k) (ep_genesisHash ep) (ep_accounts ep 1)
      (pi_programAddress input) = Inr (Inr d)"
    by (cases r) (auto simp: protect_classified_def)
  obtain snap where f: "fetchGuardSnapshot (ep_accounts ep 2) mint = Inr snap"
      and w: "protect_with_snapshot k input build mint dir kind known d snap = Inr (PROTECTED s)"
    using p d g by (auto simp: protect_classified_def split: sum.splits js_exn.splits)
  note e = protect_with_snapshot_ok(1-5) [OF w]
  from b c C d g f w show ?thesis unfolding e by auto
qed

lemma case_outcome:
  "(case x of Inl a \<Rightarrow> Inr (Inl (f a)) | Inr b \<Rightarrow> Inr (Inr (g b))) = Inr (Inr y) \<longleftrightarrow> (\<exists>b. x = Inr b \<and> g b = y)"
  by (cases x) auto

lemma resolveDeployment_ok:
  assumes "resolveDeployment decodeAddress sha256 genesisHash rpc requested = Inr (Inr d)"
  shows "(case findReviewedGuardDeployment (dr_programAddress d) of
      None \<Rightarrow> dr_attestation d = callerTrustedAttestation (dr_programAddress d)
    | Some r \<Rightarrow> \<exists>ctx accts. rpc [dr_programAddress d, rd_programDataAddress r] = Inr (ctx, accts) \<and>
        verifyReviewedGuardDeployment decodeAddress sha256 r (loader_view accts 0) (loader_view accts 1)
          = Inr (dr_attestation d)) \<and>
    dr_identity d = at_identity (dr_attestation d) \<and>
    (requested = None \<longrightarrow> dr_cluster d = devnet \<and> dr_programAddress d = EQUITY_GUARD_DEVNET_PROGRAM_ID) \<and>
    (\<forall>a. requested = Some a \<longrightarrow> dr_programAddress d = a)"
  using assms
  by (auto simp: resolveDeployment_def Let_def err_simps deploymentForCluster_def case_outcome
      split: if_splits option.splits)

lemma resolveDeployment_identity:
  assumes "resolveDeployment decodeAddress sha256 genesisHash rpc requested = Inr (Inr d)"
  shows "case findReviewedGuardDeployment (dr_programAddress d) of
      None \<Rightarrow> dr_identity d = CALLER_TRUSTED
    | Some r \<Rightarrow> dr_identity d = REVIEWED_BINARY \<and>
        (\<exists>ctx accts v elf n. rpc [dr_programAddress d, rd_programDataAddress r] = Inr (ctx, accts) \<and>
           loader_view accts 1 = Some v \<and> drop 45 (la_data v) = elf @ replicate n 0 \<and>
           length elf = elfLength r \<and> hexOf (sha256 elf) = elfSha256 r)"
proof (cases "findReviewedGuardDeployment (dr_programAddress d)")
  case None
  with resolveDeployment_ok [OF assms] show ?thesis by (simp add: callerTrustedAttestation_def)
next
  case (Some r)
  with resolveDeployment_ok [OF assms] obtain ctx accts where
      "rpc [dr_programAddress d, rd_programDataAddress r] = Inr (ctx, accts)"
      and v: "verifyReviewedGuardDeployment decodeAddress sha256 r (loader_view accts 0) (loader_view accts 1)
          = Inr (dr_attestation d)"
      and "dr_identity d = at_identity (dr_attestation d)"
    by auto
  with Some verifyReviewed_ok [OF v] show ?thesis by simp blast
qed

lemma verify_ok:
  assumes "resolveWireTransaction (k_isAddress k) (k_decodeWire k) wire (ps_lookupTables s) = Inr ixs"
    and "resolveWireTransaction (k_isAddress k) (k_decodeWire k) (ps_transaction s) (ps_lookupTables s) = Inr built"
  shows "verifyProtectedSwap k s wire = Inr None \<longleftrightarrow>
     take 1 ixs = take 1 built \<and>
     checkGuardedJupiterTransaction (k_encode k) (k_derive k) (k_sha256 k) ixs 0 (ps_adapterKind s) (ps_protectedMint s)
       (hex_bytes (suffixCommitmentHex (ps_binding s))) = Inr None"
  using assms by (auto simp: verifyProtectedSwap_def Let_def err_simps sameInstructions_iff)

lemma binding_commitment:
  "jupiterTradeBindingOf t = Inr b \<Longrightarrow> suffixCommitmentHex b = hexOf (gj_commitment t)"
  by (auto simp: jupiterTradeBindingOf_def Let_def err_simps)

text \<open>The protected transaction as it resolves, with its commitment.\<close>

lemma protected_resolves:
  assumes "protectJupiterSwap k ep input = Inr (PROTECTED s)"
  shows "length (ps_transaction s) \<le> 1232 \<and> (\<exists>built commitment.
     resolveWireTransaction (k_isAddress k) (k_decodeWire k) (ps_transaction s) (ps_lookupTables s) = Inr built \<and>
     hex_bytes (suffixCommitmentHex (ps_binding s)) = commitment \<and>
     jupiterSuffixCommitment (k_encode k) (k_sha256 k) (drop 1 built) = Inr commitment \<and>
     checkGuardedJupiterTransaction (k_encode k) (k_derive k) (k_sha256 k) built 0 (ps_adapterKind s)
       (ps_protectedMint s) commitment = Inr None)"
proof -
  obtain build d where "protect_with_snapshot k input build (ps_protectedMint s) (ps_direction s) (ps_adapterKind s)
      (ps_knownAsset s) d (ps_snapshot s) = Inr (PROTECTED s)"
    using protect_ok [OF assms] by blast
  note w = protect_with_snapshot_ok [OF this]
  obtain c where c: "composeGuardedJupiterTrade k (protect_request input build s) build (ps_programAddress s)
      (pi_userPublicKey input) (expectationFromSnapshot (ps_snapshot s) (protection_window_of input)) = Inr c"
      and eqs: "ps_transaction s = gc_wireBytes c" "ps_binding s = gc_binding c"
        "ps_lookupTables s = br_addressesByLookupTableAddress build"
    using w(11) by blast
  obtain suffix built where o:
      "buildGuardedJupiterTrade (k_encode k) (k_derive k) (k_sha256 k) (ps_programAddress s) (pi_userPublicKey input)
        (ps_protectedMint s) (ps_adapterKind s)
        (expectationFromSnapshot (ps_snapshot s) (protection_window_of input)) suffix = Inr (gc_trade c)"
      "length (gc_wireBytes c) \<le> 1232"
      "resolveWireTransaction (k_isAddress k) (k_decodeWire k) (gc_wireBytes c) (br_addressesByLookupTableAddress build)
        = Inr built" "drop 1 built = committedSuffix (gc_trade c)"
      "jupiterTradeBindingOf (gc_trade c) = Inr (gc_binding c)"
    using compose_ok [OF c] by (auto simp: protect_request_def)
  have h: "hex_bytes (suffixCommitmentHex (ps_binding s)) = gj_commitment (gc_trade c)"
    unfolding eqs(2) binding_commitment [OF o(5)] by simp
  show ?thesis
    using o(2-4) h eqs built_trade_checks [OF o(1) o(4)] build_ok(6) [OF o(1)] by simp
qed

section \<open>A concrete run\<close>

text \<open>The sample build as raw JSON, an endpoint that serves the sample mint, and a caller-trusted program.\<close>

definition raw_instruction :: "api_instruction \<Rightarrow> js_value" where
  "raw_instruction i =
     JObject [(''programId'', JString (ai_programId i)),
       (''accounts'', JArray (map (\<lambda>m. JObject [(''pubkey'', JString (aa_pubkey m)), (''isSigner'', JBool (aa_isSigner m)),
          (''isWritable'', JBool (aa_isWritable m))]) (ai_accounts i))),
       (''data'', JString (ai_data i))]"

definition sample_raw :: js_value where
  "sample_raw =
     JObject [(''inputMint'', JString USDC_MINT_ADDRESS), (''outputMint'', JString ''MINT''), (''inAmount'', JString ''1''),
       (''outAmount'', JString ''512''), (''otherAmountThreshold'', JString ''510''), (''swapMode'', JString ''ExactIn''),
       (''slippageBps'', JNumber (JNum 50)), (''routePlan'', JArray []),
       (''computeBudgetInstructions'', JArray (map raw_instruction (br_computeBudgetInstructions sample_build))),
       (''setupInstructions'', JArray []), (''swapInstruction'', raw_instruction (br_swapInstruction sample_build)),
       (''blockhashWithMetadata'', JObject [(''blockhash'', JArray (replicate 32 (JNumber (JNum 0)))),
          (''lastValidBlockHeight'', JNumber (JNum 9))])]"

lemma sample_parse: "parseBuildResponse (\<lambda>_. True) sample_raw = Inr sample_build"
  by code_simp

definition sample_endpoint :: rpc_endpoint where
  "sample_endpoint =
     \<lparr>ep_accounts = (\<lambda>n. if n = 1
        then (\<lambda>_. Inr (7, [Some \<lparr>rpc_owner = ''loader'', rpc_data = [], rpc_executable = True\<rparr>]))
        else sample_rpc),
      ep_genesisHash = Inr ''local''\<rparr>"

definition sample_input :: protect_input where
  "sample_input =
     \<lparr>pi_build = sample_raw, pi_userPublicKey = ''AUTH'', pi_beforeSecs = JNumber (JNum 60),
      pi_afterSecs = JNumber (JNum 30), pi_programAddress = Some ''GUARD'', pi_computeUnitLimit = Some (JNum 0),
      pi_expectedState = Some sample_state, pi_expectedPhase = Some Pending\<rparr>"

lemma sample_classify:
  "classify (\<lambda>_. True) sample_build sample_rpc = Inr (C_PROTECTED ''MINT'' BUY JUPITER_ROUTE_V2_BUY_USDC None)"
proof -
  have ne: "br_inputMint sample_build \<noteq> br_outputMint sample_build" "\<not> reportedMintMismatch sample_build"
    by code_simp+
  have c: "swap_candidates sample_build = [''MINT'']" by code_simp
  have k: "findKnownProtectedAsset ''MINT'' KNOWN_PROTECTED_ASSETS = None" by code_simp
  have "verdictFor ''MINT'' TOKEN_2022_PROGRAM_ADDRESS (mint_account sample_base sample_extensions []) = Inr (MV_protected None)"
    by (simp add: verdictFor_def resolveProtectionAdapter_def k sample_mint_decodes)
  then obtain ctx accts where r: "sample_rpc [''MINT''] = Inr (ctx, accts)"
    and "classify_loop accts (enumerate 0 [''MINT'']) [] NO_TOKEN_2022_MINT_reason =
      Inr (Inr ([(''MINT'', None)], NO_TOKEN_2022_MINT_reason))"
    by (simp add: sample_rpc_def rpc_value_def base64Data_encode)
  moreover have "classify_pair (br_inputMint sample_build) (br_outputMint sample_build) [(''MINT'', None)]
      NO_TOKEN_2022_MINT_reason = C_PROTECTED ''MINT'' BUY JUPITER_ROUTE_V2_BUY_USDC None"
    by (simp add: classify_pair_def sample_build_def)
  ultimately show ?thesis
    using ne r by (simp add: classify_eq c)
qed

lemma sample_protected: "\<exists>s. protectJupiterSwap sample_kit sample_endpoint sample_input = Inr (PROTECTED s)"
proof -
  let ?d = "\<lparr>dr_programAddress = ''GUARD'', dr_cluster = unknown_cluster, dr_identity = CALLER_TRUSTED,
    dr_attestation = callerTrustedAttestation ''GUARD''\<rparr>"
  let ?e = "expectationFromSnapshot (sample_snapshot\<lparr>gs_mint := ''MINT''\<rparr>) (protection_window_of sample_input)"
  have "findReviewedGuardDeployment ''GUARD'' = None" "clusterFromGenesisHash ''local'' = unknown_cluster"
    by (simp_all add: findReviewedGuardDeployment_def REVIEWED_GUARD_DEPLOYMENTS_def EQUITY_GUARD_DEVNET_PROGRAM_ID_def
        clusterFromGenesisHash_def SOLANA_GENESIS_HASH_def)
  then have d: "resolveDeployment (k_decodeAddress sample_kit) (k_sha256 sample_kit) (ep_genesisHash sample_endpoint)
      (ep_accounts sample_endpoint 1) (pi_programAddress sample_input) = Inr (Inr ?d)"
    by (simp add: resolveDeployment_def sample_endpoint_def sample_input_def loader_view_def rpc_value_def Let_def
        checkGuardProgramAccount_def callerTrustedAttestation_def)
  have e: "?e = sample_expectation"
    by (simp add: expectationFromSnapshot_def sample_snapshot_def protection_window_of_def sample_input_def sample_expectation_def)
  have "guardVerdict sample_expectation (sample_snapshot\<lparr>gs_mint := ''MINT''\<rparr>) = Inr None"
    by (simp add: guardVerdict_def checkGuardOffline_None sample_expectation_def sample_snapshot_def phaseAt_def
        sample_state_def I64_MIN_def I64_MAX_def)
  then have v: "economic_checks sample_input (sample_snapshot\<lparr>gs_mint := ''MINT''\<rparr>) sample_expectation = Inr None"
    by (simp add: economic_checks_def sample_input_def sample_expectation_def protection_window_of_def)
  have i: "\<not> guardRequestIssue sample_input"
    by (simp add: guardRequestIssue_def sample_input_def js_int_in_def U32_MAX_def)
  obtain c where c: "composeGuardedJupiterTrade sample_kit sample_trade_request sample_build ''GUARD'' ''AUTH''
      sample_expectation = Inr c"
    using sample_composition by blast
  have "\<exists>s. protect_with_snapshot sample_kit sample_input sample_build ''MINT'' BUY JUPITER_ROUTE_V2_BUY_USDC None ?d
      (sample_snapshot\<lparr>gs_mint := ''MINT''\<rparr>) = Inr (PROTECTED s)"
    using v c by (simp add: protect_with_snapshot_def e)
      (simp add: sample_input_def sample_trade_request_def)
  moreover have "k_isAddress sample_kit = (\<lambda>_. True)" "pi_build sample_input = sample_raw"
      "ep_accounts sample_endpoint 0 = sample_rpc" "ep_accounts sample_endpoint 2 = sample_rpc"
    by (simp_all add: sample_kit_def sample_input_def sample_endpoint_def)
  ultimately show ?thesis
    using sample_parse sample_classify d i
    by (simp add: protectJupiterSwap_def protect_classified_def sample_fetch_mint)
qed

section \<open>Properties\<close>



text \<open>
  C14. Protection is never silently dropped: \<open>NOT_APPLICABLE\<close> is returned only when the reported mints
  are the ones a \<open>route_v2\<close> instruction moves and every mint of the pair other than USDC was read, is
  not in the registry of known assets, and either is not a Token-2022 account or is one without the
  ScaledUiAmount extension.
\<close>

theorem not_applicable_is_positive:
  assumes "protectJupiterSwap k ep input = Inr (NOT_APPLICABLE reason)"
  shows "\<exists>build ctx accts. parseBuildResponse (k_isAddress k) (pi_build input) = Inr build \<and>
    \<not> reportedMintMismatch build \<and> ep_accounts ep 0 (swap_candidates build) = Inr (ctx, accts) \<and>
    (\<forall>i < length (swap_candidates build). read_as_ordinary accts i (swap_candidates build ! i))"
proof -
  obtain build where b: "parseBuildResponse (k_isAddress k) (pi_build input) = Inr build"
    using assms by (auto simp: protectJupiterSwap_def split: sum.splits jp_exn.splits)
  then obtain c where c: "classify (k_isAddress k) build (ep_accounts ep 0) = Inr c"
    using assms by (auto simp: protectJupiterSwap_def err_simps)
  have "c = C_NOT_APPLICABLE reason"
    using assms b c protect_classified_not_na by (cases c) (auto simp: protectJupiterSwap_def)
  with classify_not_applicable b c show ?thesis by blast
qed

definition sample_ordinary_endpoint :: rpc_endpoint where
  "sample_ordinary_endpoint =
     \<lparr>ep_accounts = (\<lambda>_ _. Inr (7, [Some \<lparr>rpc_owner = ''other'', rpc_data = [], rpc_executable = False\<rparr>])),
      ep_genesisHash = Inr ''local''\<rparr>"

theorem not_applicable_is_positive_witness:
  "\<exists>build. parseBuildResponse (k_isAddress sample_kit) (pi_build sample_input) = Inr build \<and> \<not> reportedMintMismatch build"
proof -
  let ?rpc = "ep_accounts sample_ordinary_endpoint 0"
  have ne: "br_inputMint sample_build \<noteq> br_outputMint sample_build" "\<not> reportedMintMismatch sample_build"
    by code_simp+
  have c: "swap_candidates sample_build = [''MINT'']" by code_simp
  have k: "findKnownProtectedAsset ''MINT'' KNOWN_PROTECTED_ASSETS = None" by code_simp
  have "verdictFor ''MINT'' ''other'' (base64Data []) = Inr (MV_ordinary NO_TOKEN_2022_MINT_reason)"
    by (simp add: verdictFor_def resolveProtectionAdapter_def k decode_wrong_owner TOKEN_2022_PROGRAM_ADDRESS_def)
  then have "classify (\<lambda>_. True) sample_build ?rpc = Inr (C_NOT_APPLICABLE NO_TOKEN_2022_MINT_reason)"
    using ne by (simp add: classify_eq c sample_ordinary_endpoint_def rpc_value_def classify_pair_def)
  moreover have "k_isAddress sample_kit = (\<lambda>_. True)" "pi_build sample_input = sample_raw"
    by (simp_all add: sample_kit_def sample_input_def)
  ultimately have "protectJupiterSwap sample_kit sample_ordinary_endpoint sample_input = Inr (NOT_APPLICABLE NO_TOKEN_2022_MINT_reason)"
    using sample_parse by (simp add: protectJupiterSwap_def)
  from not_applicable_is_positive [OF this] show ?thesis by blast
qed

text \<open>
  A quote is never rebound: when the caller states the protected state it quoted against, a
  protected result carries exactly that state, and with a scheduled change also the very phase the
  caller quoted under.
\<close>

theorem quoted_state_never_rebound:
  assumes "protectJupiterSwap k ep input = Inr (PROTECTED s)" and "pi_expectedState input = Some quoted"
  shows "gs_state (ps_snapshot s) = quoted \<and>
    (hasScheduledChange quoted \<longrightarrow> pi_expectedPhase input = Some (gs_phase (ps_snapshot s)))"
proof -
  obtain build d where p: "\<not> guardRequestIssue input"
      "fetchGuardSnapshot (ep_accounts ep 2) (ps_protectedMint s) = Inr (ps_snapshot s)"
      "protect_with_snapshot k input build (ps_protectedMint s) (ps_direction s) (ps_adapterKind s) (ps_knownAsset s) d
        (ps_snapshot s) = Inr (PROTECTED s)"
    using protect_ok [OF assms(1)] by blast
  have q: "guardVerdict \<lparr>expected = quoted, expectedPhase = (case pi_expectedPhase input of
        None \<Rightarrow> gs_phase (ps_snapshot s) | Some p \<Rightarrow> p), window = protection_window_of input\<rparr> (ps_snapshot s) = Inr None"
    using protect_with_snapshot_ok(10) [OF p(3)] assms(2)
    by (auto simp: economic_checks_def err_simps split: option.splits)
  then have st: "gs_state (ps_snapshot s) = quoted" by (simp add: guardVerdict_def checkGuardOffline_None)
  moreover have "pi_expectedPhase input = Some (gs_phase (ps_snapshot s))" if h: "hasScheduledChange quoted"
  proof -
    obtain phase where ph: "pi_expectedPhase input = Some phase"
      using p(1) h assms(2) by (cases "pi_expectedPhase input") (auto simp: guardRequestIssue_def Let_def split: if_splits)
    with q h st fetchGuardSnapshot_ok [OF p(2)] show ?thesis by (simp add: guardVerdict_def checkGuardOffline_None)
  qed
  ultimately show ?thesis by blast
qed

theorem quoted_state_never_rebound_witness:
  "\<exists>s. protectJupiterSwap sample_kit sample_endpoint sample_input = Inr (PROTECTED s) \<and>
     gs_state (ps_snapshot s) = sample_state"
proof -
  obtain s where s: "protectJupiterSwap sample_kit sample_endpoint sample_input = Inr (PROTECTED s)"
    using sample_protected by blast
  have "pi_expectedState sample_input = Some sample_state" by (simp add: sample_input_def)
  from quoted_state_never_rebound [OF s this] s show ?thesis by blast
qed

text \<open>
  C15. Re-checking detects edits: a transaction that \<open>verifyProtectedSwap\<close> accepts resolves to the very
  instructions of the protected one, unless the canonical encodings of the two suffixes are different
  inputs of SHA-256 with equal digests.
\<close>

theorem verified_transaction_is_unchanged:
  assumes "protectJupiterSwap k ep input = Inr (PROTECTED s)"
    and "verifyProtectedSwap k s wire = Inr None"
    and "resolveWireTransaction (k_isAddress k) (k_decodeWire k) wire (ps_lookupTables s) = Inr ixs"
    and "resolveWireTransaction (k_isAddress k) (k_decodeWire k) (ps_transaction s) (ps_lookupTables s) = Inr built"
    and "address_codec (k_encode k) ok"
    and "\<forall>ix \<in> set ixs \<union> set built. \<forall>a \<in> committed_addresses ix. ok a"
  shows "ixs = built \<or>
    (let p = suffix_preimage (k_encode k) (drop 1 ixs); q = suffix_preimage (k_encode k) (drop 1 built)
     in p \<noteq> q \<and> k_sha256 k p = k_sha256 k q)"
proof -
  let ?c = "hex_bytes (suffixCommitmentHex (ps_binding s))"
  have b: "jupiterSuffixCommitment (k_encode k) (k_sha256 k) (drop 1 built) = Inr ?c"
    using protected_resolves [OF assms(1)] assms(4) by auto
  have v: "take 1 ixs = take 1 built"
      "jupiterSuffixCommitment (k_encode k) (k_sha256 k) (drop 1 ixs) = Inr ?c"
    using assms(2) verify_ok [OF assms(3,4)]
    by (auto simp: checkGuardedJupiterTransaction_def Let_def err_simps split: option.splits if_splits)
  have s: "suffix_sizes_ok (drop 1 ixs)" "suffix_sizes_ok (drop 1 built)"
      "k_sha256 k (suffix_preimage (k_encode k) (drop 1 ixs)) = k_sha256 k (suffix_preimage (k_encode k) (drop 1 built))"
    using b v(2) by (auto simp: jupiterSuffixCommitment_def err_simps jupiterSuffixCommitmentPreimage_iff)
  have ok: "\<forall>ix \<in> set (drop 1 ixs) \<union> set (drop 1 built). \<forall>a \<in> committed_addresses ix. ok a"
    using assms(6) by (meson UnCI UnE in_set_dropD)
  show ?thesis
  proof (cases "suffix_preimage (k_encode k) (drop 1 ixs) = suffix_preimage (k_encode k) (drop 1 built)")
    case True
    then have "drop 1 ixs = drop 1 built" by (rule suffix_preimage_inject [OF assms(5) ok s(1,2)])
    with v(1) show ?thesis by (metis append_take_drop_id)
  next
    case False
    with s(3) show ?thesis by (simp add: Let_def)
  qed
qed

definition sample_wire_known :: "address list" where
  "sample_wire_known = ''GUARD'' # SYSVAR_INSTRUCTIONS_ADDRESS # sample_known"

lemma sample_wire_codec: "address_codec sample_encode (\<lambda>a. a \<in> set sample_wire_known)"
proof -
  have "distinct (map sample_encode sample_wire_known)" by code_simp
  then have "inj_on sample_encode (set sample_wire_known)" by (simp add: distinct_map)
  then show ?thesis by (auto simp: address_codec_def sample_encode_def inj_on_def ascii_bytes_def)
qed

theorem verified_transaction_is_unchanged_witness:
  "\<exists>s ixs. protectJupiterSwap sample_kit sample_endpoint sample_input = Inr (PROTECTED s) \<and>
     resolveWireTransaction (k_isAddress sample_kit) (k_decodeWire sample_kit) (ps_transaction s) (ps_lookupTables s) = Inr ixs \<and>
     (ixs = ixs \<or> (let p = suffix_preimage (k_encode sample_kit) (drop 1 ixs) in p \<noteq> p))"
proof -
  obtain s where s: "protectJupiterSwap sample_kit sample_endpoint sample_input = Inr (PROTECTED s)"
    using sample_protected by blast
  let ?wire = "ps_transaction s"
  obtain built where r: "resolveWireTransaction (k_isAddress sample_kit) (k_decodeWire sample_kit) ?wire (ps_lookupTables s) = Inr built"
    and c: "checkGuardedJupiterTransaction (k_encode sample_kit) (k_derive sample_kit) (k_sha256 sample_kit) built 0
      (ps_adapterKind s) (ps_protectedMint s) (hex_bytes (suffixCommitmentHex (ps_binding s))) = Inr None"
    using protected_resolves [OF s] by auto
  obtain build d where "parseBuildResponse (k_isAddress sample_kit) (pi_build sample_input) = Inr build"
    and w: "protect_with_snapshot sample_kit sample_input build (ps_protectedMint s) (ps_direction s) (ps_adapterKind s)
      (ps_knownAsset s) d (ps_snapshot s) = Inr (PROTECTED s)"
    using protect_ok [OF s] by blast
  then have "build = sample_build" using sample_parse by (simp add: sample_kit_def sample_input_def)
  then have "ps_lookupTables s = []" using protect_with_snapshot_ok(11) [OF w] by (auto simp: sample_build_def)
  with r have b: "built = sample_guard_view ?wire # sample_committed"
    by (simp add: resolveWireTransaction_def sample_kit_def sample_resolve)
  have "\<forall>ix \<in> set sample_committed. \<forall>a \<in> committed_addresses ix. a \<in> set sample_known"
    using sample_mirror_ok by (simp add: mirror_ok_def)
  moreover have "\<forall>a \<in> committed_addresses (sample_guard_view ?wire). a \<in> set sample_wire_known"
    by (simp add: committed_addresses_def sample_guard_view_def sample_wire_known_def sample_known_def)
  ultimately have ok: "\<forall>ix \<in> set built \<union> set built. \<forall>a \<in> committed_addresses ix. a \<in> set sample_wire_known"
    by (auto simp: b sample_wire_known_def)
  have codec: "address_codec (k_encode sample_kit) (\<lambda>a. a \<in> set sample_wire_known)"
    using sample_wire_codec by (simp add: sample_kit_def)
  have "verifyProtectedSwap sample_kit s ?wire = Inr None" using c by (simp add: verify_ok [OF r r])
  from verified_transaction_is_unchanged [OF s this r r codec ok] s r show ?thesis by blast
qed

text \<open>
  A protected result names a deployment that was verified: under a reviewed program address
  (resolved or given explicitly) the identity is \<open>REVIEWED_BINARY\<close> and the ProgramData account of that
  read held the reviewed ELF; any other address is reported as \<open>CALLER_TRUSTED\<close>, and without an explicit
  address only devnet is served.
\<close>

theorem protected_deployment_is_verified:
  assumes "protectJupiterSwap k ep input = Inr (PROTECTED s)"
  shows "(case findReviewedGuardDeployment (ps_programAddress s) of
      None \<Rightarrow> ps_deploymentIdentity s = CALLER_TRUSTED
    | Some r \<Rightarrow> ps_deploymentIdentity s = REVIEWED_BINARY \<and>
        (\<exists>ctx accts d elf n. ep_accounts ep 1 [ps_programAddress s, rd_programDataAddress r] = Inr (ctx, accts) \<and>
           loader_view accts 1 = Some d \<and> drop 45 (la_data d) = elf @ replicate n 0 \<and>
           length elf = elfLength r \<and> hexOf (k_sha256 k elf) = elfSha256 r)) \<and>
    (pi_programAddress input = None \<longrightarrow> ps_cluster s = devnet \<and> ps_programAddress s = EQUITY_GUARD_DEVNET_PROGRAM_ID)"
proof -
  obtain build d where d: "resolveDeployment (k_decodeAddress k) (k_sha256 k) (ep_genesisHash ep) (ep_accounts ep 1)
        (pi_programAddress input) = Inr (Inr d)"
    and w: "protect_with_snapshot k input build (ps_protectedMint s) (ps_direction s) (ps_adapterKind s) (ps_knownAsset s) d
        (ps_snapshot s) = Inr (PROTECTED s)"
    using protect_ok [OF assms] by blast
  note e = protect_with_snapshot_ok(6,8,9) [OF w]
  show ?thesis
    using resolveDeployment_identity [OF d] resolveDeployment_ok [OF d] unfolding e by blast
qed

theorem protected_deployment_is_verified_witness:
  "\<exists>s. protectJupiterSwap sample_kit sample_endpoint sample_input = Inr (PROTECTED s) \<and>
     (findReviewedGuardDeployment (ps_programAddress s) = None \<longrightarrow> ps_deploymentIdentity s = CALLER_TRUSTED)"
proof -
  obtain s where s: "protectJupiterSwap sample_kit sample_endpoint sample_input = Inr (PROTECTED s)"
    using sample_protected by blast
  from protected_deployment_is_verified [OF s] s show ?thesis by (auto split: option.splits)
qed

text \<open>
  The preview agrees with the entry point: on the same first read, a protected swap was
  \<open>STRUCTURALLY_SUPPORTED\<close> with the same mint, direction and adapter kind, and a swap the preview refuses
  is refused with the same status and code, never protected.
\<close>

theorem preview_agrees_with_protection:
  "(\<forall>s. protectJupiterSwap k ep input = Inr (PROTECTED s) \<longrightarrow>
      supportsJupiterSwap (k_isAddress k) (pi_build input) (ep_accounts ep 0) =
        Inr (STRUCTURALLY_SUPPORTED (ps_protectedMint s) (ps_direction s) (ps_adapterKind s) (ps_knownAsset s))) \<and>
   (\<forall>mint status. supportsJupiterSwap (k_isAddress k) (pi_build input) (ep_accounts ep 0) = Inr (NotSupported mint status) \<longrightarrow>
      (case status of
         NOT_APPLICABLE_status r \<Rightarrow> protectJupiterSwap k ep input = Inr (NOT_APPLICABLE r)
       | UNSUPPORTED_ASSET_status code \<Rightarrow>
           \<exists>known. protectJupiterSwap k ep input = Inr (UNSUPPORTED_PROTECTED_ASSET code (the mint) known)
       | UNSUPPORTED_ROUTE_status code \<Rightarrow>
           protectJupiterSwap k ep input = Inr (UNSUPPORTED_PROTECTED_ROUTE code (the mint) None [])
       | ERROR_status code \<Rightarrow> protectJupiterSwap k ep input = Inr (ERROR_result code mint None [])))"
  (is "(\<forall>s. ?P s) \<and> (\<forall>mint status. ?Q mint status)")
proof (intro conjI allI)
  fix s show "?P s" using protect_ok [of k ep input s] by (auto simp: supportsJupiterSwap_def)
next
  fix mint status show "?Q mint status"
  proof
    assume a: "supportsJupiterSwap (k_isAddress k) (pi_build input) (ep_accounts ep 0) = Inr (NotSupported mint status)"
    show "case status of
         NOT_APPLICABLE_status r \<Rightarrow> protectJupiterSwap k ep input = Inr (NOT_APPLICABLE r)
       | UNSUPPORTED_ASSET_status code \<Rightarrow>
           \<exists>known. protectJupiterSwap k ep input = Inr (UNSUPPORTED_PROTECTED_ASSET code (the mint) known)
       | UNSUPPORTED_ROUTE_status code \<Rightarrow>
           protectJupiterSwap k ep input = Inr (UNSUPPORTED_PROTECTED_ROUTE code (the mint) None [])
       | ERROR_status code \<Rightarrow> protectJupiterSwap k ep input = Inr (ERROR_result code mint None [])"
    proof (cases "parseBuildResponse (k_isAddress k) (pi_build input)")
      case (Inl e)
      with a show ?thesis by (cases e) (auto simp: supportsJupiterSwap_def protectJupiterSwap_def)
    next
      case (Inr build)
      then obtain c where c: "classify (k_isAddress k) build (ep_accounts ep 0) = Inr c"
        using a by (auto simp: supportsJupiterSwap_def err_simps)
      with a Inr show ?thesis by (cases c) (auto simp: supportsJupiterSwap_def protectJupiterSwap_def)
    qed
  qed
qed

theorem preview_agrees_with_protection_witness:
  "supportsJupiterSwap (k_isAddress sample_kit) (pi_build sample_input) (ep_accounts sample_endpoint 0) \<noteq>
     Inr (NotSupported None (NOT_APPLICABLE_status NO_TOKEN_2022_MINT_reason))"
  using sample_protected preview_agrees_with_protection [of sample_kit sample_endpoint sample_input] by fastforce

end
