(* ===== verification/Rep_Types.thy ===== *)
theory Rep_Types
  imports Snapshot Js_Text
begin

text \<open>
  The domain types of the representation-state package
  (\<open>packages/representation-state/src/types.ts\<close>, the types of \<open>registry.ts\<close> and \<open>economic-state.ts\<close>)
  and the errors it throws. Times given as ISO texts are strings; message texts are not modelled.
\<close>

section \<open>Errors\<close>

datatype normalization_error_code =
    InvalidMultiplier_norm | MissingDecimals | InvalidDecimals | NegativeAmount | NotionalMismatch
  | UnderlyingMismatch | StateMismatch | InputMintMismatch | NonPositiveOutput | InvalidTolerance

datatype consent_error_code =
    NOT_ISSUED | CONSUMED | EXPIRED | NOT_A_CONSENT_DECISION | COMPARISON_MISMATCH | DISCLOSURE_MISMATCH
  | TRADE_MISMATCH | QUOTE_MISMATCH_consent | COST_MISMATCH | COST_ABOVE_ACCEPTED_MAX
  | OUTSIDE_POLICY_COST_LIMIT | INVALID_GRANT

datatype execution_plan_error_code =
    NOT_EXECUTABLE_plan | OBSERVATION_ONLY_ENVIRONMENT | PLAN_NOT_ISSUED | PLAN_CONSUMED | PLAN_EXPIRED
  | PLAN_TAMPERED | QUOTE_SUBSTITUTED | COMPARISON_NOT_FOR_PLAN | DISCLOSURE_NOT_FOR_COMPARISON
  | CONSENT_REJECTED | INVALID_FRESHNESS | POLICY_MISMATCH_plan | INVALID_DOWNSTREAM
  | DOWNSTREAM_NOT_FOR_QUOTE | DOWNSTREAM_COMMITMENT_MISMATCH

text \<open>What this package throws, with the code where the error class has one.\<close>

datatype rep_exn =
    NormalizationError normalization_error_code
  | QuoteIdentityError
  | RegistryError
  | UnknownUnderlyingError string
  | TransitionPolicyError
  | ConsentError "consent_error_code list"
  | ExecutionEligibilityError
  | ExecutionPlanError execution_plan_error_code
  | RangeError_rep
  | GuardThrown js_exn

section \<open>types.ts\<close>

datatype representation_state = SAFE | TRANSITION | PAUSED | UNKNOWN_state

datatype state_source = CHAIN | API | BOTH_AGREE | CONFLICT

datatype calibration = UNCALIBRATED | CALIBRATED

record transition_policy =
  tp_beforeSecs :: int
  tp_afterSecs :: int
  tp_calibration :: calibration
  tp_basis :: string

record chain_observation =
  co_mint :: string
  co_slot :: "int option"
  co_blockTime :: "int option"
  co_observedAt :: "string option"
  co_chainUnixTimestamp :: "int option"
  co_decimals :: nat
  co_paused :: "bool option"
  co_protectedState :: protected_state
  co_hasScheduledChange :: bool
  co_phase :: "activation_phase option"

record chain_decode_failure =
  df_mint :: string
  df_slot :: "int option"
  df_blockTime :: "int option"
  df_observedAt :: "string option"
  df_code :: string

datatype chain_evidence = Decoded chain_observation | DecodeError chain_decode_failure

fun evidence_mint :: "chain_evidence \<Rightarrow> string" where
  "evidence_mint (Decoded ob) = co_mint ob"
| "evidence_mint (DecodeError f) = df_mint f"

fun evidence_slot :: "chain_evidence \<Rightarrow> int option" where
  "evidence_slot (Decoded ob) = co_slot ob"
| "evidence_slot (DecodeError f) = df_slot f"

fun evidence_blockTime :: "chain_evidence \<Rightarrow> int option" where
  "evidence_blockTime (Decoded ob) = co_blockTime ob"
| "evidence_blockTime (DecodeError f) = df_blockTime f"

fun evidence_observedAt :: "chain_evidence \<Rightarrow> string option" where
  "evidence_observedAt (Decoded ob) = co_observedAt ob"
| "evidence_observedAt (DecodeError f) = df_observedAt f"

datatype issuer = xStocks_issuer | Ondo_issuer | DEVNET_TEST

datatype api_status = active | paused | transition | unknown_status

datatype api_source_class = LIVE_API_STATE | HISTORICAL_API_STATE

record api_observation =
  ao_issuer :: issuer
  ao_symbol :: string
  ao_observedAt :: string
  ao_status :: api_status
  ao_calibration :: calibration
  ao_sourceClass :: api_source_class
  ao_validUntil :: "string option"

record resolved_representation_state =
  rr_underlying :: string
  rr_issuer :: issuer
  rr_symbol :: string
  rr_mint :: string
  rr_state :: "representation_state option"
  rr_stateSource :: "state_source option"
  rr_chainState :: "representation_state option"
  rr_apiState :: "representation_state option"
  rr_slot :: "int option"
  rr_blockTime :: "int option"
  rr_observedAt :: "string option"
  rr_reason :: string
  rr_chainObservation :: "chain_evidence option"
  rr_apiObservation :: "api_observation option"
  rr_transitionPolicy :: "transition_policy option"

end
