(* ===== verification/Normalize.thy ===== *)
theory Normalize
  imports Rep_Types "HOL-Library.Signed_Division"
begin

text \<open>
  Cross-issuer share-equivalents (\<open>packages/representation-state/src/normalize.ts\<close>): exact rationals,
  the value of a stored multiplier, comparison, tolerance and rounding. Bigint division truncates
  toward zero (\<open>sdiv\<close>, \<open>smod\<close>).
\<close>

section \<open>normalize.ts\<close>

record rational =
  rn_num :: int
  rn_den :: int

text \<open>The loop of \<open>gcd\<close>: \<open>while (y !== 0n) [x, y] = [y, x % y]\<close>.\<close>

function gcd_loop :: "int \<Rightarrow> int \<Rightarrow> int" where
  "gcd_loop x y = (if y \<noteq> 0 then gcd_loop y (x smod y) else x)"
  by pat_completeness auto
termination
proof (relation "measure (\<lambda>(x, y). nat \<bar>y\<bar>)")
  fix x y :: int assume "y \<noteq> 0"
  then show "((y, x smod y), x, y) \<in> measure (\<lambda>(x, y). nat \<bar>y\<bar>)"
    using smod_int_range [of y x] by (auto simp: abs_if)
qed simp

declare gcd_loop.simps [simp del]

definition gcd_bigint :: "int \<Rightarrow> int \<Rightarrow> int" where
  "gcd_bigint a b = gcd_loop (if a < 0 then - a else a) b"

definition rational :: "int \<Rightarrow> int \<Rightarrow> rational" where
  "rational n d =
     (let divisor = (if gcd_bigint n d = 0 then 1 else gcd_bigint n d)
      in \<lparr>rn_num = n sdiv divisor, rn_den = d sdiv divisor\<rparr>)"

definition BPS :: int where "BPS = 10000"
definition F64_BIAS_PLUS_MANTISSA_BITS :: int where "F64_BIAS_PLUS_MANTISSA_BITS = 1075"
definition F64_IMPLICIT_ONE :: int where "F64_IMPLICIT_ONE = 2 ^ 52"
definition MAX_DECIMALS :: int where "MAX_DECIMALS = 255"

definition multiplierToRational :: "bytes \<Rightarrow> rep_exn + rational" where
  "multiplierToRational bs =
     (if \<not> isValidStoredMultiplier bs then Inl (NormalizationError InvalidMultiplier_norm)
      else
        let bits = int (le_nat bs);
            exponent = bits div 2 ^ 52 mod 2048;
            significand = F64_IMPLICIT_ONE + bits mod 2 ^ 52;
            shift = exponent - F64_BIAS_PLUS_MANTISSA_BITS
        in Inr (if shift \<ge> 0 then rational (significand * 2 ^ nat shift) 1
                else rational significand (2 ^ nat (- shift))))"

text \<open>The decimals are \<open>None\<close> where they are null or undefined.\<close>

definition sharesEquivalent :: "int \<Rightarrow> js_number option \<Rightarrow> bytes \<Rightarrow> rep_exn + rational" where
  "sharesEquivalent outputRaw decs effectiveMultiplier =
     (case decs of
        None \<Rightarrow> Inl (NormalizationError MissingDecimals)
      | Some d \<Rightarrow>
          if \<not> js_int_in 0 MAX_DECIMALS d then Inl (NormalizationError InvalidDecimals)
          else if outputRaw < 0 then Inl (NormalizationError NegativeAmount)
          else bindE (multiplierToRational effectiveMultiplier) (\<lambda>m.
            Inr (rational (outputRaw * rn_num m) (rn_den m * 10 ^ nat (the (js_int d))))))"

definition compareRationals :: "rational \<Rightarrow> rational \<Rightarrow> int" where
  "compareRationals a b =
     (let left = rn_num a * rn_den b; right = rn_num b * rn_den a
      in if left < right then -1 else if left > right then 1 else 0)"

definition withinToleranceBps :: "rational \<Rightarrow> rational \<Rightarrow> int \<Rightarrow> rep_exn + bool" where
  "withinToleranceBps a b toleranceBps =
     (if toleranceBps < 0 then Inl (NormalizationError InvalidTolerance)
      else
        let diff = rn_num a * rn_den b - rn_num b * rn_den a;
            absDiff = (if diff < 0 then - diff else diff);
            greater = (if compareRationals a b \<ge> 0 then a else b)
        in Inr (absDiff * BPS * rn_den greater \<le> toleranceBps * rn_num greater * rn_den a * rn_den b))"

definition ceilDiv :: "int \<Rightarrow> int \<Rightarrow> int" where
  "ceilDiv n d = (if n \<ge> 0 then (n + d - 1) sdiv d else - ((- n) sdiv d))"

text \<open>\<open>text.padStart(n, "0")\<close>.\<close>

definition padStart_zero :: "nat \<Rightarrow> string \<Rightarrow> string" where
  "padStart_zero n s = replicate (n - length s) CHR ''0'' @ s"

definition formatRationalFloor :: "rational \<Rightarrow> nat \<Rightarrow> string" where
  "formatRationalFloor r places =
     (let scale = 10 ^ places;
          scaled = (rn_num r * scale) sdiv rn_den r;
          whole = scaled sdiv scale;
          fraction = padStart_zero places (string_of_int (scaled smod scale))
      in if places = 0 then string_of_int whole else string_of_int whole @ ''.'' @ fraction)"

section \<open>Facts\<close>

text \<open>The rational number a fraction stands for, and a fraction in lowest terms.\<close>

definition rat_of :: "rational \<Rightarrow> rat" where
  "rat_of r = of_int (rn_num r) / of_int (rn_den r)"

definition reduced :: "rational \<Rightarrow> bool" where
  "reduced r \<longleftrightarrow> 0 \<le> rn_num r \<and> 0 < rn_den r \<and> coprime (rn_num r) (rn_den r)"

lemma gcd_loop_gcd: "0 \<le> x \<Longrightarrow> 0 \<le> y \<Longrightarrow> gcd_loop x y = gcd x y"
proof (induction x y rule: gcd_loop.induct)
  case (1 x y)
  show ?case
  proof (cases "y = 0")
    case True
    with 1 show ?thesis by (simp add: gcd_loop.simps)
  next
    case False
    with 1 have "x smod y = x mod y" by (simp add: smod_mod_positive)
    with 1 False show ?thesis by (subst gcd_loop.simps) (simp add: gcd_red_int [symmetric])
  qed
qed

lemma gcd_bigint_gcd: "0 \<le> b \<Longrightarrow> gcd_bigint a b = gcd a b"
  by (simp add: gcd_bigint_def gcd_loop_gcd)

lemma sdiv_pos: "0 \<le> a \<Longrightarrow> 0 \<le> b \<Longrightarrow> a sdiv b = (a :: int) div b"
  by (simp add: signed_divide_int_def sgn_if)

lemma rational_reduced:
  assumes "0 \<le> n" and "0 < d"
  shows "reduced (rational n d) \<and> rat_of (rational n d) = of_int n / of_int d"
proof -
  define g where "g = gcd n d"
  have g: "0 < g" "g dvd n" "g dvd d" using assms(2) by (auto simp: g_def)
  obtain n' d' where nd: "n = g * n'" "d = g * d'" using g(2,3) by (meson dvdE)
  have "rational n d = \<lparr>rn_num = n div g, rn_den = d div g\<rparr>"
    using assms g(1) unfolding g_def by (auto simp: rational_def Let_def gcd_bigint_gcd sdiv_pos)
  then have r: "rational n d = \<lparr>rn_num = n', rn_den = d'\<rparr>" using g(1) nd by simp
  have "coprime (n div g) (d div g)" unfolding g_def using assms(2) by (intro div_gcd_coprime) auto
  then have "coprime n' d'" using g(1) nd by simp
  moreover have "0 < d'" "0 \<le> n'" using assms nd g(1) by (simp_all add: zero_less_mult_iff zero_le_mult_iff)
  moreover have "(of_int n' :: rat) / of_int d' = of_int n / of_int d" using g(1) nd by simp
  ultimately show ?thesis by (simp add: r reduced_def rat_of_def)
qed

lemma rational_simps:
  "0 \<le> n \<Longrightarrow> 0 < d \<Longrightarrow> reduced (rational n d)" "0 \<le> n \<Longrightarrow> 0 < d \<Longrightarrow> rat_of (rational n d) = of_int n / of_int d"
  using rational_reduced by blast+

lemma multiplier_value:
  assumes "multiplierToRational bs = Inr r"
  shows "f64_of_bytes bs = JNum (rat_of r)" and "reduced r" and "0 < rn_num r"
proof -
  let ?bits = "le_nat bs"
  define e where "e = ?bits div 2 ^ 52 mod 2048"
  define m where "m = ?bits mod 2 ^ 52"
  have v: "isValidStoredMultiplier bs" using assms by (auto simp: multiplierToRational_def split: if_splits)
  then have l: "?bits < 2 ^ 64" using le_nat_bound [of bs] by (simp add: isValidStoredMultiplier_bits)
  have ok: "1 \<le> ?bits div 2 ^ 52" "?bits div 2 ^ 52 \<le> 2046"
    using v by (simp_all add: isValidStoredMultiplier_bits multiplier_exponent_ok_def)
  have e: "1 \<le> e" "e \<le> 2046" using ok by (simp_all add: e_def)
  have "?bits div 2 ^ 63 = ?bits div 2 ^ 52 div 2048" unfolding div_mult2_eq [symmetric] by simp
  with ok have sgn: "?bits div 2 ^ 63 = 0" by simp
  have f: "f64_of_bytes bs = JNum (of_nat (2 ^ 52 + m) * 2 ^ e / 2 ^ 1075)"
    unfolding f64_of_bytes_def Let_def e_def [symmetric] m_def [symmetric] sgn using e by simp
  have ints: "int ?bits div 2 ^ 52 mod 2048 = int e" "int ?bits mod 2 ^ 52 = int m"
    unfolding e_def m_def by (simp_all add: zdiv_int zmod_int)
  let ?s = "F64_IMPLICIT_ONE + int m"
  have s: "0 < ?s" "(of_int ?s :: rat) = of_nat (2 ^ 52 + m)" by (simp_all add: F64_IMPLICIT_ONE_def)
  have r: "r = (if int e \<ge> 1075 then rational (?s * 2 ^ (e - 1075)) 1 else rational ?s (2 ^ (1075 - e)))"
    using assms v unfolding multiplierToRational_def Let_def ints F64_BIAS_PLUS_MANTISSA_BITS_def
    by (auto simp: nat_diff_distrib split: if_splits)
  have val: "rat_of r = of_nat (2 ^ 52 + m) * 2 ^ e / 2 ^ 1075 \<and> reduced r"
  proof (cases "e \<ge> 1075")
    case True
    then have "(2 :: rat) ^ e = 2 ^ (e - 1075) * 2 ^ 1075" unfolding power_add [symmetric] by simp
    with True r s show ?thesis
      by (simp add: rational_simps del: of_nat_add of_nat_power power_numeral)
  next
    case False
    then have "(2 :: rat) ^ 1075 = 2 ^ (1075 - e) * 2 ^ e" unfolding power_add [symmetric] by simp
    with False r s show ?thesis
      by (simp add: rational_simps del: of_nat_add of_nat_power power_numeral)
  qed
  then have red: "reduced r" by simp
  show "f64_of_bytes bs = JNum (rat_of r)" "reduced r" using f val by simp_all
  have "0 < rat_of r" using val by (simp del: of_nat_add of_nat_power power_numeral)
  with red show "0 < rn_num r" by (auto simp: rat_of_def reduced_def zero_less_divide_iff)
qed

lemma shares_value:
  assumes "sharesEquivalent out decs m = Inr r"
  shows "\<exists>d k q. decs = Some d \<and> js_int d = Some k \<and> 0 \<le> k \<and> k \<le> 255 \<and> 0 \<le> out \<and>
    f64_of_bytes m = JNum q \<and> 0 < q \<and> reduced r \<and> rat_of r = of_int out * q / 10 ^ nat k"
proof -
  obtain d k mult where d: "decs = Some d" "js_int d = Some k" "0 \<le> k" "k \<le> 255" "0 \<le> out"
      and mult: "multiplierToRational m = Inr mult"
      and r: "r = rational (out * rn_num mult) (rn_den mult * 10 ^ nat k)"
    using assms by (auto simp: sharesEquivalent_def js_int_in_iff MAX_DECIMALS_def err_simps split: option.splits if_splits)
  note v = multiplier_value [OF mult]
  have den: "0 < rn_den mult" using v(2) by (simp add: reduced_def)
  then have "rat_of r = of_int (out * rn_num mult) / of_int (rn_den mult * 10 ^ nat k)" "reduced r"
    using d(5) v(3) by (simp_all add: r rational_simps)
  then have "rat_of r = of_int out * rat_of mult / 10 ^ nat k" "reduced r"
    by (simp_all add: rat_of_def [of mult])
  moreover have "0 < rat_of mult" using v(3) den by (simp add: rat_of_def)
  ultimately show ?thesis using d v(1) by blast
qed

text \<open>Comparisons of reduced fractions are comparisons of the rationals they stand for.\<close>

lemma cross_less:
  assumes "0 < rn_den a" and "0 < rn_den b"
  shows "rn_num a * rn_den b < rn_num b * rn_den a \<longleftrightarrow> rat_of a < rat_of b"
proof -
  have "rat_of a < rat_of b \<longleftrightarrow> (of_int (rn_num a * rn_den b) :: rat) < of_int (rn_num b * rn_den a)"
    using assms by (simp add: rat_of_def field_simps)
  then show ?thesis by (simp only: of_int_less_iff)
qed

lemma compareRationals_sign:
  assumes "0 < rn_den a" and "0 < rn_den b"
  shows "compareRationals a b = (if rat_of a < rat_of b then -1 else if rat_of b < rat_of a then 1 else 0)"
  using cross_less [OF assms] cross_less [OF assms(2,1)] by (simp add: compareRationals_def Let_def)

lemma ceilDiv_ceiling:
  assumes "0 < d"
  shows "ceilDiv n d = \<lceil>(of_int n :: rat) / of_int d\<rceil>"
proof (cases "0 \<le> n")
  case True
  define z where "z = (n + d - 1) div d"
  define m where "m = (n + d - 1) mod d"
  have "z * d + m = n + d - 1" unfolding z_def m_def by (rule div_mult_mod_eq)
  moreover have "0 \<le> m" "m < d" using assms by (simp_all add: m_def)
  ultimately have z: "(z - 1) * d < n" "n \<le> z * d" by (simp_all add: left_diff_distrib)
  have "(of_int ((z - 1) * d) :: rat) < of_int n" "(of_int n :: rat) \<le> of_int (z * d)"
    using z by (simp_all only: of_int_less_iff of_int_le_iff)
  then have "(of_int z - 1) * of_int d < (of_int n :: rat)" "(of_int n :: rat) \<le> of_int z * of_int d" by simp_all
  moreover have "(0 :: rat) < of_int d" using assms by simp
  ultimately have "of_int z - 1 < (of_int n :: rat) / of_int d" "(of_int n :: rat) / of_int d \<le> of_int z"
    by (simp_all only: pos_less_divide_eq pos_divide_le_eq)
  then have "\<lceil>(of_int n :: rat) / of_int d\<rceil> = z" by (rule ceiling_unique)
  then show ?thesis using True assms by (simp add: ceilDiv_def sdiv_pos z_def)
next
  case False
  then show ?thesis using assms sdiv_pos [of "- n" d] by (simp add: ceilDiv_def ceiling_divide_eq_div)
qed

lemma tolerance_iff:
  assumes "reduced a" and "reduced b" and "0 \<le> t"
  shows "withinToleranceBps a b t = Inr (\<bar>rat_of a - rat_of b\<bar> * 10000 \<le> of_int t * max (rat_of a) (rat_of b))"
proof -
  define g where "g = (if compareRationals a b \<ge> 0 then a else b)"
  have dens: "0 < rn_den a" "0 < rn_den b" "0 < rn_den g" using assms by (auto simp: reduced_def g_def)
  have g: "rat_of g = max (rat_of a) (rat_of b)" using compareRationals_sign [OF dens(1,2)] by (auto simp: g_def)
  define diff where "diff = rn_num a * rn_den b - rn_num b * rn_den a"
  have d: "rat_of a - rat_of b = of_int diff / (of_int (rn_den a) * of_int (rn_den b))"
    using dens by (simp add: rat_of_def diff_def diff_frac_eq)
  then have "\<bar>rat_of a - rat_of b\<bar> = of_int \<bar>diff\<bar> / (of_int (rn_den a) * of_int (rn_den b))"
    using dens by (simp add: abs_mult)
  moreover have "rat_of g = of_int (rn_num g) / of_int (rn_den g)" by (simp add: rat_of_def)
  ultimately have "\<bar>rat_of a - rat_of b\<bar> * 10000 \<le> of_int t * rat_of g \<longleftrightarrow>
      (of_int (\<bar>diff\<bar> * 10000 * rn_den g) :: rat) \<le> of_int (t * rn_num g * rn_den a * rn_den b)"
    using dens by (simp add: pos_divide_le_eq pos_le_divide_eq mult_ac)
  also have "\<dots> \<longleftrightarrow> \<bar>diff\<bar> * 10000 * rn_den g \<le> t * rn_num g * rn_den a * rn_den b" by (simp only: of_int_le_iff)
  finally show ?thesis
    using assms(3) unfolding withinToleranceBps_def Let_def g_def [symmetric] diff_def [symmetric] g [symmetric]
    by (simp add: BPS_def abs_if)
qed

section \<open>Properties\<close>

text \<open>
  Share-equivalents are exact: the stored multiplier's fraction is the very double its bytes
  encode, and the result is \<open>outputRaw * multiplier / 10^decimals\<close> in lowest terms, with no rounding.
\<close>

theorem share_equivalents_exact:
  assumes "sharesEquivalent out decs m = Inr r"
  shows "\<exists>d k q. decs = Some d \<and> js_int d = Some k \<and> 0 \<le> k \<and> k \<le> 255 \<and> 0 \<le> out \<and>
    f64_of_bytes m = JNum q \<and> 0 < q \<and> reduced r \<and> rat_of r = of_int out * q / 10 ^ nat k"
  using assms by (rule shares_value)

lemma sample_shares: "\<exists>r. sharesEquivalent 500 (Some (JNum 2)) one_f64 = Inr r"
  using sample_multipliers(1)
  by (simp add: sharesEquivalent_def js_int_in_def MAX_DECIMALS_def multiplierToRational_def Let_def)

theorem share_equivalents_exact_witness:
  "\<exists>r. sharesEquivalent 500 (Some (JNum 2)) one_f64 = Inr r \<and> reduced r"
  using sample_shares share_equivalents_exact by blast

text \<open>
  The Euclidean loop of \<open>gcd\<close> terminates on every pair of bigints and, for the denominators it is
  given, returns the greatest common divisor, so a fraction is built in lowest terms with the value of
  its arguments.
\<close>

theorem fraction_in_lowest_terms:
  assumes "0 \<le> n" and "0 < d"
  shows "gcd_bigint n d = gcd n d \<and> reduced (rational n d) \<and> rat_of (rational n d) = of_int n / of_int d"
  using rational_reduced [OF assms] gcd_bigint_gcd [of d n] assms(2) by simp

theorem fraction_in_lowest_terms_witness: "gcd_bigint 12 18 = 6 \<and> rat_of (rational 12 18) = 2 / 3"
proof -
  have "gcd (12 :: int) 18 = 6" by code_simp
  with fraction_in_lowest_terms [of 12 18] show ?thesis by simp
qed

text \<open>
  The tolerance test is the exact inequality \<open>|a - b| <= tolerance / 10000 * max a b\<close> on the
  rationals its fractions stand for.
\<close>

theorem tolerance_test_exact:
  assumes "reduced a" and "reduced b" and "0 \<le> t"
  shows "withinToleranceBps a b t = Inr (\<bar>rat_of a - rat_of b\<bar> * 10000 \<le> of_int t * max (rat_of a) (rat_of b))"
  using assms by (rule tolerance_iff)

theorem tolerance_test_exact_witness:
  "withinToleranceBps \<lparr>rn_num = 100, rn_den = 1\<rparr> \<lparr>rn_num = 99, rn_den = 1\<rparr> 100 = Inr True"
  using tolerance_test_exact [of "\<lparr>rn_num = 100, rn_den = 1\<rparr>" "\<lparr>rn_num = 99, rn_den = 1\<rparr>" 100]
  by (simp add: reduced_def rat_of_def)

end
