(* ===== verification/Canonical_Key.thy ===== *)
theory Canonical_Key
  imports Rep_Types "HOL-Library.Char_ord" "HOL-Library.List_Lexorder"
begin

text \<open>
  The canonical key (\<open>canonicalKey\<close> of \<open>packages/representation-state/src/quote-identity.ts\<close>): a
  type-tagged serialization by \<open>JSON.stringify\<close>, and that it separates values. Strings are lists of code
  units below 256, and an object's properties have distinct keys.
\<close>

section \<open>JSON text\<close>

datatype json = JsStr string | JsBool bool | JsInt int | JsArr "json list"

text \<open>How \<open>JSON.stringify\<close> writes one code unit of a string.\<close>

definition json_escape :: "char \<Rightarrow> string" where
  "json_escape c =
     (let n = of_char c :: nat in
      if n = 34 then [CHR 0x5c, c]
      else if n = 92 then [CHR 0x5c, c]
      else if n \<ge> 32 then [c]
      else if n = 8 then [CHR 0x5c, CHR ''b'']
      else if n = 9 then [CHR 0x5c, CHR ''t'']
      else if n = 10 then [CHR 0x5c, CHR ''n'']
      else if n = 12 then [CHR 0x5c, CHR ''f'']
      else if n = 13 then [CHR 0x5c, CHR ''r'']
      else [CHR 0x5c, CHR ''u'', CHR ''0'', CHR ''0'', hex_digit (n div 16), hex_digit (n mod 16)])"

definition json_quote :: "string \<Rightarrow> string" where
  "json_quote s = [CHR 0x22] @ concat (map json_escape s) @ [CHR 0x22]"

fun stringify :: "json \<Rightarrow> string" where
  "stringify (JsStr s) = json_quote s"
| "stringify (JsBool b) = (if b then ''true'' else ''false'')"
| "stringify (JsInt i) = string_of_int i"
| "stringify (JsArr xs) = ''['' @ js_join '','' (map stringify xs) @ '']''"

section \<open>quote-identity.ts: canonicalKey\<close>

definition MAX_SAFE_INTEGER :: int where "MAX_SAFE_INTEGER = 2 ^ 53 - 1"

text \<open>\<open>Number.isSafeInteger\<close> and not \<open>-0\<close>.\<close>

fun safe_int :: "js_number \<Rightarrow> int option" where
  "safe_int (JNum q) =
     (case js_int (JNum q) of
        None \<Rightarrow> None
      | Some i \<Rightarrow> if - MAX_SAFE_INTEGER \<le> i \<and> i \<le> MAX_SAFE_INTEGER then Some i else None)"
| "safe_int _ = None"

lemma mapE_cong [fundef_cong]: "xs = ys \<Longrightarrow> (\<And>x. x \<in> set ys \<Longrightarrow> f x = g x) \<Longrightarrow> mapE f xs = mapE g ys"
  by (induction ys arbitrary: xs) (auto intro: bindE_cong)

function canonical_encode :: "js_value \<Rightarrow> rep_exn + json" where
  "canonical_encode (JBigInt i) = Inr (JsArr [JsStr ''bigint'', JsStr (string_of_int i)])"
| "canonical_encode (JString s) = Inr (JsArr [JsStr ''string'', JsStr s])"
| "canonical_encode (JBool b) = Inr (JsArr [JsStr ''boolean'', JsBool b])"
| "canonical_encode (JNumber x) =
     (case safe_int x of None \<Rightarrow> Inl QuoteIdentityError | Some i \<Rightarrow> Inr (JsArr [JsStr ''int'', JsInt i]))"
| "canonical_encode JUndefined = Inl QuoteIdentityError"
| "canonical_encode JNull = Inr (JsArr [JsStr ''null''])"
| "canonical_encode (JArray xs) =
     bindE (mapE canonical_encode xs) (\<lambda>ys. Inr (JsArr [JsStr ''array'', JsArr ys]))"
| "canonical_encode (JObject props) =
     bindE (mapE (\<lambda>(k, v). bindE (canonical_encode v) (\<lambda>j. Inr (JsArr [JsStr k, j]))) (sort_key fst props))
       (\<lambda>ys. Inr (JsArr [JsStr ''object'', JsArr ys]))"
| "canonical_encode JOpaque = Inl QuoteIdentityError"
  by pat_completeness auto
termination
proof (relation "measure size")
  fix props and kv :: "string \<times> js_value" and k v
  assume "kv \<in> set (sort_key fst props)" and "(k, v) = kv"
  then have "(k, v) \<in> set props" by simp
  then have "size v \<le> size_list (size_prod (\<lambda>_. 0) size) props"
    by (induction props) auto
  then show "(v, JObject props) \<in> measure size" by simp
qed (auto intro: le_imp_less_Suc size_list_estimation')

definition canonicalKey :: "js_value \<Rightarrow> rep_exn + string" where
  "canonicalKey v = bindE (canonical_encode v) (\<lambda>j. Inr (stringify j))"

section \<open>Facts: JSON text is unambiguous\<close>

text \<open>Reading back one written code unit.\<close>

fun json_unescape :: "string \<Rightarrow> char \<times> string" where
  "json_unescape [] = (CHR 0x00, [])"
| "json_unescape (c # r) =
     (if c \<noteq> CHR 0x5c then (c, r)
      else (case r of
          [] \<Rightarrow> (c, [])
        | d # r' \<Rightarrow>
            if d = CHR ''b'' then (char_of (8 :: nat), r') else if d = CHR ''t'' then (char_of (9 :: nat), r')
            else if d = CHR ''n'' then (char_of (10 :: nat), r') else if d = CHR ''f'' then (char_of (12 :: nat), r')
            else if d = CHR ''r'' then (char_of (13 :: nat), r')
            else if d = CHR ''u'' then (char_of (16 * the (hex_value (r' ! 2)) + the (hex_value (r' ! 3))), drop 4 r')
            else (d, r')))"

lemma code_eq_char: "(of_char c :: nat) = n \<Longrightarrow> c = char_of n"
  by auto

lemma quote_codes: "char_of (34 :: nat) = CHR 0x22" "char_of (92 :: nat) = CHR 0x5c"
  by (simp_all add: char_of_def bit_0)

lemma json_unescape_escape: "json_unescape (json_escape c @ r) = (c, r)"
proof -
  define n where "n = (of_char c :: nat)"
  have c: "c = char_of n" by (simp add: n_def)
  consider "n = 34" | "n = 92" | "n \<ge> 32" "n \<noteq> 34" "n \<noteq> 92" | "n = 8" | "n = 9" | "n = 10" | "n = 12" | "n = 13"
    | "n < 32" "n \<notin> {8, 9, 10, 12, 13}" by fastforce
  then show ?thesis
  proof cases
    case 3
    then have "c \<noteq> CHR 0x5c" by (auto simp: n_def)
    with 3 show ?thesis by (simp add: json_escape_def Let_def n_def [symmetric])
  next
    case 9
    then have "char_of (16 * (n div 16) + n mod 16) = c" "n div 16 < 16" by (simp_all add: c)
    with 9 show ?thesis by (simp add: json_escape_def Let_def n_def [symmetric] hex_value_digit)
  qed (simp_all add: json_escape_def Let_def n_def [symmetric] c quote_codes)
qed

lemma json_escape_prefix_free: "json_escape c @ r = json_escape d @ s \<Longrightarrow> c = d \<and> r = s"
  by (metis Pair_inject json_unescape_escape)

lemma json_escape_no_quote: "json_escape c @ r \<noteq> CHR 0x22 # s"
proof
  assume a: "json_escape c @ r = CHR 0x22 # s"
  then have "json_unescape (CHR 0x22 # s) = (c, r)" by (metis json_unescape_escape)
  then have "c = CHR 0x22" by simp
  with a show False by (simp add: json_escape_def)
qed

lemma json_quote_split: "json_quote s @ r = json_quote t @ r' \<Longrightarrow> s = t \<and> r = r'"
proof -
  have "concat (map json_escape s) @ CHR 0x22 # r = concat (map json_escape t) @ CHR 0x22 # r' \<Longrightarrow> s = t \<and> r = r'"
  proof (induction s arbitrary: t)
    case Nil
    then show ?case using json_escape_no_quote by (cases t) (auto dest: sym)
  next
    case (Cons c s)
    obtain d t' where t: "t = d # t'"
      using Cons.prems json_escape_no_quote [of c "concat (map json_escape s) @ CHR 0x22 # r"] by (cases t) auto
    from Cons.prems t have "json_escape c @ (concat (map json_escape s) @ CHR 0x22 # r) =
        json_escape d @ (concat (map json_escape t') @ CHR 0x22 # r')" by simp
    from json_escape_prefix_free [OF this] Cons.IH [of t'] t show ?case by simp
  qed
  then show "json_quote s @ r = json_quote t @ r' \<Longrightarrow> s = t \<and> r = r'" by (simp add: json_quote_def)
qed

text \<open>What may follow a value inside an array.\<close>

definition delim :: "string \<Rightarrow> bool" where
  "delim r \<longleftrightarrow> r = [] \<or> hd r = CHR '','' \<or> hd r = CHR '']''"

definition int_char :: "char \<Rightarrow> bool" where
  "int_char c \<longleftrightarrow> is_digit c \<or> c = CHR ''-''"

lemma string_of_int_chars: "\<forall>c \<in> set (string_of_int i). int_char c" "string_of_int i \<noteq> []"
  using all_digits_of_nat [of "nat i"] all_digits_of_nat [of "nat (- i)"]
  by (auto simp: string_of_int_def all_digits_def list_all_iff int_char_def)

lemma int_text_split:
  assumes "string_of_int i @ r = string_of_int j @ r'" and "delim r" and "delim r'"
  shows "i = j \<and> r = r'"
proof -
  have stop: "takeWhile int_char (string_of_int k @ s) = string_of_int k" if "delim s" for k s
    using that string_of_int_chars(1) [of k]
    by (cases s) (auto simp: delim_def int_char_def is_digit_def takeWhile_append)
  have "string_of_int i = string_of_int j" using stop [OF assms(2), of i] stop [OF assms(3), of j] assms(1) by simp
  with assms(1) show ?thesis by (simp add: string_of_int_inject)
qed

text \<open>The first character tells the kinds of JSON text apart.\<close>

lemma stringify_first:
  "\<exists>c t. stringify j = c # t \<and> c \<noteq> CHR '']'' \<and>
     (case j of JsStr _ \<Rightarrow> c = CHR 0x22 | JsBool b \<Rightarrow> c = (if b then CHR ''t'' else CHR ''f'')
      | JsInt _ \<Rightarrow> int_char c | JsArr _ \<Rightarrow> c = CHR ''['')"
proof (cases j)
  case (JsInt i)
  obtain c t where "string_of_int i = c # t" using string_of_int_chars(2) [of i] by (cases "string_of_int i") auto
  moreover from this have "int_char c" using string_of_int_chars(1) [of i] by simp
  ultimately show ?thesis using JsInt by (auto simp: int_char_def is_digit_def)
qed (simp_all add: json_quote_def)

lemma same_first:
  assumes "stringify a @ r = stringify b @ r'"
  shows "(\<exists>s t. a = JsStr s \<and> b = JsStr t) \<or> (\<exists>p. a = JsBool p \<and> b = JsBool p) \<or>
    (\<exists>i j. a = JsInt i \<and> b = JsInt j) \<or> (\<exists>xs ys. a = JsArr xs \<and> b = JsArr ys)"
proof -
  obtain c t where "stringify a = c # t" "(case a of JsStr _ \<Rightarrow> c = CHR 0x22 | JsBool b \<Rightarrow> c = (if b then CHR ''t'' else CHR ''f'')
      | JsInt _ \<Rightarrow> int_char c | JsArr _ \<Rightarrow> c = CHR ''['')" using stringify_first by blast
  moreover obtain d u where "stringify b = d # u" "(case b of JsStr _ \<Rightarrow> d = CHR 0x22 | JsBool b \<Rightarrow> d = (if b then CHR ''t'' else CHR ''f'')
      | JsInt _ \<Rightarrow> int_char d | JsArr _ \<Rightarrow> d = CHR ''['')" using stringify_first by blast
  moreover have "\<not> int_char (CHR 0x22)" "\<not> int_char (CHR ''t'')" "\<not> int_char (CHR ''f'')" "\<not> int_char (CHR ''['')"
    by (simp_all add: int_char_def is_digit_def)
  moreover have "c = d" using assms calculation by simp
  ultimately show ?thesis by (cases a; cases b) (auto split: if_splits)
qed

lemma join_rest:
  "js_join sep (x # xs) = x @ (if xs = [] then [] else sep @ js_join sep xs)"
  by (cases xs) simp_all

lemma elements_split:
  assumes "\<And>x b r r'. x \<in> set xs \<Longrightarrow> stringify x @ r = stringify b @ r' \<Longrightarrow> delim r \<Longrightarrow> delim r' \<Longrightarrow> x = b \<and> r = r'"
    and "js_join '','' (map stringify xs) @ '']'' @ r = js_join '','' (map stringify ys) @ '']'' @ r'"
  shows "xs = ys \<and> r = r'"
  using assms
proof (induction xs arbitrary: ys)
  case Nil
  show ?case
  proof (cases ys)
    case (Cons y ys')
    obtain c t where "stringify y = c # t" "c \<noteq> CHR '']''" using stringify_first by blast
    with Nil(2) Cons show ?thesis by (simp add: join_rest)
  qed (use Nil in simp)
next
  case (Cons x xs)
  obtain c t where c: "stringify x = c # t" "c \<noteq> CHR '']''" using stringify_first by blast
  obtain y ys' where ys: "ys = y # ys'" using Cons.prems(2) c by (cases ys) (auto simp: join_rest)
  define rest where "rest zs r = (if zs = [] then [] else '','' @ js_join '','' (map stringify zs)) @ '']'' @ r" for zs r
  have d: "delim (rest zs r)" for zs r by (simp add: rest_def delim_def)
  have "stringify x @ rest xs r = stringify y @ rest ys' r'"
    using Cons.prems(2) by (simp add: ys join_rest rest_def)
  from Cons.prems(1) [OF _ this d d] have xy: "x = y" and tails: "rest xs r = rest ys' r'" by auto
  have "xs = [] \<longleftrightarrow> ys' = []" using tails by (auto simp: rest_def split: if_splits)
  with tails have "js_join '','' (map stringify xs) @ '']'' @ r = js_join '','' (map stringify ys') @ '']'' @ r'"
    by (auto simp: rest_def split: if_splits)
  with Cons.IH [of ys'] Cons.prems(1) have "xs = ys' \<and> r = r'" by (meson list.set_intros(2))
  with xy ys show ?case by simp
qed

lemma stringify_split:
  "stringify a @ r = stringify b @ r' \<Longrightarrow> delim r \<Longrightarrow> delim r' \<Longrightarrow> a = b \<and> r = r'"
proof (induction a arbitrary: b r r' rule: json.induct)
  case (JsStr s)
  obtain t where b: "b = JsStr t" using same_first [OF JsStr(1)] by auto
  with JsStr(1) have "json_quote s @ r = json_quote t @ r'" by simp
  from json_quote_split [OF this] b show ?case by simp
next
  case (JsBool p)
  have b: "b = JsBool p" using same_first [OF JsBool(1)] by auto
  with JsBool(1) show ?case by simp
next
  case (JsInt i)
  obtain k where b: "b = JsInt k" using same_first [OF JsInt(1)] by auto
  with JsInt(1) have "string_of_int i @ r = string_of_int k @ r'" by simp
  from int_text_split [OF this JsInt(2,3)] b show ?case by simp
next
  case (JsArr xs)
  obtain ys where b: "b = JsArr ys" using same_first [OF JsArr(2)] by auto
  with JsArr(2) have "js_join '','' (map stringify xs) @ '']'' @ r = js_join '','' (map stringify ys) @ '']'' @ r'" by simp
  from elements_split [OF JsArr(1) this] b show ?case by blast
qed

lemma stringify_inject: "stringify a = stringify b \<longleftrightarrow> a = b"
  using stringify_split [of a "[]" b "[]"] by (auto simp: delim_def)

section \<open>Facts: what a key determines\<close>

text \<open>The order of an object's properties is all that a key forgets.\<close>

function canon :: "js_value \<Rightarrow> js_value" where
  "canon (JArray xs) = JArray (map canon xs)"
| "canon (JObject props) = JObject (map (\<lambda>(k, v). (k, canon v)) (sort_key fst props))"
| "canon (JBigInt i) = JBigInt i"
| "canon (JString s) = JString s"
| "canon (JBool b) = JBool b"
| "canon (JNumber x) = JNumber x"
| "canon JUndefined = JUndefined"
| "canon JNull = JNull"
| "canon JOpaque = JOpaque"
  by pat_completeness auto
termination
proof (relation "measure size")
  fix props and kv :: "string \<times> js_value" and k v
  assume "kv \<in> set (sort_key fst props)" and "(k, v) = kv"
  then have "(k, v) \<in> set props" by simp
  then have "size v \<le> size_list (size_prod (\<lambda>_. 0) size) props"
    by (induction props) auto
  then show "(v, JObject props) \<in> measure size" by simp
qed (auto intro: le_imp_less_Suc size_list_estimation')

text \<open>Reading a key's JSON back as a value.\<close>

definition int_of_text :: "string \<Rightarrow> int" where
  "int_of_text s = (if s \<noteq> [] \<and> hd s = CHR ''-'' then - int (nat_of_digits (tl s)) else int (nat_of_digits s))"

lemma int_of_text_string [simp]: "int_of_text (string_of_int i) = i"
proof -
  have "hd (digits_of_nat n) \<noteq> CHR ''-''" for n
    using all_digits_of_nat [of n] digits_no_minus [of n] by (metis all_digits_def hd_in_set)
  moreover have "digits_of_nat n \<noteq> []" for n using all_digits_of_nat [of n] by (simp add: all_digits_def)
  ultimately show ?thesis by (auto simp: int_of_text_def string_of_int_def)
qed

fun json_value :: "json \<Rightarrow> js_value" where
  "json_value (JsArr [JsStr t, JsArr ys]) =
     (if t = ''array'' then JArray (map json_value ys)
      else JObject (map (\<lambda>p. case p of JsArr [JsStr k, j] \<Rightarrow> (k, json_value j) | _ \<Rightarrow> ([], JUndefined)) ys))"
| "json_value (JsArr [JsStr t, JsStr s]) = (if t = ''bigint'' then JBigInt (int_of_text s) else JString s)"
| "json_value (JsArr [JsStr t, JsBool b]) = JBool b"
| "json_value (JsArr [JsStr t, JsInt i]) = JNumber (JNum (of_int i))"
| "json_value (JsArr [JsStr t]) = JNull"
| "json_value _ = JUndefined"

lemma mapE_decode:
  assumes "mapE f xs = Inr ys" and "\<And>x y. x \<in> set xs \<Longrightarrow> f x = Inr y \<Longrightarrow> d y = g x"
  shows "map d ys = map g xs"
  using assms by (induction xs arbitrary: ys) (auto simp: err_simps)

lemma json_value_encode: "canonical_encode v = Inr j \<Longrightarrow> json_value j = canon v"
proof (induction v arbitrary: j rule: canonical_encode.induct)
  case (4 x)
  then show ?case by (cases x) (auto split: option.splits if_splits)
next
  case (7 xs)
  then obtain ys where ys: "mapE canonical_encode xs = Inr ys" and j: "j = JsArr [JsStr ''array'', JsArr ys]"
    by (auto simp: err_simps)
  have "map json_value ys = map canon xs" by (rule mapE_decode [OF ys]) (rule 7(1))
  with j show ?case by simp
next
  case (8 props)
  let ?d = "\<lambda>p. case p of JsArr [JsStr k, j] \<Rightarrow> (k, json_value j) | _ \<Rightarrow> ([], JUndefined)"
  let ?enc = "\<lambda>(k, v). bindE (canonical_encode v) (\<lambda>j. Inr (JsArr [JsStr k, j]))"
  obtain ys where ys: "mapE ?enc (sort_key fst props) = Inr ys" and j: "j = JsArr [JsStr ''object'', JsArr ys]"
    using 8(2) by (auto simp: err_simps)
  have "map ?d ys = map (\<lambda>(k, v). (k, canon v)) (sort_key fst props)"
  proof (rule mapE_decode [OF ys])
    fix kv y
    assume kv: "kv \<in> set (sort_key fst props)" and enc: "?enc kv = Inr y"
    obtain k v where "kv = (k, v)" by (cases kv)
    with enc 8(1) [OF kv] show "?d y = (case kv of (k, v) \<Rightarrow> (k, canon v))" by (auto simp: err_simps)
  qed
  with j show ?case by simp
qed simp_all

text \<open>Two keys are equal only for values that agree up to the order of properties.\<close>

lemma key_determines: "canonicalKey v = Inr k \<Longrightarrow> canonicalKey w = Inr k \<Longrightarrow> canon v = canon w"
  by (auto simp: canonicalKey_def err_simps stringify_inject) (metis json_value_encode)

lemma insort_key_last: "\<forall>x \<in> set xs. f y \<le> f x \<Longrightarrow> insort_key f y xs = y # xs"
  by (cases xs) auto

lemma sort_key_sorted: "sorted (map f xs) \<Longrightarrow> sort_key f xs = xs"
  by (induction xs) (simp_all add: insort_key_last)

lemma mapE_map: "mapE f (map g xs) = mapE (\<lambda>x. f (g x)) xs"
  by (induction xs) simp_all

lemma canonical_encode_canon: "canonical_encode (canon v) = canonical_encode v"
proof (induction v rule: canon.induct)
  case (1 xs)
  then have "mapE canonical_encode (map canon xs) = mapE canonical_encode xs"
    by (simp add: mapE_map cong: mapE_cong)
  then show ?case by simp
next
  case (2 props)
  let ?ps = "sort_key fst props"
  let ?c = "\<lambda>(k, v). (k, canon v)"
  let ?enc = "\<lambda>(k, v). bindE (canonical_encode v) (\<lambda>j. Inr (JsArr [JsStr k, j]))"
  have keys: "map fst (map ?c ?ps) = map fst ?ps" by (simp add: comp_def case_prod_unfold)
  have "sorted (map fst ?ps)" by simp
  then have srt: "sort_key fst (map ?c ?ps) = map ?c ?ps" using keys sort_key_sorted by metis
  have "mapE ?enc (map ?c ?ps) = mapE ?enc ?ps"
    unfolding mapE_map
  proof (rule mapE_cong [OF refl])
    fix x
    assume "x \<in> set ?ps"
    then show "?enc (?c x) = ?enc x" using 2 [of x "fst x" "snd x"] by (simp add: case_prod_unfold)
  qed
  with srt show ?case by simp
qed simp_all

text \<open>A list of properties with the same distinct names: the keys are equal when the values agree.\<close>

lemma canon_object:
  assumes "map fst ps = map fst qs" and "distinct (map fst qs)"
  shows "canon (JObject ps) = canon (JObject qs) \<longleftrightarrow> list_all2 (\<lambda>p q. canon (snd p) = canon (snd q)) ps qs"
proof
  let ?c = "\<lambda>(k, v). (k, canon v)"
  have len: "length ps = length qs" using assms(1) by (metis length_map)
  have keys: "map fst (map ?c xs) = map fst xs" for xs :: "(string \<times> js_value) list" by (simp add: comp_def case_prod_unfold)
  {
    assume "canon (JObject ps) = canon (JObject qs)"
    then have "set (map ?c (sort_key fst ps)) = set (map ?c (sort_key fst qs))" by simp
    then have s: "set (map ?c ps) = set (map ?c qs)" by simp
    have "map ?c ps = map ?c qs"
    proof (rule nth_equalityI)
      fix i
      assume i: "i < length (map ?c ps)"
      then have "(fst (ps ! i), canon (snd (ps ! i))) \<in> set (map ?c qs)"
        using s nth_mem [OF i] by (simp add: case_prod_unfold)
      then obtain j where j: "j < length qs" "fst (qs ! j) = fst (ps ! i)" "canon (snd (qs ! j)) = canon (snd (ps ! i))"
        by (auto simp: in_set_conv_nth)
      have "fst (ps ! i) = fst (qs ! i)" using assms(1) i len by (metis length_map nth_map)
      then have "j = i" using j(1,2) i len assms(2) by (simp add: distinct_conv_nth) (metis)
      with j i len show "map ?c ps ! i = map ?c qs ! i" by (simp add: case_prod_unfold)
    qed (simp add: len)
    then show "list_all2 (\<lambda>p q. canon (snd p) = canon (snd q)) ps qs"
      using len by (auto simp: list_eq_iff_nth_eq list_all2_conv_all_nth case_prod_unfold)
  next
    assume a: "list_all2 (\<lambda>p q. canon (snd p) = canon (snd q)) ps qs"
    have "map ?c ps = map ?c qs"
      using a assms(1) len by (intro nth_equalityI) (auto simp: list_all2_conv_all_nth case_prod_unfold list_eq_iff_nth_eq)
    moreover have "sort_key fst (map ?c xs) = map ?c (sort_key fst xs)" for xs :: "(string \<times> js_value) list"
    proof -
      have ins: "insort_key fst (?c x) (map ?c xs) = map ?c (insort_key fst x xs)" for x xs
        by (induction xs) (auto simp: case_prod_unfold)
      show ?thesis by (induction xs) (simp_all only: list.map sort_key_simps ins)
    qed
    ultimately show "canon (JObject ps) = canon (JObject qs)" by (simp del: map_map) metis
  }
qed

section \<open>Facts: which values have a key\<close>

definition key_ok :: "js_value \<Rightarrow> bool" where
  "key_ok v \<longleftrightarrow> (\<exists>k. canonicalKey v = Inr k)"

lemma key_ok_encode: "key_ok v \<longleftrightarrow> (\<exists>j. canonical_encode v = Inr j)"
  by (auto simp: key_ok_def canonicalKey_def err_simps)

lemma mapE_ok: "(\<exists>ys. mapE f xs = Inr ys) \<longleftrightarrow> (\<forall>x \<in> set xs. \<exists>y. f x = Inr y)"
  by (induction xs) (auto simp: err_simps)

lemma key_ok_simps [simp]:
  "key_ok (JBigInt i)" "key_ok (JString s)" "key_ok (JBool b)" "key_ok JNull"
  "key_ok (JNumber x) \<longleftrightarrow> safe_int x \<noteq> None"
  "\<not> key_ok JUndefined" "\<not> key_ok JOpaque"
  "key_ok (JArray xs) \<longleftrightarrow> (\<forall>x \<in> set xs. key_ok x)"
  "key_ok (JObject ps) \<longleftrightarrow> (\<forall>p \<in> set ps. key_ok (snd p))"
proof -
  show "key_ok (JArray xs) \<longleftrightarrow> (\<forall>x \<in> set xs. key_ok x)"
    using mapE_ok [of canonical_encode xs] by (auto simp: key_ok_encode err_simps)
  have "(\<exists>j. canonical_encode (JObject ps) = Inr j) \<longleftrightarrow>
      (\<forall>p \<in> set (sort_key fst ps). \<exists>y. (case p of (k, v) \<Rightarrow> bindE (canonical_encode v) (\<lambda>j. Inr (JsArr [JsStr k, j]))) = Inr y)"
    unfolding mapE_ok [symmetric] by (auto simp: err_simps)
  then show "key_ok (JObject ps) \<longleftrightarrow> (\<forall>p \<in> set ps. key_ok (snd p))"
    by (simp add: key_ok_encode err_simps case_prod_unfold)
qed (auto simp: key_ok_encode split: option.splits)

lemma same_key:
  "canonicalKey v = Inr k \<Longrightarrow> canonicalKey w = Inr k' \<Longrightarrow> k = k' \<longleftrightarrow> canon v = canon w"
  by (metis canonical_encode_canon canonicalKey_def key_determines sum.inject(2))

text \<open>
  The canonical key is an identity: two values have the same key exactly when they agree up to
  the order of object properties, so values of different types, and a missing and a null field, never collide.
\<close>

theorem canonical_key_identity:
  assumes "canonicalKey v = Inr k"
  shows "canonicalKey w = Inr k \<longleftrightarrow> canon w = canon v"
proof
  show "canonicalKey w = Inr k \<Longrightarrow> canon w = canon v" using assms key_determines by blast
  assume "canon w = canon v"
  then have "canonical_encode w = canonical_encode v" by (metis canonical_encode_canon)
  with assms show "canonicalKey w = Inr k" by (simp add: canonicalKey_def)
qed

text \<open>A witness: a big integer, the text of the same digits, and a number have three different keys.\<close>

lemma canonical_key_identity_witness:
  "\<exists>k. canonicalKey (JObject [(''a'', JBigInt 5), (''b'', JNull)]) = Inr k \<and>
     canonicalKey (JObject [(''b'', JNull), (''a'', JBigInt 5)]) = Inr k \<and>
     canonicalKey (JObject [(''a'', JString ''5''), (''b'', JNull)]) \<noteq> Inr k"
proof -
  obtain k where k: "canonicalKey (JObject [(''a'', JBigInt 5), (''b'', JNull)]) = Inr k"
    by (simp add: canonicalKey_def)
  have "canonicalKey (JObject [(''b'', JNull), (''a'', JBigInt 5)]) = Inr k"
    by (subst canonical_key_identity [OF k]) simp
  moreover have "canonicalKey (JObject [(''a'', JString ''5''), (''b'', JNull)]) \<noteq> Inr k"
    by (subst canonical_key_identity [OF k]) simp
  ultimately show ?thesis using k by blast
qed

end
