(* ===== verification/Quote_Identity.thy ===== *)
theory Quote_Identity
  imports Canonical_Key
begin

text \<open>
  Economic-state binding and quote identity
  (\<open>packages/representation-state/src/economic-state.ts\<close> and \<open>quote-identity.ts\<close>): the records, the runtime
  type check on the value a quote is at run time, the canonical comparison, and that it reports no
  difference exactly for identical quotes.
\<close>

section \<open>economic-state.ts\<close>

record economic_state =
  es_mint :: string
  es_decimals :: js_number
  es_multiplierHex :: string
  es_newMultiplierHex :: string
  es_effectiveTimestamp :: int
  es_phase :: activation_phase
  es_paused :: "bool option"

fun economicStateOf :: "chain_evidence option \<Rightarrow> economic_state option" where
  "economicStateOf (Some (Decoded ob)) =
     (case co_phase ob of
        None \<Rightarrow> None
      | Some p \<Rightarrow> Some
          \<lparr>es_mint = co_mint ob, es_decimals = JNum (of_nat (co_decimals ob)),
           es_multiplierHex = hexOf (multiplier (co_protectedState ob)),
           es_newMultiplierHex = hexOf (newMultiplier (co_protectedState ob)),
           es_effectiveTimestamp = newMultiplierEffectiveTimestamp (co_protectedState ob),
           es_phase = p, es_paused = co_paused ob\<rparr>)"
| "economicStateOf _ = None"

text \<open>\<open>x === y\<close> on numbers: the zeros are equal, NaN is not equal to itself.\<close>

fun js_number_eq :: "js_number \<Rightarrow> js_number \<Rightarrow> bool" where
  "js_number_eq JNaN _ = False"
| "js_number_eq _ JNaN = False"
| "js_number_eq JNegZero y = (y = JNegZero \<or> y = JNum 0)"
| "js_number_eq x JNegZero = (x = JNum 0)"
| "js_number_eq x y = (x = y)"

datatype state_field =
    F_mint | F_decimals | F_multiplierHex | F_newMultiplierHex | F_effectiveTimestamp | F_phase | F_paused

fun field_differs :: "economic_state \<Rightarrow> economic_state \<Rightarrow> state_field \<Rightarrow> bool" where
  "field_differs e a F_mint = (es_mint e \<noteq> es_mint a)"
| "field_differs e a F_decimals = (\<not> js_number_eq (es_decimals e) (es_decimals a))"
| "field_differs e a F_multiplierHex = (es_multiplierHex e \<noteq> es_multiplierHex a)"
| "field_differs e a F_newMultiplierHex = (es_newMultiplierHex e \<noteq> es_newMultiplierHex a)"
| "field_differs e a F_effectiveTimestamp = (es_effectiveTimestamp e \<noteq> es_effectiveTimestamp a)"
| "field_differs e a F_phase = (es_phase e \<noteq> es_phase a)"
| "field_differs e a F_paused = (es_paused e \<noteq> es_paused a)"

definition economicStateMismatches :: "economic_state \<Rightarrow> economic_state \<Rightarrow> state_field list" where
  "economicStateMismatches expd actual =
     filter (field_differs expd actual)
       [F_mint, F_decimals, F_multiplierHex, F_newMultiplierHex, F_effectiveTimestamp, F_phase, F_paused]"

definition protectedStateOf :: "economic_state \<Rightarrow> protected_state" where
  "protectedStateOf s =
     \<lparr>multiplier = hex_bytes (es_multiplierHex s), newMultiplier = hex_bytes (es_newMultiplierHex s),
      newMultiplierEffectiveTimestamp = es_effectiveTimestamp s\<rparr>"

definition effectiveMultiplierBytes :: "economic_state \<Rightarrow> bytes" where
  "effectiveMultiplierBytes s =
     hex_bytes (if es_phase s = Activated then es_newMultiplierHex s else es_multiplierHex s)"

section \<open>quote-identity.ts: types\<close>

record route_leg =
  rl_venue :: string
  rl_poolId :: "string option"
  rl_inputMint :: "string option"
  rl_outputMint :: "string option"
  rl_percent :: js_number

record route_identity =
  ri_source :: string
  ri_routeId :: string
  ri_legs :: "route_leg list"

record quote_identity =
  qi_underlying :: string
  qi_inputMint :: string
  qi_mint :: string
  qi_inputRaw :: int
  qi_outputRaw :: int
  qi_minOutputRaw :: "int option"
  qi_route :: route_identity
  qi_quotedAt :: "string option"
  qi_contextSlot :: "int option"
  qi_state :: economic_state

datatype quote_mismatch_code =
    UNDERLYING_CHANGED | INPUT_MINT_CHANGED | OUTPUT_MINT_CHANGED | INPUT_AMOUNT_CHANGED
  | OUTPUT_AMOUNT_CHANGED | MIN_OUTPUT_CHANGED | ROUTE_CHANGED | VENUE_CHANGED
  | QUOTE_CONTEXT_CHANGED | ECONOMIC_STATE_CHANGED | PHASE_CHANGED

text \<open>The value each record is at run time; \<open>null\<close> for an absent field.\<close>

fun string_or_null :: "string option \<Rightarrow> js_value" where
  "string_or_null None = JNull" | "string_or_null (Some s) = JString s"

fun bigint_or_null :: "int option \<Rightarrow> js_value" where
  "bigint_or_null None = JNull" | "bigint_or_null (Some i) = JBigInt i"

fun bool_or_null :: "bool option \<Rightarrow> js_value" where
  "bool_or_null None = JNull" | "bool_or_null (Some b) = JBool b"

definition state_value :: "economic_state \<Rightarrow> js_value" where
  "state_value s = JObject
     [(''mint'', JString (es_mint s)), (''decimals'', JNumber (es_decimals s)),
      (''multiplierHex'', JString (es_multiplierHex s)), (''newMultiplierHex'', JString (es_newMultiplierHex s)),
      (''effectiveTimestamp'', JBigInt (es_effectiveTimestamp s)), (''phase'', JNumber (JNum (of_int (es_phase s)))),
      (''paused'', bool_or_null (es_paused s))]"

definition leg_value :: "route_leg \<Rightarrow> js_value" where
  "leg_value l = JObject
     [(''venue'', JString (rl_venue l)), (''poolId'', string_or_null (rl_poolId l)),
      (''inputMint'', string_or_null (rl_inputMint l)), (''outputMint'', string_or_null (rl_outputMint l)),
      (''percent'', JNumber (rl_percent l))]"

definition route_value :: "route_identity \<Rightarrow> js_value" where
  "route_value r = JObject
     [(''source'', JString (ri_source r)), (''routeId'', JString (ri_routeId r)),
      (''legs'', JArray (map leg_value (ri_legs r)))]"

definition quote_value :: "'a quote_identity_scheme \<Rightarrow> js_value" where
  "quote_value q = JObject
     [(''underlying'', JString (qi_underlying q)), (''inputMint'', JString (qi_inputMint q)),
      (''mint'', JString (qi_mint q)), (''inputRaw'', JBigInt (qi_inputRaw q)),
      (''outputRaw'', JBigInt (qi_outputRaw q)), (''minOutputRaw'', bigint_or_null (qi_minOutputRaw q)),
      (''route'', route_value (qi_route q)), (''quotedAt'', string_or_null (qi_quotedAt q)),
      (''contextSlot'', bigint_or_null (qi_contextSlot q)), (''state'', state_value (qi_state q))]"

section \<open>quote-identity.ts: operations\<close>

definition hex_lower :: "char \<Rightarrow> bool" where
  "hex_lower c \<longleftrightarrow> is_digit c \<or> 97 \<le> (of_char c :: nat) \<and> (of_char c :: nat) \<le> 102"

fun isHex16 :: "js_value \<Rightarrow> bool" where
  "isHex16 (JString s) = (length s = 16 \<and> list_all hex_lower s)"
| "isHex16 _ = False"

fun isStringOrNull :: "js_value \<Rightarrow> bool" where
  "isStringOrNull JNull = True" | "isStringOrNull (JString _) = True" | "isStringOrNull _ = False"

fun isBigintOrNull :: "js_value \<Rightarrow> bool" where
  "isBigintOrNull JNull = True" | "isBigintOrNull (JBigInt _) = True" | "isBigintOrNull _ = False"

fun typeof_string :: "js_value \<Rightarrow> bool" where
  "typeof_string (JString _) = True" | "typeof_string _ = False"

fun typeof_bigint :: "js_value \<Rightarrow> bool" where
  "typeof_bigint (JBigInt _) = True" | "typeof_bigint _ = False"

fun typeof_bool :: "js_value \<Rightarrow> bool" where
  "typeof_bool (JBool _) = True" | "typeof_bool _ = False"

fun number_in :: "int \<Rightarrow> int \<Rightarrow> js_value \<Rightarrow> bool" where
  "number_in lo hi (JNumber x) = js_int_in lo hi x" | "number_in lo hi _ = False"

text \<open>\<open>v?.k\<close>: the named properties of values other than plain objects are undefined.\<close>

fun js_prop :: "js_value \<Rightarrow> string \<Rightarrow> js_value" where
  "js_prop (JObject ps) k = js_get ps k"
| "js_prop _ k = JUndefined"

fun typeof_object :: "js_value \<Rightarrow> bool" where
  "typeof_object (JObject _) = True" | "typeof_object (JArray _) = True" | "typeof_object _ = False"

text \<open>\<open>v === 0\<close> and \<open>v === 1\<close>.\<close>

fun phase_number :: "js_value \<Rightarrow> bool" where
  "phase_number (JNumber x) = (js_number_eq x (JNum 0) \<or> js_number_eq x (JNum 1))"
| "phase_number _ = False"

definition problem_if :: "bool \<Rightarrow> string \<Rightarrow> string list" where
  "problem_if c text = (if c then [text] else [])"

definition state_problems :: "js_value \<Rightarrow> string list" where
  "state_problems s =
     (if \<not> typeof_object s then [''state is required'']
      else
        problem_if (\<not> typeof_string (js_prop s ''mint'')) ''state.mint must be a string'' @
        problem_if (\<not> number_in 0 255 (js_prop s ''decimals'')) ''state.decimals must be an integer in [0, 255]'' @
        problem_if (\<not> isHex16 (js_prop s ''multiplierHex'') \<or> \<not> isHex16 (js_prop s ''newMultiplierHex''))
          ''state multipliers must be 16 lowercase hex digits'' @
        problem_if (\<not> typeof_bigint (js_prop s ''effectiveTimestamp'')) ''state.effectiveTimestamp must be a bigint'' @
        problem_if (\<not> phase_number (js_prop s ''phase'')) ''state.phase must be 0 or 1'' @
        problem_if (js_prop s ''paused'' \<noteq> JNull \<and> \<not> typeof_bool (js_prop s ''paused''))
          ''state.paused must be a boolean or null'')"

definition leg_problems :: "js_value \<Rightarrow> string list" where
  "leg_problems leg =
     problem_if (\<not> typeof_string (js_prop leg ''venue'') \<or> \<not> isStringOrNull (js_prop leg ''poolId'') \<or>
        \<not> isStringOrNull (js_prop leg ''inputMint'') \<or> \<not> isStringOrNull (js_prop leg ''outputMint''))
       ''route leg fields have wrong types'' @
     problem_if (\<not> number_in 0 100 (js_prop leg ''percent'')) ''route leg percent must be an integer in [0, 100]''"

definition route_problems :: "js_value \<Rightarrow> string list" where
  "route_problems r =
     (case js_prop r ''legs'' of
        JArray legs \<Rightarrow>
          if \<not> typeof_object r \<or> \<not> typeof_string (js_prop r ''source'') \<or> \<not> typeof_string (js_prop r ''routeId'')
          then [''route must have source, routeId and legs'']
          else concat (map leg_problems legs)
      | _ \<Rightarrow> [''route must have source, routeId and legs''])"

definition quote_problems :: "js_value \<Rightarrow> string list" where
  "quote_problems q =
     concat (map (\<lambda>k. problem_if (\<not> typeof_string (js_prop q k)) (k @ '' must be a string'')) [''underlying'', ''inputMint'', ''mint'']) @
     concat (map (\<lambda>k. problem_if (\<not> typeof_bigint (js_prop q k)) (k @ '' must be a bigint'')) [''inputRaw'', ''outputRaw'']) @
     problem_if (\<not> isBigintOrNull (js_prop q ''minOutputRaw'')) ''minOutputRaw must be a bigint or null'' @
     problem_if (\<not> isBigintOrNull (js_prop q ''contextSlot'')) ''contextSlot must be a bigint or null'' @
     problem_if (\<not> isStringOrNull (js_prop q ''quotedAt'')) ''quotedAt must be a string or null'' @
     state_problems (js_prop q ''state'') @ route_problems (js_prop q ''route'')"

definition assertQuoteIdentityTypes :: "js_value \<Rightarrow> rep_exn + unit" where
  "assertQuoteIdentityTypes q = throw_if (quote_problems q \<noteq> []) QuoteIdentityError"

definition routeIdentity :: "string \<Rightarrow> route_leg list \<Rightarrow> string option \<Rightarrow> rep_exn + route_identity" where
  "routeIdentity src legs providerRouteId =
     bindE (throw_if (\<not> list_all (\<lambda>l. js_int_in 0 100 (rl_percent l)) legs) QuoteIdentityError) (\<lambda>_.
     case providerRouteId of
       Some rid \<Rightarrow> Inr \<lparr>ri_source = src, ri_routeId = rid, ri_legs = legs\<rparr>
     | None \<Rightarrow>
         bindE (canonicalKey (JObject [(''source'', JString src), (''legs'', JArray (map leg_value legs))])) (\<lambda>key.
         Inr \<lparr>ri_source = src, ri_routeId = ''derived:'' @ key, ri_legs = legs\<rparr>))"

definition quoteIdentityOf :: "'a quote_identity_scheme \<Rightarrow> rep_exn + quote_identity" where
  "quoteIdentityOf quote =
     bindE (assertQuoteIdentityTypes (quote_value quote)) (\<lambda>_. Inr (quote_identity.truncate quote))"

definition quoteKey :: "'a quote_identity_scheme \<Rightarrow> rep_exn + string" where
  "quoteKey quote = bindE (quoteIdentityOf quote) (\<lambda>q. canonicalKey (quote_value q))"

definition venues_value :: "route_identity \<Rightarrow> js_value" where
  "venues_value route = JArray (map (\<lambda>l. JArray [JString (rl_venue l), string_or_null (rl_poolId l)]) (ri_legs route))"

definition key_diff :: "quote_mismatch_code \<Rightarrow> js_value \<Rightarrow> js_value \<Rightarrow> rep_exn + quote_mismatch_code list" where
  "key_diff code a b =
     bindE (canonicalKey a) (\<lambda>ka. bindE (canonicalKey b) (\<lambda>kb. Inr (if ka \<noteq> kb then [code] else [])))"

definition quoteMismatches ::
    "'a quote_identity_scheme \<Rightarrow> 'b quote_identity_scheme \<Rightarrow> rep_exn + quote_mismatch_code list" where
  "quoteMismatches expd actual =
     bindE (assertQuoteIdentityTypes (quote_value expd)) (\<lambda>_.
     bindE (assertQuoteIdentityTypes (quote_value actual)) (\<lambda>_.
     bindE (mapE (\<lambda>(code, a, b). key_diff code a b)
       [(UNDERLYING_CHANGED, JString (qi_underlying expd), JString (qi_underlying actual)),
        (INPUT_MINT_CHANGED, JString (qi_inputMint expd), JString (qi_inputMint actual)),
        (OUTPUT_MINT_CHANGED, JString (qi_mint expd), JString (qi_mint actual)),
        (INPUT_AMOUNT_CHANGED, JBigInt (qi_inputRaw expd), JBigInt (qi_inputRaw actual)),
        (OUTPUT_AMOUNT_CHANGED, JBigInt (qi_outputRaw expd), JBigInt (qi_outputRaw actual)),
        (MIN_OUTPUT_CHANGED, bigint_or_null (qi_minOutputRaw expd), bigint_or_null (qi_minOutputRaw actual)),
        (VENUE_CHANGED, venues_value (qi_route expd), venues_value (qi_route actual)),
        (ROUTE_CHANGED, route_value (qi_route expd), route_value (qi_route actual)),
        (QUOTE_CONTEXT_CHANGED,
          JArray [string_or_null (qi_quotedAt expd), bigint_or_null (qi_contextSlot expd)],
          JArray [string_or_null (qi_quotedAt actual), bigint_or_null (qi_contextSlot actual)])]) (\<lambda>diffs.
     let state = economicStateMismatches (qi_state expd) (qi_state actual)
     in Inr (concat diffs @
          (if state = [] then []
           else if list_all (\<lambda>m. m = F_phase) state then [PHASE_CHANGED] else [ECONOMIC_STATE_CHANGED])))))"

section \<open>Facts: the values determine the records\<close>

lemma or_null_inject [simp]:
  "string_or_null a = string_or_null b \<longleftrightarrow> a = b" "bigint_or_null i = bigint_or_null j \<longleftrightarrow> i = j"
  "bool_or_null p = bool_or_null q \<longleftrightarrow> p = q"
  subgoal by (cases a; cases b) simp_all
  subgoal by (cases i; cases j) simp_all
  subgoal by (cases p; cases q) simp_all
  done

lemma or_null_canon [simp]:
  "canon (string_or_null a) = string_or_null a" "canon (bigint_or_null i) = bigint_or_null i"
  "canon (bool_or_null p) = bool_or_null p"
  subgoal by (cases a) simp_all
  subgoal by (cases i) simp_all
  subgoal by (cases p) simp_all
  done

lemma or_null_key_ok [simp]: "key_ok (string_or_null a)" "key_ok (bigint_or_null i)" "key_ok (bool_or_null p)"
  subgoal by (cases a) simp_all
  subgoal by (cases i) simp_all
  subgoal by (cases p) simp_all
  done

lemma state_value_eq: "canon (state_value s) = canon (state_value t) \<longleftrightarrow> s = t"
  unfolding state_value_def by (subst canon_object) (auto intro: economic_state.equality)

lemma leg_value_eq: "canon (leg_value l) = canon (leg_value m) \<longleftrightarrow> l = m"
  unfolding leg_value_def by (subst canon_object) (auto intro: route_leg.equality)

lemma legs_value_eq: "map canon (map leg_value ls) = map canon (map leg_value ms) \<longleftrightarrow> ls = ms"
  by (induction ls arbitrary: ms) (auto simp: leg_value_eq Cons_eq_map_conv)

lemma route_value_eq: "canon (route_value r) = canon (route_value s) \<longleftrightarrow> r = s"
  unfolding route_value_def
  by (subst canon_object) (auto simp: legs_value_eq simp del: map_map intro: route_identity.equality)

lemma quote_value_eq:
  "canon (quote_value p) = canon (quote_value q) \<longleftrightarrow> quote_identity.truncate p = quote_identity.truncate q"
  unfolding quote_value_def
  by (subst canon_object) (simp_all add: route_value_eq state_value_eq quote_identity.truncate_def)

lemma venues_value_eq:
  "canon (venues_value r) = canon (venues_value s) \<longleftrightarrow>
   map (\<lambda>l. (rl_venue l, rl_poolId l)) (ri_legs r) = map (\<lambda>l. (rl_venue l, rl_poolId l)) (ri_legs s)"
proof -
  have "map (\<lambda>l. canon (JArray [JString (rl_venue l), string_or_null (rl_poolId l)])) ls =
        map (\<lambda>l. canon (JArray [JString (rl_venue l), string_or_null (rl_poolId l)])) ms \<longleftrightarrow>
      map (\<lambda>l. (rl_venue l, rl_poolId l)) ls = map (\<lambda>l. (rl_venue l, rl_poolId l)) ms" for ls ms
    by (induction ls arbitrary: ms) (auto simp: Cons_eq_map_conv)
  then show ?thesis by (simp add: venues_value_def comp_def)
qed

section \<open>Facts: quotes with a key\<close>

lemma key_diff_ok:
  "key_ok a \<Longrightarrow> key_ok b \<Longrightarrow> key_diff c a b = Inr (if canon a = canon b then [] else [c])"
  by (auto simp: key_ok_def key_diff_def same_key)

lemma quoteKey_ok:
  assumes "quoteKey q = Inr k"
  shows "assertQuoteIdentityTypes (quote_value q) = Inr ()" "canonicalKey (quote_value q) = Inr k" "key_ok (quote_value q)"
proof -
  have same: "quote_value (quote_identity.truncate q) = quote_value q"
    by (simp add: quote_value_def quote_identity.truncate_def)
  from assms same show "assertQuoteIdentityTypes (quote_value q) = Inr ()" and key: "canonicalKey (quote_value q) = Inr k"
    by (auto simp: quoteKey_def quoteIdentityOf_def err_simps)
  then show "key_ok (quote_value q)" by (auto simp: key_ok_def)
qed

lemma js_number_eq_safe:
  "safe_int x = Some i \<Longrightarrow> safe_int y = Some j \<Longrightarrow> js_number_eq x y \<longleftrightarrow> x = y"
  by (cases x; cases y) auto

lemma state_mismatches_safe:
  assumes "key_ok (state_value e)" and "key_ok (state_value a)"
  shows "economicStateMismatches e a = [] \<longleftrightarrow> e = a"
proof -
  have "js_number_eq (es_decimals e) (es_decimals a) \<longleftrightarrow> es_decimals e = es_decimals a"
    using assms js_number_eq_safe by (auto simp: state_value_def)
  then show ?thesis by (auto simp: economicStateMismatches_def intro: economic_state.equality)
qed

lemma quoteKey_inject:
  fixes expd actual :: quote_identity
  assumes "quoteKey expd = Inr k" and "quoteKey actual = Inr k'"
  shows "k = k' \<longleftrightarrow> expd = actual"
proof -
  have "quote_identity.truncate q = q" for q :: quote_identity by (simp add: quote_identity.truncate_def)
  then show ?thesis
    using same_key [OF quoteKey_ok(2) [OF assms(1)] quoteKey_ok(2) [OF assms(2)]] by (simp add: quote_value_eq)
qed

lemma quoteMismatches_exact:
  fixes expd actual :: quote_identity
  assumes "quoteKey expd = Inr k" and "quoteKey actual = Inr k'"
  shows "\<exists>ms. quoteMismatches expd actual = Inr ms \<and> (ms = [] \<longleftrightarrow> expd = actual)"
proof -
  note e = quoteKey_ok [OF assms(1)] and a = quoteKey_ok [OF assms(2)]
  have ok: "key_ok (route_value (qi_route q))" "key_ok (state_value (qi_state q))" "key_ok (venues_value (qi_route q))"
    if "key_ok (quote_value q)" for q :: quote_identity
    using that by (auto simp: quote_value_def venues_value_def)
  note ok = ok [OF e(3)] ok [OF a(3)]
  have st: "economicStateMismatches (qi_state expd) (qi_state actual) = [] \<longleftrightarrow> qi_state expd = qi_state actual"
    using ok by (intro state_mismatches_safe)
  let ?c = "\<lambda>b c. if b then [] else [c :: quote_mismatch_code]"
  obtain tl where ms: "quoteMismatches expd actual = Inr (
       ?c (qi_underlying expd = qi_underlying actual) UNDERLYING_CHANGED @ ?c (qi_inputMint expd = qi_inputMint actual) INPUT_MINT_CHANGED @
       ?c (qi_mint expd = qi_mint actual) OUTPUT_MINT_CHANGED @ ?c (qi_inputRaw expd = qi_inputRaw actual) INPUT_AMOUNT_CHANGED @
       ?c (qi_outputRaw expd = qi_outputRaw actual) OUTPUT_AMOUNT_CHANGED @
       ?c (qi_minOutputRaw expd = qi_minOutputRaw actual) MIN_OUTPUT_CHANGED @
       ?c (canon (venues_value (qi_route expd)) = canon (venues_value (qi_route actual))) VENUE_CHANGED @
       ?c (qi_route expd = qi_route actual) ROUTE_CHANGED @
       ?c (qi_quotedAt expd = qi_quotedAt actual \<and> qi_contextSlot expd = qi_contextSlot actual) QUOTE_CONTEXT_CHANGED @ tl)"
     and tl: "tl = [] \<longleftrightarrow> qi_state expd = qi_state actual"
    using st e(1) a(1) ok by (simp add: quoteMismatches_def key_diff_ok route_value_eq Let_def)
  have "expd = actual \<longleftrightarrow> qi_underlying expd = qi_underlying actual \<and> qi_inputMint expd = qi_inputMint actual \<and>
      qi_mint expd = qi_mint actual \<and> qi_inputRaw expd = qi_inputRaw actual \<and> qi_outputRaw expd = qi_outputRaw actual \<and>
      qi_minOutputRaw expd = qi_minOutputRaw actual \<and> qi_route expd = qi_route actual \<and>
      qi_quotedAt expd = qi_quotedAt actual \<and> qi_contextSlot expd = qi_contextSlot actual \<and> qi_state expd = qi_state actual"
    by (auto intro: quote_identity.equality)
  with ms tl show ?thesis by auto
qed

text \<open>
  The canonical quote comparison is exact: for two quotes that have a key it returns, it reports no
  mismatch exactly when the quotes are identical field for field, and that is exactly when their keys are equal.
\<close>

theorem quote_comparison_exact:
  fixes expd actual :: quote_identity
  assumes "quoteKey expd = Inr k" and "quoteKey actual = Inr k'"
  shows "(\<exists>ms. quoteMismatches expd actual = Inr ms \<and> (ms = [] \<longleftrightarrow> expd = actual)) \<and> (k = k' \<longleftrightarrow> expd = actual)"
  using quoteMismatches_exact [OF assms] quoteKey_inject [OF assms] by blast

text \<open>A concrete quote.\<close>

definition sample_econ :: economic_state where
  "sample_econ = \<lparr>es_mint = ''MintA'', es_decimals = JNum 8, es_multiplierHex = ''000000000000f03f'',
     es_newMultiplierHex = ''000000000000f03f'', es_effectiveTimestamp = 100, es_phase = 1, es_paused = Some True\<rparr>"

definition sample_route_identity :: route_identity where
  "sample_route_identity = \<lparr>ri_source = ''FIXTURE'', ri_routeId = ''r1'',
     ri_legs = [\<lparr>rl_venue = ''Whirlpool'', rl_poolId = None, rl_inputMint = None, rl_outputMint = None, rl_percent = JNum 100\<rparr>]\<rparr>"

definition sample_quote :: quote_identity where
  "sample_quote = \<lparr>qi_underlying = ''TSLA'', qi_inputMint = ''USDC'', qi_mint = ''MintA'', qi_inputRaw = 1000000,
     qi_outputRaw = 250000, qi_minOutputRaw = Some 248000, qi_route = sample_route_identity, qi_quotedAt = None,
     qi_contextSlot = Some 7, qi_state = sample_econ\<rparr>"

lemmas sample_quote_defs = sample_quote_def sample_econ_def sample_route_identity_def

lemmas quote_check_defs = assertQuoteIdentityTypes_def quote_problems_def state_problems_def route_problems_def
  leg_problems_def problem_if_def quote_value_def state_value_def route_value_def leg_value_def js_get_def

lemma safe_int_small [simp]: "- 9007199254740991 \<le> i \<Longrightarrow> i \<le> 9007199254740991 \<Longrightarrow> safe_int (JNum (of_int i)) = Some i"
  by (simp add: MAX_SAFE_INTEGER_def)

lemma safe_int_numeral [simp]: "numeral n \<le> (9007199254740991 :: int) \<Longrightarrow> safe_int (JNum (numeral n)) = Some (numeral n)"
  "safe_int (JNum 0) = Some 0" "safe_int (JNum 1) = Some 1"
  using safe_int_small [of "numeral n"] safe_int_small [of 0] safe_int_small [of 1] by simp_all

lemma sample_quote_types: "assertQuoteIdentityTypes (quote_value sample_quote) = Inr ()"
  by (simp add: quote_check_defs sample_quote_defs js_int_in_def hex_lower_def is_digit_def)

lemma sample_quote_key_ok: "key_ok (quote_value sample_quote)"
  by (simp add: quote_value_def route_value_def leg_value_def state_value_def sample_quote_defs MAX_SAFE_INTEGER_def)

lemma quoteKey_exists:
  "assertQuoteIdentityTypes (quote_value q) = Inr () \<Longrightarrow> key_ok (quote_value q) \<Longrightarrow> \<exists>k. quoteKey q = Inr k"
  by (auto simp: quoteKey_def quoteIdentityOf_def key_ok_def quote_value_def quote_identity.truncate_def)

text \<open>A witness: lowering the expected output by one unit is reported, and changes the key.\<close>

lemma quote_comparison_exact_witness:
  "\<exists>k k' ms. quoteKey sample_quote = Inr k \<and> quoteKey (sample_quote\<lparr>qi_outputRaw := 249999\<rparr>) = Inr k' \<and> k \<noteq> k' \<and>
     quoteMismatches sample_quote (sample_quote\<lparr>qi_outputRaw := 249999\<rparr>) = Inr ms \<and> ms \<noteq> []"
proof -
  let ?q = "sample_quote\<lparr>qi_outputRaw := 249999\<rparr>"
  have "assertQuoteIdentityTypes (quote_value ?q) = Inr ()" "key_ok (quote_value ?q)"
    using sample_quote_types sample_quote_key_ok by (simp_all add: quote_check_defs)
  then obtain k' where k': "quoteKey ?q = Inr k'" using quoteKey_exists by blast
  obtain k where k: "quoteKey sample_quote = Inr k" using quoteKey_exists sample_quote_types sample_quote_key_ok by blast
  have "sample_quote \<noteq> ?q" by (simp add: sample_quote_def)
  with quote_comparison_exact [OF k k'] k k' show ?thesis by blast
qed

section \<open>Facts: the binding of an observation\<close>

lemma protectedStateOf_evidence:
  "economicStateOf (Some (Decoded ob)) = Some s \<Longrightarrow> protectedStateOf s = co_protectedState ob \<and> co_phase ob = Some (es_phase s)"
  by (auto simp: protectedStateOf_def split: option.splits)

lemma effectiveMultiplierBytes_evidence:
  "economicStateOf (Some (Decoded ob)) = Some s \<Longrightarrow> co_phase ob = Some (phaseAt (co_protectedState ob) t) \<Longrightarrow>
   effectiveMultiplierBytes s = effective_multiplier (co_protectedState ob) t"
  by (auto simp: effectiveMultiplierBytes_def effective_multiplier_def phaseAt_def Activated_def Pending_def)

end
