(* ===== verification/Compare.thy ===== *)
theory Compare
  imports Normalize Quote_Identity
begin

text \<open>
  Comparison of two quotes for the same underlying at the same notional
  (\<open>packages/representation-state/src/compare.ts\<close>), the exact meaning of its one-sided cost, and that the
  comparison key determines the whole comparison.
\<close>

section \<open>compare.ts\<close>

datatype economic_effect = ADDITIONAL_COST int | ECONOMICALLY_EQUAL | BETTER_VALUE int

record normalized_quote = quote_identity +
  nq_issuer :: issuer

record quote_comparison =
  qc_underlying :: string
  qc_preferredMint :: string
  qc_alternativeMint :: string
  qc_inputRaw :: int
  qc_preferredQuote :: quote_identity
  qc_alternativeQuote :: quote_identity
  qc_comparisonKey :: string
  qc_preferredSharesEquivalent :: rational
  qc_alternativeSharesEquivalent :: rational
  qc_differenceSign :: int
  qc_differenceMagnitude :: rational
  qc_additionalCostBps :: int
  qc_economicEffect :: economic_effect

definition quote_shares :: "'a quote_identity_scheme \<Rightarrow> rep_exn + rational" where
  "quote_shares quote =
     sharesEquivalent (qi_outputRaw quote) (Some (es_decimals (qi_state quote))) (effectiveMultiplierBytes (qi_state quote))"

definition comparison_key_value :: "quote_identity \<Rightarrow> quote_identity \<Rightarrow> js_value" where
  "comparison_key_value p a = JObject [(''preferred'', quote_value p), (''alternative'', quote_value a)]"

text \<open>The comparison computed from the two share-equivalents \<open>p\<close> and \<open>a\<close>.\<close>

definition comparison_of :: "quote_identity \<Rightarrow> quote_identity \<Rightarrow> string \<Rightarrow> rational \<Rightarrow> rational \<Rightarrow> quote_comparison" where
  "comparison_of preferred alternative key p a =
     (let numerator = (rn_num p * rn_den a - rn_num a * rn_den p) * BPS;
          denominator = rn_num p * rn_den a;
          sign = compareRationals p a;
          rawDiff = rn_num p * rn_den a - rn_num a * rn_den p;
          additionalCostBps = ceilDiv numerator denominator;
          economicEffect =
            (if sign > 0 then ADDITIONAL_COST additionalCostBps
             else if sign = 0 then ECONOMICALLY_EQUAL else BETTER_VALUE (- additionalCostBps))
      in \<lparr>qc_underlying = qi_underlying preferred,
          qc_preferredMint = qi_mint preferred,
          qc_alternativeMint = qi_mint alternative,
          qc_inputRaw = qi_inputRaw preferred,
          qc_preferredQuote = preferred,
          qc_alternativeQuote = alternative,
          qc_comparisonKey = key,
          qc_preferredSharesEquivalent = p,
          qc_alternativeSharesEquivalent = a,
          qc_differenceSign = sign,
          qc_differenceMagnitude = rational (if rawDiff < 0 then - rawDiff else rawDiff) (rn_den p * rn_den a),
          qc_additionalCostBps = additionalCostBps,
          qc_economicEffect = economicEffect\<rparr>)"

definition compareQuotes :: "normalized_quote \<Rightarrow> normalized_quote \<Rightarrow> rep_exn + quote_comparison" where
  "compareQuotes preferred alternative =
     (if qi_underlying preferred \<noteq> qi_underlying alternative then Inl (NormalizationError UnderlyingMismatch)
      else if qi_inputMint preferred \<noteq> qi_inputMint alternative then Inl (NormalizationError InputMintMismatch)
      else if qi_inputRaw preferred \<noteq> qi_inputRaw alternative then Inl (NormalizationError NotionalMismatch)
      else if es_mint (qi_state preferred) \<noteq> qi_mint preferred \<or> es_mint (qi_state alternative) \<noteq> qi_mint alternative
      then Inl (NormalizationError StateMismatch)
      else
        bindE (quote_shares preferred) (\<lambda>p.
        bindE (quote_shares alternative) (\<lambda>a.
        bindE (throw_if (rn_num p = 0) (NormalizationError NonPositiveOutput)) (\<lambda>_.
        bindE (quoteIdentityOf preferred) (\<lambda>pq.
        bindE (quoteIdentityOf alternative) (\<lambda>aq.
        bindE (canonicalKey (comparison_key_value pq aq)) (\<lambda>key.
        Inr (comparison_of pq aq key p a))))))))"

section \<open>Facts\<close>

lemma quoteIdentityOf_eq:
  "quoteIdentityOf q = Inr r \<longleftrightarrow> assertQuoteIdentityTypes (quote_value q) = Inr () \<and> r = quote_identity.truncate q"
  by (auto simp: quoteIdentityOf_def err_simps)

lemma truncate_idem [simp]: "quote_identity.truncate (q :: quote_identity) = q"
  by (simp add: quote_identity.truncate_def)

lemma truncate_fields [simp]:
  "qi_underlying (quote_identity.truncate q) = qi_underlying q" "qi_inputMint (quote_identity.truncate q) = qi_inputMint q"
  "qi_mint (quote_identity.truncate q) = qi_mint q" "qi_inputRaw (quote_identity.truncate q) = qi_inputRaw q"
  "qi_outputRaw (quote_identity.truncate q) = qi_outputRaw q" "qi_minOutputRaw (quote_identity.truncate q) = qi_minOutputRaw q"
  "qi_route (quote_identity.truncate q) = qi_route q" "qi_state (quote_identity.truncate q) = qi_state q"
  "qi_quotedAt (quote_identity.truncate q) = qi_quotedAt q" "qi_contextSlot (quote_identity.truncate q) = qi_contextSlot q"
  by (simp_all add: quote_identity.truncate_def)

lemma quote_value_truncate [simp]: "quote_value (quote_identity.truncate q) = quote_value q"
  by (simp add: quote_value_def)

lemma quote_shares_truncate [simp]: "quote_shares (quote_identity.truncate q) = quote_shares q"
  by (simp add: quote_shares_def)

lemma compareQuotes_ok:
  "compareQuotes preferred alternative = Inr c \<longleftrightarrow>
   (\<exists>p a key. qi_underlying preferred = qi_underlying alternative \<and> qi_inputMint preferred = qi_inputMint alternative \<and>
     qi_inputRaw preferred = qi_inputRaw alternative \<and> es_mint (qi_state preferred) = qi_mint preferred \<and>
     es_mint (qi_state alternative) = qi_mint alternative \<and> quote_shares preferred = Inr p \<and> quote_shares alternative = Inr a \<and>
     rn_num p \<noteq> 0 \<and> assertQuoteIdentityTypes (quote_value preferred) = Inr () \<and>
     assertQuoteIdentityTypes (quote_value alternative) = Inr () \<and>
     canonicalKey (comparison_key_value (quote_identity.truncate preferred) (quote_identity.truncate alternative)) = Inr key \<and>
     c = comparison_of (quote_identity.truncate preferred) (quote_identity.truncate alternative) key p a)"
  by (auto simp: compareQuotes_def err_simps quoteIdentityOf_eq split: if_splits)

lemma quote_shares_reduced: "quote_shares q = Inr r \<Longrightarrow> reduced r"
  unfolding quote_shares_def by (drule shares_value) blast

lemma cost_is_ceiling:
  assumes "reduced p" and "reduced a" and "rn_num p \<noteq> 0"
  shows "ceilDiv ((rn_num p * rn_den a - rn_num a * rn_den p) * BPS) (rn_num p * rn_den a) =
    \<lceil>(rat_of p - rat_of a) / rat_of p * 10000\<rceil>"
proof -
  have pos: "0 < rn_num p" "0 < rn_den a" "0 < rn_den p" using assms by (auto simp: reduced_def)
  then have den: "0 < rn_num p * rn_den a" by simp
  have "(of_int ((rn_num p * rn_den a - rn_num a * rn_den p) * BPS) :: rat) / of_int (rn_num p * rn_den a) =
      (rat_of p - rat_of a) / rat_of p * 10000"
    using pos by (simp add: rat_of_def BPS_def field_simps)
  with ceilDiv_ceiling [OF den] show ?thesis by simp
qed

text \<open>
  C36. A comparison's additional cost is the exact ceiling of (preferred - alternative) / preferred in
  basis points, so it is never understated, and the effect's kind is the exact sign of the difference.
\<close>

theorem comparison_cost_exact:
  assumes "compareQuotes preferred alternative = Inr c"
  shows "qc_additionalCostBps c =
      \<lceil>(rat_of (qc_preferredSharesEquivalent c) - rat_of (qc_alternativeSharesEquivalent c)) /
        rat_of (qc_preferredSharesEquivalent c) * 10000\<rceil> \<and>
    qc_economicEffect c =
      (if rat_of (qc_alternativeSharesEquivalent c) < rat_of (qc_preferredSharesEquivalent c)
       then ADDITIONAL_COST (qc_additionalCostBps c)
       else if rat_of (qc_alternativeSharesEquivalent c) = rat_of (qc_preferredSharesEquivalent c) then ECONOMICALLY_EQUAL
       else BETTER_VALUE (- qc_additionalCostBps c)) \<and>
    quote_shares preferred = Inr (qc_preferredSharesEquivalent c) \<and>
    quote_shares alternative = Inr (qc_alternativeSharesEquivalent c) \<and>
    rat_of (qc_differenceMagnitude c) =
      \<bar>rat_of (qc_preferredSharesEquivalent c) - rat_of (qc_alternativeSharesEquivalent c)\<bar>"
proof -
  obtain p a key where s: "quote_shares preferred = Inr p" "quote_shares alternative = Inr a" "rn_num p \<noteq> 0"
      and c: "c = comparison_of (quote_identity.truncate preferred) (quote_identity.truncate alternative) key p a"
    using assms by (auto simp: compareQuotes_ok)
  note red = quote_shares_reduced [OF s(1)] quote_shares_reduced [OF s(2)]
  then have dens: "0 < rn_den p" "0 < rn_den a" by (simp_all add: reduced_def)
  define diff where "diff = rn_num p * rn_den a - rn_num a * rn_den p"
  have "rat_of p - rat_of a = of_int diff / (of_int (rn_den p) * of_int (rn_den a))"
    using dens by (simp add: rat_of_def diff_def diff_frac_eq)
  then have abs: "\<bar>rat_of p - rat_of a\<bar> = of_int \<bar>diff\<bar> / of_int (rn_den p * rn_den a)"
    using dens by (simp add: abs_mult)
  have "rat_of (rational \<bar>diff\<bar> (rn_den p * rn_den a)) = \<bar>rat_of p - rat_of a\<bar>"
    using dens abs by (simp add: rational_simps)
  then show ?thesis
    using s cost_is_ceiling [OF red s(3)] compareRationals_sign [OF dens]
    by (auto simp: c comparison_of_def Let_def diff_def abs_if)
qed

text \<open>
  The comparison key binds: two comparisons with the same key are equal in every field, so a
  disclosure, a consent or a plan bound to a key is bound to one exact pair of quotes and one exact cost.
\<close>

theorem comparison_key_binds:
  assumes "compareQuotes p a = Inr c" and "compareQuotes p' a' = Inr c'" and "qc_comparisonKey c = qc_comparisonKey c'"
  shows "c = c'"
proof -
  obtain sp sa key where c: "quote_shares p = Inr sp" "quote_shares a = Inr sa"
      "canonicalKey (comparison_key_value (quote_identity.truncate p) (quote_identity.truncate a)) = Inr key"
      "c = comparison_of (quote_identity.truncate p) (quote_identity.truncate a) key sp sa"
    using assms(1) by (auto simp: compareQuotes_ok)
  obtain sp' sa' key' where c': "quote_shares p' = Inr sp'" "quote_shares a' = Inr sa'"
      "canonicalKey (comparison_key_value (quote_identity.truncate p') (quote_identity.truncate a')) = Inr key'"
      "c' = comparison_of (quote_identity.truncate p') (quote_identity.truncate a') key' sp' sa'"
    using assms(2) by (auto simp: compareQuotes_ok)
  have key: "key = key'" using assms(3) c(4) c'(4) by (simp add: comparison_of_def Let_def)
  then have "canon (comparison_key_value (quote_identity.truncate p) (quote_identity.truncate a)) =
      canon (comparison_key_value (quote_identity.truncate p') (quote_identity.truncate a'))"
    using same_key [OF c(3) c'(3)] by simp
  then have q: "quote_identity.truncate p = quote_identity.truncate p'" "quote_identity.truncate a = quote_identity.truncate a'"
    unfolding comparison_key_value_def by (subst (asm) canon_object, simp_all add: quote_value_eq)+
  then have "quote_shares p = quote_shares p'" "quote_shares a = quote_shares a'"
    by (metis quote_shares_truncate)+
  with q key c c' show ?thesis by simp
qed

section \<open>Witnesses\<close>

definition sample_preferred_quote :: normalized_quote where
  "sample_preferred_quote = quote_identity.extend sample_quote \<lparr>nq_issuer = xStocks_issuer\<rparr>"

definition sample_alternative_quote :: normalized_quote where
  "sample_alternative_quote = quote_identity.extend
     (sample_quote\<lparr>qi_mint := ''MintB'', qi_outputRaw := 249900, qi_state := sample_econ\<lparr>es_mint := ''MintB'', es_paused := Some False\<rparr>\<rparr>)
     \<lparr>nq_issuer = Ondo_issuer\<rparr>"

lemma sample_hex: "hex_bytes ''000000000000f03f'' = one_f64"
  by code_simp

lemma sample_quote_shares:
  assumes "qi_state q = sample_econ\<lparr>es_mint := m, es_paused := b\<rparr>" and "0 < qi_outputRaw q"
  shows "\<exists>r. quote_shares q = Inr r \<and> rn_num r \<noteq> 0"
proof -
  have eff: "effectiveMultiplierBytes (qi_state q) = one_f64" "es_decimals (qi_state q) = JNum 8"
    by (simp_all add: assms(1) effectiveMultiplierBytes_def Activated_def sample_econ_def sample_hex del: hex_bytes.simps)
  have "\<exists>m. multiplierToRational one_f64 = Inr m"
    using sample_multipliers(1) by (simp add: multiplierToRational_def Let_def)
  then obtain r where r: "quote_shares q = Inr r"
    using assms(2) by (auto simp: quote_shares_def eff sharesEquivalent_def js_int_in_def MAX_DECIMALS_def)
  obtain v k where "0 < v" "rat_of r = of_int (qi_outputRaw q) * v / 10 ^ k"
    using shares_value [OF r [unfolded quote_shares_def]] by blast
  with assms(2) have "0 < rat_of r" by simp
  then have "rn_num r \<noteq> 0" by (auto simp: rat_of_def)
  with r show ?thesis by blast
qed

lemma sample_extend:
  "quote_value sample_preferred_quote = quote_value sample_quote"
  "quote_identity.truncate sample_preferred_quote = sample_quote"
  by (simp_all add: sample_preferred_quote_def quote_value_def quote_identity.extend_def quote_identity.truncate_def)

lemma sample_alternative_types:
  "assertQuoteIdentityTypes (quote_value sample_alternative_quote) = Inr ()"
  "key_ok (quote_value sample_alternative_quote)"
proof -
  show "assertQuoteIdentityTypes (quote_value sample_alternative_quote) = Inr ()"
    using sample_quote_types by (simp add: sample_alternative_quote_def quote_identity.extend_def quote_check_defs sample_quote_defs)
  show "key_ok (quote_value sample_alternative_quote)"
    using sample_quote_key_ok
    by (simp add: sample_alternative_quote_def quote_identity.extend_def quote_value_def state_value_def sample_quote_def sample_econ_def)
qed

lemma sample_comparison_exists: "\<exists>c. compareQuotes sample_preferred_quote sample_alternative_quote = Inr c"
proof -
  obtain p where p: "quote_shares sample_preferred_quote = Inr p" "rn_num p \<noteq> 0"
    using sample_quote_shares [where q = sample_preferred_quote and m = "''MintA''" and b = "Some True"]
    by (auto simp: sample_preferred_quote_def quote_identity.extend_def sample_quote_def sample_econ_def)
  obtain a where a: "quote_shares sample_alternative_quote = Inr a"
    using sample_quote_shares [where q = sample_alternative_quote and m = "''MintB''" and b = "Some False"]
    by (auto simp: sample_alternative_quote_def quote_identity.extend_def sample_quote_def)
  have "key_ok (comparison_key_value (quote_identity.truncate sample_preferred_quote) (quote_identity.truncate sample_alternative_quote))"
    using sample_alternative_types sample_quote_key_ok by (simp add: comparison_key_value_def sample_extend)
  then obtain key where "canonicalKey (comparison_key_value (quote_identity.truncate sample_preferred_quote)
      (quote_identity.truncate sample_alternative_quote)) = Inr key" by (auto simp: key_ok_def)
  then show ?thesis
    using p a sample_alternative_types(1) sample_quote_types unfolding compareQuotes_ok sample_extend
    by (simp add: sample_preferred_quote_def sample_alternative_quote_def quote_identity.extend_def sample_quote_def sample_econ_def)
qed

theorem comparison_cost_exact_witness:
  "\<exists>c. compareQuotes sample_preferred_quote sample_alternative_quote = Inr c \<and>
     qc_additionalCostBps c = \<lceil>(rat_of (qc_preferredSharesEquivalent c) - rat_of (qc_alternativeSharesEquivalent c)) /
        rat_of (qc_preferredSharesEquivalent c) * 10000\<rceil>"
  using sample_comparison_exists comparison_cost_exact by blast

theorem comparison_key_binds_witness:
  "\<exists>c. compareQuotes sample_preferred_quote sample_alternative_quote = Inr c \<and>
     (\<forall>c'. compareQuotes (sample_preferred_quote\<lparr>nq_issuer := DEVNET_TEST\<rparr>) sample_alternative_quote = Inr c' \<and>
        qc_comparisonKey c = qc_comparisonKey c' \<longrightarrow> c = c')"
  using sample_comparison_exists comparison_key_binds by metis

end
