(* ===== verification/Chain_State.thy ===== *)
theory Chain_State
  imports Compare
begin

text \<open>
  The registry of representations and the resolution of a representation's state
  (\<open>packages/representation-state/src/registry.ts\<close>, \<open>chain-observation.ts\<close>, \<open>xstocks-adapter.ts\<close>,
  \<open>ondo-adapter.ts\<close>). The address test \<open>isAddress\<close> of the Solana kit and the platform's \<open>Date.parse\<close>
  (\<open>None\<close> for NaN) are parameters. Reason texts are modelled, because a disclosure quotes them.
\<close>

section \<open>registry.ts\<close>

record representation =
  rp_underlying :: string
  rp_issuer :: issuer
  rp_symbol :: string
  rp_mint :: string

record underlying_equity =
  ue_underlying :: string
  ue_name :: string
  ue_representations :: "representation list"

record raw_representation =
  rw_issuer :: issuer
  rw_symbol :: string
  rw_mint :: string

record raw_entry =
  re_underlying :: string
  re_name :: string
  re_representations :: "raw_representation list"

definition ENTRIES :: "raw_entry list" where
  "ENTRIES =
    [\<lparr>re_underlying = ''KO'', re_name = ''Coca-Cola'', re_representations =
       [\<lparr>rw_issuer = xStocks_issuer, rw_symbol = ''KOx'', rw_mint = ''XsaBXg8dU5cPM6ehmVctMkVqoiRG2ZjMo1cyBJ3AykQ''\<rparr>,
        \<lparr>rw_issuer = Ondo_issuer, rw_symbol = ''KOon'', rw_mint = ''e6G4pfFcrdKxJuZ4YXixRFfMbpMvgXG2Mjcus71ondo''\<rparr>]\<rparr>,
     \<lparr>re_underlying = ''UNH'', re_name = ''UnitedHealth'', re_representations =
       [\<lparr>rw_issuer = xStocks_issuer, rw_symbol = ''UNHx'', rw_mint = ''XszvaiXGPwvk2nwb3o9C1CX4K6zH8sez11E6uyup6fe''\<rparr>,
        \<lparr>rw_issuer = Ondo_issuer, rw_symbol = ''UNHon'', rw_mint = ''kPBGL8vAwKN3UGmr9cjkM2dU79SC3nzTC9yu7F8ondo''\<rparr>]\<rparr>,
     \<lparr>re_underlying = ''CRM'', re_name = ''Salesforce'', re_representations =
       [\<lparr>rw_issuer = xStocks_issuer, rw_symbol = ''CRMx'', rw_mint = ''XsczbcQ3zfcgAEt9qHQES8pxKAVG5rujPSHQEXi4kaN''\<rparr>,
        \<lparr>rw_issuer = Ondo_issuer, rw_symbol = ''CRMon'', rw_mint = ''7D7ukbcnUNYt7Et5vtsDZhAy28MKu9pkHka1Hp9ondo''\<rparr>]\<rparr>]"

text \<open>
  The inner loop carries the sets of mints, symbols and, per entry, issuers seen so far; the outer loop
  the map of underlyings, in insertion order.
\<close>

fun build_representations ::
    "(string \<Rightarrow> bool) \<Rightarrow> string \<Rightarrow> raw_representation list \<Rightarrow> string set \<Rightarrow> string set \<Rightarrow> issuer set \<Rightarrow>
       rep_exn + representation list \<times> string set \<times> string set" where
  "build_representations isAddress u [] mints symbols issuers = Inr ([], mints, symbols)"
| "build_representations isAddress u (r # rs) mints symbols issuers =
     (if \<not> isAddress (rw_mint r) then Inl RegistryError
      else if rw_mint r \<in> mints then Inl RegistryError
      else if rw_symbol r \<in> symbols then Inl RegistryError
      else if rw_issuer r \<in> issuers then Inl RegistryError
      else bindE (build_representations isAddress u rs (insert (rw_mint r) mints) (insert (rw_symbol r) symbols)
             (insert (rw_issuer r) issuers)) (\<lambda>(reps, ms, ss).
           Inr (\<lparr>rp_underlying = u, rp_issuer = rw_issuer r, rp_symbol = rw_symbol r, rp_mint = rw_mint r\<rparr> # reps, ms, ss)))"

fun build_entries ::
    "(string \<Rightarrow> bool) \<Rightarrow> raw_entry list \<Rightarrow> underlying_equity list \<Rightarrow> string set \<Rightarrow> string set \<Rightarrow>
       rep_exn + underlying_equity list" where
  "build_entries isAddress [] byUnderlying mints symbols = Inr byUnderlying"
| "build_entries isAddress (e # es) byUnderlying mints symbols =
     (if list_ex (\<lambda>u. ue_underlying u = re_underlying e) byUnderlying then Inl RegistryError
      else if list_ex (\<lambda>r. rw_issuer r = DEVNET_TEST) (re_representations e) then Inl RegistryError
      else bindE (build_representations isAddress (re_underlying e) (re_representations e) mints symbols {})
             (\<lambda>(reps, ms, ss).
           build_entries isAddress es
             (byUnderlying @ [\<lparr>ue_underlying = re_underlying e, ue_name = re_name e, ue_representations = reps\<rparr>]) ms ss))"

definition buildRegistry :: "(string \<Rightarrow> bool) \<Rightarrow> raw_entry list \<Rightarrow> rep_exn + underlying_equity list" where
  "buildRegistry isAddress entries = build_entries isAddress entries [] {} {}"

text \<open>The lookups, in the registry they read.\<close>

definition listUnderlyings :: "underlying_equity list \<Rightarrow> underlying_equity list" where
  "listUnderlyings registry = registry"

definition getUnderlying :: "underlying_equity list \<Rightarrow> string \<Rightarrow> rep_exn + underlying_equity" where
  "getUnderlying registry ticker =
     require (UnknownUnderlyingError ticker) (find (\<lambda>u. ue_underlying u = ticker) registry)"

fun findRepresentationByMint :: "underlying_equity list \<Rightarrow> string \<Rightarrow> representation option" where
  "findRepresentationByMint [] mint = None"
| "findRepresentationByMint (e # es) mint =
     (case find (\<lambda>r. rp_mint r = mint) (ue_representations e) of
        Some r \<Rightarrow> Some r | None \<Rightarrow> findRepresentationByMint es mint)"

fun findRepresentationBySymbol :: "underlying_equity list \<Rightarrow> string \<Rightarrow> representation option" where
  "findRepresentationBySymbol [] symbol = None"
| "findRepresentationBySymbol (e # es) symbol =
     (case find (\<lambda>r. rp_symbol r = symbol) (ue_representations e) of
        Some r \<Rightarrow> Some r | None \<Rightarrow> findRepresentationBySymbol es symbol)"

definition alternativesFor :: "underlying_equity list \<Rightarrow> representation \<Rightarrow> rep_exn + representation list" where
  "alternativesFor registry rep =
     bindE (getUnderlying registry (rp_underlying rep)) (\<lambda>u.
     Inr (filter (\<lambda>r. rp_mint r \<noteq> rp_mint rep) (ue_representations u)))"

section \<open>chain-observation.ts\<close>

record raw_mint_account =
  ra_mint :: string
  ra_owner :: string
  ra_data :: bytes
  ra_slot :: "int option"
  ra_blockTime :: "int option"
  ra_observedAt :: "string option"
  ra_chainUnixTimestamp :: "int option"

fun error_code_text :: "guard_client_error_code \<Rightarrow> string" where
  "error_code_text AccountNotFound_code = ''AccountNotFound''"
| "error_code_text InvalidClockData_code = ''InvalidClockData''"
| "error_code_text InvalidDownstream_code = ''InvalidDownstream''"
| "error_code_text InvalidExpectedState_code = ''InvalidExpectedState''"
| "error_code_text InvalidExtensionCombination_code = ''InvalidExtensionCombination''"
| "error_code_text InvalidMintData_code = ''InvalidMintData''"
| "error_code_text InvalidMintOwner_code = ''InvalidMintOwner''"
| "error_code_text InvalidMultiplier_code = ''InvalidMultiplier''"
| "error_code_text InvalidProtectionWindow_code = ''InvalidProtectionWindow''"
| "error_code_text MissingScaledUiAmount_code = ''MissingScaledUiAmount''"
| "error_code_text UnsupportedJupiterTrade_code = ''UnsupportedJupiterTrade''"

definition observeMintAccount :: "raw_mint_account \<Rightarrow> js_exn + chain_evidence" where
  "observeMintAccount account =
     (case bindE (decodeProtectedState (ra_owner account) (ra_data account)) (\<lambda>st.
           bindE (decodeMintMetadata (ra_owner account) (ra_data account)) (\<lambda>meta. Inr (st, meta))) of
        Inr (st, meta) \<Rightarrow> Inr (Decoded
          \<lparr>co_mint = ra_mint account, co_slot = ra_slot account, co_blockTime = ra_blockTime account,
           co_observedAt = ra_observedAt account, co_chainUnixTimestamp = ra_chainUnixTimestamp account,
           co_decimals = mint_metadata.decimals meta, co_paused = mint_metadata.paused meta, co_protectedState = st,
           co_hasScheduledChange = hasScheduledChange st,
           co_phase = map_option (phaseAt st) (ra_chainUnixTimestamp account)\<rparr>)
      | Inl (GuardClientError code g) \<Rightarrow> Inr (DecodeError
          \<lparr>df_mint = ra_mint account, df_slot = ra_slot account, df_blockTime = ra_blockTime account,
           df_observedAt = ra_observedAt account, df_code = error_code_text code\<rparr>)
      | Inl e \<Rightarrow> Inl e)"

text \<open>\<open>observedAt\<close> is the wall clock, an argument.\<close>

definition fetchChainObservation :: "get_multiple_accounts \<Rightarrow> string \<Rightarrow> address \<Rightarrow> js_exn + chain_evidence" where
  "fetchChainObservation rpc observedAt mint =
     bindE (rpc [mint, SYSVAR_CLOCK_ADDRESS]) (\<lambda>(slot, accounts).
     case rpc_value accounts 0 of
       None \<Rightarrow> Inr (DecodeError \<lparr>df_mint = mint, df_slot = Some slot, df_blockTime = None,
                  df_observedAt = Some observedAt, df_code = ''AccountNotFound''\<rparr>)
     | Some mintAccount \<Rightarrow>
         bindE (case rpc_value accounts 1 of
             None \<Rightarrow> Inr None
           | Some clockAccount \<Rightarrow>
               (case decodeClock (base64Data (rpc_data clockAccount)) of
                  Inr clock \<Rightarrow> Inr (Some (unixTimestamp clock))
                | Inl (GuardClientError code g) \<Rightarrow> Inr None
                | Inl e \<Rightarrow> Inl e)) (\<lambda>chainUnixTimestamp.
         observeMintAccount
           \<lparr>ra_mint = mint, ra_owner = rpc_owner mintAccount, ra_data = base64Data (rpc_data mintAccount),
            ra_slot = Some slot, ra_blockTime = None, ra_observedAt = Some observedAt,
            ra_chainUnixTimestamp = chainUnixTimestamp\<rparr>))"

definition assertValidPolicy :: "transition_policy \<Rightarrow> rep_exn + unit" where
  "assertValidPolicy policy = throw_if (tp_beforeSecs policy < 0 \<or> tp_afterSecs policy < 0) TransitionPolicyError"

fun calibration_text :: "calibration \<Rightarrow> string" where
  "calibration_text UNCALIBRATED = ''UNCALIBRATED''"
| "calibration_text CALIBRATED = ''CALIBRATED''"

fun classify_evidence :: "chain_evidence \<Rightarrow> transition_policy \<Rightarrow> representation_state \<times> string" where
  "classify_evidence (DecodeError f) policy = (UNKNOWN_state, ''mint could not be decoded: '' @ df_code f)"
| "classify_evidence (Decoded evidence) policy =
     (if co_paused evidence = Some True then (PAUSED, ''Token-2022 Pausable flag is set'')
      else if \<not> co_hasScheduledChange evidence then (SAFE, ''no scheduled multiplier change'')
      else case co_chainUnixTimestamp evidence of
        None \<Rightarrow> (UNKNOWN_state, ''multiplier change scheduled but chain time unavailable'')
      | Some now \<Rightarrow>
          let activation = newMultiplierEffectiveTimestamp (co_protectedState evidence);
              first = activation - tp_beforeSecs policy; last = activation + tp_afterSecs policy
          in if first \<le> now \<and> now \<le> last
             then (TRANSITION, ''chain time '' @ string_of_int now @ '' is inside ['' @ string_of_int first @ '', '' @
                     string_of_int last @ '']'')
             else (SAFE, ''scheduled change '' @ (if now \<ge> activation then ''activated'' else ''pending'') @
                     '' and outside the protection interval (policy '' @ calibration_text (tp_calibration policy) @ '')''))"

definition classifyChainEvidence :: "chain_evidence \<Rightarrow> transition_policy \<Rightarrow> rep_exn + representation_state \<times> string" where
  "classifyChainEvidence evidence policy = bindE (assertValidPolicy policy) (\<lambda>_. Inr (classify_evidence evidence policy))"

section \<open>xstocks-adapter.ts\<close>

definition resolveXStocksState ::
    "representation \<Rightarrow> chain_evidence \<Rightarrow> transition_policy \<Rightarrow> rep_exn + resolved_representation_state" where
  "resolveXStocksState rep evidence policy =
     bindE (throw_if (rp_issuer rep \<noteq> xStocks_issuer) RegistryError) (\<lambda>_.
     bindE (throw_if (evidence_mint evidence \<noteq> rp_mint rep) RegistryError) (\<lambda>_.
     bindE (classifyChainEvidence evidence policy) (\<lambda>(state, reason).
     Inr \<lparr>rr_underlying = rp_underlying rep, rr_issuer = rp_issuer rep, rr_symbol = rp_symbol rep, rr_mint = rp_mint rep,
          rr_state = Some state, rr_stateSource = Some CHAIN, rr_chainState = Some state, rr_apiState = None,
          rr_slot = evidence_slot evidence, rr_blockTime = evidence_blockTime evidence,
          rr_observedAt = evidence_observedAt evidence, rr_reason = reason,
          rr_chainObservation = Some evidence, rr_apiObservation = None, rr_transitionPolicy = Some policy\<rparr>)))"

section \<open>ondo-adapter.ts\<close>

fun API_STATUS_TO_STATE :: "api_status \<Rightarrow> representation_state" where
  "API_STATUS_TO_STATE active = SAFE"
| "API_STATUS_TO_STATE paused = PAUSED"
| "API_STATUS_TO_STATE transition = TRANSITION"
| "API_STATUS_TO_STATE unknown_status = UNKNOWN_state"

fun api_status_text :: "api_status \<Rightarrow> string" where
  "api_status_text active = ''active''"
| "api_status_text paused = ''paused''"
| "api_status_text transition = ''transition''"
| "api_status_text unknown_status = ''unknown''"

text \<open>The two source classes of the type; a text of neither class cannot be written in the model.\<close>

definition apiEvidenceUse ::
    "(string \<Rightarrow> int option) \<Rightarrow> api_observation \<Rightarrow> string option \<Rightarrow> representation_state option \<times> string" where
  "apiEvidenceUse dateParse api evaluatedAt =
     (if ao_sourceClass api = HISTORICAL_API_STATE
      then (None, ''historical API evidence ('' @ ao_observedAt api @ '') ignored: never live state'')
      else case (Option.bind (ao_validUntil api) dateParse, Option.bind evaluatedAt dateParse) of
        (Some until, Some atTime) \<Rightarrow>
          if atTime > until
          then (Some UNKNOWN_state, ''live API evidence expired at '' @ the (ao_validUntil api))
          else (Some (API_STATUS_TO_STATE (ao_status api)),
                ''status '' @ api_status_text (ao_status api) @ '' (live until '' @ the (ao_validUntil api) @ '')'')
      | _ \<Rightarrow> (Some UNKNOWN_state, ''live API evidence without a freshness bound or evaluation time''))"

fun state_text :: "representation_state \<Rightarrow> string" where
  "state_text SAFE = ''SAFE''"
| "state_text TRANSITION = ''TRANSITION''"
| "state_text PAUSED = ''PAUSED''"
| "state_text UNKNOWN_state = ''UNKNOWN''"

definition resolveOndoState ::
    "(string \<Rightarrow> int option) \<Rightarrow> representation \<Rightarrow> chain_evidence option \<Rightarrow> api_observation option \<Rightarrow> string option \<Rightarrow>
       transition_policy \<Rightarrow> rep_exn + resolved_representation_state" where
  "resolveOndoState dateParse rep chain api evaluatedAt policy =
     bindE (throw_if (rp_issuer rep \<noteq> Ondo_issuer) RegistryError) (\<lambda>_.
     bindE (throw_if (case chain of None \<Rightarrow> False | Some c \<Rightarrow> evidence_mint c \<noteq> rp_mint rep) RegistryError) (\<lambda>_.
     bindE (throw_if (case api of None \<Rightarrow> False | Some a \<Rightarrow> ao_symbol a \<noteq> rp_symbol rep \<or> ao_issuer a \<noteq> Ondo_issuer) RegistryError) (\<lambda>_.
     bindE (case chain of None \<Rightarrow> Inr None | Some c \<Rightarrow> bindE (classifyChainEvidence c policy) (\<lambda>k. Inr (Some k))) (\<lambda>chainClass.
     let apiUse = map_option (\<lambda>a. apiEvidenceUse dateParse a evaluatedAt) api;
         apiState = Option.bind apiUse fst;
         chainState = map_option fst chainClass;
         result = (\<lambda>state source reason.
           \<lparr>rr_underlying = rp_underlying rep, rr_issuer = rp_issuer rep, rr_symbol = rp_symbol rep, rr_mint = rp_mint rep,
            rr_state = state, rr_stateSource = source, rr_chainState = chainState, rr_apiState = apiState,
            rr_slot = Option.bind chain evidence_slot, rr_blockTime = Option.bind chain evidence_blockTime,
            rr_observedAt =
              (case Option.bind chain evidence_observedAt of Some t \<Rightarrow> Some t | None \<Rightarrow> map_option ao_observedAt api),
            rr_reason = reason, rr_chainObservation = chain, rr_apiObservation = api,
            rr_transitionPolicy = (case chain of None \<Rightarrow> None | Some _ \<Rightarrow> Some policy)\<rparr>)
     in Inr (case (chainClass, apiUse) of
         (None, None) \<Rightarrow> result (Some UNKNOWN_state) None ''no chain or API evidence''
       | (None, Some (None, apiReason)) \<Rightarrow> result (Some UNKNOWN_state) None (''no chain evidence; '' @ apiReason)
       | (Some (cs, reason), None) \<Rightarrow> result (Some cs) (Some CHAIN) reason
       | (Some (cs, reason), Some (None, apiReason)) \<Rightarrow> result (Some cs) (Some CHAIN) (reason @ ''; '' @ apiReason)
       | (None, Some (Some a, apiReason)) \<Rightarrow> result (Some a) (Some API) (''API '' @ apiReason)
       | (Some (cs, reason), Some (Some a, apiReason)) \<Rightarrow>
           if cs = a then result (Some cs) (Some BOTH_AGREE) (''chain and API agree: '' @ reason)
           else result None (Some CONFLICT)
             (''chain says '' @ state_text cs @ '' ('' @ reason @ ''); API says '' @ state_text a @ '' ('' @ apiReason @ '')''))))))"

section \<open>Facts: the registry\<close>

definition registry_representations :: "underlying_equity list \<Rightarrow> representation list" where
  "registry_representations registry = concat (map ue_representations registry)"

text \<open>
  What every registry satisfies: one entry per underlying, every representation filed under its own
  underlying, no two with a mint or a symbol in common, at most one per issuer and underlying, and no
  devnet test asset.
\<close>

definition registry_ok :: "(string \<Rightarrow> bool) \<Rightarrow> underlying_equity list \<Rightarrow> bool" where
  "registry_ok isAddress registry \<longleftrightarrow>
     distinct (map ue_underlying registry) \<and>
     distinct (map rp_mint (registry_representations registry)) \<and>
     distinct (map rp_symbol (registry_representations registry)) \<and>
     (\<forall>u \<in> set registry. distinct (map rp_issuer (ue_representations u)) \<and>
        (\<forall>r \<in> set (ue_representations u). rp_underlying r = ue_underlying u \<and> rp_issuer r \<noteq> DEVNET_TEST \<and> isAddress (rp_mint r)))"

lemma build_representations_ok:
  "build_representations isAddress u rs mints symbols issuers = Inr (reps, ms, ss) \<Longrightarrow>
     ms = mints \<union> rp_mint ` set reps \<and> ss = symbols \<union> rp_symbol ` set reps \<and>
     distinct (map rp_mint reps) \<and> distinct (map rp_symbol reps) \<and> distinct (map rp_issuer reps) \<and>
     mints \<inter> rp_mint ` set reps = {} \<and> symbols \<inter> rp_symbol ` set reps = {} \<and> issuers \<inter> rp_issuer ` set reps = {} \<and>
     map rp_issuer reps = map rw_issuer rs \<and>
     (\<forall>r \<in> set reps. rp_underlying r = u \<and> isAddress (rp_mint r))"
proof (induction rs arbitrary: mints symbols issuers reps ms ss)
  case Nil
  then show ?case by simp
next
  case (Cons r rs)
  from Cons.prems obtain reps' where ok: "isAddress (rw_mint r)" "rw_mint r \<notin> mints" "rw_symbol r \<notin> symbols" "rw_issuer r \<notin> issuers"
      and rec: "build_representations isAddress u rs (insert (rw_mint r) mints) (insert (rw_symbol r) symbols)
             (insert (rw_issuer r) issuers) = Inr (reps', ms, ss)"
      and reps: "reps = \<lparr>rp_underlying = u, rp_issuer = rw_issuer r, rp_symbol = rw_symbol r, rp_mint = rw_mint r\<rparr> # reps'"
    by (auto simp: err_simps split: if_splits)
  note ih = Cons.IH [OF rec]
  then have "rp_issuer ` set reps' = rw_issuer ` set rs" by (metis list.set_map)
  with ih ok show ?case unfolding reps by auto
qed

lemma registry_representations_snoc [simp]:
  "registry_representations (reg @ [u]) = registry_representations reg @ ue_representations u"
  by (simp add: registry_representations_def)

lemma build_entries_ok:
  "build_entries isAddress es reg mints symbols = Inr reg' \<Longrightarrow> registry_ok isAddress reg \<Longrightarrow>
   mints = rp_mint ` set (registry_representations reg) \<Longrightarrow> symbols = rp_symbol ` set (registry_representations reg) \<Longrightarrow>
   registry_ok isAddress reg'"
proof (induction es arbitrary: reg mints symbols)
  case Nil
  then show ?case by simp
next
  case (Cons e es)
  from Cons.prems(1) obtain reps ms ss where
      new: "\<not> list_ex (\<lambda>u. ue_underlying u = re_underlying e) reg" "\<not> list_ex (\<lambda>r. rw_issuer r = DEVNET_TEST) (re_representations e)"
      and reps: "build_representations isAddress (re_underlying e) (re_representations e) mints symbols {} = Inr (reps, ms, ss)"
      and rec: "build_entries isAddress es
             (reg @ [\<lparr>ue_underlying = re_underlying e, ue_name = re_name e, ue_representations = reps\<rparr>]) ms ss = Inr reg'"
    by (auto simp: err_simps split: if_splits)
  note r = build_representations_ok [OF reps]
  have dev: "\<forall>r \<in> set reps. rp_issuer r \<noteq> DEVNET_TEST"
  proof
    fix x
    assume "x \<in> set reps"
    then have "rp_issuer x \<in> set (map rw_issuer (re_representations e))" using r by (metis image_eqI list.set_map)
    with new(2) show "rp_issuer x \<noteq> DEVNET_TEST" by (auto simp: list_ex_iff)
  qed
  let ?u = "\<lparr>ue_underlying = re_underlying e, ue_name = re_name e, ue_representations = reps\<rparr>"
  have ok: "registry_ok isAddress (reg @ [?u])"
    unfolding registry_ok_def
  proof (intro conjI)
    show "distinct (map ue_underlying (reg @ [?u]))"
      using Cons.prems(2) new(1) by (auto simp: registry_ok_def list_ex_iff)
    show "distinct (map rp_mint (registry_representations (reg @ [?u])))"
      using Cons.prems(2,3) r by (simp add: registry_ok_def)
    show "distinct (map rp_symbol (registry_representations (reg @ [?u])))"
      using Cons.prems(2,4) r by (simp add: registry_ok_def)
    have "distinct (map rp_issuer reps)" "\<forall>r \<in> set reps. rp_underlying r = re_underlying e \<and> isAddress (rp_mint r)" using r by blast+
    with Cons.prems(2) dev show "\<forall>u \<in> set (reg @ [?u]). distinct (map rp_issuer (ue_representations u)) \<and>
        (\<forall>r \<in> set (ue_representations u). rp_underlying r = ue_underlying u \<and> rp_issuer r \<noteq> DEVNET_TEST \<and> isAddress (rp_mint r))"
      by (simp add: registry_ok_def)
  qed
  show ?case by (rule Cons.IH [OF rec ok]) (use r Cons.prems(3,4) in \<open>simp_all add: image_Un\<close>)
qed

lemma buildRegistry_ok: "buildRegistry isAddress entries = Inr reg \<Longrightarrow> registry_ok isAddress reg"
  unfolding buildRegistry_def
  by (erule build_entries_ok) (simp_all add: registry_ok_def registry_representations_def)

lemma getUnderlying_unique:
  "registry_ok isAddress reg \<Longrightarrow> u \<in> set reg \<Longrightarrow> getUnderlying reg (ue_underlying u) = Inr u"
proof -
  assume ok: "registry_ok isAddress reg" and u: "u \<in> set reg"
  obtain v where v: "find (\<lambda>x. ue_underlying x = ue_underlying u) reg = Some v"
    using u by (metis (mono_tags, lifting) find_None_iff not_Some_eq)
  then have "v \<in> set reg" "ue_underlying v = ue_underlying u" by (auto simp: find_Some_iff in_set_conv_nth)
  with ok u have "v = u" unfolding registry_ok_def by (metis distinct_map inj_onD)
  with v show ?thesis by (simp add: getUnderlying_def)
qed

lemma findRepresentationByMint_unique:
  "distinct (map rp_mint (registry_representations reg)) \<Longrightarrow> r \<in> set (registry_representations reg) \<Longrightarrow>
   findRepresentationByMint reg (rp_mint r) = Some r"
proof (induction reg)
  case Nil
  then show ?case by (simp add: registry_representations_def)
next
  case (Cons e es)
  show ?case
  proof (cases "find (\<lambda>x. rp_mint x = rp_mint r) (ue_representations e)")
    case None
    then have "r \<notin> set (ue_representations e)" by (auto simp: find_None_iff)
    with Cons None show ?thesis by (simp add: registry_representations_def)
  next
    case (Some x)
    then have "x \<in> set (ue_representations e)" "rp_mint x = rp_mint r" by (auto simp: find_Some_iff in_set_conv_nth)
    moreover from this have "x = r"
      using Cons.prems unfolding distinct_map
      by (metis UnCI concat.simps(2) inj_onD list.simps(9) registry_representations_def set_append)
    ultimately show ?thesis using Some by simp
  qed
qed

section \<open>Facts: classification\<close>

lemma observeMintAccount_decoded:
  assumes "observeMintAccount account = Inr (Decoded ob)"
  shows "\<exists>st meta. decodeProtectedState (ra_owner account) (ra_data account) = Inr st \<and>
    decodeMintMetadata (ra_owner account) (ra_data account) = Inr meta \<and> co_protectedState ob = st \<and>
    co_hasScheduledChange ob = hasScheduledChange st \<and> co_chainUnixTimestamp ob = ra_chainUnixTimestamp account \<and>
    co_phase ob = map_option (phaseAt st) (ra_chainUnixTimestamp account) \<and> co_mint ob = ra_mint account \<and>
    co_paused ob = mint_metadata.paused meta \<and> co_decimals ob = mint_metadata.decimals meta"
proof -
  have "co_protectedState ob = st \<and> co_hasScheduledChange ob = hasScheduledChange st \<and>
      co_chainUnixTimestamp ob = ra_chainUnixTimestamp account \<and>
      co_phase ob = map_option (phaseAt st) (ra_chainUnixTimestamp account) \<and> co_mint ob = ra_mint account \<and>
      co_paused ob = mint_metadata.paused meta \<and> co_decimals ob = mint_metadata.decimals meta"
    if "decodeProtectedState (ra_owner account) (ra_data account) = Inr st"
       "decodeMintMetadata (ra_owner account) (ra_data account) = Inr meta" for st meta
    using assms that by (auto simp: observeMintAccount_def)
  moreover obtain st meta where "decodeProtectedState (ra_owner account) (ra_data account) = Inr st"
      "decodeMintMetadata (ra_owner account) (ra_data account) = Inr meta"
    using assms by (auto simp: observeMintAccount_def bindE_def split: sum.splits js_exn.splits)
  ultimately show ?thesis by blast
qed

text \<open>The guard request for an observation, with the policy's interval as its window.\<close>

definition guard_expectation :: "chain_observation \<Rightarrow> int \<Rightarrow> transition_policy \<Rightarrow> assert_safe_execution_request" where
  "guard_expectation ob now policy =
     \<lparr>expected = co_protectedState ob, expectedPhase = phaseAt (co_protectedState ob) now,
      window = \<lparr>beforeSecs = JNum (of_int (tp_beforeSecs policy)), afterSecs = JNum (of_int (tp_afterSecs policy))\<rparr>\<rparr>"

definition policy_fits :: "chain_observation \<Rightarrow> transition_policy \<Rightarrow> bool" where
  "policy_fits ob policy \<longleftrightarrow>
     I64_MIN \<le> newMultiplierEffectiveTimestamp (co_protectedState ob) - tp_beforeSecs policy \<and>
     newMultiplierEffectiveTimestamp (co_protectedState ob) + tp_afterSecs policy \<le> I64_MAX"

lemma guard_verdict_of_observation:
  assumes "co_hasScheduledChange ob = hasScheduledChange (co_protectedState ob)" and "policy_fits ob policy"
    and "co_chainUnixTimestamp ob = Some now" and "co_paused ob \<noteq> Some True"
  shows "checkGuardOffline (guard_expectation ob now policy) (co_protectedState ob) now =
    Inr (if fst (classify_evidence (Decoded ob) policy) = SAFE then None else Some InsideTransitionWindow)"
  using assms
  by (simp add: checkGuardOffline_def guard_expectation_def policy_fits_def bigint_of_number_def Let_def)

section \<open>Properties\<close>

text \<open>
  Every registry the builder accepts has one entry per underlying, no mint and no symbol twice, at
  most one representation per issuer and underlying, and no devnet test asset. A mint found in it names
  one representation, and its alternatives are the other issuers' representations of the same underlying.
\<close>

theorem registry_invariant:
  assumes "buildRegistry isAddress entries = Inr reg" and "u \<in> set reg" and "r \<in> set (ue_representations u)"
  shows "registry_ok isAddress reg \<and> findRepresentationByMint reg (rp_mint r) = Some r \<and>
    (\<exists>alts. alternativesFor reg r = Inr alts \<and>
      set alts = {r' \<in> set (ue_representations u). r' \<noteq> r} \<and>
      (\<forall>r' \<in> set alts. rp_underlying r' = rp_underlying r \<and> rp_mint r' \<noteq> rp_mint r \<and> rp_issuer r' \<noteq> rp_issuer r))"
proof -
  note ok = buildRegistry_ok [OF assms(1)]
  have r: "r \<in> set (registry_representations reg)" using assms(2,3) by (auto simp: registry_representations_def)
  have u: "rp_underlying r = ue_underlying u" "distinct (map rp_issuer (ue_representations u))"
    using ok assms(2,3) by (auto simp: registry_ok_def)
  have sub: "set (ue_representations u) \<subseteq> set (registry_representations reg)"
    using assms(2) by (auto simp: registry_representations_def)
  have mint: "rp_mint x = rp_mint r \<longleftrightarrow> x = r" if "x \<in> set (ue_representations u)" for x
    using ok that r sub unfolding registry_ok_def distinct_map by (metis inj_onD subsetD)
  have iss: "rp_issuer x = rp_issuer r \<longleftrightarrow> x = r" if "x \<in> set (ue_representations u)" for x
    using u(2) that assms(3) unfolding distinct_map by (metis inj_onD)
  have find: "findRepresentationByMint reg (rp_mint r) = Some r"
    using ok r by (intro findRepresentationByMint_unique) (simp_all add: registry_ok_def)
  have "alternativesFor reg r = Inr (filter (\<lambda>x. rp_mint x \<noteq> rp_mint r) (ue_representations u))"
    using getUnderlying_unique [OF ok assms(2)] u(1) by (simp add: alternativesFor_def)
  moreover have "rp_underlying x = rp_underlying r" if "x \<in> set (ue_representations u)" for x
    using ok assms(2) that u(1) by (simp add: registry_ok_def)
  ultimately show ?thesis using ok find mint iss by auto
qed


text \<open>
  C38. Conflicting evidence is never collapsed: a resolved state is absent exactly when chain and live API
  evidence disagree, and it is SAFE only if every state that was taken into account is SAFE and at least
  one was; historical API evidence is never taken into account.
\<close>

theorem conflict_never_collapsed:
  assumes "resolveOndoState dateParse rep chain api evaluatedAt policy = Inr r"
  shows "(rr_state r = None \<longleftrightarrow> rr_stateSource r = Some CONFLICT) \<and>
    (rr_stateSource r = Some CONFLICT \<longleftrightarrow> (\<exists>c a. rr_chainState r = Some c \<and> rr_apiState r = Some a \<and> c \<noteq> a)) \<and>
    (rr_state r = Some SAFE \<longrightarrow> (rr_chainState r = Some SAFE \<or> rr_apiState r = Some SAFE) \<and>
       rr_chainState r \<in> {None, Some SAFE} \<and> rr_apiState r \<in> {None, Some SAFE}) \<and>
    (rr_chainState r = None \<longleftrightarrow> chain = None) \<and>
    (\<forall>a. api = Some a \<and> ao_sourceClass a = HISTORICAL_API_STATE \<longrightarrow> rr_apiState r = None)"
proof -
  obtain cc where cc: "(case chain of None \<Rightarrow> Inr None | Some c \<Rightarrow> bindE (classifyChainEvidence c policy) (\<lambda>k. Inr (Some k))) = Inr cc"
    using assms by (auto simp: resolveOndoState_def err_simps)
  then have none: "cc = None \<longleftrightarrow> chain = None" by (auto simp: err_simps split: option.splits)
  have hist: "s = None" if "apiEvidenceUse dateParse a evaluatedAt = (s, t)" and "ao_sourceClass a = HISTORICAL_API_STATE" for a s t
    using that by (simp add: apiEvidenceUse_def)
  show ?thesis
    using assms cc none
    by (cases cc; cases api)
      (auto simp: resolveOndoState_def err_simps Let_def dest: hist split: option.splits if_splits prod.splits)
qed

section \<open>Witnesses\<close>

theorem registry_invariant_witness:
  "\<exists>reg u r. buildRegistry (\<lambda>_. True) ENTRIES = Inr reg \<and> u \<in> set reg \<and> r \<in> set (ue_representations u) \<and>
     registry_ok (\<lambda>_. True) reg \<and> rp_symbol r = ''KOx''"
proof -
  obtain u us r rs where reg: "buildRegistry (\<lambda>_. True) ENTRIES = Inr (u # us)" and u: "ue_representations u = r # rs"
      and r: "rp_symbol r = ''KOx''"
    by (simp add: buildRegistry_def ENTRIES_def)
  then have "u \<in> set (u # us)" "r \<in> set (ue_representations u)" by simp_all
  with registry_invariant [OF reg this] reg r show ?thesis by blast
qed

lemma sample_metadata:
  "decodeMintMetadata TOKEN_2022_PROGRAM_ADDRESS (mint_account sample_base sample_extensions []) = Inr \<lparr>decimals = 0, paused = Some False\<rparr>"
proof -
  let ?d = "mint_account sample_base sample_extensions []"
  have d: "?d = (sample_base @ replicate 83 0 @ [1]) @ tlv_bytes sample_extensions @ []" by (simp add: mint_account_def)
  have entries: "parseMintAccount TOKEN_2022_PROGRAM_ADDRESS ?d = Inr (entries_at 166 sample_extensions)"
    by (rule parseMintAccount_ok [OF sample_base_ok sample_extensions_ok(1,2) _ sample_extensions_ok(3)]) (simp add: tlv_end_def)
  have "(26, replicate 33 0) \<in> set sample_extensions" by (simp add: sample_extensions_def)
  from find_entries_at [OF sample_extensions_ok(2) this, of "sample_base @ replicate 83 0 @ [1]" 166 "[]"] d
  obtain v where f: "find (\<lambda>e. tlv_type e = 26) (entries_at 166 sample_extensions) = Some \<lparr>tlv_type = 26, tlv_length = 33, valueOffset = v\<rparr>"
      and v: "bytes_at v 33 ?d = replicate 33 0" by (auto simp: sample_base_def)
  have len: "v + 32 < length ?d" using arg_cong [OF v, of length] by simp
  then have "?d ! (v + 32) = bytes_at v 33 ?d ! 32" by (simp add: bytes_at_def)
  also have "\<dots> = 0" by (simp add: v)
  finally have flag: "js_index ?d (v + 32) = Some 0" using len by simp
  have "js_index ?d 44 = Some 0" by (simp add: mint_account_def sample_base_def js_index_def nth_append)
  with entries f flag show ?thesis
    by (simp add: decodeMintMetadata_def MINT_DECIMALS_OFFSET_def Ext_Pausable_def PAUSABLE_CONFIG_LEN_def PAUSED_OFFSET_def)
qed

definition sample_account :: raw_mint_account where
  "sample_account = \<lparr>ra_mint = ''MintA'', ra_owner = TOKEN_2022_PROGRAM_ADDRESS,
     ra_data = mint_account sample_base sample_extensions [], ra_slot = Some 7, ra_blockTime = None, ra_observedAt = None,
     ra_chainUnixTimestamp = Some 100\<rparr>"

definition sample_observation :: chain_observation where
  "sample_observation = \<lparr>co_mint = ''MintA'', co_slot = Some 7, co_blockTime = None, co_observedAt = None,
     co_chainUnixTimestamp = Some 100, co_decimals = 0, co_paused = Some False, co_protectedState = sample_state,
     co_hasScheduledChange = True, co_phase = Some Pending\<rparr>"

definition sample_policy :: transition_policy where
  "sample_policy = \<lparr>tp_beforeSecs = 60, tp_afterSecs = 30, tp_calibration = UNCALIBRATED, tp_basis = ''fixture''\<rparr>"

lemma sample_state_scheduled: "hasScheduledChange sample_state"
  by (simp add: hasScheduledChange_def sample_state_def one_f64_def two_f64_def)

lemma sample_observed: "observeMintAccount sample_account = Inr (Decoded sample_observation)"
  by (simp add: observeMintAccount_def sample_account_def sample_mint_decodes sample_metadata sample_observation_def
      sample_state_scheduled phaseAt_def) (simp add: sample_state_def)

lemma sample_classified: "\<exists>reason. classifyChainEvidence (Decoded sample_observation) sample_policy = Inr (SAFE, reason)"
  by (simp add: classifyChainEvidence_def assertValidPolicy_def sample_policy_def sample_observation_def sample_state_def)


text \<open>A live API observation that says \<open>active\<close> beside a mint that does not decode.\<close>

theorem conflict_never_collapsed_witness:
  "\<exists>r. resolveOndoState (\<lambda>_. Some 0)
      \<lparr>rp_underlying = ''KO'', rp_issuer = Ondo_issuer, rp_symbol = ''KOon'', rp_mint = ''MintB''\<rparr>
      (Some (DecodeError \<lparr>df_mint = ''MintB'', df_slot = None, df_blockTime = None, df_observedAt = None, df_code = ''InvalidMintData''\<rparr>))
      (Some \<lparr>ao_issuer = Ondo_issuer, ao_symbol = ''KOon'', ao_observedAt = ''t'', ao_status = active, ao_calibration = UNCALIBRATED,
             ao_sourceClass = LIVE_API_STATE, ao_validUntil = Some ''u''\<rparr>) (Some ''t'') sample_policy = Inr r \<and>
     rr_stateSource r = Some CONFLICT \<and> rr_state r = None"
proof -
  let ?rep = "\<lparr>rp_underlying = ''KO'', rp_issuer = Ondo_issuer, rp_symbol = ''KOon'', rp_mint = ''MintB''\<rparr>"
  let ?chain = "Some (DecodeError \<lparr>df_mint = ''MintB'', df_slot = None, df_blockTime = None, df_observedAt = None, df_code = ''InvalidMintData''\<rparr>)"
  let ?api = "Some \<lparr>ao_issuer = Ondo_issuer, ao_symbol = ''KOon'', ao_observedAt = ''t'', ao_status = active, ao_calibration = UNCALIBRATED,
             ao_sourceClass = LIVE_API_STATE, ao_validUntil = Some ''u''\<rparr>"
  obtain r where r: "resolveOndoState (\<lambda>_. Some 0) ?rep ?chain ?api (Some ''t'') sample_policy = Inr r"
      "rr_chainState r = Some UNKNOWN_state" "rr_apiState r = Some SAFE"
    by (simp add: resolveOndoState_def classifyChainEvidence_def assertValidPolicy_def sample_policy_def apiEvidenceUse_def)
  from conflict_never_collapsed [OF r(1)] r show ?thesis by auto
qed

end
