(* ===== verification/Sha256.thy ===== *)
theory Sha256
  imports Js_Text "HOL-Library.Signed_Division"
begin

text \<open>
  SHA-256 as \<open>packages/representation-state/src/sha256.ts\<close> computes it. The round constants come from
  integer roots of primes found by trial division; both loops are \<open>partial_function\<close>s whose value
  \<open>None\<close> is a run that does not end, and both are proved to end. JavaScript's 32-bit operators and the
  sums truncated by \<open>>>> 0\<close> (at most five 32-bit terms, exact as doubles) are arithmetic on 32-bit words.
\<close>

unbundle bit_operations_syntax

section \<open>sha256.ts: integer roots\<close>

text \<open>\<open>value.toString(2).length\<close>.\<close>

fun binary_length :: "nat \<Rightarrow> nat" where
  "binary_length n = (if n < 2 then 1 else Suc (binary_length (n div 2)))"

declare binary_length.simps [simp del]

definition newton_next :: "int \<Rightarrow> int \<Rightarrow> int \<Rightarrow> int" where
  "newton_next val degree x = ((degree - 1) * x + val sdiv x ^ nat (degree - 1)) sdiv degree"

partial_function (option) newton_loop :: "int \<Rightarrow> int \<Rightarrow> int \<Rightarrow> int option" where
  "newton_loop val degree x =
     (if newton_next val degree x \<ge> x then Some x else newton_loop val degree (newton_next val degree x))"

partial_function (option) down_loop :: "int \<Rightarrow> int \<Rightarrow> int \<Rightarrow> int option" where
  "down_loop val degree x = (if x ^ nat degree > val then down_loop val degree (x - 1) else Some x)"

partial_function (option) up_loop :: "int \<Rightarrow> int \<Rightarrow> int \<Rightarrow> int option" where
  "up_loop val degree x = (if (x + 1) ^ nat degree \<le> val then up_loop val degree (x + 1) else Some x)"

definition integerRoot :: "int \<Rightarrow> int \<Rightarrow> int option" where
  "integerRoot val degree =
     Option.bind (newton_loop val degree (2 ^ nat (int (binary_length (nat val)) sdiv degree + 1))) (\<lambda>x.
     Option.bind (down_loop val degree x) (up_loop val degree))"

section \<open>sha256.ts: constants\<close>

partial_function (option) primes_loop :: "int \<Rightarrow> int list \<Rightarrow> int list option" where
  "primes_loop n out =
     (if length out < 64
      then primes_loop (n + 1) (if list_all (\<lambda>p. n smod p \<noteq> 0) out then out @ [n] else out)
      else Some out)"

definition PRIMES :: "int list" where
  "PRIMES = the (primes_loop 2 [])"

definition MASK_32 :: int where "MASK_32 = 0xffffffff"

definition K_sha :: "32 word list" where
  "K_sha = map (\<lambda>p. of_int (the (integerRoot (p * 2 ^ 96) 3) AND MASK_32)) PRIMES"

definition H0_sha :: "32 word list" where
  "H0_sha = map (\<lambda>p. of_int (the (integerRoot (p * 2 ^ 64) 2) AND MASK_32)) (take 8 PRIMES)"

declare newton_loop.simps [code] down_loop.simps [code] up_loop.simps [code] primes_loop.simps [code]

section \<open>sha256.ts: the hash\<close>

definition rotr :: "32 word \<Rightarrow> nat \<Rightarrow> 32 word" where
  "rotr x n = drop_bit n x OR push_bit (32 - n) x"

text \<open>The padded message: the data, a one bit, zeros, and the bit length in the last eight bytes.\<close>

definition be_bytes :: "nat \<Rightarrow> nat \<Rightarrow> bytes" where
  "be_bytes n x = rev (le_bytes n x)"

definition padded_message :: "bytes \<Rightarrow> bytes" where
  "padded_message data =
     (let blocks = nat \<lceil>of_nat (length data + 9) / (64 :: rat)\<rceil>;
          padded = data @ [0x80] @ replicate (blocks * 64 - (length data + 1)) 0
      in take (blocks * 64 - 8) padded @ be_bytes 8 (length data * 8 mod 2 ^ 64))"

text \<open>\<open>view.getUint32(offset, false)\<close>.\<close>

definition be_word :: "bytes \<Rightarrow> nat \<Rightarrow> 32 word" where
  "be_word bs offset = of_nat (le_nat (rev (bytes_at offset 4 bs)))"

text \<open>The loop from 16 to 63 that extends the schedule in place; \<open>w\<close> holds the entries below \<open>i\<close>.\<close>

definition schedule_entry :: "32 word list \<Rightarrow> nat \<Rightarrow> 32 word" where
  "schedule_entry w i =
     (let a = w ! (i - 15); b = w ! (i - 2);
          s0 = rotr a 7 XOR rotr a 18 XOR drop_bit 3 a;
          s1 = rotr b 17 XOR rotr b 19 XOR drop_bit 10 b
      in w ! (i - 16) + s0 + w ! (i - 7) + s1)"

fun extend_schedule :: "nat \<Rightarrow> 32 word list \<Rightarrow> 32 word list" where
  "extend_schedule 0 w = w"
| "extend_schedule (Suc n) w = extend_schedule n (w @ [schedule_entry w (length w)])"

definition message_schedule :: "bytes \<Rightarrow> nat \<Rightarrow> 32 word list" where
  "message_schedule padded block = extend_schedule 48 (map (\<lambda>i. be_word padded (block + i * 4)) [0 ..< 16])"

record sha_state =
  va :: "32 word"
  vb :: "32 word"
  vc :: "32 word"
  vd :: "32 word"
  ve :: "32 word"
  vf :: "32 word"
  vg :: "32 word"
  vh :: "32 word"

definition sha_round :: "sha_state \<Rightarrow> 32 word \<times> 32 word \<Rightarrow> sha_state" where
  "sha_round s kw =
     (let t1 = vh s + (rotr (ve s) 6 XOR rotr (ve s) 11 XOR rotr (ve s) 25)
               + ((ve s AND vf s) XOR (NOT (ve s) AND vg s)) + fst kw + snd kw;
          t2 = (rotr (va s) 2 XOR rotr (va s) 13 XOR rotr (va s) 22)
               + ((va s AND vb s) XOR (va s AND vc s) XOR (vb s AND vc s))
      in \<lparr>va = t1 + t2, vb = va s, vc = vb s, vd = vc s, ve = vd s + t1, vf = ve s, vg = vf s, vh = vg s\<rparr>)"

definition sha_block :: "bytes \<Rightarrow> sha_state \<Rightarrow> nat \<Rightarrow> sha_state" where
  "sha_block padded h block =
     (let s = foldl sha_round h (zip K_sha (message_schedule padded block))
      in \<lparr>va = va h + va s, vb = vb h + vb s, vc = vc h + vc s, vd = vd h + vd s,
          ve = ve h + ve s, vf = vf h + vf s, vg = vg h + vg s, vh = vh h + vh s\<rparr>)"

definition initial_state :: sha_state where
  "initial_state = \<lparr>va = H0_sha ! 0, vb = H0_sha ! 1, vc = H0_sha ! 2, vd = H0_sha ! 3,
     ve = H0_sha ! 4, vf = H0_sha ! 5, vg = H0_sha ! 6, vh = H0_sha ! 7\<rparr>"

definition word_be :: "32 word \<Rightarrow> bytes" where
  "word_be x = be_bytes 4 (unat x)"

definition sha256 :: "bytes \<Rightarrow> bytes" where
  "sha256 data =
     (let padded = padded_message data;
          s = foldl (sha_block padded) initial_state (map (\<lambda>i. i * 64) [0 ..< length padded div 64])
      in word_be (va s) @ word_be (vb s) @ word_be (vc s) @ word_be (vd s) @
         word_be (ve s) @ word_be (vf s) @ word_be (vg s) @ word_be (vh s))"

text \<open>\<open>new TextEncoder().encode(text)\<close> for code units below 256.\<close>

definition utf8_encode :: "string \<Rightarrow> bytes" where
  "utf8_encode text = concat (map (\<lambda>c. let n = of_char c :: nat in
     if n < 128 then [of_nat n] else [of_nat (192 + n div 64), of_nat (128 + n mod 64)]) text)"

definition sha256Hex :: "string \<Rightarrow> string" where
  "sha256Hex text = hexOf (sha256 (utf8_encode text))"

section \<open>Facts: integer roots\<close>

lemma newton_loop_ends:
  assumes "1 \<le> val" and "2 \<le> degree"
  shows "1 \<le> x \<Longrightarrow> \<exists>y. newton_loop val degree x = Some y \<and> 1 \<le> y"
proof (induction x rule: measure_induct_rule [where f = nat])
  case (less x)
  show ?case
  proof (cases "newton_next val degree x \<ge> x")
    case True
    with less.prems show ?thesis by (simp add: newton_loop.simps)
  next
    case False
    have nn: "0 \<le> val sdiv x ^ nat (degree - 1)" "val sdiv 1 = val"
      using assms less.prems by (simp_all add: signed_divide_int_def sgn_if pos_imp_zdiv_nonneg_iff)
    have "degree \<le> (degree - 1) * x + val sdiv x ^ nat (degree - 1)"
    proof (cases "x = 1")
      case True
      then show ?thesis using assms nn by simp
    next
      case False
      then have "(degree - 1) * 2 \<le> (degree - 1) * x" using assms less.prems by (intro mult_left_mono) auto
      moreover have "degree \<le> (degree - 1) * 2" using assms by simp
      ultimately have "degree \<le> (degree - 1) * x" by (rule order_trans [rotated])
      then show ?thesis using nn(1) by (rule add_increasing2 [rotated])
    qed
    then have "1 \<le> newton_next val degree x"
      using assms by (simp add: newton_next_def signed_divide_int_def sgn_if pos_imp_zdiv_pos_iff int_one_le_iff_zero_less)
    with less.IH [of "newton_next val degree x"] False less.prems show ?thesis
      by (subst newton_loop.simps) simp
  qed
qed

lemma down_loop_ends:
  assumes "0 \<le> val" and "1 \<le> degree"
  shows "0 \<le> x \<Longrightarrow> \<exists>y. down_loop val degree x = Some y \<and> 0 \<le> y \<and> y ^ nat degree \<le> val"
proof (induction x rule: measure_induct_rule [where f = nat])
  case (less x)
  show ?case
  proof (cases "x ^ nat degree > val")
    case True
    then have "x \<noteq> 0" using assms by (cases "nat degree") auto
    with less True show ?thesis by (subst down_loop.simps) simp
  next
    case False
    with less.prems show ?thesis by (subst down_loop.simps) simp
  qed
qed

lemma up_loop_ends:
  assumes "1 \<le> degree"
  shows "0 \<le> x \<Longrightarrow> x ^ nat degree \<le> val \<Longrightarrow>
    \<exists>y. up_loop val degree x = Some y \<and> 0 \<le> y \<and> y ^ nat degree \<le> val \<and> val < (y + 1) ^ nat degree"
proof (induction x rule: measure_induct_rule [where f = "\<lambda>x. nat (val - x)"])
  case (less x)
  show ?case
  proof (cases "(x + 1) ^ nat degree \<le> val")
    case True
    have "x + 1 \<le> (x + 1) ^ nat degree" using assms less.prems by (intro self_le_power) auto
    with True have "nat (val - (x + 1)) < nat (val - x)" by simp
    from less.IH [OF this] True less.prems show ?thesis by (subst up_loop.simps) simp
  next
    case False
    with less.prems show ?thesis by (subst up_loop.simps) simp
  qed
qed

lemma integerRoot_ends:
  assumes "1 \<le> val" and "2 \<le> degree"
  shows "\<exists>r. integerRoot val degree = Some r \<and> 0 \<le> r \<and> r ^ nat degree \<le> val \<and> val < (r + 1) ^ nat degree"
proof -
  let ?x = "2 ^ nat (int (binary_length (nat val)) sdiv degree + 1) :: int"
  obtain x where x: "newton_loop val degree ?x = Some x" "1 \<le> x" using newton_loop_ends [OF assms, of ?x] by auto
  obtain y where y: "down_loop val degree x = Some y" "0 \<le> y" "y ^ nat degree \<le> val"
    using down_loop_ends [of val degree x] assms x(2) by auto
  with x up_loop_ends [of degree y val] assms show ?thesis by (auto simp: integerRoot_def)
qed

lemma integerRoot_eq:
  assumes "1 \<le> val" and "2 \<le> degree" and "0 \<le> r" and "r ^ nat degree \<le> val" and "val < (r + 1) ^ nat degree"
  shows "integerRoot val degree = Some r"
proof -
  obtain s where s: "integerRoot val degree = Some s" "0 \<le> s" "s ^ nat degree \<le> val" "val < (s + 1) ^ nat degree"
    using integerRoot_ends [OF assms(1,2)] by blast
  have "s < r + 1" using s(2,3) assms(3,5) power_less_imp_less_base [of s "nat degree" "r + 1"] by linarith
  moreover have "r < s + 1" using s(2,4) assms(3,4) power_less_imp_less_base [of r "nat degree" "s + 1"] by linarith
  ultimately show ?thesis using s(1) by simp
qed

lemma primes_found: "primes_loop 2 [] = Some [2, 3, 5, 7, 11, 13, 17, 19, 23, 29, 31, 37, 41, 43, 47, 53, 59, 61, 67, 71, 73, 79, 83, 89, 97,
  101, 103, 107, 109, 113, 127, 131, 137, 139, 149, 151, 157, 163, 167, 173, 179, 181, 191, 193, 197, 199, 211, 223, 227, 229, 233,
  239, 241, 251, 257, 263, 269, 271, 277, 281, 283, 293, 307, 311]"
  by code_simp

section \<open>Facts: the constants\<close>

text \<open>The tables of FIPS 180-4, in decimal.\<close>

definition FIPS_K :: "32 word list" where
  "FIPS_K =
   [1116352408, 1899447441, 3049323471, 3921009573, 961987163, 1508970993, 2453635748, 2870763221,
    3624381080, 310598401, 607225278, 1426881987, 1925078388, 2162078206, 2614888103, 3248222580,
    3835390401, 4022224774, 264347078, 604807628, 770255983, 1249150122, 1555081692, 1996064986,
    2554220882, 2821834349, 2952996808, 3210313671, 3336571891, 3584528711, 113926993, 338241895,
    666307205, 773529912, 1294757372, 1396182291, 1695183700, 1986661051, 2177026350, 2456956037,
    2730485921, 2820302411, 3259730800, 3345764771, 3516065817, 3600352804, 4094571909, 275423344,
    430227734, 506948616, 659060556, 883997877, 958139571, 1322822218, 1537002063, 1747873779,
    1955562222, 2024104815, 2227730452, 2361852424, 2428436474, 2756734187, 3204031479, 3329325298]"

definition FIPS_H0 :: "32 word list" where
  "FIPS_H0 =
   [1779033703, 3144134277, 1013904242, 2773480762, 1359893119, 2600822924, 528734635, 1541459225]"

text \<open>The roots, each checked by its two bounds.\<close>

lemma roots_table:
  assumes "2 \<le> degree"
    and "list_all2 (\<lambda>p r. 1 \<le> p * m \<and> 0 \<le> r \<and> r ^ nat degree \<le> p * m \<and> p * m < (r + 1) ^ nat degree) ps rs"
  shows "map (\<lambda>p. f (the (integerRoot (p * m) degree))) ps = map f rs"
  using assms(2)
proof (induction rule: list_all2_induct)
  case (Cons p ps r rs)
  then have "integerRoot (p * m) degree = Some r" using assms(1) by (intro integerRoot_eq) auto
  with Cons show ?case by simp
qed simp

lemma PRIMES_eq: "PRIMES = [2, 3, 5, 7, 11, 13, 17, 19, 23, 29, 31, 37, 41, 43, 47, 53, 59, 61, 67, 71, 73, 79, 83, 89, 97,
  101, 103, 107, 109, 113, 127, 131, 137, 139, 149, 151, 157, 163, 167, 173, 179, 181, 191, 193, 197, 199, 211, 223, 227, 229, 233,
  239, 241, 251, 257, 263, 269, 271, 277, 281, 283, 293, 307, 311]"
  by (simp add: PRIMES_def primes_found)

lemma mask_word: "(of_int (i AND MASK_32) :: 32 word) = of_int i"
proof -
  have "i AND MASK_32 = take_bit 32 i" by (simp add: MASK_32_def take_bit_eq_mask mask_eq_exp_minus_1)
  then show ?thesis by (simp add: word_of_int_eq_iff)
qed

lemma K_table: "K_sha = FIPS_K"
proof -
  have "map (\<lambda>p. of_int (the (integerRoot (p * 2 ^ 96) 3) AND MASK_32)) PRIMES =
      (map (\<lambda>r. of_int (r AND MASK_32))
   [5411319704, 6194414737, 7344290767, 8215976869, 9551921755, 10098905585, 11043570340, 11460697813,
    12214315672, 13195500289, 13492127166, 14311783875, 14809980276, 15046980094, 15499789991, 16133124468,
    16720292289, 16907126662, 17444216262, 17784676812, 17950125167, 18429019306, 18734950876, 19175934170,
    19734090066, 20001703533, 20132865992, 20390182855, 20516441075, 20764397895, 21588763473, 21813078375,
    22141143685, 22248366392, 22769593852, 22871018771, 23170020180, 23461497531, 23651862830, 23931792517,
    24205322401, 24295138891, 24734567280, 24820601251, 24990902297, 25075189284, 25569408389, 26045227120,
    26200031510, 26276752392, 26428864332, 26653801653, 26727943347, 27092625994, 27306805839, 27517677555,
    27725365998, 27793908591, 27997534228, 28131656200, 28198240250, 28526537963, 28973835255, 29099129074] :: 32 word list)"
    by (rule roots_table) (simp_all add: PRIMES_eq)
  then show ?thesis by (simp add: K_sha_def FIPS_K_def mask_word)
qed

lemma H0_table: "H0_sha = FIPS_H0"
proof -
  have "map (\<lambda>p. of_int (the (integerRoot (p * 2 ^ 64) 2) AND MASK_32)) (take 8 PRIMES) =
      (map (\<lambda>r. of_int (r AND MASK_32))
   [6074000999, 7439101573, 9603838834, 11363415354, 14244795007, 15485724812, 17708603819, 18721328409] :: 32 word list)"
    by (rule roots_table) (simp_all add: PRIMES_eq)
  then show ?thesis by (simp add: H0_sha_def FIPS_H0_def mask_word)
qed

section \<open>The standard\<close>

text \<open>
  FIPS 180-4, sections 4.1.2, 5.1.1, 6.2: the functions on words with rotation as the library's
  \<open>word_rotr\<close>, padding by \<open>k\<close> zero bytes where \<open>k\<close> is the least with \<open>length + 1 + k = 56 (mod 64)\<close>, the
  recursive message schedule and the 64 rounds with the published tables.
\<close>

definition Ch :: "32 word \<Rightarrow> 32 word \<Rightarrow> 32 word \<Rightarrow> 32 word" where
  "Ch x y z = (x AND y) XOR (NOT x AND z)"

definition Maj :: "32 word \<Rightarrow> 32 word \<Rightarrow> 32 word \<Rightarrow> 32 word" where
  "Maj x y z = (x AND y) XOR (x AND z) XOR (y AND z)"

definition Sigma0 :: "32 word \<Rightarrow> 32 word" where
  "Sigma0 x = word_rotr 2 x XOR word_rotr 13 x XOR word_rotr 22 x"

definition Sigma1 :: "32 word \<Rightarrow> 32 word" where
  "Sigma1 x = word_rotr 6 x XOR word_rotr 11 x XOR word_rotr 25 x"

definition sigma0 :: "32 word \<Rightarrow> 32 word" where
  "sigma0 x = word_rotr 7 x XOR word_rotr 18 x XOR drop_bit 3 x"

definition sigma1 :: "32 word \<Rightarrow> 32 word" where
  "sigma1 x = word_rotr 17 x XOR word_rotr 19 x XOR drop_bit 10 x"

definition fips_zeros :: "nat \<Rightarrow> nat" where
  "fips_zeros l = (LEAST k. (l + 1 + k) mod 64 = 56)"

definition fips_pad :: "bytes \<Rightarrow> bytes" where
  "fips_pad data = data @ [0x80] @ replicate (fips_zeros (length data)) 0 @ be_bytes 8 (8 * length data)"

fun fips_W :: "(nat \<Rightarrow> 32 word) \<Rightarrow> nat \<Rightarrow> 32 word" where
  "fips_W M t =
     (if t < 16 then M t
      else sigma1 (fips_W M (t - 2)) + fips_W M (t - 7) + sigma0 (fips_W M (t - 15)) + fips_W M (t - 16))"

declare fips_W.simps [simp del]

definition fips_round :: "(nat \<Rightarrow> 32 word) \<Rightarrow> nat \<Rightarrow> sha_state \<Rightarrow> sha_state" where
  "fips_round M t s =
     (let T1 = vh s + Sigma1 (ve s) + Ch (ve s) (vf s) (vg s) + FIPS_K ! t + fips_W M t;
          T2 = Sigma0 (va s) + Maj (va s) (vb s) (vc s)
      in \<lparr>va = T1 + T2, vb = va s, vc = vb s, vd = vc s, ve = vd s + T1, vf = ve s, vg = vf s, vh = vg s\<rparr>)"

definition add_states :: "sha_state \<Rightarrow> sha_state \<Rightarrow> sha_state" where
  "add_states h s = \<lparr>va = va h + va s, vb = vb h + vb s, vc = vc h + vc s, vd = vd h + vd s,
     ve = ve h + ve s, vf = vf h + vf s, vg = vg h + vg s, vh = vh h + vh s\<rparr>"

definition fips_block :: "bytes \<Rightarrow> nat \<Rightarrow> sha_state \<Rightarrow> sha_state" where
  "fips_block msg n h = add_states h (fold (fips_round (\<lambda>t. be_word msg (64 * n + 4 * t))) [0 ..< 64] h)"

definition fips_H0 :: sha_state where
  "fips_H0 = \<lparr>va = FIPS_H0 ! 0, vb = FIPS_H0 ! 1, vc = FIPS_H0 ! 2, vd = FIPS_H0 ! 3,
     ve = FIPS_H0 ! 4, vf = FIPS_H0 ! 5, vg = FIPS_H0 ! 6, vh = FIPS_H0 ! 7\<rparr>"

definition fips_sha256 :: "bytes \<Rightarrow> bytes" where
  "fips_sha256 data =
     (let s = fold (fips_block (fips_pad data)) [0 ..< length (fips_pad data) div 64] fips_H0
      in concat (map word_be [va s, vb s, vc s, vd s, ve s, vf s, vg s, vh s]))"

section \<open>Facts: the hash is the standard's\<close>

lemma rotr_word: "0 < n \<Longrightarrow> n < 32 \<Longrightarrow> rotr x n = word_rotr n x"
proof (rule bit_word_eqI)
  fix i
  assume n: "0 < n" "n < 32" and i: "i < LENGTH(32)"
  show "bit (rotr x n) i = bit (word_rotr n x) i"
  proof (cases "i + n < 32")
    case True
    then have "\<not> 32 - n \<le> i" by arith
    with True n i show ?thesis by (simp add: rotr_def bit_simps add.commute)
  next
    case False
    then have "\<not> bit x (n + i)" using bit_imp_le_length [of x "n + i"] by auto
    moreover have "(i + n) mod 32 = i + n - 32" using False n i by (simp add: mod_if)
    moreover have "32 - n \<le> i" using False by arith
    ultimately show ?thesis using n i by (simp add: rotr_def bit_simps)
  qed
qed

lemma zeros_unique:
  assumes "(l + 1 + k) mod 64 = 56" and "k < 64"
  shows "fips_zeros l = k"
  unfolding fips_zeros_def
proof (rule Least_equality)
  fix j
  assume "(l + 1 + j) mod 64 = 56"
  then have eq: "(l + 1 + k) mod 64 = (l + 1 + j) mod 64" using assms(1) by simp
  show "k \<le> j"
  proof (rule ccontr)
    assume less: "\<not> k \<le> j"
    then have "64 dvd (l + 1 + k) - (l + 1 + j)" using eq by (intro mod_eq_dvd_iff_nat [THEN iffD1]) auto
    then have "64 dvd k - j" by simp
    then have "64 \<le> k - j" using less by (intro dvd_imp_le) auto
    with assms(2) show False by simp
  qed
qed (rule assms)

lemma div_64_bounds: "(m + 63) div 64 * 64 < m + 64" "m \<le> (m + 63) div 64 * 64" for m :: nat
  using div_times_less_eq_dividend [of "m + 63" 64] dividend_less_div_times [of 64 "m + 63"] by simp_all

lemma blocks_ceiling: "nat \<lceil>of_nat m / (64 :: rat)\<rceil> = (m + 63) div 64"
proof -
  let ?q = "(m + 63) div 64"
  have "of_nat (?q * 64) < (of_nat (m + 64) :: rat)" "of_nat m \<le> (of_nat (?q * 64) :: rat)"
    using div_64_bounds [of m] by (simp_all only: of_nat_less_iff of_nat_le_iff)
  then have "of_int (int ?q) - 1 < of_nat m / (64 :: rat)" "of_nat m / (64 :: rat) \<le> of_int (int ?q)"
    by (simp_all add: field_simps)
  then have "\<lceil>of_nat m / (64 :: rat)\<rceil> = int ?q" by (rule ceiling_unique)
  then show ?thesis by simp
qed

lemma le_bytes_mod: "le_bytes n (v mod 256 ^ n) = le_bytes n v"
  using le_bytes_le_nat [of n "le_bytes n v"] by (simp add: le_nat_le_bytes)

lemma padded_is_fips: "padded_message data = fips_pad data"
proof -
  define l where "l = length data"
  define b where "b = (l + 9 + 63) div 64"
  have b: "l + 9 \<le> b * 64" "b * 64 < l + 73" using div_64_bounds [of "l + 9"] by (simp_all add: b_def)
  then obtain c where c: "b = Suc c" by (cases b) auto
  define k where "k = b * 64 - 8 - (l + 1)"
  have sum: "l + 1 + k = c * 64 + 56" using b by (simp add: k_def c)
  have "(l + 1 + k) mod 64 = 56" unfolding sum by simp
  moreover have "k < 64" using b sum by (simp add: c)
  ultimately have z: "fips_zeros l = k" by (rule zeros_unique)
  have "take (b * 64 - 8) (data @ [0x80] @ replicate (b * 64 - (l + 1)) 0) = data @ [0x80] @ replicate k (0 :: byte)"
    using b by (simp add: k_def take_Cons' min_def l_def [symmetric])
  moreover have "be_bytes 8 (l * 8 mod 2 ^ 64) = be_bytes 8 (8 * l)"
    using le_bytes_mod [of 8 "8 * l"] by (simp add: be_bytes_def mult.commute)
  ultimately show ?thesis
    unfolding padded_message_def fips_pad_def blocks_ceiling Let_def l_def [symmetric] b_def [symmetric] z by simp
qed

lemma extend_schedule_W:
  assumes "\<forall>t < length w. w ! t = fips_W M t" and "16 \<le> length w"
  shows "length (extend_schedule n w) = length w + n \<and> (\<forall>t < length w + n. extend_schedule n w ! t = fips_W M t)"
  using assms
proof (induction n arbitrary: w)
  case 0
  then show ?case by simp
next
  case (Suc n)
  let ?w = "w @ [schedule_entry w (length w)]"
  have "schedule_entry w (length w) = fips_W M (length w)"
    using Suc.prems by (subst fips_W.simps) (simp add: schedule_entry_def Let_def rotr_word sigma0_def sigma1_def)
  then have "\<forall>t < length ?w. ?w ! t = fips_W M t" using Suc.prems(1) by (auto simp: nth_append less_Suc_eq)
  from Suc.IH [OF this] Suc.prems(2) show ?case by simp
qed

lemma message_schedule_W:
  "length (message_schedule msg (n * 64)) = 64"
  "t < 64 \<Longrightarrow> message_schedule msg (n * 64) ! t = fips_W (\<lambda>t. be_word msg (64 * n + 4 * t)) t"
proof -
  have "\<forall>t < length (map (\<lambda>i. be_word msg (n * 64 + i * 4)) [0 ..< 16]).
      map (\<lambda>i. be_word msg (n * 64 + i * 4)) [0 ..< 16] ! t = fips_W (\<lambda>t. be_word msg (64 * n + 4 * t)) t"
    by (simp add: fips_W.simps mult.commute)
  from extend_schedule_W [OF this, of 48]
  show "length (message_schedule msg (n * 64)) = 64"
    "t < 64 \<Longrightarrow> message_schedule msg (n * 64) ! t = fips_W (\<lambda>t. be_word msg (64 * n + 4 * t)) t"
    by (simp_all add: message_schedule_def)
qed

lemma sha_round_fips:
  "kw = (FIPS_K ! t, fips_W M t) \<Longrightarrow> sha_round s kw = fips_round M t s"
  by (simp add: sha_round_def fips_round_def Let_def rotr_word Sigma0_def Sigma1_def Ch_def Maj_def)

lemma rounds_fips:
  assumes "length w = n" and "length FIPS_K = n" and "\<And>t. t < n \<Longrightarrow> w ! t = fips_W M t"
  shows "foldl sha_round h (zip FIPS_K w) = fold (fips_round M) [0 ..< n] h"
proof -
  have "zip FIPS_K w = map (\<lambda>t. (FIPS_K ! t, fips_W M t)) [0 ..< n]"
    using assms by (intro nth_equalityI) auto
  moreover have "foldl sha_round h (map (\<lambda>t. (FIPS_K ! t, fips_W M t)) ts) = fold (fips_round M) ts h" for ts
    by (induction ts arbitrary: h) (simp_all add: sha_round_fips)
  ultimately show ?thesis by (simp only:)
qed

lemma FIPS_K_length: "length FIPS_K = 64"
  by (simp add: FIPS_K_def)

lemma sha_block_fips: "sha_block msg h (n * 64) = fips_block msg n h"
proof -
  have "foldl sha_round h (zip FIPS_K (message_schedule msg (n * 64))) =
      fold (fips_round (\<lambda>t. be_word msg (64 * n + 4 * t))) [0 ..< 64] h"
    by (rule rounds_fips [OF message_schedule_W(1) FIPS_K_length]) (rule message_schedule_W(2))
  then show ?thesis unfolding sha_block_def fips_block_def add_states_def K_table Let_def by (rule arg_cong)
qed

lemma sha256_fips: "sha256 data = fips_sha256 data"
proof -
  have "foldl (sha_block msg) h (map (\<lambda>i. i * 64) ns) = fold (fips_block msg) ns h" for msg h ns
    by (induction ns arbitrary: h) (simp_all add: sha_block_fips)
  moreover have "initial_state = fips_H0" by (simp add: initial_state_def fips_H0_def H0_table)
  ultimately show ?thesis by (simp add: sha256_def fips_sha256_def padded_is_fips Let_def)
qed

section \<open>Properties\<close>

text \<open>
  C39. The integer root loops end for every positive value and degree of at least two, and return the root
  rounded down.
\<close>

theorem integer_root_exact:
  assumes "1 \<le> val" and "2 \<le> degree"
  shows "\<exists>r. integerRoot val degree = Some r \<and> 0 \<le> r \<and> r ^ nat degree \<le> val \<and> val < (r + 1) ^ nat degree"
  using assms by (rule integerRoot_ends)

theorem integer_root_exact_witness: "\<exists>r. integerRoot 1000 3 = Some r \<and> r ^ 3 \<le> 1000 \<and> 1000 < (r + 1) ^ 3"
  using integer_root_exact [of 1000 3] by auto

text \<open>
  C40. The hash is the standard's on every input: the derived round constants are the published tables,
  and padding, message schedule and rounds compute FIPS 180-4's function, whose digest has 32 bytes.
\<close>

theorem sha256_is_fips_180_4:
  "K_sha = FIPS_K \<and> H0_sha = FIPS_H0 \<and> sha256 data = fips_sha256 data \<and> length (sha256 data) = 32"
proof (intro conjI)
  show "length (sha256 data) = 32" by (simp add: sha256_def Let_def word_be_def be_bytes_def)
qed (rule K_table H0_table sha256_fips)+

end
