(* ===== verification/Decision.thy ===== *)
theory Decision
  imports Chain_State Sha256
begin

text \<open>
  The representation decision (\<open>packages/representation-state/src/decision.ts\<close>): the whole of \<open>decide\<close>,
  the disclosure it offers and its digest. The reason text of a decision is display only and not
  modelled; the reason a disclosure quotes is, because its digest covers it.
\<close>

section \<open>decision.ts: types\<close>

datatype decision = USE_PREFERRED | REQUIRES_CONSENT | USE_ALTERNATIVE | NO_SAFE_ROUTE | NO_ACCEPTABLE_ROUTE | UNKNOWN_STATE

datatype decision_reason_code =
    PREFERRED_SAFE | PREFERRED_STATE_UNKNOWN | PREFERRED_STATE_CONFLICT | NO_ALTERNATIVE
  | ALTERNATIVE_STATE_UNKNOWN | ALTERNATIVE_STATE_CONFLICT | ALTERNATIVE_NOT_SAFE
  | ALTERNATIVE_NOT_SAME_UNDERLYING | ALTERNATIVE_QUOTE_UNAVAILABLE | QUOTE_COMPARISON_MISMATCH
  | QUOTE_COMPARISON_STALE_STATE | ALTERNATIVE_OUTSIDE_TOLERANCE | CONSENT_REQUIRED | CONSENT_GIVEN

text \<open>The bound is a bigint by its type, so of the test in \<open>decide\<close> only its sign remains.\<close>

record reroute_policy =
  po_maxAdditionalCostBps :: int

definition DISCLOSURE_SHARE_DECIMALS :: nat where "DISCLOSURE_SHARE_DECIMALS = 12"

record representation_summary =
  su_issuer :: issuer
  su_symbol :: string
  su_mint :: string
  su_state :: "representation_state option"
  su_stateSource :: "state_source option"

record disclosure_content =
  rd_underlying :: string
  rd_original :: representation_summary
  rd_alternative :: representation_summary
  rd_reason :: string
  rd_additionalCostBps :: int
  rd_preferredSharesEquivalent :: string
  rd_alternativeSharesEquivalent :: string
  rd_economicEffect :: economic_effect
  rd_notice :: string
  rd_comparisonKey :: string
  rd_inputRaw :: int
  rd_policyMaxAdditionalCostBps :: int

record reroute_disclosure = disclosure_content +
  rd_disclosureDigest :: string

record decision_result =
  dr_decision :: decision
  dr_reasonCode :: decision_reason_code
  dr_preferred :: resolved_representation_state
  dr_alternative :: "resolved_representation_state option"
  dr_disclosure :: "reroute_disclosure option"

record decision_input =
  di_preferred :: resolved_representation_state
  di_alternative :: "resolved_representation_state option"
  di_reroutePolicy :: reroute_policy
  di_inputRaw :: int
  di_comparison :: "quote_comparison option"

section \<open>decision.ts: bindings of a comparison\<close>

datatype binding_mismatch = M_underlying | M_preferredMint | M_alternativeMint | M_inputRaw

definition comparisonBindingMismatch ::
    "quote_comparison \<Rightarrow> resolved_representation_state \<Rightarrow> resolved_representation_state \<Rightarrow> int \<Rightarrow> binding_mismatch list" where
  "comparisonBindingMismatch comparison preferred alternative inputRaw =
     (if qc_underlying comparison \<noteq> rr_underlying preferred then [M_underlying] else []) @
     (if qc_preferredMint comparison \<noteq> rr_mint preferred then [M_preferredMint] else []) @
     (if qc_alternativeMint comparison \<noteq> rr_mint alternative then [M_alternativeMint] else []) @
     (if qc_inputRaw comparison \<noteq> inputRaw then [M_inputRaw] else [])"

datatype state_mismatch = NoDecodedState | StateField state_field

definition bound_state_mismatches :: "economic_state \<Rightarrow> resolved_representation_state \<Rightarrow> state_mismatch list" where
  "bound_state_mismatches bound state =
     (case economicStateOf (rr_chainObservation state) of
        None \<Rightarrow> [NoDecodedState]
      | Some current \<Rightarrow> map StateField (economicStateMismatches bound current))"

definition comparisonStateMismatch ::
    "quote_comparison \<Rightarrow> resolved_representation_state \<Rightarrow> resolved_representation_state \<Rightarrow> state_mismatch list" where
  "comparisonStateMismatch comparison preferred alternative =
     bound_state_mismatches (qi_state (qc_preferredQuote comparison)) preferred @
     bound_state_mismatches (qi_state (qc_alternativeQuote comparison)) alternative"

definition NOT_IDENTICAL_NOTICE :: string where
  "NOT_IDENTICAL_NOTICE =
     ''Representations from different issuers are associated with the same underlying equity but are not legally or economically identical.''"

definition summary :: "resolved_representation_state \<Rightarrow> representation_summary" where
  "summary s = \<lparr>su_issuer = rr_issuer s, su_symbol = rr_symbol s, su_mint = rr_mint s, su_state = rr_state s,
     su_stateSource = rr_stateSource s\<rparr>"

datatype unusable_issue = Conflict_issue | Unknown_issue

definition unusable :: "resolved_representation_state \<Rightarrow> unusable_issue option" where
  "unusable s =
     (if rr_stateSource s = Some CONFLICT then Some Conflict_issue
      else if rr_state s = None \<or> rr_state s = Some UNKNOWN_state then Some Unknown_issue
      else None)"

section \<open>decision.ts: the disclosure\<close>

datatype cost_limit_issue = DeliversNothing | AboveMaximum

definition exceedsCostLimit :: "quote_comparison \<Rightarrow> reroute_policy \<Rightarrow> cost_limit_issue option" where
  "exceedsCostLimit comparison policy =
     (if qi_outputRaw (qc_alternativeQuote comparison) \<le> 0 then Some DeliversNothing
      else if qc_additionalCostBps comparison > po_maxAdditionalCostBps policy then Some AboveMaximum
      else None)"

fun issuer_text :: "issuer \<Rightarrow> string" where
  "issuer_text xStocks_issuer = ''xStocks''"
| "issuer_text Ondo_issuer = ''Ondo''"
| "issuer_text DEVNET_TEST = ''DEVNET_TEST''"

fun source_text :: "state_source \<Rightarrow> string" where
  "source_text CHAIN = ''chain''"
| "source_text API = ''api''"
| "source_text BOTH_AGREE = ''both-agree''"
| "source_text CONFLICT = ''conflict''"

definition summary_value :: "representation_summary \<Rightarrow> js_value" where
  "summary_value s = JObject
     [(''issuer'', JString (issuer_text (su_issuer s))), (''symbol'', JString (su_symbol s)), (''mint'', JString (su_mint s)),
      (''state'', string_or_null (map_option state_text (su_state s))),
      (''stateSource'', string_or_null (map_option source_text (su_stateSource s)))]"

fun effect_value :: "economic_effect \<Rightarrow> js_value" where
  "effect_value (ADDITIONAL_COST bps) = JObject [(''kind'', JString ''ADDITIONAL_COST''), (''bps'', JBigInt bps)]"
| "effect_value ECONOMICALLY_EQUAL = JObject [(''kind'', JString ''ECONOMICALLY_EQUAL''), (''bps'', JBigInt 0)]"
| "effect_value (BETTER_VALUE bps) = JObject [(''kind'', JString ''BETTER_VALUE''), (''bps'', JBigInt bps)]"

definition content_value :: "'a disclosure_content_scheme \<Rightarrow> js_value" where
  "content_value d = JObject
     [(''underlying'', JString (rd_underlying d)), (''original'', summary_value (rd_original d)),
      (''alternative'', summary_value (rd_alternative d)), (''reason'', JString (rd_reason d)),
      (''additionalCostBps'', JBigInt (rd_additionalCostBps d)),
      (''preferredSharesEquivalent'', JString (rd_preferredSharesEquivalent d)),
      (''alternativeSharesEquivalent'', JString (rd_alternativeSharesEquivalent d)),
      (''economicEffect'', effect_value (rd_economicEffect d)), (''notice'', JString (rd_notice d)),
      (''comparisonKey'', JString (rd_comparisonKey d)), (''inputRaw'', JBigInt (rd_inputRaw d)),
      (''policyMaxAdditionalCostBps'', JBigInt (rd_policyMaxAdditionalCostBps d))]"

definition disclosureDigestOf :: "'a disclosure_content_scheme \<Rightarrow> rep_exn + string" where
  "disclosureDigestOf disclosure = bindE (canonicalKey (content_value disclosure)) (\<lambda>key. Inr (sha256Hex key))"

definition disclosure_content_of ::
    "resolved_representation_state \<Rightarrow> resolved_representation_state \<Rightarrow> string \<Rightarrow> quote_comparison \<Rightarrow> int \<Rightarrow> reroute_policy \<Rightarrow>
       disclosure_content" where
  "disclosure_content_of preferred alternative reason comparison inputRaw policy =
     \<lparr>rd_underlying = rr_underlying preferred, rd_original = summary preferred, rd_alternative = summary alternative,
      rd_reason = reason, rd_additionalCostBps = qc_additionalCostBps comparison,
      rd_preferredSharesEquivalent = formatRationalFloor (qc_preferredSharesEquivalent comparison) DISCLOSURE_SHARE_DECIMALS,
      rd_alternativeSharesEquivalent = formatRationalFloor (qc_alternativeSharesEquivalent comparison) DISCLOSURE_SHARE_DECIMALS,
      rd_economicEffect = qc_economicEffect comparison, rd_notice = NOT_IDENTICAL_NOTICE,
      rd_comparisonKey = qc_comparisonKey comparison, rd_inputRaw = inputRaw,
      rd_policyMaxAdditionalCostBps = po_maxAdditionalCostBps policy\<rparr>"

definition disclosureFor ::
    "resolved_representation_state \<Rightarrow> resolved_representation_state \<Rightarrow> string \<Rightarrow> quote_comparison \<Rightarrow> int \<Rightarrow> reroute_policy \<Rightarrow>
       rep_exn + reroute_disclosure" where
  "disclosureFor preferred alternative reason comparison inputRaw policy =
     (let content = disclosure_content_of preferred alternative reason comparison inputRaw policy
      in bindE (disclosureDigestOf content) (\<lambda>digest.
         Inr (disclosure_content.extend content \<lparr>rd_disclosureDigest = digest\<rparr>)))"

section \<open>decision.ts: decide\<close>

definition decide :: "'a decision_input_scheme \<Rightarrow> rep_exn + decision_result" where
  "decide input =
     (let preferred = di_preferred input; policy = di_reroutePolicy input;
          result = (\<lambda>d code disclosure.
            \<lparr>dr_decision = d, dr_reasonCode = code, dr_preferred = preferred,
             dr_alternative = di_alternative input, dr_disclosure = disclosure\<rparr>)
      in
      bindE (throw_if (po_maxAdditionalCostBps policy < 0) RangeError_rep) (\<lambda>_.
      case unusable preferred of
        Some Conflict_issue \<Rightarrow> Inr (result UNKNOWN_STATE PREFERRED_STATE_CONFLICT None)
      | Some Unknown_issue \<Rightarrow> Inr (result UNKNOWN_STATE PREFERRED_STATE_UNKNOWN None)
      | None \<Rightarrow>
      if rr_state preferred = Some SAFE then Inr (result USE_PREFERRED PREFERRED_SAFE None)
      else
      let unsafeReason = rr_symbol preferred @ '' is '' @ state_text (the (rr_state preferred)) @ '': '' @ rr_reason preferred in
      case di_alternative input of
        None \<Rightarrow> Inr (result NO_SAFE_ROUTE NO_ALTERNATIVE None)
      | Some alternative \<Rightarrow>
      if rr_underlying alternative \<noteq> rr_underlying preferred \<or> rr_mint alternative = rr_mint preferred
      then Inr (result NO_SAFE_ROUTE ALTERNATIVE_NOT_SAME_UNDERLYING None)
      else case unusable alternative of
        Some Conflict_issue \<Rightarrow> Inr (result UNKNOWN_STATE ALTERNATIVE_STATE_CONFLICT None)
      | Some Unknown_issue \<Rightarrow> Inr (result UNKNOWN_STATE ALTERNATIVE_STATE_UNKNOWN None)
      | None \<Rightarrow>
      if rr_state alternative \<noteq> Some SAFE then Inr (result NO_SAFE_ROUTE ALTERNATIVE_NOT_SAFE None)
      else case di_comparison input of
        None \<Rightarrow> Inr (result UNKNOWN_STATE ALTERNATIVE_QUOTE_UNAVAILABLE None)
      | Some comparison \<Rightarrow>
      if comparisonBindingMismatch comparison preferred alternative (di_inputRaw input) \<noteq> []
      then Inr (result UNKNOWN_STATE QUOTE_COMPARISON_MISMATCH None)
      else if comparisonStateMismatch comparison preferred alternative \<noteq> []
      then Inr (result UNKNOWN_STATE QUOTE_COMPARISON_STALE_STATE None)
      else if exceedsCostLimit comparison policy \<noteq> None
      then Inr (result NO_ACCEPTABLE_ROUTE ALTERNATIVE_OUTSIDE_TOLERANCE None)
      else bindE (disclosureFor preferred alternative unsafeReason comparison (di_inputRaw input) policy) (\<lambda>disclosure.
           Inr (result REQUIRES_CONSENT CONSENT_REQUIRED (Some disclosure)))))"

section \<open>Facts\<close>

lemma summary_value_key_ok [simp]: "key_ok (summary_value s)"
  by (simp add: summary_value_def)

lemma effect_value_key_ok [simp]: "key_ok (effect_value e)"
  by (cases e) simp_all

lemma content_value_key_ok [simp]: "key_ok (content_value d)"
  by (simp add: content_value_def)

lemma disclosureDigestOf_ok: "\<exists>digest. disclosureDigestOf d = Inr digest"
  using content_value_key_ok [of d] by (auto simp: disclosureDigestOf_def key_ok_def)

lemma content_value_extend [simp]: "content_value (disclosure_content.extend c x) = content_value c"
  by (simp add: content_value_def disclosure_content.extend_def)

text \<open>The conditions under which a decision may offer a reroute.\<close>

definition reroute_offered :: "'a decision_input_scheme \<Rightarrow> resolved_representation_state \<Rightarrow> quote_comparison \<Rightarrow> bool" where
  "reroute_offered input alternative comparison \<longleftrightarrow>
     di_alternative input = Some alternative \<and> di_comparison input = Some comparison \<and>
     unusable (di_preferred input) = None \<and> rr_state (di_preferred input) \<noteq> Some SAFE \<and>
     rr_underlying alternative = rr_underlying (di_preferred input) \<and> rr_mint alternative \<noteq> rr_mint (di_preferred input) \<and>
     unusable alternative = None \<and> rr_state alternative = Some SAFE \<and>
     comparisonBindingMismatch comparison (di_preferred input) alternative (di_inputRaw input) = [] \<and>
     comparisonStateMismatch comparison (di_preferred input) alternative = [] \<and>
     exceedsCostLimit comparison (di_reroutePolicy input) = None"

lemma disclosureFor_ok:
  "\<exists>d. disclosureFor p a reason c raw policy = Inr d \<and> rd_comparisonKey d = qc_comparisonKey c \<and>
     rd_additionalCostBps d = qc_additionalCostBps c \<and> rd_inputRaw d = raw \<and>
     rd_original d = summary p \<and> rd_alternative d = summary a \<and>
     rd_policyMaxAdditionalCostBps d = po_maxAdditionalCostBps policy \<and>
     disclosureDigestOf d = Inr (rd_disclosureDigest d)"
proof -
  define content where "content = disclosure_content_of p a reason c raw policy"
  obtain digest where digest: "disclosureDigestOf content = Inr digest" using disclosureDigestOf_ok by blast
  let ?d = "disclosure_content.extend content \<lparr>rd_disclosureDigest = digest\<rparr>"
  have "disclosureFor p a reason c raw policy = Inr ?d" using digest by (simp add: disclosureFor_def content_def)
  moreover have "disclosureDigestOf ?d = Inr digest" using digest by (simp add: disclosureDigestOf_def)
  ultimately show ?thesis
    by (intro exI [of _ ?d]) (simp add: content_def disclosure_content_of_def disclosure_content.extend_def)
qed

lemmas decide_splits = option.splits unusable_issue.splits if_splits

lemma decide_consent:
  assumes "decide input = Inr r" and "dr_decision r = REQUIRES_CONSENT"
  shows "\<exists>alternative comparison d. reroute_offered input alternative comparison \<and> 0 \<le> po_maxAdditionalCostBps (di_reroutePolicy input) \<and>
    dr_disclosure r = Some d \<and> dr_reasonCode r = CONSENT_REQUIRED \<and> dr_preferred r = di_preferred input \<and>
    dr_alternative r = di_alternative input \<and> rd_comparisonKey d = qc_comparisonKey comparison \<and>
     rd_additionalCostBps d = qc_additionalCostBps comparison \<and> rd_inputRaw d = di_inputRaw input \<and>
     rd_original d = summary (di_preferred input) \<and> rd_alternative d = summary alternative \<and>
     rd_policyMaxAdditionalCostBps d = po_maxAdditionalCostBps (di_reroutePolicy input) \<and>
    disclosureDigestOf d = Inr (rd_disclosureDigest d)"
proof -
  obtain reason alternative comparison d where offered: "reroute_offered input alternative comparison"
      and bound: "0 \<le> po_maxAdditionalCostBps (di_reroutePolicy input)"
      and d: "disclosureFor (di_preferred input) alternative reason comparison (di_inputRaw input) (di_reroutePolicy input) = Inr d"
      and r: "r = \<lparr>dr_decision = REQUIRES_CONSENT, dr_reasonCode = CONSENT_REQUIRED, dr_preferred = di_preferred input,
             dr_alternative = di_alternative input, dr_disclosure = Some d\<rparr>"
    using assms by (auto simp: decide_def Let_def err_simps reroute_offered_def split: decide_splits)
  from disclosureFor_ok [of "di_preferred input" alternative reason comparison "di_inputRaw input" "di_reroutePolicy input"] d
  show ?thesis using offered bound by (auto simp: r)
qed

lemma decide_never_switches: "decide input = Inr r \<Longrightarrow> dr_decision r \<noteq> USE_ALTERNATIVE"
  by (auto simp: decide_def Let_def err_simps split: decide_splits)

lemma bind_disclosureFor: "bindE (disclosureFor p a reason c raw policy) f = f (projr (disclosureFor p a reason c raw policy))"
  using disclosureFor_ok [of p a reason c raw policy] by auto

lemma decide_offered:
  "reroute_offered input alternative comparison \<Longrightarrow> 0 \<le> po_maxAdditionalCostBps (di_reroutePolicy input) \<Longrightarrow>
   \<exists>d. decide input = Inr \<lparr>dr_decision = REQUIRES_CONSENT, dr_reasonCode = CONSENT_REQUIRED, dr_preferred = di_preferred input,
             dr_alternative = di_alternative input, dr_disclosure = Some d\<rparr>"
  by (simp add: decide_def Let_def reroute_offered_def bind_disclosureFor)

lemma decide_total: "0 \<le> po_maxAdditionalCostBps (di_reroutePolicy input) \<Longrightarrow> \<exists>r. decide input = Inr r"
  by (simp add: decide_def Let_def bind_disclosureFor split: option.splits unusable_issue.splits)

lemma decide_preferred:
  "decide input = Inr r \<Longrightarrow>
   dr_decision r = USE_PREFERRED \<longleftrightarrow> unusable (di_preferred input) = None \<and> rr_state (di_preferred input) = Some SAFE"
  by (auto simp: decide_def Let_def err_simps split: decide_splits)

text \<open>What the digest of a disclosure covers.\<close>

lemma texts_inject [simp]:
  "state_text a = state_text b \<longleftrightarrow> a = b" "source_text c = source_text d \<longleftrightarrow> c = d" "issuer_text e = issuer_text f \<longleftrightarrow> e = f"
  subgoal by (cases a; cases b) simp_all
  subgoal by (cases c; cases d) simp_all
  subgoal by (cases e; cases f) simp_all
  done

lemma texts_map_inject [simp]:
  "map_option state_text a = map_option state_text b \<longleftrightarrow> a = b" "map_option source_text c = map_option source_text d \<longleftrightarrow> c = d"
  subgoal by (cases a; cases b) simp_all
  subgoal by (cases c; cases d) simp_all
  done

lemma summary_value_eq: "canon (summary_value s) = canon (summary_value t) \<longleftrightarrow> s = t"
  unfolding summary_value_def by (subst canon_object) (auto intro: representation_summary.equality)

lemma effect_value_eq: "canon (effect_value a) = canon (effect_value b) \<longleftrightarrow> a = b"
  by (cases a; cases b) (simp_all add: canon_object del: canon.simps(2))

lemma content_value_eq:
  "canon (content_value c) = canon (content_value d) \<longleftrightarrow> disclosure_content.truncate c = disclosure_content.truncate d"
  unfolding content_value_def
  by (subst canon_object) (simp_all add: summary_value_eq effect_value_eq disclosure_content.truncate_def)

text \<open>Two canonical texts on which the hash has no collision.\<close>

definition no_collision :: "js_value \<Rightarrow> js_value \<Rightarrow> bool" where
  "no_collision v w \<longleftrightarrow> (\<forall>k k'. canonicalKey v = Inr k \<and> canonicalKey w = Inr k' \<and> sha256Hex k = sha256Hex k' \<longrightarrow> k = k')"

lemma digest_binds:
  assumes "disclosureDigestOf c = Inr digest" and "disclosureDigestOf d = Inr digest" and "no_collision (content_value c) (content_value d)"
  shows "disclosure_content.truncate c = disclosure_content.truncate d"
proof -
  obtain k k' where k: "canonicalKey (content_value c) = Inr k" "canonicalKey (content_value d) = Inr k'" "sha256Hex k = sha256Hex k'"
    using assms by (auto simp: disclosureDigestOf_def err_simps)
  with assms(3) have "k = k'" by (auto simp: no_collision_def)
  with same_key [OF k(1,2)] show ?thesis by (simp add: content_value_eq)
qed

section \<open>Properties\<close>


section \<open>A concrete trade\<close>

text \<open>
  A paused xStocks preference, an active Ondo alternative of the same underlying, and the comparison of
  their quotes. A reroute is offered up to 100 basis points.
\<close>

definition sample_mint_observation :: "string \<Rightarrow> bool \<Rightarrow> chain_observation" where
  "sample_mint_observation mint p = \<lparr>co_mint = mint, co_slot = Some 9, co_blockTime = None, co_observedAt = None,
     co_chainUnixTimestamp = Some 200, co_decimals = 8, co_paused = Some p,
     co_protectedState = \<lparr>multiplier = one_f64, newMultiplier = one_f64, newMultiplierEffectiveTimestamp = 100\<rparr>,
     co_hasScheduledChange = False, co_phase = Some Activated\<rparr>"

definition sample_resolved :: "issuer \<Rightarrow> string \<Rightarrow> string \<Rightarrow> bool \<Rightarrow> resolved_representation_state" where
  "sample_resolved iss symbol mint p =
     (let st = (if p then PAUSED else SAFE) in
     \<lparr>rr_underlying = ''TSLA'', rr_issuer = iss, rr_symbol = symbol, rr_mint = mint, rr_state = Some st,
      rr_stateSource = Some CHAIN, rr_chainState = Some st, rr_apiState = None, rr_slot = Some 9, rr_blockTime = None,
      rr_observedAt = None, rr_reason = (if p then ''Token-2022 Pausable flag is set'' else ''no scheduled multiplier change''),
      rr_chainObservation = Some (Decoded (sample_mint_observation mint p)), rr_apiObservation = None,
      rr_transitionPolicy = Some sample_policy\<rparr>)"

definition sample_preferred :: resolved_representation_state where
  "sample_preferred = sample_resolved xStocks_issuer ''TSLAx'' ''MintA'' True"

definition sample_alternative :: resolved_representation_state where
  "sample_alternative = sample_resolved Ondo_issuer ''TSLAon'' ''MintB'' False"

text \<open>Both are what the adapters resolve.\<close>

lemma sample_states_resolved:
  "resolveXStocksState \<lparr>rp_underlying = ''TSLA'', rp_issuer = xStocks_issuer, rp_symbol = ''TSLAx'', rp_mint = ''MintA''\<rparr>
     (Decoded (sample_mint_observation ''MintA'' True)) sample_policy = Inr sample_preferred"
  "resolveOndoState dateParse \<lparr>rp_underlying = ''TSLA'', rp_issuer = Ondo_issuer, rp_symbol = ''TSLAon'', rp_mint = ''MintB''\<rparr>
     (Some (Decoded (sample_mint_observation ''MintB'' False))) None None sample_policy = Inr sample_alternative"
  by (simp_all add: resolveXStocksState_def resolveOndoState_def classifyChainEvidence_def assertValidPolicy_def sample_policy_def
      sample_mint_observation_def sample_preferred_def sample_alternative_def sample_resolved_def)

definition sample_comparison :: quote_comparison where
  "sample_comparison = projr (compareQuotes sample_preferred_quote sample_alternative_quote)"

lemma sample_comparison: "compareQuotes sample_preferred_quote sample_alternative_quote = Inr sample_comparison"
  using sample_comparison_exists by (auto simp: sample_comparison_def)

definition sample_decision_input :: decision_input where
  "sample_decision_input = \<lparr>di_preferred = sample_preferred, di_alternative = Some sample_alternative,
     di_reroutePolicy = \<lparr>po_maxAdditionalCostBps = 100\<rparr>, di_inputRaw = 1000000, di_comparison = Some sample_comparison\<rparr>"

lemma sample_hexOf: "hexOf one_f64 = ''000000000000f03f''"
  by code_simp

lemma sample_econ_states:
  "economicStateOf (rr_chainObservation sample_preferred) = Some sample_econ"
  "economicStateOf (rr_chainObservation sample_alternative) = Some (sample_econ\<lparr>es_mint := ''MintB'', es_paused := Some False\<rparr>)"
  by (simp_all add: sample_preferred_def sample_alternative_def sample_resolved_def sample_mint_observation_def sample_hexOf
      sample_econ_def Activated_def)

lemma sample_quote_fields:
  "qi_underlying sample_preferred_quote = ''TSLA''" "qi_mint sample_preferred_quote = ''MintA''" "qi_inputRaw sample_preferred_quote = 1000000"
  "qi_outputRaw sample_preferred_quote = 250000" "qi_state sample_preferred_quote = sample_econ"
  "qi_mint sample_alternative_quote = ''MintB''" "qi_outputRaw sample_alternative_quote = 249900"
  "qi_state sample_alternative_quote = sample_econ\<lparr>es_mint := ''MintB'', es_paused := Some False\<rparr>"
  by (simp_all add: sample_preferred_quote_def sample_alternative_quote_def quote_identity.extend_def sample_quote_def)

text \<open>The alternative delivers 0.04 percent less: at most five basis points after rounding up.\<close>

lemma sample_cost: "qc_additionalCostBps sample_comparison \<le> 5"
proof -
  note c = comparison_cost_exact [OF sample_comparison]
  obtain q k where p: "0 < q" "rat_of (qc_preferredSharesEquivalent sample_comparison) = 250000 * q / 10 ^ k"
      and q: "f64_of_bytes (effectiveMultiplierBytes sample_econ) = JNum q" "js_int (es_decimals sample_econ) = Some (int k)"
    using shares_value [OF c [THEN conjunct2, THEN conjunct2, THEN conjunct1, unfolded quote_shares_def]]
    by (auto simp: sample_quote_fields) (metis nat_0_le)
  have eff: "effectiveMultiplierBytes (sample_econ\<lparr>es_mint := ''MintB'', es_paused := Some False\<rparr>) = effectiveMultiplierBytes sample_econ"
    by (simp add: effectiveMultiplierBytes_def)
  obtain q' k' where a: "rat_of (qc_alternativeSharesEquivalent sample_comparison) = 249900 * q' / 10 ^ k'"
      "f64_of_bytes (effectiveMultiplierBytes sample_econ) = JNum q'" "js_int (es_decimals sample_econ) = Some (int k')"
    using shares_value [OF c [THEN conjunct2, THEN conjunct2, THEN conjunct2, THEN conjunct1, unfolded quote_shares_def]]
    by (auto simp: sample_quote_fields eff) (metis nat_0_le)
  from q a(2,3) have "q' = q" "k' = k" by auto
  with a(1) have a: "rat_of (qc_alternativeSharesEquivalent sample_comparison) = 249900 * q / 10 ^ k" by simp
  have "(rat_of (qc_preferredSharesEquivalent sample_comparison) - rat_of (qc_alternativeSharesEquivalent sample_comparison)) /
        rat_of (qc_preferredSharesEquivalent sample_comparison) * 10000 = 4"
    unfolding p(2) a using p(1) by (simp add: field_simps)
  with c show ?thesis by simp
qed

lemma sample_comparison_fields:
  "qc_underlying sample_comparison = ''TSLA''" "qc_preferredMint sample_comparison = ''MintA''" "qc_alternativeMint sample_comparison = ''MintB''"
  "qc_inputRaw sample_comparison = 1000000" "qc_preferredQuote sample_comparison = quote_identity.truncate sample_preferred_quote"
  "qc_alternativeQuote sample_comparison = quote_identity.truncate sample_alternative_quote"
proof -
  obtain p a key where c: "sample_comparison =
      comparison_of (quote_identity.truncate sample_preferred_quote) (quote_identity.truncate sample_alternative_quote) key p a"
    using sample_comparison unfolding compareQuotes_ok by blast
  show "qc_underlying sample_comparison = ''TSLA''" "qc_preferredMint sample_comparison = ''MintA''"
    "qc_alternativeMint sample_comparison = ''MintB''" "qc_inputRaw sample_comparison = 1000000"
    "qc_preferredQuote sample_comparison = quote_identity.truncate sample_preferred_quote"
    "qc_alternativeQuote sample_comparison = quote_identity.truncate sample_alternative_quote"
    unfolding c by (simp_all add: comparison_of_def Let_def sample_quote_fields)
qed

lemma sample_offered: "reroute_offered sample_decision_input sample_alternative sample_comparison"
proof -
  have "economicStateMismatches sample_econ sample_econ = []"
    "economicStateMismatches (sample_econ\<lparr>es_mint := ''MintB'', es_paused := Some False\<rparr>) (sample_econ\<lparr>es_mint := ''MintB'', es_paused := Some False\<rparr>) = []"
    by (simp_all add: economicStateMismatches_def sample_econ_def)
  then have "comparisonStateMismatch sample_comparison sample_preferred sample_alternative = []"
    by (simp add: comparisonStateMismatch_def bound_state_mismatches_def sample_econ_states sample_comparison_fields sample_quote_fields)
  moreover have "unusable sample_preferred = None" "unusable sample_alternative = None" "rr_state sample_preferred \<noteq> Some SAFE"
      "rr_state sample_alternative = Some SAFE" "rr_underlying sample_alternative = rr_underlying sample_preferred"
      "rr_mint sample_alternative \<noteq> rr_mint sample_preferred" "rr_underlying sample_preferred = ''TSLA''" "rr_mint sample_preferred = ''MintA''"
      "rr_mint sample_alternative = ''MintB''"
    by (simp_all add: unusable_def sample_preferred_def sample_alternative_def sample_resolved_def)
  ultimately show ?thesis
    using sample_cost
    by (simp add: reroute_offered_def sample_decision_input_def comparisonBindingMismatch_def exceedsCostLimit_def
        sample_comparison_fields sample_quote_fields)
qed


end
