(* ===== verification/Consent.thy ===== *)
theory Consent
  imports Decision
begin

text \<open>
  Reroute consent as a single-use capability (\<open>packages/representation-state/src/consent.ts\<close>). A consent
  record is a frozen object: its content together with the identity \<open>cr_object\<close> the store hands out, so
  that membership in the module's two weak sets is membership of the record, and a copy is a different
  record. The random nonce of a grant is an argument. A throwing grant still changes the store, so the
  operations return the store beside their result.
\<close>

section \<open>consent.ts: types\<close>

record consent_record =
  cr_object :: nat
  cr_consentId :: string
  cr_comparisonKey :: string
  cr_disclosureDigest :: string
  cr_underlying :: string
  cr_preferredMint :: string
  cr_alternativeMint :: string
  cr_inputRaw :: int
  cr_preferredQuoteKey :: string
  cr_alternativeQuoteKey :: string
  cr_additionalCostBps :: int
  cr_maxAdditionalCostBps :: int
  cr_issuedAtSlot :: int
  cr_expiresAtSlot :: int

record consent_store =
  cs_next :: nat
  issued :: "consent_record set"
  consumed :: "consent_record set"

record consent_context =
  cx_decision :: decision_result
  cx_comparison :: quote_comparison
  cx_reroutePolicy :: reroute_policy
  cx_currentSlot :: int

section \<open>consent.ts: operations\<close>

definition issue_if :: "bool \<Rightarrow> consent_error_code \<Rightarrow> consent_error_code list" where
  "issue_if c code = (if c then [code] else [])"

text \<open>\<open>a || b\<close> where computing \<open>b\<close> may throw.\<close>

definition or_elseE :: "bool \<Rightarrow> rep_exn + bool \<Rightarrow> rep_exn + bool" where
  "or_elseE a b = (if a then Inr True else b)"

definition disclosure_differs :: "consent_record \<Rightarrow> reroute_disclosure \<Rightarrow> rep_exn + bool" where
  "disclosure_differs consent disclosure =
     or_elseE (cr_disclosureDigest consent \<noteq> rd_disclosureDigest disclosure)
       (bindE (disclosureDigestOf disclosure) (\<lambda>digest. Inr (digest \<noteq> rd_disclosureDigest disclosure)))"

definition quotes_differ :: "consent_record \<Rightarrow> quote_comparison \<Rightarrow> rep_exn + bool" where
  "quotes_differ consent comparison =
     bindE (quoteKey (qc_preferredQuote comparison)) (\<lambda>pk.
     or_elseE (cr_preferredQuoteKey consent \<noteq> pk)
       (bindE (quoteKey (qc_alternativeQuote comparison)) (\<lambda>ak. Inr (cr_alternativeQuoteKey consent \<noteq> ak))))"

definition trade_differs :: "consent_record \<Rightarrow> quote_comparison \<Rightarrow> bool" where
  "trade_differs consent comparison \<longleftrightarrow>
     cr_underlying consent \<noteq> qc_underlying comparison \<or> cr_preferredMint consent \<noteq> qc_preferredMint comparison \<or>
     cr_alternativeMint consent \<noteq> qc_alternativeMint comparison \<or> cr_inputRaw consent \<noteq> qc_inputRaw comparison"

definition consentIssues ::
    "'a consent_store_scheme \<Rightarrow> consent_record \<Rightarrow> consent_context \<Rightarrow> rep_exn + consent_error_code list" where
  "consentIssues store consent ctx =
     (if consent \<notin> issued store then Inr [NOT_ISSUED]
      else
        let first = issue_if (consent \<in> consumed store) CONSUMED @ issue_if (cx_currentSlot ctx > cr_expiresAtSlot consent) EXPIRED;
            comparison = cx_comparison ctx
        in case dr_disclosure (cx_decision ctx) of
             None \<Rightarrow> Inr (first @ [NOT_A_CONSENT_DECISION])
           | Some disclosure \<Rightarrow>
               if dr_decision (cx_decision ctx) \<noteq> REQUIRES_CONSENT then Inr (first @ [NOT_A_CONSENT_DECISION])
               else
                 bindE (disclosure_differs consent disclosure) (\<lambda>otherDisclosure.
                 bindE (quotes_differ consent comparison) (\<lambda>otherQuotes.
                 Inr (first @
                   issue_if (cr_comparisonKey consent \<noteq> qc_comparisonKey comparison \<or> rd_comparisonKey disclosure \<noteq> qc_comparisonKey comparison)
                     COMPARISON_MISMATCH @
                   issue_if otherDisclosure DISCLOSURE_MISMATCH @
                   issue_if (trade_differs consent comparison) TRADE_MISMATCH @
                   issue_if otherQuotes QUOTE_MISMATCH_consent @
                   issue_if (cr_additionalCostBps consent \<noteq> qc_additionalCostBps comparison) COST_MISMATCH @
                   issue_if (qc_additionalCostBps comparison > cr_maxAdditionalCostBps consent) COST_ABOVE_ACCEPTED_MAX @
                   issue_if (exceedsCostLimit comparison (cx_reroutePolicy ctx) \<noteq> None) OUTSIDE_POLICY_COST_LIMIT))))"

definition grantConsent ::
    "string \<Rightarrow> 'a consent_store_scheme \<Rightarrow> consent_context \<Rightarrow> int \<Rightarrow> int \<Rightarrow>
       'a consent_store_scheme \<times> (rep_exn + consent_record)" where
  "grantConsent nonce store ctx maxAdditionalCostBps validForSlots =
     (if maxAdditionalCostBps < 0 \<or> validForSlots \<le> 0 then (store, Inl (ConsentError [INVALID_GRANT]))
      else let comparison = cx_comparison ctx in
        case dr_disclosure (cx_decision ctx) of
          None \<Rightarrow> (store, Inl (ConsentError [NOT_A_CONSENT_DECISION]))
        | Some disclosure \<Rightarrow>
            if dr_decision (cx_decision ctx) \<noteq> REQUIRES_CONSENT then (store, Inl (ConsentError [NOT_A_CONSENT_DECISION]))
            else case bindE (quoteKey (qc_preferredQuote comparison)) (\<lambda>pk.
                      bindE (quoteKey (qc_alternativeQuote comparison)) (\<lambda>ak. Inr (pk, ak))) of
              Inl e \<Rightarrow> (store, Inl e)
            | Inr (pk, ak) \<Rightarrow>
                let consent =
                      \<lparr>cr_object = cs_next store, cr_consentId = nonce, cr_comparisonKey = rd_comparisonKey disclosure,
                       cr_disclosureDigest = rd_disclosureDigest disclosure, cr_underlying = qc_underlying comparison,
                       cr_preferredMint = qc_preferredMint comparison, cr_alternativeMint = qc_alternativeMint comparison,
                       cr_inputRaw = qc_inputRaw comparison, cr_preferredQuoteKey = pk, cr_alternativeQuoteKey = ak,
                       cr_additionalCostBps = qc_additionalCostBps comparison, cr_maxAdditionalCostBps = maxAdditionalCostBps,
                       cr_issuedAtSlot = cx_currentSlot ctx, cr_expiresAtSlot = cx_currentSlot ctx + validForSlots\<rparr>;
                    store' = store\<lparr>cs_next := Suc (cs_next store), issued := insert consent (issued store)\<rparr>
                in case consentIssues store' consent ctx of
                     Inl e \<Rightarrow> (store', Inl e)
                   | Inr issues \<Rightarrow>
                       if issues \<noteq> [] then (store'\<lparr>consumed := insert consent (consumed store')\<rparr>, Inl (ConsentError issues))
                       else (store', Inr consent))"

definition consumeConsent ::
    "'a consent_store_scheme \<Rightarrow> consent_record \<Rightarrow> consent_context \<Rightarrow> 'a consent_store_scheme \<times> (rep_exn + unit)" where
  "consumeConsent store consent ctx =
     (case consentIssues store consent ctx of
        Inl e \<Rightarrow> (store, Inl e)
      | Inr issues \<Rightarrow>
          if issues \<noteq> [] then (store, Inl (ConsentError issues))
          else (store\<lparr>consumed := insert consent (consumed store)\<rparr>, Inr ()))"

section \<open>Facts\<close>

lemma issue_if_Nil [simp]: "issue_if c code = [] \<longleftrightarrow> \<not> c"
  by (simp add: issue_if_def)

lemma or_else_False: "or_elseE a b = Inr False \<longleftrightarrow> \<not> a \<and> b = Inr False"
  by (simp add: or_elseE_def)

lemma or_else_Inr [err_simps]: "or_elseE a b = Inr x \<longleftrightarrow> (if a then x = True else b = Inr x)"
  by (auto simp: or_elseE_def)

text \<open>A consent authorizes a reroute: what an empty list of issues means.\<close>

definition authorizes :: "'a consent_store_scheme \<Rightarrow> consent_record \<Rightarrow> consent_context \<Rightarrow> bool" where
  "authorizes store consent ctx \<longleftrightarrow>
     consent \<in> issued store \<and> consent \<notin> consumed store \<and> cx_currentSlot ctx \<le> cr_expiresAtSlot consent \<and>
     dr_decision (cx_decision ctx) = REQUIRES_CONSENT \<and>
     (\<exists>disclosure. dr_disclosure (cx_decision ctx) = Some disclosure \<and>
        cr_comparisonKey consent = qc_comparisonKey (cx_comparison ctx) \<and>
        rd_comparisonKey disclosure = qc_comparisonKey (cx_comparison ctx) \<and>
        cr_disclosureDigest consent = rd_disclosureDigest disclosure \<and>
        disclosureDigestOf disclosure = Inr (rd_disclosureDigest disclosure)) \<and>
     cr_underlying consent = qc_underlying (cx_comparison ctx) \<and> cr_preferredMint consent = qc_preferredMint (cx_comparison ctx) \<and>
     cr_alternativeMint consent = qc_alternativeMint (cx_comparison ctx) \<and> cr_inputRaw consent = qc_inputRaw (cx_comparison ctx) \<and>
     quoteKey (qc_preferredQuote (cx_comparison ctx)) = Inr (cr_preferredQuoteKey consent) \<and>
     quoteKey (qc_alternativeQuote (cx_comparison ctx)) = Inr (cr_alternativeQuoteKey consent) \<and>
     cr_additionalCostBps consent = qc_additionalCostBps (cx_comparison ctx) \<and>
     qc_additionalCostBps (cx_comparison ctx) \<le> cr_maxAdditionalCostBps consent \<and>
     exceedsCostLimit (cx_comparison ctx) (cx_reroutePolicy ctx) = None"

lemma disclosure_differs_False:
  "disclosure_differs consent disclosure = Inr False \<longleftrightarrow>
   cr_disclosureDigest consent = rd_disclosureDigest disclosure \<and> disclosureDigestOf disclosure = Inr (rd_disclosureDigest disclosure)"
  by (auto simp: disclosure_differs_def or_else_False err_simps)

lemma quotes_differ_False:
  "quotes_differ consent comparison = Inr False \<longleftrightarrow>
   quoteKey (qc_preferredQuote comparison) = Inr (cr_preferredQuoteKey consent) \<and>
   quoteKey (qc_alternativeQuote comparison) = Inr (cr_alternativeQuoteKey consent)"
  by (auto simp: quotes_differ_def or_else_False err_simps)

lemma consentIssues_Nil: "consentIssues store consent ctx = Inr [] \<longleftrightarrow> authorizes store consent ctx"
proof (cases "dr_disclosure (cx_decision ctx)")
  case None
  then show ?thesis by (simp add: consentIssues_def authorizes_def Let_def)
next
  case (Some disclosure)
  have "(consent \<in> issued store \<and> dr_decision (cx_decision ctx) = REQUIRES_CONSENT \<and> consent \<notin> consumed store \<and>
      cx_currentSlot ctx \<le> cr_expiresAtSlot consent \<and> disclosure_differs consent disclosure = Inr False \<and>
      quotes_differ consent (cx_comparison ctx) = Inr False \<and> cr_comparisonKey consent = qc_comparisonKey (cx_comparison ctx) \<and>
      rd_comparisonKey disclosure = qc_comparisonKey (cx_comparison ctx) \<and> \<not> trade_differs consent (cx_comparison ctx) \<and>
      cr_additionalCostBps consent = qc_additionalCostBps (cx_comparison ctx) \<and>
      qc_additionalCostBps (cx_comparison ctx) \<le> cr_maxAdditionalCostBps consent \<and>
      exceedsCostLimit (cx_comparison ctx) (cx_reroutePolicy ctx) = None) \<longleftrightarrow> consentIssues store consent ctx = Inr []"
    using Some by (auto simp: consentIssues_def Let_def err_simps not_less)
  with Some show ?thesis
    by (auto simp: authorizes_def disclosure_differs_False quotes_differ_False trade_differs_def)
qed

lemma consumeConsent_ok:
  "consumeConsent store consent ctx = (store', Inr ()) \<longleftrightarrow>
   authorizes store consent ctx \<and> store' = store\<lparr>consumed := insert consent (consumed store)\<rparr>"
  unfolding consentIssues_Nil [symmetric] consumeConsent_def by (auto split: sum.splits if_splits)

lemma consumeConsent_fail: "consumeConsent store consent ctx = (store', Inl e) \<Longrightarrow> store' = store"
  by (auto simp: consumeConsent_def split: sum.splits if_splits)

end
