(* ===== verification/Execution.thy ===== *)
theory Execution
  imports Consent
begin

text \<open>
  Execution eligibility (\<open>packages/representation-state/src/execution.ts\<close>): the state decision combined
  with consent, routes and quotes. Reason texts are display only and not modelled.
\<close>

section \<open>execution.ts: types\<close>

datatype execution_eligibility =
    EXECUTABLE | ROUTE_UNAVAILABLE | QUOTE_UNAVAILABLE | STATE_UNSAFE | STATE_UNKNOWN
  | CONSENT_REQUIRED_eligibility | CONSENT_INVALID | POLICY_MISMATCH | ALTERNATIVE_OUTSIDE_TOLERANCE_eligibility
  | STALE_COMPARISON | QUOTE_MISMATCH

datatype route_status = AVAILABLE | UNAVAILABLE

record route_observation =
  ro_mint :: string
  ro_status :: route_status
  ro_quote :: "normalized_quote option"
  ro_source :: string

record execution_input = decision_input +
  ei_preferredRoute :: "route_observation option"
  ei_alternativeRoute :: "route_observation option"
  ei_consent :: "consent_record option"
  ei_currentSlot :: int

record execution_decision =
  ed_stateDecision :: decision_result
  ed_comparison :: "quote_comparison option"
  ed_executionEligibility :: execution_eligibility
  ed_selectedRepresentation :: "representation_summary option"
  ed_selectedRouteAvailable :: "bool option"
  ed_quoteAvailable :: bool
  ed_consentRequired :: bool
  ed_executableQuote :: "quote_identity option"
  ed_quoteMismatches :: "quote_mismatch_code list"
  ed_consent :: "consent_record option"
  ed_consentIssues :: "consent_error_code list"
  ed_reroutePolicy :: reroute_policy
  ed_currentSlot :: int
  ed_transitionPolicy :: "transition_policy option"

section \<open>execution.ts: operations\<close>

definition routeFor :: "route_observation option \<Rightarrow> resolved_representation_state option \<Rightarrow> route_observation option" where
  "routeFor route rep =
     (case (route, rep) of
        (Some r, Some s) \<Rightarrow> if ro_mint r = rr_mint s then Some r else None
      | _ \<Rightarrow> None)"

record applied_consent =
  ac_stateDecision :: decision_result
  ac_consent :: "consent_record option"
  ac_issues :: "consent_error_code list"

definition applyConsent ::
    "'a consent_store_scheme \<Rightarrow> decision_result \<Rightarrow> 'b execution_input_scheme \<Rightarrow> rep_exn + applied_consent" where
  "applyConsent store base input =
     (case (ei_consent input, di_comparison input) of
        (Some consent, Some comparison) \<Rightarrow>
          if dr_decision base \<noteq> REQUIRES_CONSENT then Inr \<lparr>ac_stateDecision = base, ac_consent = None, ac_issues = []\<rparr>
          else
            bindE (consentIssues store consent
              \<lparr>cx_decision = base, cx_comparison = comparison, cx_reroutePolicy = di_reroutePolicy input,
               cx_currentSlot = ei_currentSlot input\<rparr>) (\<lambda>issues.
            if issues \<noteq> [] then Inr \<lparr>ac_stateDecision = base, ac_consent = None, ac_issues = issues\<rparr>
            else Inr \<lparr>ac_stateDecision = base\<lparr>dr_decision := USE_ALTERNATIVE, dr_reasonCode := CONSENT_GIVEN\<rparr>,
                      ac_consent = Some consent, ac_issues = []\<rparr>)
      | _ \<Rightarrow> Inr \<lparr>ac_stateDecision = base, ac_consent = None, ac_issues = []\<rparr>)"

fun calibration_value :: "calibration \<Rightarrow> js_value" where
  "calibration_value UNCALIBRATED = JString ''UNCALIBRATED''"
| "calibration_value CALIBRATED = JString ''CALIBRATED''"

definition policy_value :: "transition_policy \<Rightarrow> js_value" where
  "policy_value p = JObject
     [(''beforeSecs'', JBigInt (tp_beforeSecs p)), (''afterSecs'', JBigInt (tp_afterSecs p)),
      (''calibration'', calibration_value (tp_calibration p)), (''basis'', JString (tp_basis p))]"

text \<open>\<open>canonicalKey(p) !== canonicalKey(q)\<close> on two policies.\<close>

definition policies_differ :: "transition_policy \<Rightarrow> transition_policy \<Rightarrow> rep_exn + bool" where
  "policies_differ p q =
     bindE (canonicalKey (policy_value p)) (\<lambda>kp. bindE (canonicalKey (policy_value q)) (\<lambda>kq. Inr (kp \<noteq> kq)))"

text \<open>The result all branches share, with its optional fields absent.\<close>

definition execution_result ::
    "'b execution_input_scheme \<Rightarrow> applied_consent \<Rightarrow> execution_eligibility \<Rightarrow> execution_decision" where
  "execution_result input applied eligibility =
     \<lparr>ed_stateDecision = ac_stateDecision applied, ed_comparison = di_comparison input, ed_executionEligibility = eligibility,
      ed_selectedRepresentation = None, ed_selectedRouteAvailable = None, ed_quoteAvailable = False,
      ed_consentRequired = (dr_decision (ac_stateDecision applied) = REQUIRES_CONSENT), ed_executableQuote = None,
      ed_quoteMismatches = [], ed_consent = ac_consent applied, ed_consentIssues = ac_issues applied,
      ed_reroutePolicy = di_reroutePolicy input, ed_currentSlot = ei_currentSlot input, ed_transitionPolicy = None\<rparr>"

definition route_available :: "route_observation option \<Rightarrow> bool" where
  "route_available route = (case route of None \<Rightarrow> False | Some r \<Rightarrow> ro_status r = AVAILABLE)"

text \<open>The branch for \<open>USE_PREFERRED\<close>.\<close>

definition execute_preferred :: "'b execution_input_scheme \<Rightarrow> applied_consent \<Rightarrow> rep_exn + execution_decision" where
  "execute_preferred input applied =
     (let preferred = dr_preferred (ac_stateDecision applied);
          route = routeFor (ei_preferredRoute input) (Some preferred);
          result = (\<lambda>e. (execution_result input applied e)\<lparr>ed_selectedRepresentation := Some (summary preferred)\<rparr>)
      in case economicStateOf (rr_chainObservation preferred) of
           None \<Rightarrow> Inr (result STATE_UNKNOWN)
         | Some current \<Rightarrow>
         if \<not> route_available route then Inr ((result ROUTE_UNAVAILABLE)\<lparr>ed_selectedRouteAvailable := Some False\<rparr>)
         else case Option.bind route ro_quote of
           None \<Rightarrow> Inr ((result QUOTE_UNAVAILABLE)\<lparr>ed_selectedRouteAvailable := Some True\<rparr>)
         | Some quote \<Rightarrow>
         let result = (\<lambda>e. (result e)\<lparr>ed_selectedRouteAvailable := Some True, ed_quoteAvailable := True\<rparr>) in
         if qi_mint quote \<noteq> rr_mint preferred \<or> qi_underlying quote \<noteq> rr_underlying preferred \<or> qi_inputRaw quote \<noteq> di_inputRaw input
         then Inr (result QUOTE_MISMATCH)
         else if economicStateMismatches (qi_state quote) current \<noteq> [] then Inr (result STALE_COMPARISON)
         else case rr_transitionPolicy preferred of
           None \<Rightarrow> Inr (result POLICY_MISMATCH)
         | Some policy \<Rightarrow>
             bindE (quoteIdentityOf quote) (\<lambda>q.
             Inr ((result EXECUTABLE)\<lparr>ed_executableQuote := Some q, ed_transitionPolicy := Some policy\<rparr>)))"

text \<open>The branch for \<open>USE_ALTERNATIVE\<close>, for the alternative, comparison and consent it casts to.\<close>

definition execute_alternative ::
    "'b execution_input_scheme \<Rightarrow> applied_consent \<Rightarrow> resolved_representation_state \<Rightarrow> quote_comparison \<Rightarrow> consent_record \<Rightarrow>
       rep_exn + execution_decision" where
  "execute_alternative input applied chosen comparison consent =
     (let preferred = dr_preferred (ac_stateDecision applied);
          route = routeFor (ei_alternativeRoute input) (Some chosen);
          result = (\<lambda>e. (execution_result input applied e)\<lparr>ed_selectedRepresentation := Some (summary chosen)\<rparr>)
      in if economicStateOf (rr_chainObservation chosen) = None \<or> economicStateOf (rr_chainObservation preferred) = None
         then Inr (result STATE_UNKNOWN)
         else if \<not> route_available route
         then Inr ((result ROUTE_UNAVAILABLE)\<lparr>ed_selectedRouteAvailable := Some False, ed_quoteAvailable := True\<rparr>)
         else case Option.bind route ro_quote of
           None \<Rightarrow> Inr ((result QUOTE_UNAVAILABLE)\<lparr>ed_selectedRouteAvailable := Some True\<rparr>)
         | Some quote \<Rightarrow>
         if exceedsCostLimit comparison (di_reroutePolicy input) \<noteq> None \<or> qc_additionalCostBps comparison > cr_maxAdditionalCostBps consent
         then Inr ((result ALTERNATIVE_OUTSIDE_TOLERANCE_eligibility)\<lparr>ed_quoteAvailable := True\<rparr>)
         else bindE (quoteMismatches (qc_alternativeQuote comparison) quote) (\<lambda>substituted.
         let result = (\<lambda>e. (result e)\<lparr>ed_selectedRouteAvailable := Some True, ed_quoteAvailable := True\<rparr>) in
         if substituted \<noteq> [] then Inr ((result QUOTE_MISMATCH)\<lparr>ed_quoteMismatches := substituted\<rparr>)
         else case (rr_transitionPolicy chosen, rr_transitionPolicy preferred) of
           (Some policy, Some preferredPolicy) \<Rightarrow>
             bindE (policies_differ policy preferredPolicy) (\<lambda>differ.
             if differ then Inr (result POLICY_MISMATCH)
             else Inr ((result EXECUTABLE)
                    \<lparr>ed_executableQuote := Some (qc_alternativeQuote comparison), ed_transitionPolicy := Some policy\<rparr>))
         | _ \<Rightarrow> Inr (result POLICY_MISMATCH)))"

definition decideExecution ::
    "'a consent_store_scheme \<Rightarrow> 'b execution_input_scheme \<Rightarrow> rep_exn + execution_decision" where
  "decideExecution store input =
     bindE (decide input) (\<lambda>base.
     bindE (applyConsent store base input) (\<lambda>applied.
     let stateDecision = ac_stateDecision applied;
         alternativeRoute = routeFor (ei_alternativeRoute input) (dr_alternative stateDecision);
         result = execution_result input applied;
         quoted = (\<lambda>e. (result e)\<lparr>ed_quoteAvailable := True\<rparr>)
     in case dr_decision stateDecision of
          USE_PREFERRED \<Rightarrow> execute_preferred input applied
        | USE_ALTERNATIVE \<Rightarrow>
            execute_alternative input applied (the (dr_alternative stateDecision)) (the (di_comparison input)) (the (ac_consent applied))
        | REQUIRES_CONSENT \<Rightarrow> Inr (quoted (if ac_issues applied \<noteq> [] then CONSENT_INVALID else CONSENT_REQUIRED_eligibility))
        | NO_ACCEPTABLE_ROUTE \<Rightarrow> Inr (quoted ALTERNATIVE_OUTSIDE_TOLERANCE_eligibility)
        | NO_SAFE_ROUTE \<Rightarrow> Inr (result STATE_UNSAFE)
        | UNKNOWN_STATE \<Rightarrow>
            Inr (if dr_reasonCode stateDecision = ALTERNATIVE_QUOTE_UNAVAILABLE
                 then result (if route_available alternativeRoute then QUOTE_UNAVAILABLE else ROUTE_UNAVAILABLE)
                 else if dr_reasonCode stateDecision = QUOTE_COMPARISON_MISMATCH then quoted QUOTE_MISMATCH
                 else if dr_reasonCode stateDecision = QUOTE_COMPARISON_STALE_STATE then quoted STALE_COMPARISON
                 else result STATE_UNKNOWN)))"

definition assertExecutable :: "execution_decision \<Rightarrow> rep_exn + representation_summary \<times> quote_identity" where
  "assertExecutable d =
     (case (ed_selectedRepresentation d, ed_executableQuote d) of
        (Some selected, Some quote) \<Rightarrow>
          if ed_executionEligibility d \<noteq> EXECUTABLE then Inl ExecutionEligibilityError
          else if qi_mint quote \<noteq> su_mint selected \<or> es_mint (qi_state quote) \<noteq> su_mint selected then Inl ExecutionEligibilityError
          else Inr (selected, quote)
      | _ \<Rightarrow> Inl ExecutionEligibilityError)"

section \<open>Facts\<close>

lemma calibration_value_inject [simp]: "calibration_value a = calibration_value b \<longleftrightarrow> a = b"
  by (cases a; cases b) simp_all

lemma calibration_value_canon [simp]: "canon (calibration_value a) = calibration_value a" "key_ok (calibration_value a)"
  by (cases a; simp)+

lemma policy_value_eq: "canon (policy_value p) = canon (policy_value q) \<longleftrightarrow> p = q"
  unfolding policy_value_def by (subst canon_object) (auto intro: transition_policy.equality)

lemma policy_value_key_ok [simp]: "key_ok (policy_value p)"
  by (simp add: policy_value_def)

lemma policies_differ_eq: "policies_differ p q = Inr (p \<noteq> q)"
proof -
  obtain kp kq where k: "canonicalKey (policy_value p) = Inr kp" "canonicalKey (policy_value q) = Inr kq"
    using policy_value_key_ok unfolding key_ok_def by blast
  show ?thesis using same_key [OF k] by (simp add: policies_differ_def k policy_value_eq)
qed

lemma route_available_iff: "route_available route \<longleftrightarrow> (\<exists>r. route = Some r \<and> ro_status r = AVAILABLE)"
  by (auto simp: route_available_def split: option.splits)

lemma routeFor_Some: "routeFor route (Some s) = Some r \<longleftrightarrow> route = Some r \<and> ro_mint r = rr_mint s"
  by (auto simp: routeFor_def split: option.splits if_splits)

text \<open>The consent context of an evaluation.\<close>

definition evaluation_context :: "'b execution_input_scheme \<Rightarrow> decision_result \<Rightarrow> quote_comparison \<Rightarrow> consent_context" where
  "evaluation_context input base comparison =
     \<lparr>cx_decision = base, cx_comparison = comparison, cx_reroutePolicy = di_reroutePolicy input,
      cx_currentSlot = ei_currentSlot input\<rparr>"

lemma applyConsent_cases:
  assumes "applyConsent store base input = Inr applied"
  shows "ac_stateDecision applied = base \<and> ac_consent applied = None \<or>
    (\<exists>consent comparison. ei_consent input = Some consent \<and> di_comparison input = Some comparison \<and>
       dr_decision base = REQUIRES_CONSENT \<and> authorizes store consent (evaluation_context input base comparison) \<and>
       ac_stateDecision applied = base\<lparr>dr_decision := USE_ALTERNATIVE, dr_reasonCode := CONSENT_GIVEN\<rparr> \<and>
       ac_consent applied = Some consent)"
  using assms
  by (auto simp: applyConsent_def evaluation_context_def err_simps consentIssues_Nil split: option.splits if_splits)

text \<open>A route of the representation, available and with a quote.\<close>

definition quoted_route :: "route_observation option \<Rightarrow> resolved_representation_state \<Rightarrow> normalized_quote \<Rightarrow> bool" where
  "quoted_route route rep quote \<longleftrightarrow>
     (\<exists>r. route = Some r \<and> ro_mint r = rr_mint rep \<and> ro_status r = AVAILABLE \<and> ro_quote r = Some quote)"

lemma quoted_route_iff:
  "quoted_route route rep quote \<longleftrightarrow>
   route_available (routeFor route (Some rep)) \<and> Option.bind (routeFor route (Some rep)) ro_quote = Some quote"
proof (cases "routeFor route (Some rep)")
  case None
  then have "\<nexists>r. route = Some r \<and> ro_mint r = rr_mint rep" by (auto simp: routeFor_def split: option.splits if_splits)
  with None show ?thesis by (auto simp: quoted_route_def route_available_def)
next
  case (Some r)
  moreover from Some have "route = Some r" "ro_mint r = rr_mint rep" by (simp_all add: routeFor_Some)
  ultimately show ?thesis by (simp add: quoted_route_def route_available_def)
qed

lemmas execution_splits = option.splits if_splits prod.splits

lemma execute_preferred_executable:
  assumes "execute_preferred input applied = Inr d" and "ed_executionEligibility d = EXECUTABLE"
  shows "\<exists>quote current policy. let preferred = dr_preferred (ac_stateDecision applied) in
    economicStateOf (rr_chainObservation preferred) = Some current \<and> quoted_route (ei_preferredRoute input) preferred quote \<and>
    qi_mint quote = rr_mint preferred \<and> qi_underlying quote = rr_underlying preferred \<and> qi_inputRaw quote = di_inputRaw input \<and>
    economicStateMismatches (qi_state quote) current = [] \<and> rr_transitionPolicy preferred = Some policy \<and>
    assertQuoteIdentityTypes (quote_value quote) = Inr () \<and> ed_executableQuote d = Some (quote_identity.truncate quote) \<and>
    ed_transitionPolicy d = Some policy \<and> ed_selectedRepresentation d = Some (summary preferred)"
  using assms
  by (auto simp: execute_preferred_def quoted_route_iff Let_def err_simps quoteIdentityOf_eq execution_result_def split: execution_splits)

lemma execute_alternative_executable:
  assumes "execute_alternative input applied chosen comparison consent = Inr d" and "ed_executionEligibility d = EXECUTABLE"
  shows "\<exists>quote current policy. economicStateOf (rr_chainObservation chosen) = Some current \<and>
    quoted_route (ei_alternativeRoute input) chosen quote \<and> quoteMismatches (qc_alternativeQuote comparison) quote = Inr [] \<and>
    exceedsCostLimit comparison (di_reroutePolicy input) = None \<and> qc_additionalCostBps comparison \<le> cr_maxAdditionalCostBps consent \<and>
    rr_transitionPolicy chosen = Some policy \<and> rr_transitionPolicy (dr_preferred (ac_stateDecision applied)) = Some policy \<and>
    ed_executableQuote d = Some (qc_alternativeQuote comparison) \<and> ed_transitionPolicy d = Some policy \<and>
    ed_selectedRepresentation d = Some (summary chosen) \<and> ed_consent d = ac_consent applied"
  using assms
  by (auto simp: execute_alternative_def quoted_route_iff Let_def err_simps policies_differ_eq execution_result_def not_less split: execution_splits)

text \<open>A representation whose state allows execution.\<close>

definition safe_on_chain :: "resolved_representation_state \<Rightarrow> economic_state \<Rightarrow> bool" where
  "safe_on_chain rep current \<longleftrightarrow>
     rr_state rep = Some SAFE \<and> rr_stateSource rep \<noteq> Some CONFLICT \<and> economicStateOf (rr_chainObservation rep) = Some current"

lemma unusable_None: "unusable s = None \<Longrightarrow> rr_stateSource s \<noteq> Some CONFLICT"
  by (auto simp: unusable_def split: if_splits)

lemma decide_keeps: "decide input = Inr r \<Longrightarrow> dr_preferred r = di_preferred input \<and> dr_alternative r = di_alternative input"
  by (auto simp: decide_def Let_def err_simps split: decide_splits)

lemma not_executable_no_quote:
  "execute_preferred input applied = Inr d \<Longrightarrow> ed_executionEligibility d \<noteq> EXECUTABLE \<Longrightarrow> ed_executableQuote d = None"
  "execute_alternative input applied chosen comparison consent = Inr d \<Longrightarrow> ed_executionEligibility d \<noteq> EXECUTABLE \<Longrightarrow>
   ed_executableQuote d = None"
  subgoal by (auto simp: execute_preferred_def Let_def err_simps execution_result_def split: execution_splits)
  subgoal by (auto simp: execute_alternative_def Let_def err_simps policies_differ_eq execution_result_def split: execution_splits)
  done

lemma decideExecution_other:
  assumes "decideExecution store input = Inr d" and "decide input = Inr base" and "applyConsent store base input = Inr applied"
    and "dr_decision (ac_stateDecision applied) \<notin> {USE_PREFERRED, USE_ALTERNATIVE}"
  shows "ed_executionEligibility d \<noteq> EXECUTABLE \<and> ed_executableQuote d = None"
  using assms
  by (cases "dr_decision (ac_stateDecision applied)") (auto simp: decideExecution_def Let_def execution_result_def split: if_splits)

lemma keeps_decision:
  "execute_preferred input applied = Inr d \<Longrightarrow> ed_stateDecision d = ac_stateDecision applied \<and> ed_comparison d = di_comparison input"
  "execute_alternative input applied chosen comparison consent = Inr d \<Longrightarrow>
   ed_stateDecision d = ac_stateDecision applied \<and> ed_comparison d = di_comparison input"
  subgoal by (auto simp: execute_preferred_def Let_def err_simps execution_result_def split: execution_splits)
  subgoal by (auto simp: execute_alternative_def Let_def err_simps policies_differ_eq execution_result_def split: execution_splits)
  done

lemma decideExecution_executable:
  assumes "decideExecution store input = Inr d"
  shows "(ed_executionEligibility d = EXECUTABLE \<longrightarrow>
     (\<exists>rep current quote routed policy. safe_on_chain rep current \<and> ed_selectedRepresentation d = Some (summary rep) \<and>
        ed_executableQuote d = Some quote \<and> economicStateMismatches (qi_state quote) current = [] \<and>
        ed_transitionPolicy d = Some policy \<and> rr_transitionPolicy rep = Some policy \<and>
        (rep = di_preferred input \<and> quoted_route (ei_preferredRoute input) rep routed \<and> quote = quote_identity.truncate routed \<and>
         dr_decision (ed_stateDecision d) = USE_PREFERRED \<or>
         di_alternative input = Some rep \<and> quoted_route (ei_alternativeRoute input) rep routed \<and>
         quoteMismatches quote routed = Inr [] \<and> dr_decision (ed_stateDecision d) = USE_ALTERNATIVE \<and>
         (\<exists>base comparison consent. decide input = Inr base \<and> di_comparison input = Some comparison \<and> ei_consent input = Some consent \<and>
            ed_consent d = Some consent \<and> ed_comparison d = Some comparison \<and>
            quote = qc_alternativeQuote comparison \<and> reroute_offered input rep comparison \<and>
            authorizes store consent (evaluation_context input base comparison))))) \<and>
    (ed_executionEligibility d \<noteq> EXECUTABLE \<longrightarrow> ed_executableQuote d = None)"
proof -
  obtain base applied where base: "decide input = Inr base" and applied: "applyConsent store base input = Inr applied"
    using assms by (auto simp: decideExecution_def err_simps)
  note keeps = decide_keeps [OF base] and cases = applyConsent_cases [OF applied]
  consider (preferred) "dr_decision (ac_stateDecision applied) = USE_PREFERRED"
    | (alternative) "dr_decision (ac_stateDecision applied) = USE_ALTERNATIVE"
    | (other) "dr_decision (ac_stateDecision applied) \<notin> {USE_PREFERRED, USE_ALTERNATIVE}" by blast
  then show ?thesis
  proof cases
    case preferred
    with cases have eq: "ac_stateDecision applied = base" "dr_decision base = USE_PREFERRED" by auto
    have d: "execute_preferred input applied = Inr d" using assms base applied preferred by (simp add: decideExecution_def Let_def)
    have usable: "unusable (di_preferred input) = None" "rr_state (di_preferred input) = Some SAFE"
      using decide_preferred [OF base] eq(2) by auto
    have "ed_executionEligibility d = EXECUTABLE \<Longrightarrow> ?thesis"
      using execute_preferred_executable [OF d] usable unusable_None [OF usable(1)] keeps keeps_decision(1) [OF d] eq(2) unfolding eq(1) Let_def safe_on_chain_def
      by fastforce
    with not_executable_no_quote(1) [OF d] show ?thesis by blast
  next
    case alternative
    with cases decide_never_switches [OF base] obtain consent comparison where
        c: "ei_consent input = Some consent" "di_comparison input = Some comparison" "dr_decision base = REQUIRES_CONSENT"
           "authorizes store consent (evaluation_context input base comparison)"
           "ac_stateDecision applied = base\<lparr>dr_decision := USE_ALTERNATIVE, dr_reasonCode := CONSENT_GIVEN\<rparr>" "ac_consent applied = Some consent"
      by auto
    obtain rep where offered: "reroute_offered input rep comparison" using decide_consent [OF base c(3)] c(2) by (auto simp: reroute_offered_def)
    then have rep: "di_alternative input = Some rep" "rr_state rep = Some SAFE" "rr_stateSource rep \<noteq> Some CONFLICT"
        "comparisonStateMismatch comparison (di_preferred input) rep = []"
      using unusable_None by (auto simp: reroute_offered_def)
    have d: "execute_alternative input applied rep comparison consent = Inr d"
      using assms base applied alternative c keeps rep(1) by (simp add: decideExecution_def Let_def)
    show ?thesis
    proof (cases "ed_executionEligibility d = EXECUTABLE")
      case True
      from execute_alternative_executable [OF d this] obtain quote current policy where
        e: "economicStateOf (rr_chainObservation rep) = Some current" "quoted_route (ei_alternativeRoute input) rep quote"
           "quoteMismatches (qc_alternativeQuote comparison) quote = Inr []" "rr_transitionPolicy rep = Some policy"
           "ed_executableQuote d = Some (qc_alternativeQuote comparison)" "ed_transitionPolicy d = Some policy"
           "ed_selectedRepresentation d = Some (summary rep)" "ed_consent d = ac_consent applied" by blast
      have "economicStateMismatches (qi_state (qc_alternativeQuote comparison)) current = []"
        using rep(4) e(1) by (simp add: comparisonStateMismatch_def bound_state_mismatches_def)
      with e rep c base offered True keeps_decision(2) [OF d] show ?thesis unfolding safe_on_chain_def by auto
    next
      case False
      with not_executable_no_quote(2) [OF d] show ?thesis by blast
    qed
  next
    case other
    from decideExecution_other [OF assms base applied this] show ?thesis by simp
  qed
qed

section \<open>Properties\<close>

text \<open>
  C16. Nothing is executable on an unsafe or unknown state: an EXECUTABLE decision selects a representation
  that is SAFE and free of conflict, has decoded chain state at chain time, an available route with a
  quote, and names a quote whose economic state is exactly that chain state, under the transition policy
  that classified it. It is the preference, or the alternative under a consent that authorizes this very
  reroute, whose route quote is the compared one. Any other decision carries no executable quote.
\<close>

theorem executable_only_when_safe:
  assumes "decideExecution store input = Inr d"
  shows "(ed_executionEligibility d = EXECUTABLE \<longrightarrow>
     (\<exists>rep current quote routed policy. safe_on_chain rep current \<and> ed_selectedRepresentation d = Some (summary rep) \<and>
        ed_executableQuote d = Some quote \<and> economicStateMismatches (qi_state quote) current = [] \<and>
        ed_transitionPolicy d = Some policy \<and> rr_transitionPolicy rep = Some policy \<and>
        (rep = di_preferred input \<and> quoted_route (ei_preferredRoute input) rep routed \<and> quote = quote_identity.truncate routed \<or>
         di_alternative input = Some rep \<and> quoted_route (ei_alternativeRoute input) rep routed \<and>
         quoteMismatches quote routed = Inr [] \<and>
         (\<exists>base comparison consent. decide input = Inr base \<and> di_comparison input = Some comparison \<and> ei_consent input = Some consent \<and>
            ed_consent d = Some consent \<and> quote = qc_alternativeQuote comparison \<and> reroute_offered input rep comparison \<and>
            authorizes store consent (evaluation_context input base comparison))))) \<and>
    (ed_executionEligibility d \<noteq> EXECUTABLE \<longrightarrow> ed_executableQuote d = None)"
  using decideExecution_executable [OF assms] by blast

section \<open>Witnesses\<close>

text \<open>The sample's SAFE representation as the preference, with an available route for its quote.\<close>

definition sample_execution_input :: execution_input where
  "sample_execution_input =
     \<lparr>di_preferred = sample_alternative, di_alternative = None, di_reroutePolicy = \<lparr>po_maxAdditionalCostBps = 100\<rparr>,
      di_inputRaw = 1000000, di_comparison = None,
      ei_preferredRoute = Some \<lparr>ro_mint = ''MintB'', ro_status = AVAILABLE, ro_quote = Some sample_alternative_quote, ro_source = ''FIXTURE''\<rparr>,
      ei_alternativeRoute = None, ei_consent = None, ei_currentSlot = 10\<rparr>"

definition sample_executable :: execution_decision where
  "sample_executable = projr (decideExecution \<lparr>cs_next = 0, issued = {}, consumed = {}\<rparr> sample_execution_input)"

lemma sample_alternative_fields:
  "rr_state sample_alternative = Some SAFE" "rr_stateSource sample_alternative = Some CHAIN" "rr_mint sample_alternative = ''MintB''"
  "rr_underlying sample_alternative = ''TSLA''" "rr_transitionPolicy sample_alternative = Some sample_policy"
  by (simp_all add: sample_alternative_def sample_resolved_def)

lemma sample_decided:
  "decide sample_execution_input = Inr \<lparr>dr_decision = USE_PREFERRED, dr_reasonCode = PREFERRED_SAFE, dr_preferred = sample_alternative,
     dr_alternative = None, dr_disclosure = None\<rparr>"
  by (simp add: decide_def sample_execution_input_def unusable_def sample_alternative_fields)

lemma sample_executable_eq:
  "decideExecution store sample_execution_input = Inr
     \<lparr>ed_stateDecision = \<lparr>dr_decision = USE_PREFERRED, dr_reasonCode = PREFERRED_SAFE, dr_preferred = sample_alternative,
        dr_alternative = None, dr_disclosure = None\<rparr>,
      ed_comparison = None, ed_executionEligibility = EXECUTABLE, ed_selectedRepresentation = Some (summary sample_alternative),
      ed_selectedRouteAvailable = Some True, ed_quoteAvailable = True, ed_consentRequired = False,
      ed_executableQuote = Some (quote_identity.truncate sample_alternative_quote), ed_quoteMismatches = [], ed_consent = None,
      ed_consentIssues = [], ed_reroutePolicy = \<lparr>po_maxAdditionalCostBps = 100\<rparr>, ed_currentSlot = 10,
      ed_transitionPolicy = Some sample_policy\<rparr>"
proof -
  have "qi_underlying sample_alternative_quote = ''TSLA''" "qi_inputRaw sample_alternative_quote = 1000000"
    by (simp_all add: sample_alternative_quote_def quote_identity.extend_def sample_quote_def)
  moreover have "economicStateMismatches (sample_econ\<lparr>es_mint := ''MintB'', es_paused := Some False\<rparr>)
      (sample_econ\<lparr>es_mint := ''MintB'', es_paused := Some False\<rparr>) = []"
    by (simp add: economicStateMismatches_def sample_econ_def)
  moreover have "applyConsent store base sample_execution_input = Inr \<lparr>ac_stateDecision = base, ac_consent = None, ac_issues = []\<rparr>" for base
    by (simp add: applyConsent_def sample_execution_input_def)
  ultimately show ?thesis
    using sample_alternative_types(1) sample_econ_states(2)
    by (simp add: decideExecution_def sample_decided execute_preferred_def execution_result_def routeFor_def route_available_def
        quoteIdentityOf_def sample_alternative_fields sample_quote_fields)
      (simp add: sample_execution_input_def sample_alternative_fields sample_quote_fields quoteIdentityOf_def)
qed

theorem executable_only_when_safe_witness:
  "\<exists>d. decideExecution \<lparr>cs_next = 0, issued = {}, consumed = {}\<rparr> sample_execution_input = Inr d \<and>
     ed_executionEligibility d = EXECUTABLE \<and> (\<exists>rep current. safe_on_chain rep current \<and> ed_selectedRepresentation d = Some (summary rep))"
proof -
  let ?s = "\<lparr>cs_next = 0, issued = {}, consumed = {}\<rparr> :: consent_store"
  obtain d where d: "decideExecution ?s sample_execution_input = Inr d" "ed_executionEligibility d = EXECUTABLE"
    using sample_executable_eq [of ?s] by simp
  from executable_only_when_safe [OF d(1)] d show ?thesis by blast
qed

end
