(* ===== verification/Plan_Downstream.thy ===== *)
theory Plan_Downstream
  imports Execution Jupiter_Builder
begin

text \<open>
  The downstream binding of an execution plan (\<open>packages/representation-state/src/execution-plan.ts\<close>): the
  value the executor presents is checked at run time field by field, copied, and compared with the planned
  quote. The address test of the Solana kit is a parameter. The last section connects it with the binding
  the guard client builds for a checked Jupiter trade.
\<close>

section \<open>execution-plan.ts: well-formed bindings\<close>

fun isCommitmentHex :: "js_value \<Rightarrow> bool" where
  "isCommitmentHex (JString s) = (length s = 64 \<and> list_all hex_lower s)"
| "isCommitmentHex _ = False"

fun isAddressString :: "(string \<Rightarrow> bool) \<Rightarrow> js_value \<Rightarrow> bool" where
  "isAddressString isAddress (JString s) = isAddress s"
| "isAddressString isAddress _ = False"

fun isPositive :: "js_value \<Rightarrow> bool" where
  "isPositive (JBigInt i) = (i > 0 \<and> i < 2 ^ 64)"
| "isPositive _ = False"

text \<open>
  The protected side of each Jupiter kind, looked up under the property key a value is coerced to: a
  one-element array stands for its element, and no other value but a string is coerced to one of the two
  keys. A key inherited from \<open>Object.prototype\<close> is reported as unknown here, and as a wrong protected side by
  the code: neither gives an empty list.
\<close>

fun property_key :: "js_value \<Rightarrow> string option" where
  "property_key (JString s) = Some s"
| "property_key (JArray [v]) = property_key v"
| "property_key _ = None"

definition JUPITER_KINDS :: "js_value \<Rightarrow> string option" where
  "JUPITER_KINDS kind =
     (if property_key kind = Some ''JUPITER_ROUTE_V2_BUY_USDC'' then Some ''DESTINATION''
      else if property_key kind = Some ''JUPITER_ROUTE_V2_SELL_USDC'' then Some ''SOURCE'' else None)"

fun number_is :: "js_value \<Rightarrow> rat \<Rightarrow> bool" where
  "number_is (JNumber x) q = js_number_eq x (JNum q)"
| "number_is _ q = False"

definition slippage_problems :: "js_value \<Rightarrow> rep_exn + string list" where
  "slippage_problems b =
     (case js_prop b ''slippageBps'' of
        JNumber slippage \<Rightarrow>
          if \<not> js_int_in 0 10000 slippage then Inr [''slippageBps must be an integer in [0, 10000]'']
          else (case js_prop b ''quotedOutRaw'' of
              JBigInt quoted \<Rightarrow>
                if \<not> isPositive (JBigInt quoted) then Inr []
                else (case minimumOutFromQuote quoted slippage of
                    Inl e \<Rightarrow> Inl (GuardThrown e)
                  | Inr m \<Rightarrow> Inr (problem_if (js_prop b ''minOutRaw'' \<noteq> JBigInt m)
                      ''minOutRaw is not the minimum Jupiter derives from quotedOutRaw and slippageBps''))
            | _ \<Rightarrow> Inr [])
      | _ \<Rightarrow> Inr [''slippageBps must be an integer in [0, 10000]''])"

definition jupiter_problems :: "(string \<Rightarrow> bool) \<Rightarrow> js_value \<Rightarrow> string \<Rightarrow> rep_exn + string list" where
  "jupiter_problems isAddress b role =
     (let protectedSide = (if role = ''DESTINATION'' then js_prop b ''destinationMint'' else js_prop b ''sourceMint'');
          counterSide = (if role = ''DESTINATION'' then js_prop b ''sourceMint'' else js_prop b ''destinationMint'')
      in bindE (slippage_problems b) (\<lambda>slippage.
         Inr (
           problem_if (js_prop b ''jupiterProgramId'' \<noteq> JString JUPITER_V6_PROGRAM_ADDRESS) ''jupiterProgramId is not the pinned Jupiter program'' @
           problem_if (js_prop b ''routeDiscriminatorHex'' \<noteq> JString ROUTE_V2_DISCRIMINATOR_HEX) ''routeDiscriminatorHex is not route_v2'' @
           problem_if (js_prop b ''protectedMintRole'' \<noteq> JString role) (''the adapter protects the '' @ role @ '' mint'') @
           concat (map (\<lambda>k. problem_if (\<not> isAddressString isAddress (js_prop b k)) (k @ '' must be an address''))
             [''protectedMint'', ''counterMint'', ''authority'', ''sourceMint'', ''destinationMint'', ''sourceTokenAccount'', ''destinationTokenAccount'']) @
           problem_if (js_prop b ''counterMint'' \<noteq> JString USDC_MINT_ADDRESS) ''the counter mint must be canonical USDC'' @
           problem_if (protectedSide \<noteq> js_prop b ''protectedMint'' \<or> counterSide \<noteq> js_prop b ''counterMint'')
             ''source and destination mints do not match the role'' @
           problem_if (\<not> isPositive (js_prop b ''inAmountRaw'') \<or> \<not> isPositive (js_prop b ''quotedOutRaw''))
             ''inAmountRaw and quotedOutRaw must be positive u64 bigints'' @
           slippage @
           problem_if (\<not> isCommitmentHex (js_prop b ''suffixCommitmentHex'')) ''suffixCommitmentHex must be 64 lowercase hex digits'' @
           problem_if (\<not> number_is (js_prop b ''suffixInstructionCount'') 3 \<and> \<not> number_is (js_prop b ''suffixInstructionCount'') 4)
             ''suffixInstructionCount must be 3 or 4'')))"

definition downstreamProblems :: "(string \<Rightarrow> bool) \<Rightarrow> js_value \<Rightarrow> rep_exn + string list" where
  "downstreamProblems isAddress b =
     (if \<not> typeof_object b then Inr [''a downstream binding is required'']
      else if js_prop b ''adapterKind'' = JString ''TOKEN_2022_TRANSFER_CHECKED''
      then Inr (problem_if (\<not> isCommitmentHex (js_prop b ''commitmentHex'')) ''commitmentHex must be 64 lowercase hex digits'')
      else case JUPITER_KINDS (js_prop b ''adapterKind'') of
        None \<Rightarrow> Inr [''unknown adapter kind'']
      | Some role \<Rightarrow> jupiter_problems isAddress b role)"

definition isDownstreamBinding :: "(string \<Rightarrow> bool) \<Rightarrow> js_value \<Rightarrow> rep_exn + bool" where
  "isDownstreamBinding isAddress v = bindE (downstreamProblems isAddress v) (\<lambda>problems. Inr (problems = []))"

definition transfer_fields :: "string list" where
  "transfer_fields = [''adapterKind'', ''commitmentHex'']"

definition jupiter_fields :: "string list" where
  "jupiter_fields =
     [''adapterKind'', ''jupiterProgramId'', ''routeDiscriminatorHex'', ''protectedMintRole'', ''protectedMint'', ''counterMint'',
      ''authority'', ''sourceMint'', ''destinationMint'', ''sourceTokenAccount'', ''destinationTokenAccount'', ''inAmountRaw'',
      ''quotedOutRaw'', ''slippageBps'', ''minOutRaw'', ''suffixCommitmentHex'', ''suffixInstructionCount'']"

definition copy_fields :: "string list \<Rightarrow> js_value \<Rightarrow> js_value" where
  "copy_fields ks v = JObject (map (\<lambda>k. (k, js_prop v k)) ks)"

definition canonicalDownstream :: "js_value \<Rightarrow> js_value" where
  "canonicalDownstream v =
     (if js_prop v ''adapterKind'' = JString ''TOKEN_2022_TRANSFER_CHECKED'' then copy_fields transfer_fields v
      else copy_fields jupiter_fields v)"

definition jupiterQuoteMismatches :: "js_value \<Rightarrow> quote_identity \<Rightarrow> string \<Rightarrow> string list" where
  "jupiterQuoteMismatches b quote representationMint =
     (if js_prop b ''adapterKind'' = JString ''TOKEN_2022_TRANSFER_CHECKED'' then []
      else
        problem_if (js_prop b ''adapterKind'' \<noteq> JString ''JUPITER_ROUTE_V2_BUY_USDC'')
          ''plans acquire the selected representation; only a BUY can execute one'' @
        problem_if (js_prop b ''protectedMint'' \<noteq> JString representationMint \<or> js_prop b ''destinationMint'' \<noteq> JString (qi_mint quote))
          ''the trade does not acquire the planned representation'' @
        problem_if (js_prop b ''sourceMint'' \<noteq> JString (qi_inputMint quote)) ''the trade does not spend the planned input mint'' @
        problem_if (js_prop b ''inAmountRaw'' \<noteq> JBigInt (qi_inputRaw quote)) ''inAmountRaw differs from the planned input'' @
        problem_if (js_prop b ''quotedOutRaw'' \<noteq> JBigInt (qi_outputRaw quote)) ''quotedOutRaw differs from the planned output'' @
        problem_if (js_prop b ''minOutRaw'' \<noteq> bigint_or_null (qi_minOutputRaw quote)) ''minOutRaw differs from the planned minimum output'')"

section \<open>Facts\<close>

lemma problem_if_Nil [simp]: "problem_if c t = [] \<longleftrightarrow> \<not> c"
  by (simp add: problem_if_def)

lemma js_prop_copy: "k \<in> set ks \<Longrightarrow> js_prop (copy_fields ks v) k = js_prop v k"
  by (induction ks) (auto simp: copy_fields_def js_get_def)

lemma canonical_prop:
  "k \<in> set transfer_fields \<Longrightarrow> js_prop v ''adapterKind'' = JString ''TOKEN_2022_TRANSFER_CHECKED'' \<Longrightarrow>
   js_prop (canonicalDownstream v) k = js_prop v k"
  "k \<in> set jupiter_fields \<Longrightarrow> js_prop v ''adapterKind'' \<noteq> JString ''TOKEN_2022_TRANSFER_CHECKED'' \<Longrightarrow>
   js_prop (canonicalDownstream v) k = js_prop v k"
  by (simp_all add: canonicalDownstream_def js_prop_copy)

lemma canonical_kind [simp]: "js_prop (canonicalDownstream v) ''adapterKind'' = js_prop v ''adapterKind''"
  by (cases "js_prop v ''adapterKind'' = JString ''TOKEN_2022_TRANSFER_CHECKED''")
    (simp_all add: canonical_prop transfer_fields_def jupiter_fields_def)

text \<open>The copy is as well-formed as the original, and describes the same trade.\<close>

lemma canonical_problems:
  assumes "typeof_object v"
  shows "downstreamProblems isAddress (canonicalDownstream v) = downstreamProblems isAddress v"
proof (cases "js_prop v ''adapterKind'' = JString ''TOKEN_2022_TRANSFER_CHECKED''")
  case True
  then have "typeof_object (canonicalDownstream v)" by (simp add: canonicalDownstream_def copy_fields_def)
  with True assms show ?thesis by (simp add: downstreamProblems_def canonical_prop transfer_fields_def)
next
  case False
  then have "typeof_object (canonicalDownstream v)" by (simp add: canonicalDownstream_def copy_fields_def)
  moreover have "jupiter_problems isAddress (canonicalDownstream v) role = jupiter_problems isAddress v role" for role
  proof -
    have "list_all (\<lambda>k. js_prop (canonicalDownstream v) k = js_prop v k) jupiter_fields"
      using canonical_prop(2) [OF _ False] by (simp add: list_all_iff)
    note fields = this [unfolded jupiter_fields_def list.pred_inject(2)]
    show ?thesis unfolding jupiter_problems_def slippage_problems_def list.map by (simp only: fields cong: js_value.case_cong sum.case_cong if_cong)
  qed
  ultimately show ?thesis using False assms by (simp add: downstreamProblems_def cong: option.case_cong)
qed

lemma canonical_quote_mismatches:
  "jupiterQuoteMismatches (canonicalDownstream v) quote mint = jupiterQuoteMismatches v quote mint"
  by (cases "js_prop v ''adapterKind'' = JString ''TOKEN_2022_TRANSFER_CHECKED''")
    (simp_all add: jupiterQuoteMismatches_def canonical_prop(2) jupiter_fields_def)

lemma canonical_idem: "canonicalDownstream (canonicalDownstream v) = canonicalDownstream v"
  by (cases "js_prop v ''adapterKind'' = JString ''TOKEN_2022_TRANSFER_CHECKED''")
    (simp_all add: canonicalDownstream_def copy_fields_def js_get_def transfer_fields_def jupiter_fields_def)

text \<open>The fields of a well-formed binding are scalars, so its copy is determined by its canonical key.\<close>

fun scalar :: "js_value \<Rightarrow> bool" where
  "scalar (JObject _) = False"
| "scalar (JArray [v]) = scalar v"
| "scalar (JArray _) = False"
| "scalar _ = True"

lemma scalar_canon [simp]: "scalar v \<Longrightarrow> canon v = v"
  by (induction v rule: scalar.induct) simp_all

lemma property_key_scalar: "property_key v = Some k \<Longrightarrow> scalar v"
  by (induction v rule: property_key.induct) simp_all

lemma string_checks_scalar:
  "isCommitmentHex v \<Longrightarrow> scalar v" "isAddressString isAddress v \<Longrightarrow> scalar v" "isPositive v \<Longrightarrow> scalar v" "number_is v q \<Longrightarrow> scalar v"
  by (cases v; simp)+

lemma slippage_problems_scalar:
  "slippage_problems b = Inr [] \<Longrightarrow> isPositive (js_prop b ''quotedOutRaw'') \<Longrightarrow>
   scalar (js_prop b ''slippageBps'') \<and> scalar (js_prop b ''minOutRaw'')"
  by (auto simp: slippage_problems_def split: js_value.splits if_splits sum.splits)

lemma jupiter_fields_scalar:
  assumes "jupiter_problems isAddress b role = Inr []" and "JUPITER_KINDS (js_prop b ''adapterKind'') = Some role"
  shows "\<forall>k \<in> set jupiter_fields. scalar (js_prop b k)"
proof -
  have "slippage_problems b = Inr []" "isPositive (js_prop b ''quotedOutRaw'')"
    using assms(1) by (auto simp: jupiter_problems_def Let_def err_simps)
  from slippage_problems_scalar [OF this] have slippage: "scalar (js_prop b ''slippageBps'')" "scalar (js_prop b ''minOutRaw'')" by auto
  have kind: "scalar (js_prop b ''adapterKind'')"
    using assms(2) property_key_scalar by (auto simp: JUPITER_KINDS_def split: if_splits)
  show ?thesis
    using assms(1) slippage kind
    by (auto simp: jupiter_problems_def jupiter_fields_def Let_def err_simps dest: string_checks_scalar)
qed

lemma well_formed_cases:
  assumes "downstreamProblems isAddress b = Inr []"
  obtains (transfer) "js_prop b ''adapterKind'' = JString ''TOKEN_2022_TRANSFER_CHECKED''" "\<forall>k \<in> set transfer_fields. scalar (js_prop b k)"
      "canonicalDownstream b = copy_fields transfer_fields b"
  | (jupiter) "js_prop b ''adapterKind'' \<noteq> JString ''TOKEN_2022_TRANSFER_CHECKED''" "\<forall>k \<in> set jupiter_fields. scalar (js_prop b k)"
      "canonicalDownstream b = copy_fields jupiter_fields b"
proof (cases "js_prop b ''adapterKind'' = JString ''TOKEN_2022_TRANSFER_CHECKED''")
  case True
  then show ?thesis
    using assms transfer string_checks_scalar(1)
    by (auto simp: downstreamProblems_def transfer_fields_def canonicalDownstream_def split: if_splits)
next
  case False
  then obtain role where "JUPITER_KINDS (js_prop b ''adapterKind'') = Some role" "jupiter_problems isAddress b role = Inr []"
    using assms by (auto simp: downstreamProblems_def split: if_splits option.splits)
  with False show ?thesis using jupiter jupiter_fields_scalar by (simp add: canonicalDownstream_def)
qed

lemma copy_fields_canon:
  assumes "\<forall>k \<in> set ks. scalar (js_prop a k)" and "\<forall>k \<in> set ks. scalar (js_prop b k)" and "distinct ks"
  shows "canon (copy_fields ks a) = canon (copy_fields ks b) \<longleftrightarrow> copy_fields ks a = copy_fields ks b"
  using assms unfolding copy_fields_def by (subst canon_object) (auto simp: comp_def list_all2_map1 list_all2_map2 list_all2_same)

lemma canon_size: "canon (copy_fields ks a) = canon (copy_fields ks' b) \<Longrightarrow> length ks = length ks'"
  unfolding copy_fields_def by (auto dest: arg_cong [of _ _ length])

lemma canonicalDownstream_canon:
  assumes "downstreamProblems isAddress a = Inr []" and "downstreamProblems isAddress b = Inr []"
  shows "canon (canonicalDownstream a) = canon (canonicalDownstream b) \<longleftrightarrow> canonicalDownstream a = canonicalDownstream b"
proof -
  have distinct: "distinct transfer_fields" "distinct jupiter_fields" by (simp_all add: transfer_fields_def jupiter_fields_def)
  have sizes: "length transfer_fields \<noteq> length jupiter_fields" by (simp add: transfer_fields_def jupiter_fields_def)
  show ?thesis
    using assms(1)
  proof (cases rule: well_formed_cases)
    case transfer
    note a = this
    from assms(2) show ?thesis
      by (cases rule: well_formed_cases) (use a distinct sizes canon_size copy_fields_canon in \<open>metis\<close>)+
  next
    case jupiter
    note a = this
    from assms(2) show ?thesis
      by (cases rule: well_formed_cases) (use a distinct sizes canon_size copy_fields_canon in \<open>metis\<close>)+
  qed
qed

end
