(* ===== verification/Single_Use.thy ===== *)
theory Single_Use
  imports EG_Prelude
begin

text \<open>
  Single-use capabilities: a store hands out tokens, and an operation may use a token once. The locale is
  the contract the consent and plan registries of the representation-state package promise; its lemmas
  hold of every sequence of operations.
\<close>

text \<open>A sequence of operations with what each returned.\<close>

primrec run_ops :: "('st \<Rightarrow> 'op \<Rightarrow> 'st \<times> 'res) \<Rightarrow> 'st \<Rightarrow> 'op list \<Rightarrow> 'st \<times> ('op \<times> 'res) list" where
  "run_ops exec st [] = (st, [])"
| "run_ops exec st (op # ops) =
     (let (st', r) = exec st op; (st'', tr) = run_ops exec st' ops in (st'', (op, r) # tr))"

text \<open>How often a trace uses a token.\<close>

definition uses_in :: "('op \<Rightarrow> 'res \<Rightarrow> 'tok option) \<Rightarrow> 'tok \<Rightarrow> ('op \<times> 'res) list \<Rightarrow> nat" where
  "uses_in used t tr = length (filter (\<lambda>(op, r). used op r = Some t) tr)"

lemma uses_in_simps [simp]:
  "uses_in used t [] = 0"
  "uses_in used t ((op, r) # tr) = (if used op r = Some t then Suc (uses_in used t tr) else uses_in used t tr)"
  by (simp_all add: uses_in_def)

text \<open>Every use in a trace is preceded by the operation that handed the token out.\<close>

fun minted_before_use :: "('op \<Rightarrow> 'res \<Rightarrow> 'tok option) \<Rightarrow> ('op \<Rightarrow> 'res \<Rightarrow> 'tok option) \<Rightarrow> 'tok set \<Rightarrow> ('op \<times> 'res) list \<Rightarrow> bool" where
  "minted_before_use minted used known [] = True"
| "minted_before_use minted used known ((op, r) # tr) =
     ((case used op r of None \<Rightarrow> True | Some t \<Rightarrow> t \<in> known) \<and>
      minted_before_use minted used (case minted op r of None \<Rightarrow> known | Some t \<Rightarrow> insert t known) tr)"

locale single_use =
  fixes exec :: "'st \<Rightarrow> 'op \<Rightarrow> 'st \<times> 'res"
    and minted used :: "'op \<Rightarrow> 'res \<Rightarrow> 'tok option"
    and live spent :: "'st \<Rightarrow> 'tok set"
    and ok :: "'st \<Rightarrow> bool"
  assumes ok_step: "ok st \<Longrightarrow> exec st op = (st', r) \<Longrightarrow> ok st'"
    and spent_mono: "exec st op = (st', r) \<Longrightarrow> spent st \<subseteq> spent st'"
    and minted_fresh: "ok st \<Longrightarrow> exec st op = (st', r) \<Longrightarrow> minted op r = Some t \<Longrightarrow> t \<notin> live st \<and> t \<in> live st' \<and> t \<notin> spent st'"
    and live_step: "ok st \<Longrightarrow> exec st op = (st', r) \<Longrightarrow> t \<in> live st' \<Longrightarrow> t \<notin> spent st' \<Longrightarrow> t \<in> live st \<or> minted op r = Some t"
    and used_once: "ok st \<Longrightarrow> exec st op = (st', r) \<Longrightarrow> used op r = Some t \<Longrightarrow> t \<in> live st \<and> t \<notin> spent st \<and> t \<in> spent st'"
begin

lemma ok_run: "ok st \<Longrightarrow> run_ops exec st ops = (st', tr) \<Longrightarrow> ok st'"
proof (induction ops arbitrary: st tr)
  case (Cons op ops)
  obtain s r where s: "exec st op = (s, r)" by fastforce
  obtain tr' where "run_ops exec s ops = (st', tr')" using Cons.prems(2) s by (auto split: prod.splits)
  with Cons.IH ok_step [OF Cons.prems(1) s] show ?case by blast
qed simp

lemma at_most_once:
  "ok st \<Longrightarrow> run_ops exec st ops = (st', tr) \<Longrightarrow> uses_in used t tr \<le> (if t \<in> spent st then 0 else 1)"
proof (induction ops arbitrary: st tr)
  case (Cons op ops)
  obtain s r where s: "exec st op = (s, r)" by fastforce
  obtain tr' where tr: "run_ops exec s ops = (st', tr')" "tr = (op, r) # tr'" using Cons.prems(2) s by (auto split: prod.splits)
  note ih = Cons.IH [OF ok_step [OF Cons.prems(1) s] tr(1)]
  show ?case using ih used_once [OF Cons.prems(1) s, of t] spent_mono [OF s] tr(2) by (auto split: if_splits)
qed simp

lemma uses_follow_mint:
  "ok st \<Longrightarrow> run_ops exec st ops = (st', tr) \<Longrightarrow> live st - spent st \<subseteq> known \<Longrightarrow> minted_before_use minted used known tr"
proof (induction ops arbitrary: st tr known)
  case (Cons op ops)
  obtain s r where s: "exec st op = (s, r)" by fastforce
  obtain tr' where tr: "run_ops exec s ops = (st', tr')" "tr = (op, r) # tr'" using Cons.prems(2) s by (auto split: prod.splits)
  have u: "case used op r of None \<Rightarrow> True | Some t \<Rightarrow> t \<in> known"
    using used_once [OF Cons.prems(1) s] Cons.prems(3) by (auto split: option.splits)
  have "live s - spent s \<subseteq> (case minted op r of None \<Rightarrow> known | Some t \<Rightarrow> insert t known)"
    using live_step [OF Cons.prems(1) s] spent_mono [OF s] Cons.prems(3) by (fastforce split: option.splits)
  with Cons.IH [OF ok_step [OF Cons.prems(1) s] tr(1)] u tr(2) show ?case by simp
qed simp

end

text \<open>A registry in which only a use spends a token.\<close>

locale persistent_use = single_use +
  assumes unused_stays: "ok st \<Longrightarrow> exec st op = (st', r) \<Longrightarrow> t \<in> live st \<Longrightarrow> used op r \<noteq> Some t \<Longrightarrow> t \<in> spent st' \<Longrightarrow> t \<in> spent st"
    and live_mono: "exec st op = (st', r) \<Longrightarrow> live st \<subseteq> live st'"
begin

lemma run_mono: "run_ops exec st ops = (st', tr) \<Longrightarrow> spent st \<subseteq> spent st' \<and> live st \<subseteq> live st'"
proof (induction ops arbitrary: st tr)
  case (Cons op ops)
  obtain s r where s: "exec st op = (s, r)" by fastforce
  obtain tr' where "run_ops exec s ops = (st', tr')" using Cons.prems s by (auto split: prod.splits)
  with Cons.IH spent_mono [OF s] live_mono [OF s] show ?case by blast
qed simp

lemma spent_exactly_by_use:
  "ok st \<Longrightarrow> run_ops exec st ops = (st', tr) \<Longrightarrow> t \<in> live st \<Longrightarrow> t \<notin> spent st \<Longrightarrow>
   t \<in> live st' \<and> (t \<in> spent st' \<longleftrightarrow> uses_in used t tr = 1)"
proof (induction ops arbitrary: st tr)
  case (Cons op ops)
  obtain s r where s: "exec st op = (s, r)" by fastforce
  obtain tr' where tr: "run_ops exec s ops = (st', tr')" "tr = (op, r) # tr'" using Cons.prems(2) s by (auto split: prod.splits)
  have ok: "ok s" using ok_step [OF Cons.prems(1) s] .
  have live: "t \<in> live s" using live_mono [OF s] Cons.prems(3) by blast
  show ?case
  proof (cases "used op r = Some t")
    case True
    then have "t \<in> spent s" using used_once [OF Cons.prems(1) s] by blast
    then have "uses_in used t tr' = 0" "t \<in> spent st'" "t \<in> live st'"
      using at_most_once [OF ok tr(1), of t] run_mono [OF tr(1)] live by auto
    with True tr(2) show ?thesis by simp
  next
    case False
    then have "t \<notin> spent s" using unused_stays [OF Cons.prems(1) s Cons.prems(3)] Cons.prems(4) by blast
    with Cons.IH [OF ok tr(1) live] False tr(2) show ?thesis by simp
  qed
qed simp

end

end
