(* ===== verification/Execution_Plan.thy ===== *)
theory Execution_Plan
  imports Plan_Downstream Single_Use
begin

text \<open>
  The execution plan (\<open>packages/representation-state/src/execution-plan.ts\<close>): creation from an executable
  decision, verification, consumption and the executor's assertions. Like a consent, a plan is a frozen
  object: its content with the identity \<open>pl_object\<close> the store hands out, so that the module's weak sets are
  sets of plans. Operations return the store beside their result, because creating a plan consumes its
  consent even when a later step throws. Detaching and freezing change no value of the model.
\<close>

section \<open>execution-plan.ts: types\<close>

datatype execution_environment = MAINNET_OBSERVATION | DEVNET_EXECUTION

record plan_content =
  pl_environment :: execution_environment
  pl_selectedRepresentation :: representation_summary
  pl_quote :: quote_identity
  pl_quoteKey :: string
  pl_economicState :: economic_state
  pl_policy :: transition_policy
  pl_inputRaw :: int
  pl_expectedOutputRaw :: int
  pl_minOutputRaw :: "int option"
  pl_route :: route_identity
  pl_decision :: decision
  pl_reasonCode :: decision_reason_code
  pl_executionEligibility :: execution_eligibility
  pl_comparisonKey :: "string option"
  pl_disclosure :: "reroute_disclosure option"
  pl_consentId :: "string option"
  pl_createdAtSlot :: int
  pl_expiresAtSlot :: int
  pl_downstream :: js_value

record execution_plan = plan_content +
  pl_planDigest :: string
  pl_object :: nat

record plan_store = consent_store +
  ps_next :: nat
  issuedPlans :: "execution_plan set"
  consumedPlans :: "execution_plan set"

section \<open>execution-plan.ts: the canonical content\<close>

fun environment_text :: "execution_environment \<Rightarrow> string" where
  "environment_text MAINNET_OBSERVATION = ''MAINNET_OBSERVATION''"
| "environment_text DEVNET_EXECUTION = ''DEVNET_EXECUTION''"

fun decision_text :: "decision \<Rightarrow> string" where
  "decision_text USE_PREFERRED = ''USE_PREFERRED''"
| "decision_text REQUIRES_CONSENT = ''REQUIRES_CONSENT''"
| "decision_text USE_ALTERNATIVE = ''USE_ALTERNATIVE''"
| "decision_text NO_SAFE_ROUTE = ''NO_SAFE_ROUTE''"
| "decision_text NO_ACCEPTABLE_ROUTE = ''NO_ACCEPTABLE_ROUTE''"
| "decision_text UNKNOWN_STATE = ''UNKNOWN_STATE''"

fun reason_text :: "decision_reason_code \<Rightarrow> string" where
  "reason_text PREFERRED_SAFE = ''PREFERRED_SAFE''"
| "reason_text PREFERRED_STATE_UNKNOWN = ''PREFERRED_STATE_UNKNOWN''"
| "reason_text PREFERRED_STATE_CONFLICT = ''PREFERRED_STATE_CONFLICT''"
| "reason_text NO_ALTERNATIVE = ''NO_ALTERNATIVE''"
| "reason_text ALTERNATIVE_STATE_UNKNOWN = ''ALTERNATIVE_STATE_UNKNOWN''"
| "reason_text ALTERNATIVE_STATE_CONFLICT = ''ALTERNATIVE_STATE_CONFLICT''"
| "reason_text ALTERNATIVE_NOT_SAFE = ''ALTERNATIVE_NOT_SAFE''"
| "reason_text ALTERNATIVE_NOT_SAME_UNDERLYING = ''ALTERNATIVE_NOT_SAME_UNDERLYING''"
| "reason_text ALTERNATIVE_QUOTE_UNAVAILABLE = ''ALTERNATIVE_QUOTE_UNAVAILABLE''"
| "reason_text QUOTE_COMPARISON_MISMATCH = ''QUOTE_COMPARISON_MISMATCH''"
| "reason_text QUOTE_COMPARISON_STALE_STATE = ''QUOTE_COMPARISON_STALE_STATE''"
| "reason_text ALTERNATIVE_OUTSIDE_TOLERANCE = ''ALTERNATIVE_OUTSIDE_TOLERANCE''"
| "reason_text CONSENT_REQUIRED = ''CONSENT_REQUIRED''"
| "reason_text CONSENT_GIVEN = ''CONSENT_GIVEN''"

text \<open>The eligibility a plan records is always \<open>EXECUTABLE\<close>; the other texts are those of the enumeration.\<close>

fun eligibility_text :: "execution_eligibility \<Rightarrow> string" where
  "eligibility_text EXECUTABLE = ''EXECUTABLE''"
| "eligibility_text ROUTE_UNAVAILABLE = ''ROUTE_UNAVAILABLE''"
| "eligibility_text QUOTE_UNAVAILABLE = ''QUOTE_UNAVAILABLE''"
| "eligibility_text STATE_UNSAFE = ''STATE_UNSAFE''"
| "eligibility_text STATE_UNKNOWN = ''STATE_UNKNOWN''"
| "eligibility_text CONSENT_REQUIRED_eligibility = ''CONSENT_REQUIRED''"
| "eligibility_text CONSENT_INVALID = ''CONSENT_INVALID''"
| "eligibility_text POLICY_MISMATCH = ''POLICY_MISMATCH''"
| "eligibility_text ALTERNATIVE_OUTSIDE_TOLERANCE_eligibility = ''ALTERNATIVE_OUTSIDE_TOLERANCE''"
| "eligibility_text STALE_COMPARISON = ''STALE_COMPARISON''"
| "eligibility_text QUOTE_MISMATCH = ''QUOTE_MISMATCH''"

definition disclosure_value :: "reroute_disclosure option \<Rightarrow> js_value" where
  "disclosure_value d =
     (case d of
        None \<Rightarrow> JNull
      | Some x \<Rightarrow> (case content_value x of
            JObject props \<Rightarrow> JObject (props @ [(''disclosureDigest'', JString (rd_disclosureDigest x))])
          | v \<Rightarrow> v))"

definition plan_value :: "'a plan_content_scheme \<Rightarrow> js_value" where
  "plan_value p = JObject
     [(''environment'', JString (environment_text (pl_environment p))),
      (''selectedRepresentation'', summary_value (pl_selectedRepresentation p)),
      (''quote'', quote_value (pl_quote p)), (''quoteKey'', JString (pl_quoteKey p)),
      (''economicState'', state_value (pl_economicState p)), (''policy'', policy_value (pl_policy p)),
      (''inputRaw'', JBigInt (pl_inputRaw p)), (''expectedOutputRaw'', JBigInt (pl_expectedOutputRaw p)),
      (''minOutputRaw'', bigint_or_null (pl_minOutputRaw p)), (''route'', route_value (pl_route p)),
      (''decision'', JString (decision_text (pl_decision p))), (''reasonCode'', JString (reason_text (pl_reasonCode p))),
      (''executionEligibility'', JString (eligibility_text (pl_executionEligibility p))),
      (''comparisonKey'', string_or_null (pl_comparisonKey p)), (''disclosure'', disclosure_value (pl_disclosure p)),
      (''consentId'', string_or_null (pl_consentId p)), (''createdAtSlot'', JBigInt (pl_createdAtSlot p)),
      (''expiresAtSlot'', JBigInt (pl_expiresAtSlot p)), (''downstream'', pl_downstream p)]"

definition planDigestOf :: "'a plan_content_scheme \<Rightarrow> rep_exn + string" where
  "planDigestOf content = bindE (canonicalKey (plan_value content)) (\<lambda>key. Inr (sha256Hex key))"

section \<open>execution-plan.ts: creation\<close>

abbreviation plan_error :: "execution_plan_error_code \<Rightarrow> rep_exn" where
  "plan_error code \<equiv> ExecutionPlanError code"

text \<open>Everything before the consent is consumed; it reads no store.\<close>

definition plan_checks ::
    "(string \<Rightarrow> bool) \<Rightarrow> execution_decision \<Rightarrow> execution_environment \<Rightarrow> int \<Rightarrow> js_value \<Rightarrow>
       rep_exn + representation_summary \<times> quote_identity \<times> transition_policy" where
  "plan_checks isAddress d environment validForSlots downstream =
     bindE (throw_if (environment \<noteq> DEVNET_EXECUTION) (plan_error OBSERVATION_ONLY_ENVIRONMENT)) (\<lambda>_.
     bindE (throw_if (validForSlots \<le> 0) (plan_error INVALID_FRESHNESS)) (\<lambda>_.
     bindE (downstreamProblems isAddress downstream) (\<lambda>problems.
     bindE (throw_if (problems \<noteq> []) (plan_error INVALID_DOWNSTREAM)) (\<lambda>_.
     bindE (case assertExecutable d of
              Inl ExecutionEligibilityError \<Rightarrow> Inl (plan_error NOT_EXECUTABLE_plan) | r \<Rightarrow> r) (\<lambda>(selected, executable).
     bindE (throw_if (dr_decision (ed_stateDecision d) = USE_ALTERNATIVE \<and>
              (case ed_comparison d of
                 None \<Rightarrow> True
               | Some c \<Rightarrow> map_option rd_comparisonKey (dr_disclosure (ed_stateDecision d)) \<noteq> Some (qc_comparisonKey c)))
            (plan_error DISCLOSURE_NOT_FOR_COMPARISON)) (\<lambda>_.
     bindE (quoteIdentityOf executable) (\<lambda>quote.
     bindE (throw_if (jupiterQuoteMismatches downstream quote (su_mint selected) \<noteq> []) (plan_error DOWNSTREAM_NOT_FOR_QUOTE)) (\<lambda>_.
     bindE (require (plan_error POLICY_MISMATCH_plan) (ed_transitionPolicy d)) (\<lambda>policy.
     Inr (selected, quote, policy))))))))))"

text \<open>The consent of a reroute is verified against the decision it was given to, and consumed.\<close>

definition consume_for_plan :: "'a consent_store_scheme \<Rightarrow> execution_decision \<Rightarrow> int \<Rightarrow> 'a consent_store_scheme \<times> (rep_exn + unit)" where
  "consume_for_plan store d currentSlot =
     (if dr_decision (ed_stateDecision d) \<noteq> USE_ALTERNATIVE then (store, Inr ())
      else case ed_consent d of
        None \<Rightarrow> (store, Inl (plan_error CONSENT_REJECTED))
      | Some consent \<Rightarrow>
          (case consumeConsent store consent
              \<lparr>cx_decision = (ed_stateDecision d)\<lparr>dr_decision := REQUIRES_CONSENT, dr_reasonCode := CONSENT_REQUIRED\<rparr>,
               cx_comparison = the (ed_comparison d), cx_reroutePolicy = ed_reroutePolicy d, cx_currentSlot = currentSlot\<rparr> of
             (store', Inl (ConsentError issues)) \<Rightarrow> (store', Inl (plan_error CONSENT_REJECTED))
           | r \<Rightarrow> r))"

definition plan_content_of ::
    "execution_decision \<Rightarrow> representation_summary \<Rightarrow> quote_identity \<Rightarrow> string \<Rightarrow> transition_policy \<Rightarrow> int \<Rightarrow> int \<Rightarrow> js_value \<Rightarrow> plan_content" where
  "plan_content_of d selected quote key policy currentSlot validForSlots downstream =
     (let rerouted = (dr_decision (ed_stateDecision d) = USE_ALTERNATIVE) in
      \<lparr>pl_environment = DEVNET_EXECUTION, pl_selectedRepresentation = selected, pl_quote = quote, pl_quoteKey = key,
       pl_economicState = qi_state quote, pl_policy = policy, pl_inputRaw = qi_inputRaw quote,
       pl_expectedOutputRaw = qi_outputRaw quote, pl_minOutputRaw = qi_minOutputRaw quote, pl_route = qi_route quote,
       pl_decision = dr_decision (ed_stateDecision d), pl_reasonCode = dr_reasonCode (ed_stateDecision d),
       pl_executionEligibility = EXECUTABLE,
       pl_comparisonKey = (if rerouted then map_option qc_comparisonKey (ed_comparison d) else None),
       pl_disclosure = (if rerouted then dr_disclosure (ed_stateDecision d) else None),
       pl_consentId = (if rerouted then map_option cr_consentId (ed_consent d) else None),
       pl_createdAtSlot = currentSlot, pl_expiresAtSlot = currentSlot + validForSlots,
       pl_downstream = canonicalDownstream downstream\<rparr>)"

definition createExecutionPlan ::
    "(string \<Rightarrow> bool) \<Rightarrow> 'a plan_store_scheme \<Rightarrow> execution_decision \<Rightarrow> execution_environment \<Rightarrow> int \<Rightarrow> int \<Rightarrow> js_value \<Rightarrow>
       'a plan_store_scheme \<times> (rep_exn + execution_plan)" where
  "createExecutionPlan isAddress store d environment currentSlot validForSlots downstream =
     (case plan_checks isAddress d environment validForSlots downstream of
        Inl e \<Rightarrow> (store, Inl e)
      | Inr (selected, quote, policy) \<Rightarrow>
          (case consume_for_plan store d currentSlot of
             (store', Inl e) \<Rightarrow> (store', Inl e)
           | (store', Inr _) \<Rightarrow>
               (case bindE (quoteKey quote) (\<lambda>key.
                     let content = plan_content_of d selected quote key policy currentSlot validForSlots downstream
                     in bindE (planDigestOf content) (\<lambda>digest. Inr (content, digest))) of
                  Inl e \<Rightarrow> (store', Inl e)
                | Inr (content, digest) \<Rightarrow>
                    let plan = plan_content.extend content \<lparr>pl_planDigest = digest, pl_object = ps_next store'\<rparr>
                    in (store'\<lparr>ps_next := Suc (ps_next store'), issuedPlans := insert plan (issuedPlans store')\<rparr>, Inr plan))))"

section \<open>execution-plan.ts: verification and consumption\<close>

text \<open>The fields of a plan against its own quote: \<open>True\<close> when one is inconsistent.\<close>

definition keys_differ :: "js_value \<Rightarrow> js_value \<Rightarrow> rep_exn + bool" where
  "keys_differ a b = bindE (canonicalKey a) (\<lambda>ka. bindE (canonicalKey b) (\<lambda>kb. Inr (ka \<noteq> kb)))"

definition plan_inconsistent :: "(string \<Rightarrow> bool) \<Rightarrow> execution_plan \<Rightarrow> rep_exn + bool" where
  "plan_inconsistent isAddress plan =
     or_elseE (pl_environment plan \<noteq> DEVNET_EXECUTION \<or> pl_executionEligibility plan \<noteq> EXECUTABLE)
       (bindE (quoteKey (pl_quote plan)) (\<lambda>key.
        or_elseE (pl_quoteKey plan \<noteq> key)
       (bindE (keys_differ (state_value (pl_economicState plan)) (state_value (qi_state (pl_quote plan)))) (\<lambda>otherState.
        or_elseE (otherState \<or> pl_inputRaw plan \<noteq> qi_inputRaw (pl_quote plan) \<or>
                 pl_expectedOutputRaw plan \<noteq> qi_outputRaw (pl_quote plan) \<or> pl_minOutputRaw plan \<noteq> qi_minOutputRaw (pl_quote plan))
       (bindE (keys_differ (route_value (pl_route plan)) (route_value (qi_route (pl_quote plan)))) (\<lambda>otherRoute.
        or_elseE (otherRoute \<or> su_mint (pl_selectedRepresentation plan) \<noteq> qi_mint (pl_quote plan))
       (bindE (isDownstreamBinding isAddress (pl_downstream plan)) (\<lambda>ok.
        Inr (\<not> ok \<or> jupiterQuoteMismatches (pl_downstream plan) (pl_quote plan) (su_mint (pl_selectedRepresentation plan)) \<noteq> [])))))))))"

definition verifyExecutionPlan ::
    "(string \<Rightarrow> bool) \<Rightarrow> 'a plan_store_scheme \<Rightarrow> execution_plan \<Rightarrow> 'b quote_identity_scheme \<Rightarrow> quote_comparison option \<Rightarrow> rep_exn + unit" where
  "verifyExecutionPlan isAddress store plan presentedQuote presentedComparison =
     bindE (throw_if (plan \<notin> issuedPlans store) (plan_error PLAN_NOT_ISSUED)) (\<lambda>_.
     bindE (throw_if (plan \<in> consumedPlans store) (plan_error PLAN_CONSUMED)) (\<lambda>_.
     bindE (planDigestOf plan) (\<lambda>digest.
     bindE (throw_if (digest \<noteq> pl_planDigest plan) (plan_error PLAN_TAMPERED)) (\<lambda>_.
     bindE (plan_inconsistent isAddress plan) (\<lambda>inconsistent.
     bindE (throw_if inconsistent (plan_error PLAN_TAMPERED)) (\<lambda>_.
     bindE (quoteMismatches (pl_quote plan) presentedQuote) (\<lambda>substituted.
     bindE (throw_if (substituted \<noteq> []) (plan_error QUOTE_SUBSTITUTED)) (\<lambda>_.
     case pl_comparisonKey plan of
       None \<Rightarrow> Inr ()
     | Some key \<Rightarrow>
         bindE (require (plan_error COMPARISON_NOT_FOR_PLAN) presentedComparison) (\<lambda>comparison.
         bindE (throw_if (qc_comparisonKey comparison \<noteq> key) (plan_error COMPARISON_NOT_FOR_PLAN)) (\<lambda>_.
         bindE (throw_if (map_option rd_comparisonKey (pl_disclosure plan) \<noteq> Some key) (plan_error DISCLOSURE_NOT_FOR_COMPARISON)) (\<lambda>_.
         bindE (quoteMismatches (qc_alternativeQuote comparison) (pl_quote plan)) (\<lambda>alternative.
         throw_if (alternative \<noteq> []) (plan_error COMPARISON_NOT_FOR_PLAN)))))))))))))"

definition consumeExecutionPlan ::
    "(string \<Rightarrow> bool) \<Rightarrow> 'a plan_store_scheme \<Rightarrow> execution_plan \<Rightarrow> 'b quote_identity_scheme \<Rightarrow> quote_comparison option \<Rightarrow>
       'a plan_store_scheme \<times> (rep_exn + unit)" where
  "consumeExecutionPlan isAddress store plan presentedQuote presentedComparison =
     (case verifyExecutionPlan isAddress store plan presentedQuote presentedComparison of
        Inl e \<Rightarrow> (store, Inl e)
      | Inr _ \<Rightarrow> (store\<lparr>consumedPlans := insert plan (consumedPlans store)\<rparr>, Inr ()))"

definition assertPlanDownstream :: "(string \<Rightarrow> bool) \<Rightarrow> execution_plan \<Rightarrow> js_value \<Rightarrow> rep_exn + unit" where
  "assertPlanDownstream isAddress plan actual =
     bindE (isDownstreamBinding isAddress actual) (\<lambda>ok.
     bindE (or_elseE (\<not> ok) (keys_differ (canonicalDownstream actual) (pl_downstream plan))) (\<lambda>other.
     throw_if other (plan_error DOWNSTREAM_COMMITMENT_MISMATCH)))"

definition assertPlanPolicy :: "execution_plan \<Rightarrow> transition_policy \<Rightarrow> rep_exn + unit" where
  "assertPlanPolicy plan executorPolicy =
     bindE (policies_differ (pl_policy plan) executorPolicy) (\<lambda>other. throw_if other (plan_error POLICY_MISMATCH_plan))"

definition assertPlanFresh :: "execution_plan \<Rightarrow> int \<Rightarrow> rep_exn + unit" where
  "assertPlanFresh plan currentSlot = throw_if (currentSlot > pl_expiresAtSlot plan) (plan_error PLAN_EXPIRED)"

section \<open>Facts: creation\<close>

lemma plan_checks_ok:
  "plan_checks isAddress d env validForSlots downstream = Inr (selected, quote, policy) \<longleftrightarrow>
   env = DEVNET_EXECUTION \<and> 0 < validForSlots \<and> downstreamProblems isAddress downstream = Inr [] \<and>
   (\<exists>executable. assertExecutable d = Inr (selected, executable) \<and> quoteIdentityOf executable = Inr quote) \<and>
   (dr_decision (ed_stateDecision d) = USE_ALTERNATIVE \<longrightarrow>
      (\<exists>c. ed_comparison d = Some c \<and> map_option rd_comparisonKey (dr_disclosure (ed_stateDecision d)) = Some (qc_comparisonKey c))) \<and>
   jupiterQuoteMismatches downstream quote (su_mint selected) = [] \<and> ed_transitionPolicy d = Some policy"
proof -
  have a: "(case assertExecutable d of Inl ExecutionEligibilityError \<Rightarrow> Inl (plan_error NOT_EXECUTABLE_plan) | r \<Rightarrow> r) = Inr x \<longleftrightarrow>
      assertExecutable d = Inr x" for x
    by (auto split: sum.splits rep_exn.splits)
  have c: "\<not> (r \<and> (case oc of None \<Rightarrow> True | Some c \<Rightarrow> P c)) \<longleftrightarrow> (r \<longrightarrow> (\<exists>c. oc = Some c \<and> \<not> P c))" for r oc P
    by (cases oc) auto
  show ?thesis
    unfolding plan_checks_def by (auto simp: err_simps a c not_le split: prod.splits) (auto split: option.splits)
qed

lemma assertExecutable_ok:
  "assertExecutable d = Inr (selected, quote) \<longleftrightarrow>
   ed_selectedRepresentation d = Some selected \<and> ed_executableQuote d = Some quote \<and> ed_executionEligibility d = EXECUTABLE \<and>
   qi_mint quote = su_mint selected \<and> es_mint (qi_state quote) = su_mint selected"
  by (auto simp: assertExecutable_def split: option.splits if_splits)

lemma createExecutionPlan_ok:
  assumes "createExecutionPlan isAddress store d env atSlot validForSlots downstream = (store'', Inr plan)"
  obtains selected quote policy store' key digest where
    "plan_checks isAddress d env validForSlots downstream = Inr (selected, quote, policy)"
    "consume_for_plan store d atSlot = (store', Inr ())" "quoteKey quote = Inr key"
    "planDigestOf (plan_content_of d selected quote key policy atSlot validForSlots downstream) = Inr digest"
    "plan = plan_content.extend (plan_content_of d selected quote key policy atSlot validForSlots downstream)
       \<lparr>pl_planDigest = digest, pl_object = ps_next store'\<rparr>"
    "store'' = store'\<lparr>ps_next := Suc (ps_next store'), issuedPlans := insert plan (issuedPlans store')\<rparr>"
  using assms that
  by (auto simp: createExecutionPlan_def err_simps Let_def split: sum.splits prod.splits)

lemma plan_value_extend [simp]: "plan_value (plan_content.extend c x) = plan_value c"
  by (simp add: plan_value_def plan_content.extend_def)

lemma planDigestOf_extend [simp]: "planDigestOf (plan_content.extend c x) = planDigestOf c"
  by (simp add: planDigestOf_def)

lemma keys_differ_refl: "key_ok v \<Longrightarrow> keys_differ v v = Inr False"
  by (auto simp: keys_differ_def key_ok_def)

lemma downstream_object: "downstreamProblems isAddress v = Inr [] \<Longrightarrow> typeof_object v"
  by (auto simp: downstreamProblems_def split: if_splits)

text \<open>A plan whose fields agree with its quote and whose digest is its own.\<close>

definition plan_ok :: "(string \<Rightarrow> bool) \<Rightarrow> execution_plan \<Rightarrow> bool" where
  "plan_ok isAddress plan \<longleftrightarrow>
     planDigestOf plan = Inr (pl_planDigest plan) \<and> plan_inconsistent isAddress plan = Inr False"

lemma created_plan_ok:
  assumes "createExecutionPlan isAddress store d env atSlot validForSlots downstream = (store', Inr plan)"
  shows "plan_ok isAddress plan"
  using assms
proof (rule createExecutionPlan_ok)
  fix selected quote policy s key digest
  let ?c = "plan_content_of d selected quote key policy atSlot validForSlots downstream"
  assume checks: "plan_checks isAddress d env validForSlots downstream = Inr (selected, quote, policy)"
    and key: "quoteKey quote = Inr key" and digest: "planDigestOf ?c = Inr digest"
    and plan: "plan = plan_content.extend ?c \<lparr>pl_planDigest = digest, pl_object = ps_next s\<rparr>"
  from checks have c: "downstreamProblems isAddress downstream = Inr []" "jupiterQuoteMismatches downstream quote (su_mint selected) = []"
      "su_mint selected = qi_mint quote"
    by (auto simp: plan_checks_ok assertExecutable_ok quoteIdentityOf_eq)
  have "key_ok (state_value (qi_state quote))" "key_ok (route_value (qi_route quote))"
    using quoteKey_ok(3) [OF key] by (auto simp: quote_value_def)
  then have keys: "keys_differ (state_value (qi_state quote)) (state_value (qi_state quote)) = Inr False"
      "keys_differ (route_value (qi_route quote)) (route_value (qi_route quote)) = Inr False"
    by (simp_all add: keys_differ_refl)
  have down: "isDownstreamBinding isAddress (canonicalDownstream downstream) = Inr True"
    using canonical_problems [OF downstream_object [OF c(1)]] c(1) by (simp add: isDownstreamBinding_def)
  have "plan_inconsistent isAddress plan = Inr False"
    using key keys down c(2,3)
    by (simp add: plan plan_inconsistent_def plan_content.extend_def plan_content_of_def Let_def or_elseE_def canonical_quote_mismatches)
  moreover have "planDigestOf plan = Inr (pl_planDigest plan)"
    using digest by (simp add: plan) (simp add: plan_content.extend_def)
  ultimately show ?thesis by (simp add: plan_ok_def)
qed

section \<open>Facts: the store\<close>

datatype plan_op =
    Grant string consent_context int int
  | Consume consent_record consent_context
  | Create execution_decision execution_environment int int js_value
  | Execute execution_plan quote_identity "quote_comparison option"

datatype plan_result = Granted "rep_exn + consent_record" | Created "rep_exn + execution_plan" | Finished "rep_exn + unit"

text \<open>The operations that change the module's state, on one store.\<close>

fun exec_op :: "(string \<Rightarrow> bool) \<Rightarrow> plan_store \<Rightarrow> plan_op \<Rightarrow> plan_store \<times> plan_result" where
  "exec_op isAddress store (Grant nonce ctx maxBps validForSlots) = map_prod id Granted (grantConsent nonce store ctx maxBps validForSlots)"
| "exec_op isAddress store (Consume consent ctx) = map_prod id Finished (consumeConsent store consent ctx)"
| "exec_op isAddress store (Create d env atSlot validForSlots downstream) =
     map_prod id Created (createExecutionPlan isAddress store d env atSlot validForSlots downstream)"
| "exec_op isAddress store (Execute plan quote comparison) = map_prod id Finished (consumeExecutionPlan isAddress store plan quote comparison)"

text \<open>The tokens an operation hands out and uses: consents, and plans.\<close>

fun consent_granted :: "plan_op \<Rightarrow> plan_result \<Rightarrow> consent_record option" where
  "consent_granted (Grant _ _ _ _) (Granted (Inr consent)) = Some consent"
| "consent_granted _ _ = None"

fun consent_used :: "plan_op \<Rightarrow> plan_result \<Rightarrow> consent_record option" where
  "consent_used (Consume consent _) (Finished (Inr _)) = Some consent"
| "consent_used (Create d _ _ _ _) (Created (Inr _)) = (if dr_decision (ed_stateDecision d) = USE_ALTERNATIVE then ed_consent d else None)"
| "consent_used _ _ = None"

fun plan_created :: "plan_op \<Rightarrow> plan_result \<Rightarrow> execution_plan option" where
  "plan_created (Create _ _ _ _ _) (Created (Inr plan)) = Some plan"
| "plan_created _ _ = None"

fun plan_executed :: "plan_op \<Rightarrow> plan_result \<Rightarrow> execution_plan option" where
  "plan_executed (Execute plan _ _) (Finished (Inr _)) = Some plan"
| "plan_executed _ _ = None"

definition store_ok :: "(string \<Rightarrow> bool) \<Rightarrow> plan_store \<Rightarrow> bool" where
  "store_ok isAddress store \<longleftrightarrow>
     consumed store \<subseteq> issued store \<and> (\<forall>c \<in> issued store. cr_object c < cs_next store) \<and>
     consumedPlans store \<subseteq> issuedPlans store \<and>
     (\<forall>p \<in> issuedPlans store. pl_object p < ps_next store \<and> plan_ok isAddress p)"

definition empty_store :: plan_store where
  "empty_store = \<lparr>cs_next = 0, issued = {}, consumed = {}, ps_next = 0, issuedPlans = {}, consumedPlans = {}\<rparr>"

lemma empty_store_ok: "store_ok isAddress empty_store"
  by (simp add: store_ok_def empty_store_def)

lemma consentIssues_total:
  assumes "quoteKey (qc_preferredQuote (cx_comparison ctx)) = Inr pk" and "quoteKey (qc_alternativeQuote (cx_comparison ctx)) = Inr ak"
  shows "\<exists>issues. consentIssues store consent ctx = Inr issues"
proof -
  have "\<exists>x. disclosure_differs consent disclosure = Inr x" for disclosure
    using disclosureDigestOf_ok [of disclosure] by (auto simp: disclosure_differs_def or_elseE_def)
  moreover have "\<exists>x. quotes_differ consent (cx_comparison ctx) = Inr x"
    using assms by (auto simp: quotes_differ_def or_elseE_def)
  ultimately show ?thesis by (fastforce simp: consentIssues_def Let_def err_simps split: option.splits)
qed

lemma grantConsent_cases:
  assumes "grantConsent nonce store ctx maxBps validForSlots = (store', r)"
  obtains (refused) e where "store' = store" "r = Inl e"
  | (granted) c where "cr_object c = cs_next store" "r = Inr c"
      "store' = store\<lparr>cs_next := Suc (cs_next store), issued := insert c (issued store)\<rparr>" "authorizes store' c ctx"
  | (voided) c e where "cr_object c = cs_next store" "r = Inl e"
      "store' = store\<lparr>cs_next := Suc (cs_next store), issued := insert c (issued store), consumed := insert c (consumed store)\<rparr>"
proof (cases "maxBps < 0 \<or> validForSlots \<le> 0 \<or> dr_disclosure (cx_decision ctx) = None \<or> dr_decision (cx_decision ctx) \<noteq> REQUIRES_CONSENT")
  case True
  then have "\<exists>e. store' = store \<and> r = Inl e" using assms by (auto simp: grantConsent_def Let_def split: option.splits if_splits)
  then show ?thesis using refused by blast
next
  case False
  then obtain disclosure where d: "dr_disclosure (cx_decision ctx) = Some disclosure" by auto
  let ?keys = "bindE (quoteKey (qc_preferredQuote (cx_comparison ctx))) (\<lambda>pk.
                      bindE (quoteKey (qc_alternativeQuote (cx_comparison ctx))) (\<lambda>ak. Inr (pk, ak)))"
  show ?thesis
  proof (cases ?keys)
    case (Inl e)
    then have "store' = store" "r = Inl e" using assms False d by (auto simp: grantConsent_def Let_def)
    then show ?thesis by (rule refused)
  next
    case (Inr ks)
    then obtain pk ak where ks: "ks = (pk, ak)" and keys: "quoteKey (qc_preferredQuote (cx_comparison ctx)) = Inr pk"
        "quoteKey (qc_alternativeQuote (cx_comparison ctx)) = Inr ak"
      by (auto simp: err_simps)
    define c where "c = \<lparr>cr_object = cs_next store, cr_consentId = nonce, cr_comparisonKey = rd_comparisonKey disclosure,
       cr_disclosureDigest = rd_disclosureDigest disclosure, cr_underlying = qc_underlying (cx_comparison ctx),
       cr_preferredMint = qc_preferredMint (cx_comparison ctx), cr_alternativeMint = qc_alternativeMint (cx_comparison ctx),
       cr_inputRaw = qc_inputRaw (cx_comparison ctx), cr_preferredQuoteKey = pk, cr_alternativeQuoteKey = ak,
       cr_additionalCostBps = qc_additionalCostBps (cx_comparison ctx), cr_maxAdditionalCostBps = maxBps,
       cr_issuedAtSlot = cx_currentSlot ctx, cr_expiresAtSlot = cx_currentSlot ctx + validForSlots\<rparr>"
    define s where "s = store\<lparr>cs_next := Suc (cs_next store), issued := insert c (issued store)\<rparr>"
    obtain issues where issues: "consentIssues s c ctx = Inr issues" using consentIssues_total [OF keys] by blast
    have eq: "(store', r) = (if issues \<noteq> [] then (s\<lparr>consumed := insert c (consumed s)\<rparr>, Inl (ConsentError issues)) else (s, Inr c))"
      using assms False d Inr issues by (simp add: ks grantConsent_def Let_def c_def s_def split: if_splits)
    have obj: "cr_object c = cs_next store" by (simp add: c_def)
    show ?thesis
    proof (cases "issues = []")
      case True
      then have "r = Inr c" "store' = s" "authorizes store' c ctx" using eq issues by (auto simp: consentIssues_Nil [symmetric])
      with obj show ?thesis using granted s_def by blast
    next
      case False
      then have "r = Inl (ConsentError issues)" "store' = s\<lparr>consumed := insert c (consumed s)\<rparr>" using eq by auto
      with obj show ?thesis using voided [of c "ConsentError issues"] by (simp add: s_def)
    qed
  qed
qed

text \<open>Each operation changes the two registries in one of a few ways.\<close>

lemma consume_for_plan_store:
  assumes "consume_for_plan store d atSlot = (store', r)"
  shows "store' = store \<or> (\<exists>c. ed_consent d = Some c \<and> c \<in> issued store \<and> store' = store\<lparr>consumed := insert c (consumed store)\<rparr>)"
proof -
  let ?ctx = "\<lparr>cx_decision = (ed_stateDecision d)\<lparr>dr_decision := REQUIRES_CONSENT, dr_reasonCode := CONSENT_REQUIRED\<rparr>,
               cx_comparison = the (ed_comparison d), cx_reroutePolicy = ed_reroutePolicy d, cx_currentSlot = atSlot\<rparr>"
  have "s = store \<or> c \<in> issued store \<and> s = store\<lparr>consumed := insert c (consumed store)\<rparr>"
    if "consumeConsent store c ?ctx = (s, q)" for c s q
    using that consumeConsent_ok [of store c ?ctx s] consumeConsent_fail [of store c ?ctx s]
    by (cases q) (auto simp: authorizes_def)
  then show ?thesis
    using assms by (auto simp: consume_for_plan_def split: if_splits option.splits prod.splits sum.splits rep_exn.splits)
qed

lemma consume_for_plan_reroute:
  assumes "consume_for_plan store d atSlot = (store', Inr u)" and "dr_decision (ed_stateDecision d) = USE_ALTERNATIVE"
  shows "\<exists>c. ed_consent d = Some c \<and> store' = store\<lparr>consumed := insert c (consumed store)\<rparr> \<and>
    authorizes store c \<lparr>cx_decision = (ed_stateDecision d)\<lparr>dr_decision := REQUIRES_CONSENT, dr_reasonCode := CONSENT_REQUIRED\<rparr>,
               cx_comparison = the (ed_comparison d), cx_reroutePolicy = ed_reroutePolicy d, cx_currentSlot = atSlot\<rparr>"
  using assms consumeConsent_ok [of store]
  by (fastforce simp: consume_for_plan_def split: option.splits prod.splits sum.splits rep_exn.splits)

definition spends :: "plan_store \<Rightarrow> plan_store \<Rightarrow> bool" where
  "spends store store' \<longleftrightarrow> (\<exists>C \<subseteq> issued store. store' = store\<lparr>consumed := C \<union> consumed store\<rparr>)"

lemma spends_intros: "spends store store" "c \<in> issued store \<Longrightarrow> spends store (store\<lparr>consumed := insert c (consumed store)\<rparr>)"
  unfolding spends_def by (rule exI [of _ "{}"], simp) (rule exI [of _ "{c}"], simp)

lemma spends_consume: "consume_for_plan store d atSlot = (store', r) \<Longrightarrow> spends store store'"
  by (drule consume_for_plan_store) (auto intro: spends_intros)

lemma createExecutionPlan_store:
  assumes "createExecutionPlan isAddress store d env atSlot validForSlots downstream = (store', r)"
  obtains (refused) e where "spends store store'" "r = Inl e"
  | (created) s plan where "consume_for_plan store d atSlot = (s, Inr ())" "spends store s" "r = Inr plan" "pl_object plan = ps_next s"
      "store' = s\<lparr>ps_next := Suc (ps_next s), issuedPlans := insert plan (issuedPlans s)\<rparr>" "plan_ok isAddress plan"
proof (cases r)
  case (Inl e)
  have "spends store store'"
    using assms spends_consume [of store d atSlot] unfolding Inl createExecutionPlan_def
    by (auto simp: Let_def split: sum.splits prod.splits intro: spends_intros(1))
  then show ?thesis using Inl refused by blast
next
  case (Inr plan)
  with assms have c: "createExecutionPlan isAddress store d env atSlot validForSlots downstream = (store', Inr plan)" by simp
  from c show ?thesis
  proof (rule createExecutionPlan_ok)
    fix s content digest
    assume s: "consume_for_plan store d atSlot = (s, Inr ())"
      and plan: "plan = plan_content.extend content \<lparr>pl_planDigest = digest, pl_object = ps_next s\<rparr>"
      and store': "store' = s\<lparr>ps_next := Suc (ps_next s), issuedPlans := insert plan (issuedPlans s)\<rparr>"
    have "pl_object plan = ps_next s" by (simp add: plan plan_content.extend_def)
    then show ?thesis using created [OF s spends_consume [OF s] Inr] store' created_plan_ok [OF c] by simp
  qed
qed

lemma consumeExecutionPlan_store:
  assumes "consumeExecutionPlan isAddress store plan quote comparison = (store', r)"
  obtains (refused) e where "store' = store" "r = Inl e"
  | (executed) "r = Inr ()" "plan \<in> issuedPlans store" "plan \<notin> consumedPlans store"
      "store' = store\<lparr>consumedPlans := insert plan (consumedPlans store)\<rparr>"
proof (cases "verifyExecutionPlan isAddress store plan quote comparison")
  case (Inl e)
  then show ?thesis using assms refused [of e] by (simp add: consumeExecutionPlan_def)
next
  case (Inr u)
  then have "plan \<in> issuedPlans store" "plan \<notin> consumedPlans store"
    unfolding verifyExecutionPlan_def by (auto simp: err_simps)
  then show ?thesis using Inr assms executed by (simp add: consumeExecutionPlan_def)
qed

text \<open>The ways one operation changes the two registries.\<close>

lemma exec_op_cases:
  assumes "exec_op isAddress store op = (store', r)"
  obtains (refused) "spends store store'" "consent_granted op r = None" "consent_used op r = None"
      "plan_created op r = None" "plan_executed op r = None"
  | (granted) c where "cr_object c = cs_next store" "consent_granted op r = Some c" "consent_used op r = None"
      "store' = store\<lparr>cs_next := Suc (cs_next store), issued := insert c (issued store)\<rparr>"
      "plan_created op r = None" "plan_executed op r = None"
  | (voided) c where "cr_object c = cs_next store" "consent_granted op r = None" "consent_used op r = None"
      "store' = store\<lparr>cs_next := Suc (cs_next store), issued := insert c (issued store), consumed := insert c (consumed store)\<rparr>"
      "plan_created op r = None" "plan_executed op r = None"
  | (used) c where "c \<in> issued store" "c \<notin> consumed store" "consent_granted op r = None" "consent_used op r = Some c"
      "store' = store\<lparr>consumed := insert c (consumed store)\<rparr>" "plan_created op r = None" "plan_executed op r = None"
  | (created) s plan where "s = store \<and> consent_used op r = None \<or>
        (\<exists>c. consent_used op r = Some c \<and> c \<in> issued store \<and> c \<notin> consumed store \<and> s = store\<lparr>consumed := insert c (consumed store)\<rparr>)"
      "consent_granted op r = None" "plan_created op r = Some plan" "plan_executed op r = None"
      "pl_object plan = ps_next store" "plan_ok isAddress plan"
      "store' = s\<lparr>ps_next := Suc (ps_next store), issuedPlans := insert plan (issuedPlans store)\<rparr>"
  | (executed) plan where "consent_granted op r = None" "consent_used op r = None" "plan_created op r = None"
      "plan_executed op r = Some plan" "plan \<in> issuedPlans store" "plan \<notin> consumedPlans store"
      "store' = store\<lparr>consumedPlans := insert plan (consumedPlans store)\<rparr>"
proof (cases op)
  case (Grant nonce ctx maxBps validForSlots)
  then obtain g where g: "grantConsent nonce store ctx maxBps validForSlots = (store', g)" "r = Granted g"
    using assms by (auto simp: map_prod_def split: prod.splits)
  from g(1) show ?thesis
  proof (cases rule: grantConsent_cases)
    case (refused e)
    then show ?thesis using Grant g(2) that(1) by (simp add: spends_intros)
  next
    case (granted c)
    then show ?thesis using Grant g(2) that(2) by simp
  next
    case (voided c e)
    then show ?thesis using Grant g(2) that(3) by simp
  qed
next
  case (Consume consent ctx)
  then obtain g where g: "consumeConsent store consent ctx = (store', g)" "r = Finished g"
    using assms by (auto simp: map_prod_def split: prod.splits)
  show ?thesis
  proof (cases g)
    case (Inl e)
    then show ?thesis using g Consume consumeConsent_fail [of store consent ctx store'] that(1) by (simp add: spends_intros)
  next
    case (Inr u)
    then show ?thesis using g Consume consumeConsent_ok [of store consent ctx store'] that(4) [of consent] by (simp add: authorizes_def)
  qed
next
  case (Create d env atSlot validForSlots downstream)
  then obtain g where g: "createExecutionPlan isAddress store d env atSlot validForSlots downstream = (store', g)" "r = Created g"
    using assms by (auto simp: map_prod_def split: prod.splits)
  from g(1) show ?thesis
  proof (cases rule: createExecutionPlan_store)
    case (refused e)
    then show ?thesis using Create g(2) that(1) by simp
  next
    case (created s plan)
    have "ps_next s = ps_next store" "issuedPlans s = issuedPlans store" using created(2) by (auto simp: spends_def)
    moreover have "s = store \<and> consent_used op r = None \<or>
        (\<exists>c. consent_used op r = Some c \<and> c \<in> issued store \<and> c \<notin> consumed store \<and> s = store\<lparr>consumed := insert c (consumed store)\<rparr>)"
    proof (cases "dr_decision (ed_stateDecision d) = USE_ALTERNATIVE")
      case True
      then show ?thesis using consume_for_plan_reroute [OF created(1)] Create g(2) created(3) by (auto simp: authorizes_def)
    next
      case False
      then show ?thesis using created(1,3) Create g(2) by (simp add: consume_for_plan_def)
    qed
    ultimately show ?thesis using created Create g(2) that(5) by simp
  qed
next
  case (Execute plan quote comparison)
  then obtain g where g: "consumeExecutionPlan isAddress store plan quote comparison = (store', g)" "r = Finished g"
    using assms by (auto simp: map_prod_def split: prod.splits)
  from g(1) show ?thesis
  proof (cases rule: consumeExecutionPlan_store)
    case (refused e)
    then show ?thesis using Execute g(2) that(1) by (simp add: spends_intros)
  next
    case executed
    then show ?thesis using Execute g(2) that(6) by simp
  qed
qed

lemma exec_op_store_ok: "store_ok isAddress store \<Longrightarrow> exec_op isAddress store op = (store', r) \<Longrightarrow> store_ok isAddress store'"
  by (erule exec_op_cases) (force simp: store_ok_def spends_def less_Suc_eq)+

interpretation consents: single_use "exec_op isAddress" consent_granted consent_used issued consumed "store_ok isAddress"
  for isAddress
proof
  fix store op store' r t
  assume e: "exec_op isAddress store op = (store', r)"
  show "consumed store \<subseteq> consumed store'"
    using e by (rule exec_op_cases) (auto simp: spends_def)
  assume ok: "store_ok isAddress store"
  then show "store_ok isAddress store'" using e by (rule exec_op_store_ok)
  show "t \<notin> issued store \<and> t \<in> issued store' \<and> t \<notin> consumed store'" if "consent_granted op r = Some t"
    using e that ok by (elim exec_op_cases) (force simp: store_ok_def)+
  show "t \<in> issued store \<or> consent_granted op r = Some t" if "t \<in> issued store'" "t \<notin> consumed store'"
    using e that ok by (elim exec_op_cases) (auto simp: spends_def)
  show "t \<in> issued store \<and> t \<notin> consumed store \<and> t \<in> consumed store'" if "consent_used op r = Some t"
    using e that ok by (elim exec_op_cases) auto
qed

interpretation plans: single_use "exec_op isAddress" plan_created plan_executed issuedPlans consumedPlans "store_ok isAddress"
  for isAddress
proof
  fix store op store' r t
  assume e: "exec_op isAddress store op = (store', r)"
  show "consumedPlans store \<subseteq> consumedPlans store'"
    using e by (rule exec_op_cases) (auto simp: spends_def)
  assume ok: "store_ok isAddress store"
  then show "store_ok isAddress store'" using e by (rule exec_op_store_ok)
  show "t \<notin> issuedPlans store \<and> t \<in> issuedPlans store' \<and> t \<notin> consumedPlans store'" if "plan_created op r = Some t"
    using e that ok by (elim exec_op_cases) (force simp: store_ok_def)+
  show "t \<in> issuedPlans store \<or> plan_created op r = Some t" if "t \<in> issuedPlans store'" "t \<notin> consumedPlans store'"
    using e that ok by (elim exec_op_cases) (auto simp: spends_def)
  show "t \<in> issuedPlans store \<and> t \<notin> consumedPlans store \<and> t \<in> consumedPlans store'" if "plan_executed op r = Some t"
    using e that ok by (elim exec_op_cases) auto
qed

interpretation plans: persistent_use "exec_op isAddress" plan_created plan_executed issuedPlans consumedPlans "store_ok isAddress"
  for isAddress
proof
  fix store op store' r t
  assume e: "exec_op isAddress store op = (store', r)"
  show "issuedPlans store \<subseteq> issuedPlans store'"
    using e by (rule exec_op_cases) (auto simp: spends_def)
  show "t \<in> consumedPlans store" if "plan_executed op r \<noteq> Some t" "t \<in> consumedPlans store'"
    using e that by (elim exec_op_cases) (auto simp: spends_def)
qed

section \<open>Facts: verification\<close>

lemma quoteMismatches_refl: "quoteKey quote = Inr k \<Longrightarrow> quoteMismatches quote quote = Inr []" for quote :: quote_identity
  using quoteMismatches_exact by blast

text \<open>Verification of a consistent plan depends on the registries and on what is presented only.\<close>

lemma verify_plan_ok:
  assumes "plan_ok isAddress plan" and "plan \<in> issuedPlans store" and "plan \<notin> consumedPlans store"
    and "case pl_comparisonKey plan of None \<Rightarrow> True
         | Some key \<Rightarrow> \<exists>c. comparison = Some c \<and> qc_comparisonKey c = key \<and> map_option rd_comparisonKey (pl_disclosure plan) = Some key \<and>
             qc_alternativeQuote c = pl_quote plan"
  shows "verifyExecutionPlan isAddress store plan (pl_quote plan) comparison = Inr ()"
proof -
  have "\<exists>k. quoteKey (pl_quote plan) = Inr k"
    using assms(1) by (auto simp: plan_ok_def plan_inconsistent_def or_elseE_def err_simps split: if_splits)
  then have "quoteMismatches (pl_quote plan) (pl_quote plan) = Inr []" using quoteMismatches_refl by blast
  with assms show ?thesis by (auto simp: verifyExecutionPlan_def plan_ok_def split: option.splits)
qed

lemma verify_plan_consumed:
  "plan \<in> issuedPlans store \<Longrightarrow> plan \<in> consumedPlans store \<Longrightarrow>
   verifyExecutionPlan isAddress store plan quote comparison = Inl (plan_error PLAN_CONSUMED)"
  by (simp add: verifyExecutionPlan_def)

lemma verify_plan_substituted:
  fixes quote :: quote_identity
  assumes "plan_ok isAddress plan" and "plan \<in> issuedPlans store" and "plan \<notin> consumedPlans store"
    and "quoteKey quote = Inr k" and "quote \<noteq> pl_quote plan"
  shows "verifyExecutionPlan isAddress store plan quote comparison = Inl (plan_error QUOTE_SUBSTITUTED)"
proof -
  obtain k' where "quoteKey (pl_quote plan) = Inr k'"
    using assms(1) by (auto simp: plan_ok_def plan_inconsistent_def or_elseE_def err_simps split: if_splits)
  from quoteMismatches_exact [OF this assms(4)] assms show ?thesis
    by (auto simp: verifyExecutionPlan_def plan_ok_def)
qed

lemmas plan_content_simps = plan_content.extend_def plan_content_of_def

text \<open>What a plan takes from the executable decision it is made of.\<close>

lemma created_plan_fields:
  assumes "createExecutionPlan isAddress store d env atSlot validForSlots downstream = (store', Inr plan)"
  shows "ed_selectedRepresentation d = Some (pl_selectedRepresentation plan) \<and> ed_executionEligibility d = EXECUTABLE \<and>
    (\<exists>executable. ed_executableQuote d = Some executable \<and> quoteIdentityOf executable = Inr (pl_quote plan)) \<and>
    pl_economicState plan = qi_state (pl_quote plan) \<and> ed_transitionPolicy d = Some (pl_policy plan) \<and>
    env = DEVNET_EXECUTION \<and> 0 < validForSlots \<and> pl_createdAtSlot plan = atSlot \<and> pl_expiresAtSlot plan = atSlot + validForSlots \<and>
    pl_downstream plan = canonicalDownstream downstream \<and> downstreamProblems isAddress downstream = Inr [] \<and>
    jupiterQuoteMismatches downstream (pl_quote plan) (su_mint (pl_selectedRepresentation plan)) = []"
  using assms
  by (rule createExecutionPlan_ok) (auto simp: plan_checks_ok assertExecutable_ok plan_content_simps Let_def)

lemma created_plan_consent:
  assumes "createExecutionPlan isAddress store d env atSlot validForSlots downstream = (store', Inr plan)"
  shows "if dr_decision (ed_stateDecision d) = USE_ALTERNATIVE
    then \<exists>c comparison. ed_consent d = Some c \<and> ed_comparison d = Some comparison \<and> consumed store' = insert c (consumed store) \<and>
       pl_consentId plan = Some (cr_consentId c) \<and> pl_comparisonKey plan = Some (qc_comparisonKey comparison) \<and>
       map_option rd_comparisonKey (pl_disclosure plan) = Some (qc_comparisonKey comparison) \<and>
       authorizes store c \<lparr>cx_decision = (ed_stateDecision d)\<lparr>dr_decision := REQUIRES_CONSENT, dr_reasonCode := CONSENT_REQUIRED\<rparr>,
               cx_comparison = comparison, cx_reroutePolicy = ed_reroutePolicy d, cx_currentSlot = atSlot\<rparr>
    else consumed store' = consumed store \<and> pl_consentId plan = None \<and> pl_comparisonKey plan = None"
  using assms
proof (rule createExecutionPlan_ok)
  fix selected quote policy s key digest
  assume checks: "plan_checks isAddress d env validForSlots downstream = Inr (selected, quote, policy)"
    and s: "consume_for_plan store d atSlot = (s, Inr ())"
    and plan: "plan = plan_content.extend (plan_content_of d selected quote key policy atSlot validForSlots downstream)
       \<lparr>pl_planDigest = digest, pl_object = ps_next s\<rparr>"
    and store': "store' = s\<lparr>ps_next := Suc (ps_next s), issuedPlans := insert plan (issuedPlans s)\<rparr>"
  show ?thesis
  proof (cases "dr_decision (ed_stateDecision d) = USE_ALTERNATIVE")
    case True
    from consume_for_plan_reroute [OF s True] checks True show ?thesis
      unfolding store' by (auto simp: plan_checks_ok plan plan_content_simps Let_def)
  next
    case False
    with s show ?thesis unfolding store' by (simp add: consume_for_plan_def plan plan_content_simps Let_def)
  qed
qed

lemma planDigestOf_key_ok: "planDigestOf content = Inr digest \<Longrightarrow> key_ok (pl_downstream content)"
proof -
  assume "planDigestOf content = Inr digest"
  then have "key_ok (plan_value content)" by (auto simp: planDigestOf_def key_ok_def err_simps)
  then show ?thesis by (simp add: plan_value_def)
qed

lemma keys_differ_False: "keys_differ a b = Inr False \<longleftrightarrow> key_ok a \<and> key_ok b \<and> canon a = canon b"
  by (auto simp: keys_differ_def key_ok_def err_simps same_key dest: same_key [THEN iffD1, rotated 2, OF refl])

section \<open>Properties\<close>

text \<open>
  C17. Consents and plans are single-use capabilities: after any sequence of grants, consumptions, plan
  creations and executions, starting from empty registries, the registries are well formed; no consent is
  used by more than one consumption or plan, and no plan is executed more than once; and every use follows
  the operation that handed the consent or plan out.
\<close>

theorem capabilities_single_use:
  assumes "run_ops (exec_op isAddress) empty_store ops = (store, tr)"
  shows "store_ok isAddress store \<and> (\<forall>c. uses_in consent_used c tr \<le> 1) \<and> (\<forall>plan. uses_in plan_executed plan tr \<le> 1) \<and>
    minted_before_use consent_granted consent_used {} tr \<and> minted_before_use plan_created plan_executed {} tr"
  using consents.ok_run [OF empty_store_ok assms] consents.at_most_once [OF empty_store_ok assms]
    plans.at_most_once [OF empty_store_ok assms] consents.uses_follow_mint [OF empty_store_ok assms]
    plans.uses_follow_mint [OF empty_store_ok assms]
  by (simp add: empty_store_def)

text \<open>
  C18. A plan pins the safe state it was decided on. When a plan is created from an evaluation's decision,
  it is for devnet, it selects a representation that was SAFE on chain without conflict, its quote's
  economic state is the chain state of that representation, its policy is the one that classified it, and
  it expires after the requested number of slots. It is the preference, or the alternative under a live
  consent that authorizes this reroute at the slot of creation, which creation spends.
\<close>

theorem plan_pins_safe_state:
  assumes "decideExecution evaluated input = Inr d"
    and "createExecutionPlan isAddress store d env atSlot validForSlots downstream = (store', Inr plan)"
  shows "\<exists>rep current. safe_on_chain rep current \<and> pl_selectedRepresentation plan = summary rep \<and>
    economicStateMismatches (pl_economicState plan) current = [] \<and> rr_transitionPolicy rep = Some (pl_policy plan) \<and>
    env = DEVNET_EXECUTION \<and> pl_createdAtSlot plan = atSlot \<and> atSlot < pl_expiresAtSlot plan \<and>
    pl_expiresAtSlot plan = atSlot + validForSlots \<and>
    (rep = di_preferred input \<and> consumed store' = consumed store \<and> pl_consentId plan = None \<or>
     di_alternative input = Some rep \<and>
     (\<exists>c comparison. di_comparison input = Some comparison \<and> pl_consentId plan = Some (cr_consentId c) \<and>
        reroute_offered input rep comparison \<and> pl_quote plan = qc_alternativeQuote comparison \<and>
        c \<in> issued store \<and> c \<notin> consumed store \<and> consumed store' = insert c (consumed store) \<and>
        atSlot \<le> cr_expiresAtSlot c \<and> cr_comparisonKey c = qc_comparisonKey comparison \<and>
        qc_additionalCostBps comparison \<le> cr_maxAdditionalCostBps c \<and> cr_inputRaw c = qc_inputRaw comparison))"
proof -
  note fields = created_plan_fields [OF assms(2)] and consent = created_plan_consent [OF assms(2)]
  obtain rep current quote where r: "safe_on_chain rep current" "ed_selectedRepresentation d = Some (summary rep)"
      "ed_executableQuote d = Some quote" "economicStateMismatches (qi_state quote) current = []"
      "ed_transitionPolicy d = rr_transitionPolicy rep"
      "rep = di_preferred input \<and> dr_decision (ed_stateDecision d) = USE_PREFERRED \<or>
       di_alternative input = Some rep \<and> dr_decision (ed_stateDecision d) = USE_ALTERNATIVE \<and>
       (\<exists>comparison. di_comparison input = Some comparison \<and> ed_comparison d = Some comparison \<and>
          quote = qc_alternativeQuote comparison \<and> reroute_offered input rep comparison)"
    using decideExecution_executable [OF assms(1)] fields by auto
  have quote: "pl_quote plan = quote" using fields r(3) by (auto simp: quoteIdentityOf_eq quote_identity.truncate_def)
  show ?thesis
  proof (intro exI [of _ rep] exI [of _ current] conjI)
    show "rep = di_preferred input \<and> consumed store' = consumed store \<and> pl_consentId plan = None \<or>
     di_alternative input = Some rep \<and>
     (\<exists>c comparison. di_comparison input = Some comparison \<and> pl_consentId plan = Some (cr_consentId c) \<and>
        reroute_offered input rep comparison \<and> pl_quote plan = qc_alternativeQuote comparison \<and>
        c \<in> issued store \<and> c \<notin> consumed store \<and> consumed store' = insert c (consumed store) \<and>
        atSlot \<le> cr_expiresAtSlot c \<and> cr_comparisonKey c = qc_comparisonKey comparison \<and>
        qc_additionalCostBps comparison \<le> cr_maxAdditionalCostBps c \<and> cr_inputRaw c = qc_inputRaw comparison)"
      using r(6) consent by (auto simp: quote authorizes_def)
  qed (use r fields quote in auto)
qed

text \<open>
  C19. A plan made from an evaluation can always be executed, once: after any further operations on the
  registries, presenting its own quote and the decision's comparison succeeds exactly when none of them
  executed it, and is refused as consumed otherwise. Another quote is always refused as substituted.
\<close>

theorem fresh_plan_executes:
  fixes quote :: quote_identity
  assumes "store_ok isAddress store" and "decideExecution evaluated input = Inr d"
    and "createExecutionPlan isAddress store d env atSlot validForSlots downstream = (store', Inr plan)"
    and "run_ops (exec_op isAddress) store' ops = (store'', tr)"
  shows "consumeExecutionPlan isAddress store'' plan (pl_quote plan) (ed_comparison d) =
      (if uses_in plan_executed plan tr = 0 then (store''\<lparr>consumedPlans := insert plan (consumedPlans store'')\<rparr>, Inr ())
       else (store'', Inl (plan_error PLAN_CONSUMED))) \<and>
    (uses_in plan_executed plan tr = 0 \<and> quoteKey quote = Inr key \<and> quote \<noteq> pl_quote plan \<longrightarrow>
     consumeExecutionPlan isAddress store'' plan quote comparison = (store'', Inl (plan_error QUOTE_SUBSTITUTED)))"
proof -
  have e: "exec_op isAddress store (Create d env atSlot validForSlots downstream) = (store', Created (Inr plan))"
    using assms(3) by simp
  note fresh = plans.minted_fresh [OF assms(1) e, of plan] and ok = plans.ok_step [OF assms(1) e]
  have live: "plan \<in> issuedPlans store''" "plan \<in> consumedPlans store'' \<longleftrightarrow> uses_in plan_executed plan tr = 1"
    using plans.spent_exactly_by_use [OF ok assms(4), of plan] fresh by auto
  have once: "uses_in plan_executed plan tr = 0 \<or> uses_in plan_executed plan tr = 1"
    using plans.at_most_once [OF ok assms(4), of plan] by (auto split: if_splits)
  have c: "case pl_comparisonKey plan of None \<Rightarrow> True
         | Some key \<Rightarrow> \<exists>c. ed_comparison d = Some c \<and> qc_comparisonKey c = key \<and> map_option rd_comparisonKey (pl_disclosure plan) = Some key \<and>
             qc_alternativeQuote c = pl_quote plan"
    using created_plan_consent [OF assms(3)] created_plan_fields [OF assms(3)] decideExecution_executable [OF assms(2)]
    by (auto simp: quoteIdentityOf_eq quote_identity.truncate_def split: if_splits)
  note ok = created_plan_ok [OF assms(3)]
  show ?thesis
    using once live verify_plan_ok [OF ok live(1) _ c] verify_plan_consumed [OF live(1), of isAddress "pl_quote plan"] verify_plan_substituted [OF ok live(1)]
    by (auto simp: consumeExecutionPlan_def)
qed

text \<open>
  The plan's assertions before signing are exact: the action about to be submitted passes exactly when
  it is a well-formed binding that agrees with the planned one in every field of its kind, the executor's
  policy exactly when it is the plan's, and the slot exactly when the plan has not expired.
\<close>

theorem plan_assertions_exact:
  assumes "createExecutionPlan isAddress store d env atSlot validForSlots downstream = (store', Inr plan)"
  shows "(assertPlanDownstream isAddress plan actual = Inr () \<longleftrightarrow>
       downstreamProblems isAddress actual = Inr [] \<and> canonicalDownstream actual = canonicalDownstream downstream) \<and>
     (assertPlanPolicy plan policy = Inr () \<longleftrightarrow> policy = pl_policy plan) \<and>
     (assertPlanFresh plan now = Inr () \<longleftrightarrow> now \<le> atSlot + validForSlots)"
proof -
  note fields = created_plan_fields [OF assms]
  have key: "key_ok (canonicalDownstream downstream)"
    using created_plan_ok [OF assms] planDigestOf_key_ok [of plan] fields by (auto simp: plan_ok_def)
  have "assertPlanDownstream isAddress plan actual = Inr () \<longleftrightarrow>
      downstreamProblems isAddress actual = Inr [] \<and> keys_differ (canonicalDownstream actual) (canonicalDownstream downstream) = Inr False"
    using fields by (auto simp: assertPlanDownstream_def isDownstreamBinding_def or_elseE_def err_simps split: if_splits)
  also have "\<dots> \<longleftrightarrow> downstreamProblems isAddress actual = Inr [] \<and> canonicalDownstream actual = canonicalDownstream downstream"
    using canonicalDownstream_canon [of isAddress actual downstream] fields key by (auto simp: keys_differ_False)
  finally show ?thesis
    using fields by (auto simp: assertPlanPolicy_def assertPlanFresh_def policies_differ_eq err_simps not_less)
qed

section \<open>Witnesses\<close>

text \<open>A plan for the sample decision that binds a token transfer, created in empty registries.\<close>

definition sample_downstream :: js_value where
  "sample_downstream = JObject [(''adapterKind'', JString ''TOKEN_2022_TRANSFER_CHECKED''), (''commitmentHex'', JString (replicate 64 CHR ''a''))]"

definition sample_decision :: execution_decision where
  "sample_decision = projr (decideExecution empty_store sample_execution_input)"

lemma sample_decision_eq: "decideExecution store sample_execution_input = Inr sample_decision"
  by (simp add: sample_decision_def sample_executable_eq)

lemma sample_downstream_ok: "downstreamProblems isAddress sample_downstream = Inr []"
  by (simp add: downstreamProblems_def sample_downstream_def js_get_def list_all_iff hex_lower_def)

lemma sample_plan_created: "\<exists>store plan. createExecutionPlan isAddress empty_store sample_decision DEVNET_EXECUTION 10 150 sample_downstream = (store, Inr plan)"
proof -
  let ?q = "quote_identity.truncate sample_alternative_quote"
  let ?s = "summary sample_alternative"
  have d: "sample_decision = projr (decideExecution empty_store sample_execution_input)" by (simp add: sample_decision_def)
  have kind: "js_prop sample_downstream ''adapterKind'' = JString ''TOKEN_2022_TRANSFER_CHECKED''" by (simp add: sample_downstream_def js_get_def)
  have types: "assertQuoteIdentityTypes (quote_value ?q) = Inr ()" "key_ok (quote_value ?q)"
    using sample_alternative_types by simp_all
  have mints: "qi_mint ?q = ''MintB''" "es_mint (qi_state ?q) = ''MintB''" "su_mint ?s = ''MintB''"
    using sample_quote_fields sample_alternative_fields by (simp_all add: quote_identity.truncate_def summary_def)
  have "plan_checks isAddress sample_decision DEVNET_EXECUTION 150 sample_downstream = Inr (?s, ?q, sample_policy)"
    unfolding plan_checks_ok assertExecutable_ok quoteIdentityOf_eq
    using types mints by (simp add: d sample_executable_eq sample_downstream_ok jupiterQuoteMismatches_def kind quote_identity.truncate_def)
  moreover have "consume_for_plan empty_store sample_decision 10 = (empty_store, Inr ())"
    by (simp add: consume_for_plan_def d sample_executable_eq)
  moreover obtain key where "quoteKey ?q = Inr key"
    using types by (auto simp: quoteKey_def quoteIdentityOf_def key_ok_def quote_identity.truncate_def)
  moreover have "key_ok (plan_value (plan_content_of sample_decision ?s ?q key sample_policy 10 150 sample_downstream))"
    using types(2)
    by (simp add: plan_value_def plan_content_of_def Let_def d sample_executable_eq quote_value_def disclosure_value_def
        canonicalDownstream_def kind copy_fields_def transfer_fields_def)
      (simp add: sample_downstream_def js_get_def)
  then have "\<exists>digest. planDigestOf (plan_content_of sample_decision ?s ?q key sample_policy 10 150 sample_downstream) = Inr digest"
    by (auto simp: planDigestOf_def key_ok_def)
  ultimately show ?thesis by (auto simp: createExecutionPlan_def Let_def)
qed

lemma sample_plan_executes:
  assumes "createExecutionPlan isAddress empty_store sample_decision DEVNET_EXECUTION 10 150 sample_downstream = (store, Inr plan)"
  shows "\<exists>store'. consumeExecutionPlan isAddress store plan (pl_quote plan) None = (store', Inr ())"
proof -
  have "store_ok isAddress store" "plan \<in> issuedPlans store \<and> plan \<notin> consumedPlans store"
    using plans.ok_step [OF empty_store_ok, of isAddress "Create sample_decision DEVNET_EXECUTION 10 150 sample_downstream" store "Created (Inr plan)"]
      plans.minted_fresh [OF empty_store_ok, of isAddress "Create sample_decision DEVNET_EXECUTION 10 150 sample_downstream" store "Created (Inr plan)" plan]
      assms by simp_all
  moreover have "pl_comparisonKey plan = None"
    using created_plan_consent [OF assms] by (simp add: sample_decision_def sample_executable_eq)
  ultimately have "verifyExecutionPlan isAddress store plan (pl_quote plan) None = Inr ()"
    using verify_plan_ok [OF created_plan_ok [OF assms], of store None] by simp
  then show ?thesis by (simp add: consumeExecutionPlan_def)
qed

theorem capabilities_single_use_witness:
  "\<exists>plan quote store tr. run_ops (exec_op (\<lambda>_. True)) empty_store
       [Create sample_decision DEVNET_EXECUTION 10 150 sample_downstream, Execute plan quote None, Execute plan quote None] = (store, tr) \<and>
     uses_in plan_executed plan tr = 1 \<and> minted_before_use plan_created plan_executed {} tr"
proof -
  obtain s plan where c: "createExecutionPlan (\<lambda>_. True) empty_store sample_decision DEVNET_EXECUTION 10 150 sample_downstream = (s, Inr plan)"
    using sample_plan_created by blast
  obtain s' where e: "consumeExecutionPlan (\<lambda>_. True) s plan (pl_quote plan) None = (s', Inr ())" using sample_plan_executes [OF c] by blast
  let ?ops = "[Create sample_decision DEVNET_EXECUTION 10 150 sample_downstream, Execute plan (pl_quote plan) None, Execute plan (pl_quote plan) None]"
  obtain store tr where r: "run_ops (exec_op (\<lambda>_. True)) empty_store ?ops = (store, tr)" by fastforce
  have "uses_in plan_executed plan tr \<noteq> 0" using r c e by (auto split: prod.splits)
  moreover have "uses_in plan_executed plan tr \<le> 1" using capabilities_single_use [OF r] by blast
  ultimately have "uses_in plan_executed plan tr = 1" by simp
  with capabilities_single_use [OF r] r show ?thesis by blast
qed

theorem plan_pins_safe_state_witness:
  "\<exists>store plan rep current. createExecutionPlan (\<lambda>_. True) empty_store sample_decision DEVNET_EXECUTION 10 150 sample_downstream = (store, Inr plan) \<and>
     safe_on_chain rep current \<and> pl_selectedRepresentation plan = summary rep \<and> pl_expiresAtSlot plan = 160"
proof -
  obtain s plan where c: "createExecutionPlan (\<lambda>_. True) empty_store sample_decision DEVNET_EXECUTION 10 150 sample_downstream = (s, Inr plan)"
    using sample_plan_created by blast
  from plan_pins_safe_state [OF sample_decision_eq [of empty_store] c] c show ?thesis by auto
qed

theorem fresh_plan_executes_witness:
  "\<exists>store plan store'. createExecutionPlan (\<lambda>_. True) empty_store sample_decision DEVNET_EXECUTION 10 150 sample_downstream = (store, Inr plan) \<and>
     consumeExecutionPlan (\<lambda>_. True) store plan (pl_quote plan) (ed_comparison sample_decision) = (store', Inr ())"
proof -
  obtain s plan where c: "createExecutionPlan (\<lambda>_. True) empty_store sample_decision DEVNET_EXECUTION 10 150 sample_downstream = (s, Inr plan)"
    using sample_plan_created by blast
  have "run_ops (exec_op (\<lambda>_. True)) s [] = (s, [])" by simp
  from fresh_plan_executes [OF empty_store_ok sample_decision_eq [of empty_store] c this] c show ?thesis by auto
qed

theorem plan_assertions_exact_witness:
  "\<exists>store plan. createExecutionPlan (\<lambda>_. True) empty_store sample_decision DEVNET_EXECUTION 10 150 sample_downstream = (store, Inr plan) \<and>
     assertPlanDownstream (\<lambda>_. True) plan sample_downstream = Inr () \<and> assertPlanFresh plan 160 = Inr () \<and> assertPlanFresh plan 161 \<noteq> Inr ()"
proof -
  obtain s plan where c: "createExecutionPlan (\<lambda>_. True) empty_store sample_decision DEVNET_EXECUTION 10 150 sample_downstream = (s, Inr plan)"
    using sample_plan_created by blast
  from plan_assertions_exact [OF c, of sample_downstream _ 160] plan_assertions_exact [OF c, of sample_downstream _ 161] c show ?thesis
    using sample_downstream_ok by auto
qed

end
