(* ===== verification/Demo_Result.thy ===== *)
theory Demo_Result
  imports Execution_Plan
begin

text \<open>
  Demo results (\<open>packages/representation-state/src/demo-result.ts\<close>): what a mainnet observation and a devnet
  execution report, and the runtime check that keeps the two environments apart. An absent optional field
  is \<open>None\<close>. Reason texts are left out, as in the decisions they come from.
\<close>

section \<open>demo-result.ts: types\<close>

datatype quote_source = JUPITER_MAINNET_SNAPSHOT | DEVNET_DEMO_QUOTE_FIXTURE

datatype quote_status = AVAILABLE_quote | UNAVAILABLE_quote | NOT_APPLICABLE_quote

record quote_availability =
  qa_source :: quote_source
  qa_observedAt :: "string option"
  qa_preferred :: quote_status
  qa_alternative :: quote_status
  qa_note :: string

datatype evidence_kind =
    LIVE_CHAIN_STATE_evidence | LIVE_API_STATE_evidence | JUPITER_ROUTE_DISCOVERY | DEVNET_CHAIN_STATE | DEVNET_DEMO_QUOTE_FIXTURE_evidence

record evidence_reference =
  er_kind :: evidence_kind
  er_description :: string
  er_sha256 :: "string option"
  er_observedAt :: "string option"

record representation_ref =
  rf_underlying :: string
  rf_issuer :: issuer
  rf_symbol :: string
  rf_mint :: string

record devnet_transaction_evidence =
  dt_signature :: string
  dt_slot :: int
  dt_succeeded :: bool
  dt_customErrorName :: "string option"
  dt_downstreamBalanceBefore :: int
  dt_downstreamBalanceAfter :: int
  dt_explorerUrl :: "string option"

record devnet_execution =
  de_executed :: "devnet_transaction_evidence option"
  de_rejectedPreferredAttempt :: "devnet_transaction_evidence option"

record share_terms =
  st_preferredSharesEquivalent :: string
  st_alternativeSharesEquivalent :: string
  st_additionalCostBps :: int
  st_economicEffect :: economic_effect

record demo_result_base =
  dm_underlying :: string
  dm_preferredRepresentation :: representation_ref
  dm_preferredState :: "representation_state option"
  dm_preferredStateSource :: "state_source option"
  dm_alternativeRepresentation :: "representation_ref option"
  dm_alternativeState :: "representation_state option"
  dm_evidenceSources :: "evidence_reference list"
  dm_quoteAvailability :: quote_availability
  dm_shares :: "share_terms option"
  dm_decision :: decision
  dm_reasonCode :: decision_reason_code
  dm_consentRequired :: bool
  dm_executionEligibility :: execution_eligibility
  dm_selectedRepresentation :: "representation_summary option"
  dm_selectedRouteAvailable :: "bool option"
  dm_quoteAvailable :: bool

text \<open>The environment is a text, since the check meets results from outside the type system.\<close>

record demo_result = demo_result_base +
  dm_executionEnvironment :: string
  dm_transactionSignature :: "string option"
  dm_execution :: "devnet_execution option"
  dm_executionPlanDigest :: "string option"

section \<open>demo-result.ts: operations\<close>

definition SHARE_DECIMALS :: nat where
  "SHARE_DECIMALS = 12"

definition ref_of :: "resolved_representation_state \<Rightarrow> representation_ref" where
  "ref_of s = \<lparr>rf_underlying = rr_underlying s, rf_issuer = rr_issuer s, rf_symbol = rr_symbol s, rf_mint = rr_mint s\<rparr>"

definition base_of :: "execution_decision \<Rightarrow> evidence_reference list \<Rightarrow> quote_availability \<Rightarrow> demo_result_base" where
  "base_of execution evidenceSources quoteAvailability =
     (let decision = ed_stateDecision execution in
      \<lparr>dm_underlying = rr_underlying (dr_preferred decision),
       dm_preferredRepresentation = ref_of (dr_preferred decision),
       dm_preferredState = rr_state (dr_preferred decision),
       dm_preferredStateSource = rr_stateSource (dr_preferred decision),
       dm_alternativeRepresentation = map_option ref_of (dr_alternative decision),
       dm_alternativeState = Option.bind (dr_alternative decision) rr_state,
       dm_evidenceSources = evidenceSources,
       dm_quoteAvailability = quoteAvailability,
       dm_shares =
         (case ed_comparison execution of
            None \<Rightarrow> None
          | Some c \<Rightarrow>
              if qc_preferredMint c = rr_mint (dr_preferred decision) \<and> Some (qc_alternativeMint c) = map_option rr_mint (dr_alternative decision)
              then Some \<lparr>st_preferredSharesEquivalent = formatRationalFloor (qc_preferredSharesEquivalent c) SHARE_DECIMALS,
                         st_alternativeSharesEquivalent = formatRationalFloor (qc_alternativeSharesEquivalent c) SHARE_DECIMALS,
                         st_additionalCostBps = qc_additionalCostBps c, st_economicEffect = qc_economicEffect c\<rparr>
              else None),
       dm_decision = dr_decision decision, dm_reasonCode = dr_reasonCode decision,
       dm_consentRequired = (dr_decision decision = REQUIRES_CONSENT),
       dm_executionEligibility = ed_executionEligibility execution,
       dm_selectedRepresentation = ed_selectedRepresentation execution,
       dm_selectedRouteAvailable = ed_selectedRouteAvailable execution, dm_quoteAvailable = ed_quoteAvailable execution\<rparr>)"

text \<open>The messages of the check, as codes, in the order of its tests.\<close>

datatype demo_result_error =
    UnknownEnvironment | MainnetTransactions | MainnetFixtureQuotes | MainnetDevnetEvidence | DevnetMarketQuotes | DevnetMainnetEvidence
  | ExecutedNotExecutable | ExecutedWithoutPlan | ConsentFlag | ConsentEligibility | ExecutableDecision

definition assertDemoResult :: "demo_result \<Rightarrow> demo_result_error + unit" where
  "assertDemoResult r =
     (let cites = (\<lambda>kinds. \<exists>e \<in> set (dm_evidenceSources r). er_kind e \<in> kinds) in
      bindE
        (if dm_executionEnvironment r = ''MAINNET_OBSERVATION'' then
           bindE (throw_if (dm_transactionSignature r \<noteq> None \<or> dm_execution r \<noteq> None \<or> dm_executionPlanDigest r \<noteq> None) MainnetTransactions) (\<lambda>_.
           bindE (throw_if (qa_source (dm_quoteAvailability r) \<noteq> JUPITER_MAINNET_SNAPSHOT) MainnetFixtureQuotes) (\<lambda>_.
           throw_if (cites {DEVNET_CHAIN_STATE, DEVNET_DEMO_QUOTE_FIXTURE_evidence}) MainnetDevnetEvidence))
         else if dm_executionEnvironment r = ''DEVNET_EXECUTION'' then
           bindE (throw_if (qa_source (dm_quoteAvailability r) \<noteq> DEVNET_DEMO_QUOTE_FIXTURE) DevnetMarketQuotes) (\<lambda>_.
           bindE (throw_if (cites {LIVE_CHAIN_STATE_evidence, LIVE_API_STATE_evidence, JUPITER_ROUTE_DISCOVERY}) DevnetMainnetEvidence) (\<lambda>_.
           let executed = Option.bind (dm_execution r) de_executed in
           bindE (throw_if (executed \<noteq> None \<and> dm_executionEligibility r \<noteq> EXECUTABLE) ExecutedNotExecutable) (\<lambda>_.
           throw_if (executed \<noteq> None \<and> dm_executionPlanDigest r \<in> {None, Some ''''}) ExecutedWithoutPlan)))
         else Inl UnknownEnvironment) (\<lambda>_.
      bindE (throw_if (dm_consentRequired r \<noteq> (dm_decision r = REQUIRES_CONSENT)) ConsentFlag) (\<lambda>_.
      bindE (throw_if (dm_consentRequired r \<and> dm_executionEligibility r \<noteq> CONSENT_REQUIRED_eligibility \<and>
               dm_executionEligibility r \<noteq> CONSENT_INVALID) ConsentEligibility) (\<lambda>_.
      throw_if (dm_executionEligibility r = EXECUTABLE \<and> dm_decision r \<noteq> USE_PREFERRED \<and> dm_decision r \<noteq> USE_ALTERNATIVE) ExecutableDecision))))"

definition mainnetObservationResult ::
    "execution_decision \<Rightarrow> evidence_reference list \<Rightarrow> quote_availability \<Rightarrow> demo_result_error + demo_result" where
  "mainnetObservationResult d evidenceSources quoteAvailability =
     (let result = demo_result_base.extend (base_of d evidenceSources quoteAvailability)
            \<lparr>dm_executionEnvironment = ''MAINNET_OBSERVATION'', dm_transactionSignature = None, dm_execution = None,
             dm_executionPlanDigest = None\<rparr>
      in bindE (assertDemoResult result) (\<lambda>_. Inr result))"

definition devnetExecutionResult ::
    "execution_decision \<Rightarrow> evidence_reference list \<Rightarrow> quote_availability \<Rightarrow> devnet_execution option \<Rightarrow> string option \<Rightarrow>
       demo_result_error + demo_result" where
  "devnetExecutionResult d evidenceSources quoteAvailability execution planDigest =
     (let executed = Option.bind execution de_executed;
          result = demo_result_base.extend (base_of d evidenceSources quoteAvailability)
            \<lparr>dm_executionEnvironment = ''DEVNET_EXECUTION'',
             dm_transactionSignature = (case executed of None \<Rightarrow> None | Some e \<Rightarrow> if dt_succeeded e then Some (dt_signature e) else None),
             dm_execution = execution,
             dm_executionPlanDigest = (if planDigest = Some '''' then None else planDigest)\<rparr>
      in bindE (assertDemoResult result) (\<lambda>_. Inr result))"

section \<open>Facts\<close>

text \<open>A decision's eligibility is consistent with its state decision.\<close>

lemma decideExecution_consistent:
  assumes "decideExecution store input = Inr d"
  shows "dr_decision (ed_stateDecision d) = REQUIRES_CONSENT \<longrightarrow> ed_executionEligibility d \<in> {CONSENT_REQUIRED_eligibility, CONSENT_INVALID}"
    and "ed_executionEligibility d = EXECUTABLE \<longrightarrow> dr_decision (ed_stateDecision d) \<in> {USE_PREFERRED, USE_ALTERNATIVE}"
proof -
  obtain base applied where base: "decide input = Inr base" and applied: "applyConsent store base input = Inr applied"
    using assms by (auto simp: decideExecution_def err_simps)
  have d: "ed_stateDecision d = ac_stateDecision applied \<and>
      (dr_decision (ac_stateDecision applied) = REQUIRES_CONSENT \<longrightarrow> ed_executionEligibility d \<in> {CONSENT_REQUIRED_eligibility, CONSENT_INVALID}) \<and>
      (dr_decision (ac_stateDecision applied) \<notin> {USE_PREFERRED, USE_ALTERNATIVE} \<longrightarrow> ed_executionEligibility d \<noteq> EXECUTABLE)"
    using assms base applied keeps_decision [of input applied]
    by (cases "dr_decision (ac_stateDecision applied)")
      (auto simp: decideExecution_def Let_def execution_result_def err_simps split: if_splits option.splits)
  then show "dr_decision (ed_stateDecision d) = REQUIRES_CONSENT \<longrightarrow> ed_executionEligibility d \<in> {CONSENT_REQUIRED_eligibility, CONSENT_INVALID}"
    and "ed_executionEligibility d = EXECUTABLE \<longrightarrow> dr_decision (ed_stateDecision d) \<in> {USE_PREFERRED, USE_ALTERNATIVE}"
    by auto
qed

lemma extend_base_of [simp]:
  "dm_decision (demo_result_base.extend (base_of d ev qa) m) = dr_decision (ed_stateDecision d)"
  "dm_executionEligibility (demo_result_base.extend (base_of d ev qa) m) = ed_executionEligibility d"
  "dm_consentRequired (demo_result_base.extend (base_of d ev qa) m) = (dr_decision (ed_stateDecision d) = REQUIRES_CONSENT)"
  "dm_evidenceSources (demo_result_base.extend (base_of d ev qa) m) = ev"
  "dm_quoteAvailability (demo_result_base.extend (base_of d ev qa) m) = qa"
  by (simp_all add: demo_result_base.extend_def base_of_def Let_def)

lemma extend_more [simp]:
  "dm_executionEnvironment (demo_result_base.extend b \<lparr>dm_executionEnvironment = e, dm_transactionSignature = s, dm_execution = x, dm_executionPlanDigest = p\<rparr>) = e"
  "dm_transactionSignature (demo_result_base.extend b \<lparr>dm_executionEnvironment = e, dm_transactionSignature = s, dm_execution = x, dm_executionPlanDigest = p\<rparr>) = s"
  "dm_execution (demo_result_base.extend b \<lparr>dm_executionEnvironment = e, dm_transactionSignature = s, dm_execution = x, dm_executionPlanDigest = p\<rparr>) = x"
  "dm_executionPlanDigest (demo_result_base.extend b \<lparr>dm_executionEnvironment = e, dm_transactionSignature = s, dm_execution = x, dm_executionPlanDigest = p\<rparr>) = p"
  by (simp_all add: demo_result_base.extend_def)

section \<open>Properties\<close>

text \<open>
  Environments never mix, and a decision is never misreported: of a decision an evaluation returned, a
  mainnet observation is produced exactly when the quotes come from the mainnet snapshot and no devnet
  evidence is cited, and it carries no transaction; a devnet result exactly when the quotes are the demo
  fixture, no mainnet evidence is cited, and an executed transaction had an executable decision and a plan.
\<close>

theorem environments_never_mix:
  assumes "decideExecution store input = Inr d"
  shows "((\<exists>r. mainnetObservationResult d ev qa = Inr r \<and> dm_transactionSignature r = None \<and> dm_execution r = None) \<longleftrightarrow>
      qa_source qa = JUPITER_MAINNET_SNAPSHOT \<and>
      er_kind ` set ev \<subseteq> {LIVE_CHAIN_STATE_evidence, LIVE_API_STATE_evidence, JUPITER_ROUTE_DISCOVERY}) \<and>
    ((\<exists>r. devnetExecutionResult d ev qa execution planDigest = Inr r) \<longleftrightarrow>
      qa_source qa = DEVNET_DEMO_QUOTE_FIXTURE \<and> er_kind ` set ev \<subseteq> {DEVNET_CHAIN_STATE, DEVNET_DEMO_QUOTE_FIXTURE_evidence} \<and>
      (Option.bind execution de_executed = None \<or>
       ed_executionEligibility d = EXECUTABLE \<and> planDigest \<noteq> None \<and> planDigest \<noteq> Some ''''))"
proof -
  note c = decideExecution_consistent [OF assms]
  have kinds: "(\<forall>e \<in> set ev. er_kind e \<notin> {DEVNET_CHAIN_STATE, DEVNET_DEMO_QUOTE_FIXTURE_evidence}) \<longleftrightarrow>
      er_kind ` set ev \<subseteq> {LIVE_CHAIN_STATE_evidence, LIVE_API_STATE_evidence, JUPITER_ROUTE_DISCOVERY}"
    "(\<forall>e \<in> set ev. er_kind e \<notin> {LIVE_CHAIN_STATE_evidence, LIVE_API_STATE_evidence, JUPITER_ROUTE_DISCOVERY}) \<longleftrightarrow>
      er_kind ` set ev \<subseteq> {DEVNET_CHAIN_STATE, DEVNET_DEMO_QUOTE_FIXTURE_evidence}"
    by (auto intro: evidence_kind.exhaust)
  show ?thesis
    unfolding mainnetObservationResult_def devnetExecutionResult_def assertDemoResult_def Let_def kinds [symmetric]
    using c by (auto simp: err_simps)
qed

definition sample_evidence :: "evidence_reference list" where
  "sample_evidence = [\<lparr>er_kind = LIVE_CHAIN_STATE_evidence, er_description = ''mint'', er_sha256 = None, er_observedAt = None\<rparr>]"

definition sample_quotes :: quote_availability where
  "sample_quotes = \<lparr>qa_source = JUPITER_MAINNET_SNAPSHOT, qa_observedAt = None, qa_preferred = AVAILABLE_quote,
     qa_alternative = NOT_APPLICABLE_quote, qa_note = ''''\<rparr>"

theorem environments_never_mix_witness:
  "\<exists>r. mainnetObservationResult sample_decision sample_evidence sample_quotes = Inr r \<and> dm_transactionSignature r = None"
proof -
  have "qa_source sample_quotes = JUPITER_MAINNET_SNAPSHOT"
      "er_kind ` set sample_evidence \<subseteq> {LIVE_CHAIN_STATE_evidence, LIVE_API_STATE_evidence, JUPITER_ROUTE_DISCOVERY}"
    by (simp_all add: sample_quotes_def sample_evidence_def)
  with environments_never_mix [OF sample_decision_eq [of empty_store], of sample_evidence sample_quotes] show ?thesis by blast
qed

end
