(* ===== verification/Capture.thy ===== *)
theory Capture
  imports Chain_State
begin

text \<open>
  Decoding of capture lines (\<open>packages/representation-state/src/capture.ts\<close>): a line of the external recorder or of
  the repository's own recorder becomes chain observations, or line errors when it cannot be attributed to a
  mint. \<open>JSON.parse\<close> is a parameter, \<open>None\<close> when it throws. Message texts are left out.
\<close>

section \<open>capture.ts: types\<close>

record capture_observation =
  cap_lineNumber :: nat
  cap_wallclock :: "string option"
  cap_slot :: "int option"
  cap_blockTime :: "int option"
  cap_symbol :: "string option"
  cap_issuer :: "string option"
  cap_mint :: string
  cap_evidence :: chain_evidence

datatype line_error_code = MalformedJson | UnrecognizedRecord | MissingMint

fun line_code_text :: "line_error_code \<Rightarrow> string" where
  "line_code_text MalformedJson = ''MalformedJson''"
| "line_code_text UnrecognizedRecord = ''UnrecognizedRecord''"
| "line_code_text MissingMint = ''MissingMint''"

datatype capture_record = Observed capture_observation | LineError nat line_error_code

record account_entry =
  ae_symbol :: "string option"
  ae_issuer :: "string option"
  ae_mint :: js_value
  ae_exists :: js_value
  ae_owner :: js_value
  ae_data :: js_value
  ae_encoding :: js_value

section \<open>capture.ts: operations\<close>

fun stringOrNull :: "js_value \<Rightarrow> string option" where
  "stringOrNull (JString s) = Some s"
| "stringOrNull _ = None"

text \<open>\<open>BigInt\<close> of a text that matches \<open>/^-?\d+$/\<close>.\<close>

definition bigint_text :: "string \<Rightarrow> int option" where
  "bigint_text s =
     (case s of
        CHR ''-'' # digits \<Rightarrow> if all_digits digits then Some (- int (nat_of_digits digits)) else None
      | _ \<Rightarrow> if all_digits s then Some (int (nat_of_digits s)) else None)"

fun toBigInt :: "js_value \<Rightarrow> int option" where
  "toBigInt (JNumber JNegZero) = Some 0"
| "toBigInt (JNumber x) = safe_int x"
| "toBigInt (JString s) = bigint_text s"
| "toBigInt _ = None"

text \<open>\<open>s.trim() === ""\<close>.\<close>

definition blank :: "string \<Rightarrow> bool" where
  "blank s = list_all (\<lambda>c. let n = (of_char c :: nat) in 9 \<le> n \<and> n \<le> 13 \<or> n = 32 \<or> n = 160) s"

definition decodeAccount ::
    "nat \<Rightarrow> string option \<Rightarrow> int option \<Rightarrow> int option \<Rightarrow> account_entry \<Rightarrow> js_exn + capture_record" where
  "decodeAccount lineNumber wallclock atSlot blockTime entry =
     (case ae_mint entry of
        JString mint \<Rightarrow>
          if mint = [] then Inr (LineError lineNumber MissingMint)
          else
            let observation = (\<lambda>evidence. Inr (Observed
                  \<lparr>cap_lineNumber = lineNumber, cap_wallclock = wallclock, cap_slot = atSlot, cap_blockTime = blockTime,
                   cap_symbol = ae_symbol entry, cap_issuer = ae_issuer entry, cap_mint = mint, cap_evidence = evidence\<rparr>));
                failure = (\<lambda>code. observation (DecodeError
                  \<lparr>df_mint = mint, df_slot = atSlot, df_blockTime = blockTime, df_observedAt = wallclock, df_code = code\<rparr>))
            in
            if ae_exists entry = JBool False then failure ''AccountNotFound''
            else (case ae_owner entry of
                JString owner \<Rightarrow>
                  (case ae_data entry of
                     JString data \<Rightarrow>
                       if ae_encoding entry \<noteq> JString ''base64'' then failure ''MissingData''
                       else bindE (observeMintAccount
                         \<lparr>ra_mint = mint, ra_owner = owner, ra_data = base64Data data, ra_slot = atSlot, ra_blockTime = blockTime,
                          ra_observedAt = wallclock, ra_chainUnixTimestamp = blockTime\<rparr>) observation
                   | _ \<Rightarrow> failure ''MissingData'')
              | _ \<Rightarrow> failure ''MissingOwner'')
      | _ \<Rightarrow> Inr (LineError lineNumber MissingMint))"

definition poll_entry :: "js_value \<Rightarrow> account_entry" where
  "poll_entry raw =
     \<lparr>ae_symbol = stringOrNull (js_prop raw ''symbol''), ae_issuer = stringOrNull (js_prop raw ''issuer''),
      ae_mint = js_prop raw ''address'', ae_exists = js_prop raw ''exists'', ae_owner = js_prop raw ''owner'',
      ae_data = js_prop raw ''data'', ae_encoding = js_prop raw ''encoding''\<rparr>"

definition schema_entry :: "js_value \<Rightarrow> account_entry" where
  "schema_entry rec =
     \<lparr>ae_symbol = stringOrNull (js_prop rec ''symbol''), ae_issuer = stringOrNull (js_prop rec ''issuer''),
      ae_mint = js_prop rec ''mint'', ae_exists = js_prop rec ''exists'', ae_owner = js_prop rec ''owner'',
      ae_data = js_prop rec ''dataBase64'', ae_encoding = JString ''base64''\<rparr>"

definition decodeCaptureLine :: "(string \<Rightarrow> js_value option) \<Rightarrow> string \<Rightarrow> nat \<Rightarrow> js_exn + capture_record list" where
  "decodeCaptureLine parse line lineNumber =
     (if blank line then Inr []
      else case parse line of
        None \<Rightarrow> Inr [LineError lineNumber MalformedJson]
      | Some (JObject props) \<Rightarrow>
          let rec = JObject props; atSlot = toBigInt (js_prop rec ''slot''); blockTime = toBigInt (js_prop rec ''blockTime'') in
          (case js_prop rec ''accounts'' of
             JArray accounts \<Rightarrow>
               mapE (\<lambda>raw. decodeAccount lineNumber (stringOrNull (js_prop rec ''wallclock'')) atSlot blockTime (poll_entry raw)) accounts
           | _ \<Rightarrow>
               if js_prop rec ''schemaVersion'' = JNumber (JNum 1)
               then bindE (decodeAccount lineNumber (stringOrNull (js_prop rec ''capturedAt'')) atSlot blockTime (schema_entry rec))
                      (\<lambda>r. Inr [r])
               else Inr [LineError lineNumber UnrecognizedRecord])
      | Some _ \<Rightarrow> Inr [LineError lineNumber UnrecognizedRecord])"

section \<open>Facts\<close>

lemma decodeMintMetadata_error:
  "decodeMintMetadata owner data = Inl e \<Longrightarrow> \<exists>code. e = GuardClientError code None"
  using parseMintAccount_error [of owner data]
  by (fastforce simp: decodeMintMetadata_def err_simps Let_def split: option.splits if_splits)

lemma observeMintAccount_total:
  "\<exists>evidence. observeMintAccount account = Inr evidence \<and> evidence_mint evidence = ra_mint account \<and>
     evidence_slot evidence = ra_slot account \<and> evidence_blockTime evidence = ra_blockTime account"
proof (cases "bindE (decodeProtectedState (ra_owner account) (ra_data account)) (\<lambda>st.
           bindE (decodeMintMetadata (ra_owner account) (ra_data account)) (\<lambda>meta. Inr (st, meta)))")
  case (Inl e)
  then obtain code where "e = GuardClientError code None"
    using decodeProtectedState_error [of "ra_owner account" "ra_data account"] decodeMintMetadata_error [of "ra_owner account" "ra_data account"]
    by (auto simp: err_simps)
  with Inl show ?thesis by (simp add: observeMintAccount_def)
next
  case (Inr x)
  then show ?thesis by (cases x) (simp add: observeMintAccount_def)
qed

text \<open>What a record of a line carries.\<close>

fun record_ok :: "nat \<Rightarrow> int option \<Rightarrow> int option \<Rightarrow> capture_record \<Rightarrow> bool" where
  "record_ok lineNumber atSlot blockTime (LineError n code) = (n = lineNumber)"
| "record_ok lineNumber atSlot blockTime (Observed obs) =
     (cap_lineNumber obs = lineNumber \<and> cap_mint obs \<noteq> [] \<and> cap_slot obs = atSlot \<and> cap_blockTime obs = blockTime \<and>
      evidence_mint (cap_evidence obs) = cap_mint obs \<and> evidence_slot (cap_evidence obs) = atSlot \<and>
      evidence_blockTime (cap_evidence obs) = blockTime)"

lemma decodeAccount_total:
  "\<exists>r. decodeAccount lineNumber wallclock atSlot blockTime entry = Inr r \<and> record_ok lineNumber atSlot blockTime r"
proof -
  have "\<exists>evidence. observeMintAccount a = Inr evidence \<and> evidence_mint evidence = ra_mint a \<and>
     evidence_slot evidence = ra_slot a \<and> evidence_blockTime evidence = ra_blockTime a" for a
    by (rule observeMintAccount_total)
  from this [of "\<lparr>ra_mint = m, ra_owner = ow, ra_data = base64Data d, ra_slot = atSlot, ra_blockTime = blockTime,
                          ra_observedAt = wallclock, ra_chainUnixTimestamp = blockTime\<rparr>" for m ow d]
  show ?thesis
    by (fastforce simp: decodeAccount_def Let_def err_simps split: js_value.splits)
qed

section \<open>Properties\<close>

text \<open>
  Decoding a capture line never throws, whatever the line: it returns records of that line, and every
  observation has a mint, carries the line's slot and block time, and its evidence is about that mint, slot
  and time.
\<close>

theorem capture_line_total:
  "\<exists>records. decodeCaptureLine parse line lineNumber = Inr records \<and>
     (let v = the (parse line) in
      list_all (record_ok lineNumber (toBigInt (js_prop v ''slot'')) (toBigInt (js_prop v ''blockTime''))) records)"
proof -
  let ?s = "toBigInt (js_prop (the (parse line)) ''slot'')" and ?t = "toBigInt (js_prop (the (parse line)) ''blockTime'')"
  have m: "\<exists>rs. mapE (\<lambda>raw. decodeAccount lineNumber w ?s ?t (f raw)) xs = Inr rs \<and> list_all (record_ok lineNumber ?s ?t) rs"
    for w f and xs :: "js_value list"
  proof (induction xs)
    case (Cons x xs)
    from decodeAccount_total [of lineNumber w ?s ?t "f x"] Cons.IH show ?case by (auto simp: err_simps)
  qed simp
  show ?thesis
    using m decodeAccount_total [of lineNumber _ ?s ?t]
    by (fastforce simp: decodeCaptureLine_def Let_def err_simps split: option.splits js_value.splits)
qed

end
