(* ===== verification/Observation_Events.thy ===== *)
theory Observation_Events
  imports Capture Decision
begin

text \<open>
  Change detection over decoded observations (\<open>packages/representation-state/src/events.ts\<close>). The detectors
  keep maps by mint; \<open>push\<close> returns the detector beside its events. The message of a decode error is left
  out of its event's detail.
\<close>

section \<open>events.ts: types\<close>

datatype observation_event_type =
    SCALED_UI_STATE_CHANGED | ACTIVATION_PHASE_CHANGED | PAUSE_STATE_CHANGED | STATE_SOURCE_CONFLICT | DECODE_ERROR

record ('previous, 'current) observation_event =
  ev_type :: observation_event_type
  ev_issuer :: "string option"
  ev_symbol :: "string option"
  ev_mint :: "string option"
  ev_slot :: "int option"
  ev_blockTime :: "int option"
  ev_wallclock :: "string option"
  ev_previous :: "'previous option"
  ev_current :: 'current
  ev_detail :: "string list"

type_synonym capture_event = "(capture_observation, capture_record) observation_event"

record event_detector =
  lastDecoded :: "string \<rightharpoonup> capture_observation"
  lastErrorCode :: "string \<rightharpoonup> string"

definition new_detector :: event_detector where
  "new_detector = \<lparr>lastDecoded = Map.empty, lastErrorCode = Map.empty\<rparr>"

section \<open>events.ts: the observation detector\<close>

definition line_event :: "nat \<Rightarrow> line_error_code \<Rightarrow> capture_event" where
  "line_event lineNumber code =
     \<lparr>ev_type = DECODE_ERROR, ev_issuer = None, ev_symbol = None, ev_mint = None, ev_slot = None, ev_blockTime = None,
      ev_wallclock = None, ev_previous = None, ev_current = LineError lineNumber code,
      ev_detail = [''line '' @ string_of_int (int lineNumber) @ '': '' @ line_code_text code]\<rparr>"

definition event_of :: "capture_observation \<Rightarrow> capture_observation option \<Rightarrow> observation_event_type \<Rightarrow> string list \<Rightarrow> capture_event" where
  "event_of obs previous type detail =
     \<lparr>ev_type = type, ev_issuer = cap_issuer obs, ev_symbol = cap_symbol obs, ev_mint = Some (cap_mint obs), ev_slot = cap_slot obs,
      ev_blockTime = cap_blockTime obs, ev_wallclock = cap_wallclock obs, ev_previous = previous, ev_current = Observed obs,
      ev_detail = detail\<rparr>"

definition changed_fields :: "protected_state \<Rightarrow> protected_state \<Rightarrow> string list" where
  "changed_fields before after =
     (if \<not> bytesEqual (multiplier before) (multiplier after) then [''multiplier''] else []) @
     (if \<not> bytesEqual (newMultiplier before) (newMultiplier after) then [''newMultiplier''] else []) @
     (if newMultiplierEffectiveTimestamp before \<noteq> newMultiplierEffectiveTimestamp after then [''newMultiplierEffectiveTimestamp''] else [])"

fun paused_text :: "bool option \<Rightarrow> string" where
  "paused_text None = ''null''"
| "paused_text (Some True) = ''true''"
| "paused_text (Some False) = ''false''"

text \<open>The events of a decoded observation against the previous decoded one.\<close>

definition change_events :: "capture_observation \<Rightarrow> chain_observation \<Rightarrow> chain_observation \<Rightarrow> capture_observation \<Rightarrow> capture_event list" where
  "change_events previous before evidence obs =
     (let event = event_of obs (Some previous); changed = changed_fields (co_protectedState before) (co_protectedState evidence) in
      (if changed \<noteq> [] then [event SCALED_UI_STATE_CHANGED changed] else []) @
      (case (co_phase before, co_phase evidence) of
         (Some p, Some q) \<Rightarrow>
           if p \<noteq> q then [event ACTIVATION_PHASE_CHANGED [''phase '' @ string_of_int p @ '' -> '' @ string_of_int q]] else []
       | _ \<Rightarrow> []) @
      (if co_paused before \<noteq> co_paused evidence
       then [event PAUSE_STATE_CHANGED [''paused '' @ paused_text (co_paused before) @ '' -> '' @ paused_text (co_paused evidence)]]
       else []))"

fun push_record :: "event_detector \<Rightarrow> capture_record \<Rightarrow> event_detector \<times> capture_event list" where
  "push_record d (LineError lineNumber code) = (d, [line_event lineNumber code])"
| "push_record d (Observed obs) =
     (let mint = cap_mint obs; previous = lastDecoded d mint in
      case cap_evidence obs of
        DecodeError f \<Rightarrow>
          if lastErrorCode d mint = Some (df_code f) then (d, [])
          else (d\<lparr>lastErrorCode := (lastErrorCode d)(mint \<mapsto> df_code f)\<rparr>, [event_of obs previous DECODE_ERROR [df_code f]])
      | Decoded evidence \<Rightarrow>
          (d\<lparr>lastErrorCode := (lastErrorCode d)(mint := None), lastDecoded := (lastDecoded d)(mint \<mapsto> obs)\<rparr>,
           (case previous of
              None \<Rightarrow> []
            | Some p \<Rightarrow> (case cap_evidence p of DecodeError _ \<Rightarrow> [] | Decoded before \<Rightarrow> change_events p before evidence obs))))"

section \<open>events.ts: the conflict detector\<close>

fun state_or_null :: "representation_state option \<Rightarrow> string" where
  "state_or_null None = ''null''"
| "state_or_null (Some s) = state_text s"

type_synonym conflict_detector = "string \<rightharpoonup> resolved_representation_state"

definition push_resolved ::
    "conflict_detector \<Rightarrow> resolved_representation_state \<Rightarrow>
       conflict_detector \<times> (resolved_representation_state, resolved_representation_state) observation_event list" where
  "push_resolved d resolved =
     (let previous = d (rr_mint resolved);
          entered = (rr_stateSource resolved = Some CONFLICT \<and> Option.bind previous rr_stateSource \<noteq> Some CONFLICT)
      in (d(rr_mint resolved \<mapsto> resolved),
          if \<not> entered then []
          else [\<lparr>ev_type = STATE_SOURCE_CONFLICT, ev_issuer = Some (issuer_text (rr_issuer resolved)), ev_symbol = Some (rr_symbol resolved),
                 ev_mint = Some (rr_mint resolved), ev_slot = rr_slot resolved, ev_blockTime = rr_blockTime resolved,
                 ev_wallclock = rr_observedAt resolved, ev_previous = previous, ev_current = resolved,
                 ev_detail = [''chain '' @ state_or_null (rr_chainState resolved) @ '' vs api '' @ state_or_null (rr_apiState resolved)]\<rparr>]))"

section \<open>The history a detector reflects\<close>

definition last_of :: "'a list \<Rightarrow> 'a option" where
  "last_of xs = (if xs = [] then None else Some (last xs))"

lemma last_of_snoc [simp]: "last_of [] = None" "last_of (xs @ [x]) = Some x"
  by (simp_all add: last_of_def)

fun decoded_state :: "capture_observation \<Rightarrow> chain_observation option" where
  "decoded_state obs = (case cap_evidence obs of Decoded e \<Rightarrow> Some e | DecodeError _ \<Rightarrow> None)"

fun error_code :: "capture_observation \<Rightarrow> string option" where
  "error_code obs = (case cap_evidence obs of Decoded _ \<Rightarrow> None | DecodeError f \<Rightarrow> Some (df_code f))"

fun observation_of :: "string \<Rightarrow> capture_record \<Rightarrow> capture_observation list" where
  "observation_of mint (Observed obs) = (if cap_mint obs = mint then [obs] else [])"
| "observation_of mint (LineError _ _) = []"

text \<open>The observations of a mint in a history, and those that decoded.\<close>

definition history :: "capture_record list \<Rightarrow> string \<Rightarrow> capture_observation list" where
  "history hs mint = concat (map (observation_of mint) hs)"

definition decoded_history :: "capture_record list \<Rightarrow> string \<Rightarrow> capture_observation list" where
  "decoded_history hs mint = filter (\<lambda>obs. decoded_state obs \<noteq> None) (history hs mint)"

lemma history_snoc [simp]:
  "history [] mint = []" "history (hs @ [r]) mint = history hs mint @ observation_of mint r"
  by (simp_all add: history_def)

lemma decoded_history_snoc [simp]:
  "decoded_history [] mint = []"
  "decoded_history (hs @ [r]) mint = decoded_history hs mint @ filter (\<lambda>obs. decoded_state obs \<noteq> None) (observation_of mint r)"
  by (simp_all add: decoded_history_def)

definition detector_after :: "capture_record list \<Rightarrow> event_detector" where
  "detector_after hs = foldl (\<lambda>d r. fst (push_record d r)) new_detector hs"

lemma detector_after_snoc [simp]:
  "detector_after [] = new_detector" "detector_after (hs @ [r]) = fst (push_record (detector_after hs) r)"
  by (simp_all add: detector_after_def)

lemma detector_reflects_history:
  "lastDecoded (detector_after hs) mint = last_of (decoded_history hs mint) \<and>
   lastErrorCode (detector_after hs) mint = Option.bind (last_of (history hs mint)) error_code"
proof (induction hs rule: rev_induct)
  case Nil
  show ?case by (simp add: new_detector_def)
next
  case (snoc r hs)
  show ?case
  proof (cases r)
    case (LineError n code)
    with snoc show ?thesis by simp
  next
    case (Observed obs)
    with snoc show ?thesis by (cases "cap_evidence obs") (auto simp: Let_def)
  qed
qed

lemma decoded_history_decoded: "last_of (decoded_history hs mint) = Some p \<Longrightarrow> \<exists>e. cap_evidence p = Decoded e"
proof -
  assume "last_of (decoded_history hs mint) = Some p"
  then have "p \<in> set (decoded_history hs mint)" by (auto simp: last_of_def split: if_splits)
  then show ?thesis by (auto simp: decoded_history_def split: chain_evidence.splits)
qed

lemma changed_fields_Nil [simp]: "changed_fields before after = [] \<longleftrightarrow> before = after"
  by (auto simp: changed_fields_def intro: protected_state.equality)

lemma event_of_type [simp]: "ev_type (event_of obs previous type detail) = type"
  by (simp add: event_of_def)

section \<open>Properties\<close>

text \<open>The events a record should have, from the records before it.\<close>

fun history_events :: "capture_record list \<Rightarrow> capture_record \<Rightarrow> capture_event list" where
  "history_events hs (LineError lineNumber code) = [line_event lineNumber code]"
| "history_events hs (Observed obs) =
     (case cap_evidence obs of
        DecodeError f \<Rightarrow>
          if Option.bind (last_of (history hs (cap_mint obs))) error_code = Some (df_code f) then []
          else [event_of obs (last_of (decoded_history hs (cap_mint obs))) DECODE_ERROR [df_code f]]
      | Decoded after \<Rightarrow>
          (case last_of (decoded_history hs (cap_mint obs)) of
             None \<Rightarrow> []
           | Some p \<Rightarrow> change_events p (the (decoded_state p)) after obs))"

text \<open>
  The streaming detector computes the history's changes: after any records, a line error is always
  reported; a decode error exactly when the mint's previous observation was not a decode error with the
  same code; and a decoded observation reports exactly the differences to the mint's last decoded
  observation, in protected state, in a phase known on both sides, and in the pause flag. Records of
  other mints never matter.
\<close>

theorem detector_reports_history_changes:
  "snd (push_record (detector_after hs) r) = history_events hs r \<and>
   ev_type ` set (change_events p before after obs) =
     (if co_protectedState before = co_protectedState after then {} else {SCALED_UI_STATE_CHANGED}) \<union>
     (if \<exists>x y. co_phase before = Some x \<and> co_phase after = Some y \<and> x \<noteq> y then {ACTIVATION_PHASE_CHANGED} else {}) \<union>
     (if co_paused before = co_paused after then {} else {PAUSE_STATE_CHANGED})"
proof
  show "snd (push_record (detector_after hs) r) = history_events hs r"
  proof (cases r)
    case (Observed obs)
    show ?thesis
      using detector_reflects_history [of hs "cap_mint obs"] decoded_history_decoded [of hs "cap_mint obs"]
      by (auto simp: Observed Let_def split: chain_evidence.splits option.splits)
  qed simp
qed (auto simp: change_events_def Let_def split: option.splits)

text \<open>
  A phase change across an observation without chain time is not reported: the observation without a
  phase becomes the previous decoded one, and a phase is compared only when it is known on both sides.
\<close>

lemma masked_phase_change:
  assumes "cap_evidence a = Decoded before" and "cap_evidence b = Decoded (before\<lparr>co_phase := None\<rparr>)" and "cap_evidence c = Decoded (before\<lparr>co_phase := Some p\<rparr>)"
    and "cap_mint b = cap_mint a" and "cap_mint c = cap_mint a"
  shows "snd (push_record (detector_after [Observed a]) (Observed b)) = []"
    and "snd (push_record (detector_after [Observed a, Observed b]) (Observed c)) = []"
proof -
  have h: "detector_after [Observed a] = fst (push_record new_detector (Observed a))"
    "detector_after [Observed a, Observed b] = fst (push_record (fst (push_record new_detector (Observed a))) (Observed b))"
    by (simp_all add: detector_after_def)
  show "snd (push_record (detector_after [Observed a]) (Observed b)) = []"
    and "snd (push_record (detector_after [Observed a, Observed b]) (Observed c)) = []"
    unfolding h using assms by (simp_all add: Let_def change_events_def split: option.splits)
qed

end
