(* ===== verification/Timeline.thy ===== *)
theory Timeline
  imports Observation_Events "HOL-Library.AList" "HOL-Library.Product_Lexorder"
begin

text \<open>
  The observation timeline (\<open>packages/representation-state/src/timeline.ts\<close>). Maps are association lists in
  insertion order, as JavaScript iterates them; \<open>Date.parse\<close> is a parameter that returns \<open>None\<close> for \<open>NaN\<close>.
  Times and counts are integers: the code's numbers are exact for them while spans stay below \<open>2\<^sup>5\<^sup>0\<close>
  milliseconds. The decimal renderings of the multipliers, display only in the source, and error messages
  are left out.
\<close>

section \<open>timeline.ts: types\<close>

definition CAPTURE_CADENCE_SECS :: int where
  "CAPTURE_CADENCE_SECS = 30"

definition CAPTURE_GAP_THRESHOLD_SECS :: int where
  "CAPTURE_GAP_THRESHOLD_SECS = 60"

datatype quality_status = GOOD | DEGRADED | INSUFFICIENT

record state_fields =
  sf_decimals :: nat
  sf_multiplierHex :: string
  sf_newMultiplierHex :: string
  sf_effectiveTimestamp :: int
  sf_phase :: "string option"
  sf_paused :: "bool option"

record tl_identity =
  tl_issuer :: "string option"
  tl_symbol :: "string option"
  tl_mint :: "string option"

record stable_interval = tl_identity +
  si_first :: capture_observation
  si_last :: capture_observation
  si_observations :: nat
  si_state :: state_fields

record state_change = tl_identity +
  sg_record :: capture_observation
  sg_events :: "observation_event_type list"
  sg_changedFields :: "string list"
  sg_previous :: state_fields
  sg_current :: state_fields

record error_entry = tl_identity +
  ee_code :: string
  ee_firstWallclock :: "string option"
  ee_lastWallclock :: "string option"
  ee_firstSlot :: "int option"
  ee_lastSlot :: "int option"
  ee_firstLine :: nat
  ee_lastLine :: nat
  ee_occurrences :: nat

record poll_point =
  pp_line :: nat
  pp_wallclock :: string
  pp_ms :: int
  pp_slot :: "int option"
  pp_blockTime :: "int option"

record capture_gap = tl_identity +
  cg_from :: poll_point
  cg_to :: poll_point
  cg_wallclockGapMs :: int
  cg_blockTimeGapSecs :: "int option"

record observation_entry = tl_identity +
  oe_record :: capture_observation
  oe_state :: "state_fields option"
  oe_error :: "string option"

text \<open>
  An interval, a change and an observation carry the captured records whose wallclock, slot, block time and
  line they report; a gap carries its two polls.
\<close>

datatype timeline_entry =
    CAPTURE_GAP capture_gap
  | DECODE_ERROR_entry error_entry
  | STATE_CHANGE state_change
  | STABLE_INTERVAL stable_interval
  | OBSERVATION observation_entry

fun KIND_RANK :: "timeline_entry \<Rightarrow> nat" where
  "KIND_RANK (CAPTURE_GAP _) = 0"
| "KIND_RANK (DECODE_ERROR_entry _) = 1"
| "KIND_RANK (STATE_CHANGE _) = 2"
| "KIND_RANK (STABLE_INTERVAL _) = 3"
| "KIND_RANK (OBSERVATION _) = 4"

fun entry_symbol :: "timeline_entry \<Rightarrow> string option" where
  "entry_symbol (CAPTURE_GAP g) = tl_symbol g"
| "entry_symbol (DECODE_ERROR_entry e) = tl_symbol e"
| "entry_symbol (STATE_CHANGE c) = tl_symbol c"
| "entry_symbol (STABLE_INTERVAL i) = tl_symbol i"
| "entry_symbol (OBSERVATION x) = tl_symbol x"

record open_interval =
  oi_first :: capture_observation
  oi_last :: capture_observation
  oi_observations :: nat
  oi_state :: state_fields

record open_error_run =
  or_first :: capture_observation
  or_last :: capture_observation
  or_code :: string
  or_occurrences :: nat

record symbol_track =
  tk_issuer :: "string option"
  tk_symbol :: string
  tk_mint :: string
  tk_interval :: "open_interval option"
  tk_errors :: "open_error_run option"
  tk_lastPoint :: "poll_point option"
  tk_lastDecoded :: "state_fields option"
  tk_polls :: "poll_point list"
  tk_decodeErrors :: nat
  tk_gaps :: nat

type_synonym keyed_entry = "(nat \<times> nat \<times> string) \<times> timeline_entry"

record quality_metrics =
  qm_firstWallclock :: "string option"
  qm_lastWallclock :: "string option"
  qm_firstSlot :: "int option"
  qm_lastSlot :: "int option"
  qm_totalPolls :: nat
  qm_expectedPolls :: int
  qm_observedPolls :: nat
  qm_largestWallclockGapMs :: int
  qm_largestBlockTimeGapSecs :: "int option"
  qm_coverageBps :: int
  qm_coveragePercent :: string
  qm_decodeErrors :: nat
  qm_gaps :: nat
  qm_status :: quality_status

record timeline_result =
  tr_entries :: "timeline_entry list"
  tr_overall :: quality_metrics
  tr_bySymbol :: "(string \<times> quality_metrics) list"

section \<open>timeline.ts: evidence quality\<close>

fun countGaps :: "poll_point list \<Rightarrow> nat" where
  "countGaps (p # q # ps) =
     (if pp_ms q - pp_ms p \<ge> CAPTURE_GAP_THRESHOLD_SECS * 1000 then Suc (countGaps (q # ps)) else countGaps (q # ps))"
| "countGaps _ = 0"

text \<open>The loop over consecutive polls: the two largest gaps so far.\<close>

fun largest_gaps :: "poll_point list \<Rightarrow> int \<Rightarrow> int option \<Rightarrow> int \<times> int option" where
  "largest_gaps (p # q # ps) wall block =
     largest_gaps (q # ps) (max wall (pp_ms q - pp_ms p))
       (case (pp_blockTime p, pp_blockTime q) of
          (Some s, Some t) \<Rightarrow>
            (case block of None \<Rightarrow> Some (t - s) | Some b \<Rightarrow> if t - s > b then Some (t - s) else block)
        | _ \<Rightarrow> block)"
| "largest_gaps _ wall block = (wall, block)"

definition quality_status_of :: "nat \<Rightarrow> int \<Rightarrow> int \<Rightarrow> nat \<Rightarrow> quality_status" where
  "quality_status_of observedPolls coverageBps largestGap decodeErrors =
     (if observedPolls \<ge> 2 \<and> coverageBps \<ge> 9800 \<and> largestGap \<le> 90000 \<and> decodeErrors \<le> 0 then GOOD
      else if observedPolls \<ge> 2 \<and> coverageBps \<ge> 9000 \<and> largestGap \<le> 300000 then DEGRADED
      else INSUFFICIENT)"

definition coverage_bps :: "nat \<Rightarrow> int \<Rightarrow> int" where
  "coverage_bps observedPolls expectedPolls =
     (if expectedPolls = 0 then 0 else min 10000 (int (observedPolls * 10000) div expectedPolls))"

definition qualityMetrics :: "poll_point list \<Rightarrow> nat \<Rightarrow> nat \<Rightarrow> nat \<Rightarrow> quality_metrics" where
  "qualityMetrics polls totalPolls decodeErrors gaps =
     (let (wallGap, blockGap) = largest_gaps polls 0 None;
          first = (if polls = [] then None else Some (hd polls)); last = (if polls = [] then None else Some (last polls));
          expectedPolls = (if polls = [] then 0 else (pp_ms (the last) - pp_ms (the first)) div (CAPTURE_CADENCE_SECS * 1000) + 1);
          coverageBps = coverage_bps (length polls) expectedPolls
      in \<lparr>qm_firstWallclock = map_option pp_wallclock first, qm_lastWallclock = map_option pp_wallclock last,
          qm_firstSlot = Option.bind first pp_slot, qm_lastSlot = Option.bind last pp_slot,
          qm_totalPolls = totalPolls, qm_expectedPolls = expectedPolls, qm_observedPolls = length polls,
          qm_largestWallclockGapMs = wallGap, qm_largestBlockTimeGapSecs = blockGap, qm_coverageBps = coverageBps,
          qm_coveragePercent = string_of_int (coverageBps div 100) @ ''.'' @ padStart_zero 2 (string_of_int (coverageBps smod 100)),
          qm_decodeErrors = decodeErrors, qm_gaps = gaps,
          qm_status = quality_status_of (length polls) coverageBps wallGap decodeErrors\<rparr>)"

section \<open>timeline.ts: one record\<close>

definition stateFields :: "chain_observation \<Rightarrow> state_fields" where
  "stateFields evidence =
     \<lparr>sf_decimals = co_decimals evidence, sf_multiplierHex = hexOf (multiplier (co_protectedState evidence)),
      sf_newMultiplierHex = hexOf (newMultiplier (co_protectedState evidence)),
      sf_effectiveTimestamp = newMultiplierEffectiveTimestamp (co_protectedState evidence),
      sf_phase = map_option (\<lambda>p. if p = 0 then ''pending'' else ''activated'') (co_phase evidence), sf_paused = co_paused evidence\<rparr>"

definition wallclockMs :: "(string \<Rightarrow> int option) \<Rightarrow> capture_observation \<Rightarrow> int option" where
  "wallclockMs parse obs = Option.bind (cap_wallclock obs) parse"

definition keyed :: "nat \<Rightarrow> timeline_entry \<Rightarrow> keyed_entry" where
  "keyed line entry = ((line, KIND_RANK entry, case entry_symbol entry of None \<Rightarrow> '''' | Some s \<Rightarrow> s), entry)"

abbreviation (input) track_identity :: "symbol_track \<Rightarrow> tl_identity" where
  "track_identity track \<equiv> \<lparr>tl_issuer = tk_issuer track, tl_symbol = Some (tk_symbol track), tl_mint = Some (tk_mint track)\<rparr>"

definition closeInterval :: "symbol_track \<Rightarrow> keyed_entry list \<times> symbol_track" where
  "closeInterval track =
     (case tk_interval track of
        None \<Rightarrow> ([], track)
      | Some i \<Rightarrow>
          ([keyed (cap_lineNumber (oi_first i)) (STABLE_INTERVAL (tl_identity.extend (track_identity track)
             \<lparr>si_first = oi_first i, si_last = oi_last i, si_observations = oi_observations i, si_state = oi_state i\<rparr>))],
           track\<lparr>tk_interval := None\<rparr>))"

definition closeErrors :: "symbol_track \<Rightarrow> keyed_entry list \<times> symbol_track" where
  "closeErrors track =
     (case tk_errors track of
        None \<Rightarrow> ([], track)
      | Some run \<Rightarrow>
          ([keyed (cap_lineNumber (or_first run)) (DECODE_ERROR_entry (tl_identity.extend (track_identity track)
             \<lparr>ee_code = or_code run, ee_firstWallclock = cap_wallclock (or_first run), ee_lastWallclock = cap_wallclock (or_last run),
              ee_firstSlot = cap_slot (or_first run), ee_lastSlot = cap_slot (or_last run),
              ee_firstLine = cap_lineNumber (or_first run), ee_lastLine = cap_lineNumber (or_last run),
              ee_occurrences = or_occurrences run\<rparr>))],
           track\<lparr>tk_errors := None\<rparr>))"

definition observation_entry_of :: "symbol_track \<Rightarrow> capture_observation \<Rightarrow> state_fields option \<Rightarrow> string option \<Rightarrow> timeline_entry" where
  "observation_entry_of track obs state err =
     OBSERVATION (tl_identity.extend (track_identity track) \<lparr>oe_record = obs, oe_state = state, oe_error = err\<rparr>)"

text \<open>The poll of a record with a parseable wallclock: a long silence closes what is open and is reported.\<close>

definition poll_of :: "(string \<Rightarrow> int option) \<Rightarrow> capture_observation \<Rightarrow> poll_point option" where
  "poll_of parse obs =
     map_option (\<lambda>ms. \<lparr>pp_line = cap_lineNumber obs, pp_wallclock = the (cap_wallclock obs), pp_ms = ms, pp_slot = cap_slot obs,
                       pp_blockTime = cap_blockTime obs\<rparr>) (wallclockMs parse obs)"

definition observe_poll :: "poll_point option \<Rightarrow> capture_observation \<Rightarrow> symbol_track \<Rightarrow> keyed_entry list \<times> symbol_track" where
  "observe_poll poll obs track =
     (case poll of
        None \<Rightarrow> ([], track)
      | Some point \<Rightarrow>
          let (es, track) =
            (case tk_lastPoint track of
               None \<Rightarrow> ([], track)
             | Some previous \<Rightarrow>
                 if pp_ms point - pp_ms previous < CAPTURE_GAP_THRESHOLD_SECS * 1000 then ([], track)
                 else
                   let (e1, t1) = closeInterval track; (e2, t2) = closeErrors t1;
                       gap = CAPTURE_GAP (tl_identity.extend (track_identity track)
                         \<lparr>cg_from = previous, cg_to = point, cg_wallclockGapMs = pp_ms point - pp_ms previous,
                          cg_blockTimeGapSecs =
                            (case (pp_blockTime previous, pp_blockTime point) of (Some s, Some t) \<Rightarrow> Some (t - s) | _ \<Rightarrow> None)\<rparr>)
                   in (e1 @ e2 @ [keyed (cap_lineNumber obs) gap], t2\<lparr>tk_gaps := Suc (tk_gaps t2)\<rparr>))
          in (es, track\<lparr>tk_lastPoint := Some point, tk_polls := tk_polls track @ [point]\<rparr>))"

definition observe_error :: "bool \<Rightarrow> capture_observation \<Rightarrow> chain_decode_failure \<Rightarrow> symbol_track \<Rightarrow> keyed_entry list \<times> symbol_track" where
  "observe_error verbose obs failure track =
     (let (e1, t1) = closeInterval (track\<lparr>tk_decodeErrors := Suc (tk_decodeErrors track)\<rparr>);
          fresh = \<lparr>or_first = obs, or_last = obs, or_code = df_code failure, or_occurrences = 1\<rparr>;
          (e2, t2) =
            (case tk_errors t1 of
               Some run \<Rightarrow>
                 if or_code run = df_code failure
                 then ([], t1\<lparr>tk_errors := Some (run\<lparr>or_last := obs, or_occurrences := Suc (or_occurrences run)\<rparr>)\<rparr>)
                 else let (e, t) = closeErrors t1 in (e, t\<lparr>tk_errors := Some fresh\<rparr>)
             | None \<Rightarrow> let (e, t) = closeErrors t1 in (e, t\<lparr>tk_errors := Some fresh\<rparr>))
      in (e1 @ e2 @ (if verbose then [keyed (cap_lineNumber obs) (observation_entry_of track obs None (Some (df_code failure)))] else []), t2))"

definition observe_decoded ::
    "bool \<Rightarrow> capture_observation \<Rightarrow> chain_observation \<Rightarrow> capture_event list \<Rightarrow> symbol_track \<Rightarrow> keyed_entry list \<times> symbol_track" where
  "observe_decoded verbose obs evidence events track =
     (let (e1, t1) = closeErrors track; current = stateFields evidence;
          (e2, t2) =
            (case tk_lastDecoded t1 of
               Some previous \<Rightarrow>
                 if events = [] then ([], t1)
                 else let (e, t) = closeInterval t1 in
                   (e @ [keyed (cap_lineNumber obs) (STATE_CHANGE (tl_identity.extend (track_identity track)
                      \<lparr>sg_record = obs, sg_events = map ev_type events, sg_changedFields = concat (map ev_detail events),
                       sg_previous = previous, sg_current = current\<rparr>))], t)
             | None \<Rightarrow> ([], t1));
          interval = (case tk_interval t2 of
               Some i \<Rightarrow> i\<lparr>oi_last := obs, oi_observations := Suc (oi_observations i)\<rparr>
             | None \<Rightarrow> \<lparr>oi_first = obs, oi_last = obs, oi_observations = 1, oi_state = current\<rparr>)
      in (e1 @ e2 @ (if verbose then [keyed (cap_lineNumber obs) (observation_entry_of track obs (Some current) None)] else []),
          t2\<lparr>tk_interval := Some interval, tk_lastDecoded := Some current\<rparr>))"

definition new_track :: "capture_observation \<Rightarrow> string \<Rightarrow> symbol_track" where
  "new_track obs symbol =
     \<lparr>tk_issuer = cap_issuer obs, tk_symbol = symbol, tk_mint = cap_mint obs, tk_interval = None, tk_errors = None, tk_lastPoint = None,
      tk_lastDecoded = None, tk_polls = [], tk_decodeErrors = 0, tk_gaps = 0\<rparr>"

section \<open>timeline.ts: the timeline\<close>

record timeline_state =
  ts_entries :: "keyed_entry list"
  ts_detector :: event_detector
  ts_tracks :: "(string \<times> symbol_track) list"
  ts_overallPolls :: "(nat \<times> poll_point) list"
  ts_allPollLines :: "nat list"
  ts_lineErrors :: nat

record timeline_options =
  to_symbols :: "string set option"
  to_verbose :: bool

definition new_timeline :: timeline_state where
  "new_timeline = \<lparr>ts_entries = [], ts_detector = new_detector, ts_tracks = [], ts_overallPolls = [], ts_allPollLines = [], ts_lineErrors = 0\<rparr>"

definition symbol_of :: "capture_observation \<Rightarrow> string" where
  "symbol_of obs = (case cap_symbol obs of None \<Rightarrow> cap_mint obs | Some s \<Rightarrow> s)"

definition excluded :: "timeline_options \<Rightarrow> string \<Rightarrow> bool" where
  "excluded options symbol = (case to_symbols options of None \<Rightarrow> False | Some symbols \<Rightarrow> symbol \<notin> symbols)"

definition line_error_entry :: "nat \<Rightarrow> line_error_code \<Rightarrow> keyed_entry" where
  "line_error_entry lineNumber code =
     keyed lineNumber (DECODE_ERROR_entry
       \<lparr>tl_issuer = None, tl_symbol = None, tl_mint = None, ee_code = line_code_text code, ee_firstWallclock = None, ee_lastWallclock = None,
        ee_firstSlot = None, ee_lastSlot = None, ee_firstLine = lineNumber, ee_lastLine = lineNumber, ee_occurrences = 1\<rparr>)"

definition track_of :: "timeline_state \<Rightarrow> capture_observation \<Rightarrow> symbol_track" where
  "track_of st obs = (case map_of (ts_tracks st) (cap_mint obs) of Some t \<Rightarrow> t | None \<Rightarrow> new_track obs (symbol_of obs))"

definition observe_selected :: "timeline_options \<Rightarrow> poll_point option \<Rightarrow> timeline_state \<Rightarrow> capture_observation \<Rightarrow> timeline_state" where
  "observe_selected options poll st obs =
     (let (detector, events) = push_record (ts_detector st) (Observed obs);
          events = filter (\<lambda>e. ev_type e \<noteq> DECODE_ERROR) events;
          (e1, t1) = observe_poll poll obs (track_of st obs);
          (e2, t2) = (case cap_evidence obs of
                        DecodeError failure \<Rightarrow> observe_error (to_verbose options) obs failure t1
                      | Decoded evidence \<Rightarrow> observe_decoded (to_verbose options) obs evidence events t1)
      in st\<lparr>ts_entries := ts_entries st @ e1 @ e2, ts_detector := detector, ts_tracks := AList.update (cap_mint obs) t2 (ts_tracks st),
            ts_overallPolls :=
              (case poll of
                 None \<Rightarrow> ts_overallPolls st
               | Some point \<Rightarrow> if pp_line point \<in> fst ` set (ts_overallPolls st) then ts_overallPolls st
                               else ts_overallPolls st @ [(pp_line point, point)])\<rparr>)"

fun timeline_step :: "(string \<Rightarrow> int option) \<Rightarrow> timeline_options \<Rightarrow> timeline_state \<Rightarrow> capture_record \<Rightarrow> timeline_state" where
  "timeline_step parse options st (LineError lineNumber code) =
     st\<lparr>ts_lineErrors := Suc (ts_lineErrors st), ts_entries := ts_entries st @ [line_error_entry lineNumber code]\<rparr>"
| "timeline_step parse options st (Observed obs) =
     (let poll = poll_of parse obs;
          st = (case poll of None \<Rightarrow> st | Some point \<Rightarrow> st\<lparr>ts_allPollLines := List.insert (pp_line point) (ts_allPollLines st)\<rparr>)
      in if excluded options (symbol_of obs) then st else observe_selected options poll st obs)"

definition close_track :: "symbol_track \<Rightarrow> keyed_entry list" where
  "close_track track = (let (e1, t1) = closeInterval track; (e2, t2) = closeErrors t1 in e1 @ e2)"

definition buildTimeline :: "(string \<Rightarrow> int option) \<Rightarrow> timeline_options \<Rightarrow> capture_record list \<Rightarrow> timeline_result" where
  "buildTimeline parse options records =
     (let st = foldl (timeline_step parse options) new_timeline records;
          tracks = map snd (ts_tracks st);
          total = length (ts_allPollLines st);
          entries = ts_entries st @ concat (map close_track tracks);
          polls = sort_key pp_line (map snd (ts_overallPolls st))
      in \<lparr>tr_entries = map snd (sort_key fst entries),
          tr_overall = qualityMetrics polls total (sum_list (map tk_decodeErrors tracks) + ts_lineErrors st) (countGaps polls),
          tr_bySymbol =
            foldl (\<lambda>m track. AList.update (tk_symbol track) (qualityMetrics (tk_polls track) total (tk_decodeErrors track) (tk_gaps track)) m)
              [] tracks\<rparr>)"

section \<open>Facts: nothing is lost\<close>

fun stable_weight :: "timeline_entry \<Rightarrow> nat" where
  "stable_weight (STABLE_INTERVAL i) = si_observations i"
| "stable_weight _ = 0"

fun error_weight :: "timeline_entry \<Rightarrow> nat" where
  "error_weight (DECODE_ERROR_entry e) = ee_occurrences e"
| "error_weight _ = 0"

definition total_weight :: "(timeline_entry \<Rightarrow> nat) \<Rightarrow> keyed_entry list \<Rightarrow> nat" where
  "total_weight w es = sum_list (map (\<lambda>e. w (snd e)) es)"

lemma total_weight_simps [simp]:
  "total_weight w [] = 0" "total_weight w (es @ fs) = total_weight w es + total_weight w fs"
  "total_weight w (keyed line e # es) = w e + total_weight w es"
  by (simp_all add: total_weight_def keyed_def)

definition open_stable :: "symbol_track \<Rightarrow> nat" where
  "open_stable track = (case tk_interval track of None \<Rightarrow> 0 | Some i \<Rightarrow> oi_observations i)"

definition open_errors :: "symbol_track \<Rightarrow> nat" where
  "open_errors track = (case tk_errors track of None \<Rightarrow> 0 | Some run \<Rightarrow> or_occurrences run)"

lemma closeInterval_weights:
  assumes "closeInterval track = (es, t)"
  shows "total_weight stable_weight es = open_stable track" "total_weight error_weight es = 0" "open_stable t = 0"
    "open_errors t = open_errors track" "tk_decodeErrors t = tk_decodeErrors track" "tk_errors t = tk_errors track"
    "tk_interval t = None" "tk_lastDecoded t = tk_lastDecoded track" "tk_mint t = tk_mint track"
  using assms
  by (auto simp: closeInterval_def open_stable_def open_errors_def tl_identity.extend_def split: option.splits)

lemma closeErrors_weights:
  assumes "closeErrors track = (es, t)"
  shows "total_weight stable_weight es = 0" "total_weight error_weight es = open_errors track" "open_errors t = 0"
    "open_stable t = open_stable track" "tk_decodeErrors t = tk_decodeErrors track" "tk_interval t = tk_interval track"
    "tk_errors t = None" "tk_lastDecoded t = tk_lastDecoded track" "tk_mint t = tk_mint track"
  using assms
  by (auto simp: closeErrors_def open_stable_def open_errors_def tl_identity.extend_def split: option.splits)

lemma observe_poll_weights:
  assumes "observe_poll poll obs track = (es, t)"
  shows "total_weight stable_weight es + open_stable t = open_stable track"
    "total_weight error_weight es + open_errors t = open_errors track" "tk_decodeErrors t = tk_decodeErrors track"
    "tk_lastDecoded t = tk_lastDecoded track" "tk_mint t = tk_mint track" "tk_interval t = tk_interval track \<or> tk_interval t = None"
proof -
  obtain e1 t1 where c1: "closeInterval track = (e1, t1)" by fastforce
  obtain e2 t2 where c2: "closeErrors t1 = (e2, t2)" by fastforce
  note w = closeInterval_weights [OF c1] closeErrors_weights [OF c2]
  have [simp]: "open_stable (t\<lparr>tk_lastPoint := p, tk_polls := ps\<rparr>) = open_stable t" "open_errors (t\<lparr>tk_lastPoint := p, tk_polls := ps\<rparr>) = open_errors t"
    "open_stable (t\<lparr>tk_gaps := n\<rparr>) = open_stable t" "open_errors (t\<lparr>tk_gaps := n\<rparr>) = open_errors t" for t p ps n
    by (simp_all add: open_stable_def open_errors_def)
  show "total_weight stable_weight es + open_stable t = open_stable track"
    "total_weight error_weight es + open_errors t = open_errors track" "tk_decodeErrors t = tk_decodeErrors track"
    "tk_lastDecoded t = tk_lastDecoded track" "tk_mint t = tk_mint track" "tk_interval t = tk_interval track \<or> tk_interval t = None"
    using assms w by (auto simp: observe_poll_def c1 c2 Let_def split: option.splits if_splits)
qed

lemma observe_error_weights:
  assumes "observe_error verbose obs failure track = (es, t)"
  shows "total_weight stable_weight es + open_stable t = open_stable track"
    "total_weight error_weight es + open_errors t = Suc (open_errors track)" "tk_decodeErrors t = Suc (tk_decodeErrors track)"
    "tk_interval t = None" "tk_lastDecoded t = tk_lastDecoded track" "tk_mint t = tk_mint track"
proof -
  let ?t0 = "track\<lparr>tk_decodeErrors := Suc (tk_decodeErrors track)\<rparr>"
  obtain e1 t1 where c1: "closeInterval ?t0 = (e1, t1)" by fastforce
  obtain e2 t2 where c2: "closeErrors t1 = (e2, t2)" by fastforce
  have [simp]: "open_stable ?t0 = open_stable track" "open_errors ?t0 = open_errors track"
    by (simp_all add: open_stable_def open_errors_def)
  note w = closeInterval_weights [OF c1] closeErrors_weights [OF c2]
  have [simp]: "open_stable (t\<lparr>tk_errors := e\<rparr>) = open_stable t" "open_errors (t\<lparr>tk_errors := Some r\<rparr>) = or_occurrences r" for t e r
    by (simp_all add: open_stable_def open_errors_def)
  have [simp]: "stable_weight (observation_entry_of a b c e) = 0" "error_weight (observation_entry_of a b c e) = 0" for a b c e
    by (simp_all add: observation_entry_of_def)
  show "total_weight stable_weight es + open_stable t = open_stable track"
    "total_weight error_weight es + open_errors t = Suc (open_errors track)" "tk_decodeErrors t = Suc (tk_decodeErrors track)"
    "tk_interval t = None" "tk_lastDecoded t = tk_lastDecoded track" "tk_mint t = tk_mint track"
    using assms w unfolding observe_error_def
    by (auto simp: c1 c2 Let_def open_errors_def [of track] split: option.splits if_splits)
qed

lemma observe_decoded_weights:
  assumes "observe_decoded verbose obs evidence events track = (es, t)"
  shows "total_weight stable_weight es + open_stable t = Suc (open_stable track)"
    "total_weight error_weight es + open_errors t = open_errors track" "tk_decodeErrors t = tk_decodeErrors track"
    "tk_lastDecoded t \<noteq> None" "tk_mint t = tk_mint track"
proof -
  obtain e1 t1 where c1: "closeErrors track = (e1, t1)" by fastforce
  obtain e2 t2 where c2: "closeInterval t1 = (e2, t2)" by fastforce
  note w = closeErrors_weights [OF c1] closeInterval_weights [OF c2]
  have [simp]: "open_stable (t\<lparr>tk_interval := Some i, tk_lastDecoded := l\<rparr>) = oi_observations i"
    "open_errors (t\<lparr>tk_interval := j, tk_lastDecoded := l\<rparr>) = open_errors t" for t i j l
    by (simp_all add: open_stable_def open_errors_def)
  have [simp]: "stable_weight (observation_entry_of a b c e) = 0" "error_weight (observation_entry_of a b c e) = 0" for a b c e
    by (simp_all add: observation_entry_of_def)
  show "total_weight stable_weight es + open_stable t = Suc (open_stable track)"
    "total_weight error_weight es + open_errors t = open_errors track" "tk_decodeErrors t = tk_decodeErrors track"
    "tk_lastDecoded t \<noteq> None" "tk_mint t = tk_mint track"
    using assms w unfolding observe_decoded_def
    by (auto simp: c1 c2 Let_def open_stable_def [of track] split: option.splits if_splits)
qed

lemma sum_update:
  fixes f :: "'a \<Rightarrow> nat"
  shows "sum_list (map (\<lambda>x. f (snd x)) (AList.update k v xs)) + (case map_of xs k of None \<Rightarrow> 0 | Some u \<Rightarrow> f u) =
    sum_list (map (\<lambda>x. f (snd x)) xs) + f v"
  by (induction xs) (auto split: option.splits)

text \<open>A record counted by the timeline.\<close>

fun selected_decoded :: "timeline_options \<Rightarrow> capture_record \<Rightarrow> bool" where
  "selected_decoded options (Observed obs) = (\<not> excluded options (symbol_of obs) \<and> decoded_state obs \<noteq> None)"
| "selected_decoded options (LineError _ _) = False"

fun selected_error :: "timeline_options \<Rightarrow> capture_record \<Rightarrow> bool" where
  "selected_error options (Observed obs) = (\<not> excluded options (symbol_of obs) \<and> decoded_state obs = None)"
| "selected_error options (LineError _ _) = True"

definition track_sum :: "(symbol_track \<Rightarrow> nat) \<Rightarrow> timeline_state \<Rightarrow> nat" where
  "track_sum f st = sum_list (map (\<lambda>x. f (snd x)) (ts_tracks st))"

definition accounted :: "timeline_options \<Rightarrow> capture_record list \<Rightarrow> timeline_state \<Rightarrow> bool" where
  "accounted options records st \<longleftrightarrow>
     total_weight stable_weight (ts_entries st) + track_sum open_stable st = length (filter (selected_decoded options) records) \<and>
     total_weight error_weight (ts_entries st) + track_sum open_errors st = length (filter (selected_error options) records) \<and>
     track_sum tk_decodeErrors st + ts_lineErrors st = length (filter (selected_error options) records)"

lemma track_sum_old:
  assumes "f (new_track obs (symbol_of obs)) = 0"
  shows "sum_list (map (\<lambda>x. f (snd x)) (AList.update (cap_mint obs) t (ts_tracks st))) + f (track_of st obs) = track_sum f st + f t"
  using sum_update [of f "cap_mint obs" t "ts_tracks st"] assms
  by (auto simp: track_of_def track_sum_def split: option.splits)

lemma new_track_weights:
  "open_stable (new_track obs s) = 0" "open_errors (new_track obs s) = 0" "tk_decodeErrors (new_track obs s) = 0"
  by (simp_all add: new_track_def open_stable_def open_errors_def)

lemma observe_selected_accounted:
  assumes "accounted options records st" and "\<not> excluded options (symbol_of obs)"
  shows "accounted options (records @ [Observed obs]) (observe_selected options poll st obs)"
proof -
  obtain d ev where d: "push_record (ts_detector st) (Observed obs) = (d, ev)" by fastforce
  obtain e1 t1 where p: "observe_poll poll obs (track_of st obs) = (e1, t1)" by fastforce
  note pw = observe_poll_weights [OF p]
  let ?events = "filter (\<lambda>e. ev_type e \<noteq> DECODE_ERROR) ev"
  obtain e2 t2 where o: "(case cap_evidence obs of DecodeError failure \<Rightarrow> observe_error (to_verbose options) obs failure t1
      | Decoded evidence \<Rightarrow> observe_decoded (to_verbose options) obs evidence ?events t1) = (e2, t2)" by fastforce
  let ?st = "observe_selected options poll st obs"
  have st: "ts_entries ?st = ts_entries st @ e1 @ e2" "ts_tracks ?st = AList.update (cap_mint obs) t2 (ts_tracks st)"
      "ts_lineErrors ?st = ts_lineErrors st"
    using o by (simp_all add: observe_selected_def d p Let_def del: push_record.simps)
  note sums = track_sum_old [where f = open_stable, OF new_track_weights(1), of obs t2 st]
    track_sum_old [where f = open_errors, OF new_track_weights(2), of obs t2 st]
    track_sum_old [where f = tk_decodeErrors, OF new_track_weights(3), of obs t2 st]
  show ?thesis
  proof (cases "cap_evidence obs")
    case (Decoded e)
    from o have "observe_decoded (to_verbose options) obs e ?events t1 = (e2, t2)" by (simp add: Decoded)
    from observe_decoded_weights [OF this] pw sums assms show ?thesis
      by (simp add: accounted_def st track_sum_def Decoded)
  next
    case (DecodeError f)
    from o have "observe_error (to_verbose options) obs f t1 = (e2, t2)" by (simp add: DecodeError)
    from observe_error_weights [OF this] pw sums assms show ?thesis
      by (simp add: accounted_def st track_sum_def DecodeError)
  qed
qed

lemma timeline_accounted: "accounted options records (foldl (timeline_step parse options) new_timeline records)"
proof (induction records rule: rev_induct)
  case Nil
  show ?case by (simp add: accounted_def new_timeline_def track_sum_def)
next
  case (snoc r records)
  let ?st = "foldl (timeline_step parse options) new_timeline records"
  show ?case
  proof (cases r)
    case (LineError n code)
    with snoc show ?thesis by (simp add: accounted_def track_sum_def line_error_entry_def)
  next
    case (Observed obs)
    have lines: "accounted options records (?st\<lparr>ts_allPollLines := ls\<rparr>)" for ls
      using snoc by (simp add: accounted_def track_sum_def)
    show ?thesis
    proof (cases "excluded options (symbol_of obs)")
      case True
      with lines snoc show ?thesis by (auto simp: Observed Let_def accounted_def track_sum_def split: option.splits)
    next
      case False
      with observe_selected_accounted [OF _ False] lines snoc show ?thesis
        by (auto simp: Observed Let_def split: option.splits)
    qed
  qed
qed

lemma close_track_weights:
  "total_weight stable_weight (close_track track) = open_stable track" "total_weight error_weight (close_track track) = open_errors track"
proof -
  obtain e1 t1 where c1: "closeInterval track = (e1, t1)" by fastforce
  obtain e2 t2 where c2: "closeErrors t1 = (e2, t2)" by fastforce
  from closeInterval_weights [OF c1] closeErrors_weights [OF c2]
  show "total_weight stable_weight (close_track track) = open_stable track" "total_weight error_weight (close_track track) = open_errors track"
    by (simp_all add: close_track_def c1 c2)
qed

lemma concat_weights:
  "total_weight stable_weight (concat (map close_track ts)) = sum_list (map open_stable ts)"
  "total_weight error_weight (concat (map close_track ts)) = sum_list (map open_errors ts)"
  by (induction ts) (simp_all add: close_track_weights)

lemma sorted_weight: "sum_list (map w (map snd (sort_key fst es))) = total_weight w es"
proof -
  have insort: "sum_list (map (\<lambda>e. w (snd e)) (insort_key fst x es)) = w (snd x) + sum_list (map (\<lambda>e. w (snd e)) es)" for x and es :: "keyed_entry list"
    by (induction es) auto
  show ?thesis by (induction es) (simp_all add: total_weight_def comp_def insort)
qed

lemma qualityMetrics_decodeErrors [simp]: "qm_decodeErrors (qualityMetrics polls polled errors gaps) = errors"
  by (simp add: qualityMetrics_def Let_def split: prod.splits)

section \<open>Facts: intervals are stable\<close>

definition interval_ok :: "capture_observation \<Rightarrow> capture_observation \<Rightarrow> state_fields \<Rightarrow> bool" where
  "interval_ok first final state \<longleftrightarrow>
     (\<exists>a b. cap_evidence first = Decoded a \<and> cap_evidence final = Decoded b \<and> cap_mint first = cap_mint final \<and>
        co_protectedState a = co_protectedState b \<and> co_paused a = co_paused b \<and> state = stateFields a)"

fun entry_ok :: "timeline_entry \<Rightarrow> bool" where
  "entry_ok (STABLE_INTERVAL i) = interval_ok (si_first i) (si_last i) (si_state i)"
| "entry_ok _ = True"

definition track_ok :: "event_detector \<Rightarrow> string \<Rightarrow> symbol_track \<Rightarrow> bool" where
  "track_ok d mint t \<longleftrightarrow>
     (\<forall>i. tk_interval t = Some i \<longrightarrow> interval_ok (oi_first i) (oi_last i) (oi_state i) \<and> lastDecoded d mint = Some (oi_last i)) \<and>
     (tk_lastDecoded t = None \<longrightarrow> lastDecoded d mint = None)"

definition mint_ok :: "event_detector \<Rightarrow> (string \<times> symbol_track) list \<Rightarrow> string \<Rightarrow> bool" where
  "mint_ok d tracks mint \<longleftrightarrow>
     (case map_of tracks mint of None \<Rightarrow> lastDecoded d mint = None | Some t \<Rightarrow> track_ok d mint t)"

definition stable_ok :: "timeline_state \<Rightarrow> bool" where
  "stable_ok st \<longleftrightarrow>
     list_all (\<lambda>e. entry_ok (snd e)) (ts_entries st) \<and> distinct (map fst (ts_tracks st)) \<and>
     (\<forall>mint. mint_ok (ts_detector st) (ts_tracks st) mint) \<and>
     (\<forall>mint p. lastDecoded (ts_detector st) mint = Some p \<longrightarrow> cap_mint p = mint)"

abbreviation entries_ok :: "keyed_entry list \<Rightarrow> bool" where
  "entries_ok es \<equiv> list_all (\<lambda>e. entry_ok (snd e)) es"

lemma entries_ok_keyed [simp]: "entry_ok (snd (keyed line e)) = entry_ok e"
  by (simp add: keyed_def)

lemma closeInterval_ok: "track_ok d mint t \<Longrightarrow> closeInterval t = (es, t') \<Longrightarrow> entries_ok es \<and> track_ok d mint t' \<and> tk_interval t' = None"
  by (auto simp: closeInterval_def track_ok_def tl_identity.extend_def split: option.splits)

lemma closeErrors_ok: "track_ok d mint t \<Longrightarrow> closeErrors t = (es, t') \<Longrightarrow> entries_ok es \<and> track_ok d mint t'"
  by (auto simp: closeErrors_def track_ok_def tl_identity.extend_def split: option.splits)

lemma observe_poll_ok:
  assumes "track_ok d mint t" and "observe_poll poll obs t = (es, t')"
  shows "entries_ok es \<and> track_ok d mint t'"
proof -
  obtain e1 t1 where c1: "closeInterval t = (e1, t1)" by fastforce
  obtain e2 t2 where c2: "closeErrors t1 = (e2, t2)" by fastforce
  from closeInterval_ok [OF assms(1) c1] closeErrors_ok [OF _ c2] have ok: "entries_ok e1" "entries_ok e2" "track_ok d mint t2" by auto
  have up: "track_ok d mint (u\<lparr>tk_lastPoint := p, tk_polls := ps\<rparr>) = track_ok d mint u" "track_ok d mint (u\<lparr>tk_gaps := n\<rparr>) = track_ok d mint u" for u p ps n
    by (simp_all add: track_ok_def)
  show ?thesis using assms ok by (auto simp: observe_poll_def c1 c2 Let_def up split: option.splits if_splits)
qed

lemma observe_error_ok:
  assumes "track_ok d mint t" and "observe_error verbose obs failure t = (es, t')"
  shows "entries_ok es \<and> track_ok d mint t'"
proof -
  let ?t0 = "t\<lparr>tk_decodeErrors := Suc (tk_decodeErrors t)\<rparr>"
  obtain e1 t1 where c1: "closeInterval ?t0 = (e1, t1)" by fastforce
  obtain e2 t2 where c2: "closeErrors t1 = (e2, t2)" by fastforce
  have "track_ok d mint ?t0" using assms(1) by (simp add: track_ok_def)
  from closeInterval_ok [OF this c1] closeErrors_ok [OF _ c2] have ok: "entries_ok e1" "entries_ok e2" "track_ok d mint t1" "track_ok d mint t2" by auto
  have up: "track_ok d mint (u\<lparr>tk_errors := x\<rparr>) = track_ok d mint u" for u x by (simp add: track_ok_def)
  show ?thesis using assms(2) ok
    by (auto simp: observe_error_def c1 c2 Let_def up observation_entry_of_def split: option.splits if_splits)
qed

lemma interval_extends:
  assumes "interval_ok first final state" and "cap_evidence final = Decoded before" and "cap_evidence obs = Decoded evidence"
    and "cap_mint obs = cap_mint final" and "filter (\<lambda>e. ev_type e \<noteq> DECODE_ERROR) (change_events final before evidence obs) = []"
  shows "interval_ok first obs state"
proof -
  have "co_protectedState before = co_protectedState evidence \<and> co_paused before = co_paused evidence"
    using assms(5) by (auto simp: change_events_def Let_def split: if_splits)
  with assms show ?thesis by (auto simp: interval_ok_def)
qed

lemma observe_decoded_ok:
  assumes "track_ok d (cap_mint obs) t" and "cap_evidence obs = Decoded evidence"
    and "\<forall>p. lastDecoded d (cap_mint obs) = Some p \<longrightarrow> cap_mint p = cap_mint obs"
    and "push_record d (Observed obs) = (d', events)"
    and "observe_decoded verbose obs evidence (filter (\<lambda>e. ev_type e \<noteq> DECODE_ERROR) events) t = (es, t')"
  shows "entries_ok es \<and> track_ok d' (cap_mint obs) t'"
proof -
  let ?ev = "filter (\<lambda>e. ev_type e \<noteq> DECODE_ERROR) events"
  obtain e1 t1 where c1: "closeErrors t = (e1, t1)" by fastforce
  obtain e2 t2 where c2: "closeInterval t1 = (e2, t2)" by fastforce
  from closeErrors_ok [OF assms(1) c1] have ok1: "entries_ok e1" "track_ok d (cap_mint obs) t1" by auto
  from closeInterval_ok [OF ok1(2) c2] have ok2: "entries_ok e2" "track_ok d (cap_mint obs) t2" "tk_interval t2 = None" by auto
  have d': "lastDecoded d' (cap_mint obs) = Some obs"
      "\<And>p before. lastDecoded d (cap_mint obs) = Some p \<Longrightarrow> cap_evidence p = Decoded before \<Longrightarrow> events = change_events p before evidence obs"
    using assms(2,4) by (auto simp: Let_def)
  have fresh: "interval_ok obs obs (stateFields evidence)" using assms(2) by (simp add: interval_ok_def)
  have ext: "interval_ok (oi_first i) obs (oi_state i)" if i: "tk_interval t1 = Some i" and e: "?ev = []" for i
  proof -
    have io: "interval_ok (oi_first i) (oi_last i) (oi_state i)" and l: "lastDecoded d (cap_mint obs) = Some (oi_last i)"
      using ok1(2) i by (auto simp: track_ok_def)
    then obtain b where b: "cap_evidence (oi_last i) = Decoded b" by (auto simp: interval_ok_def)
    show ?thesis using interval_extends [OF io b assms(2)] assms(3) l e d'(2) [OF l b] by auto
  qed
  have new: "track_ok d' (cap_mint obs) (u\<lparr>tk_interval := Some j, tk_lastDecoded := Some x\<rparr>)"
    if "interval_ok (oi_first j) (oi_last j) (oi_state j)" "oi_last j = obs" for u j x
    using that d'(1) by (simp add: track_ok_def)
  have none: "tk_lastDecoded t1 = None \<Longrightarrow> tk_interval t1 = None" using ok1(2) by (auto simp: track_ok_def)
  show ?thesis using assms(5) ok1(1) ok2(1,3) fresh ext none
    by (auto simp: observe_decoded_def c1 c2 Let_def observation_entry_of_def intro!: new split: option.splits if_splits)
qed

lemma track_of_ok: "stable_ok st \<Longrightarrow> track_ok (ts_detector st) (cap_mint obs) (track_of st obs)"
proof -
  assume "stable_ok st"
  then have "mint_ok (ts_detector st) (ts_tracks st) (cap_mint obs)" by (simp add: stable_ok_def)
  then show ?thesis
    by (cases "map_of (ts_tracks st) (cap_mint obs)") (simp_all add: mint_ok_def track_of_def track_ok_def new_track_def)
qed

lemma mint_ok_update:
  assumes "mint_ok d tracks mint" and "mint \<noteq> k \<Longrightarrow> lastDecoded d' mint = lastDecoded d mint" and "track_ok d' k t"
  shows "mint_ok d' (AList.update k t tracks) mint"
proof (cases "mint = k")
  case True
  with assms(3) show ?thesis by (simp add: mint_ok_def update_conv')
next
  case False
  with assms(1,2) show ?thesis by (cases "map_of tracks mint") (simp_all add: mint_ok_def track_ok_def update_conv')
qed

lemma observe_selected_ok:
  assumes "stable_ok st"
  shows "stable_ok (observe_selected options poll st obs)"
proof -
  obtain d ev where d: "push_record (ts_detector st) (Observed obs) = (d, ev)" by fastforce
  obtain e1 t1 where p: "observe_poll poll obs (track_of st obs) = (e1, t1)" by fastforce
  let ?events = "filter (\<lambda>e. ev_type e \<noteq> DECODE_ERROR) ev"
  obtain e2 t2 where o: "(case cap_evidence obs of DecodeError failure \<Rightarrow> observe_error (to_verbose options) obs failure t1
      | Decoded evidence \<Rightarrow> observe_decoded (to_verbose options) obs evidence ?events t1) = (e2, t2)" by fastforce
  let ?st = "observe_selected options poll st obs"
  have st: "ts_entries ?st = ts_entries st @ e1 @ e2" "ts_tracks ?st = AList.update (cap_mint obs) t2 (ts_tracks st)" "ts_detector ?st = d"
    using o by (simp_all add: observe_selected_def d p Let_def del: push_record.simps)
  from observe_poll_ok [OF track_of_ok [OF assms] p] have ok1: "entries_ok e1" "track_ok (ts_detector st) (cap_mint obs) t1" by auto
  have last: "\<forall>p. lastDecoded (ts_detector st) (cap_mint obs) = Some p \<longrightarrow> cap_mint p = cap_mint obs"
    using assms by (auto simp: stable_ok_def)
  have other: "lastDecoded d m = lastDecoded (ts_detector st) m" if "m \<noteq> cap_mint obs" for m
    using d that by (auto simp: Let_def split: chain_evidence.splits if_splits)
  have mints: "lastDecoded d m = Some p \<Longrightarrow> cap_mint p = m" for m p
    using d assms by (cases "m = cap_mint obs") (auto simp: stable_ok_def Let_def split: chain_evidence.splits if_splits)
  have ok2: "entries_ok e2 \<and> track_ok d (cap_mint obs) t2"
  proof (cases "cap_evidence obs")
    case (Decoded e)
    from o have "observe_decoded (to_verbose options) obs e ?events t1 = (e2, t2)" by (simp add: Decoded)
    from observe_decoded_ok [OF ok1(2) Decoded last d this] show ?thesis .
  next
    case (DecodeError f)
    from o have e: "observe_error (to_verbose options) obs f t1 = (e2, t2)" by (simp add: DecodeError)
    have "lastDecoded d = lastDecoded (ts_detector st)" using d by (auto simp: DecodeError Let_def split: if_splits)
    with observe_error_ok [OF ok1(2) e] show ?thesis by (simp add: track_ok_def)
  qed
  have "mint_ok d (AList.update (cap_mint obs) t2 (ts_tracks st)) m" for m
    using assms ok2 other by (intro mint_ok_update [where d = "ts_detector st"]) (auto simp: stable_ok_def)
  with assms ok1(1) ok2 mints show ?thesis by (simp add: stable_ok_def st distinct_update)
qed

lemma timeline_stable_ok: "stable_ok (foldl (timeline_step parse options) new_timeline records)"
proof (induction records rule: rev_induct)
  case Nil
  show ?case by (simp add: stable_ok_def mint_ok_def new_timeline_def new_detector_def)
next
  case (snoc r records)
  let ?st = "foldl (timeline_step parse options) new_timeline records"
  show ?case
  proof (cases r)
    case (LineError n code)
    with snoc show ?thesis by (simp add: stable_ok_def line_error_entry_def)
  next
    case (Observed obs)
    have "stable_ok (?st\<lparr>ts_allPollLines := ls\<rparr>)" for ls using snoc by (simp add: stable_ok_def)
    with observe_selected_ok snoc show ?thesis by (auto simp: Observed Let_def split: option.splits)
  qed
qed

lemma close_track_ok: "track_ok d mint t \<Longrightarrow> entries_ok (close_track t)"
proof -
  assume t: "track_ok d mint t"
  obtain e1 t1 where c1: "closeInterval t = (e1, t1)" by fastforce
  obtain e2 t2 where c2: "closeErrors t1 = (e2, t2)" by fastforce
  from closeInterval_ok [OF t c1] closeErrors_ok [OF _ c2] show ?thesis by (auto simp: close_track_def c1 c2)
qed

section \<open>Properties\<close>

text \<open>
  C25. Compression loses nothing: over any captured records, the stable intervals together account for
  exactly the selected observations that decoded, and the error entries together for exactly the line
  errors and the selected observations that did not, which is the error count of the overall quality.
\<close>

theorem timeline_accounts_for_every_record:
  "sum_list (map stable_weight (tr_entries (buildTimeline parse options records))) = length (filter (selected_decoded options) records) \<and>
   sum_list (map error_weight (tr_entries (buildTimeline parse options records))) = length (filter (selected_error options) records) \<and>
   qm_decodeErrors (tr_overall (buildTimeline parse options records)) = length (filter (selected_error options) records)"
proof -
  define st where "st = foldl (timeline_step parse options) new_timeline records"
  have a: "accounted options records st" unfolding st_def by (rule timeline_accounted)
  have maps: "sum_list (map f (map snd (ts_tracks st))) = track_sum f st" for f
    by (simp add: track_sum_def comp_def)
  have w: "sum_list (map open_stable (map snd (ts_tracks st))) = track_sum open_stable st"
      "sum_list (map open_errors (map snd (ts_tracks st))) = track_sum open_errors st"
      "sum_list (map tk_decodeErrors (map snd (ts_tracks st))) = track_sum tk_decodeErrors st"
    by (rule maps)+
  show ?thesis
    using a unfolding buildTimeline_def st_def [symmetric] Let_def accounted_def
    by (simp only: timeline_result.select_convs sorted_weight total_weight_simps concat_weights w qualityMetrics_decodeErrors simp_thms)
qed

text \<open>
  A stable interval is stable: the first and the last observation of every interval of a timeline decode,
  for the same mint, to the same protected state and the same pause flag, and the interval's reported state
  is that of its first observation.
\<close>

theorem stable_intervals_are_stable:
  "list_all entry_ok (tr_entries (buildTimeline parse options records))"
proof -
  define st where "st = foldl (timeline_step parse options) new_timeline records"
  have ok: "stable_ok st" unfolding st_def by (rule timeline_stable_ok)
  have "entries_ok (close_track t)" if "(mint, t) \<in> set (ts_tracks st)" for mint t
  proof -
    have "map_of (ts_tracks st) mint = Some t" using ok that by (simp add: stable_ok_def)
    moreover have "mint_ok (ts_detector st) (ts_tracks st) mint" using ok by (simp add: stable_ok_def)
    ultimately have "track_ok (ts_detector st) mint t" by (simp add: mint_ok_def)
    then show ?thesis by (rule close_track_ok)
  qed
  then have "entries_ok (ts_entries st @ concat (map close_track (map snd (ts_tracks st))))"
    using ok by (fastforce simp: stable_ok_def list_all_iff)
  then show ?thesis
    unfolding buildTimeline_def st_def [symmetric] Let_def by (simp add: list_all_iff)
qed

end
