(* ===== verification/F64.thy ===== *)
theory F64
  imports EG_Prelude
begin

text \<open>
  The bytes of a JavaScript number: \<open>DataView.setFloat64\<close>, the inverse of the reading \<open>f64_of_bytes\<close>, and their
  round trip.
\<close>

section \<open>Writing a number\<close>

text \<open>\<open>DataView.setFloat64(0, x, true)\<close>: a positive double is a multiple of \<open>2\<^sup>-\<^sup>1\<^sup>0\<^sup>7\<^sup>4\<close>.\<close>

fun bit_length :: "nat \<Rightarrow> nat" where
  "bit_length n = (if n = 0 then 0 else Suc (bit_length (n div 2)))"

declare bit_length.simps [simp del]

definition f64_bits :: "rat \<Rightarrow> nat" where
  "f64_bits q =
     (let n = nat \<lfloor>q * 2 ^ 1074\<rfloor>; l = bit_length n in
      if l \<le> 52 then n else (l - 52) * 2 ^ 52 + (n div 2 ^ (l - 53) - 2 ^ 52))"

fun f64_bytes :: "js_number \<Rightarrow> bytes" where
  "f64_bytes (JNum q) = le_bytes 8 (if q < 0 then 2 ^ 63 + f64_bits (- q) else f64_bits q)"
| "f64_bytes JNegZero = le_bytes 8 (2 ^ 63)"
| "f64_bytes JNaN = le_bytes 8 (2047 * 2 ^ 52 + 2 ^ 51)"
| "f64_bytes JInf = le_bytes 8 (2047 * 2 ^ 52)"
| "f64_bytes JNegInf = le_bytes 8 (2 ^ 63 + 2047 * 2 ^ 52)"

section \<open>Facts: the bytes of a number\<close>

lemma bit_length_bounds: "2 ^ k \<le> n \<Longrightarrow> n < 2 ^ Suc k \<Longrightarrow> bit_length n = Suc k"
proof (induction k arbitrary: n)
  case 0
  then have "n = 1" by simp
  then show ?case by (simp add: bit_length.simps)
next
  case (Suc k)
  from Suc.prems have "2 ^ k \<le> n div 2" "n div 2 < 2 ^ Suc k" by (simp_all add: less_mult_imp_div_less mult.commute)
  moreover have "n \<noteq> 0" using Suc.prems(1) by (intro notI) simp
  ultimately show ?case using Suc.IH by (subst bit_length.simps) simp
qed

lemma bit_length_le: "n < 2 ^ k \<Longrightarrow> bit_length n \<le> k"
proof (induction k arbitrary: n)
  case 0
  then show ?case by (simp add: bit_length.simps)
next
  case (Suc k)
  then have "bit_length (n div 2) \<le> k" by (simp add: less_mult_imp_div_less mult.commute)
  then show ?case by (subst bit_length.simps) auto
qed

text \<open>A double's bits from its exponent and significand fields.\<close>

lemma f64_bits_subnormal: "m < 2 ^ 52 \<Longrightarrow> f64_bits (of_nat m / 2 ^ 1074) = m"
  by (simp add: f64_bits_def Let_def bit_length_le)

lemma f64_bits_normal:
  assumes m: "m < 2 ^ 52" and e: "0 < e"
  shows "f64_bits (of_nat (2 ^ 52 + m) * 2 ^ e / 2 ^ 1075) = e * 2 ^ 52 + m"
proof -
  let ?n = "(2 ^ 52 + m) * 2 ^ (e - 1)"
  have scale: "a * 2 ^ Suc j / 2 ^ Suc k * 2 ^ k = (a * 2 ^ j :: rat)" for a j k
    by (simp add: field_simps)
  have "(of_nat (2 ^ 52 + m) * 2 ^ e / 2 ^ 1075) * 2 ^ 1074 = (of_nat ?n :: rat)"
    using scale [of "of_nat (2 ^ 52 + m)" "e - 1" 1074] e by (simp del: of_nat_add)
  then have n: "nat \<lfloor>(of_nat (2 ^ 52 + m) * 2 ^ e / 2 ^ 1075) * 2 ^ 1074 :: rat\<rfloor> = ?n"
    by (simp only: floor_of_nat nat_int)
  have "2 ^ (52 + (e - 1)) \<le> ?n" by (simp add: power_add)
  moreover have "?n < 2 ^ Suc (52 + (e - 1))"
  proof -
    have "?n < 2 ^ 53 * 2 ^ (e - 1)" using m by (intro mult_strict_right_mono) simp_all
    then show ?thesis by (simp add: power_add)
  qed
  ultimately have l: "bit_length ?n = Suc (52 + (e - 1))" by (rule bit_length_bounds)
  show ?thesis unfolding f64_bits_def n Let_def l using e by simp
qed

text \<open>Writing a number writes the very bytes it was read from.\<close>

lemma f64_bytes_roundtrip:
  assumes bs: "length bs = 8" and q: "f64_of_bytes bs \<noteq> JNaN"
  shows "f64_bytes (f64_of_bytes bs) = bs"
proof -
  define b e m sgn where "b = le_nat bs" and "e = b div 2 ^ 52 mod 2048" and "m = b mod 2 ^ 52" and "sgn = b div 2 ^ 63"
  have "b < 2 ^ 64" using le_nat_bound [of bs] bs by (simp add: b_def)
  then have sgn: "sgn = 0 \<or> sgn = 1" and m: "m < 2 ^ 52" and e: "e < 2048"
    by (auto simp: sgn_def m_def e_def)
  have "b = b div 2 ^ 52 * 2 ^ 52 + m" by (simp add: m_def)
  moreover have "b div 2 ^ 52 = sgn * 2048 + e"
    using div_mult2_eq [of b "2 ^ 52" 2048] by (simp add: sgn_def e_def)
  ultimately have split: "b = sgn * 2 ^ 63 + (e * 2 ^ 52 + m)" by (simp add: algebra_simps)
  have bytes: "le_bytes 8 b = bs" using bs by (simp add: b_def le_bytes_le_nat)
  define mag :: rat where "mag = (if e = 0 then of_nat m / 2 ^ 1074 else of_nat (2 ^ 52 + m) * 2 ^ e / 2 ^ 1075)"
  have val: "f64_of_bytes bs =
     (if e = 2047 then (if m \<noteq> 0 then JNaN else if sgn = 0 then JInf else JNegInf)
      else if e = 0 \<and> m = 0 \<and> sgn \<noteq> 0 then JNegZero else JNum (if sgn = 0 then mag else - mag))"
    by (simp add: f64_of_bytes_def Let_def b_def e_def m_def sgn_def mag_def)
  have bits: "f64_bits mag = e * 2 ^ 52 + m"
    using f64_bits_subnormal [OF m] f64_bits_normal [OF m, of e] by (cases "e = 0") (simp_all add: mag_def del: of_nat_add)
  have "0 < (of_nat (2 ^ 52 + m) :: rat)" by (simp only: of_nat_0_less_iff) simp
  then have pos: "e \<noteq> 0 \<Longrightarrow> 0 < mag" "e = 0 \<Longrightarrow> m \<noteq> 0 \<Longrightarrow> 0 < mag" "e = 0 \<Longrightarrow> m = 0 \<Longrightarrow> mag = 0"
    by (simp_all add: mag_def del: of_nat_add)
  then have "0 \<le> mag" and neg: "e \<noteq> 0 \<or> m \<noteq> 0 \<Longrightarrow> - mag < 0" by (cases "e = 0"; cases "m = 0"; simp)+
  show ?thesis
  proof (cases "e = 2047")
    case True
    with q val have "m = 0" by (auto split: if_splits)
    with True val sgn split bytes show ?thesis by auto
  next
    case False
    show ?thesis
    proof (cases "sgn = 0")
      case True
      with False val \<open>0 \<le> mag\<close> bits split bytes show ?thesis by simp
    next
      case sgn1: False
      with sgn have "sgn = 1" by simp
      with False val neg bits split bytes show ?thesis by (cases "e = 0 \<and> m = 0") simp_all
    qed
  qed
qed

text \<open>The values a JavaScript number can have: those eight bytes encode.\<close>

definition is_double :: "js_number \<Rightarrow> bool" where
  "is_double x = (\<exists>bs. length bs = 8 \<and> f64_of_bytes bs = x)"

end
