(* ===== verification/XStocks_Api.thy ===== *)
theory XStocks_Api
  imports Observation_Events F64
begin

text \<open>
  Observations of the xStocks public API (\<open>packages/representation-state/src/xstocks-api.ts\<close>): decoding of
  watcher lines, historical records, the exact bytes of a multiplier and the change detector.
  \<open>JSON.parse\<close>, \<open>Date.parse\<close> (\<open>None\<close> for \<open>NaN\<close>) and the decimal text of a finite number
  (\<open>Number.prototype.toString\<close>) are parameters.
\<close>

section \<open>Numbers and their text\<close>

text \<open>\<open>x === y\<close> on numbers: the zeros are equal, a NaN equals nothing.\<close>

fun number_eq :: "js_number \<Rightarrow> js_number \<Rightarrow> bool" where
  "number_eq JNaN _ = False"
| "number_eq _ JNaN = False"
| "number_eq JNegZero y = (y = JNegZero \<or> y = JNum 0)"
| "number_eq x JNegZero = (x = JNum 0)"
| "number_eq x y = (x = y)"

text \<open>\<open>String(x)\<close> and \<open>JSON.stringify(x)\<close>.\<close>

fun number_text :: "(rat \<Rightarrow> string) \<Rightarrow> js_number \<Rightarrow> string" where
  "number_text num (JNum q) = num q"
| "number_text num JNegZero = num 0"
| "number_text num JNaN = ''NaN''"
| "number_text num JInf = ''Infinity''"
| "number_text num JNegInf = ''-Infinity''"

definition number_json :: "(rat \<Rightarrow> string) \<Rightarrow> js_number \<Rightarrow> string" where
  "number_json num x = (if js_finite x then number_text num x else ''null'')"

text \<open>
  \<open>JSON.stringify\<close>, \<open>None\<close> for \<open>undefined\<close>: such an element of an array is written as null, such a property
  is left out. A value that came from \<open>JSON.parse\<close> holds no bigint and no other object.
\<close>

function js_stringify :: "(rat \<Rightarrow> string) \<Rightarrow> js_value \<Rightarrow> string option" where
  "js_stringify num JUndefined = None"
| "js_stringify num JNull = Some ''null''"
| "js_stringify num (JBool b) = Some (if b then ''true'' else ''false'')"
| "js_stringify num (JNumber x) = Some (number_json num x)"
| "js_stringify num (JBigInt _) = None"
| "js_stringify num (JString s) = Some (json_quote s)"
| "js_stringify num (JArray xs) =
     Some (''['' @ js_join '','' (map (\<lambda>x. case js_stringify num x of None \<Rightarrow> ''null'' | Some t \<Rightarrow> t) xs) @ '']'')"
| "js_stringify num (JObject props) =
     Some (CHR 0x7b # js_join '','' (concat (map (\<lambda>(k, v). case js_stringify num v of
         None \<Rightarrow> [] | Some t \<Rightarrow> [json_quote k @ '':'' @ t]) props)) @ [CHR 0x7d])"
| "js_stringify num JOpaque = None"
  by pat_completeness auto
termination
proof (relation "measure (\<lambda>(num, v). size v)")
  fix num :: "rat \<Rightarrow> string" and props and kv :: "string \<times> js_value" and k v
  assume "kv \<in> set props" and "(k, v) = kv"
  then have "size v \<le> size_list (size_prod (\<lambda>_. 0) size) props"
    by (induction props) auto
  then show "((num, v), num, JObject props) \<in> measure (\<lambda>(num, v). size v)" by simp
qed (auto intro: le_imp_less_Suc size_list_estimation')

text \<open>The text of a value in a template, after \<open>JSON.stringify\<close>.\<close>

definition json_text :: "(rat \<Rightarrow> string) \<Rightarrow> js_value \<Rightarrow> string" where
  "json_text num v = (case js_stringify num v of None \<Rightarrow> ''undefined'' | Some t \<Rightarrow> t)"

section \<open>xstocks-api.ts: types\<close>

datatype evidence_source = DOCUMENTED_SCHEDULE_source | HISTORICAL_API_source | LIVE_API_source | LIVE_CHAIN_source

record evidence_authority =
  au_authoritativeForOnchainGuard :: bool
  au_relevantToExecutionPolicy :: bool

fun EVIDENCE_AUTHORITY :: "evidence_source \<Rightarrow> evidence_authority" where
  "EVIDENCE_AUTHORITY LIVE_CHAIN_source = \<lparr>au_authoritativeForOnchainGuard = True, au_relevantToExecutionPolicy = True\<rparr>"
| "EVIDENCE_AUTHORITY LIVE_API_source = \<lparr>au_authoritativeForOnchainGuard = False, au_relevantToExecutionPolicy = True\<rparr>"
| "EVIDENCE_AUTHORITY HISTORICAL_API_source = \<lparr>au_authoritativeForOnchainGuard = False, au_relevantToExecutionPolicy = False\<rparr>"
| "EVIDENCE_AUTHORITY DOCUMENTED_SCHEDULE_source = \<lparr>au_authoritativeForOnchainGuard = False, au_relevantToExecutionPolicy = False\<rparr>"

definition authoritativeForOnchainGuard :: "evidence_source \<Rightarrow> bool" where
  "authoritativeForOnchainGuard source = au_authoritativeForOnchainGuard (EVIDENCE_AUTHORITY source)"

definition relevantToExecutionPolicy :: "evidence_source \<Rightarrow> bool" where
  "relevantToExecutionPolicy source = au_relevantToExecutionPolicy (EVIDENCE_AUTHORITY source)"

datatype activation_interpretation = none_time | iso_8601 | unix_seconds | unix_milliseconds

fun interpretation_text :: "activation_interpretation \<Rightarrow> string" where
  "interpretation_text none_time = ''none''"
| "interpretation_text iso_8601 = ''iso-8601''"
| "interpretation_text unix_seconds = ''unix-seconds''"
| "interpretation_text unix_milliseconds = ''unix-milliseconds''"

record activation_time =
  at_interpretation :: activation_interpretation
  at_unixMs :: "int option"

datatype api_decode_status = ok_status | request_error | malformed

fun status_text :: "api_decode_status \<Rightarrow> string" where
  "status_text ok_status = ''ok''"
| "status_text request_error = ''request-error''"
| "status_text malformed = ''malformed''"

record xstocks_observation =
  xo_lineNumber :: nat
  xo_wallclock :: "string option"
  xo_wallclockMs :: "int option"
  xo_decodeStatus :: api_decode_status
  xo_currentMultiplier :: "js_number option"
  xo_newMultiplier :: "js_number option"
  xo_activationDateTimeRaw :: js_value
  xo_activationTime :: "activation_time option"
  xo_reason :: "string option"
  xo_hasPendingUpdate :: "bool option"
  xo_error :: "string option"
  xo_rawLine :: string

record historical_record =
  xh_previousMultiplier :: js_number
  xh_multiplier :: js_number
  xh_activationTime :: activation_time
  xh_reason :: "string option"

section \<open>xstocks-api.ts: decoding\<close>

definition MILLISECONDS_THRESHOLD :: int where
  "MILLISECONDS_THRESHOLD = 100000000000"

text \<open>The pattern of an ISO 8601 date and time with seconds and a zone.\<close>

definition match_digits :: "nat \<Rightarrow> string \<Rightarrow> string option" where
  "match_digits n s = (if length s \<ge> n \<and> list_all is_digit (take n s) then Some (drop n s) else None)"

definition match_char :: "char \<Rightarrow> string \<Rightarrow> string option" where
  "match_char c s = (case s of [] \<Rightarrow> None | d # r \<Rightarrow> if d = c then Some r else None)"

definition match_fraction :: "string \<Rightarrow> string" where
  "match_fraction s =
     (case s of
        CHR ''.'' # r \<Rightarrow> if takeWhile is_digit r \<noteq> [] then dropWhile is_digit r else s
      | _ \<Rightarrow> s)"

definition match_zone :: "string \<Rightarrow> bool" where
  "match_zone s =
     (case s of
        [] \<Rightarrow> False
      | c # r \<Rightarrow>
          if c = CHR ''Z'' then r = []
          else (c = CHR ''+'' \<or> c = CHR ''-'') \<and>
            Option.bind (match_digits 2 r) (\<lambda>r. Option.bind (match_char (CHR '':'') r) (match_digits 2)) = Some [])"

fun match_parts :: "(nat \<times> char option) list \<Rightarrow> string \<Rightarrow> string option" where
  "match_parts [] s = Some s"
| "match_parts ((n, sep) # ps) s =
     Option.bind (match_digits n s) (\<lambda>r.
     Option.bind (case sep of None \<Rightarrow> Some r | Some c \<Rightarrow> match_char c r) (match_parts ps))"

definition iso_pattern :: "string \<Rightarrow> bool" where
  "iso_pattern s =
     (case match_parts [(4, Some (CHR ''-'')), (2, Some (CHR ''-'')), (2, Some (CHR ''T'')), (2, Some (CHR '':'')), (2, Some (CHR '':'')), (2, None)] s of
        None \<Rightarrow> False
      | Some r \<Rightarrow> match_zone (match_fraction r))"

text \<open>\<open>interpretActivationTime\<close>; \<open>None\<close> is the thrown parse error.\<close>

definition interpretActivationTime :: "(string \<Rightarrow> int option) \<Rightarrow> js_value \<Rightarrow> activation_time option" where
  "interpretActivationTime dateParse raw =
     (case raw of
        JNull \<Rightarrow> Some \<lparr>at_interpretation = none_time, at_unixMs = None\<rparr>
      | JNumber x \<Rightarrow>
          if number_eq x (JNum 0) then Some \<lparr>at_interpretation = none_time, at_unixMs = None\<rparr>
          else (case js_int x of
              None \<Rightarrow> None
            | Some i \<Rightarrow>
                if i > 0
                then Some (if i \<ge> MILLISECONDS_THRESHOLD then \<lparr>at_interpretation = unix_milliseconds, at_unixMs = Some i\<rparr>
                           else \<lparr>at_interpretation = unix_seconds, at_unixMs = Some (i * 1000)\<rparr>)
                else None)
      | JString s \<Rightarrow>
          if iso_pattern s then map_option (\<lambda>ms. \<lparr>at_interpretation = iso_8601, at_unixMs = Some ms\<rparr>) (dateParse s) else None
      | _ \<Rightarrow> None)"

fun positiveFinite :: "js_value \<Rightarrow> bool" where
  "positiveFinite (JNumber (JNum q)) = (q > 0)"
| "positiveFinite _ = False"

fun number_of :: "js_value \<Rightarrow> js_number option" where
  "number_of (JNumber x) = Some x"
| "number_of _ = None"

definition failed_observation ::
    "string \<Rightarrow> nat \<Rightarrow> string option \<Rightarrow> int option \<Rightarrow> api_decode_status \<Rightarrow> string \<Rightarrow> js_value \<Rightarrow> xstocks_observation" where
  "failed_observation line lineNumber wallclock ms status err raw =
     \<lparr>xo_lineNumber = lineNumber, xo_wallclock = wallclock, xo_wallclockMs = ms, xo_decodeStatus = status, xo_currentMultiplier = None,
      xo_newMultiplier = None, xo_activationDateTimeRaw = raw, xo_activationTime = None, xo_reason = None, xo_hasPendingUpdate = None,
      xo_error = Some err, xo_rawLine = line\<rparr>"

text \<open>The checks of a response: an error text with the raw activation value it keeps, or the fields.\<close>

definition decode_response ::
    "(rat \<Rightarrow> string) \<Rightarrow> (string \<Rightarrow> int option) \<Rightarrow> js_value \<Rightarrow> (string \<times> js_value) + js_number \<times> js_number \<times> activation_time \<times> string option" where
  "decode_response num dateParse r =
     (let current = js_prop r ''currentMultiplier''; new = js_prop r ''newMultiplier''; reason = js_prop r ''reason'';
          raw = js_prop r ''activationDateTime''
      in if \<not> positiveFinite current then Inl (''currentMultiplier must be a positive finite number'', JNull)
         else if \<not> ((case new of JNumber x \<Rightarrow> number_eq x (JNum 0) | _ \<Rightarrow> False) \<or> positiveFinite new)
         then Inl (''newMultiplier must be 0 or a positive finite number'', JNull)
         else if \<not> (reason = JNull \<or> stringOrNull reason \<noteq> None) then Inl (''reason must be a string or null'', JNull)
         else case interpretActivationTime dateParse raw of
           None \<Rightarrow> Inl (''unrecognized activationDateTime '' @ json_text num raw, raw)
         | Some t \<Rightarrow> Inr (the (number_of current), the (number_of new), t, stringOrNull reason))"

definition decodeXStocksApiLine ::
    "(rat \<Rightarrow> string) \<Rightarrow> (string \<Rightarrow> js_value option) \<Rightarrow> (string \<Rightarrow> int option) \<Rightarrow> string \<Rightarrow> nat \<Rightarrow> xstocks_observation option" where
  "decodeXStocksApiLine num parse dateParse line lineNumber =
     (if blank line then None
      else Some (case parse line of
          None \<Rightarrow> failed_observation line lineNumber None None malformed ''line is not valid JSON'' JNull
        | Some (JObject props) \<Rightarrow>
            let rec = JObject props; wallclock = stringOrNull (js_prop rec ''wallclock''); ms = Option.bind wallclock dateParse;
                failed = failed_observation line lineNumber wallclock ms
            in (if ms = None then failed malformed ''missing or invalid wallclock'' JNull
                else case js_prop rec ''error'' of
                  JString e \<Rightarrow> failed request_error e JNull
                | _ \<Rightarrow>
                    (case js_prop rec ''response'' of
                       JObject r \<Rightarrow>
                         (case decode_response num dateParse (JObject r) of
                            Inl (e, raw) \<Rightarrow> failed malformed e raw
                          | Inr (current, new, t, reason) \<Rightarrow>
                              \<lparr>xo_lineNumber = lineNumber, xo_wallclock = wallclock, xo_wallclockMs = ms, xo_decodeStatus = ok_status,
                               xo_currentMultiplier = Some current, xo_newMultiplier = Some new,
                               xo_activationDateTimeRaw = js_prop (JObject r) ''activationDateTime'', xo_activationTime = Some t,
                               xo_reason = reason, xo_hasPendingUpdate = Some (positiveFinite (JNumber new) \<or> at_unixMs t \<noteq> None),
                               xo_error = None, xo_rawLine = line\<rparr>)
                     | _ \<Rightarrow> failed malformed ''response is not a JSON object'' JNull))
        | Some _ \<Rightarrow> failed_observation line lineNumber None None malformed ''line is not a JSON object'' JNull))"

text \<open>\<open>None\<close> is the thrown parse error. A property of an array is undefined, so an array fails the first test.\<close>

definition parseXStocksHistoricalRecord :: "(string \<Rightarrow> int option) \<Rightarrow> js_value \<Rightarrow> historical_record option" where
  "parseXStocksHistoricalRecord dateParse r =
     (let previous = js_prop r ''previousMultiplier''; current = js_prop r ''multiplier''; reason = js_prop r ''reason'' in
      if \<not> positiveFinite previous \<or> \<not> positiveFinite current then None
      else if \<not> (reason = JNull \<or> reason = JUndefined \<or> stringOrNull reason \<noteq> None) then None
      else Option.bind (interpretActivationTime dateParse (js_prop r ''activationDateTime'')) (\<lambda>t.
        if at_unixMs t = None then None
        else Some \<lparr>xh_previousMultiplier = the (number_of previous), xh_multiplier = the (number_of current), xh_activationTime = t,
                   xh_reason = stringOrNull reason\<rparr>))"

definition f64Hex :: "js_number \<Rightarrow> string" where
  "f64Hex x = hexOf (f64_bytes x)"

section \<open>xstocks-api.ts: the change detector\<close>

datatype api_event_type =
    API_PENDING_UPDATE_PUBLISHED | API_PENDING_UPDATE_CHANGED | API_PENDING_UPDATE_CLEARED | API_CURRENT_MULTIPLIER_CHANGED
  | API_ACTIVATION_TIME_CHANGED | API_REASON_CHANGED | API_REQUEST_ERROR | API_MALFORMED_RECORD

record api_event =
  xe_type :: api_event_type
  xe_wallclock :: "string option"
  xe_lineNumber :: nat
  xe_previous :: "xstocks_observation option"
  xe_current :: xstocks_observation
  xe_detail :: "string list"

record api_detector =
  xd_lastOk :: "xstocks_observation option"
  xd_lastErrorKey :: "string option"

definition new_api_detector :: api_detector where
  "new_api_detector = \<lparr>xd_lastOk = None, xd_lastErrorKey = None\<rparr>"

definition api_event_of :: "xstocks_observation option \<Rightarrow> xstocks_observation \<Rightarrow> api_event_type \<Rightarrow> string list \<Rightarrow> api_event" where
  "api_event_of previous obs type detail =
     \<lparr>xe_type = type, xe_wallclock = xo_wallclock obs, xe_lineNumber = xo_lineNumber obs, xe_previous = previous, xe_current = obs,
      xe_detail = detail\<rparr>"

text \<open>\<open>null\<close> equals only itself.\<close>

fun number_opt_eq :: "js_number option \<Rightarrow> js_number option \<Rightarrow> bool" where
  "number_opt_eq (Some x) (Some y) = number_eq x y"
| "number_opt_eq None None = True"
| "number_opt_eq _ _ = False"

fun number_opt_text :: "(rat \<Rightarrow> string) \<Rightarrow> js_number option \<Rightarrow> string" where
  "number_opt_text num None = ''null''"
| "number_opt_text num (Some x) = number_text num x"

fun string_opt_json :: "string option \<Rightarrow> string" where
  "string_opt_json None = ''null''"
| "string_opt_json (Some s) = json_quote s"

definition errorKey :: "xstocks_observation \<Rightarrow> string" where
  "errorKey obs = status_text (xo_decodeStatus obs) @ '':'' @ (case xo_error obs of None \<Rightarrow> ''null'' | Some e \<Rightarrow> e)"

definition arrow :: "string \<Rightarrow> string \<Rightarrow> string" where
  "arrow a b = a @ '' -> '' @ b"

text \<open>The events of a decoded observation against the previous decoded one.\<close>

definition api_changes :: "(rat \<Rightarrow> string) \<Rightarrow> xstocks_observation \<Rightarrow> xstocks_observation \<Rightarrow> api_event list" where
  "api_changes num previous obs =
     (let event = api_event_of (Some previous) obs;
          wasPending = (xo_hasPendingUpdate previous = Some True); isPending = (xo_hasPendingUpdate obs = Some True);
          multipliers = ''newMultiplier '' @ arrow (number_opt_text num (xo_newMultiplier previous)) (number_opt_text num (xo_newMultiplier obs))
      in (if \<not> number_opt_eq (xo_currentMultiplier previous) (xo_currentMultiplier obs)
          then [event API_CURRENT_MULTIPLIER_CHANGED
                 [arrow (number_opt_text num (xo_currentMultiplier previous)) (number_opt_text num (xo_currentMultiplier obs))]]
          else []) @
         (if \<not> wasPending \<and> isPending
          then [event API_PENDING_UPDATE_PUBLISHED
                 [''newMultiplier '' @ number_opt_text num (xo_newMultiplier obs),
                  ''activationDateTime '' @ json_text num (xo_activationDateTimeRaw obs)]]
          else if wasPending \<and> \<not> isPending then [event API_PENDING_UPDATE_CLEARED [multipliers]]
          else if wasPending \<and> isPending
          then (if \<not> number_opt_eq (xo_newMultiplier previous) (xo_newMultiplier obs)
                then [event API_PENDING_UPDATE_CHANGED [multipliers]] else []) @
               (if js_stringify num (xo_activationDateTimeRaw previous) \<noteq> js_stringify num (xo_activationDateTimeRaw obs)
                then [event API_ACTIVATION_TIME_CHANGED
                       [arrow (json_text num (xo_activationDateTimeRaw previous)) (json_text num (xo_activationDateTimeRaw obs))]]
                else [])
          else []) @
         (if xo_reason previous \<noteq> xo_reason obs \<and> wasPending = isPending
          then [event API_REASON_CHANGED [arrow (string_opt_json (xo_reason previous)) (string_opt_json (xo_reason obs))]]
          else []))"

definition push_api :: "(rat \<Rightarrow> string) \<Rightarrow> api_detector \<Rightarrow> xstocks_observation \<Rightarrow> api_detector \<times> api_event list" where
  "push_api num d obs =
     (if xo_decodeStatus obs \<noteq> ok_status
      then let key = errorKey obs in
        (if xd_lastErrorKey d = Some key then (d, [])
         else (d\<lparr>xd_lastErrorKey := Some key\<rparr>,
               [api_event_of (xd_lastOk d) obs
                  (if xo_decodeStatus obs = request_error then API_REQUEST_ERROR else API_MALFORMED_RECORD)
                  [case xo_error obs of None \<Rightarrow> '''' | Some e \<Rightarrow> e]]))
      else (\<lparr>xd_lastOk = Some obs, xd_lastErrorKey = None\<rparr>,
            (case xd_lastOk d of None \<Rightarrow> [] | Some previous \<Rightarrow> api_changes num previous obs)))"

section \<open>Facts: what a decoded line holds\<close>

lemma f64Hex_exact:
  assumes "is_double x" and "x \<noteq> JNaN" and "length bs = 8" and "f64_of_bytes bs \<noteq> JNaN"
  shows "f64Hex x = hexOf bs \<longleftrightarrow> x = f64_of_bytes bs"
  using assms f64_bytes_roundtrip by (auto simp: f64Hex_def is_double_def hexOf_inject)

fun zero_or_positive :: "js_number \<Rightarrow> bool" where
  "zero_or_positive x = (number_eq x (JNum 0) \<or> positiveFinite (JNumber x))"

text \<open>What the fields of an observation say, by its status.\<close>

definition api_wf :: "(string \<Rightarrow> int option) \<Rightarrow> xstocks_observation \<Rightarrow> bool" where
  "api_wf dateParse obs =
     (xo_wallclockMs obs = Option.bind (xo_wallclock obs) dateParse \<and>
      (case xo_decodeStatus obs of
         ok_status \<Rightarrow>
           xo_wallclockMs obs \<noteq> None \<and> xo_error obs = None \<and>
           (\<exists>current new t. xo_currentMultiplier obs = Some current \<and> positiveFinite (JNumber current) \<and>
              xo_newMultiplier obs = Some new \<and> zero_or_positive new \<and>
              xo_activationTime obs = Some t \<and> interpretActivationTime dateParse (xo_activationDateTimeRaw obs) = Some t \<and>
              xo_hasPendingUpdate obs = Some (positiveFinite (JNumber new) \<or> at_unixMs t \<noteq> None))
       | status \<Rightarrow>
           xo_error obs \<noteq> None \<and> xo_currentMultiplier obs = None \<and> xo_newMultiplier obs = None \<and> xo_activationTime obs = None \<and>
           xo_reason obs = None \<and> xo_hasPendingUpdate obs = None \<and> (status = request_error \<longrightarrow> xo_wallclockMs obs \<noteq> None)))"

lemma positiveFinite_number: "positiveFinite v \<Longrightarrow> \<exists>q. v = JNumber (JNum q) \<and> 0 < q"
  by (cases v rule: positiveFinite.cases) simp_all

lemma decode_response_ok:
  assumes "decode_response num dateParse r = Inr (current, new, t, reason)"
  shows "positiveFinite (JNumber current)" and "zero_or_positive new"
    and "interpretActivationTime dateParse (js_prop r ''activationDateTime'') = Some t"
  using assms
  by (auto simp: decode_response_def Let_def split: if_splits option.splits js_value.splits dest!: positiveFinite_number)

lemma failed_observation_wf:
  "status \<noteq> ok_status \<Longrightarrow> ms = Option.bind wallclock dateParse \<Longrightarrow> (status = request_error \<Longrightarrow> ms \<noteq> None) \<Longrightarrow>
   api_wf dateParse (failed_observation line lineNumber wallclock ms status err raw)"
  by (cases status) (simp_all add: api_wf_def failed_observation_def)

lemma decoded_observation_wf:
  assumes "decode_response num dateParse r = Inr (current, new, t, reason)" and "Option.bind wallclock dateParse = Some ms"
  shows "api_wf dateParse
     \<lparr>xo_lineNumber = lineNumber, xo_wallclock = wallclock, xo_wallclockMs = Some ms, xo_decodeStatus = ok_status,
      xo_currentMultiplier = Some current, xo_newMultiplier = Some new,
      xo_activationDateTimeRaw = js_prop r ''activationDateTime'', xo_activationTime = Some t, xo_reason = reason,
      xo_hasPendingUpdate = Some (positiveFinite (JNumber new) \<or> at_unixMs t \<noteq> None), xo_error = None, xo_rawLine = line\<rparr>"
  using decode_response_ok [OF assms(1)] assms(2) by (simp add: api_wf_def)

lemma failed_observation_line [simp]:
  "xo_lineNumber (failed_observation line lineNumber wallclock ms status err raw) = lineNumber"
  "xo_rawLine (failed_observation line lineNumber wallclock ms status err raw) = line"
  by (simp_all add: failed_observation_def)

section \<open>Facts: the history the detector reflects\<close>

definition api_detector_after :: "(rat \<Rightarrow> string) \<Rightarrow> xstocks_observation list \<Rightarrow> api_detector" where
  "api_detector_after num hs = foldl (\<lambda>d obs. fst (push_api num d obs)) new_api_detector hs"

lemma api_detector_after_snoc [simp]:
  "api_detector_after num [] = new_api_detector"
  "api_detector_after num (hs @ [obs]) = fst (push_api num (api_detector_after num hs) obs)"
  by (simp_all add: api_detector_after_def)

abbreviation api_ok :: "xstocks_observation \<Rightarrow> bool" where
  "api_ok obs \<equiv> xo_decodeStatus obs = ok_status"

lemma api_detector_reflects_history:
  "xd_lastOk (api_detector_after num hs) = last_of (filter api_ok hs) \<and>
   xd_lastErrorKey (api_detector_after num hs) =
     Option.bind (last_of hs) (\<lambda>obs. if api_ok obs then None else Some (errorKey obs))"
proof (induction hs rule: rev_induct)
  case Nil
  show ?case by (simp add: new_api_detector_def last_of_def)
next
  case (snoc obs hs)
  then show ?case by (auto simp: push_api_def Let_def last_of_def)
qed

text \<open>The events an observation should have, from the observations before it.\<close>

definition api_history_events :: "(rat \<Rightarrow> string) \<Rightarrow> xstocks_observation list \<Rightarrow> xstocks_observation \<Rightarrow> api_event list" where
  "api_history_events num hs obs =
     (if api_ok obs
      then (case last_of (filter api_ok hs) of None \<Rightarrow> [] | Some previous \<Rightarrow> api_changes num previous obs)
      else if hs \<noteq> [] \<and> \<not> api_ok (last hs) \<and> errorKey (last hs) = errorKey obs then []
      else [api_event_of (last_of (filter api_ok hs)) obs
              (if xo_decodeStatus obs = request_error then API_REQUEST_ERROR else API_MALFORMED_RECORD)
              [case xo_error obs of None \<Rightarrow> '''' | Some e \<Rightarrow> e]])"

lemma api_changes_Nil:
  assumes "api_wf dateParse p" and "api_wf dateParse obs" and "api_ok p" and "api_ok obs"
  shows "api_changes num p obs = [] \<longleftrightarrow>
     number_opt_eq (xo_currentMultiplier p) (xo_currentMultiplier obs) \<and>
     number_opt_eq (xo_newMultiplier p) (xo_newMultiplier obs) \<and>
     xo_hasPendingUpdate p = xo_hasPendingUpdate obs \<and> xo_reason p = xo_reason obs \<and>
     (xo_hasPendingUpdate obs = Some True \<longrightarrow>
        js_stringify num (xo_activationDateTimeRaw p) = js_stringify num (xo_activationDateTimeRaw obs))"
proof -
  have zero: "number_eq x y" if "zero_or_positive x" "zero_or_positive y" "\<not> positiveFinite (JNumber x)" "\<not> positiveFinite (JNumber y)" for x y
    using that by (cases x; cases y) auto
  show ?thesis using assms zero by (auto simp: api_wf_def api_changes_def Let_def)
qed

section \<open>Properties\<close>

text \<open>
  Decoding a watcher line is total. A blank line is no observation; any other line becomes one
  observation that keeps the line. Decoded multipliers are positive (a new one may be zero), the raw
  activation value has the reported reading, and an update is pending exactly when a new multiplier or an
  activation time is advertised; a failed line carries its error and claims nothing else.
\<close>

theorem api_line_well_formed:
  "case decodeXStocksApiLine num parse dateParse line lineNumber of
     None \<Rightarrow> blank line
   | Some obs \<Rightarrow> \<not> blank line \<and> api_wf dateParse obs \<and> xo_lineNumber obs = lineNumber \<and> xo_rawLine obs = line"
proof -
  note wf = failed_observation_wf and ok = decoded_observation_wf [where r = "JObject r" for r, simplified]
  show ?thesis
    by (auto simp: decodeXStocksApiLine_def Let_def intro!: wf ok split: option.splits js_value.splits sum.splits)
qed

text \<open>
  The streaming detector reports the changes of the history: a failed line exactly when the line before
  it did not fail the same way, a decoded one exactly its differences to the last decoded one. It stays
  silent between two decoded observations exactly when current and new multiplier, pending status,
  reason and, while an update is pending, the text of the activation time all agree.
\<close>

theorem api_detector_reports_history:
  "snd (push_api num (api_detector_after num hs) obs) = api_history_events num hs obs \<and>
   (\<forall>p. api_wf dateParse p \<and> api_wf dateParse obs \<and> api_ok p \<and> api_ok obs \<longrightarrow>
     (api_changes num p obs = [] \<longleftrightarrow>
       number_opt_eq (xo_currentMultiplier p) (xo_currentMultiplier obs) \<and>
       number_opt_eq (xo_newMultiplier p) (xo_newMultiplier obs) \<and>
       xo_hasPendingUpdate p = xo_hasPendingUpdate obs \<and> xo_reason p = xo_reason obs \<and>
       (xo_hasPendingUpdate obs = Some True \<longrightarrow>
          js_stringify num (xo_activationDateTimeRaw p) = js_stringify num (xo_activationDateTimeRaw obs))))"
  using api_detector_reflects_history [of num hs] api_changes_Nil
  by (auto simp: push_api_def api_history_events_def Let_def last_of_def split: if_splits)

definition sample_api :: "nat \<Rightarrow> js_value \<Rightarrow> xstocks_observation" where
  "sample_api n raw =
     \<lparr>xo_lineNumber = n, xo_wallclock = Some ''w'', xo_wallclockMs = Some 0, xo_decodeStatus = ok_status,
      xo_currentMultiplier = Some (JNum 1), xo_newMultiplier = Some (JNum 2), xo_activationDateTimeRaw = raw,
      xo_activationTime = interpretActivationTime (\<lambda>_. Some 0) raw, xo_reason = None, xo_hasPendingUpdate = Some True,
      xo_error = None, xo_rawLine = ''''\<rparr>"

text \<open>A sample number text for witnesses: the text of the fraction.\<close>

definition fraction_text :: "rat \<Rightarrow> string" where
  "fraction_text q = (let (n, d) = quotient_of q in if d = 1 then string_of_int n else string_of_int n @ ''/'' @ string_of_int d)"

theorem api_detector_reports_history_witness:
  "snd (push_api fraction_text (api_detector_after fraction_text [sample_api 1 (JNumber (JNum 5))]) (sample_api 2 (JNumber (JNum 5)))) = []"
proof -
  let ?p = "sample_api 1 (JNumber (JNum 5))" and ?o = "sample_api 2 (JNumber (JNum 5))"
  have i: "js_int (JNum 5) = Some 5" using js_int_of_int [of 5] by simp
  have "api_wf (\<lambda>_. Some 0) ?p" "api_wf (\<lambda>_. Some 0) ?o" "api_ok ?p" "api_ok ?o"
    by (simp_all add: api_wf_def sample_api_def interpretActivationTime_def MILLISECONDS_THRESHOLD_def i del: js_int.simps)
  then show ?thesis
    using api_detector_reports_history [of fraction_text "[?p]" ?o "\<lambda>_. Some 0"]
    by (simp add: api_history_events_def last_of_def sample_api_def)
qed

end
