(* ===== verification/Kox_Correlation.thy ===== *)
theory Kox_Correlation
  imports Timeline XStocks_Api
begin

text \<open>
  Correlation of API observations with chain observations of one mint
  (\<open>packages/representation-state/src/kox-correlation.ts\<close>). \<open>Date.parse\<close>, \<open>Date.prototype.toISOString\<close> and the
  decimal text of a number are parameters. Milliseconds are integers, as in the timeline.
\<close>

section \<open>kox-correlation.ts: types\<close>

datatype correlation_outcome =
    NO_PENDING_UPDATE_OBSERVED | API_PENDING_CHAIN_NOT_YET_PENDING | API_AND_CHAIN_PENDING_AGREE | API_AND_CHAIN_PENDING_CONFLICT
  | CHAIN_PENDING_OBSERVED_BEFORE_API_PENDING | INSUFFICIENT_API_COVERAGE
  | API_ACTIVATION_MATCHES_CHAIN_WITHIN_RESOLUTION | API_ACTIVATION_DIFFERS_FROM_CHAIN

record observed_boundary =
  ob_source :: evidence_source
  ob_firstObservedAt :: string
  ob_firstObservedMs :: int
  ob_firstObservedLine :: nat
  ob_lastObservedBefore :: "string option"
  ob_lastObservedBeforeMs :: "int option"
  ob_resolutionMs :: "int option"
  ob_slot :: "int option"
  ob_blockTime :: "int option"
  ob_previousBlockTime :: "int option"

datatype delta_order = API_BEFORE_CHAIN | CHAIN_BEFORE_API | UNRESOLVED_WITHIN_POLLING

record delta_bounds =
  db_minExclusiveMs :: "int option"
  db_maxInclusiveMs :: int
  db_order :: delta_order

datatype api_interval_kind = API_STABLE | API_ERROR | API_CAPTURE_GAP

record api_interval =
  ai_kind :: api_interval_kind
  ai_firstWallclock :: "string option"
  ai_lastWallclock :: "string option"
  ai_firstLine :: nat
  ai_lastLine :: nat
  ai_observations :: nat
  ai_currentMultiplier :: "js_number option"
  ai_newMultiplier :: "js_number option"
  ai_activationDateTimeRaw :: js_value
  ai_reason :: "string option"
  ai_error :: "string option"

record correlation_event =
  ce_source :: evidence_source
  ce_wallclock :: "string option"
  ce_wallclockMs :: "int option"
  ce_type :: string
  ce_detail :: "string list"

record api_advertised =
  ad_newMultiplier :: js_number
  ad_newMultiplierHex :: string
  ad_activationUnixMs :: "int option"
  ad_activationInterpretation :: string
  ad_reason :: "string option"

record chain_pending_state =
  cp_newMultiplierHex :: string
  cp_effectiveTimestamp :: int

record activation_bracket =
  ab_lastPending :: "int option"
  ab_firstActivated :: "int option"

record kox_correlation =
  kc_outcomes :: "correlation_outcome list"
  kc_apiPendingFirstObservedAt :: "observed_boundary option"
  kc_apiAdvertised :: "api_advertised option"
  kc_apiDistinctActivationValues :: "string option list"
  kc_chainPendingFirstObservedAt :: "observed_boundary option"
  kc_chainPendingState :: "chain_pending_state option"
  kc_chainActivationFirstObservedAt :: "observed_boundary option"
  kc_chainMultiplierChangeFirstObservedAt :: "observed_boundary option"
  kc_apiPublicationLead :: "delta_bounds option"
  kc_advertisedMinusChainEffectiveSecs :: "int option"
  kc_chainActivationBracketBlockTimes :: "activation_bracket option"
  kc_apiIntervals :: "api_interval list"
  kc_chainTimeline :: "timeline_entry list"
  kc_crossSourceEvents :: "correlation_event list"
  kc_qualityApi :: quality_metrics
  kc_qualityChain :: quality_metrics

section \<open>kox-correlation.ts: boundaries\<close>

definition API_COVERAGE_MAX_LAG_MS :: int where
  "API_COVERAGE_MAX_LAG_MS = CAPTURE_GAP_THRESHOLD_SECS * 1000"

type_synonym decoded_record = "capture_observation \<times> chain_observation"

fun decoded_record_of :: "string \<Rightarrow> capture_record \<Rightarrow> decoded_record list" where
  "decoded_record_of mint (Observed obs) =
     (if cap_mint obs = mint then (case cap_evidence obs of Decoded e \<Rightarrow> [(obs, e)] | DecodeError _ \<Rightarrow> []) else [])"
| "decoded_record_of mint (LineError _ _) = []"

definition decodedChain :: "capture_record list \<Rightarrow> string \<Rightarrow> decoded_record list" where
  "decodedChain records mint = concat (map (decoded_record_of mint) records)"

definition wallclock_ms :: "(string \<Rightarrow> int option) \<Rightarrow> string option \<Rightarrow> int option" where
  "wallclock_ms dateParse wallclock = Option.bind wallclock dateParse"

text \<open>\<open>findIndex\<close> with the index as second argument of the test; \<open>None\<close> for -1.\<close>

definition findIndex :: "(nat \<Rightarrow> 'a \<Rightarrow> bool) \<Rightarrow> 'a list \<Rightarrow> nat option" where
  "findIndex P xs = List.find (\<lambda>i. P i (xs ! i)) [0..<length xs]"

definition chainBoundary :: "(string \<Rightarrow> int option) \<Rightarrow> decoded_record list \<Rightarrow> nat \<Rightarrow> observed_boundary option" where
  "chainBoundary dateParse observations index =
     (case js_index observations index of
        None \<Rightarrow> None
      | Some (current, _) \<Rightarrow>
          (case (cap_wallclock current, wallclock_ms dateParse (cap_wallclock current)) of
             (Some wallclock, Some currentMs) \<Rightarrow>
               let previous = (if index > 0 then map_option fst (js_index observations (index - 1)) else None);
                   previousMs = Option.bind previous (\<lambda>p. wallclock_ms dateParse (cap_wallclock p))
               in Some \<lparr>ob_source = LIVE_CHAIN_source, ob_firstObservedAt = wallclock, ob_firstObservedMs = currentMs,
                        ob_firstObservedLine = cap_lineNumber current, ob_lastObservedBefore = Option.bind previous cap_wallclock,
                        ob_lastObservedBeforeMs = previousMs, ob_resolutionMs = map_option (\<lambda>p. currentMs - p) previousMs,
                        ob_slot = cap_slot current, ob_blockTime = cap_blockTime current,
                        ob_previousBlockTime = Option.bind previous cap_blockTime\<rparr>
           | _ \<Rightarrow> None))"

definition apiBoundary :: "xstocks_observation list \<Rightarrow> nat \<Rightarrow> observed_boundary option" where
  "apiBoundary decoded index =
     (case js_index decoded index of
        None \<Rightarrow> None
      | Some current \<Rightarrow>
          (case (xo_wallclock current, xo_wallclockMs current) of
             (Some wallclock, Some currentMs) \<Rightarrow>
               let previous = (if index > 0 then js_index decoded (index - 1) else None);
                   previousMs = Option.bind previous xo_wallclockMs
               in Some \<lparr>ob_source = LIVE_API_source, ob_firstObservedAt = wallclock, ob_firstObservedMs = currentMs,
                        ob_firstObservedLine = xo_lineNumber current, ob_lastObservedBefore = Option.bind previous xo_wallclock,
                        ob_lastObservedBeforeMs = previousMs, ob_resolutionMs = map_option (\<lambda>p. currentMs - p) previousMs,
                        ob_slot = None, ob_blockTime = None, ob_previousBlockTime = None\<rparr>
           | _ \<Rightarrow> None))"

definition deltaBounds :: "observed_boundary \<Rightarrow> observed_boundary \<Rightarrow> delta_bounds" where
  "deltaBounds api chain =
     (let a1 = ob_firstObservedMs api; c1 = ob_firstObservedMs chain;
          a0 = ob_lastObservedBeforeMs api; c0 = ob_lastObservedBeforeMs chain
      in \<lparr>db_minExclusiveMs = map_option (\<lambda>c. c - a1) c0,
          db_maxInclusiveMs = (case a0 of None \<Rightarrow> c1 | Some a \<Rightarrow> c1 - a),
          db_order =
            (if (case c0 of None \<Rightarrow> False | Some c \<Rightarrow> c \<ge> a1) then API_BEFORE_CHAIN
             else if (case a0 of None \<Rightarrow> False | Some a \<Rightarrow> a \<ge> c1) then CHAIN_BEFORE_API
             else UNRESOLVED_WITHIN_POLLING)\<rparr>)"

section \<open>kox-correlation.ts: API intervals\<close>

record open_api_interval =
  oa_first :: xstocks_observation
  oa_last :: xstocks_observation
  oa_count :: nat
  oa_key :: string

record api_interval_state =
  as_intervals :: "api_interval list"
  as_open :: "open_api_interval option"
  as_lastMs :: "int option"

definition flush_interval :: "api_interval_state \<Rightarrow> api_interval_state" where
  "flush_interval st =
     (case as_open st of
        None \<Rightarrow> st
      | Some run \<Rightarrow>
          st\<lparr>as_intervals := as_intervals st @
               [\<lparr>ai_kind = (if xo_decodeStatus (oa_first run) = ok_status then API_STABLE else API_ERROR),
                 ai_firstWallclock = xo_wallclock (oa_first run), ai_lastWallclock = xo_wallclock (oa_last run),
                 ai_firstLine = xo_lineNumber (oa_first run), ai_lastLine = xo_lineNumber (oa_last run), ai_observations = oa_count run,
                 ai_currentMultiplier = xo_currentMultiplier (oa_first run), ai_newMultiplier = xo_newMultiplier (oa_first run),
                 ai_activationDateTimeRaw = xo_activationDateTimeRaw (oa_first run), ai_reason = xo_reason (oa_first run),
                 ai_error = xo_error (oa_first run)\<rparr>],
             as_open := None\<rparr>)"

definition json_number :: "js_number option \<Rightarrow> js_value" where
  "json_number x = (case x of None \<Rightarrow> JNull | Some n \<Rightarrow> JNumber n)"

definition json_string :: "string option \<Rightarrow> js_value" where
  "json_string x = (case x of None \<Rightarrow> JNull | Some s \<Rightarrow> JString s)"

definition interval_key :: "(rat \<Rightarrow> string) \<Rightarrow> xstocks_observation \<Rightarrow> string" where
  "interval_key num obs =
     (if xo_decodeStatus obs = ok_status
      then json_text num (JArray [json_number (xo_currentMultiplier obs), json_number (xo_newMultiplier obs),
                                  xo_activationDateTimeRaw obs, json_string (xo_reason obs)])
      else errorKey obs)"

definition gap_interval :: "(int \<Rightarrow> string) \<Rightarrow> int \<Rightarrow> int \<Rightarrow> xstocks_observation \<Rightarrow> api_interval" where
  "gap_interval toISO lastMs ms obs =
     \<lparr>ai_kind = API_CAPTURE_GAP, ai_firstWallclock = Some (toISO lastMs), ai_lastWallclock = xo_wallclock obs,
      ai_firstLine = xo_lineNumber obs, ai_lastLine = xo_lineNumber obs, ai_observations = 0, ai_currentMultiplier = None,
      ai_newMultiplier = None, ai_activationDateTimeRaw = JNull, ai_reason = None,
      ai_error = Some (string_of_int (ms - lastMs) @ '' ms without an API observation'')\<rparr>"

text \<open>One turn of the loop: a long silence, then the observation.\<close>

definition interval_gap :: "(int \<Rightarrow> string) \<Rightarrow> api_interval_state \<Rightarrow> xstocks_observation \<Rightarrow> api_interval_state" where
  "interval_gap toISO st obs =
     (case (xo_wallclockMs obs, as_lastMs st) of
        (Some ms, Some lastMs) \<Rightarrow>
          if ms - lastMs \<ge> CAPTURE_GAP_THRESHOLD_SECS * 1000
          then let st = flush_interval st in st\<lparr>as_intervals := as_intervals st @ [gap_interval toISO lastMs ms obs]\<rparr>
          else st
      | _ \<Rightarrow> st)"

definition interval_step :: "(rat \<Rightarrow> string) \<Rightarrow> (int \<Rightarrow> string) \<Rightarrow> api_interval_state \<Rightarrow> xstocks_observation \<Rightarrow> api_interval_state" where
  "interval_step num toISO st obs =
     (let st = interval_gap toISO st obs;
          st = (case xo_wallclockMs obs of None \<Rightarrow> st | Some ms \<Rightarrow> st\<lparr>as_lastMs := Some ms\<rparr>);
          key = interval_key num obs; fresh = \<lparr>oa_first = obs, oa_last = obs, oa_count = 1, oa_key = key\<rparr>
      in case as_open st of
           Some run \<Rightarrow>
             if oa_key run = key then st\<lparr>as_open := Some (run\<lparr>oa_last := obs, oa_count := Suc (oa_count run)\<rparr>)\<rparr>
             else (flush_interval st)\<lparr>as_open := Some fresh\<rparr>
         | None \<Rightarrow> (flush_interval st)\<lparr>as_open := Some fresh\<rparr>)"

definition apiIntervals :: "(rat \<Rightarrow> string) \<Rightarrow> (int \<Rightarrow> string) \<Rightarrow> xstocks_observation list \<Rightarrow> api_interval list" where
  "apiIntervals num toISO observations =
     as_intervals (flush_interval (foldl (interval_step num toISO) \<lparr>as_intervals = [], as_open = None, as_lastMs = None\<rparr> observations))"

section \<open>kox-correlation.ts: the correlation\<close>

text \<open>\<open>[...new Set(xs)]\<close>: the first occurrences, in order.\<close>

definition distinct_values :: "'a list \<Rightarrow> 'a list" where
  "distinct_values xs = rev (remdups (rev xs))"

definition pending_update :: "xstocks_observation \<Rightarrow> bool" where
  "pending_update obs = (xo_hasPendingUpdate obs = Some True)"

definition chain_pending :: "chain_observation \<Rightarrow> bool" where
  "chain_pending e = (co_hasScheduledChange e \<and> co_phase e = Some 0)"

definition apiAdvertised_of :: "xstocks_observation option \<Rightarrow> api_advertised option" where
  "apiAdvertised_of apiPending =
     Option.bind apiPending (\<lambda>p. map_option (\<lambda>new.
       \<lparr>ad_newMultiplier = new, ad_newMultiplierHex = f64Hex new, ad_activationUnixMs = Option.bind (xo_activationTime p) at_unixMs,
        ad_activationInterpretation = (case xo_activationTime p of None \<Rightarrow> ''none'' | Some t \<Rightarrow> interpretation_text (at_interpretation t)),
        ad_reason = xo_reason p\<rparr>) (xo_newMultiplier p))"

definition chainPendingState_of :: "decoded_record option \<Rightarrow> chain_pending_state option" where
  "chainPendingState_of pendingObs =
     map_option (\<lambda>(_, e). \<lparr>cp_newMultiplierHex = hexOf (newMultiplier (co_protectedState e)),
                          cp_effectiveTimestamp = newMultiplierEffectiveTimestamp (co_protectedState e)\<rparr>) pendingObs"

definition activation_at :: "decoded_record list \<Rightarrow> nat \<Rightarrow> decoded_record \<Rightarrow> bool" where
  "activation_at chain i obs = (i > 0 \<and> co_phase (snd (chain ! (i - 1))) = Some 0 \<and> co_phase (snd obs) = Some 1)"

definition multiplier_change_at :: "decoded_record list \<Rightarrow> nat \<Rightarrow> decoded_record \<Rightarrow> bool" where
  "multiplier_change_at chain i obs =
     (i > 0 \<and> multiplier (co_protectedState (snd (chain ! (i - 1)))) \<noteq> multiplier (co_protectedState (snd obs)))"

definition earliest :: "observed_boundary option list \<Rightarrow> observed_boundary option" where
  "earliest bs = js_index (sort_key ob_firstObservedMs (concat (map (\<lambda>b. case b of None \<Rightarrow> [] | Some x \<Rightarrow> [x]) bs))) 0"

text \<open>The outcome of comparing the API's publication with the chain at that moment.\<close>

definition publication_outcome :: "(string \<Rightarrow> int option) \<Rightarrow> observed_boundary option \<Rightarrow> decoded_record list \<Rightarrow> correlation_outcome list" where
  "publication_outcome dateParse apiFirst chain =
     (case apiFirst of
        None \<Rightarrow> []
      | Some first \<Rightarrow>
          (case last_of (filter (\<lambda>(obs, _). case wallclock_ms dateParse (cap_wallclock obs) of
                           None \<Rightarrow> False | Some t \<Rightarrow> t \<le> ob_firstObservedMs first) chain) of
             None \<Rightarrow> []
           | Some (_, e) \<Rightarrow> if chain_pending e then [] else [API_PENDING_CHAIN_NOT_YET_PENDING]))"

definition agreement_outcome :: "api_advertised option \<Rightarrow> chain_pending_state option \<Rightarrow> correlation_outcome list" where
  "agreement_outcome advertised pending =
     (case (advertised, pending) of
        (Some a, Some p) \<Rightarrow>
          let multiplierAgrees = (ad_newMultiplierHex a = cp_newMultiplierHex p);
              activationAgrees = (ad_activationUnixMs a = Some (cp_effectiveTimestamp p * 1000))
          in [if multiplierAgrees \<and> activationAgrees then API_AND_CHAIN_PENDING_AGREE else API_AND_CHAIN_PENDING_CONFLICT]
      | _ \<Rightarrow> [])"

definition precedence_outcome :: "xstocks_observation list \<Rightarrow> xstocks_observation list \<Rightarrow> observed_boundary option \<Rightarrow> correlation_outcome list" where
  "precedence_outcome api decoded chainFirst =
     (case chainFirst of
        None \<Rightarrow> []
      | Some first \<Rightarrow>
          let t = ob_firstObservedMs first in
          if list_ex (\<lambda>obs. pending_update obs \<and> (case xo_wallclockMs obs of None \<Rightarrow> False | Some ms \<Rightarrow> ms \<le> t)) decoded then []
          else [if list_ex (\<lambda>obs. case xo_wallclockMs obs of None \<Rightarrow> False | Some ms \<Rightarrow> ms \<le> t \<and> t - ms \<le> API_COVERAGE_MAX_LAG_MS) api
                then CHAIN_PENDING_OBSERVED_BEFORE_API_PENDING else INSUFFICIENT_API_COVERAGE])"

text \<open>The advertised activation against the effective timestamp: difference, bracket and outcome.\<close>

definition activation_timing ::
    "api_advertised option \<Rightarrow> chain_pending_state option \<Rightarrow> observed_boundary option \<Rightarrow>
       int option \<times> activation_bracket option \<times> correlation_outcome list" where
  "activation_timing advertised pending activation =
     (case (Option.bind advertised ad_activationUnixMs, pending) of
        (Some unixMs, Some p) \<Rightarrow>
          let difference = unixMs div 1000 - cp_effectiveTimestamp p;
              bracket = map_option (\<lambda>b. \<lparr>ab_lastPending = ob_previousBlockTime b, ab_firstActivated = ob_blockTime b\<rparr>) activation;
              resolution = (case (Option.bind bracket ab_lastPending, Option.bind bracket ab_firstActivated) of
                              (Some s, Some t) \<Rightarrow> t - s | _ \<Rightarrow> CAPTURE_CADENCE_SECS)
          in (Some difference, bracket,
              [if \<bar>difference\<bar> \<le> resolution then API_ACTIVATION_MATCHES_CHAIN_WITHIN_RESOLUTION else API_ACTIVATION_DIFFERS_FROM_CHAIN])
      | _ \<Rightarrow> (None, None, []))"

fun api_event_text :: "api_event_type \<Rightarrow> string" where
  "api_event_text API_PENDING_UPDATE_PUBLISHED = ''API_PENDING_UPDATE_PUBLISHED''"
| "api_event_text API_PENDING_UPDATE_CHANGED = ''API_PENDING_UPDATE_CHANGED''"
| "api_event_text API_PENDING_UPDATE_CLEARED = ''API_PENDING_UPDATE_CLEARED''"
| "api_event_text API_CURRENT_MULTIPLIER_CHANGED = ''API_CURRENT_MULTIPLIER_CHANGED''"
| "api_event_text API_ACTIVATION_TIME_CHANGED = ''API_ACTIVATION_TIME_CHANGED''"
| "api_event_text API_REASON_CHANGED = ''API_REASON_CHANGED''"
| "api_event_text API_REQUEST_ERROR = ''API_REQUEST_ERROR''"
| "api_event_text API_MALFORMED_RECORD = ''API_MALFORMED_RECORD''"

fun event_type_text :: "observation_event_type \<Rightarrow> string" where
  "event_type_text SCALED_UI_STATE_CHANGED = ''SCALED_UI_STATE_CHANGED''"
| "event_type_text ACTIVATION_PHASE_CHANGED = ''ACTIVATION_PHASE_CHANGED''"
| "event_type_text PAUSE_STATE_CHANGED = ''PAUSE_STATE_CHANGED''"
| "event_type_text STATE_SOURCE_CONFLICT = ''STATE_SOURCE_CONFLICT''"
| "event_type_text DECODE_ERROR = ''DECODE_ERROR''"

definition api_correlation_event :: "api_event \<Rightarrow> correlation_event" where
  "api_correlation_event e =
     \<lparr>ce_source = LIVE_API_source, ce_wallclock = xe_wallclock e, ce_wallclockMs = xo_wallclockMs (xe_current e),
      ce_type = api_event_text (xe_type e), ce_detail = xe_detail e\<rparr>"

fun chain_correlation_event :: "(string \<Rightarrow> int option) \<Rightarrow> timeline_entry \<Rightarrow> correlation_event list" where
  "chain_correlation_event dateParse (STATE_CHANGE c) =
     [\<lparr>ce_source = LIVE_CHAIN_source, ce_wallclock = cap_wallclock (sg_record c),
       ce_wallclockMs = wallclock_ms dateParse (cap_wallclock (sg_record c)), ce_type = ''CHAIN_STATE_CHANGE'',
       ce_detail = map event_type_text (sg_events c) @ sg_changedFields c\<rparr>]"
| "chain_correlation_event dateParse (DECODE_ERROR_entry e) =
     [\<lparr>ce_source = LIVE_CHAIN_source, ce_wallclock = ee_firstWallclock e, ce_wallclockMs = wallclock_ms dateParse (ee_firstWallclock e),
       ce_type = ''CHAIN_DECODE_ERROR'', ce_detail = [ee_code e]\<rparr>]"
| "chain_correlation_event dateParse (CAPTURE_GAP g) =
     [\<lparr>ce_source = LIVE_CHAIN_source, ce_wallclock = Some (pp_wallclock (cg_to g)),
       ce_wallclockMs = wallclock_ms dateParse (Some (pp_wallclock (cg_to g))), ce_type = ''CHAIN_CAPTURE_GAP'',
       ce_detail = [string_of_int (cg_wallclockGapMs g) @ '' ms gap'']\<rparr>]"
| "chain_correlation_event dateParse _ = []"

definition event_rank :: "correlation_event \<Rightarrow> int \<times> nat" where
  "event_rank e = (case ce_wallclockMs e of None \<Rightarrow> 0 | Some t \<Rightarrow> t, if ce_source e = LIVE_API_source then 0 else 1)"

text \<open>All events of a detector over a list of observations.\<close>

fun api_events :: "(rat \<Rightarrow> string) \<Rightarrow> api_detector \<Rightarrow> xstocks_observation list \<Rightarrow> api_event list" where
  "api_events num d [] = []"
| "api_events num d (obs # rest) = (let (d', es) = push_api num d obs in es @ api_events num d' rest)"

definition api_poll :: "xstocks_observation \<Rightarrow> poll_point list" where
  "api_poll obs =
     (case (xo_wallclock obs, xo_wallclockMs obs) of
        (Some w, Some ms) \<Rightarrow>
          if xo_decodeStatus obs = ok_status
          then [\<lparr>pp_line = xo_lineNumber obs, pp_wallclock = w, pp_ms = ms, pp_slot = None, pp_blockTime = None\<rparr>] else []
      | _ \<Rightarrow> [])"

fun concerns :: "string \<Rightarrow> capture_record \<Rightarrow> bool" where
  "concerns mint (LineError _ _) = True"
| "concerns mint (Observed obs) = (cap_mint obs = mint)"

definition correlateKOx ::
    "(rat \<Rightarrow> string) \<Rightarrow> (string \<Rightarrow> int option) \<Rightarrow> (int \<Rightarrow> string) \<Rightarrow> xstocks_observation list \<Rightarrow> capture_record list \<Rightarrow> string \<Rightarrow> string \<Rightarrow>
       kox_correlation" where
  "correlateKOx num dateParse toISO inputApi inputChain mint symbol =
     (let api = sort_key xo_lineNumber inputApi;
          decoded = filter (\<lambda>obs. xo_decodeStatus obs = ok_status) api;
          chain = decodedChain inputChain mint;
          apiIndex = findIndex (\<lambda>_. pending_update) decoded;
          apiFirst = Option.bind apiIndex (apiBoundary decoded);
          advertised = apiAdvertised_of (Option.bind apiIndex (js_index decoded));
          pendingIndex = findIndex (\<lambda>_ (obs, e). chain_pending e) chain;
          chainFirst = Option.bind pendingIndex (chainBoundary dateParse chain);
          pendingState = chainPendingState_of (Option.bind pendingIndex (js_index chain));
          activation = Option.bind (findIndex (activation_at chain) chain) (chainBoundary dateParse chain);
          multiplierChange = Option.bind (findIndex (multiplier_change_at chain) chain) (chainBoundary dateParse chain);
          chainChange = earliest [chainFirst, multiplierChange, activation];
          (difference, bracket, timing) = activation_timing advertised pendingState activation;
          timeline = buildTimeline dateParse \<lparr>to_symbols = Some {symbol}, to_verbose = False\<rparr> (filter (concerns mint) inputChain);
          polls = concat (map api_poll api)
      in \<lparr>kc_outcomes =
            (if apiFirst = None \<and> chainChange = None then [NO_PENDING_UPDATE_OBSERVED] else []) @
            publication_outcome dateParse apiFirst chain @ agreement_outcome advertised pendingState @
            precedence_outcome api decoded chainFirst @ timing,
          kc_apiPendingFirstObservedAt = apiFirst, kc_apiAdvertised = advertised,
          kc_apiDistinctActivationValues =
            distinct_values (map (\<lambda>obs. js_stringify num (xo_activationDateTimeRaw obs)) (filter pending_update decoded)),
          kc_chainPendingFirstObservedAt = chainFirst, kc_chainPendingState = pendingState,
          kc_chainActivationFirstObservedAt = activation, kc_chainMultiplierChangeFirstObservedAt = multiplierChange,
          kc_apiPublicationLead = (case (apiFirst, chainFirst) of (Some a, Some c) \<Rightarrow> Some (deltaBounds a c) | _ \<Rightarrow> None),
          kc_advertisedMinusChainEffectiveSecs = difference, kc_chainActivationBracketBlockTimes = bracket,
          kc_apiIntervals = apiIntervals num toISO api, kc_chainTimeline = tr_entries timeline,
          kc_crossSourceEvents =
            sort_key event_rank (map api_correlation_event (api_events num new_api_detector api) @
                                 concat (map (chain_correlation_event dateParse) (tr_entries timeline))),
          kc_qualityApi =
            qualityMetrics polls (length (filter (\<lambda>obs. xo_wallclockMs obs \<noteq> None) api))
              (length (filter (\<lambda>obs. xo_decodeStatus obs \<noteq> ok_status) api)) (countGaps polls),
          kc_qualityChain = (case map_of (tr_bySymbol timeline) symbol of None \<Rightarrow> tr_overall timeline | Some q \<Rightarrow> q)\<rparr>)"

section \<open>Facts: first observations\<close>

lemma find_map: "List.find P (map f xs) = map_option f (List.find (P \<circ> f) xs)"
  by (induction xs) auto

lemma find_upt_nth: "map_option (\<lambda>i. xs ! i) (List.find (\<lambda>i. P (xs ! i)) [0..<length xs]) = List.find P xs"
  using find_map [of P "\<lambda>i. xs ! i" "[0..<length xs]"] by (simp add: map_nth comp_def)

lemma findIndex_Some: "findIndex P xs = Some i \<Longrightarrow> i < length xs \<and> P i (xs ! i) \<and> (\<forall>j < i. \<not> P j (xs ! j))"
  by (auto simp: findIndex_def find_Some_iff)

lemma findIndex_find: "Option.bind (findIndex (\<lambda>_. P) xs) (js_index xs) = List.find P xs"
proof (cases "findIndex (\<lambda>_. P) xs")
  case None
  then show ?thesis using find_upt_nth [of xs P] by (simp add: findIndex_def)
next
  case (Some i)
  then show ?thesis
    using find_upt_nth [of xs P] findIndex_Some [OF Some] by (simp add: findIndex_def js_index_def)
qed

lemma findIndex_None: "findIndex (\<lambda>_. P) xs = None \<longleftrightarrow> List.find P xs = None"
  using find_upt_nth [of xs P] by (auto simp: findIndex_def)

lemma apiBoundary_wf:
  assumes "list_all (api_wf dateParse) decoded" and "list_all api_ok decoded"
    and "findIndex (\<lambda>_. pending_update) decoded = Some i"
  shows "apiBoundary decoded i \<noteq> None"
proof -
  have i: "i < length decoded" using findIndex_Some [OF assms(3)] by simp
  with assms(1,2) have "api_wf dateParse (decoded ! i)" "api_ok (decoded ! i)" by (simp_all add: list_all_length)
  then have "xo_wallclock (decoded ! i) \<noteq> None" "xo_wallclockMs (decoded ! i) \<noteq> None"
    by (cases "xo_wallclock (decoded ! i)"; simp add: api_wf_def)+
  with i show ?thesis by (auto simp: apiBoundary_def js_index_def Let_def)
qed

section \<open>Facts: API intervals\<close>

text \<open>A group of consecutive observations and the interval that reports it.\<close>

definition reports_group :: "(rat \<Rightarrow> string) \<Rightarrow> api_interval \<Rightarrow> xstocks_observation list \<Rightarrow> bool" where
  "reports_group num i g =
     (g \<noteq> [] \<and> ai_observations i = length g \<and> ai_firstLine i = xo_lineNumber (hd g) \<and> ai_lastLine i = xo_lineNumber (last g) \<and>
      ai_currentMultiplier i = xo_currentMultiplier (hd g) \<and> ai_newMultiplier i = xo_newMultiplier (hd g) \<and>
      ai_kind i = (if api_ok (hd g) then API_STABLE else API_ERROR) \<and>
      (\<exists>key. \<forall>obs \<in> set g. interval_key num obs = key))"

definition open_group :: "(rat \<Rightarrow> string) \<Rightarrow> open_api_interval \<Rightarrow> xstocks_observation list \<Rightarrow> bool" where
  "open_group num run g =
     (g \<noteq> [] \<and> oa_first run = hd g \<and> oa_last run = last g \<and> oa_count run = length g \<and>
      (\<forall>obs \<in> set g. interval_key num obs = oa_key run))"

abbreviation observed :: "api_interval list \<Rightarrow> api_interval list" where
  "observed is \<equiv> filter (\<lambda>i. ai_kind i \<noteq> API_CAPTURE_GAP) is"

text \<open>The loop's invariant: the closed intervals report groups of what was seen, the open run is the last group.\<close>

definition interval_inv :: "(rat \<Rightarrow> string) \<Rightarrow> api_interval_state \<Rightarrow> xstocks_observation list \<Rightarrow> bool" where
  "interval_inv num st seen =
     (\<exists>groups current. seen = concat groups @ current \<and> list_all2 (reports_group num) (observed (as_intervals st)) groups \<and>
        (case as_open st of None \<Rightarrow> current = [] | Some run \<Rightarrow> open_group num run current))"

lemma interval_inv_intro:
  "seen = concat groups @ current \<Longrightarrow> list_all2 (reports_group num) (observed (as_intervals st)) groups \<Longrightarrow>
   (case as_open st of None \<Rightarrow> current = [] | Some run \<Rightarrow> open_group num run current) \<Longrightarrow> interval_inv num st seen"
  unfolding interval_inv_def by blast

lemma interval_inv_open:
  assumes "interval_inv num st seen" and "as_open st = Some run"
  obtains groups current where "seen = concat groups @ current"
    "list_all2 (reports_group num) (observed (as_intervals st)) groups" "open_group num run current"
  using assms unfolding interval_inv_def by auto

lemma closed_group:
  assumes "open_group num run g"
  shows "reports_group num
     \<lparr>ai_kind = (if xo_decodeStatus (oa_first run) = ok_status then API_STABLE else API_ERROR),
      ai_firstWallclock = fw, ai_lastWallclock = lw, ai_firstLine = xo_lineNumber (oa_first run),
      ai_lastLine = xo_lineNumber (oa_last run), ai_observations = oa_count run,
      ai_currentMultiplier = xo_currentMultiplier (oa_first run), ai_newMultiplier = xo_newMultiplier (oa_first run),
      ai_activationDateTimeRaw = raw, ai_reason = reason, ai_error = err\<rparr> g"
  using assms by (auto simp: open_group_def reports_group_def)

lemma flush_interval_inv:
  assumes "interval_inv num st seen"
  shows "interval_inv num (flush_interval st) seen \<and> as_open (flush_interval st) = None"
proof (cases "as_open st")
  case None
  with assms show ?thesis by (simp add: flush_interval_def)
next
  case (Some run)
  from interval_inv_open [OF assms Some] obtain groups current where g: "seen = concat groups @ current"
    "list_all2 (reports_group num) (observed (as_intervals st)) groups" "open_group num run current" .
  have "as_open (flush_interval st) = None" using Some by (simp add: flush_interval_def)
  moreover have "list_all2 (reports_group num) (observed (as_intervals (flush_interval st))) (groups @ [current])"
    using g(2) closed_group [OF g(3)] Some by (simp add: flush_interval_def list_all2_appendI)
  ultimately show ?thesis
    using g(1) by (intro conjI interval_inv_intro [of _ "groups @ [current]" "[]"]) simp_all
qed

lemma interval_inv_cong:
  "as_open st' = as_open st \<Longrightarrow> observed (as_intervals st') = observed (as_intervals st) \<Longrightarrow>
   interval_inv num st' seen = interval_inv num st seen"
  by (simp add: interval_inv_def)

lemma interval_gap_inv:
  assumes "interval_inv num st seen"
  shows "interval_inv num (interval_gap toISO st obs) seen"
proof -
  let ?st = "flush_interval st"
  have "interval_inv num (?st\<lparr>as_intervals := as_intervals ?st @ [gap_interval toISO t t' obs]\<rparr>) seen" for t t'
    using flush_interval_inv [OF assms] by (subst interval_inv_cong [of _ ?st]) (simp_all add: gap_interval_def)
  then show ?thesis using assms by (simp add: interval_gap_def Let_def split: option.split)
qed

lemma interval_inv_fresh:
  assumes "interval_inv num st seen" and "as_open st = None"
  shows "interval_inv num (st\<lparr>as_open := Some \<lparr>oa_first = obs, oa_last = obs, oa_count = 1, oa_key = interval_key num obs\<rparr>\<rparr>) (seen @ [obs])"
proof -
  from assms obtain groups where "seen = concat groups" "list_all2 (reports_group num) (observed (as_intervals st)) groups"
    unfolding interval_inv_def by auto
  then show ?thesis by (intro interval_inv_intro [of _ groups "[obs]"]) (simp_all add: open_group_def)
qed

lemma interval_inv_extend:
  assumes "interval_inv num st seen" and "as_open st = Some run" and "oa_key run = interval_key num obs"
  shows "interval_inv num (st\<lparr>as_open := Some (run\<lparr>oa_last := obs, oa_count := Suc (oa_count run)\<rparr>)\<rparr>) (seen @ [obs])"
proof -
  from interval_inv_open [OF assms(1,2)] obtain groups current where g: "seen = concat groups @ current"
    "list_all2 (reports_group num) (observed (as_intervals st)) groups" "open_group num run current" .
  have "open_group num (run\<lparr>oa_last := obs, oa_count := Suc (oa_count run)\<rparr>) (current @ [obs])"
    using g(3) assms(3) by (simp add: open_group_def)
  with g(1,2) show ?thesis by (intro interval_inv_intro [of _ groups "current @ [obs]"]) simp_all
qed

lemma interval_step_inv:
  assumes "interval_inv num st seen"
  shows "interval_inv num (interval_step num toISO st obs) (seen @ [obs])"
proof -
  define st1 where "st1 = interval_gap toISO st obs"
  define st2 where "st2 = (case xo_wallclockMs obs of None \<Rightarrow> st1 | Some ms \<Rightarrow> st1\<lparr>as_lastMs := Some ms\<rparr>)"
  have "interval_inv num st1 seen" using assms by (simp add: st1_def interval_gap_inv)
  then have inv: "interval_inv num st2 seen"
    by (auto simp: st2_def interval_inv_def split: option.splits)
  from flush_interval_inv [OF inv] interval_inv_fresh have fresh: "interval_inv num ((flush_interval st2)
      \<lparr>as_open := Some \<lparr>oa_first = obs, oa_last = obs, oa_count = 1, oa_key = interval_key num obs\<rparr>\<rparr>) (seen @ [obs])" by blast
  have "interval_step num toISO st obs =
      (case as_open st2 of
         Some run \<Rightarrow>
           if oa_key run = interval_key num obs then st2\<lparr>as_open := Some (run\<lparr>oa_last := obs, oa_count := Suc (oa_count run)\<rparr>)\<rparr>
           else (flush_interval st2)\<lparr>as_open := Some \<lparr>oa_first = obs, oa_last = obs, oa_count = 1, oa_key = interval_key num obs\<rparr>\<rparr>
       | None \<Rightarrow> (flush_interval st2)\<lparr>as_open := Some \<lparr>oa_first = obs, oa_last = obs, oa_count = 1, oa_key = interval_key num obs\<rparr>\<rparr>)"
    by (simp only: interval_step_def Let_def st1_def st2_def)
  then show ?thesis
    using fresh interval_inv_extend [OF inv] by (auto split: option.splits)
qed

section \<open>Facts: outcomes\<close>

text \<open>The first pending observation of each source.\<close>

definition api_decoded :: "xstocks_observation list \<Rightarrow> xstocks_observation list" where
  "api_decoded inputApi = filter api_ok (sort_key xo_lineNumber inputApi)"

definition first_api_pending :: "xstocks_observation list \<Rightarrow> xstocks_observation option" where
  "first_api_pending inputApi = List.find pending_update (api_decoded inputApi)"

definition first_chain_pending :: "capture_record list \<Rightarrow> string \<Rightarrow> decoded_record option" where
  "first_chain_pending inputChain mint = List.find (\<lambda>(obs, e). chain_pending e) (decodedChain inputChain mint)"

lemma activation_timing_outcome:
  "snd (snd (activation_timing advertised pending activation)) \<in>
     {[], [API_ACTIVATION_MATCHES_CHAIN_WITHIN_RESOLUTION], [API_ACTIVATION_DIFFERS_FROM_CHAIN]}"
  by (auto simp: activation_timing_def Let_def split: option.splits)

lemma activation_timing_none: "advertised = None \<or> pending = None \<Longrightarrow> activation_timing advertised pending activation = (None, None, [])"
  by (auto simp: activation_timing_def split: option.splits)

lemma outcome_cases:
  "publication_outcome dateParse a chain \<in> {[], [API_PENDING_CHAIN_NOT_YET_PENDING]}"
  "agreement_outcome adv p \<in> {[], [API_AND_CHAIN_PENDING_AGREE], [API_AND_CHAIN_PENDING_CONFLICT]}"
  "precedence_outcome api decoded c \<in> {[], [CHAIN_PENDING_OBSERVED_BEFORE_API_PENDING], [INSUFFICIENT_API_COVERAGE]}"
  by (auto simp: publication_outcome_def agreement_outcome_def precedence_outcome_def Let_def split: option.splits)

text \<open>The outcomes, with their parts named.\<close>

lemma correlateKOx_outcomes:
  fixes num dateParse toISO inputApi inputChain mint symbol
  defines "k \<equiv> correlateKOx num dateParse toISO inputApi inputChain mint symbol"
  shows "kc_outcomes k =
      (if kc_apiPendingFirstObservedAt k = None \<and>
          earliest [kc_chainPendingFirstObservedAt k, kc_chainMultiplierChangeFirstObservedAt k, kc_chainActivationFirstObservedAt k] = None
       then [NO_PENDING_UPDATE_OBSERVED] else []) @
      publication_outcome dateParse (kc_apiPendingFirstObservedAt k) (decodedChain inputChain mint) @
      agreement_outcome (kc_apiAdvertised k) (kc_chainPendingState k) @
      precedence_outcome (sort_key xo_lineNumber inputApi) (api_decoded inputApi) (kc_chainPendingFirstObservedAt k) @
      snd (snd (activation_timing (kc_apiAdvertised k) (kc_chainPendingState k) (kc_chainActivationFirstObservedAt k)))"
    and "kc_apiAdvertised k = apiAdvertised_of (first_api_pending inputApi)"
    and "kc_chainPendingState k = chainPendingState_of (first_chain_pending inputChain mint)"
    and "kc_apiPendingFirstObservedAt k = Option.bind (findIndex (\<lambda>_. pending_update) (api_decoded inputApi)) (apiBoundary (api_decoded inputApi))"
  by (simp_all add: k_def correlateKOx_def Let_def api_decoded_def first_api_pending_def first_chain_pending_def findIndex_find split_beta)

lemma no_api_pending:
  assumes "list_all (api_wf dateParse) inputApi"
    and "Option.bind (findIndex (\<lambda>_. pending_update) (api_decoded inputApi)) (apiBoundary (api_decoded inputApi)) = None"
  shows "first_api_pending inputApi = None"
proof -
  have wf: "list_all (api_wf dateParse) (api_decoded inputApi)" "list_all api_ok (api_decoded inputApi)"
    using assms(1) by (auto simp: api_decoded_def list_all_iff)
  show ?thesis
  proof (cases "findIndex (\<lambda>_. pending_update) (api_decoded inputApi)")
    case None
    then show ?thesis by (simp add: findIndex_None first_api_pending_def)
  next
    case (Some i)
    with assms(2) apiBoundary_wf [OF wf Some] show ?thesis by simp
  qed
qed

lemma earliest_None: "earliest bs = None \<longleftrightarrow> list_all (\<lambda>b. b = None) bs"
proof -
  have "earliest bs = None \<longleftrightarrow> length (sort_key ob_firstObservedMs (concat (map (\<lambda>b. case b of None \<Rightarrow> [] | Some x \<Rightarrow> [x]) bs))) = 0"
    unfolding earliest_def js_index_def by simp
  also have "\<dots> \<longleftrightarrow> (\<forall>b \<in> set bs. (case b of None \<Rightarrow> [] | Some x \<Rightarrow> [x]) = [])"
    unfolding length_sort by auto
  finally show ?thesis by (auto simp: list_all_iff split: option.splits)
qed

text \<open>What the coverage test and the absence test of the precedence outcome say.\<close>

definition chain_pending_first :: "xstocks_observation list \<Rightarrow> observed_boundary \<Rightarrow> bool" where
  "chain_pending_first inputApi b =
     ((\<exists>obs \<in> set inputApi. \<exists>t. xo_wallclockMs obs = Some t \<and> t \<le> ob_firstObservedMs b \<and> ob_firstObservedMs b - t \<le> 60000) \<and>
      (\<forall>obs \<in> set inputApi. api_ok obs \<and> pending_update obs \<longrightarrow> (\<forall>t. xo_wallclockMs obs = Some t \<longrightarrow> ob_firstObservedMs b < t)))"

lemma precedence_observed_before:
  assumes "CHAIN_PENDING_OBSERVED_BEFORE_API_PENDING \<in> set (precedence_outcome (sort_key xo_lineNumber inputApi) (api_decoded inputApi) c)"
  shows "\<exists>b. c = Some b \<and> chain_pending_first inputApi b"
proof (cases c)
  case None
  with assms show ?thesis by (simp add: precedence_outcome_def)
next
  case (Some b)
  let ?t = "ob_firstObservedMs b"
  from assms Some have
    "\<not> list_ex (\<lambda>obs. pending_update obs \<and> (case xo_wallclockMs obs of None \<Rightarrow> False | Some ms \<Rightarrow> ms \<le> ?t)) (api_decoded inputApi)"
    "list_ex (\<lambda>obs. case xo_wallclockMs obs of None \<Rightarrow> False | Some ms \<Rightarrow> ms \<le> ?t \<and> ?t - ms \<le> API_COVERAGE_MAX_LAG_MS)
       (sort_key xo_lineNumber inputApi)"
    by (simp_all add: precedence_outcome_def Let_def split: if_splits)
  then have "chain_pending_first inputApi b"
    unfolding chain_pending_first_def list_ex_iff api_decoded_def API_COVERAGE_MAX_LAG_MS_def CAPTURE_GAP_THRESHOLD_SECS_def
    by (force split: option.splits)
  with Some show ?thesis by simp
qed

text \<open>What the shapes of the four parts give.\<close>

lemma outcome_shapes:
  assumes "pub \<in> {[], [API_PENDING_CHAIN_NOT_YET_PENDING]}"
    and "agr \<in> {[], [API_AND_CHAIN_PENDING_AGREE], [API_AND_CHAIN_PENDING_CONFLICT]}"
    and "pre \<in> {[], [CHAIN_PENDING_OBSERVED_BEFORE_API_PENDING], [INSUFFICIENT_API_COVERAGE]}"
    and "tim \<in> {[], [API_ACTIVATION_MATCHES_CHAIN_WITHIN_RESOLUTION], [API_ACTIVATION_DIFFERS_FROM_CHAIN]}"
  defines "outcomes \<equiv> pub @ agr @ pre @ tim"
  shows "distinct outcomes" and "NO_PENDING_UPDATE_OBSERVED \<notin> set outcomes"
    and "\<not> {API_AND_CHAIN_PENDING_AGREE, API_AND_CHAIN_PENDING_CONFLICT} \<subseteq> set outcomes"
    and "\<not> {CHAIN_PENDING_OBSERVED_BEFORE_API_PENDING, INSUFFICIENT_API_COVERAGE} \<subseteq> set outcomes"
    and "\<not> {API_ACTIVATION_MATCHES_CHAIN_WITHIN_RESOLUTION, API_ACTIVATION_DIFFERS_FROM_CHAIN} \<subseteq> set outcomes"
    and "CHAIN_PENDING_OBSERVED_BEFORE_API_PENDING \<in> set outcomes \<Longrightarrow> CHAIN_PENDING_OBSERVED_BEFORE_API_PENDING \<in> set pre"
  using assms(1-4) unfolding outcomes_def by (elim insertE emptyE; simp)+

section \<open>Properties\<close>

text \<open>When a change happened, given the boundary of its first observation.\<close>

definition in_bracket :: "observed_boundary \<Rightarrow> int \<Rightarrow> bool" where
  "in_bracket b t = ((case ob_lastObservedBeforeMs b of None \<Rightarrow> True | Some s \<Rightarrow> s < t) \<and> t \<le> ob_firstObservedMs b)"

text \<open>
  The publication lead is sound and as sharp as polling allows. Whatever the true moments of the two
  changes inside their brackets, their difference respects the reported bounds (for times after the epoch),
  and an order is reported exactly when it holds for every choice of moments.
\<close>

theorem delta_bounds_exact:
  assumes "\<exists>t. in_bracket api t" and "\<exists>t. in_bracket chain t"
  shows "(\<forall>a c. in_bracket api a \<longrightarrow> in_bracket chain c \<longrightarrow> 0 \<le> a \<longrightarrow>
      (case db_minExclusiveMs (deltaBounds api chain) of None \<Rightarrow> True | Some m \<Rightarrow> m < c - a) \<and>
      c - a \<le> db_maxInclusiveMs (deltaBounds api chain)) \<and>
    (db_order (deltaBounds api chain) = API_BEFORE_CHAIN \<longleftrightarrow> (\<forall>a c. in_bracket api a \<longrightarrow> in_bracket chain c \<longrightarrow> a < c)) \<and>
    (db_order (deltaBounds api chain) = CHAIN_BEFORE_API \<longleftrightarrow> (\<forall>a c. in_bracket api a \<longrightarrow> in_bracket chain c \<longrightarrow> c < a))"
proof -
  have before: "(\<forall>a c. in_bracket b a \<longrightarrow> in_bracket d c \<longrightarrow> a < c) \<longleftrightarrow>
      (case ob_lastObservedBeforeMs d of None \<Rightarrow> False | Some s \<Rightarrow> ob_firstObservedMs b \<le> s)"
    if b: "\<exists>t. in_bracket b t" and d: "\<exists>t. in_bracket d t" for b d
  proof
    have first: "in_bracket x (ob_firstObservedMs x)" if "\<exists>t. in_bracket x t" for x
      using that by (auto simp: in_bracket_def split: option.splits)
    define s where "s = (case ob_lastObservedBeforeMs d of None \<Rightarrow> min (ob_firstObservedMs b) (ob_firstObservedMs d) | Some s \<Rightarrow> s + 1)"
    have "in_bracket d s" using d by (auto simp: s_def in_bracket_def split: option.splits)
    moreover assume "\<forall>a c. in_bracket b a \<longrightarrow> in_bracket d c \<longrightarrow> a < c"
    ultimately have "ob_firstObservedMs b < s" using first [OF b] by blast
    then show "case ob_lastObservedBeforeMs d of None \<Rightarrow> False | Some s \<Rightarrow> ob_firstObservedMs b \<le> s"
      by (auto simp: s_def split: option.splits)
  qed (auto simp: in_bracket_def split: option.splits)
  have "\<not> ((\<forall>a c. in_bracket api a \<longrightarrow> in_bracket chain c \<longrightarrow> a < c) \<and> (\<forall>a c. in_bracket api a \<longrightarrow> in_bracket chain c \<longrightarrow> c < a))"
    using assms by (meson less_asym)
  with before [OF assms] before [OF assms(2,1)] show ?thesis
    by (auto simp: deltaBounds_def Let_def in_bracket_def split: option.splits)
qed

text \<open>
  The API intervals account for every observation: leaving the reported silences aside, they are the
  observations split into consecutive groups of the same content, with the lines, count and multipliers
  of their group.
\<close>

theorem api_intervals_partition:
  "\<exists>groups. concat groups = observations \<and>
     list_all2 (reports_group num) (observed (apiIntervals num toISO observations)) groups"
proof -
  let ?st0 = "\<lparr>as_intervals = [], as_open = None, as_lastMs = None\<rparr>"
  have "interval_inv num (foldl (interval_step num toISO) ?st0 observations) observations"
  proof (induction observations rule: rev_induct)
    case Nil
    show ?case by (rule interval_inv_intro [of _ "[]" "[]"]) simp_all
  next
    case (snoc obs seen)
    then show ?case by (simp add: interval_step_inv)
  qed
  from flush_interval_inv [OF this] show ?thesis
    by (auto simp: apiIntervals_def interval_inv_def)
qed

text \<open>
  C34. Agreement means equality. The correlation reports that API and chain agree on a pending update exactly
  when the first pending observation of the API advertises the very number whose bytes the first pending
  chain state stores, and an activation time of exactly the stored timestamp; when both sources show a
  pending update with a multiplier and this is not so, it reports a conflict.
\<close>

theorem pending_agreement_exact:
  fixes num dateParse toISO symbol inputApi inputChain mint p x obs e
  assumes api: "first_api_pending inputApi = Some p" "xo_newMultiplier p = Some x" "is_double x" "x \<noteq> JNaN"
    and chain: "first_chain_pending inputChain mint = Some (obs, e)" "length (newMultiplier (co_protectedState e)) = 8"
      "f64_of_bytes (newMultiplier (co_protectedState e)) \<noteq> JNaN"
  defines "outcomes \<equiv> kc_outcomes (correlateKOx num dateParse toISO inputApi inputChain mint symbol)"
    and "agree \<equiv> x = f64_of_bytes (newMultiplier (co_protectedState e)) \<and>
      Option.bind (xo_activationTime p) at_unixMs = Some (newMultiplierEffectiveTimestamp (co_protectedState e) * 1000)"
  shows "(API_AND_CHAIN_PENDING_AGREE \<in> set outcomes \<longleftrightarrow> agree) \<and> (API_AND_CHAIN_PENDING_CONFLICT \<in> set outcomes \<longleftrightarrow> \<not> agree)"
proof -
  have "agreement_outcome (apiAdvertised_of (first_api_pending inputApi)) (chainPendingState_of (first_chain_pending inputChain mint)) =
      [if agree then API_AND_CHAIN_PENDING_AGREE else API_AND_CHAIN_PENDING_CONFLICT]"
    using f64Hex_exact [OF api(3,4) chain(2,3)] api(1,2) chain(1)
    by (simp add: agreement_outcome_def apiAdvertised_of_def chainPendingState_of_def Let_def agree_def)
  moreover have "{API_AND_CHAIN_PENDING_AGREE, API_AND_CHAIN_PENDING_CONFLICT} \<inter>
      (set (publication_outcome dateParse a chain) \<union> set (precedence_outcome b d c) \<union> set (snd (snd (activation_timing f g h)))) = {}"
    for a chain b d c f g h
    using outcome_cases(1) [of dateParse a chain] outcome_cases(3) [of b d c] activation_timing_outcome [of f g h] by auto
  ultimately show ?thesis
    unfolding outcomes_def correlateKOx_outcomes by (auto split: if_splits)
qed

text \<open>
  C35. The outcomes never contradict each other: none is reported twice, of the pairs agree and conflict,
  observed before and insufficient coverage, matches and differs at most one is reported, no pending
  update is reported only alone, and when the chain is said to have been pending first, the API was
  polled within a minute before that and showed no pending update up to then.
\<close>

theorem outcomes_consistent:
  fixes num dateParse toISO inputApi inputChain mint symbol
  assumes "list_all (api_wf dateParse) inputApi"
  defines "k \<equiv> correlateKOx num dateParse toISO inputApi inputChain mint symbol"
  defines "outcomes \<equiv> kc_outcomes k"
  shows "distinct outcomes \<and>
    \<not> {API_AND_CHAIN_PENDING_AGREE, API_AND_CHAIN_PENDING_CONFLICT} \<subseteq> set outcomes \<and>
    \<not> {CHAIN_PENDING_OBSERVED_BEFORE_API_PENDING, INSUFFICIENT_API_COVERAGE} \<subseteq> set outcomes \<and>
    \<not> {API_ACTIVATION_MATCHES_CHAIN_WITHIN_RESOLUTION, API_ACTIVATION_DIFFERS_FROM_CHAIN} \<subseteq> set outcomes \<and>
    (NO_PENDING_UPDATE_OBSERVED \<in> set outcomes \<longrightarrow> outcomes = [NO_PENDING_UPDATE_OBSERVED] \<and> first_api_pending inputApi = None) \<and>
    (CHAIN_PENDING_OBSERVED_BEFORE_API_PENDING \<in> set outcomes \<longrightarrow>
      (\<exists>b. kc_chainPendingFirstObservedAt k = Some b \<and> chain_pending_first inputApi b))"
proof -
  note parts = correlateKOx_outcomes [of num dateParse toISO inputApi inputChain mint symbol, folded k_def, folded outcomes_def]
  let ?none = "kc_apiPendingFirstObservedAt k = None \<and>
          earliest [kc_chainPendingFirstObservedAt k, kc_chainMultiplierChangeFirstObservedAt k, kc_chainActivationFirstObservedAt k] = None"
  let ?pub = "publication_outcome dateParse (kc_apiPendingFirstObservedAt k) (decodedChain inputChain mint)"
  let ?agr = "agreement_outcome (kc_apiAdvertised k) (kc_chainPendingState k)"
  let ?pre = "precedence_outcome (sort_key xo_lineNumber inputApi) (api_decoded inputApi) (kc_chainPendingFirstObservedAt k)"
  let ?tim = "snd (snd (activation_timing (kc_apiAdvertised k) (kc_chainPendingState k) (kc_chainActivationFirstObservedAt k)))"
  note cases = outcome_cases(1) [of dateParse "kc_apiPendingFirstObservedAt k" "decodedChain inputChain mint"]
    outcome_cases(2) [of "kc_apiAdvertised k" "kc_chainPendingState k"]
    outcome_cases(3) [of "sort_key xo_lineNumber inputApi" "api_decoded inputApi" "kc_chainPendingFirstObservedAt k"]
    activation_timing_outcome [of "kc_apiAdvertised k" "kc_chainPendingState k" "kc_chainActivationFirstObservedAt k"]
  have none: "first_api_pending inputApi = None \<and> ?pub = [] \<and> ?agr = [] \<and> ?pre = [] \<and> ?tim = []" if ?none
    using that no_api_pending [OF assms(1)] parts(2,4)
    by (simp add: earliest_None publication_outcome_def agreement_outcome_def precedence_outcome_def apiAdvertised_of_def activation_timing_none)
  show ?thesis
  proof (cases ?none)
    case True
    with none have "outcomes = [NO_PENDING_UPDATE_OBSERVED]" by (simp add: parts(1))
    with none True show ?thesis by simp
  next
    case False
    then have out: "outcomes = ?pub @ ?agr @ ?pre @ ?tim" by (simp only: parts(1) if_False append_Nil)
    note shapes = outcome_shapes [OF cases, folded out]
    have "CHAIN_PENDING_OBSERVED_BEFORE_API_PENDING \<in> set outcomes \<longrightarrow>
        (\<exists>b. kc_chainPendingFirstObservedAt k = Some b \<and> chain_pending_first inputApi b)"
      using shapes(6) precedence_observed_before by blast
    with shapes(1-5) show ?thesis by blast
  qed
qed

section \<open>Witnesses\<close>

definition sample_boundary :: "int \<Rightarrow> int \<Rightarrow> observed_boundary" where
  "sample_boundary s t =
     \<lparr>ob_source = LIVE_API_source, ob_firstObservedAt = ''w'', ob_firstObservedMs = t, ob_firstObservedLine = 1, ob_lastObservedBefore = Some ''v'',
      ob_lastObservedBeforeMs = Some s, ob_resolutionMs = Some (t - s), ob_slot = None, ob_blockTime = None, ob_previousBlockTime = None\<rparr>"

theorem delta_bounds_exact_witness:
  "db_order (deltaBounds (sample_boundary 0 10) (sample_boundary 20 30)) = API_BEFORE_CHAIN \<and>
   15 - 5 \<le> db_maxInclusiveMs (deltaBounds (sample_boundary 0 10) (sample_boundary 10 30))"
proof -
  have b: "in_bracket (sample_boundary s t) u \<longleftrightarrow> s < u \<and> u \<le> t" for s t u by (auto simp: in_bracket_def sample_boundary_def)
  have e: "\<exists>u. in_bracket (sample_boundary 0 10) u" "\<exists>u. in_bracket (sample_boundary 20 30) u" "\<exists>u. in_bracket (sample_boundary 10 30) u"
    by (auto simp: b intro: exI [of _ 10] exI [of _ 30])
  have "db_order (deltaBounds (sample_boundary 0 10) (sample_boundary 20 30)) = API_BEFORE_CHAIN"
    using delta_bounds_exact [OF e(1,2)] unfolding b by force
  moreover have "15 - 5 \<le> db_maxInclusiveMs (deltaBounds (sample_boundary 0 10) (sample_boundary 10 30))"
    using conjunct1 [OF delta_bounds_exact [OF e(1,3)], unfolded b, rule_format, of 5 15] by simp
  ultimately show ?thesis by blast
qed

definition sample_pending :: "string option \<Rightarrow> capture_record" where
  "sample_pending wallclock = Observed
     \<lparr>cap_lineNumber = 1, cap_wallclock = wallclock, cap_slot = None, cap_blockTime = Some 1, cap_symbol = Some ''KOx'', cap_issuer = None,
      cap_mint = ''m'', cap_evidence = Decoded
        \<lparr>co_mint = ''m'', co_slot = None, co_blockTime = Some 1, co_observedAt = None, co_chainUnixTimestamp = Some 1, co_decimals = 8,
         co_paused = None, co_protectedState = \<lparr>multiplier = one_f64, newMultiplier = two_f64, newMultiplierEffectiveTimestamp = 5\<rparr>,
         co_hasScheduledChange = True, co_phase = Some 0\<rparr>\<rparr>"

lemma sample_two: "f64_of_bytes two_f64 = JNum 2" "length two_f64 = 8"
proof -
  have "le_nat two_f64 = 2 ^ 62" by (simp add: two_f64_def)
  moreover have "(2 :: rat) ^ 52 * 2 ^ 1024 / 2 ^ 1075 = 2" unfolding power_add [symmetric] by simp
  ultimately show "f64_of_bytes two_f64 = JNum 2" by (simp add: f64_of_bytes_def Let_def)
qed (simp add: two_f64_def)

lemma sample_first:
  "first_api_pending [sample_api 1 (JNumber (JNum 5))] = Some (sample_api 1 (JNumber (JNum 5)))"
  "\<exists>obs. first_chain_pending [sample_pending w] ''m'' = Some (obs,
     \<lparr>co_mint = ''m'', co_slot = None, co_blockTime = Some 1, co_observedAt = None, co_chainUnixTimestamp = Some 1, co_decimals = 8,
      co_paused = None, co_protectedState = \<lparr>multiplier = one_f64, newMultiplier = two_f64, newMultiplierEffectiveTimestamp = 5\<rparr>,
      co_hasScheduledChange = True, co_phase = Some 0\<rparr>)"
  by (simp_all add: first_api_pending_def api_decoded_def sample_api_def pending_update_def first_chain_pending_def decodedChain_def
      sample_pending_def chain_pending_def)

lemma sample_activation: "xo_activationTime (sample_api n (JNumber (JNum 5))) = Some \<lparr>at_interpretation = unix_seconds, at_unixMs = Some 5000\<rparr>"
  using js_int_of_int [of 5]
  by (simp add: sample_api_def interpretActivationTime_def MILLISECONDS_THRESHOLD_def del: js_int.simps)

theorem pending_agreement_exact_witness:
  "API_AND_CHAIN_PENDING_AGREE \<in> set (kc_outcomes
     (correlateKOx fraction_text (\<lambda>_. Some 0) (\<lambda>_. ''t'') [sample_api 1 (JNumber (JNum 5))] [sample_pending (Some ''w'')] ''m'' ''KOx''))"
proof -
  obtain obs where chain: "first_chain_pending [sample_pending (Some ''w'')] ''m'' = Some (obs,
     \<lparr>co_mint = ''m'', co_slot = None, co_blockTime = Some 1, co_observedAt = None, co_chainUnixTimestamp = Some 1, co_decimals = 8,
      co_paused = None, co_protectedState = \<lparr>multiplier = one_f64, newMultiplier = two_f64, newMultiplierEffectiveTimestamp = 5\<rparr>,
      co_hasScheduledChange = True, co_phase = Some 0\<rparr>)" using sample_first(2) by blast
  have "xo_newMultiplier (sample_api 1 (JNumber (JNum 5))) = Some (JNum 2)" "is_double (JNum 2)"
    using sample_two by (auto simp: sample_api_def is_double_def)
  with chain sample_two show ?thesis
    using pending_agreement_exact [OF sample_first(1) _ _ _ chain] by (simp add: sample_activation)
qed

theorem outcomes_consistent_witness:
  "distinct (kc_outcomes (correlateKOx fraction_text (\<lambda>_. Some 0) (\<lambda>_. ''t'') [sample_api 1 (JNumber (JNum 5))] [sample_pending (Some ''w'')] ''m'' ''KOx''))"
proof -
  have "list_all (api_wf (\<lambda>_. Some 0)) [sample_api 1 (JNumber (JNum 5))]"
    using sample_activation [of 1] by (simp add: api_wf_def sample_api_def)
  from outcomes_consistent [OF this] show ?thesis by blast
qed

text \<open>
  A pending chain state captured without a usable wallclock is derived and yet reported as no pending
  update, because outcomes rest on boundaries and a boundary needs a wallclock.
\<close>

lemma untimed_pending_not_reported:
  "let k = correlateKOx num dateParse toISO [] [sample_pending None] ''m'' ''KOx'' in
   kc_chainPendingState k \<noteq> None \<and> kc_outcomes k = [NO_PENDING_UPDATE_OBSERVED]"
proof -
  let ?chain = "decodedChain [sample_pending None] ''m''"
  have "findIndex (activation_at ?chain) ?chain = None" "findIndex (multiplier_change_at ?chain) ?chain = None"
    by (simp_all add: findIndex_def decodedChain_def sample_pending_def activation_at_def multiplier_change_at_def)
  moreover have "Option.bind i (chainBoundary dateParse ?chain) = None" for i
    by (cases i) (simp_all add: chainBoundary_def decodedChain_def sample_pending_def js_index_def split: option.split)
  ultimately show ?thesis
    using correlateKOx_outcomes(3) [of num dateParse toISO "[]" "[sample_pending None]" "''m''" "''KOx''"] sample_first(2) [of None]
    by (auto simp: Let_def correlateKOx_def chainPendingState_of_def split_beta findIndex_def earliest_def js_index_def publication_outcome_def
        precedence_outcome_def agreement_outcome_def apiAdvertised_of_def activation_timing_none)
qed

end
