(* ===== verification/Devnet_Policy.thy ===== *)
theory Devnet_Policy
  imports Downstream F64
begin

text \<open>
  The policy of the public Devnet demo (\<open>apps/web/lib/devnet-public.ts\<close>): its own copies of the guard's
  rules, the scenario catalogue, and the decisions that let a wallet sign, hold and submit. The chain's clock
  is the only clock that decides. A snapshot is the one \<open>readChainSnapshot\<close> returns, with all its fields.
  Messages of plain errors are kept in ASCII; display strings are left out.
\<close>

section \<open>Errors\<close>

datatype submission_kind = PREFLIGHT_REJECTED | SUBMISSION_FAILED | CONFIRMATION_FAILED

datatype web_exn =
    WebError string
  | WebRangeError
  | AuthorizationWindowMissed
  | AuthorizationWindowElapsed int int
  | StaleAuthorizationExpired
  | DevnetSubmissionError submission_kind "string option"
  | WebRpcError

section \<open>The web copy of the guard's rules\<close>

definition web_bytesEqual :: "bytes \<Rightarrow> bytes \<Rightarrow> bool" where
  "web_bytesEqual left right =
     (length left = length right \<and> list_all (\<lambda>(index, byte). Some byte = js_index right index) (enumerate 0 left))"

definition web_hasScheduledChange :: "protected_state \<Rightarrow> bool" where
  "web_hasScheduledChange state = (\<not> web_bytesEqual (multiplier state) (newMultiplier state))"

definition web_phaseAt :: "protected_state \<Rightarrow> int \<Rightarrow> activation_phase" where
  "web_phaseAt state unixTime = (if unixTime \<ge> newMultiplierEffectiveTimestamp state then 1 else 0)"

definition web_bigint :: "js_number \<Rightarrow> web_exn + int" where
  "web_bigint x = require WebRangeError (js_int x)"

definition web_checkGuardOffline ::
    "assert_safe_execution_request \<Rightarrow> protected_state \<Rightarrow> int \<Rightarrow> web_exn + equity_guard_error option" where
  "web_checkGuardOffline request actual unixTime =
     (if \<not> web_bytesEqual (multiplier actual) (multiplier (expected request)) then Inr (Some MultiplierChanged)
      else if \<not> web_bytesEqual (newMultiplier actual) (newMultiplier (expected request)) then Inr (Some NewMultiplierChanged)
      else if newMultiplierEffectiveTimestamp actual \<noteq> newMultiplierEffectiveTimestamp (expected request)
      then Inr (Some EffectiveTimestampChanged)
      else if \<not> web_hasScheduledChange actual then Inr None
      else
        bindE (web_bigint (beforeSecs (window request))) (\<lambda>before.
        bindE (web_bigint (afterSecs (window request))) (\<lambda>after.
          let start = newMultiplierEffectiveTimestamp actual - before; end = newMultiplierEffectiveTimestamp actual + after in
          if start < - (2 ^ 63) \<or> end > 2 ^ 63 - 1 then Inr (Some ArithmeticOverflow)
          else if start \<le> unixTime \<and> unixTime \<le> end then Inr (Some InsideTransitionWindow)
          else if web_phaseAt actual unixTime \<noteq> expectedPhase request then Inr (Some ActivationPhaseChanged)
          else Inr None)))"

definition web_expectationFromSnapshot :: "guard_snapshot \<Rightarrow> protection_window \<Rightarrow> assert_safe_execution_request" where
  "web_expectationFromSnapshot snapshot w =
     \<lparr>expected = gs_state snapshot, expectedPhase = gs_phase snapshot, window = w\<rparr>"

section \<open>Timing and scenarios\<close>

definition PUBLIC_GENESIS_MAINNET :: string where
  "PUBLIC_GENESIS_MAINNET = ''5eykt4UsFv8P8NJdTREpY1vzqKqZKvdpKuc147dw2N9d''"

definition PUBLIC_GENESIS_DEVNET :: string where
  "PUBLIC_GENESIS_DEVNET = ''EtWTRABZaYq6iMfeYKouRu166VU2xqa1wcaWoxPkrZBG''"

definition PUBLIC_GENESIS_TESTNET :: string where
  "PUBLIC_GENESIS_TESTNET = ''4uhcVJyU9pJkvQyS88uRDiswHXSCkY3zQawwpjk2NsNY''"

definition ACTIVATION_DELAY_SECONDS :: int where "ACTIVATION_DELAY_SECONDS = 35"
definition MIN_AUTHORIZATION_REMAINING_SECONDS :: int where "MIN_AUTHORIZATION_REMAINING_SECONDS = 8"
definition DEMO_AUTHORIZATION_MAX_REMAINING_SECONDS :: int where "DEMO_AUTHORIZATION_MAX_REMAINING_SECONDS = 15"

definition demoAuthorizationOpensInSeconds :: "int \<Rightarrow> int \<Rightarrow> int" where
  "demoAuthorizationOpensInSeconds chainTime activation =
     (let wait = activation - chainTime - DEMO_AUTHORIZATION_MAX_REMAINING_SECONDS in if wait > 0 then wait else 0)"

definition CLOCK_CROSSING_WINDOW :: protection_window where
  "CLOCK_CROSSING_WINDOW = \<lparr>beforeSecs = JNum 0, afterSecs = JNum 0\<rparr>"

definition DEMO_TRANSFER_RAW :: int where "DEMO_TRANSFER_RAW = 100000"

record equity_scenario =
  sc_id :: string
  sc_symbol :: string
  sc_displayName :: string
  sc_eventLabel :: string
  sc_initialMultiplier :: js_number
  sc_newMultiplier :: js_number

definition SCENARIO_CATALOG :: "equity_scenario list" where
  "SCENARIO_CATALOG =
     [\<lparr>sc_id = ''KO-DEMO'', sc_symbol = ''KO-DEMO'', sc_displayName = ''Coca-Cola Demo Equity'', sc_eventLabel = ''2-for-1 stock split'',
       sc_initialMultiplier = JNum 1, sc_newMultiplier = JNum 2\<rparr>,
      \<lparr>sc_id = ''UNH-DEMO'', sc_symbol = ''UNH-DEMO'', sc_displayName = ''UnitedHealth Demo Equity'', sc_eventLabel = ''3-for-2 stock split'',
       sc_initialMultiplier = JNum 1, sc_newMultiplier = JNum (3 / 2)\<rparr>,
      \<lparr>sc_id = ''CRM-DEMO'', sc_symbol = ''CRM-DEMO'', sc_displayName = ''Salesforce Demo Equity'', sc_eventLabel = ''1-for-2 reverse split'',
       sc_initialMultiplier = JNum 1, sc_newMultiplier = JNum (1 / 2)\<rparr>]"

definition APPROVED_MULTIPLIERS :: "js_number list" where
  "APPROVED_MULTIPLIERS = [JNum 1, JNum (3 / 2), JNum 2, JNum (1 / 2)]"

datatype public_demo_mode = replay_mode | devnet_mode

definition initialPublicDemoMode :: public_demo_mode where
  "initialPublicDemoMode = replay_mode"

definition isExplicitDevnetSelection :: "public_demo_mode option \<Rightarrow> bool" where
  "isExplicitDevnetSelection choice = (choice = Some devnet_mode)"

definition validatePublicTiming :: "js_number \<Rightarrow> js_number \<Rightarrow> web_exn + unit" where
  "validatePublicTiming delay minimumRemaining =
     (case (js_int delay, js_int minimumRemaining) of
        (Some d, Some m) \<Rightarrow>
          if d < 35 \<or> d > 45 then Inl (WebError ''Activation delay must leave room for Devnet setup confirmation'')
          else if m \<noteq> 8 then Inl (WebError ''Minimum authorization window must be 8 seconds'')
          else if m \<ge> d then Inl (WebError ''Minimum remaining time consumes the whole activation delay'')
          else Inr ()
      | _ \<Rightarrow> Inl (WebError ''Activation timing must be whole seconds''))"

text \<open>\<open>BigInt(delaySeconds)\<close> is only called with the whole number of seconds the page validates.\<close>

definition activationTimestamp :: "int \<Rightarrow> int \<Rightarrow> web_exn + int" where
  "activationTimestamp chainTime delaySeconds =
     (if chainTime < 0 then Inl (WebError ''Chain clock is not usable'') else Inr (chainTime + delaySeconds))"

text \<open>\<open>Object.is\<close> is equality of the model's numbers.\<close>

definition isApprovedMultiplier :: "js_number \<Rightarrow> bool" where
  "isApprovedMultiplier v = list_ex (\<lambda>approved. approved = v) APPROVED_MULTIPLIERS"

definition storedMultiplier :: "js_number \<Rightarrow> web_exn + bytes" where
  "storedMultiplier v = (if \<not> isApprovedMultiplier v then Inl (WebError ''Multiplier is not in the approved scenario catalog'') else Inr (f64_bytes v))"

definition scenarioById :: "string \<Rightarrow> web_exn + equity_scenario" where
  "scenarioById ident = require (WebError ''Unknown scenario'') (List.find (\<lambda>item. sc_id item = ident) SCENARIO_CATALOG)"

text \<open>The product with the catalogue's length is exact here; a double may round it at a third.\<close>

fun randomScenario :: "js_number \<Rightarrow> web_exn + equity_scenario" where
  "randomScenario (JNum q) =
     (if q < 0 \<or> q \<ge> 1 then Inl (WebError ''Random selection left the approved scenario catalog'')
      else require (WebError ''Random selection left the approved scenario catalog'') (js_index SCENARIO_CATALOG (nat \<lfloor>q * of_nat (length SCENARIO_CATALOG)\<rfloor>)))"
| "randomScenario JNegZero = require (WebError ''Random selection left the approved scenario catalog'') (js_index SCENARIO_CATALOG 0)"
| "randomScenario _ = Inl (WebError ''Random selection left the approved scenario catalog'')"

text \<open>An attempt's only status is \<open>ACTIVE\<close>.\<close>

record active_attempt =
  attempt_scenario :: equity_scenario

definition startAttempt :: "equity_scenario \<Rightarrow> web_exn + active_attempt" where
  "startAttempt scenario = bindE (scenarioById (sc_id scenario)) (\<lambda>s. Inr \<lparr>attempt_scenario = s\<rparr>)"

definition scenarioForAttempt :: "active_attempt \<Rightarrow> string \<Rightarrow> web_exn + equity_scenario" where
  "scenarioForAttempt attempt requestedId =
     (if requestedId \<noteq> sc_id (attempt_scenario attempt) then Inl (WebError ''Scenario cannot change during an active attempt'') else Inr (attempt_scenario attempt))"

definition assertDevnetCluster :: "string \<Rightarrow> web_exn + unit" where
  "assertDevnetCluster genesisHash =
     (if genesisHash = PUBLIC_GENESIS_MAINNET then Inl (WebError ''Connected to mainnet-beta -- refusing all state-changing actions'')
      else if genesisHash = PUBLIC_GENESIS_TESTNET then Inl (WebError ''Connected to testnet -- only devnet is supported'')
      else if genesisHash \<noteq> PUBLIC_GENESIS_DEVNET then Inl (WebError ''Cluster is not Solana Devnet'')
      else Inr ())"

text \<open>A provider is absent or says whether it is Phantom.\<close>

definition requirePhantom :: "bool option \<Rightarrow> web_exn + unit" where
  "requirePhantom provider = (if provider \<noteq> Some True then Inl (WebError ''Connect Phantom before starting a live Devnet attempt.'') else Inr ())"

section \<open>Decisions\<close>

text \<open>The conjunction stops at the first false test, so the second multiplier is only looked up after the first matched.\<close>

definition scheduledBytesMatch :: "guard_snapshot \<Rightarrow> equity_scenario \<Rightarrow> int \<Rightarrow> web_exn + bool" where
  "scheduledBytesMatch snapshot scenario activation =
     (let state = gs_state snapshot in
      bindE (storedMultiplier (sc_initialMultiplier scenario)) (\<lambda>initial.
      if \<not> web_bytesEqual (multiplier state) initial then Inr False
      else bindE (storedMultiplier (sc_newMultiplier scenario)) (\<lambda>new.
        Inr (web_bytesEqual (newMultiplier state) new \<and> newMultiplierEffectiveTimestamp state = activation \<and>
             gs_hasScheduledChange snapshot \<and> web_hasScheduledChange state \<and>
             gs_phase snapshot = web_phaseAt state (unixTimestamp (gs_clock snapshot))))))"

datatype authorize_decision = sign | missed | mismatch

definition authorizeDecision :: "guard_snapshot \<Rightarrow> equity_scenario \<Rightarrow> int \<Rightarrow> web_exn + authorize_decision" where
  "authorizeDecision snapshot scenario activation =
     bindE (scheduledBytesMatch snapshot scenario activation) (\<lambda>matches.
       let now = unixTimestamp (gs_clock snapshot) in
       Inr (if \<not> matches then mismatch
            else if now \<ge> activation \<or> gs_phase snapshot \<noteq> 0 \<or> activation - now < MIN_AUTHORIZATION_REMAINING_SECONDS then missed
            else sign))"

datatype pending_decision = hold | elapsed

definition pendingReturnDecision :: "guard_snapshot \<Rightarrow> equity_scenario \<Rightarrow> int \<Rightarrow> web_exn + pending_decision" where
  "pendingReturnDecision snapshot scenario activation =
     bindE (scheduledBytesMatch snapshot scenario activation) (\<lambda>matches.
       Inr (if \<not> matches then elapsed
            else if unixTimestamp (gs_clock snapshot) \<ge> activation \<or> gs_phase snapshot \<noteq> 0 then elapsed
            else hold))"

definition presentationCountdownSeconds :: "int \<Rightarrow> int \<Rightarrow> int" where
  "presentationCountdownSeconds chainTime activation =
     (let remaining = activation - chainTime in if remaining \<le> 0 then 0 else min remaining (2 ^ 53 - 1))"

definition submissionPermitted :: "int \<Rightarrow> bool \<Rightarrow> bool" where
  "submissionPermitted displayedSeconds chainReady = chainReady"

text \<open>\<open>secs !== 0\<close> on a number of the window.\<close>

definition is_zero :: "js_number \<Rightarrow> bool" where
  "is_zero x = (x = JNum 0 \<or> x = JNegZero)"

definition chainReadyForStaleSubmit :: "guard_snapshot \<Rightarrow> assert_safe_execution_request \<Rightarrow> web_exn + bool" where
  "chainReadyForStaleSubmit snapshot expectation =
     (if expectedPhase expectation \<noteq> 0 then Inr False
      else if \<not> is_zero (beforeSecs (window expectation)) \<or> \<not> is_zero (afterSecs (window expectation)) then Inr False
      else bindE (web_checkGuardOffline expectation (gs_state snapshot) (unixTimestamp (gs_clock snapshot)))
        (\<lambda>verdict. Inr (verdict = Some ActivationPhaseChanged)))"

datatype held_decision = wait_held | submit_held | expired_held

definition heldWaitDecision :: "int \<Rightarrow> int \<Rightarrow> bool \<Rightarrow> held_decision" where
  "heldWaitDecision blockHeight lastValidBlockHeight ready =
     (if blockHeight > lastValidBlockHeight then expired_held else if ready then submit_held else wait_held)"

datatype activated_decision = wait_activated | ready_activated | mismatch_activated

definition activatedReviewDecision :: "guard_snapshot \<Rightarrow> equity_scenario \<Rightarrow> int \<Rightarrow> web_exn + activated_decision" where
  "activatedReviewDecision snapshot scenario activation =
     bindE (scheduledBytesMatch snapshot scenario activation) (\<lambda>matches.
       let now = unixTimestamp (gs_clock snapshot); expectation = web_expectationFromSnapshot snapshot CLOCK_CROSSING_WINDOW in
       if \<not> matches then Inr mismatch_activated
       else if gs_phase snapshot \<noteq> 1 \<or> now \<le> activation then Inr wait_activated
       else if expectedPhase expectation \<noteq> 1 then Inr mismatch_activated
       else bindE (web_checkGuardOffline expectation (gs_state snapshot) now) (\<lambda>verdict.
         Inr (if verdict = None then ready_activated else wait_activated)))"

definition expectationForSnapshot :: "guard_snapshot \<Rightarrow> assert_safe_execution_request" where
  "expectationForSnapshot snapshot = web_expectationFromSnapshot snapshot CLOCK_CROSSING_WINDOW"

section \<open>Accepting an outcome\<close>

record token_balances =
  tb_source :: int
  tb_destination :: int

record custom_error =
  ce_instructionIndex :: int
  ce_code :: int

record confirmed_chain_outcome =
  oc_signature :: string
  oc_slot :: int
  oc_error :: js_value
  oc_customError :: "custom_error option"
  oc_logs :: "string list"
  oc_guardInstructionIndex :: int

definition starts_with :: "string \<Rightarrow> string \<Rightarrow> bool" where
  "starts_with prefix s = (take (length prefix) s = prefix)"

definition acceptActivationRejection ::
    "confirmed_chain_outcome \<Rightarrow> token_balances \<Rightarrow> token_balances \<Rightarrow> string \<Rightarrow> string \<Rightarrow> bool" where
  "acceptActivationRejection outcome before after programId tokenProgram =
     (oc_error outcome \<noteq> JNull \<and> length (oc_signature outcome) > 0 \<and>
      map_option ce_instructionIndex (oc_customError outcome) = Some (oc_guardInstructionIndex outcome) \<and>
      map_option ce_code (oc_customError outcome) = Some 12 \<and>
      tb_source before = tb_source after \<and> tb_destination before = tb_destination after \<and>
      list_ex (starts_with (''Program '' @ programId @ '' invoke'')) (oc_logs outcome) \<and>
      \<not> list_ex (\<lambda>line. line = ''Program '' @ tokenProgram @ '' success'') (oc_logs outcome))"

definition acceptUpdatedExecution ::
    "confirmed_chain_outcome \<Rightarrow> token_balances \<Rightarrow> token_balances \<Rightarrow> int \<Rightarrow> string \<Rightarrow> string \<Rightarrow> bool" where
  "acceptUpdatedExecution outcome before after amount programId tokenProgram =
     (let sourceDelta = tb_source before - tb_source after; destinationDelta = tb_destination after - tb_destination before in
      oc_error outcome = JNull \<and> length (oc_signature outcome) > 0 \<and> sourceDelta = amount \<and> destinationDelta = amount \<and>
      list_ex (\<lambda>line. line = ''Program '' @ programId @ '' success'') (oc_logs outcome) \<and>
      list_ex (\<lambda>line. line = ''Program '' @ tokenProgram @ '' success'') (oc_logs outcome))"

fun safeNonnegativeNumber :: "js_value \<Rightarrow> int option" where
  "safeNonnegativeNumber (JBigInt i) = (if 0 \<le> i \<and> i \<le> 2 ^ 53 - 1 then Some i else None)"
| "safeNonnegativeNumber (JNumber x) =
     (case js_int x of None \<Rightarrow> None | Some i \<Rightarrow> if 0 \<le> i \<and> i \<le> 2 ^ 53 - 1 then Some i else None)"
| "safeNonnegativeNumber _ = None"

text \<open>The error of a confirmed transaction is a value of the JSON response: null, a text or plain objects and arrays.\<close>

definition parseCustomError :: "js_value \<Rightarrow> custom_error option" where
  "parseCustomError err =
     (case err of
        JObject props \<Rightarrow>
          (case map_of props ''InstructionError'' of
             Some (JArray [index, JObject inner]) \<Rightarrow>
               Option.bind (map_of inner ''Custom'') (\<lambda>custom.
               Option.bind (safeNonnegativeNumber index) (\<lambda>i.
               Option.bind (safeNonnegativeNumber custom) (\<lambda>code. Some \<lparr>ce_instructionIndex = i, ce_code = code\<rparr>)))
           | _ \<Rightarrow> None)
      | _ \<Rightarrow> None)"

section \<open>Facts: the copies are the guard's rules\<close>

lemma web_bytesEqual_iff [simp]: "web_bytesEqual a b \<longleftrightarrow> a = b"
  unfolding web_bytesEqual_def using bytesEqual_iff [of a b] by (simp only: bytesEqual_def)

lemma web_hasScheduledChange_eq [simp]: "web_hasScheduledChange s = hasScheduledChange s"
  by (simp add: web_hasScheduledChange_def hasScheduledChange_def)

lemma web_phaseAt_eq [simp]: "web_phaseAt s t = phaseAt s t"
  by (simp add: web_phaseAt_def phaseAt_def Pending_def Activated_def)

lemma web_check_eq:
  "web_checkGuardOffline r s t = (case checkGuardOffline r s t of Inl _ \<Rightarrow> Inl WebRangeError | Inr v \<Rightarrow> Inr v)"
  by (simp add: web_checkGuardOffline_def checkGuardOffline_def Let_def web_bigint_def bigint_of_number_def I64_MIN_def I64_MAX_def
      split: option.split)

lemma scheduledBytesMatch_True:
  assumes "scheduledBytesMatch snapshot scenario activation = Inr True"
  shows "newMultiplierEffectiveTimestamp (gs_state snapshot) = activation" and "hasScheduledChange (gs_state snapshot)"
    and "gs_phase snapshot = phaseAt (gs_state snapshot) (unixTimestamp (gs_clock snapshot))"
    and "storedMultiplier (sc_initialMultiplier scenario) = Inr (multiplier (gs_state snapshot))"
    and "storedMultiplier (sc_newMultiplier scenario) = Inr (newMultiplier (gs_state snapshot))"
  using assms by (auto simp: scheduledBytesMatch_def Let_def err_simps split: if_splits)

text \<open>The state a scenario's mint has until it is changed.\<close>

lemma matching_state:
  assumes "scheduledBytesMatch s scenario t = Inr True" and "scheduledBytesMatch s' scenario t = Inr True"
  shows "gs_state s = gs_state s'"
  using scheduledBytesMatch_True [OF assms(1)] scheduledBytesMatch_True [OF assms(2)] by (simp add: protected_state_eq_iff)

lemma crossing_check:
  assumes "hasScheduledChange state" and "newMultiplierEffectiveTimestamp state = t" and "I64_MIN \<le> t" and "t \<le> I64_MAX"
  shows "checkGuardOffline \<lparr>expected = state, expectedPhase = phase, window = CLOCK_CROSSING_WINDOW\<rparr> state now =
     Inr (if now = t then Some InsideTransitionWindow
          else if (if t \<le> now then 1 else 0) = phase then None else Some ActivationPhaseChanged)"
  using assms js_int_of_int [of 0]
  by (auto simp: checkGuardOffline_def Let_def CLOCK_CROSSING_WINDOW_def bigint_of_number_def phaseAt_def Pending_def Activated_def
      simp del: js_int.simps)

lemma sign_facts:
  assumes "authorizeDecision s scenario activation = Inr sign"
  shows "scheduledBytesMatch s scenario activation = Inr True" and "unixTimestamp (gs_clock s) + 8 \<le> activation" and "gs_phase s = 0"
  using assms
  by (auto simp: authorizeDecision_def Let_def err_simps MIN_AUTHORIZATION_REMAINING_SECONDS_def split: if_splits)

lemma expectation_of_matching:
  "expectationForSnapshot s = \<lparr>expected = gs_state s, expectedPhase = gs_phase s, window = CLOCK_CROSSING_WINDOW\<rparr>"
  by (simp add: expectationForSnapshot_def web_expectationFromSnapshot_def)

text \<open>The program's verdict on a request for a scheduled state, at every chain time.\<close>

lemma crossing_verdict:
  assumes m: "hasScheduledChange state" "newMultiplierEffectiveTimestamp state = t"
    and t: "I64_MIN \<le> t" "t \<le> I64_MAX" "I64_MIN \<le> now" "now \<le> I64_MAX" and "p = 0 \<or> p = 1"
  shows "guard_check (rs_execution_of \<lparr>expected = state, expectedPhase = p, window = CLOCK_CROSSING_WINDOW\<rparr>)
        (rs_state_of state) (word_of_int now) =
      (if now = t then Inl InsideTransitionWindow else if (if t \<le> now then 1 else 0) = p then Inr () else Inl ActivationPhaseChanged)"
proof -
  have "checkGuardOffline \<lparr>expected = state, expectedPhase = p, window = CLOCK_CROSSING_WINDOW\<rparr> state now =
    Inr (verdict_of (guard_check (rs_execution_of \<lparr>expected = state, expectedPhase = p, window = CLOCK_CROSSING_WINDOW\<rparr>)
      (rs_state_of state) (word_of_int now)))"
    using assms js_int_of_int [of 0]
    by (intro checkGuardOffline_mirrors)
      (auto simp: storable_state_def Pending_def Activated_def CLOCK_CROSSING_WINDOW_def js_int_in_iff U32_MAX_def simp del: js_int.simps)
  then show ?thesis
    using crossing_check [OF m t(1,2), of p now]
    by (auto simp: verdict_of_def split: sum.splits if_splits)
qed

section \<open>Properties\<close>

text \<open>
  C26. Chain time decides, and nothing else: for a session mint that carries the scenario's scheduled change at
  activation \<open>t\<close>, a wallet may sign exactly while eight seconds remain, a signed transaction is held exactly
  if the clock is still before \<open>t\<close>, a transaction signed while pending is released exactly after \<open>t\<close>, and a
  new authorization is offered exactly after \<open>t\<close>. At \<open>t\<close> itself nothing is signed, held or released.
\<close>

theorem decisions_follow_chain_clock:
  assumes "scheduledBytesMatch snapshot scenario t = Inr True" and "I64_MIN \<le> t" and "t \<le> I64_MAX"
    and signed: "authorizeDecision earlier scenario t = Inr sign"
  defines "now \<equiv> unixTimestamp (gs_clock snapshot)"
  shows "authorizeDecision snapshot scenario t = Inr (if now + 8 \<le> t then sign else missed) \<and>
    pendingReturnDecision snapshot scenario t = Inr (if now < t then hold else elapsed) \<and>
    chainReadyForStaleSubmit snapshot (expectationForSnapshot earlier) = Inr (t < now) \<and>
    activatedReviewDecision snapshot scenario t = Inr (if t < now then ready_activated else wait_activated)"
proof -
  note m = scheduledBytesMatch_True [OF assms(1)]
  have phase: "gs_phase snapshot = (if t \<le> now then 1 else 0)"
    using m(1,3) by (simp add: now_def phaseAt_def Pending_def Activated_def)
  note check = crossing_check [OF m(2,1) assms(2,3), of _ now]
  have earlier: "expectationForSnapshot earlier = \<lparr>expected = gs_state snapshot, expectedPhase = 0, window = CLOCK_CROSSING_WINDOW\<rparr>"
    using sign_facts(3) [OF signed] matching_state [OF sign_facts(1) [OF signed] assms(1)] by (simp add: expectation_of_matching)
  have "chainReadyForStaleSubmit snapshot (expectationForSnapshot earlier) = Inr (t < now)"
    using check [of 0]
    by (auto simp: earlier chainReadyForStaleSubmit_def web_check_eq is_zero_def CLOCK_CROSSING_WINDOW_def simp flip: now_def)
  moreover have "activatedReviewDecision snapshot scenario t = Inr (if t < now then ready_activated else wait_activated)"
    using check [of 1] phase assms(1)
    by (auto simp: activatedReviewDecision_def Let_def web_expectationFromSnapshot_def web_check_eq simp flip: now_def)
  ultimately show ?thesis
    using phase assms(1)
    by (auto simp: authorizeDecision_def pendingReturnDecision_def Let_def MIN_AUTHORIZATION_REMAINING_SECONDS_def simp flip: now_def)
qed

text \<open>
  What a signed authorization is worth on chain: the program's check of a request made while pending
  succeeds exactly before the activation, reports the transition window at it and a changed phase after
  it; a request made after activation succeeds exactly after it. So the program refuses the authorization
  the demo submits late, with the error the demo accepts as evidence.
\<close>

theorem signed_authorization_cannot_cross:
  assumes "authorizeDecision s scenario t = Inr sign" and "I64_MIN \<le> t" and "t \<le> I64_MAX" and "I64_MIN \<le> now" and "now \<le> I64_MAX"
    and ready: "activatedReviewDecision s' scenario t = Inr ready_activated"
  shows "guard_check (rs_execution_of (expectationForSnapshot s)) (rs_state_of (gs_state s)) (word_of_int now) =
      (if now < t then Inr () else if now = t then Inl InsideTransitionWindow else Inl ActivationPhaseChanged) \<and>
    guard_check (rs_execution_of (expectationForSnapshot s')) (rs_state_of (gs_state s)) (word_of_int now) =
      (if now < t then Inl ActivationPhaseChanged else if now = t then Inl InsideTransitionWindow else Inr ()) \<and>
    equityGuardErrorName 12 = Some ActivationPhaseChanged"
proof -
  note m = scheduledBytesMatch_True [OF sign_facts(1) [OF assms(1)]]
  have m': "scheduledBytesMatch s' scenario t = Inr True" and p': "gs_phase s' = 1"
    using ready by (auto simp: activatedReviewDecision_def Let_def err_simps web_expectationFromSnapshot_def split: if_splits)
  have same: "gs_state s' = gs_state s" by (rule matching_state [OF m' sign_facts(1) [OF assms(1)]])
  note verdict = crossing_verdict [OF m(2,1) assms(2-5)]
  have "equityGuardErrorName 12 = Some ActivationPhaseChanged" by code_simp
  with verdict [of 0] verdict [of 1] sign_facts(3) [OF assms(1)] p' same show ?thesis
    by (simp add: expectation_of_matching)
qed

text \<open>
  The demo's two kinds of evidence exclude each other, and each is about tokens: an accepted rejection is
  the guard's own refusal with no movement of the balances, an accepted execution moved exactly the amount.
\<close>

theorem accepted_evidence_exact:
  "(acceptActivationRejection outcome before after programId tokenProgram \<longrightarrow>
      \<not> acceptUpdatedExecution outcome before' after' amount programId tokenProgram \<and> before = after \<and>
      (\<exists>e. oc_customError outcome = Some e \<and> equityGuardErrorName (ce_code e) = Some ActivationPhaseChanged \<and>
           ce_instructionIndex e = oc_guardInstructionIndex outcome)) \<and>
   (acceptUpdatedExecution outcome before after amount programId tokenProgram \<longrightarrow>
      after = before\<lparr>tb_source := tb_source before - amount, tb_destination := tb_destination before + amount\<rparr>) \<and>
   (0 < amount \<longrightarrow> \<not> (acceptActivationRejection outcome before after programId tokenProgram \<and>
      acceptUpdatedExecution outcome' before after amount programId tokenProgram))"
proof -
  have name: "equityGuardErrorName 12 = Some ActivationPhaseChanged" by code_simp
  show ?thesis
    by (cases before; cases after)
      (auto simp: acceptActivationRejection_def acceptUpdatedExecution_def Let_def name)
qed

section \<open>Witnesses\<close>

definition session_snapshot :: "int \<Rightarrow> guard_snapshot" where
  "session_snapshot now =
     \<lparr>gs_mint = ''mint'', contextSlot = 1, gs_clock = \<lparr>slot = 1, unixTimestamp = now\<rparr>, gs_state = sample_state,
      gs_phase = phaseAt sample_state now, gs_hasScheduledChange = True\<rparr>"

definition sample_scenario :: equity_scenario where
  "sample_scenario = hd SCENARIO_CATALOG"

lemma sample_stored: "storedMultiplier (JNum 1) = Inr one_f64" "storedMultiplier (JNum 2) = Inr two_f64"
proof -
  have "le_nat one_f64 = 1023 * 2 ^ 52" "le_nat two_f64 = 1024 * 2 ^ 52" by (simp_all add: one_f64_def two_f64_def)
  moreover have "(2 :: rat) ^ 52 * 2 ^ 1023 / 2 ^ 1075 = 1" "(2 :: rat) ^ 52 * 2 ^ 1024 / 2 ^ 1075 = 2"
    unfolding power_add [symmetric] by simp_all
  ultimately have "f64_of_bytes one_f64 = JNum 1" "f64_of_bytes two_f64 = JNum 2"
    by (simp_all add: f64_of_bytes_def Let_def)
  with f64_bytes_roundtrip [of one_f64] f64_bytes_roundtrip [of two_f64]
  have "f64_bytes (JNum 1) = one_f64" "f64_bytes (JNum 2) = two_f64" by (simp_all add: one_f64_def two_f64_def)
  then show "storedMultiplier (JNum 1) = Inr one_f64" "storedMultiplier (JNum 2) = Inr two_f64"
    by (simp_all add: storedMultiplier_def isApprovedMultiplier_def APPROVED_MULTIPLIERS_def del: f64_bytes.simps)
qed

lemma session_matches: "scheduledBytesMatch (session_snapshot now) sample_scenario 1000 = Inr True"
  by (simp add: scheduledBytesMatch_def session_snapshot_def sample_scenario_def SCENARIO_CATALOG_def sample_stored sample_state_def
      hasScheduledChange_iff one_f64_def two_f64_def)

lemma session_fields [simp]:
  "unixTimestamp (gs_clock (session_snapshot now)) = now" "gs_state (session_snapshot now) = sample_state"
  "gs_phase (session_snapshot now) = (if 1000 \<le> now then 1 else 0)"
  by (simp_all add: session_snapshot_def phaseAt_def sample_state_def Pending_def Activated_def)

lemma session_signs: "authorizeDecision (session_snapshot 900) sample_scenario 1000 = Inr sign"
  by (simp add: authorizeDecision_def session_matches MIN_AUTHORIZATION_REMAINING_SECONDS_def)

lemma session_bounds: "I64_MIN \<le> 1000" "1000 \<le> I64_MAX" "I64_MIN \<le> 1010" "1010 \<le> I64_MAX"
  by (simp_all add: I64_MIN_def I64_MAX_def)

theorem decisions_follow_chain_clock_witness:
  "chainReadyForStaleSubmit (session_snapshot 1000) (expectationForSnapshot (session_snapshot 900)) = Inr False \<and>
   activatedReviewDecision (session_snapshot 1010) sample_scenario 1000 = Inr ready_activated"
  using decisions_follow_chain_clock [OF session_matches [of 1000] session_bounds(1,2) session_signs]
    decisions_follow_chain_clock [OF session_matches [of 1010] session_bounds(1,2) session_signs]
  by simp

theorem signed_authorization_cannot_cross_witness:
  "guard_check (rs_execution_of (expectationForSnapshot (session_snapshot 900))) (rs_state_of sample_state) (word_of_int 1010) =
     Inl ActivationPhaseChanged"
proof -
  have "activatedReviewDecision (session_snapshot 1010) sample_scenario 1000 = Inr ready_activated"
    using crossing_check [of sample_state 1000 1 1010] session_bounds session_matches [of 1010]
    by (simp add: activatedReviewDecision_def Let_def web_check_eq web_expectationFromSnapshot_def sample_state_def hasScheduledChange_iff
        one_f64_def two_f64_def)
  from signed_authorization_cannot_cross [OF session_signs session_bounds this] show ?thesis
    by simp
qed

definition rejected_outcome :: confirmed_chain_outcome where
  "rejected_outcome =
     \<lparr>oc_signature = ''sig'', oc_slot = 5, oc_error = JString ''e'', oc_customError = Some \<lparr>ce_instructionIndex = 0, ce_code = 12\<rparr>,
      oc_logs = [''Program G invoke [1]''], oc_guardInstructionIndex = 0\<rparr>"

theorem accepted_evidence_exact_witness:
  "acceptActivationRejection rejected_outcome \<lparr>tb_source = 9, tb_destination = 0\<rparr> \<lparr>tb_source = 9, tb_destination = 0\<rparr> ''G'' ''T'' \<and>
   \<not> acceptUpdatedExecution rejected_outcome \<lparr>tb_source = 9, tb_destination = 0\<rparr> \<lparr>tb_source = 8, tb_destination = 1\<rparr> 1 ''G'' ''T''"
proof -
  have "acceptActivationRejection rejected_outcome \<lparr>tb_source = 9, tb_destination = 0\<rparr> \<lparr>tb_source = 9, tb_destination = 0\<rparr> ''G'' ''T''"
    by (simp add: acceptActivationRejection_def rejected_outcome_def starts_with_def)
  with accepted_evidence_exact [of rejected_outcome "\<lparr>tb_source = 9, tb_destination = 0\<rparr>" "\<lparr>tb_source = 9, tb_destination = 0\<rparr>" "''G''" "''T''"]
  show ?thesis by blast
qed

end
