(* ===== verification/Devnet_Codec.thy ===== *)
theory Devnet_Codec
  imports Devnet_Policy Deployment
begin

text \<open>
  The readers and writers of the public Devnet demo (\<open>apps/web/lib/devnet-public.ts\<close>): its own encoder of the
  guard instruction, its mint reader, commitment and guarded transfer, the reading of accounts and clock and
  the check of the deployed program. The theorems compare each with the guard client's. The address codec and
  SHA-256 are parameters, as are the answers of the RPC node.
\<close>

section \<open>The reviewed program\<close>

text \<open>The module's variable \<open>boundProgram\<close> is passed explicitly.\<close>

definition bindReviewedProgram :: "address option \<Rightarrow> address \<Rightarrow> address option \<times> (web_exn + unit)" where
  "bindReviewedProgram boundProgram programId =
     (case boundProgram of
        Some bound \<Rightarrow>
          if bound \<noteq> programId then (boundProgram, Inl (WebError ''Reviewed program id changed'')) else (Some programId, Inr ())
      | None \<Rightarrow> (Some programId, Inr ()))"

definition reviewedProgramId :: "address option \<Rightarrow> web_exn + address" where
  "reviewedProgramId boundProgram = require (WebError ''Reviewed StateGuard program was not bound'') boundProgram"

section \<open>The encoder\<close>

definition positiveNormalMultiplier :: "bytes \<Rightarrow> bool" where
  "positiveNormalMultiplier bs =
     (if length bs \<noteq> 8 then False else js_finite (f64_of_bytes bs) \<and> js_ge (f64_of_bytes bs) (1 / 2 ^ 1022))"

definition web_write :: "bytes \<Rightarrow> assert_safe_execution_v2_request \<Rightarrow> bytes option" where
  "web_write mintBytes request =
     (let e = expected request; w = window request in
      Option.bind (buf_set 0 [2] (replicate 99 0)) (\<lambda>out.
      Option.bind (buf_set 1 mintBytes out) (\<lambda>out.
      Option.bind (buf_set 33 (multiplier e) out) (\<lambda>out.
      Option.bind (buf_set 41 (newMultiplier e) out) (\<lambda>out.
      Option.bind (buf_set 49 (le_bytes_int 8 (newMultiplierEffectiveTimestamp e)) out) (\<lambda>out.
      Option.bind (buf_set 57 [word_of_int (expectedPhase request)] out) (\<lambda>out.
      Option.bind (buf_set 58 (u32_bytes_of_number (beforeSecs w)) out) (\<lambda>out.
      Option.bind (buf_set 62 (u32_bytes_of_number (afterSecs w)) out) (\<lambda>out.
      Option.bind (buf_set 66 [1] out) (\<lambda>out.
      buf_set 67 (downstreamCommitment request) out))))))))))"

definition web_encodeAssertSafeExecutionV2 :: "(address \<Rightarrow> bytes) \<Rightarrow> assert_safe_execution_v2_request \<Rightarrow> web_exn + bytes" where
  "web_encodeAssertSafeExecutionV2 encodeAddress request =
     (let e = expected request; timestamp = newMultiplierEffectiveTimestamp e in
      if \<not> positiveNormalMultiplier (multiplier e) \<or> \<not> positiveNormalMultiplier (newMultiplier e)
      then Inl (WebError ''multipliers must be 8 bytes encoding a positive normal f64'')
      else if timestamp < - (2 ^ 63) \<or> timestamp > 2 ^ 63 - 1 then Inl (WebError ''effective timestamp outside i64 range'')
      else if expectedPhase request \<noteq> 0 \<and> expectedPhase request \<noteq> 1 then Inl (WebError ''unknown activation phase'')
      else if list_ex (\<lambda>secs. \<not> js_int_in 0 4294967295 secs) [beforeSecs (window request), afterSecs (window request)]
      then Inl (WebError ''protection window must be a u32'')
      else if adapterKind request \<noteq> 1 \<or> length (downstreamCommitment request) \<noteq> 32
      then Inl (WebError ''downstream commitment must be a Token-2022 transfer commitment'')
      else require WebRangeError (web_write (encodeAddress (expectedMint request)) request))"

section \<open>The mint reader\<close>

definition web_uint :: "nat \<Rightarrow> bytes \<Rightarrow> nat \<Rightarrow> web_exn + nat" where
  "web_uint n data offset = (if offset + n \<le> length data then Inr (le_nat (bytes_at offset n data)) else Inl WebRangeError)"

text \<open>The loop over the extensions: the types seen and where the scaled-UI configuration is.\<close>

function web_tlv_loop :: "bytes \<Rightarrow> nat \<Rightarrow> nat list \<Rightarrow> (nat \<times> nat) option \<Rightarrow> web_exn + nat list \<times> (nat \<times> nat) option" where
  "web_tlv_loop data offset seen scaled =
     (if length data - offset < 2 then Inr (seen, scaled)
      else bindE (web_uint 2 data offset) (\<lambda>type.
        if type = 0 then Inr (seen, scaled)
        else if type > 28 \<or> length data - offset < 4 then Inl (WebError ''Session mint extension header is truncated'')
        else bindE (web_uint 2 data (offset + 2)) (\<lambda>len.
          let value = offset + 4 in
          if value + len > length data \<or> type \<in> set seen then Inl (WebError ''Session mint extension layout is invalid'')
          else web_tlv_loop data (value + len) (type # seen) (if type = 25 then Some (value, len) else scaled))))"
  by auto
termination
  by (relation "measure (\<lambda>(data, offset, _, _). length data - offset)") auto

declare web_tlv_loop.simps [simp del]

text \<open>The end of \<open>readSessionMint\<close>, from the extensions on.\<close>

definition session_state :: "bytes \<Rightarrow> byte \<Rightarrow> nat list \<times> (nat \<times> nat) option \<Rightarrow> web_exn + protected_state \<times> nat" where
  "session_state data dec found =
     (case snd found of
        None \<Rightarrow> Inl (WebError ''Session mint has no ScaledUiAmount extension'')
      | Some (value, len) \<Rightarrow>
          if 10 \<in> set (fst found) then Inl (WebError ''Session mint combines ScaledUiAmount with InterestBearingConfig'')
          else if len \<noteq> 56 then Inl (WebError ''ScaledUiAmount config has the wrong length'')
          else let mult = bytes_at (value + 32) 8 data; newMult = bytes_at (value + 48) 8 data in
            if \<not> positiveNormalMultiplier mult \<or> \<not> positiveNormalMultiplier newMult
            then Inl (WebError ''Stored multiplier is not a positive normal f64'')
            else if value + 40 + 8 \<le> length data
            then Inr (\<lparr>multiplier = mult, newMultiplier = newMult,
                       newMultiplierEffectiveTimestamp = le_int (bytes_at (value + 40) 8 data)\<rparr>, unat dec)
            else Inl WebRangeError)"

definition readSessionMint :: "address \<Rightarrow> bytes \<Rightarrow> web_exn + protected_state \<times> nat" where
  "readSessionMint owner data =
     (if owner \<noteq> TOKEN_2022_PROGRAM_ADDRESS then Inl (WebError ''Session mint is not owned by Token-2022'')
      else if length data < 166 \<or> length data = 355 then Inl (WebError ''Session mint data is not a Token-2022 extension mint'')
      else
        bindE (mapE (\<lambda>offset. bindE (web_uint 4 data offset) (\<lambda>tag.
            throw_if (tag \<noteq> 0 \<and> tag \<noteq> 1) (WebError ''Session mint authority tag is invalid''))) [0, 46]) (\<lambda>_.
        if js_index data 45 \<noteq> Some 1 then Inl (WebError ''Session mint is not initialized'')
        else bindE (require (WebError ''Session mint decimals are missing'') (js_index data 44)) (\<lambda>dec.
        if list_ex (\<lambda>byte. byte \<noteq> 0) (bytes_at 82 (165 - 82) data) \<or> js_index data 165 \<noteq> Some 1
        then Inl (WebError ''Session mint extension header is invalid'')
        else bindE (web_tlv_loop data 166 [] None) (session_state data dec))))"

section \<open>Accounts, clock and deployment\<close>

text \<open>
  \<open>atob\<close>: white space is dropped, up to two padding signs of a text whose length is a multiple of four are
  removed, and any other character or a length of one more than a multiple of four is refused.
\<close>

definition atob_space :: "char \<Rightarrow> bool" where
  "atob_space c = (c \<in> set [CHR 0x09, CHR 0x0A, CHR 0x0C, CHR 0x0D, CHR '' ''])"

definition atob_unpad :: "string \<Rightarrow> string" where
  "atob_unpad s =
     (if length s mod 4 = 0
      then (if drop (length s - 2) s = ''=='' then take (length s - 2) s
            else if drop (length s - 1) s = ''='' then take (length s - 1) s else s)
      else s)"

definition atob_sextet :: "char \<Rightarrow> nat option" where
  "atob_sextet c = (if c = CHR ''-'' \<or> c = CHR ''_'' then None else base64_sextet c)"

definition web_atob :: "string \<Rightarrow> web_exn + bytes" where
  "web_atob encoded =
     (let s = atob_unpad (filter (\<lambda>c. \<not> atob_space c) encoded) in
      if length s mod 4 = 1 \<or> list_ex (\<lambda>c. atob_sextet c = None) s then Inl WebRangeError
      else Inr (base64_bytes (List.map_filter atob_sextet s)))"

definition accountBytes :: "js_value \<Rightarrow> web_exn + bytes" where
  "accountBytes data =
     (case data of
        JArray (JString encoded # _) \<Rightarrow> web_atob encoded
      | _ \<Rightarrow> Inl (WebError ''Account data missing''))"

record web_account =
  wa_owner :: address
  wa_data :: js_value
  wa_executable :: bool

definition web_decodeClock :: "bytes \<Rightarrow> web_exn + chain_clock" where
  "web_decodeClock data =
     (if length data \<noteq> 40 then Inl (WebError ''Clock sysvar is not usable'')
      else Inr \<lparr>slot = int (le_nat (bytes_at 0 8 data)), unixTimestamp = le_int (bytes_at 32 8 data)\<rparr>)"

text \<open>The answer to \<open>getMultipleAccounts\<close> for the mint and the clock, with its context slot.\<close>

type_synonym accounts_answer = "web_exn + int \<times> web_account option list"

definition answer_at :: "web_account option list \<Rightarrow> nat \<Rightarrow> web_account option" where
  "answer_at accounts i = (case js_index accounts i of None \<Rightarrow> None | Some a \<Rightarrow> a)"

definition readChainSnapshot :: "accounts_answer \<Rightarrow> address \<Rightarrow> web_exn + guard_snapshot" where
  "readChainSnapshot answer mint =
     bindE answer (\<lambda>(context, accounts).
     case (answer_at accounts 0, answer_at accounts 1) of
       (Some mintAccount, Some clockAccount) \<Rightarrow>
         bindE (accountBytes (wa_data clockAccount)) (\<lambda>clockBytes.
         bindE (web_decodeClock clockBytes) (\<lambda>clock.
         bindE (accountBytes (wa_data mintAccount)) (\<lambda>mintBytes.
         bindE (readSessionMint (wa_owner mintAccount) mintBytes) (\<lambda>(state, _).
           Inr \<lparr>gs_mint = mint, contextSlot = context, gs_clock = clock, gs_state = state,
                gs_phase = web_phaseAt state (unixTimestamp clock), gs_hasScheduledChange = web_hasScheduledChange state\<rparr>))))
     | _ \<Rightarrow> Inl (WebError ''Session mint or Clock was not returned''))"

definition readChainClock :: "web_exn + web_account option \<Rightarrow> web_exn + int" where
  "readChainClock answer =
     bindE answer (\<lambda>account.
     case account of
       None \<Rightarrow> Inl (WebError ''Clock sysvar not returned'')
     | Some a \<Rightarrow> bindE (accountBytes (wa_data a)) (\<lambda>bs. bindE (web_decodeClock bs) (\<lambda>clock. Inr (unixTimestamp clock))))"

definition BPF_LOADER :: address where "BPF_LOADER = ''BPFLoaderUpgradeab1e11111111111111111111111''"
definition PROGRAM_DATA_ADDRESS :: address where "PROGRAM_DATA_ADDRESS = ''4Zc4TAEYNSXCGUkpD7y7CcEWDS8a9aQBDfYHFu55dPE3''"
definition REVIEWED_ELF_SHA256 :: string where
  "REVIEWED_ELF_SHA256 = ''d7d59ccd9e96bb3eb3e16893aca638d8e5fdbfaf5032b4b39737ef16a41e4e46''"
definition REVIEWED_ELF_LENGTH :: nat where "REVIEWED_ELF_LENGTH = 63840"

definition web_sha256Hex :: "(bytes \<Rightarrow> bytes) \<Rightarrow> bytes \<Rightarrow> string" where
  "web_sha256Hex sha256 bs = hexOf (sha256 bs)"

definition verifyProgramData :: "(bytes \<Rightarrow> address) \<Rightarrow> (bytes \<Rightarrow> bytes) \<Rightarrow> bytes \<Rightarrow> web_exn + address option" where
  "verifyProgramData decodeAddress sha256 data =
     (let stop = 45 + REVIEWED_ELF_LENGTH in
      if length data < stop \<or> le_nat (bytes_at 0 4 data) \<noteq> 3 then Inl (WebError ''Reviewed ProgramData is malformed'')
      else if web_sha256Hex sha256 (bytes_at 45 REVIEWED_ELF_LENGTH data) \<noteq> REVIEWED_ELF_SHA256
      then Inl (WebError ''Deployed ELF does not match the reviewed hash'')
      else if list_ex (\<lambda>byte. byte \<noteq> 0) (drop stop data) then Inl (WebError ''ProgramData carries bytes beyond the reviewed ELF'')
      else Inr (if js_index data 12 = Some 1 then Some (decodeAddress (bytes_at 13 32 data)) else None))"

definition verifyPublicEnvironment ::
    "(bytes \<Rightarrow> address) \<Rightarrow> (bytes \<Rightarrow> bytes) \<Rightarrow> address option \<Rightarrow> web_exn + string \<Rightarrow> (address \<Rightarrow> accounts_answer) \<Rightarrow> web_exn + address option" where
  "verifyPublicEnvironment decodeAddress sha256 boundProgram genesis rpc =
     bindE genesis (\<lambda>hash.
     bindE (assertDevnetCluster hash) (\<lambda>_.
     bindE (reviewedProgramId boundProgram) (\<lambda>programId.
     bindE (rpc programId) (\<lambda>(context, accounts).
     case answer_at accounts 0 of
       None \<Rightarrow> Inl (WebError ''Reviewed StateGuard program is missing or not executable'')
     | Some program \<Rightarrow>
         if \<not> wa_executable program \<or> wa_owner program \<noteq> BPF_LOADER
         then Inl (WebError ''Reviewed StateGuard program is missing or not executable'')
         else bindE (accountBytes (wa_data program)) (\<lambda>programBytes.
           if length programBytes \<noteq> 36 \<or> le_nat (bytes_at 0 4 programBytes) \<noteq> 2
           then Inl (WebError ''Reviewed StateGuard program is not an upgradeable loader program'')
           else if decodeAddress (bytes_at 4 32 programBytes) \<noteq> PROGRAM_DATA_ADDRESS
           then Inl (WebError ''ProgramData does not match the reviewed deployment'')
           else case answer_at accounts 1 of
             None \<Rightarrow> Inl (WebError ''Reviewed ProgramData is missing'')
           | Some programData \<Rightarrow>
               if wa_owner programData \<noteq> BPF_LOADER then Inl (WebError ''Reviewed ProgramData is missing'')
               else bindE (accountBytes (wa_data programData)) (verifyProgramData decodeAddress sha256))))))"

section \<open>The guarded transfer\<close>

text \<open>\<open>setUint32\<close> keeps the lowest 32 bits.\<close>

definition web_u32le :: "nat \<Rightarrow> bytes" where
  "web_u32le v = le_bytes 4 (v mod 2 ^ 32)"

text \<open>The inner loops of \<open>flags\<close>.\<close>

fun web_merge :: "address \<Rightarrow> account_meta list \<Rightarrow> bool \<times> bool \<Rightarrow> bool \<times> bool" where
  "web_merge account [] (signer, writable) = (signer, writable)"
| "web_merge account (meta # metas) (signer, writable) =
     web_merge account metas
       (if am_address meta \<noteq> account then (signer, writable)
        else (signer \<or> am_role meta = READONLY_SIGNER \<or> am_role meta = WRITABLE_SIGNER,
              writable \<or> am_role meta = WRITABLE \<or> am_role meta = WRITABLE_SIGNER))"

definition web_flags :: "instruction list \<Rightarrow> address \<Rightarrow> address \<Rightarrow> bool \<times> bool" where
  "web_flags instructions feePayer account =
     foldl (\<lambda>fs current. web_merge account (accounts_of current) fs) (account = feePayer, account = feePayer) instructions"

definition commitmentPreimage :: "(address \<Rightarrow> bytes) \<Rightarrow> instruction \<Rightarrow> instruction list \<Rightarrow> address \<Rightarrow> bytes" where
  "commitmentPreimage encode instruction instructions feePayer =
     concat ([ascii_bytes ''EQUITYGUARD_DOWNSTREAM_V2'', encode (programAddress instruction), web_u32le (length (accounts_of instruction))] @
       concat (map (\<lambda>meta. let (signer, writable) = web_flags instructions feePayer (am_address meta) in
           [encode (am_address meta), [if signer then 1 else 0, if writable then 1 else 0]]) (accounts_of instruction)) @
       [web_u32le (length (data_of instruction)), data_of instruction])"

definition commitmentOf :: "(address \<Rightarrow> bytes) \<Rightarrow> (bytes \<Rightarrow> bytes) \<Rightarrow> instruction \<Rightarrow> instruction list \<Rightarrow> address \<Rightarrow> bytes" where
  "commitmentOf encode sha256 instruction instructions feePayer = sha256 (commitmentPreimage encode instruction instructions feePayer)"

definition web_guard_instruction ::
    "(address \<Rightarrow> bytes) \<Rightarrow> address \<Rightarrow> address \<Rightarrow> assert_safe_execution_request \<Rightarrow> bytes \<Rightarrow> web_exn + instruction" where
  "web_guard_instruction encode program mint expectation commitment =
     bindE (web_encodeAssertSafeExecutionV2 encode (assert_safe_execution_request.extend expectation
         \<lparr>expectedMint = mint, adapterKind = 1, downstreamCommitment = commitment\<rparr>)) (\<lambda>data.
       Inr \<lparr>programAddress = program,
            ix_accounts = Some [\<lparr>am_address = mint, am_role = READONLY\<rparr>,
                                \<lparr>am_address = ''Sysvar1nstructions1111111111111111111111111'', am_role = READONLY\<rparr>],
            ix_data = Some data\<rparr>)"

definition buildPublicGuardedTransfer ::
    "(address \<Rightarrow> bytes) \<Rightarrow> (bytes \<Rightarrow> bytes) \<Rightarrow> address option \<Rightarrow> address \<Rightarrow> address \<Rightarrow> assert_safe_execution_request \<Rightarrow> instruction \<Rightarrow>
       web_exn + instruction list \<times> instruction" where
  "buildPublicGuardedTransfer encode sha256 boundProgram feePayer mint expectation transfer =
     (if programAddress transfer \<noteq> TOKEN_2022_PROGRAM_ADDRESS then Inl (WebError ''Protected action is not a Token-2022 transfer'')
      else bindE (reviewedProgramId boundProgram) (\<lambda>program.
        bindE (web_guard_instruction encode program mint expectation (replicate 32 0)) (\<lambda>placeholder.
        bindE (web_guard_instruction encode program mint expectation
            (commitmentOf encode sha256 transfer [placeholder, transfer] feePayer)) (\<lambda>guard.
          Inr ([guard, transfer], guard)))))"

fun classify_token_data :: "bytes \<Rightarrow> string option" where
  "classify_token_data (tag # rest) =
     (if tag = 20 then Some ''initialize-mint''
      else if tag = 7 then Some ''mint-to''
      else if tag = 43 \<and> js_index rest 0 = Some 0 then Some ''initialize-scaled-ui''
      else if tag = 43 \<and> js_index rest 0 = Some 1 then Some ''schedule-multiplier''
      else None)"
| "classify_token_data [] = None"

definition classifyPrepareInstruction :: "instruction \<Rightarrow> string" where
  "classifyPrepareInstruction instruction =
     (if programAddress instruction = ''11111111111111111111111111111111'' then ''create-mint''
      else case (if programAddress instruction = TOKEN_2022_PROGRAM_ADDRESS then Option.bind (ix_data instruction) classify_token_data else None) of
        Some kind \<Rightarrow> kind
      | None \<Rightarrow> ''create-ata'')"

section \<open>Facts: the encoder\<close>

lemma positiveNormalMultiplier_eq [simp]: "positiveNormalMultiplier bs = isValidStoredMultiplier bs"
  by (simp add: positiveNormalMultiplier_def isValidStoredMultiplier_def Let_def MIN_POSITIVE_NORMAL_F64_def)

lemma web_write_eq: "adapterKind r = 1 \<Longrightarrow> web_write m r = writeAssertSafeExecutionV2 m r"
  by (simp add: web_write_def writeAssertSafeExecutionV2_def ABI_VERSION_V2_def ASSERT_SAFE_EXECUTION_V2_LEN_def Let_def)

lemma web_encode_eq:
  assumes "adapterKind r = 1"
  shows "web_encodeAssertSafeExecutionV2 encode r = Inr data \<longleftrightarrow> encodeAssertSafeExecutionV2 encode r = Inr data"
proof -
  have "isDownstreamAdapterKind (adapterKind r)" using assms by (simp add: isDownstreamAdapterKind_def adapter_kind_defs)
  then show ?thesis
    using web_write_eq [OF assms] assms
    by (auto simp: web_encodeAssertSafeExecutionV2_def encodeAssertSafeExecutionV2_def Let_def I64_MIN_def I64_MAX_def U32_MAX_def
        Pending_def Activated_def require_def split: option.splits if_splits)
qed

lemma web_guard_instruction_eq:
  "web_guard_instruction encode program mint e c = Inr ix \<longleftrightarrow> getAssertSafeExecutionV2Instruction encode program mint e c None = Inr ix"
proof -
  let ?r = "assert_safe_execution_request.extend e \<lparr>expectedMint = mint, adapterKind = 1, downstreamCommitment = c\<rparr>"
  have "adapterKind ?r = 1" by (simp add: assert_safe_execution_request.defs)
  from web_encode_eq [OF this] show ?thesis
    by (auto simp: web_guard_instruction_def getAssertSafeExecutionV2Instruction_def err_simps SYSVAR_INSTRUCTIONS_ADDRESS_def
        TOKEN_2022_TRANSFER_CHECKED_def)
qed

section \<open>Facts: the mint reader\<close>

definition scaled_of :: "tlv_entry list \<Rightarrow> (nat \<times> nat) option" where
  "scaled_of es = map_option (\<lambda>e. (valueOffset e, tlv_length e)) (find (\<lambda>e. tlv_type e = Ext_ScaledUiAmount) es)"

lemma scaled_of_Nil [simp]: "scaled_of [] = None"
  by (simp add: scaled_of_def)

lemma scaled_of_snoc:
  assumes "tlv_type e \<notin> tlv_type ` set es"
  shows "scaled_of (es @ [e]) = (if tlv_type e = 25 then Some (valueOffset e, tlv_length e) else scaled_of es)"
proof -
  let ?P = "\<lambda>e. tlv_type e = Ext_ScaledUiAmount"
  have "find P (xs @ [e]) = (case find P xs of None \<Rightarrow> if P e then Some e else None | Some y \<Rightarrow> Some y)"
    for P :: "tlv_entry \<Rightarrow> bool" and xs
    by (induction xs) auto
  moreover have "tlv_type e = 25 \<Longrightarrow> find ?P es = None"
    using assms by (auto simp: find_None_iff Ext_ScaledUiAmount_def)
  ultimately show ?thesis by (auto simp: scaled_of_def Ext_ScaledUiAmount_def split: option.splits)
qed

text \<open>The two loops run in step: one keeps the entries, the other only what it needs of them.\<close>

lemma web_tlv_loop_follows:
  assumes "set seen = tlv_type ` set entries"
  shows "case readTlv_loop data offset seen entries of
     Inl _ \<Rightarrow> \<exists>e. web_tlv_loop data offset seen (scaled_of entries) = Inl e
   | Inr es \<Rightarrow> \<exists>seen'. web_tlv_loop data offset seen (scaled_of entries) = Inr (seen', scaled_of es) \<and> set seen' = tlv_type ` set es"
  using assms
proof (induction data offset seen entries rule: readTlv_loop.induct)
  case (1 data offset seen entries)
  show ?case
  proof (cases "length data - offset < 4")
    case True
    with 1(2) show ?thesis
      unfolding readTlv_loop.simps [of data offset seen entries] web_tlv_loop.simps [of data offset seen "scaled_of entries"]
      by (auto simp: get_le_def web_uint_def TLV_HEADER_LEN_def Ext_Uninitialized_def Ext_MaxKnown_def)
  next
    case False
    define type len where "type = le_nat (bytes_at offset 2 data)" and "len = le_nat (bytes_at (offset + 2) 2 data)"
    define entry where "entry = \<lparr>tlv_type = type, tlv_length = len, valueOffset = offset + 4\<rparr>"
    have in_range: "\<not> length data - offset < 2" "get_le 2 data offset = Inr type" "get_le 2 data (offset + 2) = Inr len"
      "web_uint 2 data offset = Inr type" "web_uint 2 data (offset + 2) = Inr len"
      using False by (auto simp: get_le_def web_uint_def type_def len_def)
    note steps = readTlv_loop.simps [of data offset seen entries] web_tlv_loop.simps [of data offset seen "scaled_of entries"]
    show ?thesis
    proof (cases "type = 0 \<or> type > 28 \<or> offset + 4 + len > length data \<or> type \<in> set seen")
      case True
      with False 1(2) show ?thesis
        unfolding steps
        by (cases "type = 0"; cases "28 < type"; cases "length data < offset + 4 + len")
          (simp_all add: in_range TLV_HEADER_LEN_def Ext_Uninitialized_def Ext_MaxKnown_def Let_def del: add_2_eq_Suc')
    next
      case ok: False
      have "scaled_of (entries @ [entry]) = (if type = 25 then Some (offset + 4, len) else scaled_of entries)"
        using ok 1(2) scaled_of_snoc [of entry entries] by (simp add: entry_def)
      then have w: "web_tlv_loop data offset seen (scaled_of entries) =
          web_tlv_loop data (offset + 4 + len) (type # seen) (scaled_of (entries @ [entry]))"
        using ok False unfolding steps(2) by (simp add: in_range Let_def del: add_2_eq_Suc')
      have r: "readTlv_loop data offset seen entries = readTlv_loop data (offset + 4 + len) (type # seen) (entries @ [entry])"
        using ok False unfolding steps(1)
        by (simp add: in_range TLV_HEADER_LEN_def Ext_Uninitialized_def Ext_MaxKnown_def Let_def entry_def del: add_2_eq_Suc')
      have "set (type # seen) = tlv_type ` set (entries @ [entry])" using 1(2) by (simp add: entry_def)
      then show ?thesis
        using 1(1) [of type len "offset + 4", folded entry_def] ok False unfolding r w
        by (simp add: in_range TLV_HEADER_LEN_def Ext_Uninitialized_def Ext_MaxKnown_def del: add_2_eq_Suc')
    qed
  qed
qed

lemma web_tlv_area:
  "case readTlvEntries data of
     Inl _ \<Rightarrow> \<exists>e. web_tlv_loop data 166 [] None = Inl e
   | Inr es \<Rightarrow> \<exists>seen. web_tlv_loop data 166 [] None = Inr (seen, scaled_of es) \<and> set seen = tlv_type ` set es"
  using web_tlv_loop_follows [of "[]" "[]" data 166, unfolded scaled_of_Nil]
  by (simp add: readTlvEntries_def TLV_START_def ACCOUNT_TYPE_OFFSET_def)

text \<open>Up to the extensions, both readers refuse the same accounts.\<close>

lemma readSessionMint_parse:
  "case parseMintAccount owner data of
     Inl _ \<Rightarrow> \<exists>e. readSessionMint owner data = Inl e
   | Inr es \<Rightarrow> (length data = 82 \<longrightarrow> (\<exists>e. readSessionMint owner data = Inl e)) \<and>
       (length data \<noteq> 82 \<longrightarrow> (\<exists>seen d. js_index data 44 = Some d \<and> set seen = tlv_type ` set es \<and>
          readSessionMint owner data = session_state data d (seen, scaled_of es)))"
proof (cases "owner = TOKEN_2022_PROGRAM_ADDRESS \<and> 166 \<le> length data \<and> length data \<noteq> 355")
  case False
  then have "\<exists>e. readSessionMint owner data = Inl e" by (auto simp: readSessionMint_def)
  moreover have "length data = 82" if "parseMintAccount owner data = Inr es" for es
    using that False by (auto simp: parseMintAccount_def validateBaseMint_def mint_layout_defs err_simps split: if_splits)
  ultimately show ?thesis by (auto split: sum.splits)
next
  case True
  then have tags: "get_le 4 data 0 = Inr (le_nat (bytes_at 0 4 data))" "get_le 4 data 46 = Inr (le_nat (bytes_at 46 4 data))"
    "web_uint 4 data 0 = Inr (le_nat (bytes_at 0 4 data))" "web_uint 4 data 46 = Inr (le_nat (bytes_at 46 4 data))"
    by (simp_all add: get_le_def web_uint_def)
  have d: "js_index data 44 = Some (data ! 44)" using True by (simp add: js_index_def)
  show ?thesis
    using True web_tlv_area [of data]
    by (auto simp: readSessionMint_def parseMintAccount_def validateBaseMint_def mint_layout_defs tags d throw_if_def split: sum.splits;
        blast)
qed

section \<open>Facts: the guarded transfer\<close>

lemma web_merge_eq: "web_merge account metas fs = merge_flags account metas fs"
  by (induction metas arbitrary: fs) (auto simp: isSigner_def isWritable_def split: prod.split)

lemma web_flags_eq: "web_flags ixs payer account = transaction_flags ixs payer account"
  by (simp add: web_flags_def transaction_flags_def web_merge_eq)

lemma commitmentPreimage_eq:
  assumes "length (accounts_of ix) < 2 ^ 32" and "length (data_of ix) < 2 ^ 32"
  shows "downstreamCommitmentPreimage encode (asCommittedInstruction ix ixs payer) = Inr (commitmentPreimage encode ix ixs payer)"
proof -
  have accounts: "concat (concat (map (\<lambda>meta. let (signer, writable) = web_flags ixs payer (am_address meta) in
        [encode (am_address meta), [if signer then 1 else 0, if writable then 1 else 0]]) metas)) =
      concat (map (rs_account_bytes \<circ> rs_account_of encode \<circ> (\<lambda>meta. let (signer, writable) = transaction_flags ixs payer (am_address meta)
          in \<lparr>ca_address = am_address meta, ca_isSigner = signer, ca_isWritable = writable\<rparr>)) metas)" for metas
    by (induction metas) (simp_all add: web_flags_eq rs_account_bytes_def rs_account_of_def flag_byte_def split_beta Let_def)
  from assms show ?thesis
    using accounts [of "accounts_of ix"]
    by (simp add: downstreamCommitmentPreimage_eq commitmentPreimage_def DOWNSTREAM_COMMITMENT_DOMAIN_def asCommittedInstruction_def
        rs_instruction_bytes_def rs_instruction_of_def counted_def sized_bytes_def web_u32le_def comp_assoc)
qed

lemma commitmentOf_eq:
  "length (accounts_of ix) < 2 ^ 32 \<Longrightarrow> length (data_of ix) < 2 ^ 32 \<Longrightarrow>
   downstreamCommitmentOf encode sha256 (asCommittedInstruction ix ixs payer) = Inr (commitmentOf encode sha256 ix ixs payer)"
  by (simp add: downstreamCommitmentOf_def commitmentPreimage_eq commitmentOf_def)

text \<open>What the two readers do with the extensions they found.\<close>

lemma session_state_decode:
  assumes Inr: "parseMintAccount owner data = Inr es" and False: "length data \<noteq> 82" and d: "js_index data 44 = Some d"
      "set seen = tlv_type ` set es" "readSessionMint owner data = session_state data d (seen, scaled_of es)"
  shows "(\<forall>s. decodeProtectedState owner data = Inr s \<longrightarrow> readSessionMint owner data = Inr (s, unat d)) \<and>
    (\<forall>s n. readSessionMint owner data = Inr (s, n) \<longrightarrow>
      decodeProtectedState owner data \<in> {Inr s, Inl (GuardClientError InvalidExtensionCombination_code None)})"
proof (cases "find (\<lambda>e. tlv_type e = Ext_ScaledUiAmount) es")
  case None
  with Inr False d show ?thesis
    by (auto simp: decodeProtectedState_def BASE_MINT_LEN_def session_state_def scaled_of_def)
next
  case (Some e)
  then have e: "e \<in> set es" "tlv_type e = 25" by (auto simp: find_Some_iff Ext_ScaledUiAmount_def)
  have range: "valueOffset e + tlv_length e \<le> length data"
    using parseMintAccount_in_range [OF Inr] e(1) by auto
  have combo: "10 \<in> set seen \<Longrightarrow> assertValidMintExtensionCombination (map tlv_type es) =
      Inl (GuardClientError InvalidExtensionCombination_code None)"
    using e d(2) by (auto simp: assertValidMintExtensionCombination_def Let_def extension_type_defs)
  have verdict: "assertValidMintExtensionCombination (map tlv_type es) \<in>
      {Inr (), Inl (GuardClientError InvalidExtensionCombination_code None)}"
    by (auto simp: assertValidMintExtensionCombination_def Let_def)
  show ?thesis
    using Some Inr False d range combo verdict
    by (auto simp: decodeProtectedState_def BASE_MINT_LEN_def session_state_def scaled_of_def SCALED_UI_AMOUNT_CONFIG_LEN_def
        getBigInt64_def Let_def split: if_splits)
qed

lemma session_mint_of_decode:
  assumes "decodeProtectedState owner data = Inr s"
  shows "\<exists>d. js_index data 44 = Some d \<and> readSessionMint owner data = Inr (s, unat d)"
proof -
  obtain es where es: "parseMintAccount owner data = Inr es" "length data \<noteq> 82"
    using assms by (auto simp: decodeProtectedState_def BASE_MINT_LEN_def err_simps split: if_splits)
  with readSessionMint_parse [of owner data] obtain seen d where d: "js_index data 44 = Some d"
    "set seen = tlv_type ` set es" "readSessionMint owner data = session_state data d (seen, scaled_of es)" by auto
  with session_state_decode [OF es d] assms show ?thesis by blast
qed

section \<open>Properties\<close>



text \<open>
  The page's check of its environment is the client's check of the reviewed deployment: when it passes, the
  cluster is Devnet and the two loader accounts pass the client's verification of the reviewed binary with
  the same upgrade authority, or carry an authority tag that is neither absent nor present, which the page
  reports as no authority and the client refuses.
\<close>

theorem environment_is_reviewed_deployment:
  assumes "verifyPublicEnvironment decodeAddress sha256 (Some programId) (Inr genesis) rpc = Inr authority"
  shows "clusterFromGenesisHash genesis = devnet \<and>
    (\<exists>context accounts p d pb db r. rpc programId = Inr (context, accounts) \<and>
       answer_at accounts 0 = Some p \<and> answer_at accounts 1 = Some d \<and> wa_executable p \<and>
       accountBytes (wa_data p) = Inr pb \<and> accountBytes (wa_data d) = Inr db \<and>
       r = verifyReviewedGuardDeployment decodeAddress sha256 (hd REVIEWED_GUARD_DEPLOYMENTS)
             (Some \<lparr>executable = True, pa_owner = wa_owner p, la_data = pb\<rparr>)
             (Some \<lparr>executable = wa_executable d, pa_owner = wa_owner d, la_data = db\<rparr>) \<and>
       ((\<exists>a. r = Inr a \<and> at_upgradeAuthority a = authority \<and> at_identity a = REVIEWED_BINARY) \<or>
        r = Inl MALFORMED_PROGRAM_DATA \<and> authority = None))"
proof -
  obtain ctx accounts p pb d db where rpc: "rpc programId = Inr (ctx, accounts)"
    and p: "answer_at accounts 0 = Some p" "wa_executable p" "wa_owner p = BPF_LOADER" "accountBytes (wa_data p) = Inr pb"
      "length pb = 36" "le_nat (bytes_at 0 4 pb) = 2" "decodeAddress (bytes_at 4 32 pb) = PROGRAM_DATA_ADDRESS"
    and d: "answer_at accounts 1 = Some d" "wa_owner d = BPF_LOADER" "accountBytes (wa_data d) = Inr db"
    and v: "verifyProgramData decodeAddress sha256 db = Inr authority" and genesis: "genesis = PUBLIC_GENESIS_DEVNET"
    using assms
    by (auto simp: verifyPublicEnvironment_def assertDevnetCluster_def reviewedProgramId_def err_simps split: if_splits option.splits)
  have cluster: "clusterFromGenesisHash genesis = devnet"
    unfolding genesis by (simp add: clusterFromGenesisHash_def SOLANA_GENESIS_HASH_def PUBLIC_GENESIS_DEVNET_def)
  let ?r = "verifyReviewedGuardDeployment decodeAddress sha256 (hd REVIEWED_GUARD_DEPLOYMENTS)
             (Some \<lparr>executable = True, pa_owner = wa_owner p, la_data = pb\<rparr>)
             (Some \<lparr>executable = wa_executable d, pa_owner = wa_owner d, la_data = db\<rparr>)"
  have "(\<exists>a. ?r = Inr a \<and> at_upgradeAuthority a = authority \<and> at_identity a = REVIEWED_BINARY) \<or>
        ?r = Inl MALFORMED_PROGRAM_DATA \<and> authority = None"
    using v p d
    by (auto simp: verifyReviewedGuardDeployment_def verifyProgramData_def REVIEWED_GUARD_DEPLOYMENTS_def BPF_LOADER_def
        BPF_LOADER_UPGRADEABLE_ADDRESS_def PROGRAM_DATA_ADDRESS_def REVIEWED_ELF_SHA256_def REVIEWED_ELF_LENGTH_def web_sha256Hex_def
        loader_layout_defs u32At_def decodeProgramDataHeader_def Let_def split: if_splits)
  with cluster rpc p d show ?thesis by blast
qed

section \<open>Witnesses\<close>

lemma base64_encode_chars: "c \<in> set (base64_encode bs) \<Longrightarrow> \<exists>n < 64. c = base64_char n \<and> n \<in> set (base64_sextets bs)"
  using base64_sextets_bound by (auto simp: base64_encode_def)

lemma base64_char_plain: "n < 64 \<Longrightarrow> \<not> atob_space (base64_char n) \<and> base64_char n \<noteq> CHR ''='' \<and> atob_sextet (base64_char n) = Some n"
proof -
  assume n: "n < 64"
  have "(of_char (base64_char n) :: nat) = (if n < 26 then n + 65 else if n < 52 then n + 71 else if n < 62 then n - 4 else if n = 62 then 43 else 47)"
    using n by (simp add: base64_char_def)
  then have "base64_char n \<notin> set [CHR 0x09, CHR 0x0A, CHR 0x0C, CHR 0x0D, CHR '' '', CHR ''='', CHR ''-'', CHR ''_'']"
    using n by (auto split: if_splits)
  then show ?thesis using base64_sextet_char [OF n] by (simp add: atob_space_def atob_sextet_def)
qed

lemma base64_sextets_length: "length (base64_sextets bs) mod 4 \<noteq> 1"
  by (induction bs rule: base64_sextets.induct) simp_all

text \<open>\<open>atob\<close> reads back what an endpoint encoded.\<close>

lemma web_atob_encode: "web_atob (base64_encode bs) = Inr bs"
proof -
  let ?s = "base64_encode bs"
  have plain: "\<not> atob_space c \<and> c \<noteq> CHR ''='' \<and> atob_sextet c \<noteq> None" if "c \<in> set ?s" for c
    using base64_encode_chars [OF that] base64_char_plain by auto
  have "filter (\<lambda>c. \<not> atob_space c) ?s = ?s" using plain by (simp add: filter_id_conv)
  moreover have "atob_unpad ?s = ?s"
  proof -
    have "CHR ''='' \<notin> set (drop n ?s)" for n
      using plain [of "CHR ''=''"] by (auto dest: in_set_dropD)
    then show ?thesis by (auto simp: atob_unpad_def) (metis list.set_intros(1))+
  qed
  moreover have "List.map_filter atob_sextet ?s = base64_sextets bs"
    unfolding base64_encode_def using base64_char_plain base64_sextets_bound by (intro map_filter_Some) blast
  moreover have "length ?s mod 4 \<noteq> 1" using base64_sextets_length [of bs] by (simp add: base64_encode_def)
  moreover have "\<not> list_ex (\<lambda>c. atob_sextet c = None) ?s" using plain by (auto simp: list_ex_iff)
  ultimately show ?thesis by (simp add: web_atob_def base64_bytes_sextets)
qed



definition sample_program_data :: bytes where
  "sample_program_data = le_bytes 4 3 @ replicate (41 + 63840) 0"

definition sample_environment :: accounts_answer where
  "sample_environment =
     Inr (1, [Some \<lparr>wa_owner = BPF_LOADER, wa_data = JArray [JString (base64_encode (le_bytes 4 2 @ replicate 32 9))], wa_executable = True\<rparr>,
              Some \<lparr>wa_owner = BPF_LOADER, wa_data = JArray [JString (base64_encode sample_program_data)], wa_executable = False\<rparr>])"

lemma program_data_reads:
  assumes "8 < n"
  shows "length (le_bytes 4 3 @ replicate n 0) = 4 + n" "le_nat (bytes_at 0 4 (le_bytes 4 3 @ replicate n 0)) = 3"
    "js_index (le_bytes 4 3 @ replicate n 0) 12 = Some (0 :: byte)"
proof -
  show "length (le_bytes 4 3 @ replicate n 0) = 4 + n" by simp
  show "le_nat (bytes_at 0 4 (le_bytes 4 3 @ replicate n 0)) = 3" by (simp add: bytes_at_append_here le_nat_le_bytes)
  show "js_index (le_bytes 4 3 @ replicate n 0) 12 = Some (0 :: byte)" using assms by (simp add: js_index_def nth_append)
qed

definition lower_hex :: "char \<Rightarrow> bool" where
  "lower_hex c = (case hex_value c of None \<Rightarrow> False | Some n \<Rightarrow> n < 16 \<and> hex_digit n = c)"

lemma hexOf_hex_bytes: "even (length s) \<Longrightarrow> list_all lower_hex s \<Longrightarrow> hexOf (hex_bytes s) = s"
proof (induction s rule: hex_bytes.induct)
  case (1 a b rest)
  from 1(3) obtain x y where v: "hex_value a = Some x" "x < 16" "hex_digit x = a" "hex_value b = Some y" "y < 16" "hex_digit y = b"
    by (auto simp: lower_hex_def split: option.splits)
  have "take_bit 8 (16 * x + y) = 16 * x + y" using v by (intro take_bit_nat_eq_self) simp
  then have "unat (of_nat (16 * x + y) :: byte) = 16 * x + y" by (simp only: unsigned_of_nat) simp
  with v 1 show ?case by (simp add: hexOf_Cons)
qed (simp_all add: hexOf_def)

lemma ball_subset: "A \<subseteq> B \<Longrightarrow> \<forall>x \<in> B. P x \<Longrightarrow> \<forall>x \<in> A. P x"
  by blast

lemma lower_hex_reviewed: "list_all lower_hex REVIEWED_ELF_SHA256"
proof -
  have "list_all lower_hex ''0123456789abcdef''" by code_simp
  moreover have "set REVIEWED_ELF_SHA256 \<subseteq> set ''0123456789abcdef''" by (simp add: REVIEWED_ELF_SHA256_def)
  ultimately show ?thesis unfolding list_all_iff by (rule ball_subset [rotated])
qed

lemma sample_environment_verifies:
  "verifyPublicEnvironment (\<lambda>_. PROGRAM_DATA_ADDRESS) (\<lambda>_. hex_bytes REVIEWED_ELF_SHA256) (Some ''guard'') (Inr PUBLIC_GENESIS_DEVNET)
     (\<lambda>_. sample_environment) = Inr None"
proof -
  have hash: "hexOf (hex_bytes REVIEWED_ELF_SHA256) = REVIEWED_ELF_SHA256"
    by (rule hexOf_hex_bytes [OF _ lower_hex_reviewed]) (simp add: REVIEWED_ELF_SHA256_def)
  have p: "length (le_bytes 4 2 @ replicate 32 9 :: bytes) = 36" "le_nat (bytes_at 0 4 (le_bytes 4 2 @ replicate 32 9)) = 2"
    by (simp_all add: bytes_at_append_here le_nat_le_bytes)
  have long: "8 < (41 + 63840 :: nat)" by simp
  have sum: "4 + (41 + 63840) = (45 + 63840 :: nat)" by simp
  have d: "length sample_program_data = 45 + 63840"
    unfolding sample_program_data_def using program_data_reads(1) [OF long] sum by (rule trans)
  have e: "le_nat (bytes_at 0 4 sample_program_data) = 3" "js_index sample_program_data 12 = Some 0"
    unfolding sample_program_data_def by (fact program_data_reads(2) [OF long], fact program_data_reads(3) [OF long])
  have "verifyProgramData (\<lambda>_. PROGRAM_DATA_ADDRESS) (\<lambda>_. hex_bytes REVIEWED_ELF_SHA256) sample_program_data = Inr None"
    using d e hash by (simp add: verifyProgramData_def Let_def REVIEWED_ELF_LENGTH_def web_sha256Hex_def)
  moreover have "assertDevnetCluster PUBLIC_GENESIS_DEVNET = Inr ()" by code_simp
  ultimately show ?thesis
    using p by (simp add: verifyPublicEnvironment_def reviewedProgramId_def sample_environment_def answer_at_def js_index_def accountBytes_def
        web_atob_encode)
qed

theorem environment_is_reviewed_deployment_witness:
  "clusterFromGenesisHash PUBLIC_GENESIS_DEVNET = devnet"
  using environment_is_reviewed_deployment [OF sample_environment_verifies] by blast

end
