(* ===== verification/Devnet_Session.thy ===== *)
theory Devnet_Session
  imports Devnet_Codec
begin

text \<open>
  The live session of the public Devnet demo (\<open>apps/web/lib/devnet-public.ts\<close>): preparing the mint,
  having the wallet sign, checking what the wallet returned, holding it, submitting it and asking for the
  updated authorization. Each operation returns the requests it made of the wallet and the node beside its
  result, in order. The libraries (\<open>@solana/kit\<close>, the token program's client) are a record of functions;
  every answer of the node and the wallet is an argument of its own, since two reads may differ.
\<close>

section \<open>Requests\<close>

datatype web_request = SignRequest string | SignAndSendRequest string | SendRequest string

type_synonym 'a web_run = "web_request list \<times> (web_exn + 'a)"

definition bindW :: "'a web_run \<Rightarrow> ('a \<Rightarrow> 'b web_run) \<Rightarrow> 'b web_run" where
  "bindW m f = (case snd m of Inl e \<Rightarrow> (fst m, Inl e) | Inr x \<Rightarrow> (fst m @ fst (f x), snd (f x)))"

definition pureW :: "web_exn + 'a \<Rightarrow> 'a web_run" where
  "pureW r = ([], r)"

section \<open>The libraries\<close>

record web_transaction =
  wt_messageBytes :: bytes
  wt_signatures :: "(address \<times> bytes option) list"

record web_message =
  wm_legacy :: bool
  wm_staticAccounts :: "address list"
  wm_numSignerAccounts :: nat
  wm_lifetimeToken :: string

record blockhash_answer =
  bh_blockhash :: string
  bh_lastValidBlockHeight :: int

record web_kit =
  wk_encodeAddress :: "address \<Rightarrow> bytes"
  wk_decodeAddress :: "bytes \<Rightarrow> address"
  wk_sha256 :: "bytes \<Rightarrow> bytes"
  wk_base58 :: "bytes \<Rightarrow> string"
  wk_compile :: "address \<Rightarrow> blockhash_answer \<Rightarrow> instruction list \<Rightarrow> web_exn + web_transaction"
  wk_encodeTransaction :: "web_transaction \<Rightarrow> bytes"
  wk_decodeTransaction :: "bytes \<Rightarrow> web_exn + web_transaction"
  wk_decodeMessage :: "bytes \<Rightarrow> web_exn + web_message"
  wk_instructionsOf :: "web_message \<Rightarrow> web_exn + instruction list"
  wk_transferChecked :: "address \<Rightarrow> address \<Rightarrow> address \<Rightarrow> address \<Rightarrow> int \<Rightarrow> nat \<Rightarrow> instruction"

section \<open>The wallet's answer\<close>

definition encodePhantomTransaction :: "web_kit \<Rightarrow> web_transaction \<Rightarrow> string" where
  "encodePhantomTransaction kit transaction = wk_base58 kit (wk_encodeTransaction kit transaction)"

text \<open>
  A value returned by the wallet: bytes in one of the three shapes, an object with its optional
  properties \<open>signedTransaction\<close> and \<open>serialize\<close>, or anything else. A \<open>serialize\<close> is not a function, throws
  or returns a value.
\<close>

datatype wallet_value =
    WBytes bytes
  | WObject "wallet_value option" "wallet_serialize option"
  | WOther
and wallet_serialize = NotCallable | Throws | Returns wallet_value

fun serializedBytes :: "wallet_value \<Rightarrow> bytes option" where
  "serializedBytes (WBytes bs) = Some bs"
| "serializedBytes _ = None"

definition ownedSignedBytes :: "bytes \<Rightarrow> web_exn + bytes" where
  "ownedSignedBytes v = (if length v = 0 then Inl (WebError ''Phantom returned no signed transaction bytes'') else Inr v)"

definition phantomSignedTransaction :: "wallet_value \<Rightarrow> web_exn + bytes" where
  "phantomSignedTransaction response =
     (let candidate = (case response of WObject (Some inner) _ \<Rightarrow> inner | _ \<Rightarrow> response) in
      case serializedBytes candidate of
        Some direct \<Rightarrow> ownedSignedBytes direct
      | None \<Rightarrow>
          (case candidate of
             WObject _ (Some (Returns serialized)) \<Rightarrow>
               (case serializedBytes serialized of
                  Some bs \<Rightarrow> ownedSignedBytes bs
                | None \<Rightarrow> Inl (WebError ''Phantom returned no signed transaction bytes''))
           | _ \<Rightarrow> Inl (WebError ''Phantom returned no signed transaction bytes'')))"

fun sameBytes :: "bytes option \<Rightarrow> bytes option \<Rightarrow> bool" where
  "sameBytes (Some left) (Some right) =
     (length left = length right \<and> list_all (\<lambda>index. js_index left index = js_index right index) [0..<length left])"
| "sameBytes left right = (left = right)"

definition sameInstruction :: "instruction \<Rightarrow> instruction \<Rightarrow> bool" where
  "sameInstruction left right =
     (if programAddress left \<noteq> programAddress right \<or> \<not> sameBytes (ix_data left) (ix_data right) then False
      else length (accounts_of left) = length (accounts_of right) \<and>
        list_all (\<lambda>(index, account). case js_index (accounts_of right) index of
            None \<Rightarrow> False
          | Some other \<Rightarrow> am_address account = am_address other \<and> am_role account = am_role other) (enumerate 0 (accounts_of left)))"

definition COMPUTE_BUDGET_PROGRAM :: address where
  "COMPUTE_BUDGET_PROGRAM = ''ComputeBudget111111111111111111111111111111''"

definition isAllowedComputeBudgetPrefix :: "instruction \<Rightarrow> bool" where
  "isAllowedComputeBudgetPrefix instruction =
     (if programAddress instruction \<noteq> COMPUTE_BUDGET_PROGRAM \<or> length (accounts_of instruction) \<noteq> 0 then False
      else case ix_data instruction of
        None \<Rightarrow> False
      | Some data \<Rightarrow> length data = 5 \<and> js_index data 0 = Some 2 \<or> length data = 9 \<and> js_index data 0 = Some 3)"

definition discriminator :: "instruction \<Rightarrow> byte option" where
  "discriminator instruction = Option.bind (ix_data instruction) (\<lambda>data. js_index data 0)"

text \<open>The last part of \<open>verifyWalletSignedTransaction\<close>, on the decoded instructions.\<close>

definition verify_signed_instructions ::
    "web_kit \<Rightarrow> instruction list \<Rightarrow> instruction list \<Rightarrow> web_transaction \<Rightarrow> web_exn + string \<times> nat" where
  "verify_signed_instructions kit unsignedInstructions signedInstructions signedTransaction =
     (let prefixLength = int (length signedInstructions) - int (length unsignedInstructions) in
      if prefixLength < 0 \<or> prefixLength > 2 then Inl (WebError ''Phantom returned an unexpected signed transaction shape'')
      else
        let n = nat prefixLength; prefix = take n signedInstructions; signedSuffix = drop n signedInstructions in
        if \<not> list_all isAllowedComputeBudgetPrefix prefix \<or> \<not> distinct (map discriminator prefix)
        then Inl (WebError ''Phantom added an unsupported transaction instruction'')
        else if \<not> list_all (\<lambda>(index, instruction). case js_index signedSuffix index of
                None \<Rightarrow> False
              | Some signedInstruction \<Rightarrow> sameInstruction instruction signedInstruction) (enumerate 0 unsignedInstructions)
        then Inl (WebError ''Phantom changed a protected transaction instruction while signing'')
        else case map snd (wt_signatures signedTransaction) of
          Some signatureBytes # _ \<Rightarrow>
            if list_all (\<lambda>byte. byte = 0) signatureBytes then Inl (WebError ''Phantom returned an unsigned transaction'')
            else Inr (wk_base58 kit signatureBytes, n)
        | _ \<Rightarrow> Inl (WebError ''Phantom returned an unsigned transaction''))"

definition verifyWalletSignedTransaction :: "web_kit \<Rightarrow> web_transaction \<Rightarrow> bytes \<Rightarrow> web_exn + string \<times> nat" where
  "verifyWalletSignedTransaction kit unsignedTransaction signedWire =
     bindE (wk_decodeTransaction kit signedWire) (\<lambda>signedTransaction.
     bindE (wk_decodeMessage kit (wt_messageBytes unsignedTransaction)) (\<lambda>unsignedMessage.
     bindE (wk_decodeMessage kit (wt_messageBytes signedTransaction)) (\<lambda>signedMessage.
       if \<not> wm_legacy unsignedMessage \<or> \<not> wm_legacy signedMessage then Inl (WebError ''Phantom returned an unexpected transaction version'')
       else
         let unsignedSigners = take (wm_numSignerAccounts unsignedMessage) (wm_staticAccounts unsignedMessage);
             signedSigners = take (wm_numSignerAccounts signedMessage) (wm_staticAccounts signedMessage) in
         if length unsignedSigners \<noteq> 1 \<or> length signedSigners \<noteq> 1 \<or> js_index signedSigners 0 \<noteq> js_index unsignedSigners 0 \<or>
            wm_lifetimeToken unsignedMessage \<noteq> wm_lifetimeToken signedMessage
         then Inl (WebError ''Phantom changed the transaction signer or lifetime'')
         else
           bindE (wk_instructionsOf kit unsignedMessage) (\<lambda>unsignedInstructions.
           bindE (wk_instructionsOf kit signedMessage) (\<lambda>signedInstructions.
             verify_signed_instructions kit unsignedInstructions signedInstructions signedTransaction)))))"

section \<open>Holding the signed bytes\<close>

record held_authorization =
  ha_signedBytes :: bytes
  ha_sha256 :: string
  ha_lastValidBlockHeight :: int
  ha_signature :: string
  ha_guardInstructionIndex :: nat
  ha_expectation :: assert_safe_execution_request

definition seal :: "web_kit \<Rightarrow> bytes \<Rightarrow> int \<Rightarrow> string \<Rightarrow> nat \<Rightarrow> assert_safe_execution_request \<Rightarrow> held_authorization" where
  "seal kit signedBytes lastValidBlockHeight signature guardInstructionIndex expectation =
     \<lparr>ha_signedBytes = signedBytes, ha_sha256 = web_sha256Hex (wk_sha256 kit) signedBytes, ha_lastValidBlockHeight = lastValidBlockHeight,
      ha_signature = signature, ha_guardInstructionIndex = guardInstructionIndex, ha_expectation = expectation\<rparr>"

definition assertSameSignedBytes :: "web_kit \<Rightarrow> held_authorization \<Rightarrow> bytes \<Rightarrow> web_exn + unit" where
  "assertSameSignedBytes kit held actual =
     (if web_sha256Hex (wk_sha256 kit) actual \<noteq> ha_sha256 held \<or> length actual \<noteq> length (ha_signedBytes held)
      then Inl (WebError ''Signed transaction bytes changed'')
      else throw_if (list_ex (\<lambda>index. js_index actual index \<noteq> js_index (ha_signedBytes held) index) [0..<length actual])
        (WebError ''Signed transaction bytes changed''))"

section \<open>Sending and confirming\<close>

text \<open>\<open>encodeWire\<close>: the bytes as characters, in pieces of \<open>0x8000\<close>, then \<open>btoa\<close>.\<close>

function wire_pieces :: "bytes \<Rightarrow> bytes list" where
  "wire_pieces bs = (if bs = [] then [] else take 32768 bs # wire_pieces (drop 32768 bs))"
  by auto
termination
  by (relation "measure length") auto

declare wire_pieces.simps [simp del]

definition web_btoa :: "bytes \<Rightarrow> string" where
  "web_btoa bs = base64_encode bs @ replicate ((3 - length bs mod 3) mod 3) (CHR ''='')"

definition encodeWire :: "bytes \<Rightarrow> string" where
  "encodeWire bs = web_btoa (concat (wire_pieces bs))"

text \<open>A literal of a pattern with the flag \<open>i\<close>, found in a text.\<close>

definition ascii_lower :: "char \<Rightarrow> char" where
  "ascii_lower c = (let n = of_char c :: nat in if 65 \<le> n \<and> n \<le> 90 then char_of (n + 32) else c)"

definition contains_ignoring_case :: "string \<Rightarrow> string \<Rightarrow> bool" where
  "contains_ignoring_case needle s =
     list_ex (\<lambda>n. take (length needle) (drop n (map ascii_lower s)) = needle) [0..<Suc (length s)]"

definition staleSendFailure :: "string \<Rightarrow> web_exn" where
  "staleSendFailure message =
     (if contains_ignoring_case ''preflight'' message \<or> contains_ignoring_case ''simulation failed'' message
      then DevnetSubmissionError PREFLIGHT_REJECTED None
      else DevnetSubmissionError SUBMISSION_FAILED None)"

text \<open>\<open>err\<close> and \<open>logMessages\<close> of a transaction's \<open>meta\<close>, and the transaction's slot.\<close>

record confirmed_transaction =
  tx_slot :: int
  tx_meta :: "(js_value \<times> string list option) option"

record confirm_answers =
  ca_status :: "nat \<Rightarrow> web_exn + string option"
  ca_transaction :: "web_exn + confirmed_transaction option"

text \<open>The polling loop: at most forty reads, numbered from 0, with \<open>left\<close> of them to go.\<close>

fun await_confirmation :: "(nat \<Rightarrow> web_exn + string option) \<Rightarrow> nat \<Rightarrow> web_exn + unit" where
  "await_confirmation status 0 = Inr ()"
| "await_confirmation status (Suc left) =
     bindE (status (39 - left)) (\<lambda>s.
       if s = Some ''confirmed'' \<or> s = Some ''finalized'' then Inr () else await_confirmation status left)"

definition err_of_meta :: "(js_value \<times> string list option) option \<Rightarrow> js_value" where
  "err_of_meta meta = (case meta of None \<Rightarrow> JNull | Some (err, _) \<Rightarrow> if err = JUndefined then JNull else err)"

definition confirmSignature :: "confirm_answers \<Rightarrow> string \<Rightarrow> nat \<Rightarrow> web_exn + confirmed_chain_outcome" where
  "confirmSignature answers signature guardInstructionIndex =
     bindE (await_confirmation (ca_status answers) 40) (\<lambda>_.
     bindE (ca_transaction answers) (\<lambda>tx.
     case tx of
       None \<Rightarrow> Inl (DevnetSubmissionError CONFIRMATION_FAILED (Some signature))
     | Some t \<Rightarrow>
         Inr \<lparr>oc_signature = signature, oc_slot = tx_slot t, oc_error = err_of_meta (tx_meta t),
              oc_customError = parseCustomError (err_of_meta (tx_meta t)),
              oc_logs = (case tx_meta t of Some (_, Some logs) \<Rightarrow> logs | _ \<Rightarrow> []),
              oc_guardInstructionIndex = int guardInstructionIndex\<rparr>))"

text \<open>The two amounts are the numbers their decimal texts denote.\<close>

definition readBalances :: "web_exn + int \<Rightarrow> web_exn + int \<Rightarrow> web_exn + token_balances" where
  "readBalances sourceAmount destinationAmount =
     bindE sourceAmount (\<lambda>s. bindE destinationAmount (\<lambda>d. Inr \<lparr>tb_source = s, tb_destination = d\<rparr>))"

type_synonym environment_answers = "(web_exn + string) \<times> (address \<Rightarrow> accounts_answer)"

definition environment_of :: "web_kit \<Rightarrow> address option \<Rightarrow> environment_answers \<Rightarrow> web_exn + address option" where
  "environment_of kit boundProgram environment =
     verifyPublicEnvironment (wk_decodeAddress kit) (wk_sha256 kit) boundProgram (fst environment) (snd environment)"

text \<open>The wallet's answer is the text of its \<open>signature\<close> property, if it has one.\<close>

record send_answers =
  sa_environment :: environment_answers
  sa_blockhash :: "web_exn + blockhash_answer"
  sa_height :: "web_exn + int"
  sa_wallet :: "string \<Rightarrow> web_exn + string option"
  sa_confirm :: confirm_answers

definition signAndSend ::
    "web_kit \<Rightarrow> address option \<Rightarrow> send_answers \<Rightarrow> address \<Rightarrow> instruction list \<Rightarrow> web_exn + unit \<Rightarrow> confirmed_chain_outcome web_run" where
  "signAndSend kit boundProgram answers wallet instructions beforeSign =
     bindW (pureW (environment_of kit boundProgram (sa_environment answers))) (\<lambda>_.
     bindW (pureW (sa_blockhash answers)) (\<lambda>blockhash.
     bindW (pureW (wk_compile kit wallet blockhash instructions)) (\<lambda>transaction.
     bindW (pureW (sa_height answers)) (\<lambda>height.
       if height > bh_lastValidBlockHeight blockhash then pureW (Inl StaleAuthorizationExpired)
       else bindW (pureW beforeSign) (\<lambda>_.
         let message = encodePhantomTransaction kit transaction in
         bindW ([SignAndSendRequest message], sa_wallet answers message) (\<lambda>response.
           let signature = (case response of None \<Rightarrow> [] | Some s \<Rightarrow> s) in
           if length signature = 0 then pureW (Inl (WebError ''Phantom returned no transaction signature''))
           else pureW (confirmSignature (sa_confirm answers) signature 0)))))))"

section \<open>Preparing the session\<close>

definition DEMO_MINT_DECIMALS :: nat where "DEMO_MINT_DECIMALS = 6"
definition DEMO_INITIAL_MULTIPLIER :: js_number where "DEMO_INITIAL_MULTIPLIER = JNum 1"
definition DEMO_MINT_AMOUNT :: int where "DEMO_MINT_AMOUNT = 1000000"

text \<open>The builders of the system and token programs' clients; \<open>su_mintSize\<close> is the size of a mint with a scaled-UI extension.\<close>

record setup_kit =
  su_mintSize :: "address \<Rightarrow> js_number \<Rightarrow> int \<Rightarrow> js_number \<Rightarrow> nat"
  su_addressWithSeed :: "address \<Rightarrow> string \<Rightarrow> web_exn + address"
  su_associatedToken :: "address \<Rightarrow> address \<Rightarrow> web_exn + address"
  su_createAccount :: "address \<Rightarrow> address \<Rightarrow> string \<Rightarrow> int \<Rightarrow> nat \<Rightarrow> instruction"
  su_initializeScaledUi :: "address \<Rightarrow> address \<Rightarrow> js_number \<Rightarrow> instruction"
  su_initializeMint :: "address \<Rightarrow> nat \<Rightarrow> address \<Rightarrow> instruction"
  su_updateMultiplier :: "address \<Rightarrow> address \<Rightarrow> js_number \<Rightarrow> int \<Rightarrow> instruction"
  su_createAssociated :: "address \<Rightarrow> address \<Rightarrow> address \<Rightarrow> web_exn + instruction"
  su_mintTo :: "address \<Rightarrow> address \<Rightarrow> address \<Rightarrow> int \<Rightarrow> instruction"

definition demoMintSpace :: "setup_kit \<Rightarrow> address \<Rightarrow> nat" where
  "demoMintSpace setup authority = su_mintSize setup authority DEMO_INITIAL_MULTIPLIER 0 DEMO_INITIAL_MULTIPLIER"

definition prepareSessionInstructions ::
    "setup_kit \<Rightarrow> address \<Rightarrow> address \<Rightarrow> string \<Rightarrow> int \<Rightarrow> address \<Rightarrow> equity_scenario \<Rightarrow> int \<Rightarrow> int \<Rightarrow> web_exn + instruction list" where
  "prepareSessionInstructions setup payer mintAddress seed rentLamports recipient scenario effectiveTimestamp chainUnixTimestamp =
     (if effectiveTimestamp \<le> chainUnixTimestamp then Inl (WebError ''Activation timestamp must be after the chain clock'')
      else if sc_initialMultiplier scenario \<noteq> DEMO_INITIAL_MULTIPLIER then Inl (WebError ''Session mint must start at 1.00'')
      else
        bindE (su_associatedToken setup payer mintAddress) (\<lambda>source.
        bindE (su_createAssociated setup payer payer mintAddress) (\<lambda>createSource.
        bindE (su_createAssociated setup payer recipient mintAddress) (\<lambda>createDestination.
          Inr [su_createAccount setup payer mintAddress seed rentLamports (demoMintSpace setup payer),
               su_initializeScaledUi setup mintAddress payer DEMO_INITIAL_MULTIPLIER,
               su_initializeMint setup mintAddress DEMO_MINT_DECIMALS payer,
               su_updateMultiplier setup mintAddress payer (sc_newMultiplier scenario) effectiveTimestamp,
               createSource,
               su_mintTo setup mintAddress source payer DEMO_MINT_AMOUNT,
               createDestination]))))"

record prepared_session =
  se_scenario :: equity_scenario
  se_activation :: int
  se_mint :: address
  se_sourceAta :: address
  se_destinationAta :: address
  se_setupSignature :: string
  se_balances :: token_balances

record setup_answers =
  up_environment :: environment_answers
  up_clock :: "web_exn + web_account option"
  up_seedBytes :: bytes
  up_recipient :: address
  up_rent :: "nat \<Rightarrow> web_exn + int"
  up_send :: send_answers
  up_mintAccount :: "web_exn + web_account option"
  up_snapshot :: accounts_answer
  up_balances :: "(web_exn + int) \<times> (web_exn + int)"

text \<open>What \<open>prepareLiveSession\<close> requires of the mint it has created, from its first read on.\<close>

definition check_session_mint :: "setup_answers \<Rightarrow> equity_scenario \<Rightarrow> int \<Rightarrow> address \<Rightarrow> web_exn + unit" where
  "check_session_mint answers scenario activation mint =
     bindE (up_mintAccount answers) (\<lambda>mintAccount.
     bindE (require (WebError ''Confirmed demo mint account is missing'') mintAccount) (\<lambda>account.
     bindE (accountBytes (wa_data account)) (\<lambda>mintData.
     bindE (readSessionMint (wa_owner account) mintData) (\<lambda>(state, decoded).
       if decoded \<noteq> DEMO_MINT_DECIMALS then Inl (WebError ''Demo mint decimals did not match'')
       else if newMultiplierEffectiveTimestamp state \<noteq> activation then Inl (WebError ''Demo mint activation timestamp does not match this attempt'')
       else
         bindE (readChainSnapshot (up_snapshot answers) mint) (\<lambda>snapshot.
         bindE (authorizeDecision snapshot scenario activation) (\<lambda>decision.
           throw_if (decision = mismatch) (WebError ''The session mint does not match the selected scenario'')))))))"

definition prepareLiveSession ::
    "web_kit \<Rightarrow> setup_kit \<Rightarrow> address option \<Rightarrow> setup_answers \<Rightarrow> address \<Rightarrow> equity_scenario \<Rightarrow> prepared_session web_run" where
  "prepareLiveSession kit setup boundProgram answers wallet scenario =
     bindW (pureW (environment_of kit boundProgram (up_environment answers))) (\<lambda>_.
     bindW (pureW (readChainClock (up_clock answers))) (\<lambda>clock.
     bindW (pureW (activationTimestamp clock ACTIVATION_DELAY_SECONDS)) (\<lambda>activation.
     let seed = ''eg-'' @ hexOf (up_seedBytes answers) in
     bindW (pureW (su_addressWithSeed setup wallet seed)) (\<lambda>mint.
     bindW (pureW (up_rent answers (demoMintSpace setup wallet))) (\<lambda>rent.
     bindW (pureW (su_associatedToken setup wallet mint)) (\<lambda>sourceAta.
     bindW (pureW (su_associatedToken setup (up_recipient answers) mint)) (\<lambda>destinationAta.
     bindW (pureW (prepareSessionInstructions setup wallet mint seed rent (up_recipient answers) scenario activation clock)) (\<lambda>instructions.
     bindW (signAndSend kit boundProgram (up_send answers) wallet instructions (Inr ())) (\<lambda>outcome.
       if oc_error outcome \<noteq> JNull then pureW (Inl (WebError ''The session mint transaction failed on Devnet''))
       else bindW (pureW (check_session_mint answers scenario activation mint)) (\<lambda>_.
         bindW (pureW (readBalances (fst (up_balances answers)) (snd (up_balances answers)))) (\<lambda>balances.
           pureW (Inr \<lparr>se_scenario = scenario, se_activation = activation, se_mint = mint, se_sourceAta = sourceAta,
                       se_destinationAta = destinationAta, se_setupSignature = oc_signature outcome, se_balances = balances\<rparr>))))))))))))"

section \<open>Authorizing and submitting\<close>

definition session_transfer :: "web_kit \<Rightarrow> address \<Rightarrow> prepared_session \<Rightarrow> instruction" where
  "session_transfer kit wallet session =
     wk_transferChecked kit (se_sourceAta session) (se_mint session) (se_destinationAta session) wallet DEMO_TRANSFER_RAW DEMO_MINT_DECIMALS"

definition session_build ::
    "web_kit \<Rightarrow> address option \<Rightarrow> address \<Rightarrow> prepared_session \<Rightarrow> guard_snapshot \<Rightarrow> web_exn + instruction list \<times> instruction" where
  "session_build kit boundProgram wallet session snapshot =
     buildPublicGuardedTransfer (wk_encodeAddress kit) (wk_sha256 kit) boundProgram wallet (se_mint session)
       (expectationForSnapshot snapshot) (session_transfer kit wallet session)"

text \<open>The three reads of the mint are separate answers; the wallet answers the message it was asked to sign.\<close>

record pending_answers =
  pa_environment :: environment_answers
  pa_first :: accounts_answer
  pa_blockhash :: "web_exn + blockhash_answer"
  pa_height :: "web_exn + int"
  pa_again :: accounts_answer
  pa_wallet :: "string \<Rightarrow> web_exn + wallet_value"
  pa_afterSign :: accounts_answer

definition authorizePending ::
    "web_kit \<Rightarrow> address option \<Rightarrow> pending_answers \<Rightarrow> address \<Rightarrow> prepared_session \<Rightarrow> held_authorization web_run" where
  "authorizePending kit boundProgram answers wallet session =
     bindW (pureW (environment_of kit boundProgram (pa_environment answers))) (\<lambda>_.
     bindW (pureW (readChainSnapshot (pa_first answers) (se_mint session))) (\<lambda>snapshot.
     bindW (pureW (authorizeDecision snapshot (se_scenario session) (se_activation session))) (\<lambda>decision.
       if decision \<noteq> sign then pureW (Inl AuthorizationWindowMissed)
       else
         bindW (pureW (pa_blockhash answers)) (\<lambda>blockhash.
         bindW (pureW (session_build kit boundProgram wallet session snapshot)) (\<lambda>(instructions, _).
         bindW (pureW (wk_compile kit wallet blockhash instructions)) (\<lambda>transaction.
         bindW (pureW (pa_height answers)) (\<lambda>height.
           if height > bh_lastValidBlockHeight blockhash then pureW (Inl AuthorizationWindowMissed)
           else
             bindW (pureW (readChainSnapshot (pa_again answers) (se_mint session))) (\<lambda>again.
             bindW (pureW (authorizeDecision again (se_scenario session) (se_activation session))) (\<lambda>decision.
               if decision \<noteq> sign then pureW (Inl AuthorizationWindowMissed)
               else
                 let message = encodePhantomTransaction kit transaction in
                 bindW ([SignRequest message], pa_wallet answers message) (\<lambda>response.
                 bindW (pureW (phantomSignedTransaction response)) (\<lambda>signedWire.
                 bindW (pureW (readChainSnapshot (pa_afterSign answers) (se_mint session))) (\<lambda>afterSign.
                 bindW (pureW (pendingReturnDecision afterSign (se_scenario session) (se_activation session))) (\<lambda>returned.
                   if returned \<noteq> hold
                   then pureW (Inl (AuthorizationWindowElapsed (unixTimestamp (gs_clock afterSign)) (se_activation session)))
                   else
                     bindW (pureW (verifyWalletSignedTransaction kit transaction signedWire)) (\<lambda>(signature, index).
                       pureW (Inr (seal kit signedWire (bh_lastValidBlockHeight blockhash) signature index
                         (expectationForSnapshot snapshot)))))))))))))))))"

text \<open>The node's answer to \<open>sendTransaction\<close> is a signature or an error with its message.\<close>

record submit_answers =
  sb_environment :: environment_answers
  sb_height :: "web_exn + int"
  sb_send :: "string \<Rightarrow> string + string"
  sb_confirm :: confirm_answers

definition send_failure :: "string \<Rightarrow> web_exn" where
  "send_failure message =
     (if contains_ignoring_case ''blockhash not found'' message \<or> contains_ignoring_case ''block height exceeded'' message
      then StaleAuthorizationExpired else staleSendFailure message)"

definition submitHeld :: "web_kit \<Rightarrow> address option \<Rightarrow> submit_answers \<Rightarrow> held_authorization \<Rightarrow> confirmed_chain_outcome web_run" where
  "submitHeld kit boundProgram answers held =
     bindW (pureW (environment_of kit boundProgram (sb_environment answers))) (\<lambda>_.
     bindW (pureW (sb_height answers)) (\<lambda>height.
       if height > ha_lastValidBlockHeight held then pureW (Inl StaleAuthorizationExpired)
       else
         let bs = ha_signedBytes held in
         bindW (pureW (assertSameSignedBytes kit held bs)) (\<lambda>_.
           let wire = encodeWire bs in
           bindW ([SendRequest wire], case sb_send answers wire of Inl message \<Rightarrow> Inl (send_failure message) | Inr s \<Rightarrow> Inr s) (\<lambda>submitted.
             if submitted \<noteq> ha_signature held then pureW (Inl (WebError ''Devnet RPC returned a different transaction signature''))
             else pureW (confirmSignature (sb_confirm answers) (ha_signature held) (ha_guardInstructionIndex held))))))"

text \<open>\<open>authorizeUpdated\<close>: its first read, what it sends, and the read just before the wallet is asked.\<close>

definition updated_before_sign :: "accounts_answer \<Rightarrow> prepared_session \<Rightarrow> web_exn + unit" where
  "updated_before_sign latestAnswer session =
     bindE (readChainSnapshot latestAnswer (se_mint session)) (\<lambda>latest.
     bindE (activatedReviewDecision latest (se_scenario session) (se_activation session)) (\<lambda>decision.
       throw_if (decision \<noteq> ready_activated)
         (WebError ''Chain state changed before the updated authorization. No signature was requested.'')))"

definition authorizeUpdated ::
    "web_kit \<Rightarrow> address option \<Rightarrow> accounts_answer \<Rightarrow> accounts_answer \<Rightarrow> send_answers \<Rightarrow> address \<Rightarrow> prepared_session \<Rightarrow>
       confirmed_chain_outcome web_run" where
  "authorizeUpdated kit boundProgram firstAnswer latestAnswer answers wallet session =
     bindW (pureW (readChainSnapshot firstAnswer (se_mint session))) (\<lambda>snapshot.
     bindW (pureW (activatedReviewDecision snapshot (se_scenario session) (se_activation session))) (\<lambda>decision.
       if decision \<noteq> ready_activated
       then pureW (Inl (WebError ''Updated authorization is not ready at this chain clock. No signature was requested.''))
       else
         bindW (pureW (session_build kit boundProgram wallet session snapshot)) (\<lambda>(instructions, _).
           signAndSend kit boundProgram answers wallet instructions (updated_before_sign latestAnswer session))))"

section \<open>Facts: requests and results\<close>

lemma bindW_simps [simp]:
  "bindW (r, Inl e) f = (r, Inl e)" "bindW (r, Inr x) f = (r @ fst (f x), snd (f x))"
  by (simp_all add: bindW_def)

lemma bindW_pureW_Inl [simp]: "bindW (pureW (Inl e)) f = pureW (Inl e)"
  by (simp add: pureW_def)

lemma bindW_pureW_Inr [simp]: "bindW (pureW (Inr x)) f = f x"
  by (simp add: pureW_def)

lemma pureW_results [simp]: "fst (pureW r) = []" "snd (pureW r) = r"
  by (simp_all add: pureW_def)

lemma bindW_pureW: "bindW (pureW m) f = (case m of Inl e \<Rightarrow> pureW (Inl e) | Inr x \<Rightarrow> f x)"
  by (cases m) simp_all

lemma snd_bindW_Inr: "snd (bindW m f) = Inr y \<longleftrightarrow> (\<exists>x. snd m = Inr x \<and> snd (f x) = Inr y)"
  by (auto simp: bindW_def split: sum.splits)

lemma sameBytes_iff [simp]: "sameBytes a b \<longleftrightarrow> a = b"
proof (cases a; cases b)
  fix x y assume "a = Some x" and "b = Some y"
  then show ?thesis by (auto simp: list_all_iff js_index_def intro: nth_equalityI)
qed auto

lemma indexed_all_iff:
  "length xs = length ys \<Longrightarrow>
     list_all (\<lambda>(i, x). case js_index ys i of None \<Rightarrow> False | Some y \<Rightarrow> P x y) (enumerate 0 xs) \<longleftrightarrow> list_all2 P xs ys"
  by (auto simp: list_all_length list_all2_conv_all_nth js_index_def nth_enumerate_eq)

lemma list_all2_eq_iff: "list_all2 (\<lambda>x y. x = y) xs ys \<longleftrightarrow> xs = ys"
  by (simp add: list.rel_eq)

text \<open>Instructions are the same if they agree once an absent account list is read as an empty one.\<close>

lemma sameInstruction_iff:
  "sameInstruction a b \<longleftrightarrow> programAddress a = programAddress b \<and> ix_data a = ix_data b \<and> accounts_of a = accounts_of b"
proof -
  have "am_address x = am_address y \<and> am_role x = am_role y \<longleftrightarrow> x = y" for x y :: account_meta
    by (cases x; cases y) simp
  then show ?thesis
    by (auto simp: sameInstruction_def indexed_all_iff list_all2_eq_iff)
qed

lemma fst_bindW_nonempty: "fst (bindW m f) \<noteq> [] \<longleftrightarrow> fst m \<noteq> [] \<or> (\<exists>x. snd m = Inr x \<and> fst (f x) \<noteq> [])"
  by (auto simp: bindW_def split: sum.splits)

lemma set_fst_bindW: "r \<in> set (fst (bindW m f)) \<longleftrightarrow> r \<in> set (fst m) \<or> (\<exists>x. snd m = Inr x \<and> r \<in> set (fst (f x)))"
  by (auto simp: bindW_def split: sum.splits)

lemmas run_simps = snd_bindW_Inr set_fst_bindW Let_def

section \<open>Facts: what the wallet returned\<close>

lemma verify_signed_instructions_Inr:
  assumes "verify_signed_instructions kit us ss tx = Inr (signature, n)"
  shows "\<exists>prefix suffix. ss = prefix @ suffix \<and> length prefix = n \<and> n \<le> 2 \<and> list_all isAllowedComputeBudgetPrefix prefix \<and>
    distinct (map discriminator prefix) \<and> list_all2 sameInstruction us suffix \<and>
    (\<exists>bs. map snd (wt_signatures tx) \<noteq> [] \<and> hd (map snd (wt_signatures tx)) = Some bs \<and> (\<exists>b \<in> set bs. b \<noteq> 0) \<and> signature = wk_base58 kit bs)"
proof -
  let ?n = "length ss - length us"
  have n: "length us \<le> length ss" "?n \<le> 2" "n = ?n"
    and p: "list_all isAllowedComputeBudgetPrefix (take ?n ss)" "distinct (map discriminator (take ?n ss))"
    and s: "list_all (\<lambda>(index, instruction). case js_index (drop ?n ss) index of
                None \<Rightarrow> False
              | Some signedInstruction \<Rightarrow> sameInstruction instruction signedInstruction) (enumerate 0 us)"
    and g: "\<exists>bs rest. map snd (wt_signatures tx) = Some bs # rest \<and> \<not> list_all (\<lambda>byte. byte = 0) bs \<and> signature = wk_base58 kit bs"
    using assms by (auto simp: verify_signed_instructions_def Let_def nat_diff_distrib split: if_splits list.splits option.splits)
  have "list_all2 sameInstruction us (drop ?n ss)" using s n by (simp add: indexed_all_iff)
  moreover from g have "\<exists>bs. map snd (wt_signatures tx) \<noteq> [] \<and> hd (map snd (wt_signatures tx)) = Some bs \<and> (\<exists>b \<in> set bs. b \<noteq> 0) \<and>
      signature = wk_base58 kit bs" by (auto simp: list_all_iff)
  ultimately show ?thesis using n p by (intro exI [of _ "take ?n ss"] exI [of _ "drop ?n ss"]) simp
qed

text \<open>The whole check of the wallet's bytes.\<close>

definition wallet_kept :: "web_kit \<Rightarrow> web_transaction \<Rightarrow> bytes \<Rightarrow> nat \<Rightarrow> bool" where
  "wallet_kept kit transaction signedWire n =
     (case wk_decodeTransaction kit signedWire of
        Inl _ \<Rightarrow> False
      | Inr st \<Rightarrow>
          (case (wk_decodeMessage kit (wt_messageBytes transaction), wk_decodeMessage kit (wt_messageBytes st)) of
             (Inr unsignedMessage, Inr signedMessage) \<Rightarrow>
               wm_lifetimeToken signedMessage = wm_lifetimeToken unsignedMessage \<and>
               take (wm_numSignerAccounts signedMessage) (wm_staticAccounts signedMessage) =
                 take (wm_numSignerAccounts unsignedMessage) (wm_staticAccounts unsignedMessage) \<and>
               length (take (wm_numSignerAccounts signedMessage) (wm_staticAccounts signedMessage)) = 1 \<and>
               (case (wk_instructionsOf kit unsignedMessage, wk_instructionsOf kit signedMessage) of
                  (Inr us, Inr ss) \<Rightarrow>
                    n \<le> 2 \<and> n + length us = length ss \<and> list_all isAllowedComputeBudgetPrefix (take n ss) \<and>
                    distinct (map discriminator (take n ss)) \<and> list_all2 sameInstruction us (drop n ss)
                | _ \<Rightarrow> False)
           | _ \<Rightarrow> False))"

lemma take_one_eq:
  "length xs = 1 \<Longrightarrow> length ys = 1 \<Longrightarrow> js_index xs 0 = js_index ys 0 \<Longrightarrow> xs = ys"
  by (cases xs; cases ys) (auto simp: js_index_def)

lemma verifyWalletSignedTransaction_kept:
  assumes "verifyWalletSignedTransaction kit transaction signedWire = Inr (signature, n)"
  shows "wallet_kept kit transaction signedWire n"
proof -
  obtain st um sm us ss where d: "wk_decodeTransaction kit signedWire = Inr st"
      "wk_decodeMessage kit (wt_messageBytes transaction) = Inr um" "wk_decodeMessage kit (wt_messageBytes st) = Inr sm"
      "wk_instructionsOf kit um = Inr us" "wk_instructionsOf kit sm = Inr ss"
    and l: "length (take (wm_numSignerAccounts um) (wm_staticAccounts um)) = 1"
      "length (take (wm_numSignerAccounts sm) (wm_staticAccounts sm)) = 1"
      "js_index (take (wm_numSignerAccounts sm) (wm_staticAccounts sm)) 0 = js_index (take (wm_numSignerAccounts um) (wm_staticAccounts um)) 0"
      "wm_lifetimeToken um = wm_lifetimeToken sm"
    and v: "verify_signed_instructions kit us ss st = Inr (signature, n)"
    using assms
    by (auto simp only: verifyWalletSignedTransaction_def Let_def err_simps de_Morgan_disj not_not sum.distinct sum.inject split: if_splits) metis
  from verify_signed_instructions_Inr [OF v] obtain prefix suffix where "ss = prefix @ suffix" "length prefix = n" "n \<le> 2"
      "list_all isAllowedComputeBudgetPrefix prefix" "distinct (map discriminator prefix)" "list_all2 sameInstruction us suffix"
    by blast
  then show ?thesis
    using d l take_one_eq [OF l(2,1,3)] by (auto simp: wallet_kept_def dest: list_all2_lengthD)
qed

section \<open>Facts: runs\<close>

lemma environment_Inr: "environment_of kit boundProgram environment = Inr a \<Longrightarrow> \<exists>p. boundProgram = Some p \<and> fst environment = Inr PUBLIC_GENESIS_DEVNET"
  by (auto simp: environment_of_def verifyPublicEnvironment_def assertDevnetCluster_def reviewedProgramId_def err_simps split: if_splits)

text \<open>What the demo has checked before it asks the wallet to sign.\<close>

definition may_request ::
    "web_kit \<Rightarrow> address option \<Rightarrow> environment_answers \<Rightarrow> (guard_snapshot \<Rightarrow> bool) \<Rightarrow> accounts_answer \<Rightarrow> accounts_answer \<Rightarrow> prepared_session \<Rightarrow> bool" where
  "may_request kit boundProgram environment ok firstAnswer secondAnswer session \<longleftrightarrow>
     (\<exists>authority. environment_of kit boundProgram environment = Inr authority) \<and>
     (\<exists>s. readChainSnapshot firstAnswer (se_mint session) = Inr s \<and> ok s) \<and>
     (\<exists>s. readChainSnapshot secondAnswer (se_mint session) = Inr s \<and> ok s)"

lemma pureW_bound: "(\<And>x. length (fst (f x)) \<le> n) \<Longrightarrow> length (fst (bindW (pureW m) f)) \<le> n"
  by (cases m) simp_all

lemma signAndSend_requests:
  assumes "r \<in> set (fst (signAndSend kit boundProgram answers wallet instructions beforeSign))"
  shows "(\<exists>a. environment_of kit boundProgram (sa_environment answers) = Inr a) \<and> beforeSign = Inr () \<and>
    (\<exists>bh tx height. sa_blockhash answers = Inr bh \<and> wk_compile kit wallet bh instructions = Inr tx \<and> sa_height answers = Inr height \<and>
       height \<le> bh_lastValidBlockHeight bh \<and> r = SignAndSendRequest (encodePhantomTransaction kit tx))"
  using assms by (auto simp: signAndSend_def run_simps not_less split: if_splits)

lemma signAndSend_once: "length (fst (signAndSend kit boundProgram answers wallet instructions beforeSign)) \<le> 1"
  unfolding signAndSend_def
  by (intro pureW_bound) (auto simp: Let_def bindW_def split: sum.splits intro!: pureW_bound)

section \<open>Properties of the session\<close>

lemma session_build_Inr:
  "session_build kit boundProgram wallet session s = Inr (ixs, guard) \<Longrightarrow> ixs = [guard, session_transfer kit wallet session]"
  by (auto simp: session_build_def buildPublicGuardedTransfer_def err_simps split: if_splits)

lemma run_eqs:
  "bindW (pureW m) f = (q, Inr y) \<longleftrightarrow> (\<exists>x. m = Inr x \<and> f x = (q, Inr y))"
  "bindW ([r], m) f = (q, Inr y) \<longleftrightarrow> (\<exists>x q'. m = Inr x \<and> f x = (q', Inr y) \<and> q = r # q')"
  "pureW m' = (q, Inr y) \<longleftrightarrow> q = [] \<and> m' = Inr y"
  by (cases m; auto simp: pureW_def bindW_def prod_eq_iff)+

text \<open>A run that ends with an authorization took every read and passed every test.\<close>

lemma authorizePending_Inr:
  assumes "authorizePending kit boundProgram answers wallet session = (requests, Inr held)"
  shows "\<exists>s s' s'' bh guard tx response.
    readChainSnapshot (pa_first answers) (se_mint session) = Inr s \<and> readChainSnapshot (pa_again answers) (se_mint session) = Inr s' \<and>
    readChainSnapshot (pa_afterSign answers) (se_mint session) = Inr s'' \<and>
    authorizeDecision s (se_scenario session) (se_activation session) = Inr sign \<and>
    authorizeDecision s' (se_scenario session) (se_activation session) = Inr sign \<and>
    pendingReturnDecision s'' (se_scenario session) (se_activation session) = Inr hold \<and>
    pa_blockhash answers = Inr bh \<and>
    session_build kit boundProgram wallet session s = Inr ([guard, session_transfer kit wallet session], guard) \<and>
    wk_compile kit wallet bh [guard, session_transfer kit wallet session] = Inr tx \<and>
    pa_wallet answers (encodePhantomTransaction kit tx) = Inr response \<and>
    requests = [SignRequest (encodePhantomTransaction kit tx)] \<and>
    phantomSignedTransaction response = Inr (ha_signedBytes held) \<and>
    ha_lastValidBlockHeight held = bh_lastValidBlockHeight bh \<and> ha_sha256 held = web_sha256Hex (wk_sha256 kit) (ha_signedBytes held) \<and>
    ha_expectation held = expectationForSnapshot s \<and>
    verifyWalletSignedTransaction kit tx (ha_signedBytes held) = Inr (ha_signature held, ha_guardInstructionIndex held)"
proof -
  have "\<exists>s s' s'' bh ixs guard tx response wire sig n.
    readChainSnapshot (pa_first answers) (se_mint session) = Inr s \<and> readChainSnapshot (pa_again answers) (se_mint session) = Inr s' \<and>
    readChainSnapshot (pa_afterSign answers) (se_mint session) = Inr s'' \<and>
    authorizeDecision s (se_scenario session) (se_activation session) = Inr sign \<and>
    authorizeDecision s' (se_scenario session) (se_activation session) = Inr sign \<and>
    pendingReturnDecision s'' (se_scenario session) (se_activation session) = Inr hold \<and>
    pa_blockhash answers = Inr bh \<and> session_build kit boundProgram wallet session s = Inr (ixs, guard) \<and>
    wk_compile kit wallet bh ixs = Inr tx \<and> pa_wallet answers (encodePhantomTransaction kit tx) = Inr response \<and>
    requests = [SignRequest (encodePhantomTransaction kit tx)] \<and> phantomSignedTransaction response = Inr wire \<and>
    held = seal kit wire (bh_lastValidBlockHeight bh) sig n (expectationForSnapshot s) \<and>
    verifyWalletSignedTransaction kit tx wire = Inr (sig, n)"
    using assms unfolding authorizePending_def Let_def
    by (auto simp: run_eqs split: if_splits)
  then show ?thesis using session_build_Inr by (fastforce simp: seal_def)
qed

text \<open>A library that keeps what it compiles: the decoded message has the same instructions up to the merged account roles.\<close>

definition content :: "instruction \<Rightarrow> address \<times> bytes option \<times> address list" where
  "content ix = (programAddress ix, ix_data ix, map am_address (accounts_of ix))"

definition keeps_instructions :: "web_kit \<Rightarrow> bool" where
  "keeps_instructions kit \<longleftrightarrow>
     (\<forall>payer bh ixs tx msg us. wk_compile kit payer bh ixs = Inr tx \<longrightarrow> wk_decodeMessage kit (wt_messageBytes tx) = Inr msg \<longrightarrow>
        wk_instructionsOf kit msg = Inr us \<longrightarrow> map content us = map content ixs)"

lemma sameInstruction_content: "sameInstruction a b \<Longrightarrow> content b = content a"
  by (simp add: sameInstruction_iff content_def)

lemma same_contents: "list_all2 sameInstruction us vs \<Longrightarrow> map content vs = map content us"
  by (induction rule: list_all2_induct) (simp_all add: sameInstruction_content)

text \<open>
  What a wire transaction carries: at most one compute-unit limit and one compute-unit price, \<open>n\<close> instructions in
  all, and then the given instructions.
\<close>

definition carries :: "web_kit \<Rightarrow> bytes \<Rightarrow> nat \<Rightarrow> instruction list \<Rightarrow> bool" where
  "carries kit wire n ixs =
     (case bindE (wk_decodeTransaction kit wire) (\<lambda>t. bindE (wk_decodeMessage kit (wt_messageBytes t)) (wk_instructionsOf kit)) of
        Inl _ \<Rightarrow> False
      | Inr ss \<Rightarrow>
          n \<le> 2 \<and> list_all isAllowedComputeBudgetPrefix (take n ss) \<and> distinct (map discriminator (take n ss)) \<and>
          map content (drop n ss) = map content ixs)"

lemma wallet_kept_carries:
  assumes "wallet_kept kit tx wire n" and "keeps_instructions kit" and "wk_compile kit payer bh ixs = Inr tx"
  shows "carries kit wire n ixs"
proof -
  obtain st um sm us ss where d: "wk_decodeTransaction kit wire = Inr st" "wk_decodeMessage kit (wt_messageBytes tx) = Inr um"
      "wk_decodeMessage kit (wt_messageBytes st) = Inr sm" "wk_instructionsOf kit um = Inr us" "wk_instructionsOf kit sm = Inr ss"
    and p: "n \<le> 2" "list_all isAllowedComputeBudgetPrefix (take n ss)" "distinct (map discriminator (take n ss))"
      "list_all2 sameInstruction us (drop n ss)"
    using assms(1) by (auto simp: wallet_kept_def split: sum.splits)
  have "map content us = map content ixs" using assms(2,3) d(2,4) unfolding keeps_instructions_def by blast
  with d p same_contents [OF p(4)] show ?thesis by (simp add: carries_def)
qed


text \<open>
  C28. When the demo holds an authorization: the state of the mint was the same at its three reads, eight seconds were
  left before the activation at the two reads before the wallet was asked, the clock was still before it at
  the read after, and the program's verdict on the held request is known for every chain time: accepted before
  the activation, refused as inside the transition window at it and as a changed phase after it.
\<close>

theorem held_authorization_window:
  assumes "authorizePending kit boundProgram answers wallet session = (requests, Inr held)" and "I64_MIN \<le> se_activation session"
    and "se_activation session \<le> I64_MAX"
  defines "T \<equiv> se_activation session"
  shows "\<exists>s s' s''. readChainSnapshot (pa_first answers) (se_mint session) = Inr s \<and>
    readChainSnapshot (pa_again answers) (se_mint session) = Inr s' \<and> readChainSnapshot (pa_afterSign answers) (se_mint session) = Inr s'' \<and>
    gs_state s' = gs_state s \<and> gs_state s'' = gs_state s \<and> newMultiplierEffectiveTimestamp (gs_state s) = T \<and>
    unixTimestamp (gs_clock s) + 8 \<le> T \<and> unixTimestamp (gs_clock s') + 8 \<le> T \<and> unixTimestamp (gs_clock s'') < T \<and>
    (\<forall>now \<in> {I64_MIN .. I64_MAX}. guard_check (rs_execution_of (ha_expectation held)) (rs_state_of (gs_state s'')) (word_of_int now) =
       (if now < T then Inr () else if now = T then Inl InsideTransitionWindow else Inl ActivationPhaseChanged))"
proof -
  from authorizePending_Inr [OF assms(1)] obtain s s' s'' where
    r: "readChainSnapshot (pa_first answers) (se_mint session) = Inr s" "readChainSnapshot (pa_again answers) (se_mint session) = Inr s'"
      "readChainSnapshot (pa_afterSign answers) (se_mint session) = Inr s''"
    and d: "authorizeDecision s (se_scenario session) T = Inr sign" "authorizeDecision s' (se_scenario session) T = Inr sign"
      "pendingReturnDecision s'' (se_scenario session) T = Inr hold"
    and e: "ha_expectation held = expectationForSnapshot s"
    unfolding T_def by blast
  note f = sign_facts [OF d(1)] and f' = sign_facts [OF d(2)]
  have h: "scheduledBytesMatch s'' (se_scenario session) T = Inr True" "unixTimestamp (gs_clock s'') < T"
    using d(3) by (auto simp: pendingReturnDecision_def err_simps split: if_splits)
  have same: "gs_state s' = gs_state s" "gs_state s'' = gs_state s"
    by (rule matching_state [OF f'(1) f(1)], rule matching_state [OF h(1) f(1)])
  note m = scheduledBytesMatch_True [OF f(1)]
  have "guard_check (rs_execution_of (ha_expectation held)) (rs_state_of (gs_state s'')) (word_of_int now) =
       (if now < T then Inr () else if now = T then Inl InsideTransitionWindow else Inl ActivationPhaseChanged)"
    if "now \<in> {I64_MIN .. I64_MAX}" for now
    using that crossing_verdict [OF m(2,1), of now 0] assms(2,3) f(3) same
    by (simp add: e expectation_of_matching T_def)
  then show ?thesis using r same m(1) f(2) f'(2) h(2) by blast
qed

section \<open>Facts: the wire text\<close>

lemma concat_wire_pieces [simp]: "concat (wire_pieces bs) = bs"
  by (induction bs rule: wire_pieces.induct) (subst wire_pieces.simps, simp)

lemma base64_sextets_padded: "(length (base64_sextets bs) + (3 - length bs mod 3) mod 3) mod 4 = 0"
proof (induction bs rule: base64_sextets.induct)
  case (1 a b c rest)
  have "Suc (Suc (Suc n)) mod 3 = n mod 3" for n :: nat by presburger
  then have "(3 - length (a # b # c # rest) mod 3) mod 3 = (3 - length rest mod 3) mod 3" by (simp only: list.size add_Suc_right add_0_right)
  moreover have "length (base64_sextets (a # b # c # rest)) = length (base64_sextets rest) + 4" by simp
  moreover have "(n + 4) mod 4 = n mod 4" "(n + 4 + k) mod 4 = (n + k) mod 4" for n k :: nat by presburger+
  ultimately show ?case using 1 by (simp only:)
qed simp_all

lemma atob_unpad_plain: "CHR ''='' \<notin> set s \<Longrightarrow> atob_unpad s = s"
  by (auto simp: atob_unpad_def) (metis in_set_dropD list.set_intros(1))+

lemma atob_unpad_padded:
  assumes plain: "CHR ''='' \<notin> set s" and four: "(length s + k) mod 4 = 0" and k: "k \<le> 2"
  shows "atob_unpad (s @ replicate k (CHR ''='')) = s"
proof -
  let ?p = "s @ replicate k (CHR ''='')"
  have four': "length ?p mod 4 = 0" using four by simp
  have no: "drop n s \<noteq> ''=''" "drop n s \<noteq> ''==''" for n
    using plain by (metis in_set_dropD list.set_intros(1))+
  consider "k = 0" | "k = 1" | "k = 2" using k by linarith
  then show ?thesis
  proof cases
    case 1
    then show ?thesis using no by (simp add: atob_unpad_def)
  next
    case 2
    have "drop (length s - 1) s @ ''='' \<noteq> ''==''"
      using plain by (metis append_is_Nil_conv butlast.simps(2) butlast_snoc in_set_dropD list.distinct(1) list.set_intros(1))
    with 2 four' show ?thesis by (cases s rule: rev_cases) (auto simp: atob_unpad_def)
  next
    case 3
    with four' show ?thesis by (simp add: atob_unpad_def numeral_2_eq_2)
  qed
qed

text \<open>The text sent to the node is read back as the bytes it was made of.\<close>

lemma wire_text_roundtrip: "web_atob (encodeWire bs) = Inr bs"
proof -
  let ?s = "base64_encode bs" and ?k = "(3 - length bs mod 3) mod 3"
  have plain: "\<not> atob_space c \<and> c \<noteq> CHR ''='' \<and> atob_sextet c \<noteq> None" if "c \<in> set ?s" for c
    using base64_encode_chars [OF that] base64_char_plain by auto
  have "filter (\<lambda>c. \<not> atob_space c) (?s @ replicate ?k (CHR ''='')) = ?s @ replicate ?k (CHR ''='')"
    using plain by (auto simp: filter_id_conv atob_space_def)
  moreover have "atob_unpad (?s @ replicate ?k (CHR ''='')) = ?s"
    by (rule atob_unpad_padded) (use plain base64_sextets_padded [of bs] in \<open>auto simp: base64_encode_def\<close>)
  moreover have "filter (\<lambda>c. \<not> atob_space c) ?s = ?s" "atob_unpad ?s = ?s"
    using plain by (auto simp: filter_id_conv intro: atob_unpad_plain)
  ultimately have "web_atob (encodeWire bs) = web_atob ?s"
    by (simp only: web_atob_def encodeWire_def web_btoa_def concat_wire_pieces)
  then show ?thesis by (simp only: web_atob_encode)
qed

lemma await_bound: "length (fst (bindW ([r], m) f)) \<le> Suc n" if "\<And>x. length (fst (f x)) \<le> n"
  using that by (cases m) simp_all

text \<open>Only the last steps of an operation make a request.\<close>

lemma authorizePending_request:
  assumes "r \<in> set (fst (authorizePending kit boundProgram answers wallet session))"
  shows "\<exists>s s' bh ixs guard tx height.
    readChainSnapshot (pa_first answers) (se_mint session) = Inr s \<and> readChainSnapshot (pa_again answers) (se_mint session) = Inr s' \<and>
    authorizeDecision s (se_scenario session) (se_activation session) = Inr sign \<and>
    authorizeDecision s' (se_scenario session) (se_activation session) = Inr sign \<and>
    (\<exists>a. environment_of kit boundProgram (pa_environment answers) = Inr a) \<and> pa_blockhash answers = Inr bh \<and> pa_height answers = Inr height \<and>
    height \<le> bh_lastValidBlockHeight bh \<and> session_build kit boundProgram wallet session s = Inr (ixs, guard) \<and>
    wk_compile kit wallet bh ixs = Inr tx \<and> r = SignRequest (encodePhantomTransaction kit tx)"
  using assms unfolding authorizePending_def Let_def
  by (auto simp: set_fst_bindW not_less split: if_splits)

lemma submitHeld_request:
  assumes "r \<in> set (fst (submitHeld kit boundProgram answers held))"
  shows "(\<exists>a. environment_of kit boundProgram (sb_environment answers) = Inr a) \<and>
    (\<exists>height. sb_height answers = Inr height \<and> height \<le> ha_lastValidBlockHeight held) \<and>
    web_sha256Hex (wk_sha256 kit) (ha_signedBytes held) = ha_sha256 held \<and> r = SendRequest (encodeWire (ha_signedBytes held))"
  using assms unfolding submitHeld_def Let_def
  by (auto simp: set_fst_bindW not_less assertSameSignedBytes_def err_simps split: if_splits)

lemma authorizeUpdated_request:
  assumes "r \<in> set (fst (authorizeUpdated kit boundProgram firstAnswer latestAnswer answers wallet session))"
  shows "\<exists>s s' bh ixs guard tx.
    readChainSnapshot firstAnswer (se_mint session) = Inr s \<and> readChainSnapshot latestAnswer (se_mint session) = Inr s' \<and>
    activatedReviewDecision s (se_scenario session) (se_activation session) = Inr ready_activated \<and>
    activatedReviewDecision s' (se_scenario session) (se_activation session) = Inr ready_activated \<and>
    (\<exists>a. environment_of kit boundProgram (sa_environment answers) = Inr a) \<and> sa_blockhash answers = Inr bh \<and>
    session_build kit boundProgram wallet session s = Inr (ixs, guard) \<and>
    wk_compile kit wallet bh ixs = Inr tx \<and> r = SignAndSendRequest (encodePhantomTransaction kit tx)"
  using assms unfolding authorizeUpdated_def
  by (auto simp: set_fst_bindW updated_before_sign_def err_simps dest!: signAndSend_requests split: if_splits)

definition reviewed_environment :: "address option \<Rightarrow> environment_answers \<Rightarrow> bool" where
  "reviewed_environment boundProgram environment \<longleftrightarrow> boundProgram \<noteq> None \<and> fst environment = Inr PUBLIC_GENESIS_DEVNET"

lemma environment_reviewed: "environment_of kit boundProgram environment = Inr a \<Longrightarrow> reviewed_environment boundProgram environment"
  by (drule environment_Inr) (auto simp: reviewed_environment_def)

lemma length_if_bound: "(c \<Longrightarrow> length (fst x) \<le> n) \<Longrightarrow> (\<not> c \<Longrightarrow> length (fst y) \<le> n) \<Longrightarrow> length (fst (if c then x else y)) \<le> n"
  by simp

lemma length_case_bound: "(\<And>a b. length (fst (f a b)) \<le> n) \<Longrightarrow> length (fst (case p of (a, b) \<Rightarrow> f a b)) \<le> n"
  by (simp split: prod.split)

lemma length_pure_bound: "length (fst (pureW r)) \<le> n"
  by simp

lemmas request_bounds = pureW_bound await_bound length_if_bound length_case_bound length_pure_bound

text \<open>What must hold before each kind of request.\<close>

definition signing_open :: "address option \<Rightarrow> pending_answers \<Rightarrow> prepared_session \<Rightarrow> bool" where
  "signing_open boundProgram answers session \<longleftrightarrow> reviewed_environment boundProgram (pa_environment answers) \<and>
     (\<exists>s s' bh height. readChainSnapshot (pa_first answers) (se_mint session) = Inr s \<and>
        readChainSnapshot (pa_again answers) (se_mint session) = Inr s' \<and>
        authorizeDecision s (se_scenario session) (se_activation session) = Inr sign \<and>
        authorizeDecision s' (se_scenario session) (se_activation session) = Inr sign \<and>
        pa_blockhash answers = Inr bh \<and> pa_height answers = Inr height \<and> height \<le> bh_lastValidBlockHeight bh)"

definition update_ready :: "address option \<Rightarrow> accounts_answer \<Rightarrow> accounts_answer \<Rightarrow> send_answers \<Rightarrow> prepared_session \<Rightarrow> bool" where
  "update_ready boundProgram firstAnswer latestAnswer answers session \<longleftrightarrow> reviewed_environment boundProgram (sa_environment answers) \<and>
     (\<exists>s s'. readChainSnapshot firstAnswer (se_mint session) = Inr s \<and> readChainSnapshot latestAnswer (se_mint session) = Inr s' \<and>
        activatedReviewDecision s (se_scenario session) (se_activation session) = Inr ready_activated \<and>
        activatedReviewDecision s' (se_scenario session) (se_activation session) = Inr ready_activated)"

definition submission_open :: "web_kit \<Rightarrow> address option \<Rightarrow> submit_answers \<Rightarrow> held_authorization \<Rightarrow> bool" where
  "submission_open kit boundProgram answers held \<longleftrightarrow> reviewed_environment boundProgram (sb_environment answers) \<and>
     web_sha256Hex (wk_sha256 kit) (ha_signedBytes held) = ha_sha256 held \<and>
     (\<exists>height. sb_height answers = Inr height \<and> height \<le> ha_lastValidBlockHeight held)"


lemma run_bindW: "bindW m f = (q, Inr y) \<longleftrightarrow> (\<exists>q1 x q2. m = (q1, Inr x) \<and> f x = (q2, Inr y) \<and> q = q1 @ q2)"
  by (cases m; cases "snd m") (auto simp: bindW_def prod_eq_iff)

lemma signAndSend_Inr: "signAndSend kit boundProgram answers wallet ixs before = (q, Inr outcome) \<Longrightarrow> \<exists>r. q = [r]"
  by (auto simp: signAndSend_def Let_def run_eqs split: if_splits)

lemma check_session_mint_Inr:
  "check_session_mint answers scenario activation mint = Inr () \<Longrightarrow>
     \<exists>s. readChainSnapshot (up_snapshot answers) mint = Inr s \<and> scheduledBytesMatch s scenario activation = Inr True"
  by (auto simp: check_session_mint_def err_simps authorizeDecision_def Let_def split: if_splits)

text \<open>
  A prepared session is the attempt the page shows: its activation is 35 seconds after the clock that was read,
  the state read back from its mint carries that activation, a scheduled change and the scenario's two
  multipliers, starting at one, its accounts are the wallet's and the recipient's for the seeded mint, and the
  wallet was asked once.
\<close>

theorem prepared_session_exact:
  assumes "prepareLiveSession kit setup boundProgram answers wallet scenario = (requests, Inr session)"
  shows "\<exists>clock s.
    readChainClock (up_clock answers) = Inr clock \<and> 0 \<le> clock \<and> se_activation session = clock + 35 \<and> se_scenario session = scenario \<and>
    readChainSnapshot (up_snapshot answers) (se_mint session) = Inr s \<and>
    newMultiplierEffectiveTimestamp (gs_state s) = se_activation session \<and> hasScheduledChange (gs_state s) \<and>
    storedMultiplier (JNum 1) = Inr (multiplier (gs_state s)) \<and> storedMultiplier (sc_newMultiplier scenario) = Inr (newMultiplier (gs_state s)) \<and>
    length requests = 1 \<and> su_addressWithSeed setup wallet (''eg-'' @ hexOf (up_seedBytes answers)) = Inr (se_mint session) \<and>
    su_associatedToken setup wallet (se_mint session) = Inr (se_sourceAta session) \<and>
    su_associatedToken setup (up_recipient answers) (se_mint session) = Inr (se_destinationAta session)"
proof -
  obtain clock activation rent ixs q outcome where
    r: "readChainClock (up_clock answers) = Inr clock" "activationTimestamp clock ACTIVATION_DELAY_SECONDS = Inr activation"
      "su_addressWithSeed setup wallet (''eg-'' @ hexOf (up_seedBytes answers)) = Inr (se_mint session)"
      "su_associatedToken setup wallet (se_mint session) = Inr (se_sourceAta session)"
      "su_associatedToken setup (up_recipient answers) (se_mint session) = Inr (se_destinationAta session)"
    and p: "prepareSessionInstructions setup wallet (se_mint session) (''eg-'' @ hexOf (up_seedBytes answers)) rent (up_recipient answers)
        scenario activation clock = Inr ixs"
    and q: "signAndSend kit boundProgram (up_send answers) wallet ixs (Inr ()) = (requests, Inr outcome)"
    and c: "check_session_mint answers scenario activation (se_mint session) = Inr ()"
    and e: "se_scenario session = scenario" "se_activation session = activation"
    using assms unfolding prepareLiveSession_def Let_def by (auto simp: run_eqs run_bindW split: if_splits)
  obtain s where s: "readChainSnapshot (up_snapshot answers) (se_mint session) = Inr s" "scheduledBytesMatch s scenario activation = Inr True"
    using check_session_mint_Inr [OF c] by blast
  have "0 \<le> clock" "activation = clock + 35"
    using r(2) by (auto simp: activationTimestamp_def ACTIVATION_DELAY_SECONDS_def split: if_splits)
  moreover have "sc_initialMultiplier scenario = JNum 1"
    using p by (auto simp: prepareSessionInstructions_def DEMO_INITIAL_MULTIPLIER_def split: if_splits)
  moreover obtain one where "requests = [one]" using signAndSend_Inr [OF q] by blast
  ultimately show ?thesis
    using r s(1) e scheduledBytesMatch_True [OF s(2)] by (intro exI [of _ clock] exI [of _ s]) simp
qed

section \<open>Witnesses\<close>

definition clock_bytes :: "int \<Rightarrow> bytes" where
  "clock_bytes now = le_bytes 8 1 @ replicate 24 0 @ le_bytes_int 8 now"

definition chain_answer :: "int \<Rightarrow> accounts_answer" where
  "chain_answer now =
     Inr (1, [Some \<lparr>wa_owner = TOKEN_2022_PROGRAM_ADDRESS,
                    wa_data = JArray [JString (base64_encode (mint_account sample_base sample_extensions []))], wa_executable = False\<rparr>,
              Some \<lparr>wa_owner = ''Sysvar'', wa_data = JArray [JString (base64_encode (clock_bytes now))], wa_executable = False\<rparr>])"

lemma clock_bytes_decode:
  assumes "now \<in> {I64_MIN .. I64_MAX}"
  shows "web_decodeClock (clock_bytes now) = Inr \<lparr>slot = 1, unixTimestamp = now\<rparr>"
proof -
  have "bytes_at 0 8 (clock_bytes now) = le_bytes 8 1" "bytes_at 32 8 (clock_bytes now) = le_bytes_int 8 now"
    by (simp_all add: bytes_at_def clock_bytes_def)
  moreover have "le_int (le_bytes_int 8 now) = now" using assms by (intro le_int_le_bytes_int) (auto simp: I64_MIN_def I64_MAX_def)
  ultimately show ?thesis by (simp add: web_decodeClock_def le_nat_le_bytes) (simp add: clock_bytes_def)
qed

lemma chain_answer_reads:
  assumes "now \<in> {I64_MIN .. I64_MAX}"
  shows "readChainSnapshot (chain_answer now) ''mint'' = Inr (session_snapshot now)"
proof -
  obtain n where "readSessionMint TOKEN_2022_PROGRAM_ADDRESS (mint_account sample_base sample_extensions []) = Inr (sample_state, n)"
    using session_mint_of_decode [OF sample_mint_decodes] by blast
  then show ?thesis
    using clock_bytes_decode [OF assms]
    by (simp add: readChainSnapshot_def chain_answer_def answer_at_def js_index_def accountBytes_def web_atob_encode session_snapshot_def
        sample_state_def hasScheduledChange_iff one_f64_def two_f64_def)
qed

definition reviewed_digest :: "bytes \<Rightarrow> bytes" where
  "reviewed_digest _ = hex_bytes REVIEWED_ELF_SHA256"

definition session_instructions :: "instruction list" where
  "session_instructions =
     (case buildPublicGuardedTransfer sample_encoder reviewed_digest (Some ''guard'') ''owner'' ''mint''
        (expectationForSnapshot (session_snapshot 900)) sample_transfer of
        Inl _ \<Rightarrow> [] | Inr (ixs, _) \<Rightarrow> ixs)"

definition sample_wire_transaction :: web_transaction where
  "sample_wire_transaction = \<lparr>wt_messageBytes = [1], wt_signatures = [(''owner'', Some [7])]\<rparr>"

definition session_kit :: web_kit where
  "session_kit =
     \<lparr>wk_encodeAddress = sample_encoder, wk_decodeAddress = \<lambda>_. PROGRAM_DATA_ADDRESS, wk_sha256 = reviewed_digest,
      wk_base58 = \<lambda>_. ''b58'',
      wk_compile = \<lambda>payer blockhash ixs. if ixs = session_instructions then Inr sample_wire_transaction else Inl WebRangeError,
      wk_encodeTransaction = wt_messageBytes, wk_decodeTransaction = \<lambda>_. Inr sample_wire_transaction,
      wk_decodeMessage = \<lambda>_. Inr \<lparr>wm_legacy = True, wm_staticAccounts = [''owner''], wm_numSignerAccounts = 1, wm_lifetimeToken = ''bh''\<rparr>,
      wk_instructionsOf = \<lambda>_. Inr session_instructions,
      wk_transferChecked = \<lambda>source mint destination authority amount dec. sample_transfer\<rparr>"

definition sample_session :: prepared_session where
  "sample_session =
     \<lparr>se_scenario = sample_scenario, se_activation = 1000, se_mint = ''mint'', se_sourceAta = ''source'', se_destinationAta = ''dest'',
      se_setupSignature = ''sig'', se_balances = \<lparr>tb_source = 1000000, tb_destination = 0\<rparr>\<rparr>"

definition sample_pending_answers :: pending_answers where
  "sample_pending_answers =
     \<lparr>pa_environment = (Inr PUBLIC_GENESIS_DEVNET, \<lambda>_. sample_environment), pa_first = chain_answer 900,
      pa_blockhash = Inr \<lparr>bh_blockhash = ''bh'', bh_lastValidBlockHeight = 50\<rparr>, pa_height = Inr 50, pa_again = chain_answer 950,
      pa_wallet = \<lambda>_. Inr (WObject (Some (WObject None (Some (Returns (WBytes [9]))))) None), pa_afterSign = chain_answer 999\<rparr>"

lemma reviewed_digest_length: "length (hex_bytes REVIEWED_ELF_SHA256) = 32"
  by (simp add: REVIEWED_ELF_SHA256_def hex_value_def)

lemma session_build_ok: "\<exists>guard. session_build session_kit (Some ''guard'') ''owner'' sample_session (session_snapshot 900) =
    Inr (session_instructions, guard) \<and> session_instructions = [guard, sample_transfer]"
proof -
  let ?e = "expectationForSnapshot (session_snapshot 900)"
  have ok: "expectation_ok ?e"
    using sample_expectation_ok js_int_of_int [of 0]
    by (auto simp: expectation_ok_def expectation_of_matching sample_expectation_def CLOCK_CROSSING_WINDOW_def js_int_in_iff U32_MAX_def Pending_def
        simp del: js_int.simps)
  have guard: "\<exists>ix. web_guard_instruction sample_encoder program ''mint'' ?e c = Inr ix" if "length c = 32" for c program
    using getAssertSafeExecutionV2Instruction_total [OF ok that, of sample_encoder "''mint''" None program]
    by (simp add: web_guard_instruction_eq sample_encoder_def)
  obtain p where "web_guard_instruction sample_encoder ''guard'' ''mint'' ?e (replicate 32 0) = Inr p" using guard by fastforce
  moreover obtain g where "web_guard_instruction sample_encoder ''guard'' ''mint'' ?e (hex_bytes REVIEWED_ELF_SHA256) = Inr g"
    using guard [OF reviewed_digest_length] by blast
  ultimately have "buildPublicGuardedTransfer sample_encoder reviewed_digest (Some ''guard'') ''owner'' ''mint'' ?e sample_transfer =
      Inr ([g, sample_transfer], g)"
    by (simp add: buildPublicGuardedTransfer_def reviewedProgramId_def commitmentOf_def reviewed_digest_def) (simp add: sample_transfer_def)
  then show ?thesis
    by (simp add: session_build_def session_kit_def sample_session_def session_transfer_def session_instructions_def)
qed

lemma session_kit_keeps: "keeps_instructions session_kit"
  by (auto simp: keeps_instructions_def session_kit_def split: if_splits)

lemma sample_pending_run:
  "authorizePending session_kit (Some ''guard'') sample_pending_answers ''owner'' sample_session =
     ([SignRequest ''b58''], Inr \<lparr>ha_signedBytes = [9], ha_sha256 = REVIEWED_ELF_SHA256, ha_lastValidBlockHeight = 50, ha_signature = ''b58'',
        ha_guardInstructionIndex = 0, ha_expectation = expectationForSnapshot (session_snapshot 900)\<rparr>)"
proof -
  have reads: "readChainSnapshot (chain_answer n) ''mint'' = Inr (session_snapshot n)" if "n \<in> {900, 950, 999}" for n
    using that by (intro chain_answer_reads) (auto simp: I64_MIN_def I64_MAX_def)
  have signs: "authorizeDecision (session_snapshot n) sample_scenario 1000 = Inr sign" if "n \<in> {900, 950}" for n
    using that by (auto simp: authorizeDecision_def session_matches MIN_AUTHORIZATION_REMAINING_SECONDS_def)
  have holds: "pendingReturnDecision (session_snapshot 999) sample_scenario 1000 = Inr hold"
    by (simp add: pendingReturnDecision_def session_matches)
  obtain g where b: "session_build session_kit (Some ''guard'') ''owner'' sample_session (session_snapshot 900) = Inr (session_instructions, g)"
      "session_instructions = [g, sample_transfer]"
    using session_build_ok by blast
  have env: "environment_of session_kit (Some ''guard'') (Inr PUBLIC_GENESIS_DEVNET, \<lambda>_. sample_environment) = Inr None"
    using sample_environment_verifies by (simp add: environment_of_def session_kit_def reviewed_digest_def [abs_def])
  have verified: "verifyWalletSignedTransaction session_kit sample_wire_transaction [9] = Inr (''b58'', 0)"
    by (simp add: verifyWalletSignedTransaction_def verify_signed_instructions_def session_kit_def sample_wire_transaction_def
        Let_def indexed_all_iff list.rel_refl sameInstruction_iff)
  have compiled: "wk_compile session_kit ''owner'' bh session_instructions = Inr sample_wire_transaction"
      "encodePhantomTransaction session_kit sample_wire_transaction = ''b58''" for bh
    by (simp_all add: session_kit_def encodePhantomTransaction_def)
  have sealed: "seal session_kit [9] 50 ''b58'' 0 e = \<lparr>ha_signedBytes = [9], ha_sha256 = REVIEWED_ELF_SHA256, ha_lastValidBlockHeight = 50,
      ha_signature = ''b58'', ha_guardInstructionIndex = 0, ha_expectation = e\<rparr>" for e
    using hexOf_hex_bytes [OF _ lower_hex_reviewed]
    by (simp add: seal_def session_kit_def web_sha256Hex_def reviewed_digest_def) (simp add: REVIEWED_ELF_SHA256_def)
  have fields: "se_mint sample_session = ''mint''" "se_scenario sample_session = sample_scenario" "se_activation sample_session = 1000"
    by (simp_all add: sample_session_def)
  have wire: "phantomSignedTransaction (WObject (Some (WObject None (Some (Returns (WBytes [9]))))) None) = Inr [9]"
    by (simp add: phantomSignedTransaction_def ownedSignedBytes_def)
  show ?thesis
    by (simp add: authorizePending_def sample_pending_answers_def fields env reads signs holds b(1) compiled wire verified sealed Let_def)
qed


theorem held_authorization_window_witness:
  "guard_check (rs_execution_of (expectationForSnapshot (session_snapshot 900))) (rs_state_of sample_state) (word_of_int 1001) =
     Inl ActivationPhaseChanged"
proof -
  have t: "se_activation sample_session = 1000" by (simp add: sample_session_def)
  have b: "1001 \<in> {I64_MIN .. I64_MAX}" by (simp add: I64_MIN_def I64_MAX_def)
  have r: "readChainSnapshot (pa_afterSign sample_pending_answers) (se_mint sample_session) = Inr (session_snapshot 999)"
    using chain_answer_reads [of 999] by (simp add: sample_pending_answers_def sample_session_def I64_MIN_def I64_MAX_def)
  from held_authorization_window [OF sample_pending_run] b session_bounds(1,2) show ?thesis
    by (fastforce simp: t r)
qed

definition six_decimals :: bytes where
  "six_decimals = replicate 44 0 @ [6, 1] @ replicate 36 0"

lemma six_decimals_ok: "base_mint_ok six_decimals"
proof -
  have "bytes_at 0 4 six_decimals = replicate 4 0" "bytes_at 46 4 six_decimals = replicate 4 0"
    by (simp_all add: six_decimals_def bytes_at_def)
  moreover have "le_nat (replicate n 0) = 0" for n by (induction n) simp_all
  ultimately show ?thesis by (simp add: base_mint_ok_def six_decimals_def nth_append)
qed

lemma six_decimals_read:
  "readSessionMint TOKEN_2022_PROGRAM_ADDRESS (mint_account six_decimals sample_extensions []) = Inr (sample_state, 6)"
proof -
  have len: "length six_decimals = length sample_base" by (simp add: six_decimals_def sample_base_def)
  have short: "length (mint_account six_decimals sample_extensions []) \<noteq> 355"
    using sample_extensions_ok(3) len by (simp add: mint_account_def)
  have "decodeProtectedState TOKEN_2022_PROGRAM_ADDRESS (mint_account six_decimals sample_extensions []) = Inr sample_state"
    by (rule decode_mint_account [OF six_decimals_ok sample_extensions_ok(1,2) _ short sample_extensions_ok(4) _ sample_state_ok
          sample_extensions_ok(5)]) (simp_all add: tlv_end_def)
  moreover have "js_index (mint_account six_decimals sample_extensions []) 44 = Some 6"
    by (simp add: mint_account_def six_decimals_def js_index_def nth_append)
  ultimately show ?thesis using session_mint_of_decode by fastforce
qed

definition sample_setup :: setup_kit where
  "sample_setup =
     \<lparr>su_mintSize = \<lambda>_ _ _ _. 226, su_addressWithSeed = \<lambda>_ _. Inr ''mint'', su_associatedToken = \<lambda>owner _. Inr (owner @ ''-ata''),
      su_createAccount = \<lambda>_ _ _ _ _. sample_transfer, su_initializeScaledUi = \<lambda>_ _ _. sample_transfer,
      su_initializeMint = \<lambda>_ _ _. sample_transfer, su_updateMultiplier = \<lambda>_ _ _ _. sample_transfer,
      su_createAssociated = \<lambda>_ _ _. Inr sample_transfer, su_mintTo = \<lambda>_ _ _ _. sample_transfer\<rparr>"

definition sample_setup_answers :: setup_answers where
  "sample_setup_answers =
     \<lparr>up_environment = (Inr PUBLIC_GENESIS_DEVNET, \<lambda>_. sample_environment),
      up_clock = Inr (Some \<lparr>wa_owner = ''Sysvar'', wa_data = JArray [JString (base64_encode (clock_bytes 965))], wa_executable = False\<rparr>),
      up_seedBytes = [1], up_recipient = ''recipient'', up_rent = \<lambda>_. Inr 5,
      up_send = \<lparr>sa_environment = (Inr PUBLIC_GENESIS_DEVNET, \<lambda>_. sample_environment),
        sa_blockhash = Inr \<lparr>bh_blockhash = ''bh'', bh_lastValidBlockHeight = 50\<rparr>, sa_height = Inr 40, sa_wallet = \<lambda>_. Inr (Some ''sig''),
        sa_confirm = \<lparr>ca_status = \<lambda>_. Inr (Some ''confirmed''), ca_transaction = Inr (Some \<lparr>tx_slot = 9, tx_meta = None\<rparr>)\<rparr>\<rparr>,
      up_mintAccount = Inr (Some \<lparr>wa_owner = TOKEN_2022_PROGRAM_ADDRESS,
        wa_data = JArray [JString (base64_encode (mint_account six_decimals sample_extensions []))], wa_executable = False\<rparr>),
      up_snapshot = chain_answer 970, up_balances = (Inr 1000000, Inr 0)\<rparr>"

lemma sample_setup_run:
  "\<exists>requests session. prepareLiveSession (session_kit\<lparr>wk_compile := \<lambda>_ _ _. Inr sample_wire_transaction\<rparr>) sample_setup (Some ''guard'')
     sample_setup_answers ''owner'' sample_scenario = (requests, Inr session)"
proof -
  let ?kit = "session_kit\<lparr>wk_compile := \<lambda>_ _ _. Inr sample_wire_transaction\<rparr>"
  have env: "environment_of ?kit (Some ''guard'') (Inr PUBLIC_GENESIS_DEVNET, \<lambda>_. sample_environment) = Inr None"
    using sample_environment_verifies by (simp add: environment_of_def session_kit_def reviewed_digest_def [abs_def])
  have clock: "readChainClock (up_clock sample_setup_answers) = Inr 965"
    using clock_bytes_decode [of 965]
    by (simp add: sample_setup_answers_def readChainClock_def accountBytes_def web_atob_encode I64_MIN_def I64_MAX_def)
  have snapshot: "readChainSnapshot (chain_answer 970) ''mint'' = Inr (session_snapshot 970)"
    using chain_answer_reads [of 970] by (simp add: I64_MIN_def I64_MAX_def)
  have signs: "authorizeDecision (session_snapshot 970) sample_scenario 1000 = Inr sign"
    by (simp add: authorizeDecision_def session_matches MIN_AUTHORIZATION_REMAINING_SECONDS_def)
  have check: "check_session_mint sample_setup_answers sample_scenario 1000 ''mint'' = Inr ()"
    using six_decimals_read snapshot signs
    by (simp add: check_session_mint_def sample_setup_answers_def accountBytes_def web_atob_encode DEMO_MINT_DECIMALS_def) (simp add: sample_state_def)
  have start: "sc_initialMultiplier sample_scenario = JNum 1" by (simp add: sample_scenario_def SCENARIO_CATALOG_def)
  obtain ixs where ixs: "prepareSessionInstructions sample_setup ''owner'' ''mint'' (''eg-'' @ hexOf [1]) 5 ''recipient'' sample_scenario 1000 965 = Inr ixs"
    using start by (simp add: prepareSessionInstructions_def sample_setup_def DEMO_INITIAL_MULTIPLIER_def)
  have confirm: "confirmSignature (sa_confirm (up_send sample_setup_answers)) ''sig'' 0 =
      Inr \<lparr>oc_signature = ''sig'', oc_slot = 9, oc_error = JNull, oc_customError = None, oc_logs = [], oc_guardInstructionIndex = 0\<rparr>"
    by (simp add: confirmSignature_def sample_setup_answers_def err_of_meta_def parseCustomError_def numeral_eq_Suc)
  have send: "\<exists>q. signAndSend ?kit (Some ''guard'') (up_send sample_setup_answers) ''owner'' ixs (Inr ()) =
      (q, Inr \<lparr>oc_signature = ''sig'', oc_slot = 9, oc_error = JNull, oc_customError = None, oc_logs = [], oc_guardInstructionIndex = 0\<rparr>)"
    using confirm env by (simp add: signAndSend_def sample_setup_answers_def Let_def)
  then show ?thesis
    using env clock ixs check
    by (auto simp: prepareLiveSession_def sample_setup_answers_def sample_setup_def Let_def activationTimestamp_def ACTIVATION_DELAY_SECONDS_def
        readBalances_def pureW_def bindW_def)
qed

theorem prepared_session_exact_witness:
  "\<exists>s. readChainSnapshot (chain_answer 970) ''mint'' = Inr s \<and> hasScheduledChange (gs_state s) \<and> newMultiplierEffectiveTimestamp (gs_state s) = 1000"
proof -
  have "readChainClock (up_clock sample_setup_answers) = Inr 965"
    using clock_bytes_decode [of 965]
    by (simp add: sample_setup_answers_def readChainClock_def accountBytes_def web_atob_encode I64_MIN_def I64_MAX_def)
  moreover have "up_snapshot sample_setup_answers = chain_answer 970" "su_addressWithSeed sample_setup a b = Inr ''mint''" for a b
    by (simp_all add: sample_setup_answers_def sample_setup_def)
  moreover obtain requests session where run: "prepareLiveSession (session_kit\<lparr>wk_compile := \<lambda>_ _ _. Inr sample_wire_transaction\<rparr>) sample_setup
      (Some ''guard'') sample_setup_answers ''owner'' sample_scenario = (requests, Inr session)"
    using sample_setup_run by blast
  ultimately show ?thesis using prepared_session_exact [OF run] by auto
qed

end
