(* ===== verification/Live_Demo.thy ===== *)
theory Live_Demo
  imports EG_Prelude "HOL-Library.Sublist"
begin

text \<open>
  The local live demo of the web application (\<open>apps/web/lib/live-demo.ts\<close>): when it may be offered, the state
  machine of an attempt, the panels derived from a state and the checks a result passes before it is shown.
  A run is a sequence of the events the page feeds the machine, as a step relation. The ellipsis of the first
  stage message is written as three dots.
\<close>

section \<open>Gating\<close>

definition LOOPBACK_HOSTNAMES :: "string list" where
  "LOOPBACK_HOSTNAMES = [''localhost'', ''127.0.0.1'', ''[::1]'', ''::1'']"

text \<open>A host name, flag or protocol is a text or absent.\<close>

definition isLoopbackHostname :: "string option \<Rightarrow> bool" where
  "isLoopbackHostname hostname = (case hostname of None \<Rightarrow> False | Some h \<Rightarrow> h \<in> set LOOPBACK_HOSTNAMES)"

definition liveDemoFlagEnabled :: "string option \<Rightarrow> bool" where
  "liveDemoFlagEnabled flag = (flag = Some ''true'')"

definition liveDemoAvailable :: "string option \<Rightarrow> string option \<Rightarrow> string option \<Rightarrow> bool" where
  "liveDemoAvailable flag hostname protocol =
     (liveDemoFlagEnabled flag \<and> isLoopbackHostname hostname \<and> protocol = Some ''http:'')"

section \<open>Results and states\<close>

record canonical_amounts =
  usdcIn :: string
  koxOut :: string
  usdcInRaw :: string
  koxOutRaw :: string
  guardError :: string
  ca_environment :: string

definition CANONICAL :: canonical_amounts where
  "CANONICAL = \<lparr>usdcIn = ''5.00'', koxOut = ''0.05504261'', usdcInRaw = ''5000000'', koxOutRaw = ''5504261'',
     guardError = ''ActivationPhaseChanged'', ca_environment = ''LOCAL_EXECUTION_REPRODUCTION''\<rparr>"

datatype live_leg = STALE | REFRESHED

text \<open>What the two kinds of result share; their \<open>leg\<close> is the text a run reported.\<close>

record live_result =
  lr_leg :: string
  lr_environment :: string
  lr_walletPublicKey :: string
  lr_signature :: string
  lr_slot :: string
  lr_localT :: string
  lr_summary :: string
  lr_guard :: string
  lr_jupiterInvoked :: bool
  lr_whirlpoolInvoked :: bool
  lr_logs :: "string list"
  lr_proof :: js_value

record live_stale_result = live_result +
  guardErrorName :: string
  failedInstruction :: js_number
  usdcDelta :: string
  koxDelta :: string

record live_updated_result = live_result +
  usdcSpentRaw :: string
  koxReceivedRaw :: string
  usdcDisplay :: string
  koxDisplay :: string

record live_failure =
  lf_headline :: string
  lf_technical :: string
  lf_stage :: string
  lf_cancelled :: bool
  lf_walletRequested :: bool
  lf_submitted :: bool

datatype live_state =
    IDLE
  | RUNNING live_leg string "live_stale_result option"
  | STALE_VERIFIED live_stale_result
  | REVIEWING live_stale_result
  | COMPLETED live_stale_result live_updated_result
  | FAILED live_leg live_failure "live_stale_result option"

section \<open>The checks\<close>

definition when_problem :: "bool \<Rightarrow> string \<Rightarrow> string list" where
  "when_problem c problem = (if c then [problem] else [])"

definition stale_problems :: "live_stale_result \<Rightarrow> string list" where
  "stale_problems result =
     when_problem (lr_leg result \<noteq> ''STALE'') ''result is not the stale leg'' @
     when_problem (lr_environment result \<noteq> ca_environment CANONICAL) ''result is not a local proof execution'' @
     when_problem (failedInstruction result \<noteq> JNum 0 \<and> failedInstruction result \<noteq> JNegZero)
       ''StateGuard did not stop the transaction at ix0'' @
     when_problem (guardErrorName result \<noteq> guardError CANONICAL) (''guard error was not '' @ guardError CANONICAL) @
     when_problem (lr_jupiterInvoked result) ''Jupiter was invoked'' @
     when_problem (lr_whirlpoolInvoked result) ''Whirlpool was invoked'' @
     when_problem (usdcDelta result \<noteq> ''0'') ''USDC moved'' @
     when_problem (koxDelta result \<noteq> ''0'') ''KOx moved'' @
     when_problem (length (lr_signature result) = 0) ''no confirmed signature''"

definition updated_problems :: "live_updated_result \<Rightarrow> string list" where
  "updated_problems result =
     when_problem (lr_leg result \<noteq> ''REFRESHED'') ''result is not the updated leg'' @
     when_problem (lr_environment result \<noteq> ca_environment CANONICAL) ''result is not a local proof execution'' @
     when_problem (\<not> lr_jupiterInvoked result) ''Jupiter did not execute'' @
     when_problem (\<not> lr_whirlpoolInvoked result) ''Whirlpool did not execute'' @
     when_problem (usdcSpentRaw result \<noteq> usdcInRaw CANONICAL)
       (''USDC spent was '' @ usdcSpentRaw result @ '', not '' @ usdcInRaw CANONICAL) @
     when_problem (koxReceivedRaw result \<noteq> koxOutRaw CANONICAL)
       (''KOx received was '' @ koxReceivedRaw result @ '', not '' @ koxOutRaw CANONICAL) @
     when_problem (usdcDisplay result \<noteq> usdcIn CANONICAL) ''USDC display amount changed'' @
     when_problem (koxDisplay result \<noteq> koxOut CANONICAL) ''KOx display amount changed'' @
     when_problem (length (lr_signature result) = 0) ''no confirmed signature''"

text \<open>The exception carries the list of problems its message joins.\<close>

definition assertStaleInvariants :: "live_stale_result \<Rightarrow> string list + unit" where
  "assertStaleInvariants result = throw_if (length (stale_problems result) > 0) (stale_problems result)"

definition assertUpdatedInvariants :: "live_updated_result \<Rightarrow> string list + unit" where
  "assertUpdatedInvariants result = throw_if (length (updated_problems result) > 0) (updated_problems result)"

section \<open>Transitions\<close>

definition beginStale :: live_state where
  "beginStale = RUNNING STALE ''Connecting Phantom...'' None"

fun withStageMessage :: "live_state \<Rightarrow> string \<Rightarrow> live_state" where
  "withStageMessage (RUNNING leg _ stale) message = RUNNING leg message stale"
| "withStageMessage state message = state"

fun withStaleResult :: "live_state \<Rightarrow> live_stale_result \<Rightarrow> string list + live_state" where
  "withStaleResult (RUNNING STALE message stale) result =
     bindE (assertStaleInvariants result) (\<lambda>_. Inr (STALE_VERIFIED result))"
| "withStaleResult state result = Inr state"

fun withReview :: "live_state \<Rightarrow> live_state" where
  "withReview (STALE_VERIFIED stale) = REVIEWING stale"
| "withReview state = state"

fun beginUpdated :: "live_state \<Rightarrow> live_state" where
  "beginUpdated (REVIEWING stale) = RUNNING REFRESHED ''Connecting Phantom...'' (Some stale)"
| "beginUpdated state = state"

fun withUpdatedResult :: "live_state \<Rightarrow> live_updated_result \<Rightarrow> string list + live_state" where
  "withUpdatedResult (RUNNING REFRESHED message (Some stale)) result =
     bindE (assertUpdatedInvariants result) (\<lambda>_. Inr (COMPLETED stale result))"
| "withUpdatedResult state result = Inr state"

fun withFailure :: "live_state \<Rightarrow> live_leg \<Rightarrow> live_failure \<Rightarrow> live_state" where
  "withFailure (RUNNING _ _ stale) leg failure = FAILED leg failure stale"
| "withFailure (STALE_VERIFIED stale) leg failure = FAILED leg failure (Some stale)"
| "withFailure (REVIEWING stale) leg failure = FAILED leg failure (Some stale)"
| "withFailure (FAILED _ _ stale) leg failure = FAILED leg failure stale"
| "withFailure state leg failure = FAILED leg failure None"

section \<open>What the page renders\<close>

record live_panels =
  lp_busy :: bool
  lp_message :: "string option"
  lp_showBuy :: bool
  lp_showReviewCta :: bool
  lp_showUpdatedTerms :: bool
  lp_stale :: "live_stale_result option"
  lp_updated :: "live_updated_result option"
  lp_failure :: "live_failure option"
  lp_failedLeg :: "live_leg option"

fun staleOf :: "live_state \<Rightarrow> live_stale_result option" where
  "staleOf IDLE = None"
| "staleOf (RUNNING _ _ stale) = stale"
| "staleOf (STALE_VERIFIED stale) = Some stale"
| "staleOf (REVIEWING stale) = Some stale"
| "staleOf (COMPLETED stale _) = Some stale"
| "staleOf (FAILED _ _ stale) = stale"

definition livePanels :: "live_state \<Rightarrow> live_panels" where
  "livePanels state =
     \<lparr>lp_busy = (case state of RUNNING _ _ _ \<Rightarrow> True | _ \<Rightarrow> False),
      lp_message = (case state of RUNNING _ message _ \<Rightarrow> Some message | _ \<Rightarrow> None),
      lp_showBuy = (state = IDLE),
      lp_showReviewCta = (case state of STALE_VERIFIED _ \<Rightarrow> True | _ \<Rightarrow> False),
      lp_showUpdatedTerms = (case state of REVIEWING _ \<Rightarrow> True | _ \<Rightarrow> False),
      lp_stale = staleOf state,
      lp_updated = (case state of COMPLETED _ updated \<Rightarrow> Some updated | _ \<Rightarrow> None),
      lp_failure = (case state of FAILED _ failure _ \<Rightarrow> Some failure | _ \<Rightarrow> None),
      lp_failedLeg = (case state of FAILED leg _ _ \<Rightarrow> Some leg | _ \<Rightarrow> None)\<rparr>"

definition liveFailureOffersReplaySwitch :: "live_state \<Rightarrow> bool" where
  "liveFailureOffersReplaySwitch state = (case state of FAILED _ _ _ \<Rightarrow> True | _ \<Rightarrow> False)"

section \<open>Runs\<close>

datatype live_event =
    Begin_stale
  | Stage_message string
  | Stale_result live_stale_result
  | Review
  | Begin_updated
  | Updated_result live_updated_result
  | Failure live_leg live_failure
  | Reset

text \<open>A rejected result raises an exception and leaves the page's state as it was.\<close>

inductive live_step :: "live_state \<Rightarrow> live_event \<Rightarrow> live_state \<Rightarrow> bool" where
  begin_stale: "live_step s Begin_stale beginStale"
| stage: "live_step s (Stage_message msg) (withStageMessage s msg)"
| stale_ok: "withStaleResult s r = Inr s' \<Longrightarrow> live_step s (Stale_result r) s'"
| stale_rejected: "withStaleResult s r = Inl problems \<Longrightarrow> live_step s (Stale_result r) s"
| review: "live_step s Review (withReview s)"
| begin_updated: "live_step s Begin_updated (beginUpdated s)"
| updated_ok: "withUpdatedResult s r = Inr s' \<Longrightarrow> live_step s (Updated_result r) s'"
| updated_rejected: "withUpdatedResult s r = Inl problems \<Longrightarrow> live_step s (Updated_result r) s"
| failure: "live_step s (Failure leg f) (withFailure s leg f)"
| reset: "live_step s Reset IDLE"

code_pred live_step .

inductive_cases live_stepE: "live_step s e s'"

inductive live_run :: "live_event list \<Rightarrow> live_state \<Rightarrow> bool" where
  start: "live_run [] IDLE"
| step: "live_run es s \<Longrightarrow> live_step s e s' \<Longrightarrow> live_run (es @ [e]) s'"

section \<open>Facts\<close>

lemma when_problem_Nil [simp]: "when_problem c p = [] \<longleftrightarrow> \<not> c"
  by (simp add: when_problem_def)

lemma assert_eqs [simp]:
  "assertStaleInvariants r = Inr u \<longleftrightarrow> stale_problems r = []" "assertUpdatedInvariants w = Inr u \<longleftrightarrow> updated_problems w = []"
  by (simp_all add: assertStaleInvariants_def assertUpdatedInvariants_def throw_if_def)

text \<open>A result is taken by the running leg it belongs to, or leaves the state as it is.\<close>

lemma withStaleResult_cases:
  "withStaleResult s r = Inr s' \<Longrightarrow> (\<exists>m old. s = RUNNING STALE m old \<and> stale_problems r = [] \<and> s' = STALE_VERIFIED r) \<or> s' = s"
  by (cases "(s, r)" rule: withStaleResult.cases) (auto simp: err_simps)

lemma withUpdatedResult_cases:
  "withUpdatedResult s r = Inr s' \<Longrightarrow>
     (\<exists>m stale. s = RUNNING REFRESHED m (Some stale) \<and> updated_problems r = [] \<and> s' = COMPLETED stale r) \<or> s' = s"
  by (cases "(s, r)" rule: withUpdatedResult.cases) (auto simp: err_simps)

text \<open>Everything a state holds has been verified, and a second leg has its first.\<close>

definition live_ok :: "live_state \<Rightarrow> bool" where
  "live_ok s \<longleftrightarrow>
     (case staleOf s of None \<Rightarrow> True | Some r \<Rightarrow> stale_problems r = []) \<and>
     (case s of COMPLETED _ u \<Rightarrow> updated_problems u = [] | RUNNING leg _ stale \<Rightarrow> (leg = REFRESHED) = (stale \<noteq> None) | _ \<Rightarrow> True)"

lemma live_ok_transitions:
  assumes "live_ok s"
  shows "live_ok (withStageMessage s msg)" "live_ok (withReview s)" "live_ok (beginUpdated s)" "live_ok (withFailure s leg f)"
  using assms by (cases s; simp add: live_ok_def)+

lemma live_step_ok:
  assumes "live_step s e s'" and "live_ok s"
  shows "live_ok s'"
  using assms
proof (induction rule: live_step.induct)
  case (stale_ok s r s')
  from withStaleResult_cases [OF stale_ok(1)] stale_ok(2) show ?case by (auto simp: live_ok_def)
next
  case (updated_ok s r s')
  from withUpdatedResult_cases [OF updated_ok(1)] updated_ok(2) show ?case by (auto simp: live_ok_def)
qed (simp_all add: live_ok_transitions, simp_all add: live_ok_def beginStale_def)

lemma live_run_ok: "live_run es s \<Longrightarrow> live_ok s"
  by (induction rule: live_run.induct) (auto intro: live_step_ok, simp add: live_ok_def)

text \<open>The events a state cannot be reached without, in order.\<close>

fun needs :: "live_state \<Rightarrow> live_event list" where
  "needs IDLE = []"
| "needs (RUNNING leg _ None) = [Begin_stale]"
| "needs (RUNNING leg _ (Some stale)) = [Begin_stale, Stale_result stale, Review, Begin_updated]"
| "needs (STALE_VERIFIED stale) = [Begin_stale, Stale_result stale]"
| "needs (REVIEWING stale) = [Begin_stale, Stale_result stale, Review]"
| "needs (COMPLETED stale updated) = [Begin_stale, Stale_result stale, Review, Begin_updated, Updated_result updated]"
| "needs (FAILED _ _ None) = []"
| "needs (FAILED _ _ (Some stale)) = [Begin_stale, Stale_result stale]"

lemma needs_kept: "subseq (needs s) (needs s @ [e])"
  by (rule subseq_rev_drop_many) simp

lemma live_step_needs:
  assumes "live_step s e s'" and "live_ok s"
  shows "subseq (needs s') (needs s @ [e])"
  using assms
proof (induction rule: live_step.induct)
  case (begin_stale s)
  show ?case by (simp add: beginStale_def subseq_singleton_left)
next
  case (stage s msg)
  have "needs (withStageMessage s msg) = needs s" by (cases s rule: needs.cases) simp_all
  then show ?case by (simp add: needs_kept)
next
  case (stale_ok s r s')
  from withStaleResult_cases [OF stale_ok(1)] stale_ok(2) show ?case by (auto simp: live_ok_def needs_kept)
next
  case (review s)
  show ?case by (cases s rule: needs.cases) simp_all
next
  case (begin_updated s)
  show ?case by (cases s rule: needs.cases) simp_all
next
  case (updated_ok s r s')
  from withUpdatedResult_cases [OF updated_ok(1)] show ?case by (auto simp: needs_kept)
next
  case (failure s leg f)
  then show ?case by (cases s rule: needs.cases) (simp_all add: live_ok_def)
qed (simp_all add: needs_kept)

lemma live_run_needs: "live_run es s \<Longrightarrow> subseq (needs s) es"
proof (induction rule: live_run.induct)
  case (step es s e s')
  have "subseq (needs s @ [e]) (es @ [e])" using step.IH by simp
  then show ?case using live_step_needs [OF step.hyps(2) live_run_ok [OF step.hyps(1)]] by (rule subseq_order.order_trans [rotated])
qed simp

section \<open>Properties\<close>

text \<open>
  C32. What the page shows was verified. In every state a run can reach exactly one affordance is on screen, a shown
  stale result is the guard's refusal with no movement of tokens and a confirmed signature, a shown updated
  result executed the canonical amounts, and a failure is never shown beside a completed trade.
\<close>

theorem panels_show_only_verified:
  assumes "live_run es s"
  defines "p \<equiv> livePanels s"
  shows "length (filter id [lp_busy p, lp_showBuy p, lp_showReviewCta p, lp_showUpdatedTerms p, lp_updated p \<noteq> None, lp_failure p \<noteq> None]) = 1 \<and>
    (\<forall>r. lp_stale p = Some r \<longrightarrow> guardErrorName r = ''ActivationPhaseChanged'' \<and> usdcDelta r = ''0'' \<and> koxDelta r = ''0'' \<and>
       \<not> lr_jupiterInvoked r \<and> \<not> lr_whirlpoolInvoked r \<and> lr_signature r \<noteq> []) \<and>
    (\<forall>u. lp_updated p = Some u \<longrightarrow> usdcSpentRaw u = ''5000000'' \<and> koxReceivedRaw u = ''5504261'' \<and> lr_jupiterInvoked u \<and>
       lr_whirlpoolInvoked u \<and> lr_signature u \<noteq> [] \<and> lp_stale p \<noteq> None)"
proof -
  have ok: "live_ok s" by (rule live_run_ok [OF assms(1)])
  have one: "length (filter id [lp_busy p, lp_showBuy p, lp_showReviewCta p, lp_showUpdatedTerms p, lp_updated p \<noteq> None, lp_failure p \<noteq> None]) = 1"
    unfolding p_def by (cases s) (simp_all add: livePanels_def)
  have stale: "stale_problems r = []" if "lp_stale p = Some r" for r
    using ok that by (simp add: p_def livePanels_def live_ok_def)
  have updated: "updated_problems u = [] \<and> lp_stale p \<noteq> None" if "lp_updated p = Some u" for u
    using ok that by (cases s) (simp_all add: p_def livePanels_def live_ok_def)
  show ?thesis
    using one stale updated unfolding stale_problems_def updated_problems_def CANONICAL_def by (simp add: append_is_Nil_conv)
qed

text \<open>
  C33. A trade completes only after the whole attempt: whatever events the page sends, in whatever order, a run that
  ends completed contains, in this order, a buy, the verified refusal that is shown, the trader's review, the
  trader's confirmation and the verified result. And a failure stays one: no event but a new buy or a reset
  leaves a failed state.
\<close>

theorem completion_needs_review_and_confirmation:
  "(live_run es (COMPLETED stale updated) \<longrightarrow>
      subseq [Begin_stale, Stale_result stale, Review, Begin_updated, Updated_result updated] es) \<and>
   (live_step (FAILED leg f old) e s' \<and> e \<noteq> Begin_stale \<and> e \<noteq> Reset \<longrightarrow> liveFailureOffersReplaySwitch s')"
proof -
  have "subseq [Begin_stale, Stale_result stale, Review, Begin_updated, Updated_result updated] es"
    if "live_run es (COMPLETED stale updated)"
    using live_run_needs [OF that] by simp
  moreover have "liveFailureOffersReplaySwitch s'" if "live_step (FAILED leg f old) e s'" "e \<noteq> Begin_stale" "e \<noteq> Reset"
    using that by (auto elim!: live_stepE simp: liveFailureOffersReplaySwitch_def)
  ultimately show ?thesis by blast
qed

section \<open>Witnesses\<close>

definition sample_stale :: live_stale_result where
  "sample_stale =
     \<lparr>lr_leg = ''STALE'', lr_environment = ''LOCAL_EXECUTION_REPRODUCTION'', lr_walletPublicKey = ''w'', lr_signature = ''s1'', lr_slot = ''1'',
      lr_localT = ''t'', lr_summary = ''refused'', lr_guard = ''g'', lr_jupiterInvoked = False, lr_whirlpoolInvoked = False, lr_logs = [],
      lr_proof = JNull, guardErrorName = ''ActivationPhaseChanged'', failedInstruction = JNum 0, usdcDelta = ''0'', koxDelta = ''0''\<rparr>"

definition sample_updated :: live_updated_result where
  "sample_updated =
     \<lparr>lr_leg = ''REFRESHED'', lr_environment = ''LOCAL_EXECUTION_REPRODUCTION'', lr_walletPublicKey = ''w'', lr_signature = ''s2'', lr_slot = ''2'',
      lr_localT = ''t'', lr_summary = ''executed'', lr_guard = ''g'', lr_jupiterInvoked = True, lr_whirlpoolInvoked = True, lr_logs = [],
      lr_proof = JNull, usdcSpentRaw = ''5000000'', koxReceivedRaw = ''5504261'', usdcDisplay = ''5.00'', koxDisplay = ''0.05504261''\<rparr>"

lemma sample_results_verified: "stale_problems sample_stale = []" "updated_problems sample_updated = []"
  by (simp_all add: stale_problems_def updated_problems_def sample_stale_def sample_updated_def CANONICAL_def)

lemma sample_live_run:
  "live_run ([] @ [Begin_stale] @ [Stale_result sample_stale] @ [Review] @ [Begin_updated] @ [Updated_result sample_updated])
     (COMPLETED sample_stale sample_updated)"
proof -
  have 1: "live_run ([] @ [Begin_stale]) (RUNNING STALE ''Connecting Phantom...'' None)"
    using live_run.step [OF live_run.start live_step.begin_stale] by (simp add: beginStale_def)
  have 2: "live_run ([Begin_stale] @ [Stale_result sample_stale]) (STALE_VERIFIED sample_stale)"
    using live_run.step [OF 1 live_step.stale_ok] sample_results_verified by (simp add: assertStaleInvariants_def)
  have 3: "live_run ([Begin_stale, Stale_result sample_stale] @ [Review]) (REVIEWING sample_stale)"
    using live_run.step [OF 2 live_step.review] by simp
  have 4: "live_run ([Begin_stale, Stale_result sample_stale, Review] @ [Begin_updated])
      (RUNNING REFRESHED ''Connecting Phantom...'' (Some sample_stale))"
    using live_run.step [OF 3 live_step.begin_updated] by simp
  show ?thesis
    using live_run.step [OF 4 live_step.updated_ok] sample_results_verified by (simp add: assertUpdatedInvariants_def)
qed

theorem panels_show_only_verified_witness:
  "koxReceivedRaw sample_updated = ''5504261'' \<and> koxDelta sample_stale = ''0''"
  using panels_show_only_verified [OF sample_live_run] by (simp add: livePanels_def)

theorem completion_needs_review_and_confirmation_witness:
  "\<exists>es. live_run es (COMPLETED sample_stale sample_updated) \<and>
     subseq [Begin_stale, Stale_result sample_stale, Review, Begin_updated, Updated_result sample_updated] es"
  using completion_needs_review_and_confirmation sample_live_run by blast

end
