(* ===== verification/Spec2Isabelle.thy ===== *)
theory Spec2Isabelle
  imports Protect Demo_Result Kox_Correlation Devnet_Session Live_Demo
begin

text \<open>
  EquityGuard: a guard for trades of tokenized equities on Solana.

  A tokenized share is a Token-2022 mint whose scaled-UI multiplier turns raw token amounts into shares.
  The issuer can schedule a new multiplier; around its activation, or while the mint is paused, a quote
  obtained earlier may be for something else than what executes. EquityGuard reads the mint, decides
  whether a trade is safe, and puts an instruction in front of the trade that makes an on-chain program
  check, in the same transaction, that the mint is still in the state the trade was priced on and that the
  instructions following it are the ones that were committed to. A second package decides between two
  issuers' representations of the same share, asks for consent to a reroute and pins what may execute.

  \<^bold>\<open>Parts and how they interact.\<close> The guard client (\<open>packages/guard-client\<close>) decodes mint accounts, takes
  snapshots, encodes the guard instruction and mirrors the program's verdict offline. The program
  (\<open>programs/equity_guard\<close>, Rust) decodes that instruction and evaluates the policy. The Jupiter package
  (\<open>packages/jupiter\<close>) obtains a build from the aggregator, composes it with a guard into one transaction
  and re-verifies the compiled bytes. The representation-state package (\<open>packages/representation-state\<close>)
  resolves the state of each representation from chain and issuer evidence, compares quotes in share
  terms, decides, records consent, checks execution eligibility and hands out single-use execution plans;
  its capture side decodes recorded observations of the chain and of the issuer's API, builds a timeline from
  them and correlates the two sources. The web application's public Devnet page carries copies of the
  guard's rules and drives a wallet through one attempt: prepare a mint with a scheduled change, sign while
  it is pending, hold the signed bytes past the activation, submit them and show the program's refusal.

  \<^bold>\<open>Theories of the guard client and the program.\<close>
  \<^item> \<open>EG_Prelude\<close>, \<open>Js_Text\<close>: bytes and little-endian readings, buffers, results (\<open>Inl\<close> the exception),
    JavaScript values, numbers and texts, and the lemma collections the components share.
  \<^item> \<open>Guard_Abi\<close>: \<open>errors.ts\<close>, \<open>abi.ts\<close>. \<open>Guard_Program\<close>: the Rust \<open>instruction.rs\<close>, \<open>state.rs\<close>, \<open>guard.rs\<close>
    on machine words. \<open>Guard_Policy\<close>: \<open>offline-check.ts\<close> and what connects the three: the encoder's success
    set, the payload round trip, the equality of both verdicts, and that one authorization never spans an
    activation.
  \<^item> \<open>Mint_State\<close>: \<open>mint-state.ts\<close>, with reads outside the buffer as errors; the TLV walk is exact against a
    serializer. \<open>Snapshot\<close>: \<open>snapshot.ts\<close>, \<open>instruction.ts\<close>.
  \<^item> \<open>Framing\<close>: the locale of self-delimiting encodings. \<open>Downstream\<close>: \<open>downstream.ts\<close> and \<open>downstream.rs\<close>.
    \<open>Guard_Jupiter\<close>, \<open>Jupiter_Mirror\<close>, \<open>Jupiter_Builder\<close>: \<open>jupiter.ts\<close> and \<open>jupiter.rs\<close>. The lemmas show that the
    client's verdict on a suffix is the program's, that what the builders return is accepted, and that
    what is accepted is what was committed, up to a hash collision.
  \<^item> \<open>Deployment\<close>: \<open>deployment.ts\<close>, \<open>program-id.ts\<close>. \<open>Protection_Adapter\<close>: \<open>protection-adapter.ts\<close>.

  \<^bold>\<open>Theories of the Jupiter package.\<close> \<open>Jupiter_Build\<close>: \<open>build-client.ts\<close>, response validation. \<open>Jupiter_Compose\<close>:
  \<open>compose.ts\<close>, the supported build, the normalized suffix, compilation and final comparison. \<open>Protect\<close>:
  \<open>protect.ts\<close>, the entry points: a protected result is guarded on a state the mirror accepts, an ordinary
  verdict is positive, a quoted state is never rebound, a verified transaction is unchanged.

  \<^bold>\<open>Theories of the representation-state package.\<close>
  \<^item> \<open>Rep_Types\<close>: \<open>types.ts\<close>. \<open>Normalize\<close>: \<open>normalize.ts\<close>, exact rational arithmetic. \<open>Canonical_Key\<close>,
    \<open>Quote_Identity\<close>: \<open>quote-identity.ts\<close>, \<open>economic-state.ts\<close>; keys separate values. \<open>Compare\<close>: \<open>compare.ts\<close>.
  \<^item> \<open>Chain_State\<close>: \<open>registry.ts\<close>, \<open>chain-observation.ts\<close>, \<open>xstocks-adapter.ts\<close>, \<open>ondo-adapter.ts\<close>. A state
    is SAFE exactly when the guard's offline check accepts it; conflicts are never collapsed.
  \<^item> \<open>Sha256\<close>: \<open>sha256.ts\<close>, refined to the function of FIPS 180-4 on 32-bit words.
  \<^item> \<open>Decision\<close>: \<open>decision.ts\<close>. \<open>Consent\<close>: \<open>consent.ts\<close>. \<open>Execution\<close>: \<open>execution.ts\<close>. \<open>Plan_Downstream\<close>,
    \<open>Execution_Plan\<close>: \<open>execution-plan.ts\<close>. \<open>Single_Use\<close>: the locales of a store of capabilities that are
    used at most once, interpreted for consents and for plans. \<open>Demo_Result\<close>: \<open>demo-result.ts\<close>.
  \<^item> \<open>Capture\<close>: \<open>capture.ts\<close>. \<open>Observation_Events\<close>: \<open>events.ts\<close>. \<open>Timeline\<close>: \<open>timeline.ts\<close>.
    \<open>F64\<close>: the eight bytes of a double, and their round trip. \<open>XStocks_Api\<close>: \<open>xstocks-api.ts\<close>, the issuer's API
    lines and their detector. \<open>Kox_Correlation\<close>: \<open>kox-correlation.ts\<close>, the report that relates API and chain.

  \<^bold>\<open>Theories of the web application.\<close> All of \<open>apps/web/lib/devnet-public.ts\<close> but its display texts.
  \<^item> \<open>Devnet_Policy\<close>: the copies of the guard's rules, the scenarios, the decisions to sign, hold, submit and
    update, and the acceptance of outcomes. The chain's clock decides them all.
  \<^item> \<open>Devnet_Codec\<close>: the page's encoder, mint reader, commitment and guarded transfer, shown equal to the guard
    client's, and its check of the deployed program.
  \<^item> \<open>Devnet_Session\<close>: preparing, authorizing, checking what the wallet returned, holding, submitting and
    updating. A run is the list of requests made and a result; the lemmas show which bytes are held and sent,
    and that nothing is requested before its checks have passed.
  \<^item> \<open>Live_Demo\<close>: \<open>apps/web/lib/live-demo.ts\<close>, the state machine of the local demo as a step relation; its
    lemmas are invariants of every run.

  \<^bold>\<open>State.\<close> Frozen objects whose identity a \<open>WeakSet\<close> remembers (consents, plans) carry an object id handed
  out by the store, so that set membership is membership of the record and a copy is a different record.
  Operations that throw after changing a store return the store beside their result. Detectors and the
  timeline builder are state passing over maps by mint or symbol.

  \<^bold>\<open>Numbers.\<close> The client's bigints are \<open>int\<close> with the truncating division of the language, range checks as
  in the code; the program's integers are words, so that wrap-around and sign are those of Rust. SHA-256
  uses 32-bit words. JavaScript numbers appear where the code tests them (safe integers, finiteness).

  \<^bold>\<open>Loops.\<close> Recursions that are not structural have termination proofs with a measure (the TLV walk by the
  bytes left, the gcd by its argument, the canonical key by the value's size). The integer root loops are
  partial functions into \<open>option\<close>, proved to return for every argument. Nothing uses fuel.

  \<^bold>\<open>Parameters.\<close> Code outside the repository is an argument of the definitions that use it: the address
  codec, program-derived addresses, the message compiler, wire decoder and base64 codec of
  \<open>@solana/kit\<close>, the SPL instruction parser, SHA-256 of the platform (for the guard client), RPC reads (one argument for
  each read, since two may differ), the wallet's answers, \<open>fetch\<close>, \<open>JSON.parse\<close>, \<open>Date.parse\<close>, \<open>toISOString\<close>, the
  decimal text of a number and random nonces. What a theorem needs of them is a named hypothesis
  of it, and its witness instantiates them. Collision resistance is never assumed: statements name the
  collision instead.

  \<^bold>\<open>Not modelled.\<close> The applications but the two modules above (\<open>apps\<close>: React pages, wallet harnesses and
  local servers around the same packages) and scripts (\<open>scripts\<close>: command-line drivers over files and the
  network); tests and re-exporting index files; the program's account and sysvar access (\<open>processor.rs\<close>,
  \<open>sysvar.rs\<close>); texts that are only displayed, apart from those a digest covers; JSON renderings of captures
  and timelines.
\<close>

end
